(* ===== verification/LinPrelude.thy ===== *)
theory LinPrelude
  imports Main "HOL-Library.Word" "HOL-Library.Char_ord"
begin

text \<open>
  Prelude of the development: the C string routines the sources call (\<open>strcasecmp\<close>,
  \<open>strchr\<close>, \<open>sscanf\<close>, \<open>atoi\<close>, \<open>printf\<close> of integers) as functions on
  \<^typ>\<open>string\<close>, a few list updates that stand for writes through a pointer into a list,
  and the lemma collections shared by the components.

  Conventions.  A C string is the character list before its terminating NUL, so a
  \<^typ>\<open>string\<close> of the model has no \<open>CHR 0x00\<close>; a pointer that may be NULL is an
  \<^typ>\<open>string option\<close>.  The C locale is assumed for \<open>isspace\<close>, \<open>isdigit\<close> and
  \<open>tolower\<close>.  A result that C leaves undefined (an \<open>int\<close> conversion out of range)
  is \<^const>\<open>None\<close>.
\<close>

named_theorems cstr_simps \<open>evaluation of the C string routines\<close>
named_theorems upd_simps \<open>writes through a pointer into a list\<close>

section \<open>Searching a list\<close>

text \<open>The position, counted from \<open>i\<close>, of the first element with a property: a pointer into a list.\<close>

fun first_index :: "('a \<Rightarrow> bool) \<Rightarrow> nat \<Rightarrow> 'a list \<Rightarrow> nat option" where
  "first_index p i [] = None"
| "first_index p i (x # xs) = (if p x then Some i else first_index p (Suc i) xs)"

lemma first_index_SomeD: "first_index p i xs = Some k \<Longrightarrow> i \<le> k \<and> k < i + length xs \<and> p (xs ! (k - i))"
proof (induction p i xs rule: first_index.induct)
  case (2 p i x xs)
  then show ?case by (auto split: if_splits simp: nth_Cons' Suc_diff_Suc)
qed simp

lemma first_index_NoneD: "first_index p i xs = None \<Longrightarrow> \<forall>x \<in> set xs. \<not> p x"
  by (induction p i xs rule: first_index.induct) (auto split: if_splits)

lemma first_index_None: "\<forall>x \<in> set xs. \<not> p x \<Longrightarrow> first_index p i xs = None"
  by (induction p i xs rule: first_index.induct) auto

lemma first_index_first: "first_index p i xs = Some k \<Longrightarrow> j < k - i \<Longrightarrow> \<not> p (xs ! j)"
proof (induction p i xs arbitrary: j rule: first_index.induct)
  case (2 p i x xs)
  show ?case
  proof (cases "p x")
    case False
    with 2 show ?thesis by (cases j) auto
  qed (use 2 in auto)
qed simp

lemma first_index_cong: "map p xs = map p ys \<Longrightarrow> first_index p i xs = first_index p i ys"
proof (induction p i xs arbitrary: ys rule: first_index.induct)
  case (1 p i)
  then show ?case by simp
next
  case (2 p i x xs)
  then show ?case by (cases ys) auto
qed

section \<open>Characters\<close>

definition is_space :: "char \<Rightarrow> bool" where
  "is_space c \<longleftrightarrow> c \<in> {CHR '' '', CHR 0x09, CHR 0x0A, CHR 0x0B, CHR 0x0C, CHR 0x0D}"

definition is_digit :: "char \<Rightarrow> bool" where
  "is_digit c \<longleftrightarrow> CHR ''0'' \<le> c \<and> c \<le> CHR ''9''"

definition to_lower :: "char \<Rightarrow> char" where
  "to_lower c = (let n = of_char c :: nat in if 65 \<le> n \<and> n \<le> 90 then char_of (n + 32) else c)"

section \<open>Comparison and search\<close>

text \<open>\<open>strcasecmp(a,b)==0\<close>; the second version takes pointers, and NULL equals nothing
  (passing NULL is undefined in C).\<close>

definition strcaseeq :: "string \<Rightarrow> string \<Rightarrow> bool" where
  "strcaseeq a b \<longleftrightarrow> map to_lower a = map to_lower b"

definition strcaseeq0 :: "string option \<Rightarrow> string option \<Rightarrow> bool" where
  "strcaseeq0 a b = (case (a, b) of (Some x, Some y) \<Rightarrow> strcaseeq x y | _ \<Rightarrow> False)"

text \<open>\<open>strncpy\<close> into a buffer of \<open>n\<close> bytes: at most \<open>n\<close> characters survive.\<close>

definition strncpy :: "nat \<Rightarrow> string \<Rightarrow> string" where
  "strncpy n s = take n s"

text \<open>\<open>strchr(s,c)\<close>: the text before the first \<open>c\<close> and the text after it.\<close>

definition strchr :: "string \<Rightarrow> char \<Rightarrow> (string \<times> string) option" where
  "strchr s c = (if c \<in> set s
     then Some (takeWhile (\<lambda>d. d \<noteq> c) s, tl (dropWhile (\<lambda>d. d \<noteq> c) s)) else None)"

text \<open>The C string that starts at the first cell of a memory block.\<close>

definition cstr :: "char list \<Rightarrow> string" where
  "cstr m = takeWhile (\<lambda>c. c \<noteq> CHR 0x00) m"

text \<open>\<open>strstr(s,p)==s\<close>.\<close>

fun starts_with :: "string \<Rightarrow> string \<Rightarrow> bool" where
  "starts_with s [] = True"
| "starts_with [] (p # ps) = False"
| "starts_with (c # s) (p # ps) = (c = p \<and> starts_with s ps)"

text \<open>\<open>strstr(s,p) != NULL\<close>.\<close>

fun has_substring :: "string \<Rightarrow> string \<Rightarrow> bool" where
  "has_substring [] p = (p = [])"
| "has_substring (c # s) p = (starts_with (c # s) p \<or> has_substring s p)"

lemma strchr_append [cstr_simps]:
  "c \<notin> set a \<Longrightarrow> strchr (a @ c # b) c = Some (a, b)"
  by (simp add: strchr_def dropWhile_append takeWhile_append)

lemma strchr_None [cstr_simps]: "c \<notin> set s \<Longrightarrow> strchr s c = None"
  by (simp add: strchr_def)

lemma strchr_SomeD: "strchr s c = Some (a, b) \<Longrightarrow> s = a @ c # b \<and> c \<notin> set a"
proof -
  assume h: "strchr s c = Some (a, b)"
  then have "c \<in> set s" by (simp add: strchr_def split: if_splits)
  then obtain u v where s: "s = u @ c # v" and "c \<notin> set u"
    by (meson split_list_first)
  then show ?thesis using h by (simp add: strchr_append)
qed

lemma starts_with_iff: "starts_with s p \<longleftrightarrow> (\<exists>r. s = p @ r)"
  by (induction s p rule: starts_with.induct) auto

lemma starts_with_append [simp]: "starts_with (p @ r) p"
  by (auto simp: starts_with_iff)

lemma strcaseeq_refl [simp]: "strcaseeq a a"
  by (simp add: strcaseeq_def)

lemma strcaseeq_sym: "strcaseeq a b \<Longrightarrow> strcaseeq b a"
  by (simp add: strcaseeq_def)

lemma strcaseeq_trans: "strcaseeq a b \<Longrightarrow> strcaseeq b c \<Longrightarrow> strcaseeq a c"
  by (simp add: strcaseeq_def)

lemma strcaseeq0_refl [simp]: "strcaseeq0 a a \<longleftrightarrow> a \<noteq> None"
  by (cases a) (auto simp: strcaseeq0_def)

lemma strcaseeq0_None [simp]: "\<not> strcaseeq0 a None" "\<not> strcaseeq0 None b"
  by (auto simp: strcaseeq0_def split: option.splits)

lemma strcaseeq0_Some [simp]: "strcaseeq0 (Some a) (Some b) = strcaseeq a b"
  by (simp add: strcaseeq0_def)

lemma strcaseeq0_sym: "strcaseeq0 a b \<Longrightarrow> strcaseeq0 b a"
  by (auto simp: strcaseeq0_def intro: strcaseeq_sym split: option.splits)

lemma strcaseeq0_trans: "strcaseeq0 a b \<Longrightarrow> strcaseeq0 b c \<Longrightarrow> strcaseeq0 a c"
  by (auto simp: strcaseeq0_def intro: strcaseeq_trans split: option.splits)

section \<open>Scanning words and printing integers\<close>

text \<open>\<open>sscanf(s,"%s",w)\<close>: skip white space, take the longest run of other characters;
  \<^const>\<open>None\<close> when there is none.  The pair holds the word and the text after it.\<close>

definition scan_word :: "string \<Rightarrow> (string \<times> string) option" where
  "scan_word s = (let t = dropWhile is_space s in
     if t = [] then None
     else Some (takeWhile (\<lambda>c. \<not> is_space c) t, dropWhile (\<lambda>c. \<not> is_space c) t))"

lemma scan_word_SomeD:
  "scan_word s = Some (w, r) \<Longrightarrow> w \<noteq> [] \<and> (\<forall>c \<in> set w. \<not> is_space c) \<and> length w + length r \<le> length s"
proof -
  assume h: "scan_word s = Some (w, r)"
  define t where "t = dropWhile is_space s"
  from h have t: "t \<noteq> []" and w: "w = takeWhile (\<lambda>c. \<not> is_space c) t"
    and r: "r = dropWhile (\<lambda>c. \<not> is_space c) t"
    by (auto simp: scan_word_def t_def Let_def split: if_splits)
  from t have "\<not> is_space (hd t)" unfolding t_def by (rule hd_dropWhile)
  with t w have "w \<noteq> []" by (cases t) auto
  moreover have "length w + length r = length t"
    unfolding w r by (metis length_append takeWhile_dropWhile_id)
  moreover have "length t \<le> length s" by (simp add: t_def length_dropWhile_le)
  moreover have "\<forall>c \<in> set w. \<not> is_space c"
    unfolding w by (metis (mono_tags, lifting) set_takeWhileD)
  ultimately show ?thesis by simp
qed

lemma scan_word_plain [cstr_simps]:
  assumes "w \<noteq> []" and "\<forall>c \<in> set w. \<not> is_space c"
  shows "scan_word w = Some (w, [])"
proof -
  from assms have "dropWhile is_space w = w"
    by (cases w) auto
  with assms show ?thesis by (simp add: scan_word_def Let_def)
qed

lemma scan_word_space [cstr_simps]:
  assumes "w \<noteq> []" and "\<forall>c \<in> set w. \<not> is_space c" and "is_space b"
  shows "scan_word (w @ b # r) = Some (w, b # r)"
proof -
  from assms have "dropWhile is_space (w @ b # r) = w @ b # r"
    by (cases w) auto
  with assms show ?thesis
    by (simp add: scan_word_def Let_def takeWhile_append dropWhile_append)
qed

text \<open>The end of a line in a buffer: the text before the first carriage return, or, when
  there is none, before the first newline.\<close>

definition cut_eol :: "string \<Rightarrow> string" where
  "cut_eol s = (case strchr s (CHR 0x0D) of Some (a, _) \<Rightarrow> a
     | None \<Rightarrow> (case strchr s (CHR 0x0A) of Some (a, _) \<Rightarrow> a | None \<Rightarrow> s))"

definition strip_trailing :: "(char \<Rightarrow> bool) \<Rightarrow> string \<Rightarrow> string" where
  "strip_trailing p s = rev (dropWhile p (rev s))"

lemma strip_trailing_id [cstr_simps]: "s \<noteq> [] \<Longrightarrow> \<not> p (last s) \<Longrightarrow> strip_trailing p s = s"
  by (cases s rule: rev_cases) (auto simp: strip_trailing_def)

lemma strip_trailing_last: "strip_trailing p s \<noteq> [] \<Longrightarrow> \<not> p (last (strip_trailing p s))"
  unfolding strip_trailing_def
  by (metis hd_dropWhile last_rev rev_is_Nil_conv)

lemma strip_trailing_length: "length (strip_trailing p s) \<le> length s"
  by (simp add: strip_trailing_def) (metis length_dropWhile_le length_rev)

lemma cut_eol_newline [cstr_simps]:
  "CHR 0x0D \<notin> set v \<Longrightarrow> CHR 0x0A \<notin> set v \<Longrightarrow> cut_eol (v @ [CHR 0x0A]) = v"
  by (simp add: cut_eol_def cstr_simps)


section \<open>Integers as text\<close>

text \<open>\<open>printf\<close> of a number in base 10 or 16 (lower-case digits) and the digit runs that
  \<open>sscanf\<close> and \<open>atoi\<close> read back.\<close>

definition digit_char :: "nat \<Rightarrow> char" where
  "digit_char d = (if d < 10 then char_of (48 + d) else char_of (87 + d))"

definition digit_of :: "nat \<Rightarrow> char \<Rightarrow> nat option" where
  "digit_of b c = (let n = of_char c :: nat;
     d = (if 48 \<le> n \<and> n \<le> 57 then n - 48
          else if 97 \<le> n \<and> n \<le> 102 then n - 87
          else if 65 \<le> n \<and> n \<le> 70 then n - 55 else 99)
     in if d < b then Some d else None)"

fun show_base :: "nat \<Rightarrow> nat \<Rightarrow> string" where
  "show_base b n = (if b < 2 \<or> n < b then [digit_char n]
     else show_base b (n div b) @ [digit_char (n mod b)])"

declare show_base.simps [simp del]

definition show_int :: "int \<Rightarrow> string" where
  "show_int i = (if i < 0 then CHR ''-'' # show_base 10 (nat (- i)) else show_base 10 (nat i))"

fun read_digits :: "nat \<Rightarrow> nat \<Rightarrow> string \<Rightarrow> nat \<times> string" where
  "read_digits b acc [] = (acc, [])"
| "read_digits b acc (c # s) =
     (case digit_of b c of None \<Rightarrow> (acc, c # s) | Some d \<Rightarrow> read_digits b (acc * b + d) s)"

definition read_sign :: "string \<Rightarrow> int \<times> string" where
  "read_sign s = (case s of [] \<Rightarrow> (1, [])
     | c # r \<Rightarrow> if c = CHR ''-'' then (-1, r) else if c = CHR ''+'' then (1, r) else (1, s))"

text \<open>The value read by \<open>strtol\<close> in a given base after white space and a sign; no digit
  reads as 0.\<close>

definition strto :: "nat \<Rightarrow> string \<Rightarrow> int" where
  "strto b s = (let (sg, r) = read_sign (dropWhile is_space s) in sg * int (fst (read_digits b 0 r)))"

text \<open>The base that \<open>%i\<close> detects and the text its digits start in.\<close>

definition scan_base :: "string \<Rightarrow> nat \<times> string" where
  "scan_base r = (case r of
       CHR ''0'' # x # t \<Rightarrow> if x = CHR ''x'' \<or> x = CHR ''X'' then (16, t) else (8, r)
     | CHR ''0'' # [] \<Rightarrow> (8, r)
     | _ \<Rightarrow> (10, r))"

definition as_int :: "nat \<Rightarrow> int \<Rightarrow> int option" where
  "as_int w v = (if - (2 ^ (w - 1)) \<le> v \<and> v < 2 ^ (w - 1) then Some v else None)"

definition atoi :: "string \<Rightarrow> int option" where
  "atoi s = as_int 32 (strto 10 s)"

definition atoll :: "string \<Rightarrow> int option" where
  "atoll s = as_int 64 (strto 10 s)"

text \<open>\<open>sscanf(s,"%i",&r)\<close> and \<open>sscanf(s,"%x",&r)\<close> with \<open>r\<close> initially 0.\<close>

definition sscanf_i :: "string \<Rightarrow> int option" where
  "sscanf_i s = (let (sg, r) = read_sign (dropWhile is_space s); (b, t) = scan_base r
     in as_int 32 (sg * int (fst (read_digits b 0 t))))"

definition sscanf_x :: "string \<Rightarrow> int option" where
  "sscanf_x s = (let (sg, r) = read_sign (dropWhile is_space s);
       t = (if starts_with r ''0x'' \<or> starts_with r ''0X'' then drop 2 r else r);
       v = sg * int (fst (read_digits 16 0 t))
     in if - (2 ^ 31) \<le> v \<and> v < 2 ^ 32 then Some (sint (word_of_int v :: 32 word)) else None)"

lemma digit_of_char [cstr_simps]: "d < b \<Longrightarrow> b \<le> 16 \<Longrightarrow> digit_of b (digit_char d) = Some d"
  by (auto simp: digit_of_def digit_char_def Let_def)

lemma read_digits_app:
  "(\<forall>c \<in> set xs. digit_of b c \<noteq> None) \<Longrightarrow>
   read_digits b acc (xs @ ys) = read_digits b (fst (read_digits b acc xs)) ys"
  by (induction xs arbitrary: acc) (auto split: option.splits)

lemma show_base_digits:
  "2 \<le> b \<Longrightarrow> b \<le> 16 \<Longrightarrow> c \<in> set (show_base b n) \<Longrightarrow> \<exists>d<b. c = digit_char d"
proof (induction b n rule: show_base.induct)
  case (1 b n)
  show ?case
  proof (cases "n < b")
    case True
    with 1 show ?thesis by (auto simp: show_base.simps [of b n])
  next
    case False
    with 1 have "c \<in> set (show_base b (n div b)) \<or> c = digit_char (n mod b)"
      by (auto simp: show_base.simps [of b n])
    then show ?thesis
    proof
      assume "c \<in> set (show_base b (n div b))"
      then show ?thesis using 1 False by auto
    next
      assume "c = digit_char (n mod b)"
      moreover have "n mod b < b" using 1(2) by simp
      ultimately show ?thesis by blast
    qed
  qed
qed

lemma show_base_nonempty [simp]: "show_base b n \<noteq> []"
  by (subst show_base.simps) simp

lemma read_show_base:
  "2 \<le> b \<Longrightarrow> b \<le> 16 \<Longrightarrow> read_digits b 0 (show_base b n) = (n, [])"
proof (induction b n rule: show_base.induct)
  case (1 b n)
  show ?case
  proof (cases "n < b")
    case True
    with 1 show ?thesis by (simp add: show_base.simps [of b n] cstr_simps)
  next
    case False
    with 1 have ih: "read_digits b 0 (show_base b (n div b)) = (n div b, [])" by simp
    have dg: "\<forall>c \<in> set (show_base b (n div b)). digit_of b c \<noteq> None"
      using 1(2,3) by (auto dest!: show_base_digits simp: cstr_simps)
    from False 1 have "show_base b n = show_base b (n div b) @ [digit_char (n mod b)]"
      by (simp add: show_base.simps [of b n])
    with ih dg 1(2,3) show ?thesis
      by (simp add: read_digits_app cstr_simps)
  qed
qed

lemma read_show_base_app:
  assumes "2 \<le> b" and "b \<le> 16" and "r = [] \<or> digit_of b (hd r) = None"
  shows "read_digits b 0 (show_base b n @ r) = (n, r)"
proof -
  have dg: "\<forall>c \<in> set (show_base b n). digit_of b c \<noteq> None"
    using assms(1,2) by (auto dest!: show_base_digits simp: cstr_simps)
  show ?thesis using assms
    by (cases r) (auto simp: read_digits_app [OF dg] read_show_base)
qed

lemma digit_char_props [simp]:
  "d < 16 \<Longrightarrow> \<not> is_space (digit_char d)"
  "d < 16 \<Longrightarrow> digit_char d \<noteq> CHR ''-''"
  "d < 16 \<Longrightarrow> digit_char d \<noteq> CHR ''+''"
  "d < 16 \<Longrightarrow> digit_char d \<noteq> CHR ''x''"
  "d < 16 \<Longrightarrow> digit_char d \<noteq> CHR ''X''"
  "d < 16 \<Longrightarrow> digit_char d \<noteq> CHR 0x00"
  by (auto simp: digit_char_def is_space_def char_of_eq_iff take_bit_nat_def)

lemma digit_char_eq0 [simp]: "d < 16 \<Longrightarrow> digit_char d = CHR ''0'' \<longleftrightarrow> d = 0"
  by (auto simp: digit_char_def char_of_eq_iff take_bit_nat_def)

lemma show_base_hd: "2 \<le> b \<Longrightarrow> b \<le> 16 \<Longrightarrow> \<exists>d<b. hd (show_base b n) = digit_char d"
  using show_base_digits [of b "hd (show_base b n)" n] by simp

lemma show_base_hd_pos:
  "2 \<le> b \<Longrightarrow> b \<le> 16 \<Longrightarrow> 0 < n \<Longrightarrow> hd (show_base b n) \<noteq> CHR ''0''"
proof (induction b n rule: show_base.induct)
  case (1 b n)
  show ?case
  proof (cases "n < b")
    case True
    with 1 show ?thesis by (simp add: show_base.simps [of b n])
  next
    case False
    with 1 show ?thesis
      by (simp add: show_base.simps [of b n] div_greater_zero_iff)
  qed
qed


lemma read_sign_digits:
  assumes "2 \<le> b" and "b \<le> 16"
  shows "read_sign (dropWhile is_space (show_base b n @ r)) = (1, show_base b n @ r)"
proof -
  obtain d where d: "d < 16" "hd (show_base b n) = digit_char d"
    using show_base_hd [OF assms, of n] assms(2) by (meson order.strict_trans2)
  obtain c s where cs: "show_base b n = c # s" by (cases "show_base b n") auto
  with d have "c = digit_char d" by simp
  with cs d(1) show ?thesis by (simp add: read_sign_def)
qed

lemma strto_show_int_app:
  assumes "r = [] \<or> digit_of 10 (hd r) = None"
  shows "strto 10 (show_int i @ r) = i"
proof (cases "i < 0")
  case True
  have "strto 10 (CHR ''-'' # show_base 10 (nat (- i)) @ r) = i"
    using True assms by (simp add: strto_def is_space_def read_sign_def read_show_base_app)
  with True show ?thesis by (simp add: show_int_def)
next
  case False
  then show ?thesis using assms
    by (simp add: strto_def show_int_def read_sign_digits read_show_base_app)
qed

lemma strto_show_int [simp]: "strto 10 (show_int i) = i"
  using strto_show_int_app [of "[]" i] by simp

lemma atoi_show_int [simp]: "atoi (show_int i) = as_int 32 i"
  by (simp add: atoi_def)

lemma atoll_show_int [simp]: "atoll (show_int i) = as_int 64 i"
  by (simp add: atoll_def)

lemma scan_base_show: "0 < n \<Longrightarrow> scan_base (show_base 10 n) = (10, show_base 10 n)"
  using show_base_hd_pos [of 10 n]
  by (cases "show_base 10 n") (auto simp: scan_base_def split: char.splits bool.splits)

lemma sscanf_i_show_int [simp]: "sscanf_i (show_int i) = as_int 32 i"
proof -
  have sp: "\<not> is_space (CHR ''-'')"
    by (simp add: is_space_def)
  have sg: "read_sign (CHR ''-'' # s) = (-1, s)" for s
    by (simp add: read_sign_def)
  consider "i < 0" | "i = 0" | "0 < i" by linarith
  then show ?thesis
  proof cases
    case 1
    then show ?thesis
      by (simp add: sscanf_i_def show_int_def sp sg scan_base_show read_show_base)
  next
    case 2
    then show ?thesis by (simp add: show_int_def) code_simp
  next
    case 3
    then show ?thesis
      using read_sign_digits [of 10 "nat i" "[]"]
      by (simp add: sscanf_i_def show_int_def scan_base_show read_show_base)
  qed
qed

text \<open>\<open>printf("0x%x")\<close> of an \<open>int\<close>: the two's complement bit pattern of 32 bits.\<close>

definition show_hex :: "int \<Rightarrow> string" where
  "show_hex i = ''0x'' @ show_base 16 (unat (word_of_int i :: 32 word))"

lemma sscanf_x_show_hex:
  assumes "- (2 ^ 31) \<le> i" and "i < 2 ^ 31"
  shows "sscanf_x (show_hex i) = Some i"
proof -
  let ?n = "unat (word_of_int i :: 32 word)"
  have rs: "read_sign (dropWhile is_space (show_hex i)) = (1, show_hex i)"
    by (simp add: show_hex_def is_space_def read_sign_def)
  have rd: "fst (read_digits 16 0 (drop 2 (show_hex i))) = ?n"
    by (simp add: show_hex_def read_show_base)
  have st: "starts_with (show_hex i) ''0x''"
    by (simp add: show_hex_def)
  have lt: "int ?n < 2 ^ 32"
    using unsigned_less [of "word_of_int i :: 32 word", where 'a = int] by simp
  have lt': "?n < 2 ^ 32"
    using unsigned_less [of "word_of_int i :: 32 word", where 'a = nat] by simp
  have "sscanf_x (show_hex i) = Some (sint (word_of_int (int ?n) :: 32 word))"
    using rs rd st lt lt' by (simp add: sscanf_x_def Let_def)
  also have "word_of_int (int ?n) = (word_of_int i :: 32 word)" by simp
  also have "sint (word_of_int i :: 32 word) = i"
    using assms by (simp add: signed_take_bit_int_eq_self sint_sbintrunc')
  finally show ?thesis .
qed

end
