(* ===== verification/SalModel.thy ===== *)
theory SalModel
  imports LinPrelude
begin

text \<open>
  The signalling abstraction layer's media description: the enumerations and structures of
  \<open>include/sal/sal.h\<close> and the queries of \<open>coreapi/sal.c\<close> on them.

  A fixed array is a list of its declared length (\<open>md_streams\<close> has
  \<open>SAL_MEDIA_DESCRIPTION_MAX_STREAMS\<close> = 8 cells of which the first \<open>md_nb_streams\<close> are in
  use, \<open>sd_crypto\<close> has \<open>SAL_CRYPTO_ALGO_MAX\<close> = 4), a \<open>char\<close> array is the C string it holds.
  \<open>PayloadType\<close> and \<open>OrtpRtcpXrConfiguration\<close> belong to oRTP; their records hold the
  fields this code reads or writes, and the flag word is the set of its flags.
\<close>

section \<open>Enumerations\<close>

datatype sal_transport = SalTransportUDP | SalTransportTCP | SalTransportTLS | SalTransportDTLS

datatype sal_stream_type = SalAudio | SalVideo | SalOther

datatype sal_media_proto =
    SalProtoRtpAvp | SalProtoRtpSavp | SalProtoRtpAvpf | SalProtoRtpSavpf
  | SalProtoUdpTlsRtpSavp | SalProtoUdpTlsRtpSavpf | SalProtoOther

datatype sal_stream_dir =
  SalStreamSendRecv | SalStreamSendOnly | SalStreamRecvOnly | SalStreamInactive

datatype sal_dtls_role =
  SalDtlsRoleInvalid | SalDtlsRoleIsServer | SalDtlsRoleIsClient | SalDtlsRoleUnset

datatype sal_multicast_role =
  SalMulticastInactive | SalMulticastSender | SalMulticastReceiver | SalMulticastSenderReceiver

definition SAL_MEDIA_DESCRIPTION_MAX_STREAMS :: nat where
  "SAL_MEDIA_DESCRIPTION_MAX_STREAMS = 8"

definition SAL_CRYPTO_ALGO_MAX :: nat where
  "SAL_CRYPTO_ALGO_MAX = 4"

section \<open>Structures\<close>

datatype pt_flag =
    FLAG_CAN_RECV | FLAG_CAN_SEND | FLAG_ENABLED | FLAG_FROZEN_NUMBER | FLAG_RTCP_FEEDBACK_ENABLED
  | FLAG_IS_VBR | FLAG_BITRATE_OVERRIDE

record avpf_params =
  avpf_features :: "8 word"
  avpf_rpsi_compatibility :: bool
  avpf_trr_interval :: nat

record payload_type =
  pt_type :: nat
  pt_mime_type :: "string option"
  pt_clock_rate :: int
  pt_channels :: int
  pt_normal_bitrate :: int
  pt_recv_fmtp :: "string option"
  pt_send_fmtp :: "string option"
  pt_number :: int
  pt_flags :: "pt_flag set"
  pt_avpf :: avpf_params

record rtcp_xr =
  xr_enabled :: bool
  xr_rcvr_rtt_mode :: nat
  xr_rcvr_rtt_max_size :: int
  xr_stat_summary_enabled :: bool
  xr_stat_summary_flags :: nat
  xr_voip_metrics_enabled :: bool

text \<open>The all-zero configuration that \<open>memset\<close> leaves.\<close>

definition rtcp_xr_zero :: rtcp_xr where
  "rtcp_xr_zero = \<lparr>xr_enabled = False, xr_rcvr_rtt_mode = 0, xr_rcvr_rtt_max_size = 0,
     xr_stat_summary_enabled = False, xr_stat_summary_flags = 0, xr_voip_metrics_enabled = False\<rparr>"

record sal_ice_candidate =
  ic_addr :: string
  ic_raddr :: string
  ic_foundation :: string
  ic_type :: string
  ic_componentID :: nat
  ic_priority :: nat
  ic_port :: int
  ic_rport :: int

record sal_ice_remote_candidate =
  irc_addr :: string
  irc_port :: int

text \<open>A crypto suite is its enumeration value, 0 being \<open>MS_CRYPTO_SUITE_INVALID\<close>.\<close>

record sal_srtp_crypto_algo =
  cr_tag :: nat
  cr_algo :: nat
  cr_master_key :: string

definition crypto_zero :: sal_srtp_crypto_algo where
  "crypto_zero = \<lparr>cr_tag = 0, cr_algo = 0, cr_master_key = []\<rparr>"

record sal_stream_description =
  sd_name :: string
  sd_proto :: sal_media_proto
  sd_type :: sal_stream_type
  sd_typeother :: string
  sd_proto_other :: string
  sd_rtp_addr :: string
  sd_rtcp_addr :: string
  sd_rtp_ssrc :: nat
  sd_rtcp_cname :: string
  sd_rtp_port :: int
  sd_rtcp_port :: int
  sd_payloads :: "payload_type list"
  sd_already_assigned_payloads :: "payload_type list"
  sd_bandwidth :: int
  sd_ptime :: int
  sd_dir :: sal_stream_dir
  sd_crypto :: "sal_srtp_crypto_algo list"
  sd_crypto_local_tag :: nat
  sd_max_rate :: int
  sd_rtcp_xr :: rtcp_xr
  sd_ice_candidates :: "sal_ice_candidate list"
  sd_ice_remote_candidates :: "sal_ice_remote_candidate list"
  sd_ice_ufrag :: string
  sd_ice_pwd :: string
  sd_ice_mismatch :: bool
  sd_ice_completed :: bool
  sd_dtls_fingerprint :: string
  sd_dtls_role :: sal_dtls_role
  sd_ttl :: int
  sd_multicast_role :: sal_multicast_role

record sal_media_description =
  md_refcount :: int
  md_name :: string
  md_addr :: string
  md_username :: string
  md_nb_streams :: nat
  md_bandwidth :: int
  md_session_ver :: nat
  md_session_id :: nat
  md_dir :: sal_stream_dir
  md_streams :: "sal_stream_description list"
  md_rtcp_xr :: rtcp_xr
  md_ice_ufrag :: string
  md_ice_pwd :: string
  md_ice_lite :: bool
  md_ice_completed :: bool

text \<open>The zero-initialised structures of \<open>ms_new0\<close>.\<close>

definition stream_zero :: sal_stream_description where
  "stream_zero = \<lparr>sd_name = [], sd_proto = SalProtoRtpAvp, sd_type = SalAudio,
     sd_typeother = [], sd_proto_other = [], sd_rtp_addr = [], sd_rtcp_addr = [], sd_rtp_ssrc = 0,
     sd_rtcp_cname = [], sd_rtp_port = 0, sd_rtcp_port = 0, sd_payloads = [],
     sd_already_assigned_payloads = [], sd_bandwidth = 0, sd_ptime = 0,
     sd_dir = SalStreamSendRecv, sd_crypto = replicate SAL_CRYPTO_ALGO_MAX crypto_zero,
     sd_crypto_local_tag = 0, sd_max_rate = 0, sd_rtcp_xr = rtcp_xr_zero, sd_ice_candidates = [],
     sd_ice_remote_candidates = [], sd_ice_ufrag = [], sd_ice_pwd = [], sd_ice_mismatch = False,
     sd_ice_completed = False, sd_dtls_fingerprint = [], sd_dtls_role = SalDtlsRoleInvalid,
     sd_ttl = 0, sd_multicast_role = SalMulticastInactive\<rparr>"

definition sal_media_description_new :: sal_media_description where
  "sal_media_description_new = \<lparr>md_refcount = 1, md_name = [], md_addr = [], md_username = [],
     md_nb_streams = 0, md_bandwidth = 0, md_session_ver = 0, md_session_id = 0,
     md_dir = SalStreamSendRecv,
     md_streams = replicate SAL_MEDIA_DESCRIPTION_MAX_STREAMS stream_zero,
     md_rtcp_xr = rtcp_xr_zero, md_ice_ufrag = [], md_ice_pwd = [], md_ice_lite = False,
     md_ice_completed = False\<rparr>"

text \<open>The cells in use, over which every loop of the code runs.\<close>

definition used_streams :: "sal_media_description \<Rightarrow> sal_stream_description list" where
  "used_streams md = take (md_nb_streams md) (md_streams md)"

text \<open>The shape of a description: eight cells, at most all of them in use.\<close>

definition md_shape :: "sal_media_description \<Rightarrow> bool" where
  "md_shape md \<longleftrightarrow> length (md_streams md) = SAL_MEDIA_DESCRIPTION_MAX_STREAMS
     \<and> md_nb_streams md \<le> SAL_MEDIA_DESCRIPTION_MAX_STREAMS"

lemma md_shape_new [simp, intro]: "md_shape sal_media_description_new"
  by (simp add: md_shape_def sal_media_description_new_def)

section \<open>Reference counting\<close>

definition sal_media_description_ref :: "sal_media_description \<Rightarrow> sal_media_description" where
  "sal_media_description_ref md = md\<lparr>md_refcount := md_refcount md + 1\<rparr>"

text \<open>\<^const>\<open>None\<close> once the description is destroyed.\<close>

definition sal_media_description_unref :: "sal_media_description \<Rightarrow> sal_media_description option" where
  "sal_media_description_unref md =
     (let md' = md\<lparr>md_refcount := md_refcount md - 1\<rparr>
      in if md_refcount md' = 0 then None else Some md')"

section \<open>Names of enumeration values\<close>

fun sal_transport_to_string :: "sal_transport \<Rightarrow> string" where
  "sal_transport_to_string SalTransportUDP = ''udp''"
| "sal_transport_to_string SalTransportTCP = ''tcp''"
| "sal_transport_to_string SalTransportTLS = ''tls''"
| "sal_transport_to_string SalTransportDTLS = ''dtls''"

definition sal_transport_parse :: "string option \<Rightarrow> sal_transport" where
  "sal_transport_parse param = (case param of None \<Rightarrow> SalTransportUDP | Some p \<Rightarrow>
     if strcaseeq ''udp'' p then SalTransportUDP
     else if strcaseeq ''tcp'' p then SalTransportTCP
     else if strcaseeq ''tls'' p then SalTransportTLS
     else if strcaseeq ''dtls'' p then SalTransportDTLS
     else SalTransportUDP)"

fun sal_stream_type_to_string :: "sal_stream_type \<Rightarrow> string" where
  "sal_stream_type_to_string SalAudio = ''audio''"
| "sal_stream_type_to_string SalVideo = ''video''"
| "sal_stream_type_to_string SalOther = ''other''"

definition sal_stream_description_get_type_as_string :: "sal_stream_description \<Rightarrow> string" where
  "sal_stream_description_get_type_as_string desc =
     (if sd_type desc = SalOther then sd_typeother desc
      else sal_stream_type_to_string (sd_type desc))"

fun sal_media_proto_to_string :: "sal_media_proto \<Rightarrow> string" where
  "sal_media_proto_to_string SalProtoRtpAvp = ''RTP/AVP''"
| "sal_media_proto_to_string SalProtoRtpSavp = ''RTP/SAVP''"
| "sal_media_proto_to_string SalProtoUdpTlsRtpSavp = ''UDP/TLS/RTP/SAVP''"
| "sal_media_proto_to_string SalProtoRtpAvpf = ''RTP/AVPF''"
| "sal_media_proto_to_string SalProtoRtpSavpf = ''RTP/SAVPF''"
| "sal_media_proto_to_string SalProtoUdpTlsRtpSavpf = ''UDP/TLS/RTP/SAVPF''"
| "sal_media_proto_to_string SalProtoOther = ''unknown''"

definition sal_stream_description_get_proto_as_string :: "sal_stream_description \<Rightarrow> string" where
  "sal_stream_description_get_proto_as_string desc =
     (if sd_proto desc = SalProtoOther then sd_proto_other desc
      else sal_media_proto_to_string (sd_proto desc))"

text \<open>The inactive direction is misspelt in the source.\<close>

fun sal_stream_dir_to_string :: "sal_stream_dir \<Rightarrow> string" where
  "sal_stream_dir_to_string SalStreamSendRecv = ''sendrecv''"
| "sal_stream_dir_to_string SalStreamSendOnly = ''sendonly''"
| "sal_stream_dir_to_string SalStreamRecvOnly = ''recvonly''"
| "sal_stream_dir_to_string SalStreamInactive = ''inative''"

section \<open>Queries on streams\<close>

definition sal_stream_description_active :: "sal_stream_description \<Rightarrow> bool" where
  "sal_stream_description_active sd \<longleftrightarrow> sd_rtp_port sd > 0"

definition sal_stream_description_has_avpf :: "sal_stream_description \<Rightarrow> bool" where
  "sal_stream_description_has_avpf sd \<longleftrightarrow> sd_proto sd = SalProtoRtpAvpf
     \<or> sd_proto sd = SalProtoRtpSavpf \<or> sd_proto sd = SalProtoUdpTlsRtpSavpf"

definition sal_stream_description_has_srtp :: "sal_stream_description \<Rightarrow> bool" where
  "sal_stream_description_has_srtp sd \<longleftrightarrow> sd_proto sd = SalProtoRtpSavp \<or> sd_proto sd = SalProtoRtpSavpf"

definition sal_stream_description_has_dtls :: "sal_stream_description \<Rightarrow> bool" where
  "sal_stream_description_has_dtls sd \<longleftrightarrow>
     sd_proto sd = SalProtoUdpTlsRtpSavp \<or> sd_proto sd = SalProtoUdpTlsRtpSavpf"

end
