(* ===== verification/SalQueries.thy ===== *)
theory SalQueries
  imports SalModel
begin

unbundle bit_operations_syntax

text \<open>
  The queries of \<open>coreapi/sal.c\<close> on a media description, its comparison of two
  descriptions, and its parser of \<open>key=value\<close> lines.  \<open>ms_is_multicast\<close> belongs to
  mediastreamer2 and is the parameter \<open>mc\<close>.
\<close>

section \<open>Searching and counting streams\<close>

definition sal_media_description_find_stream ::
    "sal_media_description \<Rightarrow> sal_media_proto \<Rightarrow> sal_stream_type \<Rightarrow> sal_stream_description option" where
  "sal_media_description_find_stream md proto ty =
     find (\<lambda>ss. sal_stream_description_active ss \<and> sd_proto ss = proto \<and> sd_type ss = ty) (used_streams md)"

fun count_active_of_type :: "sal_stream_type \<Rightarrow> sal_stream_description list \<Rightarrow> nat \<Rightarrow> nat" where
  "count_active_of_type ty [] nb = nb"
| "count_active_of_type ty (s # ss) nb =
     (if \<not> sal_stream_description_active s then count_active_of_type ty ss nb
      else count_active_of_type ty ss (if sd_type s = ty then nb + 1 else nb))"

definition sal_media_description_nb_active_streams_of_type ::
    "sal_media_description \<Rightarrow> sal_stream_type \<Rightarrow> nat" where
  "sal_media_description_nb_active_streams_of_type md ty = count_active_of_type ty (used_streams md) 0"

fun nth_active_of_type ::
    "sal_stream_type \<Rightarrow> sal_stream_description list \<Rightarrow> nat \<Rightarrow> sal_stream_description option" where
  "nth_active_of_type ty [] idx = None"
| "nth_active_of_type ty (s # ss) idx =
     (if \<not> sal_stream_description_active s then nth_active_of_type ty ss idx
      else if sd_type s = ty then (if idx = 0 then Some s else nth_active_of_type ty ss (idx - 1))
      else nth_active_of_type ty ss idx)"

definition sal_media_description_get_active_stream_of_type ::
    "sal_media_description \<Rightarrow> sal_stream_type \<Rightarrow> nat \<Rightarrow> sal_stream_description option" where
  "sal_media_description_get_active_stream_of_type md ty idx = nth_active_of_type ty (used_streams md) idx"

definition sal_media_description_find_secure_stream_of_type ::
    "sal_media_description \<Rightarrow> sal_stream_type \<Rightarrow> sal_stream_description option" where
  "sal_media_description_find_secure_stream_of_type md ty =
     (case sal_media_description_find_stream md SalProtoRtpSavpf ty of Some s \<Rightarrow> Some s
      | None \<Rightarrow> sal_media_description_find_stream md SalProtoRtpSavp ty)"

definition sal_media_description_find_best_stream ::
    "sal_media_description \<Rightarrow> sal_stream_type \<Rightarrow> sal_stream_description option" where
  "sal_media_description_find_best_stream md ty =
     (case sal_media_description_find_stream md SalProtoUdpTlsRtpSavpf ty of Some s \<Rightarrow> Some s | None \<Rightarrow>
     (case sal_media_description_find_stream md SalProtoUdpTlsRtpSavp ty of Some s \<Rightarrow> Some s | None \<Rightarrow>
     (case sal_media_description_find_stream md SalProtoRtpSavpf ty of Some s \<Rightarrow> Some s | None \<Rightarrow>
     (case sal_media_description_find_stream md SalProtoRtpSavp ty of Some s \<Rightarrow> Some s | None \<Rightarrow>
     (case sal_media_description_find_stream md SalProtoRtpAvpf ty of Some s \<Rightarrow> Some s | None \<Rightarrow>
      sal_media_description_find_stream md SalProtoRtpAvp ty)))))"

fun count_active :: "sal_stream_description list \<Rightarrow> nat \<Rightarrow> nat" where
  "count_active [] nb = nb"
| "count_active (s # ss) nb = count_active ss (if sal_stream_description_active s then nb + 1 else nb)"

definition sal_media_description_get_nb_active_streams :: "sal_media_description \<Rightarrow> nat" where
  "sal_media_description_get_nb_active_streams md = count_active (used_streams md) 0"

definition sal_media_description_empty :: "sal_media_description \<Rightarrow> bool" where
  "sal_media_description_empty md = (if sal_media_description_get_nb_active_streams md > 0 then False else True)"

definition sal_media_description_set_dir ::
    "sal_media_description \<Rightarrow> sal_stream_dir \<Rightarrow> sal_media_description" where
  "sal_media_description_set_dir md dir = md\<lparr>md_streams :=
     map (\<lambda>ss. if \<not> sal_stream_description_active ss then ss else ss\<lparr>sd_dir := dir\<rparr>) (used_streams md)
     @ drop (md_nb_streams md) (md_streams md)\<rparr>"

definition is_null_address :: "string \<Rightarrow> bool" where
  "is_null_address addr \<longleftrightarrow> addr = ''0.0.0.0'' \<or> addr = ''::0''"

fun has_dir_loop :: "string \<Rightarrow> sal_stream_dir \<Rightarrow> sal_stream_description list \<Rightarrow> bool" where
  "has_dir_loop addr dir [] = False"
| "has_dir_loop addr dir (ss # rest) =
     (if \<not> sal_stream_description_active ss then has_dir_loop addr dir rest
      else if sd_dir ss = dir then True
      else if sd_dir ss = SalStreamSendRecv \<and> dir = SalStreamSendOnly
              \<and> (is_null_address addr \<or> is_null_address (sd_rtp_addr ss)) then True
      else has_dir_loop addr dir rest)"

definition has_dir :: "sal_media_description \<Rightarrow> sal_stream_dir \<Rightarrow> bool" where
  "has_dir md dir = has_dir_loop (md_addr md) dir (used_streams md)"

fun sal_media_description_has_dir :: "sal_media_description \<Rightarrow> sal_stream_dir \<Rightarrow> bool" where
  "sal_media_description_has_dir md SalStreamRecvOnly =
     (if has_dir md SalStreamSendOnly \<or> has_dir md SalStreamSendRecv then False else True)"
| "sal_media_description_has_dir md SalStreamSendOnly =
     (if has_dir md SalStreamRecvOnly \<or> has_dir md SalStreamSendRecv then False else True)"
| "sal_media_description_has_dir md SalStreamSendRecv = has_dir md SalStreamSendRecv"
| "sal_media_description_has_dir md SalStreamInactive =
     (if has_dir md SalStreamSendOnly \<or> has_dir md SalStreamSendRecv \<or> has_dir md SalStreamRecvOnly
      then False else True)"

text \<open>The three \<open>sal_media_description_has_...\<close> loops differ in the test of a stream only.\<close>

fun all_active_have :: "(sal_stream_description \<Rightarrow> bool) \<Rightarrow> sal_stream_description list \<Rightarrow> bool" where
  "all_active_have p [] = True"
| "all_active_have p (s # ss) =
     (if \<not> sal_stream_description_active s then all_active_have p ss
      else if \<not> p s then False else all_active_have p ss)"

definition sal_media_description_has_avpf :: "sal_media_description \<Rightarrow> bool" where
  "sal_media_description_has_avpf md = (if md_nb_streams md = 0 then False
     else all_active_have sal_stream_description_has_avpf (used_streams md))"

definition sal_media_description_has_srtp :: "sal_media_description \<Rightarrow> bool" where
  "sal_media_description_has_srtp md = (if md_nb_streams md = 0 then False
     else all_active_have sal_stream_description_has_srtp (used_streams md))"

definition sal_media_description_has_dtls :: "sal_media_description \<Rightarrow> bool" where
  "sal_media_description_has_dtls md = (if md_nb_streams md = 0 then False
     else all_active_have sal_stream_description_has_dtls (used_streams md))"

section \<open>Comparing descriptions\<close>

definition payload_type_equals :: "payload_type \<Rightarrow> payload_type \<Rightarrow> bool" where
  "payload_type_equals p1 p2 =
     (if pt_type p1 \<noteq> pt_type p2 then False
      else if pt_mime_type p1 \<noteq> pt_mime_type p2 then False
      else if pt_clock_rate p1 \<noteq> pt_clock_rate p2 then False
      else if pt_channels p1 \<noteq> pt_channels p2 then False
      else if pt_number p1 \<noteq> pt_number p2 then False
      else True)"

definition is_recv_only :: "payload_type \<Rightarrow> bool" where
  "is_recv_only p \<longleftrightarrow> FLAG_CAN_RECV \<in> pt_flags p \<and> FLAG_CAN_SEND \<notin> pt_flags p"

fun payload_list_equals :: "payload_type list \<Rightarrow> payload_type list \<Rightarrow> bool" where
  "payload_list_equals (p1 # l1) (p2 # l2) =
     (if \<not> payload_type_equals p1 p2 then False else payload_list_equals l1 l2)"
| "payload_list_equals l1 [] = (dropWhile is_recv_only l1 = [])"
| "payload_list_equals [] (p2 # l2) = False"

type_synonym changes = "32 word"

definition SAL_MEDIA_DESCRIPTION_UNCHANGED :: changes where "SAL_MEDIA_DESCRIPTION_UNCHANGED = 0x00"
definition SAL_MEDIA_DESCRIPTION_NETWORK_CHANGED :: changes where "SAL_MEDIA_DESCRIPTION_NETWORK_CHANGED = 1"
definition SAL_MEDIA_DESCRIPTION_CODEC_CHANGED :: changes where "SAL_MEDIA_DESCRIPTION_CODEC_CHANGED = 2"
definition SAL_MEDIA_DESCRIPTION_CRYPTO_KEYS_CHANGED :: changes where "SAL_MEDIA_DESCRIPTION_CRYPTO_KEYS_CHANGED = 4"
definition SAL_MEDIA_DESCRIPTION_CRYPTO_POLICY_CHANGED :: changes where "SAL_MEDIA_DESCRIPTION_CRYPTO_POLICY_CHANGED = 8"
definition SAL_MEDIA_DESCRIPTION_STREAMS_CHANGED :: changes where "SAL_MEDIA_DESCRIPTION_STREAMS_CHANGED = 16"
definition SAL_MEDIA_DESCRIPTION_NETWORK_XXXCAST_CHANGED :: changes where
  "SAL_MEDIA_DESCRIPTION_NETWORK_XXXCAST_CHANGED = 32"

lemmas change_bits =
  SAL_MEDIA_DESCRIPTION_UNCHANGED_def SAL_MEDIA_DESCRIPTION_NETWORK_CHANGED_def
  SAL_MEDIA_DESCRIPTION_CODEC_CHANGED_def SAL_MEDIA_DESCRIPTION_CRYPTO_KEYS_CHANGED_def
  SAL_MEDIA_DESCRIPTION_CRYPTO_POLICY_CHANGED_def SAL_MEDIA_DESCRIPTION_STREAMS_CHANGED_def
  SAL_MEDIA_DESCRIPTION_NETWORK_XXXCAST_CHANGED_def

text \<open>\<open>if (b) result |= ch\<close>.\<close>

definition mark :: "bool \<Rightarrow> changes \<Rightarrow> changes \<Rightarrow> changes" where
  "mark b ch result = (if b then result OR ch else result)"

fun crypto_changes :: "sal_srtp_crypto_algo list \<Rightarrow> sal_srtp_crypto_algo list \<Rightarrow> changes \<Rightarrow> changes" where
  "crypto_changes (a # as) (b # bs) result =
     crypto_changes as bs
       (mark (take (128 - 1) (cr_master_key a) \<noteq> take (128 - 1) (cr_master_key b))
          SAL_MEDIA_DESCRIPTION_CRYPTO_KEYS_CHANGED
       (mark (cr_tag a \<noteq> cr_tag b \<or> cr_algo a \<noteq> cr_algo b)
          SAL_MEDIA_DESCRIPTION_CRYPTO_POLICY_CHANGED result))"
| "crypto_changes _ _ result = result"

definition sal_stream_description_equals ::
    "(string \<Rightarrow> bool) \<Rightarrow> sal_stream_description \<Rightarrow> sal_stream_description \<Rightarrow> changes" where
  "sal_stream_description_equals mc sd1 sd2 = (let
     r = SAL_MEDIA_DESCRIPTION_UNCHANGED;
     r = mark (sd_proto sd1 \<noteq> sd_proto sd2) SAL_MEDIA_DESCRIPTION_CODEC_CHANGED r;
     r = crypto_changes (take SAL_CRYPTO_ALGO_MAX (sd_crypto sd1)) (take SAL_CRYPTO_ALGO_MAX (sd_crypto sd2)) r;
     r = mark (sd_type sd1 \<noteq> sd_type sd2) SAL_MEDIA_DESCRIPTION_CODEC_CHANGED r;
     r = mark (sd_rtp_addr sd1 \<noteq> sd_rtp_addr sd2) SAL_MEDIA_DESCRIPTION_NETWORK_CHANGED r;
     r = mark (sd_rtp_addr sd1 \<noteq> [] \<and> sd_rtp_addr sd2 \<noteq> [] \<and> mc (sd_rtp_addr sd1) \<noteq> mc (sd_rtp_addr sd2))
           SAL_MEDIA_DESCRIPTION_NETWORK_XXXCAST_CHANGED r;
     r = (if sd_rtp_port sd1 \<noteq> sd_rtp_port sd2 then
            (if sd_rtp_port sd1 = 0 \<or> sd_rtp_port sd2 = 0 then r OR SAL_MEDIA_DESCRIPTION_CODEC_CHANGED
             else r OR SAL_MEDIA_DESCRIPTION_NETWORK_CHANGED) else r);
     r = mark (sd_rtcp_addr sd1 \<noteq> sd_rtcp_addr sd2) SAL_MEDIA_DESCRIPTION_NETWORK_CHANGED r;
     r = mark (sd_rtcp_port sd1 \<noteq> sd_rtcp_port sd2) SAL_MEDIA_DESCRIPTION_NETWORK_CHANGED r;
     r = mark (\<not> payload_list_equals (sd_payloads sd1) (sd_payloads sd2)) SAL_MEDIA_DESCRIPTION_CODEC_CHANGED r;
     r = mark (sd_bandwidth sd1 \<noteq> sd_bandwidth sd2) SAL_MEDIA_DESCRIPTION_CODEC_CHANGED r;
     r = mark (sd_ptime sd1 \<noteq> sd_ptime sd2) SAL_MEDIA_DESCRIPTION_CODEC_CHANGED r;
     r = mark (sd_dir sd1 \<noteq> sd_dir sd2) SAL_MEDIA_DESCRIPTION_CODEC_CHANGED r;
     r = mark (sd_dtls_role sd1 \<noteq> sd_dtls_role sd2) SAL_MEDIA_DESCRIPTION_CRYPTO_KEYS_CHANGED r;
     r = mark (sd_dtls_fingerprint sd1 \<noteq> sd_dtls_fingerprint sd2) SAL_MEDIA_DESCRIPTION_CRYPTO_KEYS_CHANGED r
   in r)"

text \<open>The loop of \<open>sal_media_description_equals\<close> runs over the streams of the first description
  and reads the cells of the second at the same positions.\<close>

fun streams_changes :: "(string \<Rightarrow> bool) \<Rightarrow> sal_stream_description list
    \<Rightarrow> sal_stream_description list \<Rightarrow> changes \<Rightarrow> changes" where
  "streams_changes mc (s1 # ss1) (s2 # ss2) result =
     streams_changes mc ss1 ss2 (result OR sal_stream_description_equals mc s1 s2)"
| "streams_changes mc _ _ result = result"

definition sal_media_description_equals ::
    "(string \<Rightarrow> bool) \<Rightarrow> sal_media_description \<Rightarrow> sal_media_description \<Rightarrow> changes" where
  "sal_media_description_equals mc md1 md2 = (let
     r = SAL_MEDIA_DESCRIPTION_UNCHANGED;
     r = mark (md_addr md1 \<noteq> md_addr md2) SAL_MEDIA_DESCRIPTION_NETWORK_CHANGED r;
     r = mark (md_addr md1 \<noteq> [] \<and> md_addr md2 \<noteq> [] \<and> mc (md_addr md1) \<noteq> mc (md_addr md2))
           SAL_MEDIA_DESCRIPTION_NETWORK_XXXCAST_CHANGED r;
     r = mark (md_nb_streams md1 \<noteq> md_nb_streams md2) SAL_MEDIA_DESCRIPTION_STREAMS_CHANGED r;
     r = mark (md_bandwidth md1 \<noteq> md_bandwidth md2) SAL_MEDIA_DESCRIPTION_CODEC_CHANGED r
   in streams_changes mc (used_streams md1) (md_streams md2) r)"

section \<open>Lines of a message body\<close>

definition remove_trailing_spaces :: "string \<Rightarrow> string" where
  "remove_trailing_spaces line = strip_trailing is_space line"

text \<open>The value, if the line has the key, and the number of characters of the line.  A line
  of 256 characters or more leaves the code's buffer without a terminator.\<close>

definition line_get_value :: "string \<Rightarrow> string \<Rightarrow> nat \<Rightarrow> string option \<times> nat" where
  "line_get_value input key value_size = (let
     len = (case strchr input (CHR 0x0A) of None \<Rightarrow> length input | Some (a, _) \<Rightarrow> length a + 1);
     line = strncpy (min len 256) input
   in case strchr line (CHR ''='') of None \<Rightarrow> (None, len)
      | Some (before, after) \<Rightarrow>
         (case scan_word before of None \<Rightarrow> (None, len)
          | Some (key_candidate, _) \<Rightarrow>
             if strcaseeq key key_candidate
             then (Some (strncpy (value_size - 1) (remove_trailing_spaces after)), len)
             else (None, len)))"

function sal_lines_get_value :: "string \<Rightarrow> string \<Rightarrow> nat \<Rightarrow> string option" where
  "sal_lines_get_value data key value_size =
     (case line_get_value data key value_size of
        (Some v, _) \<Rightarrow> Some v
      | (None, read) \<Rightarrow> if read \<noteq> 0 then sal_lines_get_value (drop read data) key value_size else None)"
  by pat_completeness auto

lemma line_get_value_read:
  "snd (line_get_value data key n) =
     (case strchr data (CHR 0x0A) of None \<Rightarrow> length data | Some (a, _) \<Rightarrow> length a + 1)"
  by (auto simp: line_get_value_def Let_def split: option.splits prod.splits)

termination sal_lines_get_value
proof (relation "measure (\<lambda>(d, _, _). length d)", goal_cases)
  case 1
  then show ?case by simp
next
  case (2 data key n x y)
  then have "snd (line_get_value data key n) \<noteq> 0" by (metis snd_conv)
  then have "data \<noteq> []"
    by (auto simp: line_get_value_read strchr_def split: option.splits)
  with 2 show ?case by simp
qed

declare sal_lines_get_value.simps [simp del]

definition sal_body_has_type :: "(string option \<times> string option) \<Rightarrow> string \<Rightarrow> string \<Rightarrow> bool" where
  "sal_body_has_type body type subtype \<longleftrightarrow> fst body \<noteq> None \<and> snd body \<noteq> None
     \<and> fst body = Some type \<and> snd body = Some subtype"

end
