(* ===== verification/OfferAnswer.thy ===== *)
theory OfferAnswer
  imports SalQueries
begin

text \<open>
  The SDP offer/answer computation of \<open>coreapi/offeranswer.c\<close>.

  The code receives its local description as \<open>const\<close>, but \<open>opus_match\<close> writes the
  channel count of a local payload type through it.  Every function below therefore returns
  the local payload list as it leaves it; a \<open>PayloadType*\<close> into that list is its position.
  The functions of oRTP and mediastreamer2 that the code calls are the fields of
  \<open>ortp_api\<close>: \<open>fmtp_get_value\<close> with its buffer size, the text
  \<open>payload_type_append_send_fmtp\<close> leaves in \<open>send_fmtp\<close>, and \<open>ms_is_multicast\<close>.
\<close>

record ortp_api =
  api_fmtp_get_value :: "string \<Rightarrow> string \<Rightarrow> nat \<Rightarrow> string option"
  api_append_fmtp :: "string option \<Rightarrow> string \<Rightarrow> string"
  api_is_multicast :: "string \<Rightarrow> bool"

section \<open>Matching one payload type\<close>

definition is_telephone_event :: "payload_type \<Rightarrow> bool" where
  "is_telephone_event p \<longleftrightarrow> strcaseeq0 (pt_mime_type p) (Some ''telephone-event'')"

fun only_telephone_event :: "payload_type list \<Rightarrow> bool" where
  "only_telephone_event [] = True"
| "only_telephone_event (p # l) = (if \<not> is_telephone_event p then False else only_telephone_event l)"

text \<open>A matcher gets the local list and the reference; it returns the list as it leaves it and
  the position of its choice.\<close>

type_synonym matcher = "payload_type list \<Rightarrow> payload_type \<Rightarrow> payload_type list \<times> nat option"

fun opus_loop :: "payload_type \<Rightarrow> nat \<Rightarrow> payload_type list \<Rightarrow> nat option
    \<Rightarrow> payload_type list \<times> nat option" where
  "opus_loop refpt i [] candidate = ([], candidate)"
| "opus_loop refpt i (pt # l) candidate =
     (if strcaseeq0 (pt_mime_type pt) (Some ''opus'') then
        if pt_channels refpt = 1 then
          (case opus_loop refpt (Suc i) l (Some i) of (l', c) \<Rightarrow> (pt\<lparr>pt_channels := 1\<rparr> # l', c))
        else if pt_channels refpt = 2 then (pt # l, Some i)
        else (case opus_loop refpt (Suc i) l candidate of (l', c) \<Rightarrow> (pt # l', c))
      else (case opus_loop refpt (Suc i) l candidate of (l', c) \<Rightarrow> (pt # l', c)))"

definition opus_match :: matcher where
  "opus_match l refpt = opus_loop refpt 0 l None"

fun g729A_loop :: "payload_type \<Rightarrow> nat \<Rightarrow> payload_type list \<Rightarrow> nat option \<Rightarrow> nat option" where
  "g729A_loop refpt i [] candidate = candidate"
| "g729A_loop refpt i (pt # l) candidate =
     g729A_loop refpt (Suc i) l
       (if strcaseeq0 (pt_mime_type pt) (Some ''G729'') \<and> pt_channels refpt = pt_channels pt
        then Some i else candidate)"

definition g729A_match :: matcher where
  "g729A_match l refpt = (l, g729A_loop refpt 0 l None)"

text \<open>Same codec name, clock rate and channel count, names present on both sides.\<close>

definition same_codec :: "payload_type \<Rightarrow> payload_type \<Rightarrow> bool" where
  "same_codec refpt pt \<longleftrightarrow> pt_mime_type pt \<noteq> None \<and> pt_mime_type refpt \<noteq> None
     \<and> strcaseeq0 (pt_mime_type pt) (pt_mime_type refpt)
     \<and> pt_clock_rate pt = pt_clock_rate refpt \<and> pt_channels pt = pt_channels refpt"

definition octet_align :: "ortp_api \<Rightarrow> string option \<Rightarrow> int option" where
  "octet_align api fmtp = (case fmtp of None \<Rightarrow> Some 0 | Some f \<Rightarrow>
     (case api_fmtp_get_value api f ''octet-align'' 10 of None \<Rightarrow> Some 0 | Some value \<Rightarrow> atoi value))"

definition amr_match :: "ortp_api \<Rightarrow> matcher" where
  "amr_match api l refpt = (l, first_index (\<lambda>pt. same_codec refpt pt
      \<and> octet_align api (pt_recv_fmtp pt) = octet_align api (pt_send_fmtp refpt)) 0 l)"

definition generic_match :: matcher where
  "generic_match l refpt = (l, first_index (same_codec refpt) 0 l)"

definition matchers :: "ortp_api \<Rightarrow> (string \<times> matcher) list" where
  "matchers api = [(''opus'', opus_match), (''G729A'', g729A_match),
     (''AMR'', amr_match api), (''AMR-WB'', amr_match api)]"

definition find_payload_type_best_match :: "ortp_api \<Rightarrow> matcher" where
  "find_payload_type_best_match api l refpt =
     (case find (\<lambda>(mime, _). pt_mime_type refpt \<noteq> None \<and> strcaseeq0 (Some mime) (pt_mime_type refpt))
             (matchers api) of
        Some (_, match_func) \<Rightarrow> match_func l refpt
      | None \<Rightarrow> generic_match l refpt)"

section \<open>Matching two payload lists\<close>

text \<open>The clone that goes into the result for a local \<open>matched\<close> and a remote \<open>p2\<close>.\<close>

definition negotiate_payload :: "ortp_api \<Rightarrow> payload_type \<Rightarrow> payload_type \<Rightarrow> payload_type" where
  "negotiate_payload api matched p2 = (let
     newp = matched;
     newp = (case pt_send_fmtp p2 of None \<Rightarrow> newp
             | Some f \<Rightarrow> newp\<lparr>pt_send_fmtp := Some (api_append_fmtp api (pt_send_fmtp newp) f)\<rparr>);
     newp = newp\<lparr>pt_flags := pt_flags newp \<union> {FLAG_CAN_RECV, FLAG_CAN_SEND}\<rparr>;
     newp = (if FLAG_RTCP_FEEDBACK_ENABLED \<in> pt_flags p2 then
        (let a = pt_avpf newp in
         newp\<lparr>pt_flags := insert FLAG_RTCP_FEEDBACK_ENABLED (pt_flags newp),
              pt_avpf := a\<lparr>avpf_features := and (avpf_features a) (avpf_features (pt_avpf p2)),
                avpf_rpsi_compatibility := avpf_rpsi_compatibility (pt_avpf p2),
                avpf_trr_interval :=
                  (if avpf_trr_interval (pt_avpf p2) < avpf_trr_interval (pt_avpf matched)
                   then avpf_trr_interval (pt_avpf matched) else avpf_trr_interval a)\<rparr>\<rparr>)
      else newp)
   in newp\<lparr>pt_number := pt_number p2, pt_flags := insert FLAG_FROZEN_NUMBER (pt_flags newp)\<rparr>)"

text \<open>The body of the loop over the remote list: the local list, the result so far and
  \<open>found_codec\<close> go through it.\<close>

definition match_one :: "ortp_api \<Rightarrow> bool \<Rightarrow> bool \<Rightarrow> payload_type
    \<Rightarrow> payload_type list \<times> payload_type list \<times> bool \<Rightarrow> payload_type list \<times> payload_type list \<times> bool" where
  "match_one api reading one p2 st = (case st of (local, res, found_codec) \<Rightarrow>
     (case find_payload_type_best_match api local p2 of
        (local', None) \<Rightarrow> (local', res, found_codec)
      | (local', Some k) \<Rightarrow> (let
          matched = local' ! k;
          real_codec = (one \<and> \<not> is_telephone_event matched)
        in if real_codec \<and> found_codec then (local', res, found_codec)
           else (let
             newp = negotiate_payload api matched p2;
             again = (if reading \<and> pt_number p2 \<noteq> pt_number matched
                      then [newp\<lparr>pt_number := pt_number matched\<rparr>] else [])
           in (local', res @ newp # again, found_codec \<or> real_codec)))))"

fun add_remaining :: "payload_type list \<Rightarrow> payload_type list \<Rightarrow> payload_type list" where
  "add_remaining [] res = res"
| "add_remaining (p1 # local) res =
     add_remaining local
       (if list_ex (\<lambda>p2. pt_number p2 = pt_number p1) res then res
        else res @ [p1\<lparr>pt_flags := {FLAG_CAN_RECV, FLAG_FROZEN_NUMBER} \<union> pt_flags p1\<rparr>])"

definition match_payloads :: "ortp_api \<Rightarrow> payload_type list \<Rightarrow> payload_type list \<Rightarrow> bool \<Rightarrow> bool
    \<Rightarrow> payload_type list \<times> payload_type list" where
  "match_payloads api local remote reading one =
     (case fold (match_one api reading one) remote (local, [], False) of
        (local', res, _) \<Rightarrow> (local', if reading then add_remaining local' res else res))"

section \<open>Crypto suites and directions\<close>

text \<open>The chosen entry and the local tag.\<close>

fun match_crypto_algo :: "sal_srtp_crypto_algo list \<Rightarrow> sal_srtp_crypto_algo list \<Rightarrow> bool
    \<Rightarrow> (sal_srtp_crypto_algo \<times> nat) option" where
  "match_crypto_algo local [] use_local_key = None"
| "match_crypto_algo local (r # remote) use_local_key =
     (if cr_algo r = 0 then None
      else case find (\<lambda>l. cr_algo r = cr_algo l) local of
        Some l \<Rightarrow>
          if use_local_key
          then Some (\<lparr>cr_tag = cr_tag r, cr_algo = cr_algo r, cr_master_key = strncpy 128 (cr_master_key l)\<rparr>, cr_tag l)
          else Some (\<lparr>cr_tag = cr_tag l, cr_algo = cr_algo r, cr_master_key = strncpy 128 (cr_master_key r)\<rparr>, cr_tag l)
      | None \<Rightarrow> match_crypto_algo local remote use_local_key)"

definition compute_dir_outgoing :: "sal_stream_dir \<Rightarrow> sal_stream_dir \<Rightarrow> sal_stream_dir" where
  "compute_dir_outgoing local answered = (let
     res = local;
     res = (if local = SalStreamSendRecv then
              (if answered = SalStreamRecvOnly then SalStreamSendOnly
               else if answered = SalStreamSendOnly then SalStreamRecvOnly else res) else res)
   in if answered = SalStreamInactive then SalStreamInactive else res)"

definition compute_dir_incoming :: "sal_stream_dir \<Rightarrow> sal_stream_dir \<Rightarrow> sal_stream_dir" where
  "compute_dir_incoming local offered =
     (if local = SalStreamSendRecv then
        (if offered = SalStreamSendOnly then SalStreamRecvOnly
         else if offered = SalStreamRecvOnly then SalStreamSendOnly
         else if offered = SalStreamInactive then SalStreamInactive
         else SalStreamSendRecv)
      else if local = SalStreamSendOnly then
        (if offered = SalStreamRecvOnly \<or> offered = SalStreamSendRecv then SalStreamSendOnly
         else SalStreamInactive)
      else if local = SalStreamRecvOnly then
        (if offered = SalStreamSendOnly \<or> offered = SalStreamSendRecv then SalStreamRecvOnly
         else SalStreamInactive)
      else SalStreamInactive)"

section \<open>One stream\<close>

definition crypto_result :: "(sal_srtp_crypto_algo \<times> nat) option \<Rightarrow> sal_stream_description
    \<Rightarrow> sal_stream_description" where
  "crypto_result m result = (case m of
     None \<Rightarrow> result\<lparr>sd_crypto := replicate SAL_CRYPTO_ALGO_MAX crypto_zero, sd_rtp_port := 0\<rparr>
   | Some (c, tag) \<Rightarrow> result\<lparr>sd_crypto := c # replicate (SAL_CRYPTO_ALGO_MAX - 1) crypto_zero,
       sd_crypto_local_tag := tag\<rparr>)"

text \<open>The part of \<open>initiate_outgoing\<close> after the multicast checks.\<close>

definition outgoing_media :: "sal_stream_description \<Rightarrow> sal_stream_description
    \<Rightarrow> sal_stream_description \<Rightarrow> sal_stream_description" where
  "outgoing_media lo ra result = (let
     result = (if sd_payloads result \<noteq> [] \<and> \<not> only_telephone_event (sd_payloads result) then
         result\<lparr>sd_rtp_addr := sd_rtp_addr ra, sd_rtcp_addr := sd_rtcp_addr ra,
           sd_rtp_port := sd_rtp_port ra, sd_rtcp_port := sd_rtcp_port ra,
           sd_bandwidth := sd_bandwidth ra, sd_ptime := sd_ptime ra\<rparr>
       else result\<lparr>sd_rtp_port := 0\<rparr>);
     result = (if sal_stream_description_has_srtp result
       then crypto_result (match_crypto_algo (sd_crypto lo) (sd_crypto ra) False) result else result);
     result = result\<lparr>sd_rtp_ssrc := sd_rtp_ssrc lo, sd_rtcp_cname := strncpy 255 (sd_rtcp_cname lo)\<rparr>
   in if sd_dtls_role lo \<noteq> SalDtlsRoleInvalid \<and> sd_dtls_role ra \<noteq> SalDtlsRoleInvalid
         \<and> length (sd_dtls_fingerprint lo) > 0 \<and> length (sd_dtls_fingerprint ra) > 0
      then result\<lparr>sd_dtls_fingerprint := strncpy 256 (sd_dtls_fingerprint ra),
         sd_dtls_role := (if sd_dtls_role ra = SalDtlsRoleIsClient then SalDtlsRoleIsServer
                          else SalDtlsRoleIsClient)\<rparr>
      else result\<lparr>sd_dtls_fingerprint := [], sd_dtls_role := SalDtlsRoleInvalid\<rparr>)"

text \<open>The early returns of the multicast branch: an answer that differs from the offer.\<close>

definition multicast_mismatch :: "sal_stream_description \<Rightarrow> sal_stream_description \<Rightarrow> bool" where
  "multicast_mismatch lo ra \<longleftrightarrow> sd_rtp_addr lo \<noteq> sd_rtp_addr ra
     \<or> sd_rtp_port lo \<noteq> sd_rtp_port ra
     \<or> sd_dir lo \<noteq> sd_dir ra
     \<or> sd_bandwidth lo \<noteq> sd_bandwidth ra
     \<or> sd_ptime lo > 0 \<and> sd_ptime lo \<noteq> sd_ptime ra
     \<or> sd_ttl lo > 0 \<and> sd_ttl lo \<noteq> sd_ttl ra"

definition outgoing_base :: "sal_stream_description \<Rightarrow> sal_stream_description \<Rightarrow> payload_type list
    \<Rightarrow> sal_stream_description \<Rightarrow> sal_stream_description" where
  "outgoing_base lo ra pl result = result\<lparr>sd_payloads := pl, sd_proto := sd_proto ra, sd_type := sd_type lo\<rparr>"

definition outgoing_multicast :: "sal_stream_description \<Rightarrow> sal_stream_description \<Rightarrow> sal_stream_description" where
  "outgoing_multicast lo result = result\<lparr>sd_ttl := sd_ttl lo, sd_dir := sd_dir lo,
     sd_multicast_role := SalMulticastSender\<rparr>"

definition initiate_outgoing :: "ortp_api \<Rightarrow> sal_stream_description \<Rightarrow> sal_stream_description
    \<Rightarrow> sal_stream_description \<Rightarrow> sal_stream_description \<times> sal_stream_description" where
  "initiate_outgoing api lo ra result =
     (if sd_rtp_port ra \<noteq> 0 then
       (case match_payloads api (sd_payloads lo) (sd_payloads ra) True False of (lp, pl) \<Rightarrow>
        (lo\<lparr>sd_payloads := lp\<rparr>,
         (let result = outgoing_base lo ra pl result
          in if sd_rtp_addr lo \<noteq> [] \<and> api_is_multicast api (sd_rtp_addr lo) then
               if multicast_mismatch lo ra then result\<lparr>sd_rtp_port := 0\<rparr>
               else outgoing_media lo ra (outgoing_multicast lo result)
             else outgoing_media lo ra
                    (result\<lparr>sd_dir := compute_dir_outgoing (sd_dir lo) (sd_dir ra)\<rparr>))))
      else (lo, result\<lparr>sd_rtp_port := 0\<rparr>))"

text \<open>The part of \<open>initiate_incoming\<close> after the address fields.\<close>

definition incoming_media :: "sal_stream_description \<Rightarrow> sal_stream_description
    \<Rightarrow> sal_stream_description \<Rightarrow> sal_stream_description" where
  "incoming_media lc ro result = (let
     result = (if sal_stream_description_has_srtp result
       then crypto_result (match_crypto_algo (sd_crypto lc) (sd_crypto ro) True) result else result);
     result = result\<lparr>sd_ice_pwd := sd_ice_pwd lc, sd_ice_ufrag := sd_ice_ufrag lc,
       sd_ice_mismatch := sd_ice_mismatch lc, sd_ice_completed := sd_ice_completed lc,
       sd_ice_candidates := sd_ice_candidates lc,
       sd_ice_remote_candidates := sd_ice_remote_candidates lc, sd_name := sd_name lc,
       sd_rtp_ssrc := sd_rtp_ssrc lc, sd_rtcp_cname := strncpy 255 (sd_rtcp_cname lc)\<rparr>
   in if sd_dtls_role lc \<noteq> SalDtlsRoleInvalid \<and> sd_dtls_role ro \<noteq> SalDtlsRoleInvalid
         \<and> length (sd_dtls_fingerprint lc) > 0 \<and> length (sd_dtls_fingerprint ro) > 0
      then (let result = result\<lparr>sd_dtls_fingerprint := strncpy 256 (sd_dtls_fingerprint lc)\<rparr>
            in if sd_dtls_role ro = SalDtlsRoleUnset
               then result\<lparr>sd_dtls_role := SalDtlsRoleIsClient\<rparr> else result)
      else result\<lparr>sd_dtls_fingerprint := [], sd_dtls_role := SalDtlsRoleInvalid\<rparr>)"

text \<open>The fields set before the acceptance test, and the address fields of the two branches.\<close>

definition incoming_base :: "sal_stream_description \<Rightarrow> sal_stream_description \<Rightarrow> payload_type list
    \<Rightarrow> sal_stream_description \<Rightarrow> sal_stream_description" where
  "incoming_base lc ro pl result = result\<lparr>sd_payloads := pl, sd_proto := sd_proto ro, sd_type := sd_type lc,
     sd_dir := compute_dir_incoming (sd_dir lc) (sd_dir ro)\<rparr>"

definition incoming_multicast :: "sal_stream_description \<Rightarrow> sal_stream_description \<Rightarrow> sal_stream_description" where
  "incoming_multicast ro result = result\<lparr>sd_dir := sd_dir ro, sd_rtp_addr := sd_rtp_addr ro,
     sd_rtcp_addr := sd_rtcp_addr ro, sd_rtp_port := sd_rtp_port ro, sd_rtcp_port := 0,
     sd_bandwidth := sd_bandwidth ro, sd_ptime := sd_ptime ro, sd_ttl := sd_ttl ro,
     sd_multicast_role := SalMulticastReceiver\<rparr>"

definition incoming_unicast :: "sal_stream_description \<Rightarrow> sal_stream_description \<Rightarrow> sal_stream_description" where
  "incoming_unicast lc result = result\<lparr>sd_rtp_addr := sd_rtp_addr lc, sd_rtcp_addr := sd_rtcp_addr lc,
     sd_rtp_port := sd_rtp_port lc, sd_rtcp_port := sd_rtcp_port lc, sd_bandwidth := sd_bandwidth lc,
     sd_ptime := sd_ptime lc\<rparr>"

definition initiate_incoming :: "ortp_api \<Rightarrow> sal_stream_description \<Rightarrow> sal_stream_description
    \<Rightarrow> sal_stream_description \<Rightarrow> bool \<Rightarrow> sal_stream_description \<times> sal_stream_description" where
  "initiate_incoming api lc ro result one =
     (case match_payloads api (sd_payloads lc) (sd_payloads ro) False one of (lp, pl) \<Rightarrow>
      (lc\<lparr>sd_payloads := lp\<rparr>,
       (let result = incoming_base lc ro pl result
        in if pl = [] \<or> only_telephone_event pl \<or> sd_rtp_port ro = 0 \<or> sd_dir ro = SalStreamRecvOnly
           then result\<lparr>sd_rtp_port := 0\<rparr>
           else if sd_rtp_addr ro \<noteq> [] \<and> api_is_multicast api (sd_rtp_addr ro) then
             if sal_stream_description_has_srtp result then result\<lparr>sd_rtp_port := 0\<rparr>
             else incoming_media lc ro (incoming_multicast ro result)
           else incoming_media lc ro (incoming_unicast lc result))))"

section \<open>A whole description, offering side\<close>

text \<open>\<open>i\<close> counts the local streams, \<open>j\<close> the answered ones; the two indices are used as
  the code uses them.\<close>

fun outgoing_loop :: "ortp_api \<Rightarrow> sal_media_description \<Rightarrow> nat \<Rightarrow> nat \<Rightarrow> sal_stream_description list
    \<Rightarrow> sal_stream_description list \<Rightarrow> sal_stream_description list \<times> sal_stream_description list" where
  "outgoing_loop api ra i j [] results = ([], results)"
| "outgoing_loop api ra i j (ls # locals) results =
     (case sal_media_description_find_stream ra (sd_proto ls) (sd_type ls) of
        None \<Rightarrow> (case outgoing_loop api ra (Suc i) j locals results of (locals', results') \<Rightarrow> (ls # locals', results'))
      | Some rs \<Rightarrow>
          (case initiate_outgoing api ls rs (results ! j) of (ls', r) \<Rightarrow> (let
             results = results[j := r];
             results = results[i := (results ! i)\<lparr>sd_rtcp_xr := sd_rtcp_xr ls\<rparr>];
             results = (if xr_enabled (sd_rtcp_xr ls) \<and> \<not> xr_enabled (sd_rtcp_xr rs)
               then results[i := (results ! i)\<lparr>sd_rtcp_xr := (sd_rtcp_xr (results ! i))\<lparr>xr_enabled := False\<rparr>\<rparr>]
               else results)
           in case outgoing_loop api ra (Suc i) (Suc j) locals results of
                (locals', results') \<Rightarrow> (ls' # locals', results'))))"

definition offer_answer_initiate_outgoing :: "ortp_api \<Rightarrow> sal_media_description \<Rightarrow> sal_media_description
    \<Rightarrow> sal_media_description \<Rightarrow> sal_media_description \<times> sal_media_description" where
  "offer_answer_initiate_outgoing api lo ra result =
     (case outgoing_loop api ra 0 0 (used_streams lo) (md_streams result) of (locals, results) \<Rightarrow> (let
        lo' = lo\<lparr>md_streams := locals @ drop (md_nb_streams lo) (md_streams lo)\<rparr>;
        result = result\<lparr>md_streams := results, md_nb_streams := md_nb_streams lo,
          md_bandwidth := md_bandwidth ra, md_addr := md_addr ra, md_rtcp_xr := md_rtcp_xr lo\<rparr>;
        result = (if xr_enabled (md_rtcp_xr lo) \<and> \<not> xr_enabled (md_rtcp_xr ra)
          then result\<lparr>md_rtcp_xr := (md_rtcp_xr result)\<lparr>xr_enabled := False\<rparr>\<rparr> else result)
      in (lo', result)))"

section \<open>A whole description, answering side\<close>

definition local_stream_not_already_used :: "sal_media_description \<Rightarrow> sal_stream_description \<Rightarrow> bool" where
  "local_stream_not_already_used result stream =
     (\<not> list_ex (\<lambda>ss. sd_name ss = sd_name stream) (used_streams result))"

definition proto_compatible :: "sal_media_proto \<Rightarrow> sal_media_proto \<Rightarrow> bool" where
  "proto_compatible local remote =
     (if local = remote then True
      else if remote = SalProtoRtpAvp \<and> (local = SalProtoRtpSavp \<or> local = SalProtoRtpSavpf) then True
      else if remote = SalProtoRtpAvp \<and> (local = SalProtoUdpTlsRtpSavp \<or> local = SalProtoUdpTlsRtpSavpf) then True
      else if remote = SalProtoRtpAvpf \<and> local = SalProtoRtpSavpf then True
      else if remote = SalProtoRtpAvpf \<and> local = SalProtoUdpTlsRtpSavpf then True
      else False)"

text \<open>The position of the local stream, a \<open>SalStreamDescription*\<close> in the code.\<close>

definition find_local_matching_stream :: "sal_media_description \<Rightarrow> sal_stream_description list
    \<Rightarrow> sal_stream_description \<Rightarrow> nat option" where
  "find_local_matching_stream result locals remote_stream =
     first_index (\<lambda>ss. sal_stream_description_active ss \<and> sd_type ss = sd_type remote_stream
        \<and> proto_compatible (sd_proto ss) (sd_proto remote_stream)
        \<and> local_stream_not_already_used result ss) 0 locals"

text \<open>The RTCP XR attribute of an answered stream.\<close>

definition answer_rtcp_xr :: "sal_media_description \<Rightarrow> sal_stream_description \<Rightarrow> sal_stream_description \<Rightarrow> rtcp_xr" where
  "answer_rtcp_xr lc ls rs =
     (if xr_enabled (sd_rtcp_xr rs) then
        (let conf = (if xr_enabled (sd_rtcp_xr ls) then Some (sd_rtcp_xr ls)
                     else if xr_enabled (md_rtcp_xr lc) then Some (md_rtcp_xr lc) else None)
         in case conf of
              Some c \<Rightarrow> if sd_dir ls = SalStreamSendRecv then c else rtcp_xr_zero\<lparr>xr_enabled := True\<rparr>
            | None \<Rightarrow> rtcp_xr_zero\<lparr>xr_enabled := True\<rparr>)
      else rtcp_xr_zero)"

definition decline_stream :: "sal_stream_description \<Rightarrow> sal_stream_description \<Rightarrow> sal_stream_description" where
  "decline_stream rs result = (let
     result = result\<lparr>sd_dir := SalStreamInactive, sd_rtp_port := 0, sd_type := sd_type rs, sd_proto := sd_proto rs\<rparr>;
     result = (if sd_type rs = SalOther then result\<lparr>sd_typeother := strncpy 31 (sd_typeother rs)\<rparr> else result)
   in if sd_proto rs = SalProtoOther then result\<lparr>sd_proto_other := strncpy 31 (sd_proto_other rs)\<rparr> else result)"

text \<open>\<open>ls\<close> is declared outside the loop, so its value survives an iteration.\<close>

fun incoming_loop :: "ortp_api \<Rightarrow> bool \<Rightarrow> sal_media_description \<Rightarrow> sal_media_description \<Rightarrow> nat
    \<Rightarrow> nat option \<Rightarrow> sal_stream_description list \<Rightarrow> sal_stream_description list
    \<Rightarrow> sal_stream_description list \<Rightarrow> sal_stream_description list \<times> sal_stream_description list" where
  "incoming_loop api one lc result i ls locals [] results = (locals, results)"
| "incoming_loop api one lc result i ls locals (rs # remotes) results = (let
     ls = (if sd_proto rs \<noteq> SalProtoOther then find_local_matching_stream (result\<lparr>md_streams := results\<rparr>) locals rs else ls)
   in case ls of
        Some k \<Rightarrow>
          (case initiate_incoming api (locals ! k) rs (results ! i) one of (l', r) \<Rightarrow>
             incoming_loop api one lc result (Suc i) ls (locals[k := l']) remotes
               (results[i := r\<lparr>sd_rtcp_xr := answer_rtcp_xr lc (locals ! k) rs\<rparr>]))
      | None \<Rightarrow>
          incoming_loop api one lc result (Suc i) ls locals remotes
            (results[i := decline_stream rs (results ! i)]))"

definition offer_answer_initiate_incoming :: "ortp_api \<Rightarrow> sal_media_description \<Rightarrow> sal_media_description
    \<Rightarrow> sal_media_description \<Rightarrow> bool \<Rightarrow> sal_media_description \<times> sal_media_description" where
  "offer_answer_initiate_incoming api lc ro result one =
     (case incoming_loop api one lc result 0 None (used_streams lc) (used_streams ro) (md_streams result) of
        (locals, results) \<Rightarrow> (let
          lc' = lc\<lparr>md_streams := locals @ drop (md_nb_streams lc) (md_streams lc)\<rparr>;
          result = result\<lparr>md_streams := results, md_nb_streams := md_nb_streams ro,
            md_username := md_username lc, md_addr := md_addr lc, md_bandwidth := md_bandwidth lc,
            md_session_ver := md_session_ver lc, md_session_id := md_session_id lc,
            md_ice_pwd := md_ice_pwd lc, md_ice_ufrag := md_ice_ufrag lc, md_ice_lite := md_ice_lite lc,
            md_ice_completed := md_ice_completed lc, md_name := md_name lc,
            md_rtcp_xr := (if xr_enabled (md_rtcp_xr ro) then
               (if xr_enabled (md_rtcp_xr lc) \<and> md_dir lc = SalStreamSendRecv then md_rtcp_xr lc
                else rtcp_xr_zero\<lparr>xr_enabled := True\<rparr>) else rtcp_xr_zero)\<rparr>
        in (lc', result)))"

end
