(* ===== verification/OfferAnswerProps.thy ===== *)
theory OfferAnswerProps
  imports OfferAnswer "HOL-Library.Sublist"
begin

text \<open>
  Properties of the offer/answer computation: the contract every payload matcher keeps, the
  lists \<open>match_payloads\<close> builds, the crypto and direction rules, and what a whole answer
  looks like.
\<close>

section \<open>The contract of a payload matcher\<close>

text \<open>What a codec name the peer uses may be answered with.\<close>

definition codec_compatible :: "payload_type \<Rightarrow> payload_type \<Rightarrow> bool" where
  "codec_compatible pt refpt \<longleftrightarrow> strcaseeq0 (pt_mime_type pt) (pt_mime_type refpt)
     \<or> strcaseeq0 (pt_mime_type refpt) (Some ''G729A'') \<and> strcaseeq0 (pt_mime_type pt) (Some ''G729'')"

definition forget_channels :: "payload_type \<Rightarrow> payload_type" where
  "forget_channels pt = pt\<lparr>pt_channels := 0\<rparr>"

locale payload_matcher =
  fixes m :: matcher
    and serves :: "payload_type \<Rightarrow> bool"
  assumes frame: "m l refpt = (l', c) \<Longrightarrow> map forget_channels l' = map forget_channels l"
    and choice: "m l refpt = (l', Some k) \<Longrightarrow> k < length l"
    and compatible: "serves refpt \<Longrightarrow> m l refpt = (l', Some k) \<Longrightarrow> codec_compatible (l' ! k) refpt"
begin

lemma length_kept: "m l refpt = (l', c) \<Longrightarrow> length l' = length l"
  by (metis frame length_map)

lemma chosen_in: "m l refpt = (l', Some k) \<Longrightarrow> l' ! k \<in> set l'"
  by (simp add: choice length_kept)

lemma numbers_kept: "m l refpt = (l', c) \<Longrightarrow> map pt_number l' = map pt_number l"
proof -
  assume "m l refpt = (l', c)"
  then have "map (pt_number \<circ> forget_channels) l' = map (pt_number \<circ> forget_channels) l"
    by (metis frame map_map)
  then show ?thesis by (simp add: forget_channels_def comp_def)
qed

lemma mimes_kept: "m l refpt = (l', c) \<Longrightarrow> map pt_mime_type l' = map pt_mime_type l"
proof -
  assume "m l refpt = (l', c)"
  then have "map (pt_mime_type \<circ> forget_channels) l' = map (pt_mime_type \<circ> forget_channels) l"
    by (metis frame map_map)
  then show ?thesis by (simp add: forget_channels_def comp_def)
qed

end

lemma opus_loop_frame:
  "opus_loop refpt i l cand = (l', c) \<Longrightarrow> map forget_channels l' = map forget_channels l"
  by (induction refpt i l cand arbitrary: l' c rule: opus_loop.induct)
    (auto simp: forget_channels_def split: if_splits prod.splits)

lemma opus_loop_choice:
  "opus_loop refpt i l cand = (l', c) \<Longrightarrow>
   c = cand \<or> (\<exists>k. c = Some (i + k) \<and> k < length l \<and> strcaseeq0 (pt_mime_type (l ! k)) (Some ''opus''))"
proof (induction refpt i l cand arbitrary: l' c rule: opus_loop.induct)
  case (1 refpt i cand)
  then show ?case by simp
next
  case (2 refpt i pt l cand)
  define hit where "hit = strcaseeq0 (pt_mime_type pt) (Some ''opus'')"
  have lift: "c = x \<or> (\<exists>k. c = Some (i + k) \<and> k < length (pt # l)
      \<and> strcaseeq0 (pt_mime_type ((pt # l) ! k)) (Some ''opus''))"
    if "c = x \<or> (\<exists>k. c = Some (Suc i + k) \<and> k < length l \<and> strcaseeq0 (pt_mime_type (l ! k)) (Some ''opus''))" for x
    using that by (metis Suc_less_eq add_Suc_shift length_Cons nth_Cons_Suc)
  have now: "\<exists>k. Some i = Some (i + k) \<and> k < length (pt # l)
      \<and> strcaseeq0 (pt_mime_type ((pt # l) ! k)) (Some ''opus'')" if hit
    using that by (intro exI [of _ 0]) (simp add: hit_def)
  show ?case
  proof (cases hit)
    case False
    with 2(4) obtain l2 where "opus_loop refpt (Suc i) l cand = (l2, c)"
      by (auto simp: hit_def split: prod.splits)
    with 2(3) False show ?thesis using lift by (metis hit_def)
  next
    case True
    note h = this
    consider "pt_channels refpt = 1" | "pt_channels refpt \<noteq> 1" "pt_channels refpt = 2"
      | "pt_channels refpt \<noteq> 1" "pt_channels refpt \<noteq> 2" by blast
    then show ?thesis
    proof cases
      case 1
      with 2(4) h obtain l2 where "opus_loop refpt (Suc i) l (Some i) = (l2, c)"
        by (auto simp: hit_def split: prod.splits)
      with 2(1) h 1 have "c = Some i \<or> (\<exists>k. c = Some (Suc i + k) \<and> k < length l
          \<and> strcaseeq0 (pt_mime_type (l ! k)) (Some ''opus''))" by (metis hit_def)
      then show ?thesis using lift now h by blast
    next
      case 2
      with "2.prems" h have "c = Some i" by (simp add: hit_def)
      with now h show ?thesis by blast
    next
      case 3
      with 2(4) h obtain l2 where "opus_loop refpt (Suc i) l cand = (l2, c)"
        by (auto simp: hit_def split: prod.splits)
      with 2(2) h 3 show ?thesis using lift by (metis hit_def)
    qed
  qed
qed

lemma g729A_loop_choice:
  "g729A_loop refpt i l cand = c \<Longrightarrow>
   c = cand \<or> (\<exists>k. c = Some (i + k) \<and> k < length l \<and> strcaseeq0 (pt_mime_type (l ! k)) (Some ''G729''))"
proof (induction l arbitrary: i cand)
  case (Cons pt l)
  define cand' where "cand' = (if strcaseeq0 (pt_mime_type pt) (Some ''G729'') \<and> pt_channels refpt = pt_channels pt
        then Some i else cand)"
  from Cons.prems have "g729A_loop refpt (Suc i) l cand' = c" by (simp add: cand'_def)
  from Cons.IH [OF this]
  consider "c = cand'" | k where "c = Some (Suc i + k)" "k < length l"
    "strcaseeq0 (pt_mime_type (l ! k)) (Some ''G729'')" by blast
  then show ?case
  proof cases
    case 1
    then show ?thesis
      by (cases "cand' = cand") (auto simp: cand'_def split: if_splits intro!: exI [of _ 0])
  next
    case 2
    then show ?thesis by (intro disjI2 exI [of _ "Suc k"]) simp
  qed
qed simp

lemma opus_match_mime:
  assumes "opus_match l refpt = (l', Some k)"
  shows "k < length l" and "strcaseeq0 (pt_mime_type (l' ! k)) (Some ''opus'')"
proof -
  from assms have o: "opus_loop refpt 0 l None = (l', Some k)" by (simp add: opus_match_def)
  from opus_loop_choice [OF o] show k: "k < length l" by auto
  from opus_loop_frame [OF o] have fr: "map forget_channels l' = map forget_channels l" .
  then have "length l' = length l" by (metis length_map)
  with fr k have "forget_channels (l' ! k) = forget_channels (l ! k)"
    by (metis nth_map)
  then have "pt_mime_type (l' ! k) = pt_mime_type (l ! k)"
    by (metis forget_channels_def payload_type.select_convs(2) payload_type.surjective payload_type.update_convs(4))
  with opus_loop_choice [OF o] show "strcaseeq0 (pt_mime_type (l' ! k)) (Some ''opus'')" by auto
qed


section \<open>The matchers of the table keep the contract\<close>

definition serves_opus :: "payload_type \<Rightarrow> bool" where
  "serves_opus refpt \<longleftrightarrow> strcaseeq0 (Some ''opus'') (pt_mime_type refpt)"

definition serves_g729A :: "payload_type \<Rightarrow> bool" where
  "serves_g729A refpt \<longleftrightarrow> strcaseeq0 (Some ''G729A'') (pt_mime_type refpt)"

interpretation opus: payload_matcher opus_match serves_opus
proof
  fix l refpt l' c
  assume "opus_match l refpt = (l', c)"
  then show "map forget_channels l' = map forget_channels l"
    unfolding opus_match_def by (rule opus_loop_frame)
next
  fix l refpt l' k
  assume "opus_match l refpt = (l', Some k)"
  then show "k < length l" by (rule opus_match_mime(1))
next
  fix l refpt l' k
  assume "serves_opus refpt" and "opus_match l refpt = (l', Some k)"
  then show "codec_compatible (l' ! k) refpt"
    unfolding codec_compatible_def serves_opus_def
    by (intro disjI1) (rule strcaseeq0_trans [OF opus_match_mime(2)])
qed

interpretation g729A: payload_matcher g729A_match serves_g729A
proof
  fix l refpt l' c
  assume "g729A_match l refpt = (l', c)"
  then show "map forget_channels l' = map forget_channels l" by (simp add: g729A_match_def)
next
  fix l refpt l' k
  assume "g729A_match l refpt = (l', Some k)"
  then show "k < length l" using g729A_loop_choice [of refpt 0 l None] by (auto simp: g729A_match_def)
next
  fix l refpt l' k
  assume "serves_g729A refpt" and "g729A_match l refpt = (l', Some k)"
  then show "codec_compatible (l' ! k) refpt"
    using g729A_loop_choice [of refpt 0 l None]
    by (auto simp: g729A_match_def codec_compatible_def serves_g729A_def intro: strcaseeq0_sym)
qed

lemma same_codec_compatible: "same_codec refpt pt \<Longrightarrow> codec_compatible pt refpt"
  by (simp add: same_codec_def codec_compatible_def)

interpretation amr: payload_matcher "amr_match api" "\<lambda>_. True" for api
  by unfold_locales (auto simp: amr_match_def dest!: first_index_SomeD intro: same_codec_compatible)

interpretation generic: payload_matcher generic_match "\<lambda>_. True"
  by unfold_locales (auto simp: generic_match_def dest!: first_index_SomeD intro: same_codec_compatible)

lemma best_match_cases:
  "find_payload_type_best_match api l refpt =
     (if serves_opus refpt then opus_match l refpt
      else if serves_g729A refpt then g729A_match l refpt
      else if strcaseeq0 (Some ''AMR'') (pt_mime_type refpt)
         \<or> strcaseeq0 (Some ''AMR-WB'') (pt_mime_type refpt) then amr_match api l refpt
      else generic_match l refpt)"
proof -
  have nn: "strcaseeq0 (Some m) (pt_mime_type refpt) \<Longrightarrow> pt_mime_type refpt \<noteq> None" for m
    by (cases "pt_mime_type refpt") auto
  show ?thesis
    unfolding find_payload_type_best_match_def matchers_def serves_opus_def serves_g729A_def
      find.simps prod.case
    using nn by (auto simp del: strcaseeq0_Some)
qed

interpretation best: payload_matcher "find_payload_type_best_match api" "\<lambda>_. True" for api
proof
  fix l refpt l' c
  assume "find_payload_type_best_match api l refpt = (l', c)"
  then show "map forget_channels l' = map forget_channels l"
    by (auto simp: best_match_cases dest: opus.frame g729A.frame amr.frame generic.frame split: if_splits)
next
  fix l refpt l' k
  assume "find_payload_type_best_match api l refpt = (l', Some k)"
  then show "k < length l"
    by (auto simp: best_match_cases dest: opus.choice g729A.choice amr.choice generic.choice split: if_splits)
next
  fix l refpt l' k
  assume "find_payload_type_best_match api l refpt = (l', Some k)"
  then show "codec_compatible (l' ! k) refpt"
    by (auto simp: best_match_cases split: if_splits
        dest: opus.compatible g729A.compatible amr.compatible [OF TrueI] generic.compatible [OF TrueI])
qed

section \<open>The lists built by \<open>match_payloads\<close>\<close>

lemma negotiate_number [simp]: "pt_number (negotiate_payload api q p2) = pt_number p2"
  by (simp add: negotiate_payload_def Let_def)

lemma negotiate_mime [simp]: "pt_mime_type (negotiate_payload api q p2) = pt_mime_type q"
  by (simp add: negotiate_payload_def Let_def split: option.splits)

lemma negotiate_flags [simp]:
  "FLAG_CAN_RECV \<in> pt_flags (negotiate_payload api q p2)"
  "FLAG_CAN_SEND \<in> pt_flags (negotiate_payload api q p2)"
  "FLAG_FROZEN_NUMBER \<in> pt_flags (negotiate_payload api q p2)"
  by (simp_all add: negotiate_payload_def Let_def split: option.splits)

lemma is_telephone_event_mime: "pt_mime_type p = pt_mime_type q \<Longrightarrow> is_telephone_event p = is_telephone_event q"
  by (simp add: is_telephone_event_def)

text \<open>What one iteration does: it skips the remote payload or adds a local payload \<open>q\<close> under
  the remote number, and in a response once more under the local number.\<close>

lemma match_one_cases:
  assumes "match_one api reading one p2 (local, res, fc) = (local', res', fc')"
  obtains (skip) "res' = res" "fc' = fc" "map forget_channels local' = map forget_channels local"
  | (add) q again where "q \<in> set local'" "codec_compatible q p2"
      "map forget_channels local' = map forget_channels local"
      "res' = res @ negotiate_payload api q p2 # again"
      "again = (if reading \<and> pt_number p2 \<noteq> pt_number q
         then [(negotiate_payload api q p2)\<lparr>pt_number := pt_number q\<rparr>] else [])"
      "one \<Longrightarrow> \<not> is_telephone_event q \<Longrightarrow> \<not> fc \<and> fc'" "fc' \<longleftrightarrow> fc \<or> one \<and> \<not> is_telephone_event q"
proof -
  obtain l1 c where m: "find_payload_type_best_match api local p2 = (l1, c)" by fastforce
  note fr = best.frame [OF m]
  show thesis
  proof (cases c)
    case None
    with m assms fr show thesis by (intro skip) (auto simp: match_one_def)
  next
    case (Some k)
    note m' = m [unfolded Some]
    show thesis
    proof (cases "(one \<and> \<not> is_telephone_event (l1 ! k)) \<and> fc")
      case True
      with m' assms fr show thesis by (intro skip) (auto simp: match_one_def)
    next
      case False
      let ?again = "if reading \<and> pt_number p2 \<noteq> pt_number (l1 ! k)
           then [(negotiate_payload api (l1 ! k) p2)\<lparr>pt_number := pt_number (l1 ! k)\<rparr>] else []"
      have "match_one api reading one p2 (local, res, fc) =
          (l1, res @ negotiate_payload api (l1 ! k) p2 # ?again, fc \<or> one \<and> \<not> is_telephone_event (l1 ! k))"
        using m' False by (simp add: match_one_def Let_def)
      with assms have out: "local' = l1" "res' = res @ negotiate_payload api (l1 ! k) p2 # ?again"
        "fc' = (fc \<or> one \<and> \<not> is_telephone_event (l1 ! k))"
        by (metis Pair_inject)+
      show thesis
        by (rule add [OF _ _ _ out(2) refl])
          (use out(1,3) False fr best.chosen_in [OF m'] best.compatible [OF TrueI m'] in auto)
    qed
  qed
qed

abbreviation match_all :: "ortp_api \<Rightarrow> bool \<Rightarrow> bool \<Rightarrow> payload_type list
    \<Rightarrow> payload_type list \<times> payload_type list \<times> bool \<Rightarrow> payload_type list \<times> payload_type list \<times> bool" where
  "match_all api reading one \<equiv> fold (match_one api reading one)"

lemma match_all_frame:
  "match_all api reading one remote (local, res, fc) = (local', out, fc') \<Longrightarrow>
   map forget_channels local' = map forget_channels local"
proof (induction remote arbitrary: local res fc)
  case (Cons p2 remote)
  obtain l1 r1 f1 where s: "match_one api reading one p2 (local, res, fc) = (l1, r1, f1)"
    by (metis prod_cases3)
  with Cons.prems have "match_all api reading one remote (l1, r1, f1) = (local', out, fc')" by simp
  from Cons.IH [OF this] s show ?case by (auto elim: match_one_cases)
qed simp

text \<open>In an answer the numbers appear in the order of the offer.\<close>

lemma match_all_subseq:
  "match_all api False one remote (local, res, fc) = (local', out, fc') \<Longrightarrow>
   \<exists>new. out = res @ new \<and> subseq (map pt_number new) (map pt_number remote)"
proof (induction remote arbitrary: local res fc)
  case (Cons p2 remote)
  obtain l1 r1 f1 where s: "match_one api False one p2 (local, res, fc) = (l1, r1, f1)"
    by (metis prod_cases3)
  with Cons.prems have "match_all api False one remote (l1, r1, f1) = (local', out, fc')" by simp
  from Cons.IH [OF this] obtain new where
    new: "out = r1 @ new" "subseq (map pt_number new) (map pt_number remote)" by blast
  from s show ?case
  proof (cases rule: match_one_cases)
    case skip
    with new show ?thesis by auto
  next
    case (add q again)
    with new show ?thesis
      by (intro exI [of _ "negotiate_payload api q p2 # new"]) simp
  qed
qed simp

text \<open>Every payload of the result comes from a remote one and a compatible local one.\<close>

definition negotiated_from :: "payload_type list \<Rightarrow> payload_type list \<Rightarrow> payload_type \<Rightarrow> bool" where
  "negotiated_from local remote p \<longleftrightarrow>
     (\<exists>q \<in> set local. \<exists>p2 \<in> set remote. codec_compatible q p2 \<and> pt_mime_type p = pt_mime_type q
        \<and> pt_number p \<in> {pt_number p2, pt_number q}
        \<and> {FLAG_CAN_RECV, FLAG_CAN_SEND, FLAG_FROZEN_NUMBER} \<subseteq> pt_flags p)"

lemma forget_channels_member:
  assumes "map forget_channels l' = map forget_channels l" and "q \<in> set l'"
  shows "\<exists>q0 \<in> set l. forget_channels q0 = forget_channels q"
  using assms by (metis (mono_tags, lifting) image_iff list.set_map)

lemma forget_channels_same:
  assumes "forget_channels q0 = forget_channels q"
  shows "pt_mime_type q0 = pt_mime_type q" "pt_number q0 = pt_number q"
    "codec_compatible q0 p \<longleftrightarrow> codec_compatible q p" "is_telephone_event q0 = is_telephone_event q"
proof -
  have "pt_mime_type (forget_channels q0) = pt_mime_type (forget_channels q)"
    and "pt_number (forget_channels q0) = pt_number (forget_channels q)"
    by (simp_all add: assms)
  then show "pt_mime_type q0 = pt_mime_type q" and "pt_number q0 = pt_number q"
    by (simp_all add: forget_channels_def)
  then show "codec_compatible q0 p \<longleftrightarrow> codec_compatible q p" "is_telephone_event q0 = is_telephone_event q"
    by (simp_all add: codec_compatible_def is_telephone_event_def)
qed

lemma negotiated_from_mono:
  assumes "negotiated_from l1 remote p" and "map forget_channels l1 = map forget_channels local"
    and "set remote \<subseteq> set remote'"
  shows "negotiated_from local remote' p"
proof -
  from assms(1) obtain q p2 where q: "q \<in> set l1" "p2 \<in> set remote" "codec_compatible q p2"
    "pt_mime_type p = pt_mime_type q" "pt_number p \<in> {pt_number p2, pt_number q}"
    "{FLAG_CAN_RECV, FLAG_CAN_SEND, FLAG_FROZEN_NUMBER} \<subseteq> pt_flags p"
    unfolding negotiated_from_def by blast
  from forget_channels_member [OF assms(2) q(1)] obtain q0 where
    "q0 \<in> set local" "forget_channels q0 = forget_channels q" by blast
  with q assms(3) forget_channels_same [of q0 q] show ?thesis
    unfolding negotiated_from_def by (intro bexI [of _ q0] bexI [of _ p2]) auto
qed

lemma match_all_origin:
  "match_all api reading one remote (local, res, fc) = (local', out, fc') \<Longrightarrow>
   \<exists>new. out = res @ new \<and> (\<forall>p \<in> set new. negotiated_from local remote p)"
proof (induction remote arbitrary: local res fc)
  case (Cons p2 remote)
  obtain l1 r1 f1 where s: "match_one api reading one p2 (local, res, fc) = (l1, r1, f1)"
    by (metis prod_cases3)
  with Cons.prems have "match_all api reading one remote (l1, r1, f1) = (local', out, fc')" by simp
  from Cons.IH [OF this] obtain new where
    new: "out = r1 @ new" "\<forall>p \<in> set new. negotiated_from l1 remote p" by blast
  from s show ?case
  proof (cases rule: match_one_cases)
    case skip
    have "set remote \<subseteq> set (p2 # remote)" by auto
    with new skip show ?thesis by (auto intro: negotiated_from_mono)
  next
    case (add q again)
    let ?n = "negotiate_payload api q p2"
    from add(1,2,5) have "\<forall>p \<in> set (?n # again). negotiated_from l1 (p2 # remote) p"
      by (auto simp: negotiated_from_def intro!: bexI [of _ q])
    moreover have "\<forall>p \<in> set new. negotiated_from l1 (p2 # remote) p"
      using new(2) by (auto intro: negotiated_from_mono [OF _ refl])
    ultimately have "\<forall>p \<in> set ((?n # again) @ new). negotiated_from l1 (p2 # remote) p" by auto
    then have "\<forall>p \<in> set ((?n # again) @ new). negotiated_from local (p2 # remote) p"
      using add(3) by (blast intro: negotiated_from_mono)
    moreover have "out = res @ ((?n # again) @ new)" using new(1) add(4) by simp
    ultimately show ?thesis by blast
  qed
qed simp


text \<open>With one matching codec at most one payload of the answer is a real codec.\<close>

lemma match_all_one_codec:
  "match_all api False True remote (local, res, fc) = (local', out, fc') \<Longrightarrow>
   \<exists>new. out = res @ new \<and> length (filter (\<lambda>p. \<not> is_telephone_event p) new) \<le> (if fc then 0 else 1)"
proof (induction remote arbitrary: local res fc)
  case (Cons p2 remote)
  obtain l1 r1 f1 where s: "match_one api False True p2 (local, res, fc) = (l1, r1, f1)"
    by (metis prod_cases3)
  with Cons.prems have "match_all api False True remote (l1, r1, f1) = (local', out, fc')" by simp
  from Cons.IH [OF this] obtain new where new: "out = r1 @ new"
    "length (filter (\<lambda>p. \<not> is_telephone_event p) new) \<le> (if f1 then 0 else 1)" by blast
  from s show ?case
  proof (cases rule: match_one_cases)
    case skip
    with new show ?thesis by auto
  next
    case (add q again)
    have tel: "is_telephone_event (negotiate_payload api q p2) = is_telephone_event q"
      by (rule is_telephone_event_mime) simp
    from add new tel show ?thesis
      by (intro exI [of _ "negotiate_payload api q p2 # new"]) (auto split: if_splits)
  qed
qed simp

lemma add_remaining_extends: "\<exists>more. add_remaining local res = res @ more"
  by (induction local res rule: add_remaining.induct) auto

lemma add_remaining_covers:
  "p \<in> set local \<Longrightarrow> pt_number p \<in> pt_number ` set (add_remaining local res)"
proof (induction local res rule: add_remaining.induct)
  case (2 p1 local res)
  let ?r = "if list_ex (\<lambda>p2. pt_number p2 = pt_number p1) res then res
        else res @ [p1\<lparr>pt_flags := {FLAG_CAN_RECV, FLAG_FROZEN_NUMBER} \<union> pt_flags p1\<rparr>]"
  show ?case
  proof (cases "p = p1")
    case False
    with 2 show ?thesis by simp
  next
    case True
    have "pt_number p1 \<in> pt_number ` set ?r" by (auto simp: list_ex_iff) (metis image_eqI)
    with add_remaining_extends [of local ?r] True show ?thesis by fastforce
  qed
qed simp

section \<open>Properties of the payload lists\<close>


text \<open>When the core is configured for one matching codec, an answer holds at most one
  payload besides telephone events.\<close>

theorem answer_at_most_one_codec:
  assumes "match_payloads api local offered False True = (local', answer)"
  shows "length (filter (\<lambda>p. \<not> is_telephone_event p) answer) \<le> 1"
proof -
  from assms obtain fc where
    m: "match_all api False True offered (local, [], False) = (local', answer, fc)"
    by (auto simp: match_payloads_def split: prod.splits)
  from match_all_one_codec [OF m] show ?thesis by auto
qed

text \<open>After reading a response every local payload number is in the result, so that the
  stream can decode whatever it proposed, even when the peer renumbered or dropped it.\<close>

theorem response_covers_local_numbers:
  assumes "match_payloads api local answered True one = (local', res)"
  shows "pt_number ` set local \<subseteq> pt_number ` set res"
proof -
  from assms obtain out fc where
    m: "match_all api True one answered (local, [], False) = (local', out, fc)"
    and r: "res = add_remaining local' out"
    by (auto simp: match_payloads_def split: prod.splits)
  have "pt_number ` set local = pt_number ` set local'"
  proof -
    have "map pt_number (map forget_channels local') = map pt_number (map forget_channels local)"
      by (simp add: match_all_frame [OF m])
    then have "map pt_number local' = map pt_number local"
      by (simp add: forget_channels_def comp_def)
    then show ?thesis by (metis list.set_map)
  qed
  then show ?thesis using add_remaining_covers [of _ local' out] r by auto
qed

text \<open>The AVPF report interval of a negotiated payload is the local one whatever the peer
  asks for: the comparison reads the interval of the local payload, of which the result is a
  copy.\<close>

lemma negotiated_trr_is_local:
  "avpf_trr_interval (pt_avpf (negotiate_payload api matched p2)) = avpf_trr_interval (pt_avpf matched)"
  by (simp add: negotiate_payload_def Let_def split: option.splits)

section \<open>Crypto suites and directions\<close>

lemma match_crypto_algo_None:
  "match_crypto_algo local remote key = None \<Longrightarrow>
   r \<in> set (takeWhile (\<lambda>r. cr_algo r \<noteq> 0) remote) \<Longrightarrow> cr_algo r \<notin> cr_algo ` set local"
  by (induction local remote key rule: match_crypto_algo.induct)
    (auto simp: find_None_iff split: if_splits option.splits)

text \<open>The suite selected for SRTP is the first of the remote list, up to its end marker,
  that the local list has; the answerer puts its own key under the remote tag, the offerer
  keeps the remote key under its own tag, and both remember the local tag.\<close>

theorem crypto_choice:
  assumes "match_crypto_algo local remote use_local_key = Some (c, tag)"
  shows "\<exists>pre r post l. remote = pre @ r # post \<and> l \<in> set local
     \<and> (\<forall>x \<in> set pre. cr_algo x \<noteq> 0 \<and> cr_algo x \<notin> cr_algo ` set local)
     \<and> cr_algo r \<noteq> 0 \<and> cr_algo l = cr_algo r \<and> cr_algo c = cr_algo r \<and> tag = cr_tag l
     \<and> (if use_local_key then cr_tag c = cr_tag r \<and> cr_master_key c = take 128 (cr_master_key l)
        else cr_tag c = cr_tag l \<and> cr_master_key c = take 128 (cr_master_key r))"
  using assms
proof (induction local remote use_local_key rule: match_crypto_algo.induct)
  case (1 local key)
  then show ?case by simp
next
  case (2 local r remote key)
  from "2.prems" have nz: "cr_algo r \<noteq> 0" by (auto split: if_splits)
  show ?case
  proof (cases "find (\<lambda>l. cr_algo r = cr_algo l) local")
    case None
    with "2.prems" nz have "match_crypto_algo local remote key = Some (c, tag)" by simp
    with "2.IH" nz None obtain pre r' post l where
      h: "remote = pre @ r' # post" "l \<in> set local"
        "\<forall>x \<in> set pre. cr_algo x \<noteq> 0 \<and> cr_algo x \<notin> cr_algo ` set local"
        "cr_algo r' \<noteq> 0 \<and> cr_algo l = cr_algo r' \<and> cr_algo c = cr_algo r' \<and> tag = cr_tag l
         \<and> (if key then cr_tag c = cr_tag r' \<and> cr_master_key c = take 128 (cr_master_key l)
            else cr_tag c = cr_tag l \<and> cr_master_key c = take 128 (cr_master_key r'))" by blast
    from None have "cr_algo r \<notin> cr_algo ` set local" by (auto simp: find_None_iff)
    with h nz show ?thesis by (intro exI [of _ "r # pre"] exI [of _ r'] exI [of _ post] exI [of _ l]) auto
  next
    case (Some l)
    then have "l \<in> set local" "cr_algo r = cr_algo l"
      by (auto simp: find_Some_iff in_set_conv_nth)
    with Some "2.prems" nz show ?thesis
      by (intro exI [of _ "[]"] exI [of _ r] exI [of _ remote] exI [of _ l])
        (auto simp: strncpy_def split: if_splits)
  qed
qed

definition dir_sends :: "sal_stream_dir \<Rightarrow> bool" where
  "dir_sends d \<longleftrightarrow> d \<in> {SalStreamSendRecv, SalStreamSendOnly}"

definition dir_recvs :: "sal_stream_dir \<Rightarrow> bool" where
  "dir_recvs d \<longleftrightarrow> d \<in> {SalStreamSendRecv, SalStreamRecvOnly}"

fun dir_mirror :: "sal_stream_dir \<Rightarrow> sal_stream_dir" where
  "dir_mirror SalStreamSendOnly = SalStreamRecvOnly"
| "dir_mirror SalStreamRecvOnly = SalStreamSendOnly"
| "dir_mirror d = d"

text \<open>The answered direction is the exact meet of the two capabilities: the answerer sends
  just when it can send and the offerer receives, and receives just when it can receive and
  the offerer sends.\<close>

theorem answered_direction_exact:
  "(dir_sends (compute_dir_incoming local offered) \<longleftrightarrow> dir_sends local \<and> dir_recvs offered)
   \<and> (dir_recvs (compute_dir_incoming local offered) \<longleftrightarrow> dir_recvs local \<and> dir_sends offered)"
  by (cases local; cases offered; simp add: compute_dir_incoming_def dir_sends_def dir_recvs_def)

text \<open>C31. Offerer and answerer agree on the direction of a stream: what the offerer computes
  from the answer is the mirror image of what the answerer computed from the offer.\<close>

theorem directions_agree:
  "compute_dir_outgoing offered (compute_dir_incoming local offered)
     = dir_mirror (compute_dir_incoming local offered)"
  by (cases local; cases offered; simp add: compute_dir_incoming_def compute_dir_outgoing_def)

end
