(* ===== verification/AnswerProps.thy ===== *)
theory AnswerProps
  imports OfferAnswerProps
begin

text \<open>
  Properties of one answered stream and of a whole answer: what an accepted stream guarantees,
  that every offered line is answered on its own, and where the code departs from what its
  comments announce.
\<close>


section \<open>One answered stream\<close>

lemma crypto_result_port: "sd_rtp_port (crypto_result m r) \<noteq> 0 \<Longrightarrow> \<exists>c tag. m = Some (c, tag) \<and> sd_rtp_port (crypto_result m r) = sd_rtp_port r"
  by (cases m) (auto simp: crypto_result_def)

lemma crypto_result_frame [simp]:
  "sd_payloads (crypto_result m r) = sd_payloads r" "sd_type (crypto_result m r) = sd_type r"
  "sd_proto (crypto_result m r) = sd_proto r" "sd_dir (crypto_result m r) = sd_dir r"
  "sd_rtp_addr (crypto_result m r) = sd_rtp_addr r"
  by (cases m; auto simp: crypto_result_def)+

lemma has_srtp_proto: "sd_proto a = sd_proto b \<Longrightarrow> sal_stream_description_has_srtp a = sal_stream_description_has_srtp b"
  by (simp add: sal_stream_description_has_srtp_def)

lemma incoming_media_frame [simp]:
  "sd_payloads (incoming_media lc ro r) = sd_payloads r" "sd_type (incoming_media lc ro r) = sd_type r"
  "sd_proto (incoming_media lc ro r) = sd_proto r" "sd_dir (incoming_media lc ro r) = sd_dir r"
  "sd_name (incoming_media lc ro r) = sd_name lc" "sd_rtp_addr (incoming_media lc ro r) = sd_rtp_addr r"
  by (simp_all add: incoming_media_def Let_def)

lemma incoming_media_port:
  "sd_rtp_port (incoming_media lc ro r) = sd_rtp_port (if sal_stream_description_has_srtp r
      then crypto_result (match_crypto_algo (sd_crypto lc) (sd_crypto ro) True) r else r)"
  by (simp add: incoming_media_def Let_def)

lemma incoming_media_crypto:
  "sd_crypto (incoming_media lc ro r) = sd_crypto (if sal_stream_description_has_srtp r
      then crypto_result (match_crypto_algo (sd_crypto lc) (sd_crypto ro) True) r else r)"
  by (simp add: incoming_media_def Let_def)

lemma incoming_base_frame [simp]:
  "sd_payloads (incoming_base lc ro pl r) = pl" "sd_type (incoming_base lc ro pl r) = sd_type lc"
  "sd_proto (incoming_base lc ro pl r) = sd_proto ro"
  "sd_dir (incoming_base lc ro pl r) = compute_dir_incoming (sd_dir lc) (sd_dir ro)"
  by (simp_all add: incoming_base_def)

lemma incoming_multicast_frame [simp]:
  "sd_payloads (incoming_multicast ro r) = sd_payloads r" "sd_type (incoming_multicast ro r) = sd_type r"
  "sd_proto (incoming_multicast ro r) = sd_proto r"
  by (simp_all add: incoming_multicast_def)

lemma incoming_unicast_frame [simp]:
  "sd_payloads (incoming_unicast lc r) = sd_payloads r" "sd_type (incoming_unicast lc r) = sd_type r"
  "sd_proto (incoming_unicast lc r) = sd_proto r" "sd_dir (incoming_unicast lc r) = sd_dir r"
  "sd_rtp_port (incoming_unicast lc r) = sd_rtp_port lc" "sd_rtp_addr (incoming_unicast lc r) = sd_rtp_addr lc"
  by (simp_all add: incoming_unicast_def)

definition offered_multicast :: "ortp_api \<Rightarrow> sal_stream_description \<Rightarrow> bool" where
  "offered_multicast api ro \<longleftrightarrow> sd_rtp_addr ro \<noteq> [] \<and> api_is_multicast api (sd_rtp_addr ro)"

text \<open>The three outcomes of one offered stream.\<close>

lemma initiate_incoming_cases:
  assumes "initiate_incoming api lc ro r0 one = (lc', r)"
    and "match_payloads api (sd_payloads lc) (sd_payloads ro) False one = (lp, pl)"
  obtains (declined) "r = (incoming_base lc ro pl r0)\<lparr>sd_rtp_port := 0\<rparr>"
  | (multicast) "pl \<noteq> []" "\<not> only_telephone_event pl" "sd_rtp_port ro \<noteq> 0" "sd_dir ro \<noteq> SalStreamRecvOnly"
      "offered_multicast api ro" "\<not> sal_stream_description_has_srtp ro"
      "r = incoming_media lc ro (incoming_multicast ro (incoming_base lc ro pl r0))"
  | (unicast) "pl \<noteq> []" "\<not> only_telephone_event pl" "sd_rtp_port ro \<noteq> 0" "sd_dir ro \<noteq> SalStreamRecvOnly"
      "\<not> offered_multicast api ro"
      "r = incoming_media lc ro (incoming_unicast lc (incoming_base lc ro pl r0))"
proof -
  have srtp: "sal_stream_description_has_srtp (incoming_base lc ro pl r0) = sal_stream_description_has_srtp ro"
    by (rule has_srtp_proto) simp
  let ?bad = "pl = [] \<or> only_telephone_event pl \<or> sd_rtp_port ro = 0 \<or> sd_dir ro = SalStreamRecvOnly"
  have "r = snd (initiate_incoming api lc ro r0 one)" using assms(1) by simp
  also have "\<dots> = (if ?bad then (incoming_base lc ro pl r0)\<lparr>sd_rtp_port := 0\<rparr>
      else if offered_multicast api ro then
        if sal_stream_description_has_srtp ro then (incoming_base lc ro pl r0)\<lparr>sd_rtp_port := 0\<rparr>
        else incoming_media lc ro (incoming_multicast ro (incoming_base lc ro pl r0))
      else incoming_media lc ro (incoming_unicast lc (incoming_base lc ro pl r0)))"
    unfolding initiate_incoming_def assms(2) prod.case snd_conv Let_def srtp offered_multicast_def
    by (rule refl)
  finally have r: "r = (if ?bad then (incoming_base lc ro pl r0)\<lparr>sd_rtp_port := 0\<rparr>
      else if offered_multicast api ro then
        if sal_stream_description_has_srtp ro then (incoming_base lc ro pl r0)\<lparr>sd_rtp_port := 0\<rparr>
        else incoming_media lc ro (incoming_multicast ro (incoming_base lc ro pl r0))
      else incoming_media lc ro (incoming_unicast lc (incoming_base lc ro pl r0)))" .
  show thesis
  proof (cases ?bad)
    case True
    with r show thesis by (intro declined) simp
  next
    case nb: False
    show thesis
    proof (cases "offered_multicast api ro")
      case False
      with nb r show thesis by (intro unicast) simp_all
    next
      case mc: True
      show thesis
      proof (cases "sal_stream_description_has_srtp ro")
        case True
        with nb mc r show thesis by (intro declined) simp
      next
        case False
        with nb mc r show thesis by (intro multicast) simp_all
      qed
    qed
  qed
qed

lemma initiate_incoming_frame:
  assumes "initiate_incoming api lc ro r0 one = (lc', r)"
  shows "sd_type r = sd_type lc" "sd_proto r = sd_proto ro" "\<exists>lp. lc' = lc\<lparr>sd_payloads := lp\<rparr>"
    "sd_payloads r = snd (match_payloads api (sd_payloads lc) (sd_payloads ro) False one)"
proof -
  obtain lp pl where m: "match_payloads api (sd_payloads lc) (sd_payloads ro) False one = (lp, pl)" by fastforce
  show "sd_type r = sd_type lc" by (rule initiate_incoming_cases [OF assms m]) simp_all
  show "sd_proto r = sd_proto ro" by (rule initiate_incoming_cases [OF assms m]) simp_all
  show "sd_payloads r = snd (match_payloads api (sd_payloads lc) (sd_payloads ro) False one)"
    by (rule initiate_incoming_cases [OF assms m]) (simp_all add: m)
  from assms m show "\<exists>lp. lc' = lc\<lparr>sd_payloads := lp\<rparr>" by (auto simp: initiate_incoming_def)
qed

lemma only_telephone_event_iff: "only_telephone_event l \<longleftrightarrow> (\<forall>p \<in> set l. is_telephone_event p)"
  by (induction l) auto

text \<open>C6. An offered stream that is accepted (its answer has a port) was itself active and not
  receive-only, has a real codec in common with the answerer, and, when its profile is SRTP,
  carries in its first crypto slot the suite selected from the offer.\<close>

theorem accepted_stream_sound:
  assumes "initiate_incoming api lc ro r0 one = (lc', r)" and "sd_rtp_port r \<noteq> 0"
  shows "sd_rtp_port ro \<noteq> 0 \<and> sd_dir ro \<noteq> SalStreamRecvOnly
    \<and> (\<exists>p \<in> set (sd_payloads r). \<not> is_telephone_event p \<and> negotiated_from (sd_payloads lc) (sd_payloads ro) p)
    \<and> (sal_stream_description_has_srtp ro \<longrightarrow>
        (\<exists>c tag. match_crypto_algo (sd_crypto lc) (sd_crypto ro) True = Some (c, tag) \<and> hd (sd_crypto r) = c))"
proof -
  obtain lp pl where m: "match_payloads api (sd_payloads lc) (sd_payloads ro) False one = (lp, pl)" by fastforce
  obtain r1 where r1: "r = incoming_media lc ro r1" "sd_proto r1 = sd_proto ro" "sd_payloads r1 = pl"
    and ok: "\<not> only_telephone_event pl" "sd_rtp_port ro \<noteq> 0" "sd_dir ro \<noteq> SalStreamRecvOnly"
  proof (rule initiate_incoming_cases [OF assms(1) m])
    assume "r = (incoming_base lc ro pl r0)\<lparr>sd_rtp_port := 0\<rparr>"
    with assms(2) show thesis by simp
  next
    assume "\<not> only_telephone_event pl" "sd_rtp_port ro \<noteq> 0" "sd_dir ro \<noteq> SalStreamRecvOnly"
      "r = incoming_media lc ro (incoming_multicast ro (incoming_base lc ro pl r0))"
    then show thesis by (intro that [of "incoming_multicast ro (incoming_base lc ro pl r0)"]) simp_all
  next
    assume "\<not> only_telephone_event pl" "sd_rtp_port ro \<noteq> 0" "sd_dir ro \<noteq> SalStreamRecvOnly"
      "r = incoming_media lc ro (incoming_unicast lc (incoming_base lc ro pl r0))"
    then show thesis by (intro that [of "incoming_unicast lc (incoming_base lc ro pl r0)"]) simp_all
  qed
  obtain fc where o: "match_all api False one (sd_payloads ro) (sd_payloads lc, [], False) = (lp, pl, fc)"
    using m by (auto simp: match_payloads_def split: prod.splits)
  from match_all_origin [OF o] have "\<forall>p \<in> set pl. negotiated_from (sd_payloads lc) (sd_payloads ro) p" by auto
  moreover have "\<exists>p \<in> set pl. \<not> is_telephone_event p" using ok by (auto simp: only_telephone_event_iff)
  moreover have "\<exists>c tag. match_crypto_algo (sd_crypto lc) (sd_crypto ro) True = Some (c, tag) \<and> hd (sd_crypto r) = c"
    if "sal_stream_description_has_srtp ro"
  proof -
    from that r1 have s: "sal_stream_description_has_srtp r1" using has_srtp_proto by blast
    have "sd_rtp_port (crypto_result (match_crypto_algo (sd_crypto lc) (sd_crypto ro) True) r1) \<noteq> 0"
      using assms(2) r1(1) s by (simp add: incoming_media_port)
    from crypto_result_port [OF this] obtain c tag where
      "match_crypto_algo (sd_crypto lc) (sd_crypto ro) True = Some (c, tag)" by blast
    with s r1 show ?thesis by (simp add: incoming_media_crypto crypto_result_def)
  qed
  ultimately show ?thesis using ok r1 by auto
qed

section \<open>A whole answer\<close>

definition forget_payloads :: "sal_stream_description \<Rightarrow> sal_stream_description" where
  "forget_payloads s = s\<lparr>sd_payloads := []\<rparr>"

text \<open>What the loop looks for among the local streams when no stream is used up.\<close>

definition choose_local :: "sal_stream_description list \<Rightarrow> sal_stream_description \<Rightarrow> nat option" where
  "choose_local locals rs = first_index (\<lambda>ss. sal_stream_description_active ss \<and> sd_type ss = sd_type rs
     \<and> proto_compatible (sd_proto ss) (sd_proto rs)) 0 locals"

lemma find_local_fresh:
  "md_nb_streams result = 0 \<Longrightarrow> find_local_matching_stream result locals rs = choose_local locals rs"
  by (simp add: find_local_matching_stream_def choose_local_def local_stream_not_already_used_def used_streams_def)

lemma first_index_via:
  assumes "map f xs = map f ys" and "\<And>x. p (f x) = p x"
  shows "first_index p i xs = first_index p i ys"
proof (rule first_index_cong)
  have "map p xs = map p (map f xs)" "map p ys = map p (map f ys)"
    using assms(2) by simp_all
  with assms(1) show "map p xs = map p ys" by simp
qed

lemma choose_local_cong:
  assumes "map forget_payloads l1 = map forget_payloads l2"
  shows "choose_local l1 rs = choose_local l2 rs"
  unfolding choose_local_def
  by (rule first_index_via [OF assms]) (simp add: forget_payloads_def sal_stream_description_active_def)

text \<open>The local stream each line is treated with.  A line of unknown protocol keeps the one of
  the line before it, because the variable that holds it is set outside the loop.\<close>

fun line_choices :: "sal_stream_description list \<Rightarrow> nat option \<Rightarrow> sal_stream_description list \<Rightarrow> nat option list" where
  "line_choices locals ls [] = []"
| "line_choices locals ls (rs # remotes) =
     (let ls = (if sd_proto rs \<noteq> SalProtoOther then choose_local locals rs else ls)
      in ls # line_choices locals ls remotes)"

lemma line_choices_known:
  "n < length remotes \<Longrightarrow> sd_proto (remotes ! n) \<noteq> SalProtoOther \<Longrightarrow>
   line_choices locals ls remotes ! n = choose_local locals (remotes ! n)"
  by (induction remotes arbitrary: ls n) (auto simp: Let_def nth_Cons split: nat.splits)

lemma line_choices_unknown:
  "Suc n < length remotes \<Longrightarrow> sd_proto (remotes ! Suc n) = SalProtoOther \<Longrightarrow>
   line_choices locals ls remotes ! Suc n = line_choices locals ls remotes ! n"
proof (induction remotes arbitrary: ls n)
  case (Cons rs remotes)
  show ?case
  proof (cases n)
    case 0
    with Cons.prems show ?thesis by (cases remotes) (auto simp: Let_def)
  next
    case (Suc m)
    with Cons show ?thesis by (simp add: Let_def)
  qed
qed simp

lemma line_choices_valid:
  "Some k \<in> set (line_choices locals ls remotes) \<Longrightarrow> (\<And>j. ls = Some j \<Longrightarrow> j < length locals) \<Longrightarrow> k < length locals"
proof (induction remotes arbitrary: ls)
  case (Cons rs remotes)
  have "j < length locals" if "choose_local locals rs = Some j" for j
    using that unfolding choose_local_def by (auto dest: first_index_SomeD)
  with Cons show ?case by (auto simp: Let_def split: if_splits)
qed simp

lemma line_choices_cong:
  assumes "map forget_payloads l1 = map forget_payloads l2"
  shows "line_choices l1 ls remotes = line_choices l2 ls remotes"
proof -
  have "choose_local l1 = choose_local l2" using choose_local_cong [OF assms] by (rule ext)
  then show ?thesis by (induction remotes arbitrary: ls) (simp_all add: Let_def)
qed

text \<open>The answer \<open>r\<close> to one offered stream: declined when there is no local stream for it, and
  otherwise negotiated with a local stream that agrees with the chosen one except for the
  channel counts of its payloads.\<close>

definition stream_answered :: "ortp_api \<Rightarrow> bool \<Rightarrow> sal_media_description \<Rightarrow> sal_stream_description list
    \<Rightarrow> nat option \<Rightarrow> sal_stream_description \<Rightarrow> sal_stream_description \<Rightarrow> sal_stream_description \<Rightarrow> bool" where
  "stream_answered api one lc locals choice rs r0 r = (case choice of
      None \<Rightarrow> r = decline_stream rs r0
    | Some k \<Rightarrow> \<exists>l. forget_payloads l = forget_payloads (locals ! k)
        \<and> r = (snd (initiate_incoming api l rs r0 one))\<lparr>sd_rtcp_xr := answer_rtcp_xr lc l rs\<rparr>)"

lemma stream_answered_cong:
  assumes "map forget_payloads l1 = map forget_payloads l2" and "\<And>k. choice = Some k \<Longrightarrow> k < length l1"
  shows "stream_answered api one lc l1 choice rs r0 r = stream_answered api one lc l2 choice rs r0 r"
proof (cases choice)
  case None
  then show ?thesis by (simp add: stream_answered_def)
next
  case (Some k)
  with assms(2) have "k < length l1" by simp
  moreover have "length l1 = length l2" using assms(1) by (metis length_map)
  ultimately have "forget_payloads (l1 ! k) = forget_payloads (l2 ! k)"
    using assms(1) by (metis nth_map)
  with Some show ?thesis by (simp add: stream_answered_def)
qed

lemma line_choices_length [simp]: "length (line_choices locals ls remotes) = length remotes"
  by (induction remotes arbitrary: ls) (simp_all add: Let_def)

lemma incoming_loop_step:
  assumes "md_nb_streams result = 0" and "i < length results" and "\<And>j. ls = Some j \<Longrightarrow> j < length locals"
    and "ls' = (if sd_proto rs \<noteq> SalProtoOther then choose_local locals rs else ls)"
  obtains locals1 r1 where "map forget_payloads locals1 = map forget_payloads locals"
    "stream_answered api one lc locals ls' rs (results ! i) r1"
    "incoming_loop api one lc result i ls locals (rs # remotes) results =
       incoming_loop api one lc result (Suc i) ls' locals1 remotes (results[i := r1])"
proof -
  have e: "(if sd_proto rs \<noteq> SalProtoOther then find_local_matching_stream (result\<lparr>md_streams := results\<rparr>) locals rs
      else ls) = ls'"
    using assms(1,4) by (simp add: find_local_fresh)
  show thesis
  proof (cases ls')
  case None
  with e have "incoming_loop api one lc result i ls locals (rs # remotes) results =
       incoming_loop api one lc result (Suc i) ls' locals remotes (results[i := decline_stream rs (results ! i)])"
    by simp
  moreover from None have "stream_answered api one lc locals ls' rs (results ! i) (decline_stream rs (results ! i))"
    by (simp add: stream_answered_def)
  ultimately show thesis by (intro that [of locals "decline_stream rs (results ! i)"]) simp_all
next
  case (Some k)
  obtain l' r where inc: "initiate_incoming api (locals ! k) rs (results ! i) one = (l', r)" by fastforce
  then have "forget_payloads l' = forget_payloads (locals ! k)"
    using initiate_incoming_frame(3) [OF inc] by (auto simp: forget_payloads_def)
  then have "map forget_payloads (locals[k := l']) = map forget_payloads locals"
    by (metis list_update_id map_update)
  moreover from Some inc have "stream_answered api one lc locals ls' rs (results ! i)
      (r\<lparr>sd_rtcp_xr := answer_rtcp_xr lc (locals ! k) rs\<rparr>)"
    by (auto simp: stream_answered_def intro!: exI [of _ "locals ! k"])
  moreover have "incoming_loop api one lc result i ls locals (rs # remotes) results =
       incoming_loop api one lc result (Suc i) ls' (locals[k := l']) remotes
         (results[i := r\<lparr>sd_rtcp_xr := answer_rtcp_xr lc (locals ! k) rs\<rparr>])"
    using e Some inc by simp
  ultimately show thesis by (rule that)
  qed
qed

lemma incoming_loop_spec:
  assumes "md_nb_streams result = 0" and "\<And>j. ls = Some j \<Longrightarrow> j < length locals"
    and "incoming_loop api one lc result i ls locals remotes results = (locals', results')"
    and "i + length remotes \<le> length results"
  shows "length results' = length results
    \<and> (\<forall>j < i. results' ! j = results ! j)
    \<and> (\<forall>n < length remotes. stream_answered api one lc locals (line_choices locals ls remotes ! n)
         (remotes ! n) (results ! (i + n)) (results' ! (i + n)))"
  using assms(2-)
proof (induction remotes arbitrary: i ls locals results)
  case Nil
  then show ?case by simp
next
  case (Cons rs remotes)
  define ls' where "ls' = (if sd_proto rs \<noteq> SalProtoOther then choose_local locals rs else ls)"
  from Cons.prems(3) have i: "i < length results" by simp
  obtain locals1 r1 where step: "map forget_payloads locals1 = map forget_payloads locals"
    "stream_answered api one lc locals ls' rs (results ! i) r1"
    "incoming_loop api one lc result i ls locals (rs # remotes) results =
       incoming_loop api one lc result (Suc i) ls' locals1 remotes (results[i := r1])"
    by (rule incoming_loop_step [OF assms(1) i Cons.prems(1) ls'_def])
  have len1: "length locals1 = length locals" using step(1) by (metis length_map)
  have ls': "j < length locals" if "ls' = Some j" for j
    using that Cons.prems(1) by (auto simp: ls'_def choose_local_def dest: first_index_SomeD split: if_splits)
  have rest: "length results' = length (results[i := r1]) \<and> (\<forall>j < Suc i. results' ! j = results[i := r1] ! j)
    \<and> (\<forall>n < length remotes. stream_answered api one lc locals1 (line_choices locals1 ls' remotes ! n)
        (remotes ! n) (results[i := r1] ! (Suc i + n)) (results' ! (Suc i + n)))"
    by (rule Cons.IH) (use Cons.prems step(3) len1 ls' in auto)
  have ch: "line_choices locals ls (rs # remotes) = ls' # line_choices locals ls' remotes"
    by (simp add: ls'_def Let_def)
  show ?case
  proof (intro conjI allI impI)
    show "length results' = length results" using rest by simp
  next
    fix j assume "j < i"
    then show "results' ! j = results ! j" using rest by simp
  next
    fix n assume n: "n < length (rs # remotes)"
    show "stream_answered api one lc locals (line_choices locals ls (rs # remotes) ! n)
        ((rs # remotes) ! n) (results ! (i + n)) (results' ! (i + n))"
    proof (cases n)
      case 0
      with rest i step(2) ch show ?thesis by simp
    next
      case (Suc m)
      let ?c = "line_choices locals ls' remotes ! m"
      have valid: "k < length locals1" if "?c = Some k" for k
        using that Suc n len1 ls' line_choices_valid [of k locals ls' remotes] by (metis Suc_less_eq length_Cons line_choices_length nth_mem)
      from Suc n rest have "stream_answered api one lc locals1 ?c (remotes ! m) (results[i := r1] ! (Suc i + m)) (results' ! (Suc i + m))"
        by (simp add: line_choices_cong [OF step(1)])
      then show ?thesis using Suc ch stream_answered_cong [OF step(1) valid] by simp
    qed
  qed
qed

lemma decline_stream_frame [simp]:
  "sd_type (decline_stream rs r0) = sd_type rs" "sd_proto (decline_stream rs r0) = sd_proto rs"
  "sd_rtp_port (decline_stream rs r0) = 0" "sd_dir (decline_stream rs r0) = SalStreamInactive"
  by (simp_all add: decline_stream_def Let_def)

lemma choose_local_valid:
  assumes "choose_local locals rs = Some k"
  shows "k < length locals" "sd_type (locals ! k) = sd_type rs" "sal_stream_description_active (locals ! k)"
  using assms unfolding choose_local_def by (auto dest!: first_index_SomeD)

lemma stream_answered_proto:
  assumes "stream_answered api one lc locals choice rs r0 r"
  shows "sd_proto r = sd_proto rs"
proof (cases choice)
  case None
  with assms show ?thesis by (simp add: stream_answered_def)
next
  case (Some k)
  with assms obtain l where l: "r = (snd (initiate_incoming api l rs r0 one))\<lparr>sd_rtcp_xr := answer_rtcp_xr lc l rs\<rparr>"
    by (auto simp: stream_answered_def)
  obtain l' r' where i: "initiate_incoming api l rs r0 one = (l', r')" by fastforce
  with l initiate_incoming_frame(2) [OF i] show ?thesis by simp
qed

lemma stream_answered_type:
  assumes "stream_answered api one lc locals choice rs r0 r"
  shows "sd_type r = (case choice of None \<Rightarrow> sd_type rs | Some k \<Rightarrow> sd_type (locals ! k))"
proof (cases choice)
  case None
  with assms show ?thesis by (simp add: stream_answered_def)
next
  case (Some k)
  with assms obtain l where l: "forget_payloads l = forget_payloads (locals ! k)"
    "r = (snd (initiate_incoming api l rs r0 one))\<lparr>sd_rtcp_xr := answer_rtcp_xr lc l rs\<rparr>"
    by (auto simp: stream_answered_def)
  have "sd_type (forget_payloads l) = sd_type (forget_payloads (locals ! k))" by (simp add: l(1))
  then have "sd_type l = sd_type (locals ! k)" by (simp add: forget_payloads_def)
  moreover obtain l' r' where i: "initiate_incoming api l rs r0 one = (l', r')" by fastforce
  ultimately show ?thesis using Some l(2) initiate_incoming_frame(1) [OF i] by simp
qed

lemma fresh_answer:
  "md_nb_streams sal_media_description_new = 0" "length (md_streams sal_media_description_new) = 8"
  "n < 8 \<Longrightarrow> md_streams sal_media_description_new ! n = stream_zero"
  by (simp_all add: sal_media_description_new_def SAL_MEDIA_DESCRIPTION_MAX_STREAMS_def)

lemma used_streams_length: "md_shape md \<Longrightarrow> length (used_streams md) = md_nb_streams md"
  by (simp add: md_shape_def used_streams_def)

lemma md_shape_le: "md_shape md \<Longrightarrow> n < md_nb_streams md \<Longrightarrow> n < 8"
  by (simp add: md_shape_def SAL_MEDIA_DESCRIPTION_MAX_STREAMS_def)

lemma answer_streams:
  assumes "md_shape ro"
    and "offer_answer_initiate_incoming api lc ro sal_media_description_new one = (lc', ans)"
    and "n < md_nb_streams ro"
  shows "stream_answered api one lc (used_streams lc) (line_choices (used_streams lc) None (used_streams ro) ! n)
      (used_streams ro ! n) stream_zero (md_streams ans ! n)"
proof -
  let ?new = sal_media_description_new
  obtain locals results where
    il: "incoming_loop api one lc ?new 0 None (used_streams lc) (used_streams ro) (md_streams ?new) = (locals, results)"
    by fastforce
  from assms(2) il have "md_streams ans = results" by (auto simp: offer_answer_initiate_incoming_def Let_def)
  moreover have "0 + length (used_streams ro) \<le> length (md_streams ?new)"
    using assms(1) by (simp add: used_streams_length md_shape_def sal_media_description_new_def)
  moreover have n: "n < length (used_streams ro)" "n < 8"
    using assms(1,3) md_shape_le by (simp_all add: used_streams_length)
  ultimately show ?thesis
    using incoming_loop_spec [OF fresh_answer(1) _ il, THEN conjunct2, THEN conjunct2, rule_format, OF _ _ n(1)]
    by (simp add: fresh_answer(3) [OF n(2)])
qed

lemma answer_count:
  "offer_answer_initiate_incoming api lc ro result one = (lc', ans) \<Longrightarrow> md_nb_streams ans = md_nb_streams ro"
  by (auto simp: offer_answer_initiate_incoming_def Let_def split: prod.splits)

lemma answer_streams_known:
  assumes "md_shape ro"
    and "offer_answer_initiate_incoming api lc ro sal_media_description_new one = (lc', ans)"
    and "n < md_nb_streams ro" and "sd_proto (used_streams ro ! n) \<noteq> SalProtoOther"
  shows "stream_answered api one lc (used_streams lc) (choose_local (used_streams lc) (used_streams ro ! n))
      (used_streams ro ! n) stream_zero (md_streams ans ! n)"
  using answer_streams [OF assms(1-3)] assms(1,3,4) by (simp add: line_choices_known used_streams_length)

text \<open>C5. An answer has one line per offered line, of the same profile, and every line of a known
  profile is answered on its own and with its own media type: it is declined when no active
  local stream of that type has a compatible profile, and otherwise negotiated with the first
  such local stream.\<close>

theorem answer_line_by_line:
  assumes "md_shape ro"
    and "offer_answer_initiate_incoming api lc ro sal_media_description_new one = (lc', ans)"
  shows "md_nb_streams ans = md_nb_streams ro \<and> (\<forall>n < md_nb_streams ro.
      sd_proto (md_streams ans ! n) = sd_proto (used_streams ro ! n)
      \<and> (sd_proto (used_streams ro ! n) \<noteq> SalProtoOther \<longrightarrow>
          sd_type (md_streams ans ! n) = sd_type (used_streams ro ! n)
          \<and> stream_answered api one lc (used_streams lc) (choose_local (used_streams lc) (used_streams ro ! n))
              (used_streams ro ! n) stream_zero (md_streams ans ! n)))"
proof (intro conjI allI impI)
  show "md_nb_streams ans = md_nb_streams ro" by (rule answer_count [OF assms(2)])
  fix n assume n: "n < md_nb_streams ro"
  show "sd_proto (md_streams ans ! n) = sd_proto (used_streams ro ! n)"
    by (rule stream_answered_proto [OF answer_streams [OF assms n]])
  assume known: "sd_proto (used_streams ro ! n) \<noteq> SalProtoOther"
  show a: "stream_answered api one lc (used_streams lc) (choose_local (used_streams lc) (used_streams ro ! n))
      (used_streams ro ! n) stream_zero (md_streams ans ! n)"
    by (rule answer_streams_known [OF assms n known])
  from stream_answered_type [OF a]
  show "sd_type (md_streams ans ! n) = sd_type (used_streams ro ! n)"
    by (auto split: option.splits dest: choose_local_valid(2))
qed

text \<open>A line of unknown profile is not always declined: it is treated with the local stream of
  the line before it, whatever their media types, and so it is declined just when that line had
  no local stream.\<close>

theorem unknown_line_keeps_previous_choice:
  assumes "md_shape ro"
    and "offer_answer_initiate_incoming api lc ro sal_media_description_new one = (lc', ans)"
    and "Suc n < md_nb_streams ro" and "sd_proto (used_streams ro ! Suc n) = SalProtoOther"
    and "sd_proto (used_streams ro ! n) \<noteq> SalProtoOther"
  shows "stream_answered api one lc (used_streams lc) (choose_local (used_streams lc) (used_streams ro ! n))
      (used_streams ro ! Suc n) stream_zero (md_streams ans ! Suc n)"
  using answer_streams [OF assms(1-3)] assms by (simp add: line_choices_unknown line_choices_known used_streams_length)

lemma unicast_answer_source:
  assumes "stream_answered api one lc locals choice rs r0 r" and "sd_rtp_port r \<noteq> 0" and "\<not> offered_multicast api rs"
  shows "\<exists>k. choice = Some k \<and> sd_name r = sd_name (locals ! k)
     \<and> sd_rtp_addr r = sd_rtp_addr (locals ! k) \<and> sd_rtp_port r = sd_rtp_port (locals ! k)"
proof (cases choice)
  case None
  with assms(1) have "r = decline_stream rs r0" by (simp add: stream_answered_def)
  with assms(2) show ?thesis by simp
next
  case (Some k)
  with assms obtain l where l: "forget_payloads l = forget_payloads (locals ! k)"
    "r = (snd (initiate_incoming api l rs r0 one))\<lparr>sd_rtcp_xr := answer_rtcp_xr lc l rs\<rparr>"
    by (auto simp: stream_answered_def)
  obtain l' r' where i: "initiate_incoming api l rs r0 one = (l', r')" by fastforce
  obtain lp pl where m: "match_payloads api (sd_payloads l) (sd_payloads rs) False one = (lp, pl)" by fastforce
  have same: "sd_name l = sd_name (locals ! k)" "sd_rtp_addr l = sd_rtp_addr (locals ! k)"
    "sd_rtp_port l = sd_rtp_port (locals ! k)"
    using arg_cong [OF l(1), of sd_name] arg_cong [OF l(1), of sd_rtp_addr] arg_cong [OF l(1), of sd_rtp_port]
    by (simp_all add: forget_payloads_def)
  have r: "sd_rtp_port r = sd_rtp_port r'" "sd_name r = sd_name r'" "sd_rtp_addr r = sd_rtp_addr r'"
    using l(2) i by simp_all
  show ?thesis
  proof (rule initiate_incoming_cases [OF i m])
    assume "r' = (incoming_base l rs pl r0)\<lparr>sd_rtp_port := 0\<rparr>"
    with assms(2) r(1) show ?thesis by simp
  next
    assume "offered_multicast api rs"
    with assms(3) show ?thesis by simp
  next
    assume r': "r' = incoming_media l rs (incoming_unicast l (incoming_base l rs pl r0))"
    let ?u = "incoming_unicast l (incoming_base l rs pl r0)"
    have "sd_rtp_port r' = sd_rtp_port l"
    proof (cases "sal_stream_description_has_srtp ?u")
      case True
      with assms(2) r(1) r' have
        "sd_rtp_port (crypto_result (match_crypto_algo (sd_crypto l) (sd_crypto rs) True) ?u) \<noteq> 0"
        by (simp add: incoming_media_port)
      from crypto_result_port [OF this] True r' show ?thesis by (auto simp: incoming_media_port)
    next
      case False
      with r' show ?thesis by (simp add: incoming_media_port)
    qed
    with r r' same Some show ?thesis by simp
  qed
qed

text \<open>Two lines of an offer with the same media type and profile are answered with the
  same local stream when both are accepted: same name, address and port.  The guard against
  using a local stream twice reads the number of streams of the answer, which stays 0 until
  the loop is over.\<close>

theorem same_kind_lines_share_port:
  assumes "md_shape ro"
    and "offer_answer_initiate_incoming api lc ro sal_media_description_new one = (lc', ans)"
    and "i < md_nb_streams ro" and "j < md_nb_streams ro"
    and "sd_proto (used_streams ro ! i) \<noteq> SalProtoOther"
    and "sd_type (used_streams ro ! i) = sd_type (used_streams ro ! j)"
    and "sd_proto (used_streams ro ! i) = sd_proto (used_streams ro ! j)"
    and "\<not> offered_multicast api (used_streams ro ! i)" and "\<not> offered_multicast api (used_streams ro ! j)"
    and "sd_rtp_port (md_streams ans ! i) \<noteq> 0" and "sd_rtp_port (md_streams ans ! j) \<noteq> 0"
  shows "sd_name (md_streams ans ! i) = sd_name (md_streams ans ! j)
    \<and> sd_rtp_addr (md_streams ans ! i) = sd_rtp_addr (md_streams ans ! j)
    \<and> sd_rtp_port (md_streams ans ! i) = sd_rtp_port (md_streams ans ! j)"
proof -
  have pj: "sd_proto (used_streams ro ! j) \<noteq> SalProtoOther" using assms(5,7) by simp
  have "choose_local (used_streams lc) (used_streams ro ! i) = choose_local (used_streams lc) (used_streams ro ! j)"
    using assms(6,7) by (simp add: choose_local_def)
  with unicast_answer_source [OF answer_streams_known [OF assms(1,2,3,5)] assms(10) assms(8)]
    unicast_answer_source [OF answer_streams_known [OF assms(1,2,4) pj] assms(11) assms(9)]
  show ?thesis by auto
qed

section \<open>The offerer's side\<close>

lemma outgoing_media_frame [simp]:
  "sd_payloads (outgoing_media lo ra r) = sd_payloads r" "sd_proto (outgoing_media lo ra r) = sd_proto r"
  "sd_type (outgoing_media lo ra r) = sd_type r" "sd_dir (outgoing_media lo ra r) = sd_dir r"
  by (simp_all add: outgoing_media_def Let_def)

lemma outgoing_media_accepted:
  assumes "sd_rtp_port (outgoing_media lo ra r) \<noteq> 0"
  shows "\<not> only_telephone_event (sd_payloads r)" "sd_rtp_port (outgoing_media lo ra r) = sd_rtp_port ra"
    "sd_rtp_addr (outgoing_media lo ra r) = sd_rtp_addr ra"
    "sal_stream_description_has_srtp r \<Longrightarrow> \<exists>c tag. match_crypto_algo (sd_crypto lo) (sd_crypto ra) False = Some (c, tag)
       \<and> hd (sd_crypto (outgoing_media lo ra r)) = c"
proof -
  define r1 where "r1 = (if sd_payloads r \<noteq> [] \<and> \<not> only_telephone_event (sd_payloads r) then
         r\<lparr>sd_rtp_addr := sd_rtp_addr ra, sd_rtcp_addr := sd_rtcp_addr ra,
           sd_rtp_port := sd_rtp_port ra, sd_rtcp_port := sd_rtcp_port ra,
           sd_bandwidth := sd_bandwidth ra, sd_ptime := sd_ptime ra\<rparr>
       else r\<lparr>sd_rtp_port := 0\<rparr>)"
  define r2 where "r2 = (if sal_stream_description_has_srtp r1
       then crypto_result (match_crypto_algo (sd_crypto lo) (sd_crypto ra) False) r1 else r1)"
  have m: "sd_rtp_port (outgoing_media lo ra r) = sd_rtp_port r2" "sd_rtp_addr (outgoing_media lo ra r) = sd_rtp_addr r2"
    "sd_crypto (outgoing_media lo ra r) = sd_crypto r2"
    by (simp_all add: outgoing_media_def Let_def r1_def r2_def)
  have p2: "sd_rtp_port r2 \<noteq> 0" using assms m by simp
  have p1: "sd_rtp_port r2 = sd_rtp_port r1" "sd_rtp_addr r2 = sd_rtp_addr r1"
    using p2 by (auto simp: r2_def dest!: crypto_result_port)
  then have ok: "sd_payloads r \<noteq> [] \<and> \<not> only_telephone_event (sd_payloads r)"
    using p2 by (auto simp: r1_def split: if_splits)
  then show "\<not> only_telephone_event (sd_payloads r)" "sd_rtp_port (outgoing_media lo ra r) = sd_rtp_port ra"
    "sd_rtp_addr (outgoing_media lo ra r) = sd_rtp_addr ra"
    using m p1 by (simp_all add: r1_def)
  assume "sal_stream_description_has_srtp r"
  then have s: "sal_stream_description_has_srtp r1" by (simp add: r1_def sal_stream_description_has_srtp_def)
  with p2 have "sd_rtp_port (crypto_result (match_crypto_algo (sd_crypto lo) (sd_crypto ra) False) r1) \<noteq> 0"
    by (simp add: r2_def)
  from crypto_result_port [OF this] s m show "\<exists>c tag. match_crypto_algo (sd_crypto lo) (sd_crypto ra) False = Some (c, tag)
       \<and> hd (sd_crypto (outgoing_media lo ra r)) = c"
    by (auto simp: r2_def crypto_result_def)
qed


lemma incoming_media_dtls:
  "sd_dtls_role lc \<noteq> SalDtlsRoleInvalid \<Longrightarrow> sd_dtls_role ro = SalDtlsRoleUnset \<Longrightarrow> sd_dtls_fingerprint lc \<noteq> [] \<Longrightarrow>
   sd_dtls_fingerprint ro \<noteq> [] \<Longrightarrow> sd_dtls_role (incoming_media lc ro r) = SalDtlsRoleIsClient
     \<and> sd_dtls_fingerprint (incoming_media lc ro r) = strncpy 256 (sd_dtls_fingerprint lc)"
  by (simp add: incoming_media_def Let_def)

lemma outgoing_media_dtls:
  "sd_dtls_role lo \<noteq> SalDtlsRoleInvalid \<Longrightarrow> sd_dtls_role ra = SalDtlsRoleIsClient \<Longrightarrow> sd_dtls_fingerprint lo \<noteq> [] \<Longrightarrow>
   sd_dtls_fingerprint ra \<noteq> [] \<Longrightarrow> sd_dtls_role (outgoing_media lo ra r) = SalDtlsRoleIsServer
     \<and> sd_dtls_fingerprint (outgoing_media lo ra r) = strncpy 256 (sd_dtls_fingerprint ra)"
  by (simp add: outgoing_media_def Let_def)

text \<open>The two ends of a DTLS stream take opposite roles: when the offer leaves the role open
  and both ends have a fingerprint, the answerer becomes the client, and an offerer that keeps
  the stream after reading that answer becomes the server and holds the answerer's fingerprint.\<close>

theorem dtls_roles_complement:
  assumes "initiate_incoming api lc ro r0 one = (lc', ans)" and "sd_rtp_port ans \<noteq> 0"
    and "initiate_outgoing api ro ans s0 = (ro', res)" and "sd_rtp_port res \<noteq> 0"
    and "sd_dtls_role ro = SalDtlsRoleUnset" and "sd_dtls_role lc \<noteq> SalDtlsRoleInvalid"
    and "sd_dtls_fingerprint lc \<noteq> []" and "sd_dtls_fingerprint ro \<noteq> []"
  shows "sd_dtls_role ans = SalDtlsRoleIsClient \<and> sd_dtls_role res = SalDtlsRoleIsServer
    \<and> sd_dtls_fingerprint res = strncpy 256 (sd_dtls_fingerprint lc)"
proof -
  obtain lp pl where m: "match_payloads api (sd_payloads lc) (sd_payloads ro) False one = (lp, pl)" by fastforce
  obtain r1 where "ans = incoming_media lc ro r1"
    by (rule initiate_incoming_cases [OF assms(1) m]) (use assms(2) in simp_all)
  then have ans: "sd_dtls_role ans = SalDtlsRoleIsClient" "sd_dtls_fingerprint ans = strncpy 256 (sd_dtls_fingerprint lc)"
    using incoming_media_dtls assms by auto
  then have fp: "sd_dtls_fingerprint ans \<noteq> []" using assms(7) by (simp add: strncpy_def)
  from assms(3,4) obtain r2 where "res = outgoing_media ro ans r2"
    by (auto simp: initiate_outgoing_def Let_def split: prod.splits if_splits)
  with outgoing_media_dtls [of ro ans r2] ans fp assms show ?thesis by (simp add: strncpy_def)
qed

text \<open>When an earlier offered stream has no answer, the result of a later one and its RTCP
  XR attribute part: the negotiated stream is stored at the position of the answer, with
  whatever attribute was there, while the attribute goes to the position of the offered
  stream.\<close>

theorem rtcp_xr_of_shifted_stream:
  assumes "used_streams lo = [a, v]" and "length (md_streams result) = 8"
    and "sal_media_description_find_stream ra (sd_proto a) (sd_type a) = None"
    and "sal_media_description_find_stream ra (sd_proto v) (sd_type v) = Some rs"
    and "\<not> (xr_enabled (sd_rtcp_xr v) \<and> \<not> xr_enabled (sd_rtcp_xr rs))"
    and "offer_answer_initiate_outgoing api lo ra result = (lo', res)"
  shows "md_streams res ! 0 = snd (initiate_outgoing api v rs (md_streams result ! 0))
     \<and> md_streams res ! 1 = (md_streams result ! 1)\<lparr>sd_rtcp_xr := sd_rtcp_xr v\<rparr>"
proof -
  obtain v' r where i: "initiate_outgoing api v rs (md_streams result ! 0) = (v', r)" by fastforce
  have "outgoing_loop api ra 0 0 [a, v] (md_streams result) =
     ([a, v'], (md_streams result)[0 := r, 1 := (md_streams result ! 1)\<lparr>sd_rtcp_xr := sd_rtcp_xr v\<rparr>])"
    using assms(3-5) i by (auto simp: Let_def)
  with assms(1,6) have "md_streams res = (md_streams result)[0 := r, 1 := (md_streams result ! 1)\<lparr>sd_rtcp_xr := sd_rtcp_xr v\<rparr>]"
    by (auto simp: offer_answer_initiate_outgoing_def Let_def split: if_splits)
  with assms(2) i show ?thesis by simp
qed

end
