(* ===== verification/SdpProcess.thy ===== *)
theory SdpProcess
  imports AnswerProps
begin

text \<open>
  \<open>sdp_process\<close> of \<open>coreapi/bellesip_sal/sal_op_call.c\<close>: what a call operation does with
  the two descriptions once both are known.  The record holds the fields of \<open>SalOp\<close> and
  \<open>SalOpBase\<close> it uses; \<open>op_sdp_answer\<close> is the description that
  \<open>media_description_to_sdp\<close> encodes, and \<open>op_one_matching_codec\<close> the setting of the
  stack.  \<open>ms_is_ipv6\<close> is a parameter.
\<close>

record sal_op =
  op_local_media :: sal_media_description
  op_remote_media :: "sal_media_description option"
  op_result :: "sal_media_description option"
  op_sdp_answer :: "sal_media_description option"
  op_sdp_offering :: bool
  op_cnx_ip_to_0000_if_sendonly_enabled :: bool
  op_one_matching_codec :: bool

definition set_addr_to_0000 :: "(string \<Rightarrow> bool) \<Rightarrow> string \<Rightarrow> string" where
  "set_addr_to_0000 is_ipv6 value = (if is_ipv6 value then ''::0'' else ''0.0.0.0'')"

text \<open>The loop of the backward compatibility branch: without braces its second statement
  runs for every stream.\<close>

definition zero_stream_addr :: "(string \<Rightarrow> bool) \<Rightarrow> sal_stream_description \<Rightarrow> sal_stream_description" where
  "zero_stream_addr is_ipv6 s = (let
     s = (if sd_dir s = SalStreamSendOnly then s\<lparr>sd_rtp_addr := set_addr_to_0000 is_ipv6 (sd_rtp_addr s)\<rparr> else s)
   in s\<lparr>sd_rtcp_addr := set_addr_to_0000 is_ipv6 (sd_rtcp_addr s)\<rparr>)"

definition zero_answer_addr :: "(string \<Rightarrow> bool) \<Rightarrow> sal_media_description \<Rightarrow> sal_media_description" where
  "zero_answer_addr is_ipv6 md = md\<lparr>md_addr := set_addr_to_0000 is_ipv6 (md_addr md),
     md_streams := map (zero_stream_addr is_ipv6) (used_streams md) @ drop (md_nb_streams md) (md_streams md)\<rparr>"

text \<open>The parameters of the remote description copied back into an accepted stream.\<close>

definition copy_back :: "sal_stream_description \<Rightarrow> sal_stream_description \<Rightarrow> sal_stream_description" where
  "copy_back remote s =
     (if sd_rtp_port s \<noteq> 0 then (let
        s = s\<lparr>sd_rtp_addr := sd_rtp_addr remote, sd_ptime := sd_ptime remote,
          sd_bandwidth := sd_bandwidth remote, sd_rtp_port := sd_rtp_port remote,
          sd_rtcp_addr := sd_rtcp_addr remote, sd_rtcp_port := sd_rtcp_port remote\<rparr>
      in if sd_proto s = SalProtoRtpSavpf \<or> sd_proto s = SalProtoRtpSavp
         then s\<lparr>sd_crypto := (sd_crypto s)[0 := sd_crypto remote ! 0]\<rparr> else s)
      else s)"

definition copy_back_all :: "sal_media_description \<Rightarrow> sal_media_description \<Rightarrow> sal_media_description" where
  "copy_back_all remote md = md\<lparr>md_addr := md_addr remote, md_bandwidth := md_bandwidth remote,
     md_streams := map2 copy_back (take (md_nb_streams md) (md_streams remote)) (used_streams md)
       @ drop (md_nb_streams md) (md_streams md)\<rparr>"

definition sdp_process :: "ortp_api \<Rightarrow> (string \<Rightarrow> bool) \<Rightarrow> sal_op \<Rightarrow> sal_op" where
  "sdp_process api is_ipv6 h = (let h = h\<lparr>op_result := None\<rparr> in
     case op_remote_media h of
       None \<Rightarrow> h
     | Some remote \<Rightarrow>
         if op_sdp_offering h then
           (case offer_answer_initiate_outgoing api (op_local_media h) remote sal_media_description_new of
              (lo, res) \<Rightarrow> h\<lparr>op_local_media := lo, op_result := Some res\<rparr>)
         else
           (case offer_answer_initiate_incoming api (op_local_media h) remote sal_media_description_new
                   (op_one_matching_codec h) of
              (lc, res) \<Rightarrow> (let
                res = (if op_cnx_ip_to_0000_if_sendonly_enabled h \<and> sal_media_description_has_dir res SalStreamSendOnly
                       then zero_answer_addr is_ipv6 res else res)
              in h\<lparr>op_local_media := lc, op_sdp_answer := Some res, op_result := Some (copy_back_all remote res)\<rparr>)))"

section \<open>Properties\<close>

lemma copy_back_frame [simp]:
  "sd_payloads (copy_back remote s) = sd_payloads s" "sd_dir (copy_back remote s) = sd_dir s"
  "sd_proto (copy_back remote s) = sd_proto s" "sd_type (copy_back remote s) = sd_type s"
  by (simp_all add: copy_back_def Let_def)

lemma copy_back_declined: "sd_rtp_port s = 0 \<Longrightarrow> copy_back remote s = s"
  by (simp add: copy_back_def)

lemma copy_back_accepted:
  "sd_rtp_port s \<noteq> 0 \<Longrightarrow> sd_rtp_port (copy_back remote s) = sd_rtp_port remote
     \<and> sd_rtp_addr (copy_back remote s) = sd_rtp_addr remote
     \<and> sd_rtcp_port (copy_back remote s) = sd_rtcp_port remote"
  by (simp add: copy_back_def Let_def)

lemma zero_stream_addr_frame [simp]:
  "sd_payloads (zero_stream_addr v6 s) = sd_payloads s" "sd_dir (zero_stream_addr v6 s) = sd_dir s"
  "sd_proto (zero_stream_addr v6 s) = sd_proto s" "sd_rtp_port (zero_stream_addr v6 s) = sd_rtp_port s"
  by (simp_all add: zero_stream_addr_def Let_def)

lemma zero_answer_addr_frame [simp]:
  "md_nb_streams (zero_answer_addr v6 md) = md_nb_streams md"
  "length (md_streams (zero_answer_addr v6 md)) = length (md_streams md)"
  by (auto simp: zero_answer_addr_def used_streams_def)

lemma incoming_loop_length:
  "incoming_loop api one lc result i ls locals remotes results = (locals', results') \<Longrightarrow>
   length results' = length results"
  by (induction api one lc result i ls locals remotes results rule: incoming_loop.induct)
    (auto simp: Let_def split: option.splits prod.splits)

lemma answer_length:
  "offer_answer_initiate_incoming api lc ro result one = (lc', ans) \<Longrightarrow> length (md_streams ans) = length (md_streams result)"
  by (auto simp: offer_answer_initiate_incoming_def Let_def dest: incoming_loop_length split: prod.splits)

lemma copy_back_all_nth:
  assumes "n < md_nb_streams md" and "md_nb_streams md \<le> length (md_streams md)"
    and "md_nb_streams md \<le> length (md_streams remote)"
  shows "md_streams (copy_back_all remote md) ! n = copy_back (md_streams remote ! n) (md_streams md ! n)"
  using assms by (simp add: copy_back_all_def used_streams_def nth_append)

text \<open>What the answer branch leaves in the operation.\<close>

lemma sdp_process_answering:
  assumes "op_remote_media h = Some remote" and "\<not> op_sdp_offering h"
    and "sdp_process api v6 h = h'"
  obtains ans where "op_sdp_answer h' = Some ans" "op_result h' = Some (copy_back_all remote ans)"
    "md_nb_streams ans = md_nb_streams remote" "length (md_streams ans) = 8"
    "ans = snd (offer_answer_initiate_incoming api (op_local_media h) remote sal_media_description_new (op_one_matching_codec h))
     \<or> ans = zero_answer_addr v6 (snd (offer_answer_initiate_incoming api (op_local_media h) remote
         sal_media_description_new (op_one_matching_codec h)))"
proof -
  obtain lc res where i: "offer_answer_initiate_incoming api (op_local_media h) remote sal_media_description_new
      (op_one_matching_codec h) = (lc, res)" by fastforce
  have len: "md_nb_streams res = md_nb_streams remote" "length (md_streams res) = 8"
    using answer_count [OF i] answer_length [OF i] fresh_answer(2) by simp_all
  define res2 where "res2 = (if op_cnx_ip_to_0000_if_sendonly_enabled h \<and> sal_media_description_has_dir res SalStreamSendOnly
                       then zero_answer_addr v6 res else res)"
  have "h' = h\<lparr>op_local_media := lc, op_sdp_answer := Some res2, op_result := Some (copy_back_all remote res2)\<rparr>"
    using assms i by (auto simp: sdp_process_def res2_def Let_def)
  moreover have "md_nb_streams res2 = md_nb_streams remote" "length (md_streams res2) = 8"
    "res2 = res \<or> res2 = zero_answer_addr v6 res" using len by (auto simp: res2_def)
  ultimately show thesis using i by (intro that [of res2]) auto
qed

text \<open>After answering, the stream description handed to the upper layer sends to the peer:
  every stream accepted in the answer keeps the negotiated payloads, direction and profile of
  the answer but takes address and port of the offer, and every declined stream is the one of
  the answer.\<close>

theorem answered_result_targets_peer:
  assumes "op_remote_media h = Some remote" and "\<not> op_sdp_offering h" and "md_shape remote"
    and "sdp_process api v6 h = h'" and "n < md_nb_streams remote"
  shows "\<exists>ans res. op_sdp_answer h' = Some ans \<and> op_result h' = Some res
    \<and> (let a = md_streams ans ! n; s = md_streams res ! n; r = md_streams remote ! n in
        sd_payloads s = sd_payloads a \<and> sd_dir s = sd_dir a \<and> sd_proto s = sd_proto a
        \<and> (if sd_rtp_port a = 0 then s = a
           else sd_rtp_port s = sd_rtp_port r \<and> sd_rtp_addr s = sd_rtp_addr r \<and> sd_rtcp_port s = sd_rtcp_port r))"
proof -
  obtain ans where ans: "op_sdp_answer h' = Some ans" "op_result h' = Some (copy_back_all remote ans)"
    "md_nb_streams ans = md_nb_streams remote" "length (md_streams ans) = 8"
    by (rule sdp_process_answering [OF assms(1,2,4)])
  have "md_streams (copy_back_all remote ans) ! n = copy_back (md_streams remote ! n) (md_streams ans ! n)"
    by (rule copy_back_all_nth) (use assms(3,5) ans(3,4) in \<open>auto simp: md_shape_def SAL_MEDIA_DESCRIPTION_MAX_STREAMS_def\<close>)
  with ans(1,2) show ?thesis
    by (auto simp: Let_def copy_back_declined copy_back_accepted)
qed

text \<open>For an accepted SRTP stream the key the upper layer decrypts with is the first entry of
  the offer's list, whichever entry the answer selected: the result and the answer name
  different suites as soon as the first offered suite is not the one agreed on.\<close>

theorem answered_crypto_is_first_offered:
  assumes "op_remote_media h = Some remote" and "\<not> op_sdp_offering h" and "md_shape remote"
    and "sdp_process api v6 h = h'" and "n < md_nb_streams remote"
    and "op_sdp_answer h' = Some ans" and "sd_rtp_port (md_streams ans ! n) \<noteq> 0"
    and "sal_stream_description_has_srtp (md_streams ans ! n)" and "sd_crypto (md_streams ans ! n) \<noteq> []"
  shows "\<exists>res. op_result h' = Some res \<and> hd (sd_crypto (md_streams res ! n)) = sd_crypto (md_streams remote ! n) ! 0"
proof -
  obtain ans' where ans: "op_sdp_answer h' = Some ans'" "op_result h' = Some (copy_back_all remote ans')"
    "md_nb_streams ans' = md_nb_streams remote" "length (md_streams ans') = 8"
    by (rule sdp_process_answering [OF assms(1,2,4)])
  have "md_streams (copy_back_all remote ans') ! n = copy_back (md_streams remote ! n) (md_streams ans' ! n)"
    by (rule copy_back_all_nth) (use assms(3,5) ans(3,4) in \<open>auto simp: md_shape_def SAL_MEDIA_DESCRIPTION_MAX_STREAMS_def\<close>)
  moreover have "ans' = ans" using ans(1) assms(6) by simp
  ultimately have "hd (sd_crypto (md_streams (copy_back_all remote ans') ! n)) = sd_crypto (md_streams remote ! n) ! 0"
    using assms(7-9) by (auto simp: copy_back_def Let_def sal_stream_description_has_srtp_def hd_conv_nth)
  with ans(2) show ?thesis by blast
qed

end
