(* ===== verification/OfferWitnesses.thy ===== *)
theory OfferWitnesses
  imports SdpProcess
begin

text \<open>
  Concrete offers and answers on which the hypotheses of the offer/answer properties hold.
\<close>

section \<open>A small offer\<close>

text \<open>Concrete descriptions on which the hypotheses of the properties hold.\<close>

definition ex_api :: ortp_api where
  "ex_api = \<lparr>api_fmtp_get_value = (\<lambda>_ _ _. None), api_append_fmtp = (\<lambda>_ f. f), api_is_multicast = (\<lambda>_. False)\<rparr>"

definition ex_pcmu :: payload_type where
  "ex_pcmu = \<lparr>pt_type = 0, pt_mime_type = Some ''PCMU'', pt_clock_rate = 8000, pt_channels = 1, pt_normal_bitrate = 64000,
     pt_recv_fmtp = None, pt_send_fmtp = None, pt_number = 0, pt_flags = {FLAG_ENABLED},
     pt_avpf = \<lparr>avpf_features = 0, avpf_rpsi_compatibility = False, avpf_trr_interval = 0\<rparr>\<rparr>"

definition ex_audio :: sal_stream_description where
  "ex_audio = stream_zero\<lparr>sd_name := ''Audio'', sd_rtp_addr := ''10.0.0.1'', sd_rtp_port := 7078,
     sd_payloads := [ex_pcmu]\<rparr>"

definition ex_local :: sal_media_description where
  "ex_local = sal_media_description_new\<lparr>md_nb_streams := 1, md_streams := ex_audio # replicate 7 stream_zero\<rparr>"

definition ex_offer :: "sal_stream_description list \<Rightarrow> sal_media_description" where
  "ex_offer ss = sal_media_description_new\<lparr>md_nb_streams := length ss,
     md_streams := ss @ replicate (8 - length ss) stream_zero\<rparr>"

definition ex_line :: sal_stream_description where
  "ex_line = stream_zero\<lparr>sd_rtp_addr := ''10.0.0.2'', sd_rtp_port := 5000, sd_payloads := [ex_pcmu]\<rparr>"


definition ex_srtp :: sal_stream_description where
  "ex_srtp = ex_line\<lparr>sd_proto := SalProtoRtpSavp, sd_crypto := \<lparr>cr_tag = 5, cr_algo = 2, cr_master_key = ''k''\<rparr>
     # replicate 3 crypto_zero, sd_dtls_role := SalDtlsRoleUnset, sd_dtls_fingerprint := ''AB''\<rparr>"

definition ex_odd :: sal_stream_description where
  "ex_odd = ex_line\<lparr>sd_proto := SalProtoOther, sd_proto_other := ''TCP/MRCPv2''\<rparr>"

definition ex_video :: sal_stream_description where
  "ex_video = ex_audio\<lparr>sd_name := ''Video'', sd_type := SalVideo, sd_rtcp_xr := rtcp_xr_zero\<lparr>xr_stat_summary_flags := 7\<rparr>\<rparr>"

definition ex_answer :: "bool \<Rightarrow> sal_stream_description list \<Rightarrow> sal_media_description" where
  "ex_answer one ss = snd (offer_answer_initiate_incoming ex_api ex_local (ex_offer ss) sal_media_description_new one)"

lemmas ex_defs = ex_api_def ex_pcmu_def ex_audio_def ex_line_def ex_srtp_def ex_odd_def ex_video_def

lemma ex_offer_shape: "md_shape (ex_offer [a, b])"
  by (simp add: md_shape_def ex_offer_def SAL_MEDIA_DESCRIPTION_MAX_STREAMS_def)

lemma ex_offer_used: "used_streams (ex_offer ss) = ss"
  by (simp add: used_streams_def ex_offer_def)

lemma ex_offer_count: "md_nb_streams (ex_offer ss) = length ss"
  by (simp add: ex_offer_def)

section \<open>Witnesses\<close>


lemma answer_at_most_one_codec_witness:
  "snd (match_payloads ex_api [ex_pcmu] [ex_pcmu, ex_pcmu] False True) \<noteq> [] \<and>
   length (filter (\<lambda>p. \<not> is_telephone_event p)
     (snd (match_payloads ex_api [ex_pcmu] [ex_pcmu, ex_pcmu] False True))) \<le> 1"
proof
  show "snd (match_payloads ex_api [ex_pcmu] [ex_pcmu, ex_pcmu] False True) \<noteq> []" by code_simp
qed (rule answer_at_most_one_codec [OF surjective_pairing])

lemma response_covers_local_numbers_witness:
  "0 \<in> pt_number ` set (snd (match_payloads ex_api [ex_pcmu] [] True False))"
  using response_covers_local_numbers [OF surjective_pairing, of "[ex_pcmu]" ex_api "[]" False]
  by (simp add: ex_pcmu_def)

lemma crypto_choice_witness:
  "\<exists>r post. sd_crypto ex_srtp = r # post \<and> cr_algo r = 2 \<and>
     match_crypto_algo (sd_crypto ex_srtp) (sd_crypto ex_srtp) True = Some (\<lparr>cr_tag = 5, cr_algo = 2, cr_master_key = ''k''\<rparr>, 5)"
proof -
  have m: "match_crypto_algo (sd_crypto ex_srtp) (sd_crypto ex_srtp) True
      = Some (\<lparr>cr_tag = 5, cr_algo = 2, cr_master_key = ''k''\<rparr>, 5)" by code_simp
  from crypto_choice [OF m] have "\<exists>r. cr_algo r = 2 \<and> r \<in> set (sd_crypto ex_srtp)" by auto
  with m show ?thesis by (auto simp: ex_srtp_def crypto_zero_def)
qed

lemma accepted_stream_sound_witness:
  "sd_rtp_port (snd (initiate_incoming ex_api ex_srtp ex_srtp stream_zero False)) = 5000 \<and>
   (\<exists>c. hd (sd_crypto (snd (initiate_incoming ex_api ex_srtp ex_srtp stream_zero False))) = c \<and>
     (\<exists>tag. match_crypto_algo (sd_crypto ex_srtp) (sd_crypto ex_srtp) True = Some (c, tag)))"
proof -
  have p: "sd_rtp_port (snd (initiate_incoming ex_api ex_srtp ex_srtp stream_zero False)) = 5000" by code_simp
  have s: "sal_stream_description_has_srtp ex_srtp" by code_simp
  from accepted_stream_sound [OF surjective_pairing, of ex_api ex_srtp ex_srtp stream_zero False] p s
  show ?thesis by auto
qed

lemma answer_line_by_line_witness:
  "md_nb_streams (ex_answer False [ex_line, ex_odd]) = 2
   \<and> sd_type (md_streams (ex_answer False [ex_line, ex_odd]) ! 0) = SalAudio
   \<and> sd_proto (md_streams (ex_answer False [ex_line, ex_odd]) ! 1) = SalProtoOther"
proof -
  have k: "sd_proto ex_line = SalProtoRtpAvp" "sd_type ex_line = SalAudio" "sd_proto ex_odd = SalProtoOther"
    by code_simp+
  from answer_line_by_line [of "ex_offer [ex_line, ex_odd]" ex_api ex_local False, OF ex_offer_shape surjective_pairing] k
  show ?thesis by (auto simp: ex_answer_def ex_offer_used ex_offer_count less_Suc_eq)
qed

lemma ex_answer_def': "offer_answer_initiate_incoming ex_api ex_local (ex_offer ss) sal_media_description_new one
   = (fst (offer_answer_initiate_incoming ex_api ex_local (ex_offer ss) sal_media_description_new one), ex_answer one ss)"
  by (simp add: ex_answer_def)

lemma ex_choice: "choose_local (used_streams ex_local) ex_line = Some 0"
  by code_simp

lemma unknown_line_keeps_previous_choice_witness:
  "stream_answered ex_api False ex_local (used_streams ex_local) (Some 0) ex_odd stream_zero
     (md_streams (ex_answer False [ex_line, ex_odd]) ! 1)
   \<and> sd_rtp_port (md_streams (ex_answer False [ex_line, ex_odd]) ! 1) = 7078"
proof
  have k: "sd_proto ex_line \<noteq> SalProtoOther" "sd_proto ex_odd = SalProtoOther" by code_simp+
  show "sd_rtp_port (md_streams (ex_answer False [ex_line, ex_odd]) ! 1) = 7078" by code_simp
  from unknown_line_keeps_previous_choice [OF ex_offer_shape ex_answer_def', of 0 ex_line ex_odd False] k ex_choice
  show "stream_answered ex_api False ex_local (used_streams ex_local) (Some 0) ex_odd stream_zero
     (md_streams (ex_answer False [ex_line, ex_odd]) ! 1)"
    by (simp add: ex_offer_used ex_offer_count)
qed

lemma same_kind_lines_share_port_witness:
  "sd_rtp_port (md_streams (ex_answer False [ex_line, ex_line]) ! 0)
     = sd_rtp_port (md_streams (ex_answer False [ex_line, ex_line]) ! 1)
   \<and> sd_rtp_port (md_streams (ex_answer False [ex_line, ex_line]) ! 0) = 7078"
proof
  have k: "sd_proto ex_line \<noteq> SalProtoOther" "\<not> offered_multicast ex_api ex_line" by code_simp+
  show p: "sd_rtp_port (md_streams (ex_answer False [ex_line, ex_line]) ! 0) = 7078" by code_simp
  have q: "sd_rtp_port (md_streams (ex_answer False [ex_line, ex_line]) ! 1) = 7078" by code_simp
  from same_kind_lines_share_port [OF ex_offer_shape ex_answer_def', of 0 ex_line ex_line 1 False] k p q
  show "sd_rtp_port (md_streams (ex_answer False [ex_line, ex_line]) ! 0)
     = sd_rtp_port (md_streams (ex_answer False [ex_line, ex_line]) ! 1)"
    by (simp add: ex_offer_used ex_offer_count)
qed


lemma dtls_roles_complement_witness:
  "sd_dtls_role (snd (initiate_outgoing ex_api ex_srtp
      (snd (initiate_incoming ex_api ex_srtp ex_srtp stream_zero False)) stream_zero)) = SalDtlsRoleIsServer"
proof -
  let ?ans = "snd (initiate_incoming ex_api ex_srtp ex_srtp stream_zero False)"
  have "sd_rtp_port ?ans \<noteq> 0" "sd_rtp_port (snd (initiate_outgoing ex_api ex_srtp ?ans stream_zero)) \<noteq> 0"
    by code_simp+
  moreover have "sd_dtls_role ex_srtp = SalDtlsRoleUnset" "sd_dtls_fingerprint ex_srtp \<noteq> []" by code_simp+
  ultimately show ?thesis
    using dtls_roles_complement [of ex_api ex_srtp ex_srtp stream_zero False _ _ stream_zero,
        OF surjective_pairing _ surjective_pairing] by simp
qed

lemma rtcp_xr_of_shifted_stream_witness:
  "sd_type (md_streams (snd (offer_answer_initiate_outgoing ex_api (ex_offer [ex_audio, ex_video])
     (ex_offer [ex_audio\<lparr>sd_rtp_port := 0\<rparr>, ex_video]) sal_media_description_new)) ! 0) = SalVideo
   \<and> sd_rtcp_xr (md_streams (snd (offer_answer_initiate_outgoing ex_api (ex_offer [ex_audio, ex_video])
     (ex_offer [ex_audio\<lparr>sd_rtp_port := 0\<rparr>, ex_video]) sal_media_description_new)) ! 1) = sd_rtcp_xr ex_video"
proof -
  let ?ra = "ex_offer [ex_audio\<lparr>sd_rtp_port := 0\<rparr>, ex_video]"
  have n: "sal_media_description_find_stream ?ra (sd_proto ex_audio) (sd_type ex_audio) = None" by code_simp
  have s: "sal_media_description_find_stream ?ra (sd_proto ex_video) (sd_type ex_video) = Some ex_video" by code_simp
  have t: "sd_type (snd (initiate_outgoing ex_api ex_video ex_video stream_zero)) = SalVideo" by code_simp
  have z: "md_streams sal_media_description_new ! 0 = stream_zero" by (simp add: fresh_answer)
  from rtcp_xr_of_shifted_stream [OF ex_offer_used fresh_answer(2) n s _ surjective_pairing, of ex_api] t z
  show ?thesis by simp
qed

text \<open>The local side knows the second offered suite only.\<close>

definition ex_two_suites :: sal_stream_description where
  "ex_two_suites = ex_srtp\<lparr>sd_crypto := [\<lparr>cr_tag = 1, cr_algo = 9, cr_master_key = ''first''\<rparr>,
     \<lparr>cr_tag = 5, cr_algo = 2, cr_master_key = ''second''\<rparr>, crypto_zero, crypto_zero]\<rparr>"

definition ex_op :: sal_op where
  "ex_op = \<lparr>op_local_media = ex_offer [ex_srtp], op_remote_media = Some (ex_offer [ex_two_suites]), op_result = None,
     op_sdp_answer = None, op_sdp_offering = False, op_cnx_ip_to_0000_if_sendonly_enabled = False,
     op_one_matching_codec = False\<rparr>"

definition ex_op_answer :: sal_media_description where
  "ex_op_answer = the (op_sdp_answer (sdp_process ex_api (\<lambda>_. False) ex_op))"

lemma ex_op_shape: "op_remote_media ex_op = Some (ex_offer [ex_two_suites])" "\<not> op_sdp_offering ex_op"
  "md_shape (ex_offer [ex_two_suites])"
  by (simp_all add: ex_op_def md_shape_def ex_offer_def SAL_MEDIA_DESCRIPTION_MAX_STREAMS_def)

lemma ex_op_answer_first: "op_sdp_answer (sdp_process ex_api (\<lambda>_. False) ex_op) = Some ex_op_answer"
  by code_simp

lemma answered_result_targets_peer_witness:
  "\<exists>res. op_result (sdp_process ex_api (\<lambda>_. False) ex_op) = Some res \<and> sd_rtp_port (md_streams res ! 0) = 5000"
proof -
  have "sd_rtp_port (md_streams ex_op_answer ! 0) \<noteq> 0"
    "sd_rtp_port (md_streams (ex_offer [ex_two_suites]) ! 0) = 5000" by code_simp+
  with answered_result_targets_peer [OF ex_op_shape refl, of 0 ex_api "\<lambda>_. False"] ex_op_answer_first
  show ?thesis by (auto simp: Let_def ex_offer_count)
qed

lemma answered_crypto_is_first_offered_witness:
  "\<exists>res. op_result (sdp_process ex_api (\<lambda>_. False) ex_op) = Some res
     \<and> cr_master_key (hd (sd_crypto (md_streams res ! 0))) = ''first''
     \<and> cr_algo (hd (sd_crypto (md_streams res ! 0))) \<noteq> cr_algo (hd (sd_crypto (md_streams ex_op_answer ! 0)))"
proof -
  have a: "sd_rtp_port (md_streams ex_op_answer ! 0) \<noteq> 0" "sal_stream_description_has_srtp (md_streams ex_op_answer ! 0)"
    "sd_crypto (md_streams ex_op_answer ! 0) \<noteq> []" "cr_algo (hd (sd_crypto (md_streams ex_op_answer ! 0))) = 2"
    "cr_master_key (sd_crypto (md_streams (ex_offer [ex_two_suites]) ! 0) ! 0) = ''first''"
    "cr_algo (sd_crypto (md_streams (ex_offer [ex_two_suites]) ! 0) ! 0) = 9" by code_simp+
  have n: "0 < md_nb_streams (ex_offer [ex_two_suites])" by (simp add: ex_offer_count)
  from answered_crypto_is_first_offered [OF ex_op_shape refl n ex_op_answer_first a(1-3)] a(4-6)
  show ?thesis by auto
qed

end
