(* ===== verification/SalProps.thy ===== *)
theory SalProps
  imports SalQueries
begin

text \<open>
  Properties of the media-description queries: enumeration of streams, the direction of a
  whole description, what a comparison result of "unchanged" means, and the reader of
  \<open>key=value\<close> lines.
\<close>


section \<open>Searching and counting\<close>

definition active_of_type :: "sal_media_description \<Rightarrow> sal_stream_type \<Rightarrow> sal_stream_description list" where
  "active_of_type md ty = filter (\<lambda>s. sal_stream_description_active s \<and> sd_type s = ty) (used_streams md)"

lemma count_active_of_type_filter:
  "count_active_of_type ty ss nb = nb + length (filter (\<lambda>s. sal_stream_description_active s \<and> sd_type s = ty) ss)"
  by (induction ss arbitrary: nb) auto

lemma nth_active_of_type_filter:
  "nth_active_of_type ty ss idx = (let l = filter (\<lambda>s. sal_stream_description_active s \<and> sd_type s = ty) ss
     in if idx < length l then Some (l ! idx) else None)"
  by (induction ss arbitrary: idx) (auto simp: Let_def nth_Cons' split: if_splits)

text \<open>Enumerating the active streams of a type by index visits exactly the active streams of
  that type in their order, and the count says where the enumeration ends.\<close>

lemma active_streams_enumerated:
  "sal_media_description_nb_active_streams_of_type md ty = length (active_of_type md ty)
   \<and> sal_media_description_get_active_stream_of_type md ty idx =
       (if idx < sal_media_description_nb_active_streams_of_type md ty then Some (active_of_type md ty ! idx) else None)"
  by (simp add: sal_media_description_nb_active_streams_of_type_def sal_media_description_get_active_stream_of_type_def
      active_of_type_def count_active_of_type_filter nth_active_of_type_filter Let_def)

definition md_active :: "sal_media_description \<Rightarrow> sal_stream_description set" where
  "md_active md = {s \<in> set (used_streams md). sal_stream_description_active s}"

lemma has_dir_loop_iff:
  "has_dir_loop addr dir ss \<longleftrightarrow> (\<exists>s \<in> set ss. sal_stream_description_active s \<and> (sd_dir s = dir
     \<or> sd_dir s = SalStreamSendRecv \<and> dir = SalStreamSendOnly \<and> (is_null_address addr \<or> is_null_address (sd_rtp_addr s))))"
  by (induction ss) auto

lemma has_dir_iff:
  "has_dir md dir \<longleftrightarrow> (\<exists>s \<in> md_active md. sd_dir s = dir
     \<or> sd_dir s = SalStreamSendRecv \<and> dir = SalStreamSendOnly \<and> (is_null_address (md_addr md) \<or> is_null_address (sd_rtp_addr s)))"
  by (auto simp: has_dir_def has_dir_loop_iff md_active_def)

text \<open>What the direction of a whole description means: it is send-receive when some active
  stream is, receive-only when no active stream can send, send-only when no active stream can
  receive (so a description without active streams has all three restricted directions), and
  inactive when all its active streams are.\<close>

theorem media_direction_exact:
  "(sal_media_description_has_dir md SalStreamSendRecv \<longleftrightarrow> (\<exists>s \<in> md_active md. sd_dir s = SalStreamSendRecv))
   \<and> (sal_media_description_has_dir md SalStreamRecvOnly \<longleftrightarrow>
        (\<forall>s \<in> md_active md. sd_dir s \<in> {SalStreamRecvOnly, SalStreamInactive}))
   \<and> (sal_media_description_has_dir md SalStreamSendOnly \<longleftrightarrow>
        (\<forall>s \<in> md_active md. sd_dir s \<in> {SalStreamSendOnly, SalStreamInactive}))
   \<and> (sal_media_description_has_dir md SalStreamInactive \<longleftrightarrow>
        (\<forall>s \<in> md_active md. sd_dir s = SalStreamInactive))"
proof -
  have d: "d \<in> {SalStreamRecvOnly, SalStreamInactive} \<longleftrightarrow> d \<noteq> SalStreamSendOnly \<and> d \<noteq> SalStreamSendRecv"
    "d \<in> {SalStreamSendOnly, SalStreamInactive} \<longleftrightarrow> d \<noteq> SalStreamRecvOnly \<and> d \<noteq> SalStreamSendRecv"
    "d = SalStreamInactive \<longleftrightarrow> d \<noteq> SalStreamSendOnly \<and> d \<noteq> SalStreamSendRecv \<and> d \<noteq> SalStreamRecvOnly" for d
    by (cases d; simp)+
  show ?thesis unfolding sal_media_description_has_dir.simps has_dir_iff d by auto
qed

section \<open>Comparison\<close>

lemma payload_type_equals_iff:
  "payload_type_equals p1 p2 \<longleftrightarrow> pt_type p1 = pt_type p2 \<and> pt_mime_type p1 = pt_mime_type p2
     \<and> pt_clock_rate p1 = pt_clock_rate p2 \<and> pt_channels p1 = pt_channels p2 \<and> pt_number p1 = pt_number p2"
  by (auto simp: payload_type_equals_def)

lemma payload_list_equals_iff:
  "payload_list_equals l1 l2 \<longleftrightarrow> (\<exists>extra. list_all2 payload_type_equals (take (length l2) l1) l2
     \<and> l1 = take (length l2) l1 @ extra \<and> (\<forall>p \<in> set extra. is_recv_only p))"
  by (induction l1 l2 rule: payload_list_equals.induct)
    (auto simp: dropWhile_eq_Nil_conv split: if_splits)

lemma mark_zero: "mark b c r = 0 \<longleftrightarrow> r = 0 \<and> (b \<longrightarrow> c = 0)"
  by (auto simp: mark_def or_eq_0_iff)

lemma or_zero: "(a :: changes) OR b = 0 \<longleftrightarrow> a = 0 \<and> b = 0"
  by (rule or_eq_0_iff)

definition same_crypto :: "sal_srtp_crypto_algo \<Rightarrow> sal_srtp_crypto_algo \<Rightarrow> bool" where
  "same_crypto a b \<longleftrightarrow> cr_tag a = cr_tag b \<and> cr_algo a = cr_algo b
     \<and> take 127 (cr_master_key a) = take 127 (cr_master_key b)"

lemma crypto_changes_zero:
  "length as = length bs \<Longrightarrow> crypto_changes as bs r = 0 \<longleftrightarrow> r = 0 \<and> list_all2 same_crypto as bs"
  by (induction as bs r rule: crypto_changes.induct)
    (auto simp: mark_zero same_crypto_def SAL_MEDIA_DESCRIPTION_CRYPTO_KEYS_CHANGED_def
      SAL_MEDIA_DESCRIPTION_CRYPTO_POLICY_CHANGED_def)

text \<open>What two streams must share to count as unchanged.\<close>

definition same_media :: "sal_stream_description \<Rightarrow> sal_stream_description \<Rightarrow> bool" where
  "same_media a b \<longleftrightarrow> sd_proto a = sd_proto b \<and> sd_type a = sd_type b \<and> sd_dir a = sd_dir b
     \<and> sd_rtp_addr a = sd_rtp_addr b \<and> sd_rtp_port a = sd_rtp_port b
     \<and> sd_rtcp_addr a = sd_rtcp_addr b \<and> sd_rtcp_port a = sd_rtcp_port b
     \<and> sd_bandwidth a = sd_bandwidth b \<and> sd_ptime a = sd_ptime b
     \<and> sd_dtls_role a = sd_dtls_role b \<and> sd_dtls_fingerprint a = sd_dtls_fingerprint b
     \<and> payload_list_equals (sd_payloads a) (sd_payloads b)
     \<and> list_all2 same_crypto (sd_crypto a) (sd_crypto b)"

lemma change_bits_nonzero [simp]:
  "SAL_MEDIA_DESCRIPTION_NETWORK_CHANGED \<noteq> 0" "SAL_MEDIA_DESCRIPTION_CODEC_CHANGED \<noteq> 0"
  "SAL_MEDIA_DESCRIPTION_CRYPTO_KEYS_CHANGED \<noteq> 0" "SAL_MEDIA_DESCRIPTION_CRYPTO_POLICY_CHANGED \<noteq> 0"
  "SAL_MEDIA_DESCRIPTION_STREAMS_CHANGED \<noteq> 0" "SAL_MEDIA_DESCRIPTION_NETWORK_XXXCAST_CHANGED \<noteq> 0"
  by (simp_all add: change_bits)

lemma stream_unchanged_iff:
  assumes "length (sd_crypto a) = 4" and "length (sd_crypto b) = 4"
  shows "sal_stream_description_equals mc a b = SAL_MEDIA_DESCRIPTION_UNCHANGED \<longleftrightarrow> same_media a b"
proof -
  have t: "take SAL_CRYPTO_ALGO_MAX (sd_crypto a) = sd_crypto a" "take SAL_CRYPTO_ALGO_MAX (sd_crypto b) = sd_crypto b"
    "length (sd_crypto a) = length (sd_crypto b)"
    using assms by (simp_all add: SAL_CRYPTO_ALGO_MAX_def)
  have port: "(if x \<noteq> y then if x = 0 \<or> y = 0 then r OR SAL_MEDIA_DESCRIPTION_CODEC_CHANGED
      else r OR SAL_MEDIA_DESCRIPTION_NETWORK_CHANGED else r) = 0 \<longleftrightarrow> r = 0 \<and> x = y" for x y :: int and r
    by (auto simp: or_zero)
  have u: "SAL_MEDIA_DESCRIPTION_UNCHANGED = 0" by (simp add: SAL_MEDIA_DESCRIPTION_UNCHANGED_def)
  show ?thesis
    unfolding sal_stream_description_equals_def Let_def u t(1,2) mark_zero port crypto_changes_zero [OF t(3)] same_media_def
    by auto
qed

lemma stream_equals_zero:
  assumes "length (sd_crypto a) = 4" and "length (sd_crypto b) = 4"
  shows "sal_stream_description_equals mc a b = 0 \<longleftrightarrow> same_media a b"
  using stream_unchanged_iff [OF assms] by (simp add: SAL_MEDIA_DESCRIPTION_UNCHANGED_def)

lemma streams_changes_zero:
  assumes "\<forall>s \<in> set ss1 \<union> set ss2. length (sd_crypto s) = 4" and "length ss1 \<le> length ss2"
  shows "streams_changes mc ss1 ss2 r = 0 \<longleftrightarrow> r = 0 \<and> list_all2 same_media ss1 (take (length ss1) ss2)"
  using assms
  by (induction mc ss1 ss2 r rule: streams_changes.induct) (auto simp: or_eq_0_iff stream_equals_zero)

text \<open>Two descriptions compare as unchanged exactly when they agree on the connection
  address, the number of streams and the bandwidth, and stream by stream on profile, media type,
  direction, both transport addresses, bandwidth, packet time, DTLS role and fingerprint, on the
  crypto suites with the first 127 characters of their keys, and on the payload lists up to
  receive-only payloads at the end of the first.\<close>

theorem descriptions_unchanged_iff:
  assumes "md_shape a" and "md_shape b" and "\<forall>s \<in> set (md_streams a) \<union> set (md_streams b). length (sd_crypto s) = 4"
  shows "sal_media_description_equals mc a b = SAL_MEDIA_DESCRIPTION_UNCHANGED \<longleftrightarrow>
     md_addr a = md_addr b \<and> md_nb_streams a = md_nb_streams b \<and> md_bandwidth a = md_bandwidth b
     \<and> list_all2 same_media (used_streams a) (used_streams b)"
proof -
  have len: "length (used_streams a) = md_nb_streams a" "md_nb_streams a \<le> length (md_streams b)"
    using assms(1,2) by (simp_all add: used_streams_def md_shape_def)
  have c: "\<forall>s \<in> set (used_streams a) \<union> set (md_streams b). length (sd_crypto s) = 4"
    using assms(3) by (auto simp: used_streams_def dest: in_set_takeD)
  have u: "SAL_MEDIA_DESCRIPTION_UNCHANGED = 0" by (simp add: SAL_MEDIA_DESCRIPTION_UNCHANGED_def)
  have s: "streams_changes mc (used_streams a) (md_streams b) r = 0 \<longleftrightarrow>
      r = 0 \<and> list_all2 same_media (used_streams a) (take (md_nb_streams a) (md_streams b))" for r
    using streams_changes_zero [OF c] len by simp
  show ?thesis
    unfolding sal_media_description_equals_def Let_def u s mark_zero
    by (auto simp: used_streams_def)
qed

section \<open>Lines of a message body\<close>

definition body_line :: "string \<times> string \<Rightarrow> string" where
  "body_line kv = fst kv @ CHR ''='' # snd kv @ [CHR 0x0D, CHR 0x0A]"

text \<open>A key without space or equal sign and a value on one line, within the buffer of the
  parser.\<close>

definition line_ok :: "string \<times> string \<Rightarrow> bool" where
  "line_ok kv \<longleftrightarrow> fst kv \<noteq> [] \<and> (\<forall>c \<in> set (fst kv). \<not> is_space c \<and> c \<noteq> CHR ''='')
     \<and> CHR 0x0A \<notin> set (snd kv) \<and> (snd kv = [] \<or> \<not> is_space (last (snd kv)))
     \<and> length (body_line kv) \<le> 255"

lemma remove_trailing_crlf:
  "v = [] \<or> \<not> is_space (last v) \<Longrightarrow> remove_trailing_spaces (v @ [CHR 0x0D, CHR 0x0A]) = v"
  by (cases v rule: rev_cases) (auto simp: remove_trailing_spaces_def strip_trailing_def is_space_def)

lemma line_get_value_line:
  assumes "line_ok kv"
  shows "line_get_value (body_line kv @ rest) key n =
     (if strcaseeq key (fst kv) then Some (strncpy (n - 1) (snd kv)) else None, length (body_line kv))"
proof -
  obtain k v where kv: "kv = (k, v)" by fastforce
  have k: "k \<noteq> []" "\<forall>c \<in> set k. \<not> is_space c" "CHR ''='' \<notin> set k" and v: "CHR 0x0A \<notin> set v" "v = [] \<or> \<not> is_space (last v)"
    and len: "length (body_line kv) \<le> 255"
    using assms by (auto simp: line_ok_def kv)
  have nl: "CHR 0x0A \<notin> set k" using k(2) by (auto simp: is_space_def)
  have split: "body_line kv @ rest = (k @ CHR ''='' # v @ [CHR 0x0D]) @ CHR 0x0A # rest"
    by (simp add: body_line_def kv)
  have "strchr (body_line kv @ rest) (CHR 0x0A) = Some (k @ CHR ''='' # v @ [CHR 0x0D], rest)"
    unfolding split by (rule strchr_append) (use nl v in simp)
  moreover have "strncpy (min (length (k @ CHR ''='' # v @ [CHR 0x0D]) + 1) 256) (body_line kv @ rest) = body_line kv"
  proof -
    have "min (length (k @ CHR ''='' # v @ [CHR 0x0D]) + 1) 256 = length (body_line kv)"
      using len by (simp add: body_line_def kv)
    then show ?thesis by (simp add: strncpy_def)
  qed
  moreover have "strchr (body_line kv) (CHR ''='') = Some (k, v @ [CHR 0x0D, CHR 0x0A])"
    using strchr_append [OF k(3)] by (simp add: body_line_def kv)
  ultimately show ?thesis
    using k v by (simp add: line_get_value_def Let_def scan_word_plain remove_trailing_crlf) (simp add: body_line_def kv)
qed

lemma line_get_value_empty: "line_get_value [] key n = (None, 0)"
  by (simp add: line_get_value_def Let_def strchr_def strncpy_def)

text \<open>A message body written as lines of a key and a value gives back, for a key asked in
  any case, the value of the first line with that key, cut to the caller's buffer.\<close>

theorem lines_value_of_first_match:
  assumes "\<forall>kv \<in> set kvs. line_ok kv"
  shows "sal_lines_get_value (concat (map body_line kvs)) key n =
    map_option (\<lambda>kv. strncpy (n - 1) (snd kv)) (find (\<lambda>kv. strcaseeq key (fst kv)) kvs)"
  using assms
proof (induction kvs)
  case Nil
  then show ?case by (subst sal_lines_get_value.simps) (simp add: line_get_value_empty)
next
  case (Cons kv kvs)
  then have "line_ok kv" by simp
  moreover have "length (body_line kv) \<noteq> 0" by (simp add: body_line_def)
  ultimately show ?case
    using Cons by (subst sal_lines_get_value.simps) (simp add: line_get_value_line)
qed

lemma media_direction_exact_witness:
  "sal_media_description_has_dir sal_media_description_new SalStreamSendOnly
   \<and> \<not> sal_media_description_has_dir sal_media_description_new SalStreamSendRecv"
proof -
  have "md_active sal_media_description_new = {}"
    by (simp add: md_active_def used_streams_def sal_media_description_new_def)
  then show ?thesis
    using media_direction_exact [of sal_media_description_new]
    by (simp del: sal_media_description_has_dir.simps)
qed

lemma descriptions_unchanged_iff_witness:
  "sal_media_description_equals (\<lambda>_. False) sal_media_description_new sal_media_description_new
     = SAL_MEDIA_DESCRIPTION_UNCHANGED"
  using descriptions_unchanged_iff [OF md_shape_new md_shape_new]
  by (simp add: sal_media_description_new_def used_streams_def stream_zero_def SAL_CRYPTO_ALGO_MAX_def)

lemma lines_value_of_first_match_witness:
  "sal_lines_get_value (body_line (''Signal'', ''5'') @ body_line (''Duration'', ''160'')) ''duration'' 10 = Some ''160''"
proof -
  have ok: "line_ok (''Signal'', ''5'')" "line_ok (''Duration'', ''160'')"
    by (simp_all add: line_ok_def body_line_def is_space_def)
  have "strcaseeq ''duration'' ''Duration''" "\<not> strcaseeq ''duration'' ''Signal''" by code_simp+
  with lines_value_of_first_match [of "[(''Signal'', ''5''), (''Duration'', ''160'')]" "''duration''" 10] ok
  show ?thesis by (simp add: strncpy_def)
qed

end
