(* ===== verification/LpConfig.thy ===== *)
theory LpConfig
  imports LinPrelude
begin

text \<open>
  The configuration store of \<open>coreapi/lpconfig.c\<close>: sections of items, its line parser, the
  typed getters and setters, the writer and the files it works on.

  A \<open>LpSection*\<close> or \<open>LpItem*\<close> is a position in its list.  The parser rewrites the line
  buffer while it reads it, and the text of a section header is walked by pointer arithmetic
  past the terminators it has written: \<open>lp_parse_params\<close> therefore works on the memory block
  from its pointer to the end of the buffer.  Reference counting stops at the counter (a
  destroyed store is \<^const>\<open>None\<close>).  The float conversions of \<open>sscanf\<close> and \<open>snprintf\<close>
  and \<open>dirname\<close> are parameters.
\<close>

section \<open>Structures\<close>

record lp_item =
  it_key :: "string option"
  it_value :: string
  it_is_comment :: bool

record lp_section_param =
  sp_key :: string
  sp_value :: string

record lp_section =
  sec_name :: string
  sec_items :: "lp_item list"
  sec_params :: "lp_section_param list"

record lp_config =
  lp_refcnt :: int
  lp_filename :: "string option"
  lp_tmpfilename :: "string option"
  lp_sections :: "lp_section list"
  lp_modified :: int
  lp_readonly :: bool

definition MAX_LEN :: nat where
  "MAX_LEN = 16384"

definition lp_item_new :: "string \<Rightarrow> string \<Rightarrow> lp_item" where
  "lp_item_new key value = \<lparr>it_key = Some key, it_value = value, it_is_comment = False\<rparr>"

definition lp_comment_new :: "string \<Rightarrow> lp_item" where
  "lp_comment_new comment = \<lparr>it_key = None, it_value = cut_eol comment, it_is_comment = True\<rparr>"

definition lp_section_param_new :: "string \<Rightarrow> string \<Rightarrow> lp_section_param" where
  "lp_section_param_new key value = \<lparr>sp_key = key, sp_value = value\<rparr>"

definition lp_section_new :: "string \<Rightarrow> lp_section" where
  "lp_section_new name = \<lparr>sec_name = name, sec_items = [], sec_params = []\<rparr>"

definition lp_section_add_item :: "lp_section \<Rightarrow> lp_item \<Rightarrow> lp_section" where
  "lp_section_add_item sec item = sec\<lparr>sec_items := sec_items sec @ [item]\<rparr>"

definition lp_config_add_section :: "lp_config \<Rightarrow> lp_section \<Rightarrow> lp_config" where
  "lp_config_add_section lp section = lp\<lparr>lp_sections := lp_sections lp @ [section]\<rparr>"

definition lp_config_add_section_param :: "lp_section \<Rightarrow> lp_section_param \<Rightarrow> lp_section" where
  "lp_config_add_section_param section param = section\<lparr>sec_params := sec_params section @ [param]\<rparr>"

definition lp_remove_nth :: "nat \<Rightarrow> 'a list \<Rightarrow> 'a list" where
  "lp_remove_nth k xs = take k xs @ drop (Suc k) xs"

definition lp_config_remove_section :: "lp_config \<Rightarrow> nat \<Rightarrow> lp_config" where
  "lp_config_remove_section lp k = lp\<lparr>lp_sections := lp_remove_nth k (lp_sections lp)\<rparr>"

definition lp_section_remove_item :: "lp_section \<Rightarrow> nat \<Rightarrow> lp_section" where
  "lp_section_remove_item sec k = sec\<lparr>sec_items := lp_remove_nth k (sec_items sec)\<rparr>"

definition lp_item_set_value :: "lp_item \<Rightarrow> string \<Rightarrow> lp_item" where
  "lp_item_set_value item value = item\<lparr>it_value := value\<rparr>"

text \<open>A write through a section or an item pointer.\<close>

definition upd_section :: "nat \<Rightarrow> (lp_section \<Rightarrow> lp_section) \<Rightarrow> lp_config \<Rightarrow> lp_config" where
  "upd_section k f lp = lp\<lparr>lp_sections := (lp_sections lp)[k := f (lp_sections lp ! k)]\<rparr>"

definition upd_item :: "nat \<Rightarrow> (lp_item \<Rightarrow> lp_item) \<Rightarrow> lp_section \<Rightarrow> lp_section" where
  "upd_item k f sec = sec\<lparr>sec_items := (sec_items sec)[k := f (sec_items sec ! k)]\<rparr>"

section \<open>Lookup\<close>

definition lp_config_find_section :: "lp_config \<Rightarrow> string \<Rightarrow> nat option" where
  "lp_config_find_section lp name = first_index (\<lambda>sec. sec_name sec = name) 0 (lp_sections lp)"

definition lp_section_find_param :: "lp_section \<Rightarrow> string \<Rightarrow> lp_section_param option" where
  "lp_section_find_param sec key = find (\<lambda>param. sp_key param = key) (sec_params sec)"

definition item_has_key :: "string \<Rightarrow> lp_item \<Rightarrow> bool" where
  "item_has_key name item \<longleftrightarrow> \<not> it_is_comment item \<and> it_key item = Some name"

definition lp_section_find_item :: "lp_section \<Rightarrow> string \<Rightarrow> nat option" where
  "lp_section_find_item sec name = first_index (item_has_key name) 0 (sec_items sec)"

section \<open>Parsing a line\<close>

definition is_first_char :: "string \<Rightarrow> bool" where
  "is_first_char before = list_all (\<lambda>c. c = CHR '' '') before"

definition is_a_comment :: "string \<Rightarrow> bool" where
  "is_a_comment str = (case dropWhile (\<lambda>c. c = CHR '' '') str of c # _ \<Rightarrow> c = CHR ''#'' | [] \<Rightarrow> False)"

text \<open>The loop over the parameters of a section header; \<open>m\<close> is the memory from \<open>pos2\<close> on.\<close>

function lp_parse_params :: "char list \<Rightarrow> lp_section_param list" where
  "lp_parse_params m = (case strchr (cstr m) (CHR ''='') of
     None \<Rightarrow> []
   | Some (before, _) \<Rightarrow> (let m = m[length before := CHR '' ''] in
       case scan_word (cstr m) of
         None \<Rightarrow> []
       | Some (key, r) \<Rightarrow> (case scan_word r of
             None \<Rightarrow> []
           | Some (value, _) \<Rightarrow>
               lp_section_param_new key value # lp_parse_params (drop (length key + length value + 2) m))))"
  by pat_completeness auto

termination lp_parse_params
proof (relation "measure length", goal_cases)
  case 1
  then show ?case by simp
next
  case (2 m a before after m' p key r q v s)
  then have "m \<noteq> []" by (auto simp: cstr_def strchr_def)
  with 2 show ?case by simp
qed

declare lp_parse_params.simps [simp del]

text \<open>The branch for a section header: \<open>after\<close> is the text after the opening bracket.\<close>

definition lp_parse_section_line :: "lp_config \<Rightarrow> string \<Rightarrow> nat option \<Rightarrow> lp_config \<times> nat option" where
  "lp_parse_section_line lp after cur =
     (case strchr after (CHR '']'') of
        None \<Rightarrow> (lp, cur)
      | Some (inside, rest) \<Rightarrow> (let m = inside @ CHR 0x00 # rest @ [CHR 0x00] in
          case scan_word (cstr m) of
            None \<Rightarrow> (lp, cur)
          | Some (secname, _) \<Rightarrow>
              (case (case lp_config_find_section lp secname of
                       Some k \<Rightarrow> (lp, k)
                     | None \<Rightarrow> (lp_config_add_section lp (lp_section_new secname), length (lp_sections lp))) of
                 (lp, k) \<Rightarrow>
                   (if length inside > length secname
                    then upd_section k (\<lambda>sec. fold (\<lambda>param sec. lp_config_add_section_param sec param)
                           (lp_parse_params (drop (length secname + 1) m)) sec) lp
                    else lp,
                    Some k))))"

definition lp_parse_item_line :: "lp_config \<Rightarrow> string \<Rightarrow> nat option \<Rightarrow> lp_config" where
  "lp_parse_item_line lp line cur =
     (if is_a_comment line then
        (case cur of None \<Rightarrow> lp | Some k \<Rightarrow> upd_section k (\<lambda>sec. lp_section_add_item sec (lp_comment_new line)) lp)
      else case strchr line (CHR ''='') of
        None \<Rightarrow> lp
      | Some (before, after) \<Rightarrow>
          (case scan_word before of
             None \<Rightarrow> lp
           | Some (key, _) \<Rightarrow> (let value = strip_trailing (\<lambda>c. c = CHR '' '') (cut_eol after) in
               if value = [] then lp
               else case cur of
                 None \<Rightarrow> lp
               | Some k \<Rightarrow> upd_section k (\<lambda>sec. case lp_section_find_item sec key of
                       None \<Rightarrow> lp_section_add_item sec (lp_item_new key value)
                     | Some i \<Rightarrow> upd_item i (\<lambda>item. lp_item_set_value item value) sec) lp)))"

definition lp_config_parse_line :: "lp_config \<Rightarrow> string \<Rightarrow> nat option \<Rightarrow> lp_config \<times> nat option" where
  "lp_config_parse_line lp line cur =
     (case strchr line (CHR ''['') of
        Some (before, after) \<Rightarrow>
          if is_first_char before then lp_parse_section_line lp after cur
          else (lp_parse_item_line lp line cur, cur)
      | None \<Rightarrow> (lp_parse_item_line lp line cur, cur))"

section \<open>Reading a text\<close>

text \<open>\<open>fgets\<close> with a buffer of \<open>MAX_LEN\<close> bytes: the next piece and the rest.\<close>

definition fgets :: "string \<Rightarrow> (string \<times> string) option" where
  "fgets s = (if s = [] then None
     else let chunk = take (MAX_LEN - 1) s in
       case strchr chunk (CHR 0x0A) of
         Some (a, _) \<Rightarrow> Some (a @ [CHR 0x0A], drop (length a + 1) s)
       | None \<Rightarrow> Some (chunk, drop (MAX_LEN - 1) s))"

lemma fgets_shorter: "fgets s = Some (l, r) \<Longrightarrow> length r < length s"
  by (cases s) (auto simp: fgets_def MAX_LEN_def Let_def split: option.splits prod.splits)

function lp_parse_file :: "lp_config \<Rightarrow> string \<Rightarrow> nat option \<Rightarrow> lp_config" where
  "lp_parse_file lp s cur = (case fgets s of
     None \<Rightarrow> lp
   | Some (tmp, r) \<Rightarrow> (case lp_config_parse_line lp tmp cur of (lp, cur) \<Rightarrow> lp_parse_file lp r cur))"
  by pat_completeness auto

termination lp_parse_file
  by (relation "measure (\<lambda>(_, s, _). length s)") (auto dest: fgets_shorter)

declare lp_parse_file.simps [simp del]

definition lp_config_parse :: "lp_config \<Rightarrow> string option \<Rightarrow> lp_config" where
  "lp_config_parse lp file = (case file of None \<Rightarrow> lp | Some s \<Rightarrow> lp_parse_file lp s None)"

text \<open>\<open>strtok_r\<close> with the newline as only delimiter.\<close>

fun split_lines :: "string \<Rightarrow> string list" where
  "split_lines [] = [[]]"
| "split_lines (c # s) = (if c = CHR 0x0A then [] # split_lines s
     else (case split_lines s of l # ls \<Rightarrow> (c # l) # ls | [] \<Rightarrow> [[c]]))"

definition lp_config_zero :: lp_config where
  "lp_config_zero = \<lparr>lp_refcnt = 0, lp_filename = None, lp_tmpfilename = None, lp_sections = [],
     lp_modified = 0, lp_readonly = False\<rparr>"

fun lp_parse_lines :: "lp_config \<Rightarrow> string list \<Rightarrow> nat option \<Rightarrow> lp_config" where
  "lp_parse_lines lp [] cur = lp"
| "lp_parse_lines lp (line # lines) cur =
     (case lp_config_parse_line lp line cur of (lp, cur) \<Rightarrow> lp_parse_lines lp lines cur)"

definition lp_config_new_from_buffer :: "string \<Rightarrow> lp_config" where
  "lp_config_new_from_buffer buffer =
     lp_parse_lines (lp_config_zero\<lparr>lp_refcnt := 1\<rparr>) (filter (\<lambda>l. l \<noteq> []) (split_lines buffer)) None"

section \<open>Reference counting\<close>

definition lp_config_ref :: "lp_config \<Rightarrow> lp_config" where
  "lp_config_ref lp = lp\<lparr>lp_refcnt := lp_refcnt lp + 1\<rparr>"

definition lp_config_unref :: "lp_config \<Rightarrow> lp_config option" where
  "lp_config_unref lp = (let lp = lp\<lparr>lp_refcnt := lp_refcnt lp - 1\<rparr> in if lp_refcnt lp = 0 then None else Some lp)"

definition lp_config_destroy :: "lp_config \<Rightarrow> lp_config option" where
  "lp_config_destroy lp = lp_config_unref lp"

section \<open>Getters\<close>

definition lp_config_get_section_param_string :: "lp_config \<Rightarrow> string \<Rightarrow> string \<Rightarrow> string option \<Rightarrow> string option" where
  "lp_config_get_section_param_string lp section key dflt =
     (case lp_config_find_section lp section of
        None \<Rightarrow> dflt
      | Some k \<Rightarrow> (case lp_section_find_param (lp_sections lp ! k) key of None \<Rightarrow> dflt | Some p \<Rightarrow> Some (sp_value p)))"

definition lp_config_get_string :: "lp_config \<Rightarrow> string \<Rightarrow> string \<Rightarrow> string option \<Rightarrow> string option" where
  "lp_config_get_string lp section key dflt =
     (case lp_config_find_section lp section of
        None \<Rightarrow> dflt
      | Some k \<Rightarrow> (let sec = lp_sections lp ! k in
          case lp_section_find_item sec key of None \<Rightarrow> dflt | Some i \<Rightarrow> Some (it_value (sec_items sec ! i))))"

text \<open>The two bounds and the result; a bound outside \<open>int\<close> is undefined in C.\<close>

definition lp_config_get_range :: "lp_config \<Rightarrow> string \<Rightarrow> string \<Rightarrow> int \<Rightarrow> int
    \<Rightarrow> int option \<times> int option \<times> bool" where
  "lp_config_get_range lp section key default_min default_max =
     (case lp_config_get_string lp section key None of
        Some str \<Rightarrow>
          (case strchr str (CHR ''-'') of
             None \<Rightarrow> (Some default_min, Some default_max, False)
           | Some (before, after) \<Rightarrow>
               if before = [] then (Some default_min, Some default_max, False)
               else (atoi str, atoi after, True))
      | None \<Rightarrow> (Some default_min, Some default_max, True))"

definition lp_config_get_int :: "lp_config \<Rightarrow> string \<Rightarrow> string \<Rightarrow> int \<Rightarrow> int option" where
  "lp_config_get_int lp section key dflt =
     (case lp_config_get_string lp section key None of
        Some str \<Rightarrow> if starts_with str ''0x'' then sscanf_x str else sscanf_i str
      | None \<Rightarrow> Some dflt)"

definition lp_config_get_int64 :: "lp_config \<Rightarrow> string \<Rightarrow> string \<Rightarrow> int \<Rightarrow> int option" where
  "lp_config_get_int64 lp section key dflt =
     (case lp_config_get_string lp section key None of Some str \<Rightarrow> atoll str | None \<Rightarrow> Some dflt)"

definition lp_config_get_float :: "(string \<Rightarrow> 'f option) \<Rightarrow> lp_config \<Rightarrow> string \<Rightarrow> string \<Rightarrow> 'f \<Rightarrow> 'f" where
  "lp_config_get_float sscanf_f lp section key dflt =
     (case lp_config_get_string lp section key None of
        None \<Rightarrow> dflt
      | Some str \<Rightarrow> (case sscanf_f str of None \<Rightarrow> dflt | Some ret \<Rightarrow> ret))"

section \<open>Setters\<close>

definition lp_config_set_string :: "lp_config \<Rightarrow> string \<Rightarrow> string \<Rightarrow> string option \<Rightarrow> lp_config" where
  "lp_config_set_string lp section key value = (let
     lp' = (case lp_config_find_section lp section of
         Some k \<Rightarrow>
           (case lp_section_find_item (lp_sections lp ! k) key of
              Some i \<Rightarrow>
                (case value of
                   Some (c # v) \<Rightarrow> upd_section k (upd_item i (\<lambda>item. lp_item_set_value item (c # v))) lp
                 | _ \<Rightarrow> upd_section k (\<lambda>sec. lp_section_remove_item sec i) lp)
            | None \<Rightarrow>
                (case value of
                   Some (c # v) \<Rightarrow> upd_section k (\<lambda>sec. lp_section_add_item sec (lp_item_new key (c # v))) lp
                 | _ \<Rightarrow> lp))
       | None \<Rightarrow>
           (case value of
              Some (c # v) \<Rightarrow>
                lp_config_add_section lp (lp_section_add_item (lp_section_new section) (lp_item_new key (c # v)))
            | _ \<Rightarrow> lp))
   in lp'\<lparr>lp_modified := lp_modified lp' + 1\<rparr>)"

text \<open>\<open>snprintf\<close> into a buffer of 30 bytes.\<close>

definition tmp30 :: "string \<Rightarrow> string" where
  "tmp30 s = take 29 s"

definition lp_config_set_range :: "lp_config \<Rightarrow> string \<Rightarrow> string \<Rightarrow> int \<Rightarrow> int \<Rightarrow> lp_config" where
  "lp_config_set_range lp section key min_value max_value =
     lp_config_set_string lp section key (Some (tmp30 (show_int min_value @ CHR ''-'' # show_int max_value)))"

definition lp_config_set_int :: "lp_config \<Rightarrow> string \<Rightarrow> string \<Rightarrow> int \<Rightarrow> lp_config" where
  "lp_config_set_int lp section key value = lp_config_set_string lp section key (Some (tmp30 (show_int value)))"

definition lp_config_set_int_hex :: "lp_config \<Rightarrow> string \<Rightarrow> string \<Rightarrow> int \<Rightarrow> lp_config" where
  "lp_config_set_int_hex lp section key value = lp_config_set_string lp section key (Some (tmp30 (show_hex value)))"

definition lp_config_set_int64 :: "lp_config \<Rightarrow> string \<Rightarrow> string \<Rightarrow> int \<Rightarrow> lp_config" where
  "lp_config_set_int64 lp section key value = lp_config_set_string lp section key (Some (tmp30 (show_int value)))"

definition lp_config_set_float :: "('f \<Rightarrow> string) \<Rightarrow> lp_config \<Rightarrow> string \<Rightarrow> string \<Rightarrow> 'f \<Rightarrow> lp_config" where
  "lp_config_set_float printf_f lp section key value =
     lp_config_set_string lp section key (Some (tmp30 (printf_f value)))"

section \<open>Sections\<close>

definition lp_config_has_section :: "lp_config \<Rightarrow> string \<Rightarrow> bool" where
  "lp_config_has_section lp section \<longleftrightarrow> lp_config_find_section lp section \<noteq> None"

text \<open>A callback works on the caller's context.\<close>

definition lp_config_for_each_section :: "lp_config \<Rightarrow> (string \<Rightarrow> 'c \<Rightarrow> 'c) \<Rightarrow> 'c \<Rightarrow> 'c" where
  "lp_config_for_each_section lp callback ctx = fold (\<lambda>sec. callback (sec_name sec)) (lp_sections lp) ctx"

definition lp_config_for_each_entry :: "lp_config \<Rightarrow> string \<Rightarrow> (string option \<Rightarrow> 'c \<Rightarrow> 'c) \<Rightarrow> 'c \<Rightarrow> 'c" where
  "lp_config_for_each_entry lp section callback ctx =
     (case lp_config_find_section lp section of
        None \<Rightarrow> ctx
      | Some k \<Rightarrow> fold (\<lambda>item ctx. if \<not> it_is_comment item then callback (it_key item) ctx else ctx)
           (sec_items (lp_sections lp ! k)) ctx)"

definition lp_config_clean_section :: "lp_config \<Rightarrow> string \<Rightarrow> lp_config" where
  "lp_config_clean_section lp section = (let
     lp' = (case lp_config_find_section lp section of None \<Rightarrow> lp | Some k \<Rightarrow> lp_config_remove_section lp k)
   in lp'\<lparr>lp_modified := lp_modified lp' + 1\<rparr>)"

definition lp_config_needs_commit :: "lp_config \<Rightarrow> bool" where
  "lp_config_needs_commit lp \<longleftrightarrow> lp_modified lp > 0"

definition DEFAULT_VALUES_SUFFIX :: string where
  "DEFAULT_VALUES_SUFFIX = ''_default_values''"

definition lp_config_get_default_int :: "lp_config \<Rightarrow> string \<Rightarrow> string \<Rightarrow> int \<Rightarrow> int option" where
  "lp_config_get_default_int lp section key dflt =
     lp_config_get_int lp (section @ DEFAULT_VALUES_SUFFIX) key dflt"

definition lp_config_get_default_int64 :: "lp_config \<Rightarrow> string \<Rightarrow> string \<Rightarrow> int \<Rightarrow> int option" where
  "lp_config_get_default_int64 lp section key dflt =
     lp_config_get_int64 lp (section @ DEFAULT_VALUES_SUFFIX) key dflt"

definition lp_config_get_default_float :: "(string \<Rightarrow> 'f option) \<Rightarrow> lp_config \<Rightarrow> string \<Rightarrow> string \<Rightarrow> 'f \<Rightarrow> 'f" where
  "lp_config_get_default_float sscanf_f lp section key dflt =
     lp_config_get_float sscanf_f lp (section @ DEFAULT_VALUES_SUFFIX) key dflt"

definition lp_config_get_default_string :: "lp_config \<Rightarrow> string \<Rightarrow> string \<Rightarrow> string option \<Rightarrow> string option" where
  "lp_config_get_default_string lp section key dflt =
     lp_config_get_string lp (section @ DEFAULT_VALUES_SUFFIX) key dflt"

end
