(* ===== verification/LpConfigProps.thy ===== *)
theory LpConfigProps
  imports LpConfig
begin


text \<open>
  Properties of the configuration store.  The locale \<open>string_store\<close> is the contract its
  clients use: what a lookup returns after an assignment.  It is interpreted on the store of
  the code, and the typed accessors are proved from it.
\<close>

section \<open>Lists addressed by position\<close>

lemma first_index_split:
  "first_index q i xs = Some k \<Longrightarrow>
   \<exists>pre x post. xs = pre @ x # post \<and> i + length pre = k \<and> q x \<and> (\<forall>y \<in> set pre. \<not> q y)"
proof (induction q i xs rule: first_index.induct)
  case (2 q i x xs)
  show ?case
  proof (cases "q x")
    case True
    with 2 show ?thesis by (intro exI [of _ "[]"]) auto
  next
    case False
    with 2 obtain pre y post where "xs = pre @ y # post" "Suc i + length pre = k" "q y" "\<forall>y \<in> set pre. \<not> q y" by auto
    with False show ?thesis by (intro exI [of _ "x # pre"] exI [of _ y] exI [of _ post]) auto
  qed
qed simp

lemma first_index_Some_split:
  assumes "first_index q 0 xs = Some k"
  obtains pre x post where "xs = pre @ x # post" "length pre = k" "q x" "\<forall>y \<in> set pre. \<not> q y"
  using first_index_split [OF assms] by auto

lemma first_index_find: "(case first_index q 0 xs of None \<Rightarrow> None | Some k \<Rightarrow> Some (xs ! k)) = find q xs"
proof (cases "first_index q 0 xs")
  case None
  then have "find q xs = None" using first_index_NoneD [OF None] by (simp add: find_None_iff)
  with None show ?thesis by simp
next
  case (Some k)
  then obtain pre x post where s: "xs = pre @ x # post" "length pre = k" "q x" "\<forall>y \<in> set pre. \<not> q y"
    by (rule first_index_Some_split)
  then have "find q xs = Some x" by (induction pre arbitrary: k xs) auto
  with s Some show ?thesis by auto
qed

lemma find_append: "find p (xs @ ys) = (case find p xs of Some x \<Rightarrow> Some x | None \<Rightarrow> find p ys)"
  by (induction xs) auto

lemma find_none: "\<forall>x \<in> set xs. \<not> p x \<Longrightarrow> find p xs = None"
  by (induction xs) auto

lemma remove_middle [simp]: "lp_remove_nth (length pre) (pre @ x # post) = pre @ post"
  by (simp add: lp_remove_nth_def)

section \<open>The contract of a store\<close>

fun present :: "string option \<Rightarrow> string option" where
  "present (Some (c # v)) = Some (c # v)"
| "present _ = None"

locale string_store =
  fixes get :: "'s \<Rightarrow> string \<Rightarrow> string \<Rightarrow> string option"
    and put :: "'s \<Rightarrow> string \<Rightarrow> string \<Rightarrow> string option \<Rightarrow> 's"
    and inv :: "'s \<Rightarrow> bool"
  assumes get_put: "inv s \<Longrightarrow> get (put s sec k v) sec' k' = (if sec' = sec \<and> k' = k then present v else get s sec' k')"
    and put_inv: "inv s \<Longrightarrow> inv (put s sec k v)"
begin

text \<open>The store as a function of section and key, and an assignment as a function update.\<close>

definition contents :: "'s \<Rightarrow> string \<times> string \<Rightarrow> string option" where
  "contents s = (\<lambda>(sec, k). get s sec k)"

lemma contents_put: "inv s \<Longrightarrow> contents (put s sec k v) = (contents s)((sec, k) := present v)"
  by (auto simp: contents_def get_put fun_eq_iff)

lemma get_back: "inv s \<Longrightarrow> v \<noteq> [] \<Longrightarrow> get (put s sec k (Some v)) sec k = Some v"
  by (cases v) (auto simp: get_put)

lemma get_other: "inv s \<Longrightarrow> (sec', k') \<noteq> (sec, k) \<Longrightarrow> get (put s sec k v) sec' k' = get s sec' k'"
  by (auto simp: get_put)

lemma last_put_wins: "inv s \<Longrightarrow> contents (put (put s sec k v) sec k w) = contents (put s sec k w)"
  by (simp add: contents_put put_inv)

lemma puts_commute:
  "inv s \<Longrightarrow> (sec, k) \<noteq> (sec', k') \<Longrightarrow>
   contents (put (put s sec k v) sec' k' w) = contents (put (put s sec' k' w) sec k v)"
  by (auto simp: contents_put put_inv fun_upd_twist)

lemma absent_after_removal: "inv s \<Longrightarrow> get (put s sec k None) sec k = None"
  by (simp add: get_put)

text \<open>A reader that parses what a writer printed gives the value back.\<close>

lemma typed_round_trip:
  "inv s \<Longrightarrow> print x \<noteq> [] \<Longrightarrow> parse (print x) = r \<Longrightarrow>
   (case get (put s sec k (Some (print x))) sec k of Some str \<Rightarrow> parse str | None \<Rightarrow> d) = r"
  by (simp add: get_back)

end

section \<open>The invariant of the store\<close>

definition item_keys :: "lp_section \<Rightarrow> string list" where
  "item_keys sec = map (\<lambda>i. the (it_key i)) (filter (\<lambda>i. \<not> it_is_comment i) (sec_items sec))"

definition section_ok :: "lp_section \<Rightarrow> bool" where
  "section_ok sec \<longleftrightarrow> (\<forall>i \<in> set (sec_items sec). \<not> it_is_comment i \<longrightarrow> it_key i \<noteq> None) \<and> distinct (item_keys sec)"

definition lp_ok :: "lp_config \<Rightarrow> bool" where
  "lp_ok lp \<longleftrightarrow> distinct (map sec_name (lp_sections lp)) \<and> (\<forall>sec \<in> set (lp_sections lp). section_ok sec)"

text \<open>Lookups as searches.\<close>

definition section_get :: "lp_section \<Rightarrow> string \<Rightarrow> string option" where
  "section_get sec key = map_option it_value (find (item_has_key key) (sec_items sec))"

lemma get_string_find:
  "lp_config_get_string lp section key None =
     (case find (\<lambda>sec. sec_name sec = section) (lp_sections lp) of None \<Rightarrow> None | Some sec \<Rightarrow> section_get sec key)"
proof -
  have "(case lp_section_find_item sec key of None \<Rightarrow> None | Some i \<Rightarrow> Some (it_value (sec_items sec ! i))) = section_get sec key" for sec
    unfolding section_get_def lp_section_find_item_def first_index_find [symmetric] by (simp split: option.splits)
  then show ?thesis
    unfolding lp_config_get_string_def lp_config_find_section_def Let_def first_index_find [symmetric]
    by (simp split: option.splits)
qed

lemma get_string_default:
  "lp_config_get_string lp section key d = (case lp_config_get_string lp section key None of Some v \<Rightarrow> Some v | None \<Rightarrow> d)"
  by (auto simp: lp_config_get_string_def Let_def split: option.splits)

section \<open>Assignments\<close>

text \<open>An assignment as one update of a section.\<close>

definition section_put :: "lp_section \<Rightarrow> string \<Rightarrow> string option \<Rightarrow> lp_section" where
  "section_put sec key v = (case (lp_section_find_item sec key, present v) of
     (Some i, Some w) \<Rightarrow> upd_item i (\<lambda>item. lp_item_set_value item w) sec
   | (Some i, None) \<Rightarrow> lp_section_remove_item sec i
   | (None, Some w) \<Rightarrow> lp_section_add_item sec (lp_item_new key w)
   | (None, None) \<Rightarrow> sec)"

lemma upd_section_id: "f (lp_sections lp ! k) = lp_sections lp ! k \<Longrightarrow> upd_section k f lp = lp"
  by (simp add: upd_section_def)

lemma set_string_section_put:
  "lp_config_set_string lp section key v = (let
     lp' = (case lp_config_find_section lp section of
         Some k \<Rightarrow> upd_section k (\<lambda>sec. section_put sec key v) lp
       | None \<Rightarrow> (case present v of
           Some w \<Rightarrow> lp_config_add_section lp (section_put (lp_section_new section) key v)
         | None \<Rightarrow> lp))
   in lp'\<lparr>lp_modified := lp_modified lp + 1\<rparr>)"
proof -
  have pv: "v = None \<or> v = Some [] \<or> (\<exists>c w. v = Some (c # w))"
    by (cases v rule: present.cases) auto
  have new: "lp_section_find_item (lp_section_new section) key = None"
    by (simp add: lp_section_find_item_def lp_section_new_def)
  show ?thesis
  proof (cases "lp_config_find_section lp section")
    case None
    with pv new show ?thesis
      by (auto simp: lp_config_set_string_def Let_def section_put_def lp_config_add_section_def)
  next
    case (Some k)
    show ?thesis
    proof (cases "lp_section_find_item (lp_sections lp ! k) key")
      case None
      with Some pv show ?thesis
        by (auto simp: lp_config_set_string_def Let_def section_put_def upd_section_def)
    next
      case (Some i)
      with \<open>lp_config_find_section lp section = Some k\<close> pv show ?thesis
        by (auto simp: lp_config_set_string_def Let_def section_put_def upd_section_def)
    qed
  qed
qed

lemma section_put_name [simp]: "sec_name (section_put sec key v) = sec_name sec"
  by (auto simp: section_put_def upd_item_def lp_section_remove_item_def lp_section_add_item_def split: option.splits)

lemma item_has_key_new [simp]: "item_has_key k (lp_item_new key w) \<longleftrightarrow> k = key"
  by (auto simp: item_has_key_def lp_item_new_def)

lemma item_has_key_set [simp]: "item_has_key k (lp_item_set_value item w) = item_has_key k item"
  by (simp add: item_has_key_def lp_item_set_value_def)

lemma item_has_key_unique: "item_has_key k i \<Longrightarrow> item_has_key k' i \<longleftrightarrow> k' = k"
  by (auto simp: item_has_key_def)

text \<open>The three shapes a section can take under an assignment.\<close>

lemma section_put_cases:
  assumes "section_ok sec"
  obtains (hit) pre i post where "sec_items sec = pre @ i # post" "item_has_key key i"
      "\<forall>j \<in> set pre. \<not> item_has_key key j" "\<forall>j \<in> set post. \<not> item_has_key key j"
      "sec_items (section_put sec key v) = pre @ (case present v of Some w \<Rightarrow> [lp_item_set_value i w] | None \<Rightarrow> []) @ post"
  | (miss) "\<forall>j \<in> set (sec_items sec). \<not> item_has_key key j"
      "sec_items (section_put sec key v) = sec_items sec @ (case present v of Some w \<Rightarrow> [lp_item_new key w] | None \<Rightarrow> [])"
proof (cases "lp_section_find_item sec key")
  case None
  then have "\<forall>j \<in> set (sec_items sec). \<not> item_has_key key j"
    unfolding lp_section_find_item_def by (rule first_index_NoneD)
  moreover have "sec_items (section_put sec key v) = sec_items sec @ (case present v of Some w \<Rightarrow> [lp_item_new key w] | None \<Rightarrow> [])"
    using None by (auto simp: section_put_def lp_section_add_item_def split: option.splits)
  ultimately show thesis by (rule miss)
next
  case (Some k)
  then obtain pre i post where s: "sec_items sec = pre @ i # post" "length pre = k" "item_has_key key i"
    "\<forall>j \<in> set pre. \<not> item_has_key key j"
    unfolding lp_section_find_item_def by (rule first_index_Some_split)
  have "\<not> item_has_key key j" if "j \<in> set post" for j
  proof
    assume j: "item_has_key key j"
    with that have "key \<in> (\<lambda>i. the (it_key i)) ` {i \<in> set post. \<not> it_is_comment i}"
      by (intro rev_image_eqI [of j]) (auto simp: item_has_key_def)
    moreover from assms s have "the (it_key i) \<notin> (\<lambda>i. the (it_key i)) ` {i \<in> set post. \<not> it_is_comment i}"
      by (auto simp: section_ok_def item_keys_def item_has_key_def)
    ultimately show False using s(3) by (simp add: item_has_key_def)
  qed
  moreover have "sec_items (section_put sec key v) = pre @ (case present v of Some w \<Rightarrow> [lp_item_set_value i w] | None \<Rightarrow> []) @ post"
    using Some s(1) s(2) [symmetric]
    by (auto simp: section_put_def upd_item_def lp_section_remove_item_def split: option.splits)
  ultimately show thesis using s by (intro hit) auto
qed

lemma it_value_set [simp]: "it_value (lp_item_set_value i w) = w" "it_value (lp_item_new k w) = w"
  by (simp_all add: lp_item_set_value_def lp_item_new_def)

lemma section_get_put:
  assumes "section_ok sec"
  shows "section_get (section_put sec key v) key' = (if key' = key then present v else section_get sec key')"
  using assms
proof (cases rule: section_put_cases [of sec key v])
  case (hit pre i post)
  show ?thesis
  proof (cases "key' = key")
    case True
    with hit show ?thesis by (cases "present v") (simp_all add: section_get_def find_append find_none)
  next
    case False
    with hit have "\<not> item_has_key key' i" by (simp add: item_has_key_unique)
    with False hit show ?thesis by (simp add: section_get_def find_append split: option.splits)
  qed
next
  case miss
  then show ?thesis by (auto simp: section_get_def find_append find_none split: option.splits)
qed

lemma section_ok_put:
  assumes "section_ok sec"
  shows "section_ok (section_put sec key v)"
  using assms
proof (cases rule: section_put_cases [of sec key v])
  case (hit pre i post)
  have "it_key (lp_item_set_value i w) = it_key i" "it_is_comment (lp_item_set_value i w) = it_is_comment i" for w
    by (simp_all add: lp_item_set_value_def)
  with hit assms show ?thesis by (cases "present v") (auto simp: section_ok_def item_keys_def split: if_splits)
next
  case miss
  have "key \<notin> set (item_keys sec)" using miss(1) assms
    by (auto simp: item_keys_def section_ok_def item_has_key_def)
  with miss(2) assms show ?thesis
    by (cases "present v") (auto simp: section_ok_def item_keys_def lp_item_new_def)
qed

section \<open>The store keeps the contract\<close>

lemma set_string_cases:
  assumes "lp_ok lp"
  obtains (hit) pre sec post where "lp_sections lp = pre @ sec # post" "sec_name sec = section"
      "\<forall>s \<in> set pre. sec_name s \<noteq> section" "\<forall>s \<in> set post. sec_name s \<noteq> section" "section_ok sec"
      "lp_sections (lp_config_set_string lp section key v) = pre @ section_put sec key v # post"
  | (miss) "\<forall>s \<in> set (lp_sections lp). sec_name s \<noteq> section"
      "lp_sections (lp_config_set_string lp section key v) = lp_sections lp
         @ (if present v = None then [] else [section_put (lp_section_new section) key v])"
proof (cases "lp_config_find_section lp section")
  case None
  then have "\<forall>s \<in> set (lp_sections lp). sec_name s \<noteq> section"
    unfolding lp_config_find_section_def by (rule first_index_NoneD)
  moreover have "lp_sections (lp_config_set_string lp section key v) = lp_sections lp
         @ (if present v = None then [] else [section_put (lp_section_new section) key v])"
    using None by (auto simp: set_string_section_put Let_def lp_config_add_section_def split: option.splits)
  ultimately show thesis by (rule miss)
next
  case (Some k)
  then obtain pre sec post where s: "lp_sections lp = pre @ sec # post" "length pre = k" "sec_name sec = section"
    "\<forall>s \<in> set pre. sec_name s \<noteq> section"
    unfolding lp_config_find_section_def by (rule first_index_Some_split)
  moreover have "lp_sections (lp_config_set_string lp section key v) = pre @ section_put sec key v # post"
    using Some s(1) s(2) [symmetric] by (simp add: set_string_section_put Let_def upd_section_def)
  moreover have "\<forall>s \<in> set post. sec_name s \<noteq> section" "section_ok sec"
    using assms s by (auto simp: lp_ok_def) (metis image_eqI)
  ultimately show thesis by (intro hit)
qed

lemma section_new_ok: "section_ok (lp_section_new name)" "section_get (lp_section_new name) key = None" "sec_name (lp_section_new name) = name"
  by (simp_all add: section_ok_def item_keys_def lp_section_new_def section_get_def)

lemma get_set_string:
  assumes "lp_ok lp"
  shows "lp_config_get_string (lp_config_set_string lp section key v) section' key' None =
    (if section' = section \<and> key' = key then present v else lp_config_get_string lp section' key' None)"
  using assms
proof (cases rule: set_string_cases [of lp "section" key v])
  case (hit pre sec post)
  then show ?thesis
    by (auto simp: get_string_find find_append find_none section_get_put split: option.splits)
next
  case miss
  then show ?thesis
    by (auto simp: get_string_find find_append find_none section_get_put section_new_ok split: option.splits)
qed

lemma set_string_ok:
  assumes "lp_ok lp"
  shows "lp_ok (lp_config_set_string lp section key v)"
  using assms
proof (cases rule: set_string_cases [of lp "section" key v])
  case (hit pre sec post)
  with assms section_ok_put [OF hit(5)] show ?thesis by (auto simp: lp_ok_def)
next
  case miss
  with assms section_ok_put [OF section_new_ok(1)] show ?thesis
    by (auto simp: lp_ok_def section_new_ok(3))
qed

interpretation lp: string_store "\<lambda>lp section key. lp_config_get_string lp section key None" lp_config_set_string lp_ok
  by unfold_locales (rule get_set_string, assumption, rule set_string_ok)

section \<open>Properties of assignments\<close>

text \<open>A store seen as a function of section and key.\<close>

definition lp_contents :: "lp_config \<Rightarrow> string \<times> string \<Rightarrow> string option" where
  "lp_contents lp = (\<lambda>(section, key). lp_config_get_string lp section key None)"

lemma modified_set_string: "lp_modified (lp_config_set_string lp section key v) = lp_modified lp + 1"
  by (simp add: set_string_section_put Let_def)

text \<open>C37. Assigning a string refines a function update: the new store has the value under that
  section and key, or nothing when the value is absent or empty, every other entry is as before,
  the invariant holds again and the store asks to be saved.\<close>

theorem set_string_refines_update:
  assumes "lp_ok lp" and "0 \<le> lp_modified lp"
  shows "lp_ok (lp_config_set_string lp section key v)
    \<and> lp_contents (lp_config_set_string lp section key v) = (lp_contents lp)((section, key) := present v)
    \<and> lp_config_needs_commit (lp_config_set_string lp section key v)"
  using assms lp.contents_put [OF assms(1)] lp.put_inv [OF assms(1)]
  by (simp add: lp_contents_def lp.contents_def lp_config_needs_commit_def modified_set_string)

lemma length_show_base: "2 \<le> b \<Longrightarrow> n < b ^ k \<Longrightarrow> 0 < k \<Longrightarrow> length (show_base b n) \<le> k"
proof (induction b n arbitrary: k rule: show_base.induct)
  case (1 b n)
  show ?case
  proof (cases "n < b")
    case True
    with 1 show ?thesis by (simp add: show_base.simps [of b n])
  next
    case False
    with 1 have k: "1 < k" by (cases k) (auto simp: not_less, metis One_nat_def Suc_lessI leD neq0_conv power_one_right power_0 mult.right_neutral power_Suc)
    then obtain j where j: "k = Suc j" "0 < j" by (cases k) auto
    with 1 have "n div b < b ^ j" by (simp add: less_mult_imp_div_less mult.commute)
    with 1 False j have "length (show_base b (n div b)) \<le> j" by simp
    with 1 False j show ?thesis by (simp add: show_base.simps [of b n])
  qed
qed

lemma length_show_int: "\<bar>i\<bar> < 10 ^ k \<Longrightarrow> 0 < k \<Longrightarrow> length (show_int i) \<le> k + 1"
proof -
  assume i: "\<bar>i\<bar> < 10 ^ k" and k: "0 < k"
  have "nat \<bar>i\<bar> < 10 ^ k" using i by (metis abs_ge_zero nat_less_eq_zless nat_power_eq nat_numeral zero_le_numeral)
  then have "length (show_base 10 (nat \<bar>i\<bar>)) \<le> k" using length_show_base [of 10 "nat \<bar>i\<bar>" k] k by simp
  then show ?thesis by (auto simp: show_int_def)
qed

lemma show_int_nonempty [simp]: "show_int i \<noteq> []"
  by (simp add: show_int_def)

lemma tmp30_int:
  assumes "- (2 ^ 63) \<le> i" and "i < 2 ^ 63"
  shows "tmp30 (show_int i) = show_int i"
proof -
  have "\<bar>i\<bar> < 10 ^ 19" using assms by simp
  from length_show_int [OF this] show ?thesis by (simp add: tmp30_def)
qed

lemma tmp30_hex: "tmp30 (show_hex i) = show_hex i"
proof -
  have "unat (word_of_int i :: 32 word) < 16 ^ 8"
    using unsigned_less [of "word_of_int i :: 32 word", where 'a = nat] by simp
  from length_show_base [OF _ this] show ?thesis by (simp add: tmp30_def show_hex_def)
qed

lemma show_int_not_hex: "\<not> starts_with (show_int i) ''0x''"
proof
  assume "starts_with (show_int i) ''0x''"
  then obtain r where r: "show_int i = CHR ''0'' # CHR ''x'' # r" by (auto simp: starts_with_iff)
  then have "CHR ''x'' \<in> set (show_int i)" by simp
  then have "CHR ''x'' \<in> set (show_base 10 (nat \<bar>i\<bar>))" by (auto simp: show_int_def split: if_splits)
  from show_base_digits [OF _ _ this] obtain d where "d < 10" "CHR ''x'' = digit_char d" by auto
  then show False using digit_char_props(4) [of d] by simp
qed

lemma get_back_tmp: "lp_ok lp \<Longrightarrow> s \<noteq> [] \<Longrightarrow>
   lp_config_get_string (lp_config_set_string lp section key (Some s)) section key None = Some s"
  by (rule lp.get_back)

lemma show_hex_nonempty [simp]: "show_hex i \<noteq> []"
  by (simp add: show_hex_def)

text \<open>Integers come back as they were stored: a 32-bit integer written in decimal or in
  hexadecimal by the plain getter, and a 64-bit one by the 64-bit getter.\<close>

theorem integers_come_back:
  assumes "lp_ok lp"
  shows "(- (2 ^ 31) \<le> i \<and> i < 2 ^ 31 \<longrightarrow>
      lp_config_get_int (lp_config_set_int lp section key i) section key d = Some i
      \<and> lp_config_get_int (lp_config_set_int_hex lp section key i) section key d = Some i)
    \<and> (- (2 ^ 63) \<le> i \<and> i < 2 ^ 63 \<longrightarrow>
      lp_config_get_int64 (lp_config_set_int64 lp section key i) section key d = Some i)"
proof (intro conjI impI)
  assume i: "- (2 ^ 31) \<le> i \<and> i < 2 ^ 31"
  then have t: "tmp30 (show_int i) = show_int i" by (intro tmp30_int) auto
  show "lp_config_get_int (lp_config_set_int lp section key i) section key d = Some i"
    using i by (simp add: lp_config_get_int_def lp_config_set_int_def t get_back_tmp [OF assms] show_int_not_hex as_int_def)
  have "starts_with (show_hex i) ''0x''" by (simp add: show_hex_def)
  then show "lp_config_get_int (lp_config_set_int_hex lp section key i) section key d = Some i"
    using i by (simp add: lp_config_get_int_def lp_config_set_int_hex_def tmp30_hex get_back_tmp [OF assms] sscanf_x_show_hex)
next
  assume i: "- (2 ^ 63) \<le> i \<and> i < 2 ^ 63"
  then have t: "tmp30 (show_int i) = show_int i" by (intro tmp30_int) auto
  show "lp_config_get_int64 (lp_config_set_int64 lp section key i) section key d = Some i"
    using i by (simp add: lp_config_get_int64_def lp_config_set_int64_def t get_back_tmp [OF assms] as_int_def)
qed

lemma show_int_no_minus: "0 \<le> i \<Longrightarrow> CHR ''-'' \<notin> set (show_int i)"
proof
  assume "0 \<le> i" "CHR ''-'' \<in> set (show_int i)"
  then have "CHR ''-'' \<in> set (show_base 10 (nat i))" by (simp add: show_int_def)
  from show_base_digits [OF _ _ this] obtain d where "d < 10" "CHR ''-'' = digit_char d" by auto
  then show False using digit_char_props(2) [of d] by simp
qed

lemma tmp30_range:
  assumes "- (2 ^ 31) \<le> a" and "a < 2 ^ 31" and "- (2 ^ 31) \<le> b" and "b < 2 ^ 31"
  shows "tmp30 (show_int a @ CHR ''-'' # show_int b) = show_int a @ CHR ''-'' # show_int b"
proof -
  have "\<bar>a\<bar> < 10 ^ 10" "\<bar>b\<bar> < 10 ^ 10" using assms by simp_all
  from length_show_int [OF this(1)] length_show_int [OF this(2)] show ?thesis by (simp add: tmp30_def)
qed

lemma digit_of_minus: "digit_of 10 (CHR ''-'') = None"
  by (simp add: digit_of_def)

text \<open>A range comes back with both bounds when its lower bound is not negative, whatever
  the upper one; a negative lower bound reads back as the defaults, with a failure result.\<close>

theorem range_comes_back:
  assumes "lp_ok lp" and "- (2 ^ 31) \<le> a" and "a < 2 ^ 31" and "- (2 ^ 31) \<le> b" and "b < 2 ^ 31"
  shows "lp_config_get_range (lp_config_set_range lp section key a b) section key da db =
    (if 0 \<le> a then (Some a, Some b, True) else (Some da, Some db, False))"
proof -
  let ?s = "show_int a @ CHR ''-'' # show_int b"
  have g: "lp_config_get_string (lp_config_set_range lp section key a b) section key None = Some ?s"
    by (simp add: lp_config_set_range_def tmp30_range [OF assms(2-5)] get_back_tmp [OF assms(1)])
  show ?thesis
  proof (cases "0 \<le> a")
    case True
    then have "strchr ?s (CHR ''-'') = Some (show_int a, show_int b)"
      by (intro strchr_append show_int_no_minus)
    moreover have "atoi ?s = Some a"
      using assms(2,3) by (simp add: atoi_def strto_show_int_app digit_of_minus as_int_def)
    moreover have "atoi (show_int b) = Some b" using assms(4,5) by (simp add: as_int_def)
    ultimately show ?thesis using True g by (simp add: lp_config_get_range_def)
  next
    case False
    then have "?s = [] @ CHR ''-'' # (show_base 10 (nat (- a)) @ CHR ''-'' # show_int b)"
      by (simp add: show_int_def)
    then have "strchr ?s (CHR ''-'') = Some ([], show_base 10 (nat (- a)) @ CHR ''-'' # show_int b)"
      by (metis strchr_append empty_iff list.set(1))
    with False g show ?thesis by (simp add: lp_config_get_range_def)
  qed
qed

lemma clean_section_laws:
  assumes "lp_ok lp"
  shows "lp_ok (lp_config_clean_section lp section)
    \<and> lp_contents (lp_config_clean_section lp section) = (\<lambda>(s, k). if s = section then None else lp_contents lp (s, k))
    \<and> \<not> lp_config_has_section (lp_config_clean_section lp section) section"
proof (cases "lp_config_find_section lp section")
  case None
  then have n: "\<forall>s \<in> set (lp_sections lp). sec_name s \<noteq> section"
    unfolding lp_config_find_section_def by (rule first_index_NoneD)
  from None have l: "lp_sections (lp_config_clean_section lp section) = lp_sections lp"
    by (simp add: lp_config_clean_section_def Let_def)
  with None have "\<not> lp_config_has_section (lp_config_clean_section lp section) section"
    by (simp add: lp_config_has_section_def lp_config_find_section_def)
  with l n assms show ?thesis
    by (auto simp: lp_contents_def get_string_find lp_ok_def find_none fun_eq_iff)
next
  case (Some k)
  then obtain pre sec post where s: "lp_sections lp = pre @ sec # post" "length pre = k" "sec_name sec = section"
    "\<forall>s \<in> set pre. sec_name s \<noteq> section"
    unfolding lp_config_find_section_def by (rule first_index_Some_split)
  have p: "\<forall>s \<in> set post. sec_name s \<noteq> section"
    using assms s by (auto simp: lp_ok_def) (metis image_eqI)
  from Some s(1) s(2) [symmetric] have l: "lp_sections (lp_config_clean_section lp section) = pre @ post"
    by (simp add: lp_config_clean_section_def Let_def lp_config_remove_section_def)
  have "lp_config_find_section (lp_config_clean_section lp section) section = None"
    using s p unfolding lp_config_find_section_def l
    by (cases "first_index (\<lambda>sec. sec_name sec = section) 0 (pre @ post)")
      (auto dest!: first_index_SomeD simp: nth_append split: if_splits)
  then have "\<not> lp_config_has_section (lp_config_clean_section lp section) section"
    by (simp add: lp_config_has_section_def)
  with s p l assms show ?thesis
    by (auto simp: lp_contents_def get_string_find lp_ok_def find_append find_none fun_eq_iff split: option.splits)
qed

text \<open>Cleaning a section removes exactly its entries and keeps the invariant.\<close>

theorem clean_section_removes_its_entries:
  assumes "lp_ok lp"
  shows "lp_ok (lp_config_clean_section lp section)
    \<and> lp_contents (lp_config_clean_section lp section) = (\<lambda>(s, k). if s = section then None else lp_contents lp (s, k))
    \<and> \<not> lp_config_has_section (lp_config_clean_section lp section) section"
  by (rule clean_section_laws [OF assms])

section \<open>Any text parses to a store that keeps the invariant\<close>

lemma upd_section_ok:
  assumes "lp_ok lp" and "k < length (lp_sections lp)"
    and "\<And>sec. section_ok sec \<Longrightarrow> section_ok (f sec) \<and> sec_name (f sec) = sec_name sec"
  shows "lp_ok (upd_section k f lp)" "length (lp_sections (upd_section k f lp)) = length (lp_sections lp)"
proof -
  have ok: "section_ok (lp_sections lp ! k)" using assms(1,2) by (simp add: lp_ok_def)
  have "map sec_name ((lp_sections lp)[k := f (lp_sections lp ! k)]) = map sec_name (lp_sections lp)"
    using assms(2) assms(3) [OF ok] by (metis list_update_id map_update)
  moreover have "\<forall>sec \<in> set ((lp_sections lp)[k := f (lp_sections lp ! k)]). section_ok sec"
    using assms(1) assms(3) [OF ok] by (auto simp: lp_ok_def dest!: set_update_subset_insert [THEN subsetD])
  ultimately show "lp_ok (upd_section k f lp)" using assms(1) by (simp add: lp_ok_def upd_section_def)
  show "length (lp_sections (upd_section k f lp)) = length (lp_sections lp)" by (simp add: upd_section_def)
qed

lemma add_params_frame [simp]:
  "sec_items (fold (\<lambda>param sec. lp_config_add_section_param sec param) ps sec) = sec_items sec"
  "sec_name (fold (\<lambda>param sec. lp_config_add_section_param sec param) ps sec) = sec_name sec"
  by (induction ps arbitrary: sec) (simp_all add: lp_config_add_section_param_def)

lemma add_params_ok: "section_ok sec \<Longrightarrow>
   section_ok (fold (\<lambda>param sec. lp_config_add_section_param sec param) ps sec)
   \<and> sec_name (fold (\<lambda>param sec. lp_config_add_section_param sec param) ps sec) = sec_name sec"
  by (simp add: section_ok_def item_keys_def)

definition cur_ok :: "lp_config \<Rightarrow> nat option \<Rightarrow> bool" where
  "cur_ok lp cur \<longleftrightarrow> (\<forall>k. cur = Some k \<longrightarrow> k < length (lp_sections lp))"

lemma parse_section_line_ok:
  assumes "lp_ok lp" and "cur_ok lp cur" and "lp_parse_section_line lp after cur = (lp', cur')"
  shows "lp_ok lp' \<and> cur_ok lp' cur'"
proof (cases "strchr after (CHR '']'')")
  case None
  with assms show ?thesis by (simp add: lp_parse_section_line_def)
next
  case (Some ir)
  obtain inside rest where ir: "ir = (inside, rest)" by fastforce
  let ?m = "inside @ CHR 0x00 # rest @ [CHR 0x00]"
  show ?thesis
  proof (cases "scan_word (cstr ?m)")
    case None
    with assms Some ir show ?thesis by (simp add: lp_parse_section_line_def)
  next
    case (Some w)
    obtain secname r where w: "w = (secname, r)" by fastforce
    obtain lp1 k where g: "(case lp_config_find_section lp secname of Some k \<Rightarrow> (lp, k)
        | None \<Rightarrow> (lp_config_add_section lp (lp_section_new secname), length (lp_sections lp))) = (lp1, k)" by fastforce
    have ok: "lp_ok lp1 \<and> k < length (lp_sections lp1)"
    proof (cases "lp_config_find_section lp secname")
      case None
      then have "\<forall>s \<in> set (lp_sections lp). sec_name s \<noteq> secname"
        unfolding lp_config_find_section_def by (rule first_index_NoneD)
      with None g assms(1) show ?thesis
        by (auto simp: lp_config_add_section_def lp_ok_def section_new_ok)
    next
      case (Some j)
      with g assms(1) show ?thesis by (auto simp: lp_config_find_section_def dest!: first_index_SomeD)
    qed
    let ?f = "\<lambda>sec. fold (\<lambda>param sec. lp_config_add_section_param sec param) (lp_parse_params (drop (length secname + 1) ?m)) sec"
    have "lp' = (if length secname < length inside then upd_section k ?f lp1 else lp1)" "cur' = Some k"
      using assms(3) \<open>strchr after (CHR '']'') = Some ir\<close> ir Some w g by (auto simp: lp_parse_section_line_def Let_def)
    with ok upd_section_ok [of lp1 k ?f] add_params_ok show ?thesis by (auto simp: cur_ok_def)
  qed
qed

lemma add_comment_ok: "section_ok sec \<Longrightarrow> section_ok (lp_section_add_item sec (lp_comment_new line))
   \<and> sec_name (lp_section_add_item sec (lp_comment_new line)) = sec_name sec"
  by (simp add: section_ok_def item_keys_def lp_section_add_item_def lp_comment_new_def)

lemma parse_put:
  "v \<noteq> [] \<Longrightarrow> (case lp_section_find_item sec key of None \<Rightarrow> lp_section_add_item sec (lp_item_new key v)
     | Some i \<Rightarrow> upd_item i (\<lambda>item. lp_item_set_value item v) sec) = section_put sec key (Some v)"
  by (cases v) (auto simp: section_put_def split: option.splits)

lemma parse_item_line_ok:
  assumes "lp_ok lp" and "cur_ok lp cur"
  shows "lp_ok (lp_parse_item_line lp line cur) \<and> cur_ok (lp_parse_item_line lp line cur) cur"
proof (cases cur)
  case None
  then show ?thesis using assms
    by (auto simp: lp_parse_item_line_def Let_def split: option.splits prod.splits)
next
  case (Some k)
  with assms have k: "k < length (lp_sections lp)" by (simp add: cur_ok_def)
  note comment = upd_section_ok [OF assms(1) k add_comment_ok]
  have put: "lp_ok (upd_section k (\<lambda>sec. section_put sec key v) lp)"
    "length (lp_sections (upd_section k (\<lambda>sec. section_put sec key v) lp)) = length (lp_sections lp)" for key v
    by (rule upd_section_ok [OF assms(1) k]; simp add: section_ok_put)+
  show ?thesis
    using Some assms k comment put
    by (auto simp: lp_parse_item_line_def Let_def parse_put cur_ok_def split: option.splits prod.splits)
qed

lemma parse_line_ok:
  "lp_ok lp \<Longrightarrow> cur_ok lp cur \<Longrightarrow> lp_config_parse_line lp line cur = (lp', cur') \<Longrightarrow> lp_ok lp' \<and> cur_ok lp' cur'"
  using parse_item_line_ok [of lp cur line] parse_section_line_ok [of lp cur _ lp' cur']
  by (auto simp: lp_config_parse_line_def split: option.splits prod.splits if_splits)

lemma parse_file_ok: "lp_ok lp \<Longrightarrow> cur_ok lp cur \<Longrightarrow> lp_ok (lp_parse_file lp s cur)"
proof (induction lp s cur rule: lp_parse_file.induct)
  case (1 lp s cur)
  show ?case
  proof (cases "fgets s")
    case None
    with 1 show ?thesis by (simp add: lp_parse_file.simps [of lp s])
  next
    case (Some tr)
    obtain tmp r where tr: "tr = (tmp, r)" by fastforce
    obtain lp' cur' where p: "lp_config_parse_line lp tmp cur = (lp', cur')" by fastforce
    with Some tr 1(1) [OF Some tr [symmetric] p [symmetric]] 1(2,3) parse_line_ok [OF 1(2,3) p] show ?thesis
      by (simp add: lp_parse_file.simps [of lp s])
  qed
qed

lemma parse_lines_ok: "lp_ok lp \<Longrightarrow> cur_ok lp cur \<Longrightarrow> lp_ok (lp_parse_lines lp lines cur)"
proof (induction lines arbitrary: lp cur)
  case (Cons line lines)
  obtain lp' cur' where p: "lp_config_parse_line lp line cur = (lp', cur')" by fastforce
  with Cons parse_line_ok [OF Cons.prems p] show ?case by simp
qed simp

text \<open>C39. Whatever the text of a file or of a buffer, parsing it gives a store that keeps the
  invariant: every section name once, every key once in its section.\<close>

theorem parsing_keeps_invariant:
  "lp_ok (lp_config_new_from_buffer buffer) \<and> (lp_ok lp \<longrightarrow> lp_ok (lp_config_parse lp file))"
proof -
  have z: "lp_ok (lp_config_zero\<lparr>lp_refcnt := 1\<rparr>)" "\<And>lp. cur_ok lp None"
    by (simp_all add: lp_ok_def lp_config_zero_def cur_ok_def)
  then show ?thesis
    by (auto simp: lp_config_new_from_buffer_def lp_config_parse_def intro: parse_lines_ok parse_file_ok split: option.splits)
qed

end
