(* ===== verification/LpFiles.thy ===== *)
theory LpFiles
  imports LpConfig
begin

text \<open>
  The writer of \<open>coreapi/lpconfig.c\<close> and its use of the file system.  A file system is a
  record: the text of each file, and which paths can be opened for writing or be the target of
  a \<open>rename\<close>.  A file that exists can be read; writes do not run out of space; permission
  bits (\<open>chmod\<close>, \<open>umask\<close>) do not show in the text.  \<open>dirname\<close> is a parameter.
\<close>

record lp_fs =
  fs_file :: "string \<Rightarrow> string option"
  fs_writable :: "string \<Rightarrow> bool"
  fs_renamable :: "string \<Rightarrow> bool"

definition fs_put :: "lp_fs \<Rightarrow> string \<Rightarrow> string \<Rightarrow> lp_fs" where
  "fs_put fs path text = fs\<lparr>fs_file := (fs_file fs)(path := Some text)\<rparr>"

definition fs_rename :: "lp_fs \<Rightarrow> string \<Rightarrow> string \<Rightarrow> lp_fs" where
  "fs_rename fs old new = fs\<lparr>fs_file := (fs_file fs)(old := None, new := fs_file fs old)\<rparr>"

section \<open>Writing\<close>

definition lp_item_write :: "lp_item \<Rightarrow> string" where
  "lp_item_write item =
     (if it_is_comment item then it_value item @ [CHR 0x0A]
      else if it_value item \<noteq> [] then
        (case it_key item of Some k \<Rightarrow> k | None \<Rightarrow> ''(null)'') @ CHR ''='' # it_value item @ [CHR 0x0A]
      else [])"

definition lp_section_param_write :: "lp_section_param \<Rightarrow> string" where
  "lp_section_param_write param =
     (if sp_value param \<noteq> [] then CHR '' '' # sp_key param @ CHR ''='' # sp_value param else [])"

definition lp_section_write :: "lp_section \<Rightarrow> string" where
  "lp_section_write sec = CHR ''['' # sec_name sec
     @ concat (map lp_section_param_write (sec_params sec)) @ CHR '']'' # CHR 0x0A
     # concat (map lp_item_write (sec_items sec)) @ [CHR 0x0A]"

definition lp_config_text :: "lp_config \<Rightarrow> string" where
  "lp_config_text lp = concat (map lp_section_write (lp_sections lp))"

definition lp_config_sync :: "lp_fs \<Rightarrow> lp_config \<Rightarrow> lp_fs \<times> lp_config \<times> int" where
  "lp_config_sync fs lp =
     (case (lp_filename lp, lp_tmpfilename lp) of
        (Some filename, Some tmpfilename) \<Rightarrow>
          if lp_readonly lp then (fs, lp, 0)
          else if \<not> fs_writable fs tmpfilename then (fs, lp\<lparr>lp_readonly := True\<rparr>, -1)
          else (let fs = fs_put fs tmpfilename (lp_config_text lp);
                    fs = (if fs_renamable fs filename then fs_rename fs tmpfilename filename else fs)
                in (fs, lp\<lparr>lp_modified := 0\<rparr>, 0))
      | _ \<Rightarrow> (fs, lp, -1))"

section \<open>Opening\<close>

definition lp_config_read_file :: "lp_fs \<Rightarrow> lp_config \<Rightarrow> string \<Rightarrow> lp_config \<times> int" where
  "lp_config_read_file fs lp filename =
     (case fs_file fs filename of Some s \<Rightarrow> (lp_config_parse lp (Some s), 0) | None \<Rightarrow> (lp, -1))"

text \<open>\<open>fopen\<close> with mode \<open>r+\<close> needs a file that exists and can be written.\<close>

definition lp_config_new_with_factory :: "lp_fs \<Rightarrow> string option \<Rightarrow> string option \<Rightarrow> lp_config" where
  "lp_config_new_with_factory fs config_filename factory_config_filename = (let
     lp = lp_config_zero\<lparr>lp_refcnt := 1\<rparr>;
     lp = (case config_filename of None \<Rightarrow> lp
       | Some name \<Rightarrow> (let lp = lp\<lparr>lp_filename := Some name, lp_tmpfilename := Some (name @ ''.tmp'')\<rparr> in
           case fs_file fs name of
             Some s \<Rightarrow> if fs_writable fs name then (lp_config_parse lp (Some s))\<lparr>lp_modified := 0\<rparr> else lp
           | None \<Rightarrow> lp))
   in case factory_config_filename of None \<Rightarrow> lp | Some f \<Rightarrow> fst (lp_config_read_file fs lp f))"

definition lp_config_new :: "lp_fs \<Rightarrow> string option \<Rightarrow> lp_config" where
  "lp_config_new fs filename = lp_config_new_with_factory fs filename None"

section \<open>Files beside the configuration\<close>

definition relative_path :: "(string \<Rightarrow> string) \<Rightarrow> string \<Rightarrow> string \<Rightarrow> string" where
  "relative_path dirname path filename = dirname path @ CHR ''/'' # filename"

definition lp_config_relative_file_exists :: "(string \<Rightarrow> string) \<Rightarrow> lp_fs \<Rightarrow> lp_config \<Rightarrow> string \<Rightarrow> bool" where
  "lp_config_relative_file_exists dirname fs lp filename =
     (case lp_filename lp of None \<Rightarrow> False
      | Some f \<Rightarrow> fs_file fs (relative_path dirname f filename) \<noteq> None)"

definition lp_config_write_relative_file :: "(string \<Rightarrow> string) \<Rightarrow> lp_fs \<Rightarrow> lp_config \<Rightarrow> string \<Rightarrow> string \<Rightarrow> lp_fs" where
  "lp_config_write_relative_file dirname fs lp filename data =
     (case lp_filename lp of None \<Rightarrow> fs
      | Some f \<Rightarrow>
          if length data > 0 then
            (let filepath = relative_path dirname f filename
             in if fs_writable fs filepath then fs_put fs filepath data else fs)
          else fs)"

text \<open>The bytes read into the caller's buffer, and the result.\<close>

definition lp_config_read_relative_file :: "(string \<Rightarrow> string) \<Rightarrow> lp_fs \<Rightarrow> lp_config \<Rightarrow> string \<Rightarrow> nat
    \<Rightarrow> string option \<times> int" where
  "lp_config_read_relative_file dirname fs lp filename max_length =
     (case lp_filename lp of None \<Rightarrow> (None, -1)
      | Some f \<Rightarrow>
          (case fs_file fs (relative_path dirname f filename) of
             None \<Rightarrow> (None, -1)
           | Some text \<Rightarrow> if take max_length text = [] then (None, -1) else (Some (take max_length text), 0)))"

end
