(* ===== verification/LpRoundTrip.thy ===== *)
theory LpRoundTrip
  imports LpConfigProps LpFiles
begin

text \<open>
  Writing a store and reading the file back gives the same sections, for every store whose
  names, keys and values can be told apart in the text.
\<close>

section \<open>What can be written\<close>

definition plain_word :: "string \<Rightarrow> bool" where
  "plain_word w \<longleftrightarrow> w \<noteq> [] \<and> (\<forall>c \<in> set w. \<not> is_space c \<and> c \<noteq> CHR '']'' \<and> c \<noteq> CHR 0x00)"

definition param_plain :: "lp_section_param \<Rightarrow> bool" where
  "param_plain p \<longleftrightarrow> plain_word (sp_key p) \<and> CHR ''='' \<notin> set (sp_key p) \<and> plain_word (sp_value p)"

definition item_plain :: "lp_item \<Rightarrow> bool" where
  "item_plain i \<longleftrightarrow> CHR 0x0A \<notin> set (it_value i) \<and> CHR 0x0D \<notin> set (it_value i)
     \<and> length (lp_item_write i) < MAX_LEN
     \<and> (if it_is_comment i then it_key i = None \<and> is_a_comment (it_value i)
        else (\<exists>k. it_key i = Some k \<and> k \<noteq> [] \<and> (\<forall>c \<in> set k. \<not> is_space c \<and> c \<noteq> CHR ''='')
           \<and> hd k \<noteq> CHR ''#'' \<and> hd k \<noteq> CHR ''['')
         \<and> it_value i \<noteq> [] \<and> last (it_value i) \<noteq> CHR '' '')"

definition section_header :: "lp_section \<Rightarrow> string" where
  "section_header sec = CHR ''['' # sec_name sec
     @ concat (map lp_section_param_write (sec_params sec)) @ CHR '']'' # [CHR 0x0A]"

definition section_plain :: "lp_section \<Rightarrow> bool" where
  "section_plain sec \<longleftrightarrow> plain_word (sec_name sec) \<and> (\<forall>p \<in> set (sec_params sec). param_plain p)
     \<and> (\<forall>i \<in> set (sec_items sec). item_plain i) \<and> section_ok sec \<and> length (section_header sec) < MAX_LEN"

section \<open>Section parameters\<close>

lemma cstr_append: "CHR 0x00 \<notin> set a \<Longrightarrow> cstr (a @ b) = a @ cstr b"
  by (induction a) (auto simp: cstr_def)

lemma cstr_Nul [simp]: "cstr (CHR 0x00 # b) = []"
  by (simp add: cstr_def)

lemma cstr_Cons: "c \<noteq> CHR 0x00 \<Longrightarrow> cstr (c # b) = c # cstr b"
  by (simp add: cstr_def)

text \<open>The text of the parameters after the section name, without its first space.\<close>

fun params_text :: "lp_section_param list \<Rightarrow> string" where
  "params_text [] = []"
| "params_text [p] = sp_key p @ CHR ''='' # sp_value p"
| "params_text (p # q # ps) = sp_key p @ CHR ''='' # sp_value p @ CHR '' '' # params_text (q # ps)"

lemma params_write_text:
  "\<forall>p \<in> set ps. param_plain p \<Longrightarrow> ps \<noteq> [] \<Longrightarrow> concat (map lp_section_param_write ps) = CHR '' '' # params_text ps"
  by (induction ps rule: params_text.induct) (auto simp: lp_section_param_write_def param_plain_def plain_word_def)

lemma plain_word_char: "plain_word w \<Longrightarrow> CHR 0x00 \<notin> set w" "plain_word w \<Longrightarrow> CHR '']'' \<notin> set w"
  unfolding plain_word_def by blast+

lemma params_text_plain:
  "\<forall>p \<in> set ps. param_plain p \<Longrightarrow> CHR 0x00 \<notin> set (params_text ps) \<and> CHR '']'' \<notin> set (params_text ps)"
  by (induction ps rule: params_text.induct) (simp_all add: param_plain_def plain_word_char)

text \<open>One round of the loop: the separator after the value may be a space or the terminator.\<close>

lemma parse_params_step:
  assumes "param_plain p" and "s = CHR '' '' \<or> s = CHR 0x00"
  shows "lp_parse_params (sp_key p @ CHR ''='' # sp_value p @ s # r) = p # lp_parse_params r"
proof -
  define k where "k = sp_key p"
  define v where "v = sp_value p"
  have p: "lp_section_param_new k v = p" unfolding k_def v_def
    by (rule lp_section_param.equality) (simp_all add: lp_section_param_new_def)
  have k: "k \<noteq> []" "\<forall>c \<in> set k. \<not> is_space c" "CHR ''='' \<notin> set k" "CHR 0x00 \<notin> set k"
    and v: "v \<noteq> []" "\<forall>c \<in> set v. \<not> is_space c" "CHR 0x00 \<notin> set v"
    using assms(1) by (auto simp: k_def v_def param_plain_def plain_word_def)
  have sp: "is_space (CHR '' '')" by (simp add: is_space_def)
  let ?m = "k @ CHR ''='' # v @ s # r"
  have "strchr (cstr ?m) (CHR ''='') = Some (k, cstr (v @ s # r))"
    using k by (simp add: cstr_append cstr_Cons strchr_append)
  moreover have u: "?m[length k := CHR '' ''] = k @ CHR '' '' # v @ s # r" by simp
  moreover have "scan_word (cstr (k @ CHR '' '' # v @ s # r)) = Some (k, CHR '' '' # cstr (v @ s # r))"
    using k sp by (simp add: cstr_append cstr_Cons scan_word_space)
  moreover have "\<exists>t. scan_word (CHR '' '' # cstr (v @ s # r)) = Some (v, t)"
  proof -
    have "scan_word (CHR '' '' # x) = scan_word x" for x by (simp add: scan_word_def sp)
    moreover have "\<exists>t. scan_word (cstr (v @ s # r)) = Some (v, t)"
      using assms(2) v sp by (auto simp: cstr_append cstr_Cons scan_word_space scan_word_plain)
    ultimately show ?thesis by simp
  qed
  moreover have "drop (length k + length v + 2) (k @ CHR '' '' # v @ s # r) = r" by simp
  ultimately show ?thesis
    unfolding k_def [symmetric] v_def [symmetric]
    by (auto simp: p lp_parse_params.simps [of "k @ CHR ''='' # v @ s # r"] Let_def)
qed

lemma parse_params_text:
  assumes "\<forall>p \<in> set ps. param_plain p" and "ps \<noteq> []" and "lp_parse_params r = []"
  shows "lp_parse_params (params_text ps @ CHR 0x00 # r) = ps"
  using assms
proof (induction ps rule: params_text.induct)
  case (2 p)
  then show ?case using parse_params_step [of p "CHR 0x00" r] by simp
next
  case (3 p q ps)
  then show ?case using parse_params_step [of p "CHR '' ''" "params_text (q # ps) @ CHR 0x00 # r"] by simp
qed simp

lemma parse_no_params: "CHR ''='' \<notin> set (cstr r) \<Longrightarrow> lp_parse_params r = []"
  by (simp add: lp_parse_params.simps [of r] strchr_None)

section \<open>Section lines\<close>

lemma add_params: "fold (\<lambda>param sec. lp_config_add_section_param sec param) ps sec = sec\<lparr>sec_params := sec_params sec @ ps\<rparr>"
  by (induction ps arbitrary: sec) (simp_all add: lp_config_add_section_param_def)

lemma parse_header:
  assumes "section_plain sec" and "\<forall>s \<in> set (lp_sections lp). sec_name s \<noteq> sec_name sec"
  shows "lp_config_parse_line lp (section_header sec) cur =
    (lp_config_add_section lp (sec\<lparr>sec_items := []\<rparr>), Some (length (lp_sections lp)))"
proof -
  let ?n = "sec_name sec" and ?ps = "sec_params sec"
  let ?P = "concat (map lp_section_param_write ?ps)"
  have n: "plain_word ?n" and ps: "\<forall>p \<in> set ?ps. param_plain p"
    using assms(1) by (auto simp: section_plain_def)
  have np: "c \<noteq> CHR 0x00 \<and> c \<noteq> CHR '']''" if "c \<in> set (?n @ ?P)" for c
  proof (cases "c \<in> set ?n")
    case True
    with n show ?thesis by (simp add: plain_word_def)
  next
    case False
    with that have "c \<in> set ?P" "?ps \<noteq> []" by auto
    with params_write_text [OF ps] have "c = CHR '' '' \<or> c \<in> set (params_text ?ps)" by simp
    with params_text_plain [OF ps] show ?thesis by (elim disjE) (simp, metis)
  qed
  then have nb: "CHR '']'' \<notin> set (?n @ ?P)" "CHR 0x00 \<notin> set (?n @ ?P)" by blast+
  have h: "strchr (section_header sec) (CHR ''['') = Some ([], ?n @ ?P @ CHR '']'' # [CHR 0x0A])"
    using strchr_append [of "CHR ''[''" "[]"] by (simp add: section_header_def)
  have b: "strchr (?n @ ?P @ CHR '']'' # [CHR 0x0A]) (CHR '']'') = Some (?n @ ?P, [CHR 0x0A])"
    using strchr_append [OF nb(1), of "[CHR 0x0A]"] by simp
  let ?m = "(?n @ ?P) @ CHR 0x00 # [CHR 0x0A] @ [CHR 0x00]"
  have c: "cstr ?m = ?n @ ?P" unfolding cstr_append [OF nb(2)] by simp
  have w: "\<exists>t. scan_word (?n @ ?P) = Some (?n, t)"
  proof (cases "?ps = []")
    case True
    with n show ?thesis by (simp add: plain_word_def scan_word_plain)
  next
    case False
    with n params_write_text [OF ps False] show ?thesis
      by (simp add: plain_word_def scan_word_space is_space_def)
  qed
  have f: "lp_config_find_section lp ?n = None"
    using assms(2) unfolding lp_config_find_section_def
    by (cases "first_index (\<lambda>s. sec_name s = ?n) 0 (lp_sections lp)") (auto dest!: first_index_SomeD)
  have pp: "lp_parse_params (drop (length ?n + 1) ?m) = ?ps" if "?ps \<noteq> []"
  proof -
    have "drop (length ?n + 1) ?m = params_text ?ps @ CHR 0x00 # [CHR 0x0A, CHR 0x00]"
      by (simp add: params_write_text [OF ps that])
    moreover have "lp_parse_params [CHR 0x0A, CHR 0x00] = []"
      by (rule parse_no_params) (simp add: cstr_def)
    ultimately show ?thesis using parse_params_text [OF ps that] by simp
  qed
  let ?lp1 = "lp_config_add_section lp (lp_section_new ?n)"
  have at: "lp_sections ?lp1 = lp_sections lp @ [lp_section_new ?n]" by (simp add: lp_config_add_section_def)
  have res: "lp_parse_section_line lp (?n @ ?P @ CHR '']'' # [CHR 0x0A]) cur =
     (if length ?n < length (?n @ ?P) then upd_section (length (lp_sections lp))
        (\<lambda>sec. fold (\<lambda>param sec. lp_config_add_section_param sec param) (lp_parse_params (drop (length ?n + 1) ?m)) sec) ?lp1
      else ?lp1, Some (length (lp_sections lp)))"
    using b c w f by (auto simp: lp_parse_section_line_def Let_def)
  have fin: "(if length ?n < length (?n @ ?P) then upd_section (length (lp_sections lp))
        (\<lambda>sec. fold (\<lambda>param sec. lp_config_add_section_param sec param) (lp_parse_params (drop (length ?n + 1) ?m)) sec) ?lp1
      else ?lp1) = lp_config_add_section lp (sec\<lparr>sec_items := []\<rparr>)"
  proof (cases "?ps = []")
    case True
    then show ?thesis by (simp add: lp_section_new_def lp_config_add_section_def)
  next
    case False
    then have "length ?n < length (?n @ ?P)" using params_write_text [OF ps False] by simp
    then show ?thesis
      by (simp only: pp [OF False] add_params if_True)
        (simp add: upd_section_def lp_section_new_def lp_config_add_section_def)
  qed
  show ?thesis
    unfolding lp_config_parse_line_def h using res fin by (simp add: is_first_char_def)
qed

section \<open>Item lines\<close>

lemma no_bracket_first:
  assumes "x \<noteq> []" and "hd x \<noteq> CHR ''[''" and "hd x \<noteq> CHR '' ''"
  shows "lp_config_parse_line lp x cur = (lp_parse_item_line lp x cur, cur)"
proof -
  have "\<not> is_first_char before" if "strchr x (CHR ''['') = Some (before, after)" for before after
  proof -
    from strchr_SomeD [OF that] have "x = before @ CHR ''['' # after" by simp
    with assms show ?thesis by (cases before) (auto simp: is_first_char_def)
  qed
  then show ?thesis by (auto simp: lp_config_parse_line_def split: option.splits)
qed

lemma comment_no_bracket:
  assumes "is_a_comment x"
  shows "lp_config_parse_line lp x cur = (lp_parse_item_line lp x cur, cur)"
proof -
  have "\<not> is_first_char before" if "strchr x (CHR ''['') = Some (before, after)" for before after
  proof
    assume "is_first_char before"
    then have "dropWhile (\<lambda>c. c = CHR '' '') (before @ CHR ''['' # after) = CHR ''['' # after"
      by (auto simp: is_first_char_def list_all_iff dropWhile_append)
    with strchr_SomeD [OF that] assms show False by (simp add: is_a_comment_def)
  qed
  then show ?thesis by (auto simp: lp_config_parse_line_def split: option.splits)
qed

lemma is_a_comment_append: "is_a_comment x \<Longrightarrow> is_a_comment (x @ y)"
  by (induction x) (auto simp: is_a_comment_def)

text \<open>Reading a written item appends it to the current section.\<close>

lemma parse_item:
  assumes "item_plain i" and "it_is_comment i \<or> (\<forall>j \<in> set (sec_items (lp_sections lp ! k)). it_is_comment j \<or> it_key j \<noteq> it_key i)"
  shows "lp_config_parse_line lp (lp_item_write i) (Some k) =
    (upd_section k (\<lambda>sec. lp_section_add_item sec i) lp, Some k)"
proof (cases "it_is_comment i")
  case True
  with assms(1) have i: "it_key i = None" "is_a_comment (it_value i)" "CHR 0x0A \<notin> set (it_value i)" "CHR 0x0D \<notin> set (it_value i)"
    and w: "lp_item_write i = it_value i @ [CHR 0x0A]"
    by (auto simp: item_plain_def lp_item_write_def)
  then have "lp_comment_new (lp_item_write i) = i" using True
    by (cases i) (simp add: lp_comment_new_def cut_eol_newline)
  with i(2) w show ?thesis
    by (simp add: comment_no_bracket is_a_comment_append lp_parse_item_line_def)
next
  case False
  with assms(1) obtain key where key: "it_key i = Some key" "key \<noteq> []" "\<forall>c \<in> set key. \<not> is_space c \<and> c \<noteq> CHR ''=''"
    "hd key \<noteq> CHR ''#''" "hd key \<noteq> CHR ''[''" and v: "it_value i \<noteq> []" "last (it_value i) \<noteq> CHR '' ''"
    "CHR 0x0A \<notin> set (it_value i)" "CHR 0x0D \<notin> set (it_value i)"
    by (auto simp: item_plain_def)
  let ?w = "key @ CHR ''='' # it_value i @ [CHR 0x0A]"
  have w: "lp_item_write i = ?w" using False key(1) v(1) by (simp add: lp_item_write_def)
  have "\<not> is_space (hd key)" using key(2,3) by simp
  then have h: "hd ?w = hd key" "hd key \<noteq> CHR '' ''" using key(2) by (auto simp: is_space_def)
  have nc: "\<not> is_a_comment ?w" using key(2,4) h(2) by (cases key) (auto simp: is_a_comment_def)
  have k: "scan_word key = Some (key, [])" using key(2,3) by (simp add: scan_word_plain)
  have nk: "CHR ''='' \<notin> set key" using key(3) by auto
  have "strip_trailing (\<lambda>c. c = CHR '' '') (it_value i) = it_value i" using v(1,2) by (simp add: strip_trailing_id)
  then have val: "strip_trailing (\<lambda>c. c = CHR '' '') (cut_eol (it_value i @ [CHR 0x0A])) = it_value i"
    using v(3,4) by (simp add: cut_eol_newline)
  have "lp_section_find_item (lp_sections lp ! k) key = None"
    unfolding lp_section_find_item_def
    by (rule first_index_None) (use assms(2) False key(1) in \<open>auto simp: item_has_key_def\<close>)
  moreover have "lp_item_new key (it_value i) = i" using False key(1) by (cases i) (simp add: lp_item_new_def)
  ultimately have "lp_parse_item_line lp ?w (Some k) = upd_section k (\<lambda>sec. lp_section_add_item sec i) lp"
    using nc k val v(1) strchr_append [OF nk]
    by (simp add: lp_parse_item_line_def Let_def upd_section_def)
  with no_bracket_first [of ?w lp "Some k"] h key(2,5) w show ?thesis by simp
qed

lemma set_sections_id: "lp_sections lp = x \<Longrightarrow> lp\<lparr>lp_sections := x\<rparr> = lp"
  by (rule lp_config.equality) simp_all

text \<open>A store under construction: finished sections, then the current one.\<close>

lemma parse_lines_items:
  assumes "\<forall>i \<in> set items. item_plain i" and "distinct (item_keys (sec\<lparr>sec_items := sec_items sec @ items\<rparr>))"
    and "lp_sections lp = done @ [sec]"
    and "\<forall>i \<in> set (sec_items sec) \<union> set items. \<not> it_is_comment i \<longrightarrow> it_key i \<noteq> None"
  shows "lp_parse_lines lp (map lp_item_write items @ rest) (Some (length done)) =
    lp_parse_lines (lp\<lparr>lp_sections := done @ [sec\<lparr>sec_items := sec_items sec @ items\<rparr>]\<rparr>) rest (Some (length done))"
  using assms
proof (induction items arbitrary: lp sec)
  case Nil
  then have "lp\<lparr>lp_sections := done @ [sec]\<rparr> = lp" by (intro set_sections_id)
  then show ?case by simp
next
  case (Cons i items)
  have at: "lp_sections lp ! length done = sec" using Cons.prems(3) by simp
  have fresh: "it_is_comment i \<or> (\<forall>j \<in> set (sec_items (lp_sections lp ! length done)). it_is_comment j \<or> it_key j \<noteq> it_key i)"
  proof (cases "it_is_comment i")
    case False
    with Cons.prems(2) have "the (it_key i) \<notin> (\<lambda>j. the (it_key j)) ` {j \<in> set (sec_items sec). \<not> it_is_comment j}"
      by (simp add: item_keys_def)
    then show ?thesis unfolding at by (metis (mono_tags, lifting) image_eqI mem_Collect_eq)
  qed simp
  have i: "item_plain i" using Cons.prems(1) by simp
  let ?sec = "sec\<lparr>sec_items := sec_items sec @ [i]\<rparr>"
  have u: "upd_section (length done) (\<lambda>sec. lp_section_add_item sec i) lp = lp\<lparr>lp_sections := done @ [?sec]\<rparr>"
    using Cons.prems(3) by (simp add: upd_section_def lp_section_add_item_def)
  have "lp_parse_lines (lp\<lparr>lp_sections := done @ [?sec]\<rparr>) (map lp_item_write items @ rest) (Some (length done)) =
     lp_parse_lines (lp\<lparr>lp_sections := done @ [?sec]\<rparr>\<lparr>lp_sections := done @ [?sec\<lparr>sec_items := sec_items ?sec @ items\<rparr>]\<rparr>) rest (Some (length done))"
    by (rule Cons.IH) (use Cons.prems in auto)
  with parse_item [OF i fresh] u show ?case by simp
qed


section \<open>Whole files\<close>

definition section_lines :: "lp_section \<Rightarrow> string list" where
  "section_lines sec = section_header sec # map lp_item_write (sec_items sec) @ [[CHR 0x0A]]"

lemma section_write_lines: "lp_section_write sec = concat (section_lines sec)"
  by (simp add: lp_section_write_def section_lines_def section_header_def)

lemma parse_blank: "lp_config_parse_line lp [CHR 0x0A] cur = (lp, cur)"
  by (simp add: no_bracket_first lp_parse_item_line_def is_a_comment_def strchr_None)

lemma parse_sections:
  assumes "\<forall>sec \<in> set secs. section_plain sec" and "distinct (map sec_name (lp_sections lp @ secs))"
  shows "lp_parse_lines lp (concat (map section_lines secs)) cur = lp\<lparr>lp_sections := lp_sections lp @ secs\<rparr>"
  using assms
proof (induction secs arbitrary: lp cur)
  case Nil
  then show ?case by simp
next
  case (Cons sec secs)
  let ?rest = "concat (map section_lines secs)"
  have p: "section_plain sec" using Cons.prems(1) by simp
  have "sec_name sec \<notin> sec_name ` set (lp_sections lp)" using Cons.prems(2) by simp
  then have n: "\<forall>s \<in> set (lp_sections lp). sec_name s \<noteq> sec_name sec" by (metis image_eqI)
  let ?lp0 = "lp_config_add_section lp (sec\<lparr>sec_items := []\<rparr>)"
  have s0: "lp_sections ?lp0 = lp_sections lp @ [sec\<lparr>sec_items := []\<rparr>]" by (simp add: lp_config_add_section_def)
  have ok: "section_ok sec" and items: "\<forall>i \<in> set (sec_items sec). item_plain i"
    using p by (simp_all add: section_plain_def)
  have "lp_parse_lines ?lp0 (map lp_item_write (sec_items sec) @ [CHR 0x0A] # ?rest) (Some (length (lp_sections lp))) =
    lp_parse_lines (?lp0\<lparr>lp_sections := lp_sections lp @ [sec\<lparr>sec_items := []\<rparr>\<lparr>sec_items := sec_items (sec\<lparr>sec_items := []\<rparr>) @ sec_items sec\<rparr>]\<rparr>)
      ([CHR 0x0A] # ?rest) (Some (length (lp_sections lp)))"
    by (rule parse_lines_items [OF items _ s0]) (use ok in \<open>auto simp: section_ok_def\<close>)
  moreover have "?lp0\<lparr>lp_sections := lp_sections lp @ [sec\<lparr>sec_items := []\<rparr>\<lparr>sec_items := sec_items (sec\<lparr>sec_items := []\<rparr>) @ sec_items sec\<rparr>]\<rparr>
    = lp\<lparr>lp_sections := lp_sections lp @ [sec]\<rparr>"
    by (simp add: lp_config_add_section_def)
  moreover have "lp_parse_lines (lp\<lparr>lp_sections := lp_sections lp @ [sec]\<rparr>) ?rest (Some (length (lp_sections lp))) =
     (lp\<lparr>lp_sections := lp_sections lp @ [sec]\<rparr>)\<lparr>lp_sections := (lp_sections lp @ [sec]) @ secs\<rparr>"
    using Cons.IH [of "lp\<lparr>lp_sections := lp_sections lp @ [sec]\<rparr>"] Cons.prems by simp
  moreover have "concat (map section_lines (sec # secs)) =
      section_header sec # map lp_item_write (sec_items sec) @ [CHR 0x0A] # ?rest"
    by (simp add: section_lines_def)
  ultimately show ?case
    using parse_header [OF p n] parse_blank by simp
qed

definition text_line :: "string \<Rightarrow> bool" where
  "text_line l \<longleftrightarrow> (\<exists>a. l = a @ [CHR 0x0A] \<and> CHR 0x0A \<notin> set a) \<and> length l < MAX_LEN"

lemma fgets_line:
  assumes "text_line l"
  shows "fgets (l @ r) = Some (l, r)"
proof -
  from assms obtain a where a: "l = a @ [CHR 0x0A]" "CHR 0x0A \<notin> set a" "length a + 1 < MAX_LEN"
    by (auto simp: text_line_def)
  then obtain m where "MAX_LEN - 1 = length a + Suc m" by (metis add_Suc_right less_diff_conv less_iff_Suc_add)
  then have "take (MAX_LEN - 1) (l @ r) = a @ CHR 0x0A # take m r" by (simp add: a(1))
  moreover have "l @ r \<noteq> []" using a by simp
  ultimately show ?thesis using a by (simp add: fgets_def Let_def strchr_append)
qed

lemma parse_file_lines:
  "\<forall>l \<in> set lines. text_line l \<Longrightarrow> lp_parse_file lp (concat lines) cur = lp_parse_lines lp lines cur"
proof (induction lines arbitrary: lp cur)
  case Nil
  then show ?case by (simp add: lp_parse_file.simps [of lp "[]"] fgets_def)
next
  case (Cons l lines)
  then have "fgets (l @ concat lines) = Some (l, concat lines)" by (simp add: fgets_line)
  with Cons show ?case
    by (subst concat.simps, subst lp_parse_file.simps) (simp split: prod.splits)
qed

lemma space_newline: "is_space (CHR 0x0A)" by (simp add: is_space_def)

lemma plain_word_no_newline: "plain_word w \<Longrightarrow> CHR 0x0A \<notin> set w"
  unfolding plain_word_def using space_newline by blast

lemma params_text_no_newline:
  "\<forall>p \<in> set ps. param_plain p \<Longrightarrow> CHR 0x0A \<notin> set (params_text ps)"
  by (induction ps rule: params_text.induct) (simp_all add: param_plain_def plain_word_no_newline)

lemma section_lines_text:
  assumes "section_plain sec" and "l \<in> set (section_lines sec)"
  shows "text_line l"
proof -
  have h: "text_line (section_header sec)"
  proof -
    let ?a = "CHR ''['' # sec_name sec @ concat (map lp_section_param_write (sec_params sec)) @ [CHR '']'']"
    have ps: "\<forall>p \<in> set (sec_params sec). param_plain p" and n: "plain_word (sec_name sec)"
      using assms(1) by (auto simp: section_plain_def)
    have "CHR 0x0A \<notin> set (concat (map lp_section_param_write (sec_params sec)))"
    proof (cases "sec_params sec = []")
      case False
      with params_write_text [OF ps] params_text_no_newline [OF ps] show ?thesis by simp
    qed simp
    then have "CHR 0x0A \<notin> set ?a" using plain_word_no_newline [OF n] by simp
    moreover have "section_header sec = ?a @ [CHR 0x0A]" by (simp add: section_header_def)
    moreover have "length (section_header sec) < MAX_LEN" using assms(1) by (simp add: section_plain_def)
    ultimately show ?thesis unfolding text_line_def by blast
  qed
  have i: "text_line (lp_item_write i)" if "i \<in> set (sec_items sec)" for i
  proof -
    from that assms(1) have p: "item_plain i" by (simp add: section_plain_def)
    show ?thesis
    proof (cases "it_is_comment i")
      case True
      with p show ?thesis by (auto simp: item_plain_def text_line_def lp_item_write_def)
    next
      case False
      with p obtain k where k: "it_key i = Some k" "\<forall>c \<in> set k. \<not> is_space c" and v: "it_value i \<noteq> []"
        "CHR 0x0A \<notin> set (it_value i)" "length (lp_item_write i) < MAX_LEN"
        by (auto simp: item_plain_def)
      with False have "lp_item_write i = (k @ CHR ''='' # it_value i) @ [CHR 0x0A]" by (simp add: lp_item_write_def)
      moreover have "CHR 0x0A \<notin> set (k @ CHR ''='' # it_value i)" using k v space_newline by auto
      ultimately show ?thesis using v(3) unfolding text_line_def by blast
    qed
  qed
  have "text_line [CHR 0x0A]" by (simp add: text_line_def MAX_LEN_def)
  with h i assms(2) show ?thesis by (auto simp: section_lines_def)
qed

lemma concat_concat_map: "concat (map (\<lambda>x. concat (f x)) xs) = concat (concat (map f xs))"
  by (induction xs) auto

lemma parse_config_text:
  assumes "\<forall>sec \<in> set (lp_sections lp). section_plain sec" and "lp_ok lp" and "lp_sections lp0 = []"
  shows "lp_config_parse lp0 (Some (lp_config_text lp)) = lp0\<lparr>lp_sections := lp_sections lp\<rparr>"
proof -
  have t: "lp_config_text lp = concat (concat (map section_lines (lp_sections lp)))"
    unfolding lp_config_text_def section_write_lines by (rule concat_concat_map)
  have l: "\<forall>l \<in> set (concat (map section_lines (lp_sections lp))). text_line l"
    using assms(1) section_lines_text by auto
  show ?thesis
    using parse_sections [OF assms(1), of lp0 None] assms(2,3) parse_file_lines [OF l]
    by (simp add: lp_config_parse_def t lp_ok_def)
qed

text \<open>C12. Saving and reopening loses nothing: for a store of a writable file whose names, keys,
  values and comments can be told apart in the text and whose lines fit the reader's buffer,
  \<open>lp_config_sync\<close> succeeds and clears the modification count, and opening the file again gives
  the same sections with the same parameters, items and comments in the same order.\<close>

theorem saved_store_reopens:
  assumes "lp_ok lp" and "\<forall>sec \<in> set (lp_sections lp). section_plain sec"
    and "lp_filename lp = Some f" and "lp_tmpfilename lp = Some (f @ ''.tmp'')" and "\<not> lp_readonly lp"
    and "fs_writable fs f" and "fs_writable fs (f @ ''.tmp'')" and "fs_renamable fs f"
    and "lp_config_sync fs lp = (fs', lp', r)"
  shows "r = 0 \<and> \<not> lp_config_needs_commit lp' \<and> lp_sections (lp_config_new fs' (Some f)) = lp_sections lp"
proof -
  have ft: "f @ ''.tmp'' \<noteq> f" by simp
  have s: "fs' = fs_rename (fs_put fs (f @ ''.tmp'') (lp_config_text lp)) (f @ ''.tmp'') f"
    "lp' = lp\<lparr>lp_modified := 0\<rparr>" "r = 0"
    using assms(3-) by (auto simp: lp_config_sync_def Let_def fs_put_def)
  then have f: "fs_file fs' f = Some (lp_config_text lp)" "fs_writable fs' f"
    using assms(6) by (simp_all add: fs_rename_def fs_put_def)
  let ?lp0 = "lp_config_zero\<lparr>lp_refcnt := 1, lp_filename := Some f, lp_tmpfilename := Some (f @ ''.tmp'')\<rparr>"
  have "lp_config_parse ?lp0 (Some (lp_config_text lp)) = ?lp0\<lparr>lp_sections := lp_sections lp\<rparr>"
    by (rule parse_config_text) (use assms(1,2) in \<open>simp_all add: lp_config_zero_def\<close>)
  with f have "lp_sections (lp_config_new fs' (Some f)) = lp_sections lp"
    by (simp add: lp_config_new_def lp_config_new_with_factory_def Let_def)
  with s show ?thesis by (simp add: lp_config_needs_commit_def)
qed

section \<open>Witnesses\<close>

definition ex_store :: lp_config where
  "ex_store = \<lparr>lp_refcnt = 1, lp_filename = Some ''linphonerc'', lp_tmpfilename = Some ''linphonerc.tmp'',
     lp_sections = [\<lparr>sec_name = ''sip'',
       sec_items = [lp_comment_new ''#ports'', lp_item_new ''sip_port'' ''5060''],
       sec_params = [lp_section_param_new ''overwrite'' ''true'', lp_section_param_new ''v'' ''2'']\<rparr>],
     lp_modified = 1, lp_readonly = False\<rparr>"

lemma ex_store_ok: "lp_ok ex_store"
  by (simp add: lp_ok_def ex_store_def section_ok_def item_keys_def lp_comment_new_def lp_item_new_def)

lemma ex_store_modified: "lp_modified ex_store = 1"
  by (simp add: ex_store_def)

lemma set_string_refines_update_witness:
  "lp_contents (lp_config_set_string ex_store ''net'' ''mtu'' (Some ''1300'')) (''net'', ''mtu'') = Some ''1300''"
  using set_string_refines_update [OF ex_store_ok] ex_store_modified by simp

lemma integers_come_back_witness:
  "lp_config_get_int (lp_config_set_int_hex ex_store ''sip'' ''flags'' (-2)) ''sip'' ''flags'' 0 = Some (-2)"
  using integers_come_back [OF ex_store_ok] by simp

lemma range_comes_back_witness:
  "lp_config_get_range (lp_config_set_range ex_store ''rtp'' ''ports'' (-3) 9) ''rtp'' ''ports'' 7078 7079
     = (Some 7078, Some 7079, False)"
  using range_comes_back [OF ex_store_ok, of "-3" 9] by simp

lemma clean_section_removes_its_entries_witness:
  "\<not> lp_config_has_section (lp_config_clean_section ex_store ''sip'') ''sip''"
  using clean_section_removes_its_entries [OF ex_store_ok] by simp

lemma parsing_keeps_invariant_witness:
  "lp_ok (lp_config_parse ex_store (Some ''[sip]''))"
  using parsing_keeps_invariant [of _ ex_store] ex_store_ok by simp

lemma saved_store_reopens_witness:
  "lp_sections (lp_config_new (fst (lp_config_sync \<lparr>fs_file = (\<lambda>_. None), fs_writable = (\<lambda>_. True), fs_renamable = (\<lambda>_. True)\<rparr>
      ex_store)) (Some ''linphonerc'')) = lp_sections ex_store"
proof -
  have p: "section_plain sec" if "sec \<in> set (lp_sections ex_store)" for sec
    using that by (simp add: ex_store_def section_plain_def plain_word_def is_space_def param_plain_def item_plain_def
        lp_section_param_new_def lp_comment_new_def lp_item_new_def is_a_comment_def cut_eol_def strchr_def
        lp_item_write_def section_header_def lp_section_param_write_def MAX_LEN_def section_ok_def item_keys_def)
  let ?fs = "\<lparr>fs_file = (\<lambda>_. None), fs_writable = (\<lambda>_. True), fs_renamable = (\<lambda>_. True)\<rparr>"
  obtain fs' lp' r where s: "lp_config_sync ?fs ex_store = (fs', lp', r)" by (metis prod_cases3)
  have "lp_filename ex_store = Some ''linphonerc''" "lp_tmpfilename ex_store = Some (''linphonerc'' @ ''.tmp'')"
    "\<not> lp_readonly ex_store" by (simp_all add: ex_store_def)
  from saved_store_reopens [OF ex_store_ok _ this _ _ _ s] p s show ?thesis by simp
qed

end
