(* ===== verification/LpAssign.thy ===== *)
theory LpAssign
  imports LpConfigProps
begin

text \<open>
  Runs of assignments to one section of the store, as the writers of accounts
  (\<open>coreapi/proxy.c\<close>) and credentials (\<open>coreapi/authentication.c\<close>) make them.
\<close>

section \<open>Assignments\<close>

definition set_if :: "string \<Rightarrow> string \<Rightarrow> string option \<Rightarrow> lp_config \<Rightarrow> lp_config" where
  "set_if key name v config = (case v of None \<Rightarrow> config | Some s \<Rightarrow> lp_config_set_string config key name (Some s))"

definition set_int :: "string \<Rightarrow> string \<Rightarrow> int \<Rightarrow> lp_config \<Rightarrow> lp_config" where
  "set_int key name v config = lp_config_set_int config key name v"

section \<open>A run of assignments to one section\<close>

definition assigns :: "(lp_config \<Rightarrow> lp_config) \<Rightarrow> string \<Rightarrow> string \<times> string option \<Rightarrow> bool" where
  "assigns f key nv \<longleftrightarrow> (\<forall>c. lp_ok c \<and> lp_contents c (key, fst nv) = None \<longrightarrow>
     lp_ok (f c) \<and> lp_contents (f c) = (lp_contents c)((key, fst nv) := present (snd nv)))"

lemma assigns_set: "assigns (\<lambda>c. lp_config_set_string c key n v) key (n, v)"
  by (auto simp: assigns_def lp_contents_def lp.contents_put [unfolded lp.contents_def] lp.put_inv)

lemma assigns_set_if: "assigns (set_if key n v) key (n, v)"
proof (cases v)
  case None
  then show ?thesis by (auto simp: assigns_def set_if_def fun_eq_iff)
next
  case (Some s)
  with assigns_set [of key n "Some s"] show ?thesis by (simp add: assigns_def set_if_def)
qed

lemma assigns_set_int: "assigns (set_int key n v) key (n, Some (tmp30 (show_int v)))"
  using assigns_set [of key n "Some (tmp30 (show_int v))"]
  by (simp add: assigns_def set_int_def lp_config_set_int_def)

lemma assigns_fold:
  assumes "list_all2 (\<lambda>f nv. assigns f key nv) fs nvs" and "lp_ok c" and "distinct (map fst nvs)"
    and "\<And>n. lp_contents c (key, n) = None \<or> n \<notin> fst ` set nvs"
  shows "lp_ok (fold (\<lambda>f. f) fs c) \<and> (\<forall>s n. lp_contents (fold (\<lambda>f. f) fs c) (s, n) =
    (if s = key \<and> n \<in> fst ` set nvs then present (the (map_of nvs n)) else lp_contents c (s, n)))"
  using assms
proof (induction fs nvs arbitrary: c rule: list_all2_induct)
  case Nil
  then show ?case by simp
next
  case (Cons f fs nv nvs)
  have "lp_contents c (key, fst nv) = None" using Cons.prems(3) [of "fst nv"] by simp
  with Cons.hyps(1) Cons.prems(1) have f: "lp_ok (f c)" "lp_contents (f c) = (lp_contents c)((key, fst nv) := present (snd nv))"
    by (auto simp: assigns_def)
  have "lp_contents (f c) (key, n) = None \<or> n \<notin> fst ` set nvs" for n
    using Cons.prems(2) Cons.prems(3) [of n] f(2) by (cases "n = fst nv") simp_all
  with Cons.IH [OF f(1)] Cons.prems(2) have
    "lp_ok (fold (\<lambda>f. f) fs (f c)) \<and> (\<forall>s n. lp_contents (fold (\<lambda>f. f) fs (f c)) (s, n) =
      (if s = key \<and> n \<in> fst ` set nvs then present (the (map_of nvs n)) else lp_contents (f c) (s, n)))" by simp
  then show ?case using f(2) Cons.prems(2) by (cases nv) (auto simp: image_iff)
qed

section \<open>Reading\<close>

lemma get_string_contents:
  "lp_config_get_string c s n d = (case lp_contents c (s, n) of Some v \<Rightarrow> Some v | None \<Rightarrow> d)"
  unfolding lp_contents_def by (simp add: get_string_default [of c s n d])

lemma has_section_contents: "lp_contents c (s, n) \<noteq> None \<Longrightarrow> lp_config_has_section c s"
  by (auto simp: lp_contents_def lp_config_get_string_def lp_config_has_section_def split: option.splits)

lemma present_nonempty: "s \<noteq> [] \<Longrightarrow> present (Some s) = Some s"
  by (cases s) auto

lemma present_int: "- (2 ^ 31) \<le> i \<Longrightarrow> i < 2 ^ 31 \<Longrightarrow> present (Some (tmp30 (show_int i))) = Some (tmp30 (show_int i))"
  by (simp add: tmp30_int present_nonempty)

end
