(* ===== verification/ProxyConfig.thy ===== *)
theory ProxyConfig
  imports LpAssign SalModel "HOL-Library.Monad_Syntax"
begin

text \<open>
  A SIP account, \<open>struct _LinphoneProxyConfig\<close> of \<open>coreapi/private.h\<close> with the functions of
  \<open>coreapi/proxy.c\<close> on it: setters, persistence in the configuration store and the
  registration state.

  \<open>'a\<close> is the type of SIP addresses; belle-sip, which parses and prints them behind
  \<open>linphone_address_*\<close>, is the parameter \<open>addr_api\<close>.  A \<open>bool_t\<close> is an unsigned char, so it
  is an \<open>8 word\<close>; an \<open>int\<close> stored in it is reduced, as the C conversion does.  A signalling
  operation (\<open>SalOp*\<close>) is a number; what the code asks of an operation, of the core and of
  the store is recorded as a list of actions in the order of the calls.
\<close>

record 'a addr_api =
  ad_new :: "string \<Rightarrow> 'a option"
  ad_as_string :: "'a \<Rightarrow> string"
  ad_as_string_uri_only :: "'a \<Rightarrow> string"
  ad_username :: "'a \<Rightarrow> string option"
  ad_domain :: "'a \<Rightarrow> string option"
  ad_port :: "'a \<Rightarrow> int"
  ad_is_secure :: "'a \<Rightarrow> bool"
  ad_transport :: "'a \<Rightarrow> sal_transport"
  ad_clean :: "'a \<Rightarrow> 'a"
  ad_set_params :: "string \<Rightarrow> 'a \<Rightarrow> 'a"
  ad_set_uri_params :: "string \<Rightarrow> 'a \<Rightarrow> 'a"
  ad_set_port :: "int \<Rightarrow> 'a \<Rightarrow> 'a"
  ad_set_domain :: "string option \<Rightarrow> 'a \<Rightarrow> 'a"
  ad_set_display_name :: "string option \<Rightarrow> 'a \<Rightarrow> 'a"

datatype registration_state =
    RegistrationNone | RegistrationProgress | RegistrationOk | RegistrationCleared | RegistrationFailed

type_synonym bool_t = "8 word"

definition truth :: "bool_t \<Rightarrow> bool" where
  "truth b \<longleftrightarrow> b \<noteq> 0"

definition AVPFDefault :: int where "AVPFDefault = -1"
definition AVPFDisabled :: int where "AVPFDisabled = 0"
definition AVPFEnabled :: int where "AVPFEnabled = 1"
definition PrivacyDefault :: int where "PrivacyDefault = 0x8000"

record 'a proxy_config =
  pc_reg_proxy :: "string option"
  pc_reg_identity :: "string option"
  pc_reg_route :: "string option"
  pc_quality_reporting_collector :: "string option"
  pc_domain :: "string option"
  pc_realm :: "string option"
  pc_contact_params :: "string option"
  pc_contact_uri_params :: "string option"
  pc_expires :: int
  pc_publish_expires :: int
  pc_op :: "nat option"
  pc_type :: "string option"
  pc_ssctx :: bool
  pc_dial_prefix :: "string option"
  pc_state :: registration_state
  pc_publish_op :: "nat option"
  pc_avpf_mode :: int
  pc_commit :: bool
  pc_reg_sendregister :: bool_t
  pc_publish :: bool_t
  pc_dial_escape_plus :: bool_t
  pc_send_publish :: bool
  pc_quality_reporting_enabled :: bool_t
  pc_avpf_rr_interval :: "8 word"
  pc_quality_reporting_interval :: "8 word"
  pc_privacy :: int
  pc_saved_proxy :: "'a option"
  pc_saved_identity :: "'a option"

section \<open>Addresses\<close>

definition linphone_address_weak_equal :: "'a addr_api \<Rightarrow> 'a \<Rightarrow> 'a \<Rightarrow> bool" where
  "linphone_address_weak_equal api a1 a2 \<longleftrightarrow> ad_username api a1 = ad_username api a2
     \<and> ad_domain api a1 = ad_domain api a2 \<and> ad_port api a1 = ad_port api a2"

definition linphone_address_equal :: "'a addr_api \<Rightarrow> 'a option \<Rightarrow> 'a option \<Rightarrow> bool" where
  "linphone_address_equal api a1 a2 = (case (a1, a2) of
     (None, None) \<Rightarrow> True | (Some x, Some y) \<Rightarrow> ad_as_string api x = ad_as_string api y | _ \<Rightarrow> False)"

datatype address_comparison = AddressDifferent | AddressEqual | AddressWeakEqual

definition linphone_proxy_config_address_equal :: "'a addr_api \<Rightarrow> 'a option \<Rightarrow> 'a option \<Rightarrow> address_comparison" where
  "linphone_proxy_config_address_equal api a b = (case (a, b) of
     (None, None) \<Rightarrow> AddressEqual
   | (Some x, Some y) \<Rightarrow>
       if linphone_address_equal api a b then AddressEqual
       else if linphone_address_weak_equal api x y then
         (if ad_is_secure api x = ad_is_secure api y \<and> ad_transport api x = ad_transport api y
          then AddressWeakEqual else AddressDifferent)
       else AddressDifferent
   | _ \<Rightarrow> AddressDifferent)"

definition linphone_proxy_config_is_server_config_changed :: "'a addr_api \<Rightarrow> 'a proxy_config \<Rightarrow> address_comparison" where
  "linphone_proxy_config_is_server_config_changed api obj = (let
     current_identity = Option.bind (pc_reg_identity obj) (ad_new api);
     current_proxy = Option.bind (pc_reg_proxy obj) (ad_new api);
     result = linphone_proxy_config_address_equal api (pc_saved_identity obj) current_identity
   in if result = AddressDifferent then result
      else (let result_identity = result;
                result = linphone_proxy_config_address_equal api (pc_saved_proxy obj) current_proxy
            in if result = AddressDifferent then result
               else if result = AddressEqual then result_identity else result))"

definition linphone_proxy_config_store_server_config :: "'a addr_api \<Rightarrow> 'a proxy_config \<Rightarrow> 'a proxy_config" where
  "linphone_proxy_config_store_server_config api obj = obj
     \<lparr>pc_saved_identity := Option.bind (pc_reg_identity obj) (ad_new api),
      pc_saved_proxy := Option.bind (pc_reg_proxy obj) (ad_new api)\<rparr>"

section \<open>Creation\<close>

text \<open>The object of \<open>belle_sip_object_new\<close>: every field zero.\<close>

definition proxy_zero :: "'a proxy_config" where
  "proxy_zero = \<lparr>pc_reg_proxy = None, pc_reg_identity = None, pc_reg_route = None,
     pc_quality_reporting_collector = None, pc_domain = None, pc_realm = None, pc_contact_params = None,
     pc_contact_uri_params = None, pc_expires = 0, pc_publish_expires = 0, pc_op = None, pc_type = None,
     pc_ssctx = False, pc_dial_prefix = None, pc_state = RegistrationNone, pc_publish_op = None,
     pc_avpf_mode = 0, pc_commit = False, pc_reg_sendregister = 0, pc_publish = 0, pc_dial_escape_plus = 0,
     pc_send_publish = False, pc_quality_reporting_enabled = 0, pc_avpf_rr_interval = 0,
     pc_quality_reporting_interval = 0, pc_privacy = 0, pc_saved_proxy = None, pc_saved_identity = None\<rparr>"

definition default_string :: "lp_config option \<Rightarrow> string \<Rightarrow> string option" where
  "default_string lc key = (case lc of None \<Rightarrow> None | Some c \<Rightarrow> lp_config_get_default_string c ''proxy'' key None)"

definition default_int :: "lp_config option \<Rightarrow> string \<Rightarrow> int \<Rightarrow> int option" where
  "default_int lc key d = (case lc of None \<Rightarrow> Some d | Some c \<Rightarrow> lp_config_get_default_int c ''proxy'' key d)"

text \<open>\<^const>\<open>None\<close> when an integer of the store is out of range, which C leaves undefined.\<close>

definition linphone_proxy_config_init :: "lp_config option \<Rightarrow> 'a proxy_config \<Rightarrow> 'a proxy_config option" where
  "linphone_proxy_config_init lc obj = do {
     expires \<leftarrow> default_int lc ''reg_expires'' 3600;
     sendregister \<leftarrow> default_int lc ''reg_sendregister'' 1;
     escape \<leftarrow> default_int lc ''dial_escape_plus'' 0;
     privacy \<leftarrow> default_int lc ''privacy'' PrivacyDefault;
     qr \<leftarrow> default_int lc ''quality_reporting_enabled'' 0;
     qri \<leftarrow> default_int lc ''quality_reporting_interval'' 0;
     avpf \<leftarrow> default_int lc ''avpf'' AVPFDefault;
     rr \<leftarrow> default_int lc ''avpf_rr_interval'' 5;
     Some (obj\<lparr>pc_expires := expires, pc_reg_sendregister := word_of_int sendregister,
       pc_dial_prefix := default_string lc ''dial_prefix'', pc_dial_escape_plus := word_of_int escape,
       pc_privacy := privacy, pc_reg_identity := default_string lc ''reg_identity'',
       pc_reg_proxy := default_string lc ''reg_proxy'', pc_reg_route := default_string lc ''reg_route'',
       pc_domain := None, pc_realm := default_string lc ''realm'',
       pc_quality_reporting_enabled := word_of_int qr,
       pc_quality_reporting_collector := default_string lc ''quality_reporting_collector'',
       pc_quality_reporting_interval := word_of_int qri,
       pc_contact_params := default_string lc ''contact_parameters'',
       pc_contact_uri_params := default_string lc ''contact_uri_parameters'',
       pc_avpf_mode := avpf, pc_avpf_rr_interval := word_of_int rr, pc_publish_expires := -1\<rparr>)}"

definition linphone_core_create_proxy_config :: "lp_config option \<Rightarrow> 'a proxy_config option" where
  "linphone_core_create_proxy_config lc = linphone_proxy_config_init lc proxy_zero"

definition linphone_proxy_config_new :: "'a proxy_config option" where
  "linphone_proxy_config_new = linphone_core_create_proxy_config None"

section \<open>Setters and getters\<close>

definition linphone_proxy_config_is_registered :: "'a proxy_config \<Rightarrow> bool" where
  "linphone_proxy_config_is_registered obj \<longleftrightarrow> pc_state obj = RegistrationOk"

definition has_scheme :: "string \<Rightarrow> bool" where
  "has_scheme s \<longleftrightarrow> has_substring s ''sip:'' \<or> has_substring s ''sips:''"

text \<open>A setter that parses its argument returns the new object and the C result.\<close>

definition linphone_proxy_config_set_server_addr :: "'a addr_api \<Rightarrow> 'a proxy_config \<Rightarrow> string option
    \<Rightarrow> 'a proxy_config \<times> int" where
  "linphone_proxy_config_set_server_addr api obj server_addr = (let obj = obj\<lparr>pc_reg_proxy := None\<rparr> in
     case server_addr of None \<Rightarrow> (obj, 0) | Some s \<Rightarrow>
       if length s > 0 then (let
         addr = (if \<not> has_scheme s then ad_new api (''sip:'' @ s) else None);
         addr = (case addr of None \<Rightarrow> ad_new api s | Some a \<Rightarrow> Some a)
       in case addr of
            Some a \<Rightarrow> (obj\<lparr>pc_reg_proxy := Some (ad_as_string api a)\<rparr>, 0)
          | None \<Rightarrow> (obj, -1))
       else (obj, 0))"

definition linphone_proxy_config_set_identity :: "'a addr_api \<Rightarrow> 'a proxy_config \<Rightarrow> string option
    \<Rightarrow> 'a proxy_config \<times> int" where
  "linphone_proxy_config_set_identity api obj identity = (case identity of None \<Rightarrow> (obj, -1) | Some s \<Rightarrow>
     if length s > 0 then
       (case ad_new api s of
          None \<Rightarrow> (obj, -1)
        | Some addr \<Rightarrow>
            if ad_username api addr = None then (obj, -1)
            else (obj\<lparr>pc_reg_identity := Some s, pc_domain := ad_domain api addr\<rparr>, 0))
     else (obj, -1))"

definition linphone_proxy_config_get_domain :: "'a proxy_config \<Rightarrow> string option" where
  "linphone_proxy_config_get_domain cfg = pc_domain cfg"

definition linphone_proxy_config_set_route :: "'a addr_api \<Rightarrow> 'a proxy_config \<Rightarrow> string option
    \<Rightarrow> 'a proxy_config \<times> int" where
  "linphone_proxy_config_set_route api obj route = (let obj = obj\<lparr>pc_reg_route := None\<rparr> in
     case route of None \<Rightarrow> (obj, 0) | Some r \<Rightarrow>
       if r \<noteq> [] then (let tmp = (if \<not> has_scheme r then ''sip:'' @ r else r)
         in case ad_new api tmp of
              Some _ \<Rightarrow> (obj\<lparr>pc_reg_route := Some tmp\<rparr>, 0)
            | None \<Rightarrow> (obj\<lparr>pc_reg_route := None\<rparr>, 0))
       else (obj, 0))"

definition linphone_proxy_config_check :: "'a proxy_config \<Rightarrow> bool" where
  "linphone_proxy_config_check obj = (if pc_reg_proxy obj = None then False
     else if pc_reg_identity obj = None then False else True)"

definition linphone_proxy_config_enableregister :: "'a proxy_config \<Rightarrow> int \<Rightarrow> 'a proxy_config" where
  "linphone_proxy_config_enableregister obj val = obj\<lparr>pc_reg_sendregister := word_of_int val\<rparr>"

definition linphone_proxy_config_set_expires :: "'a proxy_config \<Rightarrow> int \<Rightarrow> 'a proxy_config" where
  "linphone_proxy_config_set_expires obj val = obj\<lparr>pc_expires := (if val < 0 then 600 else val)\<rparr>"

definition linphone_proxy_config_enable_publish :: "'a proxy_config \<Rightarrow> int \<Rightarrow> 'a proxy_config" where
  "linphone_proxy_config_enable_publish obj val = obj\<lparr>pc_publish := word_of_int val\<rparr>"

definition linphone_proxy_config_set_dial_prefix :: "'a proxy_config \<Rightarrow> string option \<Rightarrow> 'a proxy_config" where
  "linphone_proxy_config_set_dial_prefix cfg prefix = (let cfg = cfg\<lparr>pc_dial_prefix := None\<rparr> in
     case prefix of Some (c # p) \<Rightarrow> cfg\<lparr>pc_dial_prefix := Some (c # p)\<rparr> | _ \<Rightarrow> cfg)"

definition linphone_proxy_config_set_dial_escape_plus :: "'a proxy_config \<Rightarrow> int \<Rightarrow> 'a proxy_config" where
  "linphone_proxy_config_set_dial_escape_plus cfg val = cfg\<lparr>pc_dial_escape_plus := word_of_int val\<rparr>"

definition linphone_proxy_config_enable_quality_reporting :: "'a proxy_config \<Rightarrow> int \<Rightarrow> 'a proxy_config" where
  "linphone_proxy_config_enable_quality_reporting cfg val = cfg\<lparr>pc_quality_reporting_enabled := word_of_int val\<rparr>"

definition linphone_proxy_config_quality_reporting_enabled :: "'a proxy_config \<Rightarrow> bool" where
  "linphone_proxy_config_quality_reporting_enabled cfg \<longleftrightarrow>
     truth (pc_quality_reporting_enabled cfg) \<and> pc_quality_reporting_collector cfg \<noteq> None"

definition linphone_proxy_config_set_quality_reporting_interval :: "'a proxy_config \<Rightarrow> int \<Rightarrow> 'a proxy_config" where
  "linphone_proxy_config_set_quality_reporting_interval cfg interval =
     cfg\<lparr>pc_quality_reporting_interval := word_of_int interval\<rparr>"

definition linphone_proxy_config_set_quality_reporting_collector :: "'a addr_api \<Rightarrow> 'a proxy_config
    \<Rightarrow> string option \<Rightarrow> 'a proxy_config" where
  "linphone_proxy_config_set_quality_reporting_collector api cfg collector = (case collector of
     Some s \<Rightarrow> if length s > 0 \<and> ad_new api s \<noteq> None then cfg\<lparr>pc_quality_reporting_collector := Some s\<rparr> else cfg
   | None \<Rightarrow> cfg)"

definition linphone_proxy_config_set_realm :: "'a proxy_config \<Rightarrow> string option \<Rightarrow> 'a proxy_config" where
  "linphone_proxy_config_set_realm cfg realm = cfg\<lparr>pc_realm := realm\<rparr>"

definition linphone_proxy_config_set_contact_parameters :: "'a proxy_config \<Rightarrow> string option \<Rightarrow> 'a proxy_config" where
  "linphone_proxy_config_set_contact_parameters obj params = obj\<lparr>pc_contact_params := params\<rparr>"

definition linphone_proxy_config_set_contact_uri_parameters :: "'a proxy_config \<Rightarrow> string option \<Rightarrow> 'a proxy_config" where
  "linphone_proxy_config_set_contact_uri_parameters obj params = obj\<lparr>pc_contact_uri_params := params\<rparr>"

definition linphone_proxy_config_set_privacy :: "'a proxy_config \<Rightarrow> int \<Rightarrow> 'a proxy_config" where
  "linphone_proxy_config_set_privacy cfg privacy = cfg\<lparr>pc_privacy := privacy\<rparr>"

definition linphone_proxy_config_set_publish_expires :: "'a proxy_config \<Rightarrow> int \<Rightarrow> 'a proxy_config" where
  "linphone_proxy_config_set_publish_expires obj expires = obj\<lparr>pc_publish_expires := expires\<rparr>"

definition linphone_proxy_config_get_publish_expires :: "'a proxy_config \<Rightarrow> int" where
  "linphone_proxy_config_get_publish_expires obj =
     (if pc_publish_expires obj < 0 then pc_expires obj else pc_publish_expires obj)"

definition linphone_proxy_config_enable_avpf :: "'a proxy_config \<Rightarrow> bool \<Rightarrow> 'a proxy_config" where
  "linphone_proxy_config_enable_avpf cfg enable = cfg\<lparr>pc_avpf_mode := (if enable then AVPFEnabled else AVPFDisabled)\<rparr>"

text \<open>\<open>core_mode\<close> is the mode of the core the account belongs to.\<close>

definition linphone_proxy_config_avpf_enabled :: "int option \<Rightarrow> 'a proxy_config \<Rightarrow> bool" where
  "linphone_proxy_config_avpf_enabled core_mode cfg = (case core_mode of
     Some m \<Rightarrow> if pc_avpf_mode cfg = AVPFDefault then m = AVPFEnabled else pc_avpf_mode cfg = AVPFEnabled
   | None \<Rightarrow> pc_avpf_mode cfg = AVPFEnabled)"

definition linphone_proxy_config_set_avpf_mode :: "'a proxy_config \<Rightarrow> int \<Rightarrow> 'a proxy_config" where
  "linphone_proxy_config_set_avpf_mode cfg mode = cfg\<lparr>pc_avpf_mode := mode\<rparr>"

definition linphone_proxy_config_set_avpf_rr_interval :: "'a proxy_config \<Rightarrow> int \<Rightarrow> 'a proxy_config" where
  "linphone_proxy_config_set_avpf_rr_interval cfg interval = (let interval = word_of_int interval :: 8 word
     in cfg\<lparr>pc_avpf_rr_interval := (if interval > 5 then 5 else interval)\<rparr>)"

definition linphone_proxy_config_set_sip_setup :: "'a addr_api \<Rightarrow> 'a proxy_config \<Rightarrow> string \<Rightarrow> 'a proxy_config" where
  "linphone_proxy_config_set_sip_setup api cfg type = (let cfg = cfg\<lparr>pc_type := Some type\<rparr>
     in if pc_reg_proxy cfg = None then fst (linphone_proxy_config_set_server_addr api cfg (Some ''sip:undefined'')) else cfg)"

section \<open>Persistence\<close>

definition proxy_section :: "int \<Rightarrow> string" where
  "proxy_section index = ''proxy_'' @ show_int index"

definition linphone_proxy_config_write_to_config_file :: "lp_config \<Rightarrow> 'a proxy_config option \<Rightarrow> int \<Rightarrow> lp_config" where
  "linphone_proxy_config_write_to_config_file config obj index = (let
     key = proxy_section index;
     config = lp_config_clean_section config key
   in case obj of None \<Rightarrow> config | Some obj \<Rightarrow>
     fold (\<lambda>f. f)
       [set_if key ''type'' (pc_type obj),
        set_if key ''reg_proxy'' (pc_reg_proxy obj),
        set_if key ''reg_route'' (pc_reg_route obj),
        set_if key ''reg_identity'' (pc_reg_identity obj),
        set_if key ''realm'' (pc_realm obj),
        set_if key ''contact_parameters'' (pc_contact_params obj),
        set_if key ''contact_uri_parameters'' (pc_contact_uri_params obj),
        set_if key ''quality_reporting_collector'' (pc_quality_reporting_collector obj),
        set_int key ''quality_reporting_enabled'' (uint (pc_quality_reporting_enabled obj)),
        set_int key ''quality_reporting_interval'' (uint (pc_quality_reporting_interval obj)),
        set_int key ''reg_expires'' (pc_expires obj),
        set_int key ''reg_sendregister'' (uint (pc_reg_sendregister obj)),
        set_int key ''publish'' (uint (pc_publish obj)),
        set_int key ''avpf'' (pc_avpf_mode obj),
        set_int key ''avpf_rr_interval'' (uint (pc_avpf_rr_interval obj)),
        set_int key ''dial_escape_plus'' (uint (pc_dial_escape_plus obj)),
        (\<lambda>c. lp_config_set_string c key ''dial_prefix'' (pc_dial_prefix obj)),
        set_int key ''privacy'' (pc_privacy obj)]
       config)"

definition bool_int :: "bool \<Rightarrow> int" where
  "bool_int b = (if b then 1 else 0)"

text \<open>Reading an account back: \<^const>\<open>None\<close> for the undefined conversions, \<open>Some None\<close> when
  the section is missing.  The three macros of the source call a setter with the stored value,
  or with the current one as default.\<close>

definition linphone_proxy_config_new_from_config_file :: "'a addr_api \<Rightarrow> lp_config \<Rightarrow> int \<Rightarrow> 'a proxy_config option option" where
  "linphone_proxy_config_new_from_config_file api config index = (let
     key = proxy_section index;
     str = (\<lambda>name d. lp_config_get_string config key name d);
     num = (\<lambda>name d. lp_config_get_int config key name d)
   in if \<not> lp_config_has_section config key then Some None
      else do {
        cfg \<leftarrow> linphone_core_create_proxy_config (Some config);
        let cfg = fst (linphone_proxy_config_set_identity api cfg (str ''reg_identity'' (pc_reg_identity cfg)));
        let cfg = fst (linphone_proxy_config_set_server_addr api cfg (str ''reg_proxy'' (pc_reg_proxy cfg)));
        let cfg = fst (linphone_proxy_config_set_route api cfg (str ''reg_route'' (pc_reg_route cfg)));
        let cfg = linphone_proxy_config_set_realm cfg (str ''realm'' (pc_realm cfg));
        v \<leftarrow> num ''quality_reporting_enabled'' (bool_int (linphone_proxy_config_quality_reporting_enabled cfg));
        let cfg = linphone_proxy_config_enable_quality_reporting cfg v;
        let cfg = linphone_proxy_config_set_quality_reporting_collector api cfg
          (str ''quality_reporting_collector'' (pc_quality_reporting_collector cfg));
        v \<leftarrow> num ''quality_reporting_interval'' (uint (pc_quality_reporting_interval cfg));
        let cfg = linphone_proxy_config_set_quality_reporting_interval cfg v;
        let cfg = linphone_proxy_config_set_contact_parameters cfg (str ''contact_parameters'' (pc_contact_params cfg));
        let cfg = linphone_proxy_config_set_contact_uri_parameters cfg (str ''contact_uri_parameters'' (pc_contact_uri_params cfg));
        v \<leftarrow> num ''reg_expires'' (pc_expires cfg);
        let cfg = linphone_proxy_config_set_expires cfg v;
        v \<leftarrow> num ''reg_sendregister'' (uint (pc_reg_sendregister cfg));
        let cfg = linphone_proxy_config_enableregister cfg v;
        v \<leftarrow> num ''publish'' (uint (pc_publish cfg));
        let cfg = linphone_proxy_config_enable_publish cfg v;
        v \<leftarrow> num ''avpf'' (pc_avpf_mode cfg);
        let cfg = linphone_proxy_config_set_avpf_mode cfg v;
        v \<leftarrow> num ''avpf_rr_interval'' (uint (pc_avpf_rr_interval cfg));
        let cfg = linphone_proxy_config_set_avpf_rr_interval cfg v;
        v \<leftarrow> num ''dial_escape_plus'' (uint (pc_dial_escape_plus cfg));
        let cfg = linphone_proxy_config_set_dial_escape_plus cfg v;
        let cfg = linphone_proxy_config_set_dial_prefix cfg (str ''dial_prefix'' (pc_dial_prefix cfg));
        let cfg = (case str ''type'' None of
            Some (c # t) \<Rightarrow> linphone_proxy_config_set_sip_setup api cfg (c # t) | _ \<Rightarrow> cfg);
        v \<leftarrow> num ''privacy'' (pc_privacy cfg);
        Some (Some (linphone_proxy_config_set_privacy cfg v))})"

text \<open>An address library that prints an address as it was given, for the instances.\<close>

definition ex_addr :: "string addr_api" where
  "ex_addr = \<lparr>ad_new = Some, ad_as_string = (\<lambda>a. a), ad_as_string_uri_only = (\<lambda>a. a), ad_username = (\<lambda>_. Some ''alice''),
     ad_domain = (\<lambda>_. Some ''example.org''), ad_port = (\<lambda>_. 0), ad_is_secure = (\<lambda>_. False),
     ad_transport = (\<lambda>_. SalTransportUDP), ad_clean = (\<lambda>a. a), ad_set_params = (\<lambda>_ a. a),
     ad_set_uri_params = (\<lambda>_ a. a), ad_set_port = (\<lambda>_ a. a), ad_set_domain = (\<lambda>_ a. a),
     ad_set_display_name = (\<lambda>_ a. a)\<rparr>"

end
