(* ===== verification/ProxyStore.thy ===== *)
theory ProxyStore
  imports ProxyConfig
begin

text \<open>
  An account written to the configuration store reads back.  The proof sees the store through
  the contract \<open>string_store\<close> only: which value a section and key hold after an assignment.
\<close>

section \<open>What a written account holds\<close>

definition proxy_table :: "'a proxy_config \<Rightarrow> (string \<times> string option) list" where
  "proxy_table obj =
     [(''type'', pc_type obj), (''reg_proxy'', pc_reg_proxy obj), (''reg_route'', pc_reg_route obj),
      (''reg_identity'', pc_reg_identity obj), (''realm'', pc_realm obj),
      (''contact_parameters'', pc_contact_params obj), (''contact_uri_parameters'', pc_contact_uri_params obj),
      (''quality_reporting_collector'', pc_quality_reporting_collector obj),
      (''quality_reporting_enabled'', Some (tmp30 (show_int (uint (pc_quality_reporting_enabled obj))))),
      (''quality_reporting_interval'', Some (tmp30 (show_int (uint (pc_quality_reporting_interval obj))))),
      (''reg_expires'', Some (tmp30 (show_int (pc_expires obj)))),
      (''reg_sendregister'', Some (tmp30 (show_int (uint (pc_reg_sendregister obj))))),
      (''publish'', Some (tmp30 (show_int (uint (pc_publish obj))))),
      (''avpf'', Some (tmp30 (show_int (pc_avpf_mode obj)))),
      (''avpf_rr_interval'', Some (tmp30 (show_int (uint (pc_avpf_rr_interval obj))))),
      (''dial_escape_plus'', Some (tmp30 (show_int (uint (pc_dial_escape_plus obj))))),
      (''dial_prefix'', pc_dial_prefix obj), (''privacy'', Some (tmp30 (show_int (pc_privacy obj))))]"

lemma written_account:
  assumes "lp_ok config"
  shows "lp_ok (linphone_proxy_config_write_to_config_file config (Some obj) index)"
    "lp_contents (linphone_proxy_config_write_to_config_file config (Some obj) index) (proxy_section index, n) =
      (case map_of (proxy_table obj) n of Some v \<Rightarrow> present v | None \<Rightarrow> None)"
    "s \<noteq> proxy_section index \<Longrightarrow>
      lp_contents (linphone_proxy_config_write_to_config_file config (Some obj) index) (s, n) = lp_contents config (s, n)"
proof -
  let ?key = "proxy_section index"
  let ?c = "lp_config_clean_section config ?key"
  have c: "lp_ok ?c" "lp_contents ?c (s, n) = (if s = ?key then None else lp_contents config (s, n))" for s n
    using clean_section_laws [OF assms] by simp_all
  let ?w = "linphone_proxy_config_write_to_config_file config (Some obj) index"
  have "lp_ok ?w \<and> (\<forall>s n. lp_contents ?w (s, n) =
    (if s = ?key \<and> n \<in> fst ` set (proxy_table obj) then present (the (map_of (proxy_table obj) n)) else lp_contents ?c (s, n)))"
    unfolding linphone_proxy_config_write_to_config_file_def Let_def option.case
    by (rule assigns_fold) (simp_all add: proxy_table_def assigns_set_if assigns_set_int assigns_set c)
  then have w: "lp_ok ?w" "lp_contents ?w (s, n) =
    (if s = ?key \<and> n \<in> fst ` set (proxy_table obj) then present (the (map_of (proxy_table obj) n)) else lp_contents ?c (s, n))" for s n
    by auto
  show "lp_ok ?w" by (rule w)
  show "lp_contents ?w (?key, n) = (case map_of (proxy_table obj) n of Some v \<Rightarrow> present v | None \<Rightarrow> None)"
    using w(2) [of ?key n] c(2) [of ?key n] by (auto split: option.split simp: map_of_eq_None_iff dest: map_of_SomeD)
      (metis fst_conv image_eqI map_of_SomeD)
  show "s \<noteq> ?key \<Longrightarrow> lp_contents ?w (s, n) = lp_contents config (s, n)"
    using w(2) [of s n] c(2) [of s n] by simp
qed

section \<open>Reading it back\<close>

lemma show_int_not_name: "show_int i \<noteq> ''default_values''"
proof
  assume "show_int i = ''default_values''"
  then have "show_int (strto 10 ''default_values'') = ''default_values''" by (metis strto_show_int)
  then show False by code_simp
qed

lemma section_not_defaults: "''proxy_default_values'' \<noteq> proxy_section i"
  using show_int_not_name [of i] by (auto simp: proxy_section_def)

lemma read_int: "- (2 ^ 31) \<le> i \<Longrightarrow> i < 2 ^ 31 \<Longrightarrow>
   (if starts_with (tmp30 (show_int i)) ''0x'' then sscanf_x (tmp30 (show_int i)) else sscanf_i (tmp30 (show_int i))) = Some i"
  by (simp add: tmp30_int show_int_not_hex as_int_def)

lemma byte_range: "- (2 ^ 31) \<le> uint (b :: 8 word)" "uint (b :: 8 word) < 2 ^ 31"
  using unsigned_less [of b, where 'a = int] by (simp_all add: order.trans [of _ 0])

text \<open>An account as its setters leave it: a parsable identity with a user name, a canonical
  server address, strings that are absent or not empty, and numbers in range.\<close>

definition text_ok :: "string option \<Rightarrow> bool" where
  "text_ok v \<longleftrightarrow> v \<noteq> Some []"

definition proxy_valid :: "'a addr_api \<Rightarrow> 'a proxy_config \<Rightarrow> bool" where
  "proxy_valid api obj \<longleftrightarrow>
     (\<exists>s a. pc_reg_identity obj = Some s \<and> s \<noteq> [] \<and> ad_new api s = Some a \<and> ad_username api a \<noteq> None
        \<and> pc_domain obj = ad_domain api a)
     \<and> (\<exists>p a. pc_reg_proxy obj = Some p \<and> p \<noteq> [] \<and> has_scheme p \<and> ad_new api p = Some a \<and> ad_as_string api a = p)
     \<and> (\<forall>r. pc_reg_route obj = Some r \<longrightarrow> r \<noteq> [] \<and> has_scheme r \<and> ad_new api r \<noteq> None)
     \<and> (\<forall>q. pc_quality_reporting_collector obj = Some q \<longrightarrow> q \<noteq> [] \<and> ad_new api q \<noteq> None)
     \<and> text_ok (pc_realm obj) \<and> text_ok (pc_contact_params obj) \<and> text_ok (pc_contact_uri_params obj)
     \<and> text_ok (pc_dial_prefix obj) \<and> text_ok (pc_type obj)
     \<and> 0 \<le> pc_expires obj \<and> pc_expires obj < 2 ^ 31
     \<and> - (2 ^ 31) \<le> pc_avpf_mode obj \<and> pc_avpf_mode obj < 2 ^ 31
     \<and> - (2 ^ 31) \<le> pc_privacy obj \<and> pc_privacy obj < 2 ^ 31
     \<and> pc_avpf_rr_interval obj \<le> 5"

text \<open>What of an account is stored.\<close>

definition stored_part :: "'a proxy_config \<Rightarrow> 'a proxy_config" where
  "stored_part obj = proxy_zero
     \<lparr>pc_reg_proxy := pc_reg_proxy obj, pc_reg_identity := pc_reg_identity obj, pc_reg_route := pc_reg_route obj,
      pc_quality_reporting_collector := pc_quality_reporting_collector obj, pc_domain := pc_domain obj,
      pc_realm := pc_realm obj, pc_contact_params := pc_contact_params obj,
      pc_contact_uri_params := pc_contact_uri_params obj, pc_expires := pc_expires obj, pc_publish_expires := -1,
      pc_type := pc_type obj, pc_dial_prefix := pc_dial_prefix obj, pc_avpf_mode := pc_avpf_mode obj,
      pc_reg_sendregister := pc_reg_sendregister obj, pc_publish := pc_publish obj,
      pc_dial_escape_plus := pc_dial_escape_plus obj,
      pc_quality_reporting_enabled := pc_quality_reporting_enabled obj,
      pc_avpf_rr_interval := pc_avpf_rr_interval obj,
      pc_quality_reporting_interval := pc_quality_reporting_interval obj, pc_privacy := pc_privacy obj\<rparr>"

text \<open>The account the constructor makes when the store has no defaults.\<close>

definition proxy_fresh :: "'a proxy_config" where
  "proxy_fresh = proxy_zero\<lparr>pc_expires := 3600, pc_reg_sendregister := 1, pc_privacy := PrivacyDefault,
     pc_avpf_mode := AVPFDefault, pc_avpf_rr_interval := 5, pc_publish_expires := -1\<rparr>"

lemma create_fresh:
  assumes "\<And>n. lp_contents config (''proxy_default_values'', n) = None"
  shows "linphone_core_create_proxy_config (Some config) = Some proxy_fresh"
  by (simp add: linphone_core_create_proxy_config_def linphone_proxy_config_init_def default_int_def default_string_def
      lp_config_get_default_int_def lp_config_get_default_string_def lp_config_get_int_def get_string_contents assms
      DEFAULT_VALUES_SUFFIX_def proxy_fresh_def proxy_zero_def)

lemma present_text: "text_ok v \<Longrightarrow> present v = v"
  by (cases v rule: present.cases) (auto simp: text_ok_def)

lemma set_back_identity:
  assumes "proxy_valid api obj"
  shows "fst (linphone_proxy_config_set_identity api cfg (pc_reg_identity obj)) =
      cfg\<lparr>pc_reg_identity := pc_reg_identity obj, pc_domain := pc_domain obj\<rparr>"
proof -
  from assms obtain s a where "pc_reg_identity obj = Some s" "s \<noteq> []" "ad_new api s = Some a"
    "ad_username api a \<noteq> None" "pc_domain obj = ad_domain api a" unfolding proxy_valid_def by blast
  then show ?thesis by (auto simp: linphone_proxy_config_set_identity_def)
qed

lemma set_back_server_addr:
  assumes "proxy_valid api obj"
  shows "fst (linphone_proxy_config_set_server_addr api cfg (pc_reg_proxy obj)) = cfg\<lparr>pc_reg_proxy := pc_reg_proxy obj\<rparr>"
proof -
  from assms obtain p a where "pc_reg_proxy obj = Some p" "p \<noteq> []" "has_scheme p" "ad_new api p = Some a"
    "ad_as_string api a = p" unfolding proxy_valid_def by blast
  then show ?thesis by (simp add: linphone_proxy_config_set_server_addr_def Let_def)
qed

lemma set_back_route:
  assumes "proxy_valid api obj"
  shows "fst (linphone_proxy_config_set_route api cfg (pc_reg_route obj)) = cfg\<lparr>pc_reg_route := pc_reg_route obj\<rparr>"
proof (cases "pc_reg_route obj")
  case (Some r)
  with assms have "r \<noteq> []" "has_scheme r" "ad_new api r \<noteq> None" unfolding proxy_valid_def by blast+
  with Some show ?thesis by (auto simp: linphone_proxy_config_set_route_def Let_def)
qed (simp add: linphone_proxy_config_set_route_def)

lemma set_back_collector:
  assumes "proxy_valid api obj" and "pc_quality_reporting_collector cfg = None"
  shows "linphone_proxy_config_set_quality_reporting_collector api cfg (pc_quality_reporting_collector obj) =
      cfg\<lparr>pc_quality_reporting_collector := pc_quality_reporting_collector obj\<rparr>"
proof (cases "pc_quality_reporting_collector obj")
  case None
  have "cfg = cfg\<lparr>pc_quality_reporting_collector := None\<rparr>"
    by (rule proxy_config.equality) (simp_all add: assms(2))
  with None show ?thesis by (simp add: linphone_proxy_config_set_quality_reporting_collector_def)
next
  case (Some q)
  with assms(1) have "q \<noteq> []" "ad_new api q \<noteq> None" unfolding proxy_valid_def by blast+
  with Some show ?thesis by (simp add: linphone_proxy_config_set_quality_reporting_collector_def)
qed

lemma set_back_dial_prefix:
  "text_ok (pc_dial_prefix obj) \<Longrightarrow>
   linphone_proxy_config_set_dial_prefix cfg (pc_dial_prefix obj) = cfg\<lparr>pc_dial_prefix := pc_dial_prefix obj\<rparr>"
  by (auto simp: linphone_proxy_config_set_dial_prefix_def text_ok_def Let_def split: option.splits list.splits)

lemma set_back_type:
  assumes "text_ok (pc_type obj)" and "pc_reg_proxy cfg \<noteq> None" and "pc_type cfg = None"
  shows "(case pc_type obj of Some (c # t) \<Rightarrow> linphone_proxy_config_set_sip_setup api cfg (c # t) | _ \<Rightarrow> cfg)
     = cfg\<lparr>pc_type := pc_type obj\<rparr>"
proof (cases "pc_type obj" rule: present.cases)
  case (1 c v)
  with assms show ?thesis by (auto simp: linphone_proxy_config_set_sip_setup_def Let_def)
next
  case "2_1"
  have "cfg = cfg\<lparr>pc_type := None\<rparr>" by (rule proxy_config.equality) (simp_all add: assms(3))
  with "2_1" show ?thesis by simp
next
  case "2_2"
  with assms(1) show ?thesis by (simp add: text_ok_def)
qed

text \<open>A section that holds what was written for an account reads back as that account.\<close>

lemma read_account:
  assumes w: "\<And>n. lp_contents c (proxy_section index, n) = (case map_of (proxy_table obj) n of Some v \<Rightarrow> present v | None \<Rightarrow> None)"
    and "proxy_valid api obj" and "\<And>n. lp_contents c (''proxy_default_values'', n) = None"
  shows "linphone_proxy_config_new_from_config_file api c index = Some (Some (stored_part obj))"
proof -
  let ?key = "proxy_section index"
  have v: "text_ok (pc_reg_proxy obj)" "text_ok (pc_reg_identity obj)" "text_ok (pc_reg_route obj)"
    "text_ok (pc_quality_reporting_collector obj)" "text_ok (pc_realm obj)" "text_ok (pc_contact_params obj)"
    "text_ok (pc_contact_uri_params obj)" "text_ok (pc_dial_prefix obj)" "text_ok (pc_type obj)"
    and nums: "0 \<le> pc_expires obj" "pc_expires obj < 2 ^ 31" "- (2 ^ 31) \<le> pc_avpf_mode obj" "pc_avpf_mode obj < 2 ^ 31"
    "- (2 ^ 31) \<le> pc_privacy obj" "pc_privacy obj < 2 ^ 31" "- (2 ^ 31) \<le> pc_expires obj"
    and rr: "\<not> 5 < pc_avpf_rr_interval obj" and rp: "pc_reg_proxy obj \<noteq> None"
    using assms(2) unfolding proxy_valid_def text_ok_def by auto
  have str: "lp_config_get_string c ?key n d = (case map_of (proxy_table obj) n of
      Some u \<Rightarrow> (case present u of Some x \<Rightarrow> Some x | None \<Rightarrow> d) | None \<Rightarrow> d)" for n d
    unfolding get_string_contents w by (simp split: option.splits)
  have num: "lp_config_get_int c ?key n d = (case map_of (proxy_table obj) n of
      Some u \<Rightarrow> (case present u of Some x \<Rightarrow> if starts_with x ''0x'' then sscanf_x x else sscanf_i x | None \<Rightarrow> Some d)
      | None \<Rightarrow> Some d)" for n d
    unfolding lp_config_get_int_def str by (simp split: option.splits)
  have num': "lp_config_get_int c ?key n d = Some i"
    if "map_of (proxy_table obj) n = Some (Some (tmp30 (show_int i)))" "- (2 ^ 31) \<le> i" "i < 2 ^ 31" for n d i
    using that by (simp only: num option.case present_int read_int)
  have str': "lp_config_get_string c ?key n None = v"
    if "map_of (proxy_table obj) n = Some v" "text_ok v" for n v
    using that by (simp add: str present_text split: option.splits)
  have "lp_contents c (?key, ''publish'') \<noteq> None"
    unfolding w by (simp add: proxy_table_def present_int [OF byte_range])
  then have sec: "lp_config_has_section c ?key" by (rule has_section_contents)
  have cr: "linphone_core_create_proxy_config (Some c) = Some proxy_fresh"
    by (rule create_fresh) (rule assms(3))
  have t: "map_of (proxy_table obj) ''reg_identity'' = Some (pc_reg_identity obj)"
    "map_of (proxy_table obj) ''reg_proxy'' = Some (pc_reg_proxy obj)"
    "map_of (proxy_table obj) ''reg_route'' = Some (pc_reg_route obj)"
    "map_of (proxy_table obj) ''realm'' = Some (pc_realm obj)"
    "map_of (proxy_table obj) ''quality_reporting_collector'' = Some (pc_quality_reporting_collector obj)"
    "map_of (proxy_table obj) ''contact_parameters'' = Some (pc_contact_params obj)"
    "map_of (proxy_table obj) ''contact_uri_parameters'' = Some (pc_contact_uri_params obj)"
    "map_of (proxy_table obj) ''dial_prefix'' = Some (pc_dial_prefix obj)"
    "map_of (proxy_table obj) ''type'' = Some (pc_type obj)"
    by (simp_all add: proxy_table_def)
  have tn: "map_of (proxy_table obj) ''quality_reporting_enabled'' = Some (Some (tmp30 (show_int (uint (pc_quality_reporting_enabled obj)))))"
    "map_of (proxy_table obj) ''quality_reporting_interval'' = Some (Some (tmp30 (show_int (uint (pc_quality_reporting_interval obj)))))"
    "map_of (proxy_table obj) ''reg_expires'' = Some (Some (tmp30 (show_int (pc_expires obj))))"
    "map_of (proxy_table obj) ''reg_sendregister'' = Some (Some (tmp30 (show_int (uint (pc_reg_sendregister obj)))))"
    "map_of (proxy_table obj) ''publish'' = Some (Some (tmp30 (show_int (uint (pc_publish obj)))))"
    "map_of (proxy_table obj) ''avpf'' = Some (Some (tmp30 (show_int (pc_avpf_mode obj))))"
    "map_of (proxy_table obj) ''avpf_rr_interval'' = Some (Some (tmp30 (show_int (uint (pc_avpf_rr_interval obj)))))"
    "map_of (proxy_table obj) ''dial_escape_plus'' = Some (Some (tmp30 (show_int (uint (pc_dial_escape_plus obj)))))"
    "map_of (proxy_table obj) ''privacy'' = Some (Some (tmp30 (show_int (pc_privacy obj))))"
    by (simp_all add: proxy_table_def)
  note i = num' [OF tn(1) byte_range(1) byte_range(2)]
    num' [OF tn(2) byte_range(1) byte_range(2)]
    num' [OF tn(3) nums(7) nums(2)]
    num' [OF tn(4) byte_range(1) byte_range(2)]
    num' [OF tn(5) byte_range(1) byte_range(2)]
    num' [OF tn(6) nums(3) nums(4)]
    num' [OF tn(7) byte_range(1) byte_range(2)]
    num' [OF tn(8) byte_range(1) byte_range(2)]
    num' [OF tn(9) nums(5) nums(6)]
  have s: "pc_reg_identity proxy_fresh = None" "pc_reg_proxy proxy_fresh = None" "pc_reg_route proxy_fresh = None"
    "pc_realm proxy_fresh = None" "pc_quality_reporting_collector proxy_fresh = None"
    "pc_contact_params proxy_fresh = None" "pc_contact_uri_params proxy_fresh = None" "pc_dial_prefix proxy_fresh = None"
    "pc_type proxy_fresh = None"
    by (simp_all add: proxy_fresh_def proxy_zero_def)
  show ?thesis
    unfolding linphone_proxy_config_new_from_config_file_def Let_def cr
    using sec rr rp v
    by (simp add: s i str' [OF t(1)] str' [OF t(2)] str' [OF t(3)] str' [OF t(4)] str' [OF t(5)] str' [OF t(6)]
        str' [OF t(7)] str' [OF t(8)] str' [OF t(9)]
        set_back_identity [OF assms(2)] set_back_server_addr [OF assms(2)] set_back_route [OF assms(2)]
        set_back_collector [OF assms(2)] set_back_dial_prefix set_back_type
        linphone_proxy_config_set_realm_def linphone_proxy_config_enable_quality_reporting_def
        linphone_proxy_config_set_quality_reporting_interval_def linphone_proxy_config_set_contact_parameters_def
        linphone_proxy_config_set_contact_uri_parameters_def linphone_proxy_config_set_expires_def
        linphone_proxy_config_enableregister_def linphone_proxy_config_enable_publish_def
        linphone_proxy_config_set_avpf_mode_def linphone_proxy_config_set_avpf_rr_interval_def
        linphone_proxy_config_set_dial_escape_plus_def linphone_proxy_config_set_privacy_def not_less [THEN iffD2, OF nums(1)])
      (simp add: stored_part_def proxy_fresh_def proxy_zero_def)
qed

text \<open>So an account that its setters could have built survives its configuration section: writing it, and
  reading the section of the same index back from a store without account defaults, gives an account
  with every persistent setting as it was.\<close>

lemma account_survives_store:
  assumes "lp_ok config" and "proxy_valid api obj"
    and "\<And>n. lp_contents config (''proxy_default_values'', n) = None"
  shows "linphone_proxy_config_new_from_config_file api
      (linphone_proxy_config_write_to_config_file config (Some obj) index) index = Some (Some (stored_part obj))"
  by (rule read_account [OF _ assms(2)])
    (simp_all add: written_account(2,3) [OF assms(1)] section_not_defaults assms(3))

text \<open>A concrete account whose addresses are their texts.\<close>

definition ex_account :: "string proxy_config" where
  "ex_account = proxy_fresh\<lparr>pc_reg_identity := Some ''sip:alice@example.org'', pc_domain := Some ''example.org'',
     pc_reg_proxy := Some ''sip:example.org'', pc_dial_prefix := Some ''33''\<rparr>"

lemma ex_account_valid: "proxy_valid ex_addr ex_account"
  by (simp add: proxy_valid_def ex_addr_def ex_account_def proxy_fresh_def proxy_zero_def text_ok_def
      has_scheme_def AVPFDefault_def PrivacyDefault_def)

end
