(* ===== verification/ProxyRegister.thy ===== *)
theory ProxyRegister
  imports ProxyConfig
begin

text \<open>
  Registration of an account (\<open>coreapi/proxy.c\<close>): the functions that create, use and drop the
  signalling operations of an account and move its state.  A world is the account, the list of
  what was asked of the rest of the program so far, and the number of the next operation;
  \<open>proxy_env\<close> holds what the calls answer, among them the SIP setup plug-ins, loaded at run time:
  what the plug-in of a type can do and what it answers to the login and to the request of a
  proxy.  The build is one without UPnP.
\<close>

datatype 'a proxy_action =
    ActNewOp nat | ActConfigureOp nat | ActSetContact nat "'a option" | ActRegister nat "string option" "string option" int
  | ActRefresh nat int | ActUnregister nat | ActStopRefreshing nat | ActDetach nat
  | ActPublish nat int | ActUnpublish nat | ActRelease nat | ActUnref nat
  | ActUpdateFriends | ActNotify registration_state | ActSaveAccounts

record 'a proxy_world =
  pw_cfg :: "'a proxy_config"
  pw_trace :: "'a proxy_action list"
  pw_next :: nat

record sip_setup =
  ss_account_manager :: bool
  ss_proxy_provider :: bool
  ss_login_account :: int
  ss_get_proxy :: "string option"

record 'a proxy_env =
  pe_has_core :: bool
  pe_subscribe_friends_only_when_registered :: bool
  pe_register_only_when_network_is_up :: bool
  pe_network_reachable :: bool
  pe_sal_register :: int
  pe_sal_register_refresh :: int
  pe_sal_publish :: int
  pe_publish_with_contact :: bool
  pe_sip_setup_lookup :: "string \<Rightarrow> sip_setup option"

definition act :: "'a proxy_action \<Rightarrow> 'a proxy_world \<Rightarrow> 'a proxy_world" where
  "act a w = w\<lparr>pw_trace := pw_trace w @ [a]\<rparr>"

definition act_if :: "bool \<Rightarrow> 'a proxy_action \<Rightarrow> 'a proxy_world \<Rightarrow> 'a proxy_world" where
  "act_if b a w = (if b then act a w else w)"

definition upd :: "('a proxy_config \<Rightarrow> 'a proxy_config) \<Rightarrow> 'a proxy_world \<Rightarrow> 'a proxy_world" where
  "upd f w = w\<lparr>pw_cfg := f (pw_cfg w)\<rparr>"

definition sal_op_new :: "'a proxy_world \<Rightarrow> nat \<times> 'a proxy_world" where
  "sal_op_new w = (pw_next w, act (ActNewOp (pw_next w)) (w\<lparr>pw_next := Suc (pw_next w)\<rparr>))"

section \<open>State\<close>

definition linphone_proxy_config_set_state :: "'a proxy_env \<Rightarrow> registration_state \<Rightarrow> 'a proxy_world \<Rightarrow> 'a proxy_world" where
  "linphone_proxy_config_set_state env st w = (let old = pc_state (pw_cfg w) in
     if old \<noteq> st \<or> st = RegistrationOk then (let
       update_friends = (pe_subscribe_friends_only_when_registered env
         \<and> (st = RegistrationOk \<and> old \<noteq> RegistrationOk \<or> st \<noteq> RegistrationOk \<and> old = RegistrationOk));
       w = upd (\<lambda>c. c\<lparr>pc_state := st\<rparr>) w;
       w = act_if update_friends ActUpdateFriends w
     in act_if (pe_has_core env) (ActNotify st) w)
     else w)"

fun linphone_registration_state_to_string :: "registration_state \<Rightarrow> string" where
  "linphone_registration_state_to_string RegistrationCleared = ''LinphoneRegistrationCleared''"
| "linphone_registration_state_to_string RegistrationNone = ''LinphoneRegistrationNone''"
| "linphone_registration_state_to_string RegistrationProgress = ''LinphoneRegistrationProgress''"
| "linphone_registration_state_to_string RegistrationOk = ''LinphoneRegistrationOk''"
| "linphone_registration_state_to_string RegistrationFailed = ''LinphoneRegistrationFailed''"

section \<open>Operations of an account\<close>

definition release_op :: "'a proxy_world \<Rightarrow> 'a proxy_world" where
  "release_op w = (case pc_op (pw_cfg w) of None \<Rightarrow> w
     | Some n \<Rightarrow> upd (\<lambda>c. c\<lparr>pc_op := None\<rparr>) (act (ActRelease n) w))"

definition release_publish_op :: "'a proxy_world \<Rightarrow> 'a proxy_world" where
  "release_publish_op w = (case pc_publish_op (pw_cfg w) of None \<Rightarrow> w
     | Some n \<Rightarrow> upd (\<lambda>c. c\<lparr>pc_publish_op := None\<rparr>) (act (ActRelease n) w))"

definition linphone_proxy_config_release_ops :: "'a proxy_world \<Rightarrow> 'a proxy_world" where
  "linphone_proxy_config_release_ops w = release_publish_op (release_op w)"

definition linphone_proxy_config_stop_refreshing :: "'a proxy_world \<Rightarrow> 'a proxy_world" where
  "linphone_proxy_config_stop_refreshing w = release_op (release_publish_op w)"

definition linphone_proxy_config_pause_register :: "'a proxy_world \<Rightarrow> 'a proxy_world" where
  "linphone_proxy_config_pause_register w = (case pc_op (pw_cfg w) of None \<Rightarrow> w | Some n \<Rightarrow> act (ActStopRefreshing n) w)"

definition linphone_proxy_config_unregister :: "'a proxy_world \<Rightarrow> 'a proxy_world" where
  "linphone_proxy_config_unregister w = (case pc_op (pw_cfg w) of None \<Rightarrow> w
     | Some n \<Rightarrow> act_if (pc_state (pw_cfg w) = RegistrationOk) (ActUnregister n) w)"

definition linphone_proxy_config_edit :: "'a addr_api \<Rightarrow> 'a proxy_world \<Rightarrow> 'a proxy_world" where
  "linphone_proxy_config_edit api w = (let
     w = (case pc_publish_op (pw_cfg w) of
            Some n \<Rightarrow> if truth (pc_publish (pw_cfg w)) then release_publish_op (act (ActUnpublish n) w) else w
          | None \<Rightarrow> w);
     w = upd (linphone_proxy_config_store_server_config api) w
   in linphone_proxy_config_pause_register w)"

text \<open>The contact of a registration: the identity without its display name, with the parameters
  of the account, no host and no port (\<open>localip\<close> is \<open>NULL\<close> and \<open>localport\<close> -1 without UPnP).  It
  is \<^const>\<open>None\<close> when the proxy address has no domain.\<close>

definition guess_contact_for_register :: "'a addr_api \<Rightarrow> 'a proxy_config \<Rightarrow> 'a option" where
  "guess_contact_for_register api obj = (case Option.bind (pc_reg_proxy obj) (ad_new api) of
     None \<Rightarrow> None
   | Some proxy \<Rightarrow>
       if ad_domain api proxy \<noteq> None then
         map_option (\<lambda>contact. (let
             contact = ad_clean api contact;
             contact = (case pc_contact_params obj of Some p \<Rightarrow> ad_set_params api p contact | None \<Rightarrow> contact);
             contact = (case pc_contact_uri_params obj of Some p \<Rightarrow> ad_set_uri_params api p contact | None \<Rightarrow> contact)
           in ad_set_display_name api None (ad_set_domain api None (ad_set_port api (-1) contact))))
         (Option.bind (pc_reg_identity obj) (ad_new api))
       else None)"

definition linphone_proxy_config_register :: "'a addr_api \<Rightarrow> 'a proxy_env \<Rightarrow> 'a proxy_world \<Rightarrow> 'a proxy_world" where
  "linphone_proxy_config_register api env w =
     (if truth (pc_reg_sendregister (pw_cfg w)) then (let
        proxy_string = map_option (ad_as_string_uri_only api) (Option.bind (pc_reg_proxy (pw_cfg w)) (ad_new api));
        w = (case pc_op (pw_cfg w) of None \<Rightarrow> w | Some n \<Rightarrow> act (ActRelease n) w)
      in case sal_op_new w of (n, w) \<Rightarrow> (let
        w = upd (\<lambda>c. c\<lparr>pc_op := Some n\<rparr>) w;
        w = act (ActConfigureOp n) w;
        w = (let contact = guess_contact_for_register api (pw_cfg w) in act_if (contact \<noteq> None) (ActSetContact n contact) w);
        w = act (ActRegister n proxy_string (pc_reg_identity (pw_cfg w)) (pc_expires (pw_cfg w))) w
      in if pe_sal_register env = 0 then linphone_proxy_config_set_state env RegistrationProgress w
         else linphone_proxy_config_set_state env RegistrationFailed w))
      else linphone_proxy_config_unregister
        (if pc_state (pw_cfg w) = RegistrationProgress then linphone_proxy_config_set_state env RegistrationCleared w else w))"

definition linphone_proxy_config_refresh_register :: "'a proxy_env \<Rightarrow> 'a proxy_world \<Rightarrow> 'a proxy_world" where
  "linphone_proxy_config_refresh_register env w = (case pc_op (pw_cfg w) of None \<Rightarrow> w
     | Some n \<Rightarrow>
        if truth (pc_reg_sendregister (pw_cfg w)) \<and> pc_state (pw_cfg w) \<noteq> RegistrationProgress
        then (let w = act (ActRefresh n (pc_expires (pw_cfg w))) w
              in if pe_sal_register_refresh env = 0 then linphone_proxy_config_set_state env RegistrationProgress w else w)
        else w)"

definition linphone_proxy_config_done :: "'a addr_api \<Rightarrow> 'a proxy_world \<Rightarrow> 'a proxy_world \<times> int" where
  "linphone_proxy_config_done api w =
     (if \<not> linphone_proxy_config_check (pw_cfg w) then (w, -1)
      else (let
        res = linphone_proxy_config_is_server_config_changed api (pw_cfg w);
        w = (if res \<noteq> AddressEqual then
               (case pc_op (pw_cfg w) of None \<Rightarrow> w
                | Some n \<Rightarrow> (let
                    w = (if res = AddressDifferent then linphone_proxy_config_unregister w else w);
                    w = act (ActUnref n) (act (ActDetach n) w)
                  in upd (\<lambda>c. c\<lparr>pc_op := None\<rparr>) w))
             else w);
        w = upd (\<lambda>c. c\<lparr>pc_commit := True\<rparr>) w
      in (act ActSaveAccounts w, 0)))"

definition linphone_proxy_config_send_publish :: "'a addr_api \<Rightarrow> 'a proxy_env \<Rightarrow> 'a proxy_world \<Rightarrow> 'a proxy_world \<times> int" where
  "linphone_proxy_config_send_publish api env w =
     (if pc_state (pw_cfg w) = RegistrationOk \<or> pc_state (pw_cfg w) = RegistrationCleared then (let
        w = (case pc_publish_op (pw_cfg w) of Some _ \<Rightarrow> w
             | None \<Rightarrow> (case sal_op_new w of (n, w) \<Rightarrow>
                 act_if (pe_publish_with_contact env) (ActSetContact n (Option.bind (pc_reg_identity (pw_cfg w)) (ad_new api)))
                   (act (ActConfigureOp n) (upd (\<lambda>c. c\<lparr>pc_publish_op := Some n\<rparr>) w))))
      in case pc_publish_op (pw_cfg w) of
           Some n \<Rightarrow> (act (ActPublish n (linphone_proxy_config_get_publish_expires (pw_cfg w))) w, pe_sal_publish env)
         | None \<Rightarrow> (w, 0))
      else (upd (\<lambda>c. c\<lparr>pc_send_publish := True\<rparr>) w, 0))"

definition can_register :: "'a proxy_env \<Rightarrow> bool" where
  "can_register env = (if pe_register_only_when_network_is_up env then pe_network_reachable env else True)"

definition linphone_proxy_config_activate_sip_setup :: "'a addr_api \<Rightarrow> 'a proxy_env \<Rightarrow> 'a proxy_world \<Rightarrow> 'a proxy_world" where
  "linphone_proxy_config_activate_sip_setup api env w = (case Option.bind (pc_type (pw_cfg w)) (pe_sip_setup_lookup env) of
     None \<Rightarrow> w
   | Some ss \<Rightarrow> (let w = upd (\<lambda>c. c\<lparr>pc_ssctx := True\<rparr>) w in
       if pc_reg_identity (pw_cfg w) = None then w
       else if ss_account_manager ss \<and> ss_login_account ss \<noteq> 0 then w
       else if ss_proxy_provider ss then
         (case ss_get_proxy ss of
            Some proxy \<Rightarrow> upd (\<lambda>c. fst (linphone_proxy_config_set_server_addr api c (Some proxy))) w
          | None \<Rightarrow> w)
       else w))"

definition linphone_proxy_config_update :: "'a addr_api \<Rightarrow> 'a proxy_env \<Rightarrow> 'a proxy_world \<Rightarrow> 'a proxy_world" where
  "linphone_proxy_config_update api env w = (let
     w = (if pc_commit (pw_cfg w) then (let
            w = (if pc_type (pw_cfg w) \<noteq> None \<and> \<not> pc_ssctx (pw_cfg w)
                 then linphone_proxy_config_activate_sip_setup api env w else w)
          in if can_register env then (let
               w = linphone_proxy_config_register api env w;
               w = upd (\<lambda>c. c\<lparr>pc_commit := False\<rparr>) w
             in if truth (pc_publish (pw_cfg w)) then upd (\<lambda>c. c\<lparr>pc_send_publish := True\<rparr>) w else w)
             else w)
          else w)
   in if pc_send_publish (pw_cfg w)
         \<and> (pc_state (pw_cfg w) = RegistrationOk \<or> pc_state (pw_cfg w) = RegistrationCleared)
      then upd (\<lambda>c. c\<lparr>pc_send_publish := False\<rparr>) (fst (linphone_proxy_config_send_publish api env w))
      else w)"

section \<open>The life of an account\<close>

text \<open>What a step of the program can do to an account: the public functions, and the
  registration results that the signalling layer reports through \<open>set_state\<close>.  The settings
  (\<open>setting\<close>) do not touch the operations.\<close>

definition keeps_ops :: "('a proxy_config \<Rightarrow> 'a proxy_config) \<Rightarrow> bool" where
  "keeps_ops f \<longleftrightarrow> (\<forall>c. pc_op (f c) = pc_op c \<and> pc_publish_op (f c) = pc_publish_op c)"

inductive proxy_step :: "'a addr_api \<Rightarrow> 'a proxy_world \<Rightarrow> 'a proxy_world \<Rightarrow> bool" for api where
  setting: "keeps_ops f \<Longrightarrow> proxy_step api w (upd f w)"
| edit: "proxy_step api w (linphone_proxy_config_edit api w)"
| commit: "proxy_step api w (fst (linphone_proxy_config_done api w))"
| update: "proxy_step api w (linphone_proxy_config_update api env w)"
| refresh: "proxy_step api w (linphone_proxy_config_refresh_register env w)"
| publish: "proxy_step api w (fst (linphone_proxy_config_send_publish api env w))"
| stop: "proxy_step api w (linphone_proxy_config_stop_refreshing w)"
| reported: "proxy_step api w (linphone_proxy_config_set_state env st w)"
| release: "proxy_step api w (linphone_proxy_config_release_ops w)"

definition proxy_start :: "'a proxy_config \<Rightarrow> 'a proxy_world" where
  "proxy_start cfg = \<lparr>pw_cfg = cfg\<lparr>pc_op := None, pc_publish_op := None\<rparr>, pw_trace = [], pw_next = 0\<rparr>"

inductive proxy_reachable :: "'a addr_api \<Rightarrow> 'a proxy_world \<Rightarrow> bool" for api where
  start: "proxy_reachable api (proxy_start cfg)"
| step: "proxy_reachable api w \<Longrightarrow> proxy_step api w w' \<Longrightarrow> proxy_reachable api w'"

section \<open>Operations neither leak nor dangle\<close>

text \<open>The operations alive after an action, or \<^const>\<open>None\<close> when the action uses one that is not.\<close>

definition on_live :: "nat \<Rightarrow> nat set \<Rightarrow> nat set option" where
  "on_live n live = (if n \<in> live then Some live else None)"

definition drop_live :: "nat \<Rightarrow> nat set \<Rightarrow> nat set option" where
  "drop_live n live = (if n \<in> live then Some (live - {n}) else None)"

fun live_step :: "'a proxy_action \<Rightarrow> nat set \<Rightarrow> nat set option" where
  "live_step (ActNewOp n) live = (if n \<in> live then None else Some (insert n live))"
| "live_step (ActConfigureOp n) live = on_live n live"
| "live_step (ActSetContact n _) live = on_live n live"
| "live_step (ActRegister n p i e) live = on_live n live"
| "live_step (ActRefresh n e) live = on_live n live"
| "live_step (ActUnregister n) live = on_live n live"
| "live_step (ActStopRefreshing n) live = on_live n live"
| "live_step (ActDetach n) live = on_live n live"
| "live_step (ActPublish n e) live = on_live n live"
| "live_step (ActUnpublish n) live = on_live n live"
| "live_step (ActRelease n) live = drop_live n live"
| "live_step (ActUnref n) live = drop_live n live"
| "live_step ActUpdateFriends live = Some live"
| "live_step (ActNotify st) live = Some live"
| "live_step ActSaveAccounts live = Some live"

fun live_after :: "'a proxy_action list \<Rightarrow> nat set \<Rightarrow> nat set option" where
  "live_after [] live = Some live"
| "live_after (a # as) live = Option.bind (live_step a live) (live_after as)"

definition held :: "'a proxy_config \<Rightarrow> nat set" where
  "held c = set_option (pc_op c) \<union> set_option (pc_publish_op c)"

definition ops_ok :: "'a proxy_world \<Rightarrow> bool" where
  "ops_ok w \<longleftrightarrow> live_after (pw_trace w) {} = Some (held (pw_cfg w)) \<and> (\<forall>n \<in> held (pw_cfg w). n < pw_next w)
     \<and> (pc_op (pw_cfg w) = None \<or> pc_op (pw_cfg w) \<noteq> pc_publish_op (pw_cfg w))"

lemma live_after_append: "live_after (as @ bs) live = Option.bind (live_after as live) (live_after bs)"
  by (induction as arbitrary: live) (simp_all split: bind_splits)

lemma live_after_snoc: "live_after (as @ [a]) live = Option.bind (live_after as live) (live_step a)"
proof -
  have "live_after [a] = live_step a" by (rule ext) (simp split: bind_splits)
  then show ?thesis by (simp add: live_after_append)
qed

named_theorems proxy_world_simps \<open>fields of a world after the basic updates\<close>

lemma act_fields [proxy_world_simps]:
  "pw_cfg (act a w) = pw_cfg w" "pw_trace (act a w) = pw_trace w @ [a]" "pw_next (act a w) = pw_next w"
  "pw_cfg (upd f w) = f (pw_cfg w)" "pw_trace (upd f w) = pw_trace w" "pw_next (upd f w) = pw_next w"
  by (simp_all add: act_def upd_def)


lemma ops_ok_act: "ops_ok w \<Longrightarrow> live_step a (held (pw_cfg w)) = Some (held (pw_cfg w)) \<Longrightarrow> ops_ok (act a w)"
  by (simp add: ops_ok_def proxy_world_simps live_after_snoc)

lemma ops_ok_act_if: "ops_ok w \<Longrightarrow> (b \<Longrightarrow> live_step a (held (pw_cfg w)) = Some (held (pw_cfg w))) \<Longrightarrow> ops_ok (act_if b a w)"
  by (simp add: act_if_def ops_ok_act)

lemma ops_ok_upd:
  assumes "ops_ok w" and "pc_op (f (pw_cfg w)) = pc_op (pw_cfg w)" and "pc_publish_op (f (pw_cfg w)) = pc_publish_op (pw_cfg w)"
  shows "ops_ok (upd f w)"
proof -
  have "held (f (pw_cfg w)) = held (pw_cfg w)" by (simp add: held_def assms(2,3))
  with assms show ?thesis by (simp add: ops_ok_def proxy_world_simps)
qed

lemma act_if_cfg [proxy_world_simps]: "pw_cfg (act_if b a w) = pw_cfg w"
  by (simp add: act_if_def proxy_world_simps)

lemma set_state_fields:
  "pc_op (pw_cfg (linphone_proxy_config_set_state env st w)) = pc_op (pw_cfg w)"
  "pc_publish_op (pw_cfg (linphone_proxy_config_set_state env st w)) = pc_publish_op (pw_cfg w)"
  "pc_send_publish (pw_cfg (linphone_proxy_config_set_state env st w)) = pc_send_publish (pw_cfg w)"
  "pc_state (pw_cfg (linphone_proxy_config_set_state env st w)) = st"
  by (auto simp: linphone_proxy_config_set_state_def Let_def proxy_world_simps)

lemma set_state_ok: "ops_ok w \<Longrightarrow> ops_ok (linphone_proxy_config_set_state env st w)"
  unfolding linphone_proxy_config_set_state_def Let_def
  by (simp split: if_split) (intro conjI impI ops_ok_act_if ops_ok_upd; simp)

lemma release_op_ok: "ops_ok w \<Longrightarrow> ops_ok (release_op w)"
  by (cases "pc_op (pw_cfg w)")
    (auto simp: release_op_def ops_ok_def proxy_world_simps live_after_snoc held_def drop_live_def)

lemma release_publish_op_ok: "ops_ok w \<Longrightarrow> ops_ok (release_publish_op w)"
  by (cases "pc_publish_op (pw_cfg w)")
    (auto simp: release_publish_op_def ops_ok_def proxy_world_simps live_after_snoc held_def drop_live_def)

lemma on_held: "pc_op c = Some n \<or> pc_publish_op c = Some n \<Longrightarrow> on_live n (held c) = Some (held c)"
  by (auto simp: on_live_def held_def)

lemma unregister_ok: "ops_ok w \<Longrightarrow> ops_ok (linphone_proxy_config_unregister w)"
  by (auto simp: linphone_proxy_config_unregister_def on_held intro!: ops_ok_act_if split: option.split)

lemma unregister_cfg [proxy_world_simps]: "pw_cfg (linphone_proxy_config_unregister w) = pw_cfg w"
  by (auto simp: linphone_proxy_config_unregister_def proxy_world_simps split: option.split)

lemma edit_ok: "ops_ok w \<Longrightarrow> ops_ok (linphone_proxy_config_edit api w)"
proof -
  assume w: "ops_ok w"
  define w1 where "w1 = (case pc_publish_op (pw_cfg w) of
      Some n \<Rightarrow> if truth (pc_publish (pw_cfg w)) then release_publish_op (act (ActUnpublish n) w) else w | None \<Rightarrow> w)"
  have "ops_ok w1"
    using w by (auto simp: w1_def on_held intro!: release_publish_op_ok ops_ok_act split: option.split)
  then have "ops_ok (upd (linphone_proxy_config_store_server_config api) w1)"
    by (intro ops_ok_upd) (simp_all add: linphone_proxy_config_store_server_config_def)
  then show ?thesis
    by (auto simp: linphone_proxy_config_edit_def linphone_proxy_config_pause_register_def w1_def Let_def on_held
        intro!: ops_ok_act split: option.split)
qed

text \<open>Replacing the registration operation: the old one is released, the new one is held.\<close>

lemma new_op_ok:
  assumes "ops_ok w"
  shows "ops_ok (upd (\<lambda>c. c\<lparr>pc_op := Some (pw_next w)\<rparr>)
    (snd (sal_op_new (case pc_op (pw_cfg w) of None \<Rightarrow> w | Some n \<Rightarrow> act (ActRelease n) w))))"
proof (cases "pc_op (pw_cfg w)")
  case None
  with assms show ?thesis
    by (auto simp: sal_op_new_def ops_ok_def proxy_world_simps live_after_append held_def act_def upd_def)
next
  case (Some n)
  have e: "insert m ({n} \<union> set_option p - {n}) = insert m (set_option p)" if "p \<noteq> Some n" for m :: nat and p
    using that by (cases p) auto
  from Some assms e [of "pc_publish_op (pw_cfg w)"] show ?thesis
    by (auto simp: sal_op_new_def ops_ok_def live_after_append held_def act_def upd_def drop_live_def)
qed

lemma sal_op_new_fst: "fst (sal_op_new (case previous of None \<Rightarrow> w | Some n \<Rightarrow> act (ActRelease n) w)) = pw_next w"
  by (cases previous) (simp_all add: sal_op_new_def proxy_world_simps)

lemma register_ok: "ops_ok w \<Longrightarrow> ops_ok (linphone_proxy_config_register api env w)"
proof -
  assume w: "ops_ok w"
  let ?w0 = "case pc_op (pw_cfg w) of None \<Rightarrow> w | Some n \<Rightarrow> act (ActRelease n) w"
  obtain n w1 where new: "sal_op_new ?w0 = (n, w1)" by fastforce
  have n: "n = pw_next w" using sal_op_new_fst [where previous = "pc_op (pw_cfg w)" and w = w] new by simp
  define w2 where "w2 = upd (\<lambda>c. c\<lparr>pc_op := Some n\<rparr>) w1"
  have w2: "ops_ok w2" "pc_op (pw_cfg w2) = Some n"
    using new_op_ok [OF w] new n by (simp_all add: w2_def proxy_world_simps)
  have w3: "ops_ok (act_if b (ActSetContact n a) (act (ActConfigureOp n) w2))" for a b
    using w2 by (intro ops_ok_act_if ops_ok_act) (simp_all add: on_held proxy_world_simps)
  have w4: "ops_ok (act (ActRegister n p i e) (act_if b (ActSetContact n a) (act (ActConfigureOp n) w2)))" for a b p i e
    using w2 by (intro ops_ok_act w3) (simp_all add: on_held proxy_world_simps)
  have u: "ops_ok (linphone_proxy_config_unregister
      (if pc_state (pw_cfg w) = RegistrationProgress then linphone_proxy_config_set_state env RegistrationCleared w else w))"
    using w by (simp add: unregister_ok set_state_ok)
  show ?thesis
    unfolding linphone_proxy_config_register_def Let_def new prod.case w2_def [symmetric]
    using u w4 by (simp add: set_state_ok)
qed

lemma refresh_ok: "ops_ok w \<Longrightarrow> ops_ok (linphone_proxy_config_refresh_register env w)"
  by (auto simp: linphone_proxy_config_refresh_register_def Let_def on_held intro!: set_state_ok ops_ok_act split: option.split)

lemma drop_op_ok:
  assumes "ops_ok w" and "pc_op (pw_cfg w) = Some n"
  shows "ops_ok (upd (\<lambda>c. c\<lparr>pc_op := None\<rparr>) (act (ActUnref n) (act (ActDetach n) w)))"
proof -
  have d: "ops_ok (act (ActDetach n) w)" using assms by (intro ops_ok_act) (simp_all add: on_held)
  then show ?thesis using assms
    by (auto simp: ops_ok_def proxy_world_simps live_after_append held_def drop_live_def on_live_def)
qed

lemma done_ok: "ops_ok w \<Longrightarrow> ops_ok (fst (linphone_proxy_config_done api w))"
proof -
  assume w: "ops_ok w"
  define res where "res = linphone_proxy_config_is_server_config_changed api (pw_cfg w)"
  define w1 where "w1 = (if res \<noteq> AddressEqual then
               (case pc_op (pw_cfg w) of None \<Rightarrow> w
                | Some n \<Rightarrow> upd (\<lambda>c. c\<lparr>pc_op := None\<rparr>) (act (ActUnref n) (act (ActDetach n)
                    (if res = AddressDifferent then linphone_proxy_config_unregister w else w))))
             else w)"
  have "ops_ok w1"
  proof (cases "pc_op (pw_cfg w)")
    case None
    with w show ?thesis by (simp add: w1_def)
  next
    case (Some n)
    have "ops_ok (if res = AddressDifferent then linphone_proxy_config_unregister w else w)"
      using w by (simp add: unregister_ok)
    from drop_op_ok [OF this] w Some show ?thesis by (simp add: w1_def proxy_world_simps)
  qed
  then have "ops_ok (act ActSaveAccounts (upd (\<lambda>c. c\<lparr>pc_commit := True\<rparr>) w1))"
    by (intro ops_ok_act ops_ok_upd) simp_all
  with w show ?thesis
    by (auto simp: linphone_proxy_config_done_def Let_def w1_def res_def split: option.splits)
qed

lemma new_publish_op_ok:
  assumes "ops_ok w" and "pc_publish_op (pw_cfg w) = None"
  shows "ops_ok (upd (\<lambda>c. c\<lparr>pc_publish_op := Some (pw_next w)\<rparr>) (snd (sal_op_new w)))"
  using assms by (auto simp: sal_op_new_def ops_ok_def live_after_snoc held_def act_def upd_def)

lemma send_publish_ok: "ops_ok w \<Longrightarrow> ops_ok (fst (linphone_proxy_config_send_publish api env w))"
proof -
  assume w: "ops_ok w"
  define w1 where "w1 = (case pc_publish_op (pw_cfg w) of Some _ \<Rightarrow> w
             | None \<Rightarrow> (case sal_op_new w of (n, w) \<Rightarrow>
                 act_if (pe_publish_with_contact env) (ActSetContact n (Option.bind (pc_reg_identity (pw_cfg w)) (ad_new api)))
                   (act (ActConfigureOp n) (upd (\<lambda>c. c\<lparr>pc_publish_op := Some n\<rparr>) w))))"
  have w1: "ops_ok w1"
  proof (cases "pc_publish_op (pw_cfg w)")
    case None
    obtain n w2 where new: "sal_op_new w = (n, w2)" by fastforce
    then have "n = pw_next w" by (simp add: sal_op_new_def)
    with new_publish_op_ok [OF w None] new have "ops_ok (upd (\<lambda>c. c\<lparr>pc_publish_op := Some n\<rparr>) w2)" by simp
    with None new show ?thesis
      by (simp add: w1_def) (intro ops_ok_act_if ops_ok_act; simp add: on_held proxy_world_simps)
  next
    case (Some n)
    with w show ?thesis by (simp add: w1_def)
  qed
  have "ops_ok (case pc_publish_op (pw_cfg w1) of
      Some n \<Rightarrow> act (ActPublish n (linphone_proxy_config_get_publish_expires (pw_cfg w1))) w1 | None \<Rightarrow> w1)"
    using w1 by (auto intro!: ops_ok_act simp: on_held split: option.split)
  moreover have "ops_ok (upd (\<lambda>c. c\<lparr>pc_send_publish := True\<rparr>) w)" using w by (intro ops_ok_upd) simp_all
  ultimately show ?thesis
    unfolding linphone_proxy_config_send_publish_def Let_def w1_def [symmetric]
    by (auto split: option.splits)
qed

lemma set_server_addr_ops [simp]:
  "pc_op (fst (linphone_proxy_config_set_server_addr api c a)) = pc_op c"
  "pc_publish_op (fst (linphone_proxy_config_set_server_addr api c a)) = pc_publish_op c"
  by (auto simp: linphone_proxy_config_set_server_addr_def Let_def split: option.splits)

lemma activate_ok: "ops_ok w \<Longrightarrow> ops_ok (linphone_proxy_config_activate_sip_setup api env w)"
proof -
  assume "ops_ok w"
  then have u: "ops_ok (upd (\<lambda>c. c\<lparr>pc_ssctx := True\<rparr>) w)" by (intro ops_ok_upd) simp_all
  have "ops_ok (upd (\<lambda>c. fst (linphone_proxy_config_set_server_addr api c (Some p))) (upd (\<lambda>c. c\<lparr>pc_ssctx := True\<rparr>) w))" for p
    using u by (rule ops_ok_upd) simp_all
  with u \<open>ops_ok w\<close> show ?thesis
    by (auto simp: linphone_proxy_config_activate_sip_setup_def Let_def split: option.split)
qed

lemma update_ok: "ops_ok w \<Longrightarrow> ops_ok (linphone_proxy_config_update api env w)"
proof -
  assume w: "ops_ok w"
  define w0 where "w0 = (if pc_type (pw_cfg w) \<noteq> None \<and> \<not> pc_ssctx (pw_cfg w)
                 then linphone_proxy_config_activate_sip_setup api env w else w)"
  have w0: "ops_ok w0" using w by (simp add: w0_def activate_ok)
  define w1 where "w1 = upd (\<lambda>c. c\<lparr>pc_commit := False\<rparr>) (linphone_proxy_config_register api env w0)"
  have w1: "ops_ok w1" unfolding w1_def using register_ok [OF w0] by (intro ops_ok_upd) simp_all
  have w2: "ops_ok (upd (\<lambda>c. c\<lparr>pc_send_publish := True\<rparr>) w1)" using w1 by (intro ops_ok_upd) simp_all
  define w3 where "w3 = (if pc_commit (pw_cfg w) then
      (if can_register env then (if truth (pc_publish (pw_cfg w1)) then upd (\<lambda>c. c\<lparr>pc_send_publish := True\<rparr>) w1 else w1)
       else w0) else w)"
  have w3: "ops_ok w3" using w w0 w1 w2 by (simp add: w3_def)
  have "ops_ok (upd (\<lambda>c. c\<lparr>pc_send_publish := False\<rparr>) (fst (linphone_proxy_config_send_publish api env w3)))"
    using send_publish_ok [OF w3] by (intro ops_ok_upd) simp_all
  with w3 show ?thesis
    unfolding linphone_proxy_config_update_def Let_def w0_def [symmetric] w1_def [symmetric] w3_def [symmetric]
    by simp
qed

lemma proxy_step_ok: "proxy_step api w w' \<Longrightarrow> ops_ok w \<Longrightarrow> ops_ok w'"
proof (induction rule: proxy_step.induct)
  case (setting f w)
  then show ?case by (intro ops_ok_upd) (simp_all add: keeps_ops_def)
next
  case (stop w)
  then show ?case by (simp add: linphone_proxy_config_stop_refreshing_def release_op_ok release_publish_op_ok)
next
  case (release w)
  then show ?case by (simp add: linphone_proxy_config_release_ops_def release_op_ok release_publish_op_ok)
qed (simp_all add: edit_ok done_ok update_ok refresh_ok send_publish_ok set_state_ok)

lemma proxy_reachable_ok: "proxy_reachable api w \<Longrightarrow> ops_ok w"
proof (induction rule: proxy_reachable.induct)
  case (start cfg)
  then show ?case by (simp add: ops_ok_def proxy_start_def held_def)
next
  case (step w w')
  then show ?case by (simp add: proxy_step_ok)
qed

text \<open>Whatever an account goes through, its signalling operations neither leak nor dangle:
  every operation the code used was alive at that moment, and the operations that are alive are
  just the registration and the publish operation the account holds.\<close>

lemma operations_neither_leak_nor_dangle:
  assumes "proxy_reachable api w"
  shows "live_after (pw_trace w) {} = Some (set_option (pc_op (pw_cfg w)) \<union> set_option (pc_publish_op (pw_cfg w)))"
  using proxy_reachable_ok [OF assms] by (simp add: ops_ok_def held_def)

text \<open>Updating a committed account that may register settles it: the commit flag is cleared,
  and with registration enabled the account holds a new operation on which the registration was
  sent, and is in progress or failed as the signalling layer answered.\<close>

lemma update_registers:
  assumes "pc_commit (pw_cfg w)" and "can_register env" and "pc_type (pw_cfg w) = None"
    and "truth (pc_reg_sendregister (pw_cfg w))"
  shows "let w' = linphone_proxy_config_update api env w in
    \<not> pc_commit (pw_cfg w') \<and> pc_op (pw_cfg w') = Some (pw_next w)
    \<and> pc_state (pw_cfg w') = (if pe_sal_register env = 0 then RegistrationProgress else RegistrationFailed)"
proof -
  obtain n w0 where new: "sal_op_new (case pc_op (pw_cfg w) of None \<Rightarrow> w | Some n \<Rightarrow> act (ActRelease n) w) = (n, w0)" by fastforce
  have n: "n = pw_next w" using sal_op_new_fst [where previous = "pc_op (pw_cfg w)" and w = w] new by simp
  define w1 where "w1 = upd (\<lambda>c. c\<lparr>pc_commit := False\<rparr>) (linphone_proxy_config_register api env w)"
  have r: "\<not> pc_commit (pw_cfg w1)" "pc_op (pw_cfg w1) = Some (pw_next w)"
    "pc_state (pw_cfg w1) = (if pe_sal_register env = 0 then RegistrationProgress else RegistrationFailed)"
    using assms(4) by (auto simp: w1_def linphone_proxy_config_register_def Let_def new n proxy_world_simps set_state_fields)
  have st: "\<not> (pc_state (pw_cfg w1) = RegistrationOk \<or> pc_state (pw_cfg w1) = RegistrationCleared)"
    using r(3) by (simp split: if_splits)
  have "linphone_proxy_config_update api env w =
      (if truth (pc_publish (pw_cfg w1)) then upd (\<lambda>c. c\<lparr>pc_send_publish := True\<rparr>) w1 else w1)"
    using assms(1-3) st by (simp add: linphone_proxy_config_update_def Let_def w1_def proxy_world_simps)
  with r show ?thesis by (simp add: Let_def proxy_world_simps)
qed

section \<open>Instances\<close>

text \<open>An account being committed, on a network that is up.\<close>

definition ex_env :: "string proxy_env" where
  "ex_env = \<lparr>pe_has_core = True, pe_subscribe_friends_only_when_registered = True,
     pe_register_only_when_network_is_up = True, pe_network_reachable = True, pe_sal_register = 0,
     pe_sal_register_refresh = 0, pe_sal_publish = 0, pe_publish_with_contact = False,
     pe_sip_setup_lookup = (\<lambda>_. None)\<rparr>"

definition ex_world :: "string proxy_world" where
  "ex_world = proxy_start (proxy_zero\<lparr>pc_reg_proxy := Some ''sip:example.org'',
     pc_reg_identity := Some ''sip:alice@example.org'', pc_reg_sendregister := 1, pc_commit := True\<rparr>)"

end
