(* ===== verification/PhoneNumbers.thy ===== *)
theory PhoneNumbers
  imports ProxyConfig
begin

text \<open>
  Telephone numbers (\<open>coreapi/proxy.c\<close>): the table of dial plans, the search of a country calling
  code, and the normalisation of the number a user dials with the prefix of an account.  Strings
  are lists of bytes without the terminating zero; a result of type \<open>option\<close> is \<^const>\<open>None\<close>
  where the C code would read or write outside a buffer.
\<close>

record dial_plan =
  dp_country :: string
  dp_iso_country_code :: string
  dp_ccc :: string
  dp_nnl :: nat
  dp_icp :: string

definition plan :: "string \<Rightarrow> string \<Rightarrow> string \<Rightarrow> nat \<Rightarrow> string \<Rightarrow> dial_plan" where
  "plan country country_code ccc nnl icp = \<lparr>dp_country = country, dp_iso_country_code = country_code, dp_ccc = ccc,
     dp_nnl = nnl, dp_icp = icp\<rparr>"

text \<open>The table without its terminating entry, in two parts.\<close>

definition dial_plans_A_K :: "dial_plan list" where
  "dial_plans_A_K = [
     plan ''Afghanistan'' ''AF'' ''93'' 9 ''00'', plan ''Albania'' ''AL'' ''355'' 9 ''00'',
     plan ''Algeria'' ''DZ'' ''213'' 9 ''00'', plan ''American Samoa'' ''AS'' ''1'' 10 ''011'',
     plan ''Andorra'' ''AD'' ''376'' 6 ''00'', plan ''Angola'' ''AO'' ''244'' 9 ''00'',
     plan ''Anguilla'' ''AI'' ''1'' 10 ''011'', plan ''Antigua and Barbuda'' ''AG'' ''1'' 10 ''011'',
     plan ''Argentina'' ''AR'' ''54'' 10 ''00'', plan ''Armenia'' ''AM'' ''374'' 8 ''00'',
     plan ''Aruba'' ''AW'' ''297'' 7 ''011'', plan ''Australia'' ''AU'' ''61'' 9 ''0011'',
     plan ''Austria'' ''AT'' ''43'' 10 ''00'', plan ''Azerbaijan'' ''AZ'' ''994'' 9 ''00'',
     plan ''Bahamas'' ''BS'' ''1'' 10 ''011'', plan ''Bahrain'' ''BH'' ''973'' 8 ''00'',
     plan ''Bangladesh'' ''BD'' ''880'' 10 ''00'', plan ''Barbados'' ''BB'' ''1'' 10 ''011'',
     plan ''Belarus'' ''BY'' ''375'' 9 ''00'', plan ''Belgium'' ''BE'' ''32'' 9 ''00'',
     plan ''Belize'' ''BZ'' ''501'' 7 ''00'', plan ''Benin'' ''BJ'' ''229'' 8 ''00'',
     plan ''Bermuda'' ''BM'' ''1'' 10 ''011'', plan ''Bhutan'' ''BT'' ''975'' 8 ''00'',
     plan ''Bolivia'' ''BO'' ''591'' 8 ''00'', plan ''Bosnia and Herzegovina'' ''BA'' ''387'' 8 ''00'',
     plan ''Botswana'' ''BW'' ''267'' 8 ''00'', plan ''Brazil'' ''BR'' ''55'' 10 ''00'',
     plan ''Brunei Darussalam'' ''BN'' ''673'' 7 ''00'', plan ''Bulgaria'' ''BG'' ''359'' 9 ''00'',
     plan ''Burkina Faso'' ''BF'' ''226'' 8 ''00'', plan ''Burundi'' ''BI'' ''257'' 8 ''011'',
     plan ''Cambodia'' ''KH'' ''855'' 9 ''00'', plan ''Cameroon'' ''CM'' ''237'' 8 ''00'',
     plan ''Canada'' ''CA'' ''1'' 10 ''011'', plan ''Cape Verde'' ''CV'' ''238'' 7 ''00'',
     plan ''Cayman Islands'' ''KY'' ''1'' 10 ''011'', plan ''Central African Republic'' ''CF'' ''236'' 8 ''00'',
     plan ''Chad'' ''TD'' ''235'' 8 ''00'', plan ''Chile'' ''CL'' ''56'' 9 ''00'',
     plan ''China'' ''CN'' ''86'' 11 ''00'', plan ''Colombia'' ''CO'' ''57'' 10 ''00'',
     plan ''Comoros'' ''KM'' ''269'' 7 ''00'', plan ''Congo'' ''CG'' ''242'' 9 ''00'',
     plan ''Congo Democratic Republic'' ''CD'' ''243'' 9 ''00'', plan ''Cook Islands'' ''CK'' ''682'' 5 ''00'',
     plan ''Costa Rica'' ''CR'' ''506'' 8 ''00'',
     plan (''Cote d'' @ [CHR 0x27] @ ''Ivoire'') ''AD'' ''225'' 8 ''00'', plan ''Croatia'' ''HR'' ''385'' 9 ''00'',
     plan ''Cuba'' ''CU'' ''53'' 8 ''119'', plan ''Cyprus'' ''CY'' ''357'' 8 ''00'',
     plan ''Czech Republic'' ''CZ'' ''420'' 9 ''00'', plan ''Denmark'' ''DK'' ''45'' 8 ''00'',
     plan ''Djibouti'' ''DJ'' ''253'' 8 ''00'', plan ''Dominica'' ''DM'' ''1'' 10 ''011'',
     plan ''Dominican Republic'' ''DO'' ''1'' 10 ''011'', plan ''Ecuador'' ''EC'' ''593'' 9 ''00'',
     plan ''Egypt'' ''EG'' ''20'' 10 ''00'', plan ''El Salvador'' ''SV'' ''503'' 8 ''00'',
     plan ''Equatorial Guinea'' ''GQ'' ''240'' 9 ''00'', plan ''Eritrea'' ''ER'' ''291'' 7 ''00'',
     plan ''Estonia'' ''EE'' ''372'' 8 ''00'', plan ''Ethiopia'' ''ET'' ''251'' 9 ''00'',
     plan ''Falkland Islands'' ''FK'' ''500'' 5 ''00'', plan ''Faroe Islands'' ''FO'' ''298'' 6 ''00'',
     plan ''Fiji'' ''FJ'' ''679'' 7 ''00'', plan ''Finland'' ''FI'' ''358'' 9 ''00'',
     plan ''France'' ''FR'' ''33'' 9 ''00'', plan ''French Guiana'' ''GF'' ''594'' 9 ''00'',
     plan ''French Polynesia'' ''PF'' ''689'' 6 ''00'', plan ''Gabon'' ''GA'' ''241'' 8 ''00'',
     plan ''Gambia'' ''GM'' ''220'' 7 ''00'', plan ''Georgia'' ''GE'' ''995'' 9 ''00'',
     plan ''Germany'' ''DE'' ''49'' 11 ''00'', plan ''Ghana'' ''GH'' ''233'' 9 ''00'',
     plan ''Gibraltar'' ''GI'' ''350'' 8 ''00'', plan ''Greece'' ''GR'' ''30'' 10 ''00'',
     plan ''Greenland'' ''GL'' ''299'' 6 ''00'', plan ''Grenada'' ''GD'' ''1'' 10 ''011'',
     plan ''Guadeloupe'' ''GP'' ''590'' 9 ''00'', plan ''Guam'' ''GU'' ''1'' 10 ''011'',
     plan ''Guatemala'' ''GT'' ''502'' 8 ''00'', plan ''Guinea'' ''GN'' ''224'' 8 ''00'',
     plan ''Guinea-Bissau'' ''GW'' ''245'' 7 ''00'', plan ''Guyana'' ''GY'' ''592'' 7 ''001'',
     plan ''Haiti'' ''HT'' ''509'' 8 ''00'', plan ''Honduras'' ''HN'' ''504'' 8 ''00'',
     plan ''Hong Kong'' ''HK'' ''852'' 8 ''001'', plan ''Hungary'' ''HU'' ''36'' 9 ''00'',
     plan ''Iceland'' ''IS'' ''354'' 9 ''00'', plan ''India'' ''IN'' ''91'' 10 ''00'',
     plan ''Indonesia'' ''ID'' ''62'' 10 ''001'', plan ''Iran'' ''IR'' ''98'' 10 ''00'',
     plan ''Iraq'' ''IQ'' ''964'' 10 ''00'', plan ''Ireland'' ''IE'' ''353'' 9 ''00'',
     plan ''Israel'' ''IL'' ''972'' 9 ''00'', plan ''Italy'' ''IT'' ''39'' 10 ''00'',
     plan ''Jamaica'' ''JM'' ''1'' 10 ''011'', plan ''Japan'' ''JP'' ''81'' 10 ''010'',
     plan ''Jordan'' ''JO'' ''962'' 9 ''00'', plan ''Kazakhstan'' ''KZ'' ''7'' 10 ''00'',
     plan ''Kenya'' ''KE'' ''254'' 9 ''000'', plan ''Kiribati'' ''KI'' ''686'' 5 ''00'',
     plan ''Korea, North'' ''KP'' ''850'' 12 ''99'', plan ''Korea, South'' ''KR'' ''82'' 12 ''001'',
     plan ''Kuwait'' ''KW'' ''965'' 8 ''00'', plan ''Kyrgyzstan'' ''KG'' ''996'' 9 ''00'',
     plan ''Laos'' ''LA'' ''856'' 10 ''00'', plan ''Latvia'' ''LV'' ''371'' 8 ''00'',
     plan ''Lebanon'' ''LB'' ''961'' 7 ''00'', plan ''Lesotho'' ''LS'' ''266'' 8 ''00'']"

definition dial_plans_K_Z :: "dial_plan list" where
  "dial_plans_K_Z = [
     plan ''Liberia'' ''LR'' ''231'' 8 ''00'', plan ''Libya'' ''LY'' ''218'' 8 ''00'',
     plan ''Liechtenstein'' ''LI'' ''423'' 7 ''00'', plan ''Lithuania'' ''LT'' ''370'' 8 ''00'',
     plan ''Luxembourg'' ''LU'' ''352'' 9 ''00'', plan ''Macau'' ''MO'' ''853'' 8 ''00'',
     plan ''Macedonia'' ''MK'' ''389'' 8 ''00'', plan ''Madagascar'' ''MG'' ''261'' 9 ''00'',
     plan ''Malawi'' ''MW'' ''265'' 9 ''00'', plan ''Malaysia'' ''MY'' ''60'' 9 ''00'',
     plan ''Maldives'' ''MV'' ''960'' 7 ''00'', plan ''Mali'' ''ML'' ''223'' 8 ''00'',
     plan ''Malta'' ''MT'' ''356'' 8 ''00'', plan ''Marshall Islands'' ''MH'' ''692'' 7 ''011'',
     plan ''Martinique'' ''MQ'' ''596'' 9 ''00'', plan ''Mauritania'' ''MR'' ''222'' 8 ''00'',
     plan ''Mauritius'' ''MU'' ''230'' 7 ''00'', plan ''Mayotte Island'' ''YT'' ''262'' 9 ''00'',
     plan ''Mexico'' ''MX'' ''52'' 10 ''00'', plan ''Micronesia'' ''FM'' ''691'' 7 ''011'',
     plan ''Moldova'' ''MD'' ''373'' 8 ''00'', plan ''Monaco'' ''MC'' ''377'' 8 ''00'',
     plan ''Mongolia'' ''MN'' ''976'' 8 ''001'', plan ''Montenegro'' ''ME'' ''382'' 8 ''00'',
     plan ''Montserrat'' ''MS'' ''664'' 10 ''011'', plan ''Morocco'' ''MA'' ''212'' 9 ''00'',
     plan ''Mozambique'' ''MZ'' ''258'' 9 ''00'', plan ''Myanmar'' ''MM'' ''95'' 8 ''00'',
     plan ''Namibia'' ''NA'' ''264'' 9 ''00'', plan ''Nauru'' ''NR'' ''674'' 7 ''00'',
     plan ''Nepal'' ''NP'' ''43'' 10 ''00'', plan ''Netherlands'' ''NL'' ''31'' 9 ''00'',
     plan ''New Caledonia'' ''NC'' ''687'' 6 ''00'', plan ''New Zealand'' ''NZ'' ''64'' 10 ''00'',
     plan ''Nicaragua'' ''NI'' ''505'' 8 ''00'', plan ''Niger'' ''NE'' ''227'' 8 ''00'',
     plan ''Nigeria'' ''NG'' ''234'' 10 ''009'', plan ''Niue'' ''NU'' ''683'' 4 ''00'',
     plan ''Norfolk Island'' ''NF'' ''672'' 5 ''00'', plan ''Northern Mariana Islands'' ''MP'' ''1'' 10 ''011'',
     plan ''Norway'' ''NO'' ''47'' 8 ''00'', plan ''Oman'' ''OM'' ''968'' 8 ''00'',
     plan ''Pakistan'' ''PK'' ''92'' 10 ''00'', plan ''Palau'' ''PW'' ''680'' 7 ''011'',
     plan ''Palestine'' ''PS'' ''970'' 9 ''00'', plan ''Panama'' ''PA'' ''507'' 8 ''00'',
     plan ''Papua New Guinea'' ''PG'' ''675'' 8 ''00'', plan ''Paraguay'' ''PY'' ''595'' 9 ''00'',
     plan ''Peru'' ''PE'' ''51'' 9 ''00'', plan ''Philippines'' ''PH'' ''63'' 10 ''00'',
     plan ''Poland'' ''PL'' ''48'' 9 ''00'', plan ''Portugal'' ''PT'' ''351'' 9 ''00'',
     plan ''Puerto Rico'' ''PR'' ''1'' 10 ''011'', plan ''Qatar'' ''QA'' ''974'' 8 ''00'',
     plan (''R'' @ [CHR 0xEF] @ [CHR 0xBF] @ [CHR 0xBD] @ ''union Island'') ''RE'' ''262'' 9 ''011'',
     plan ''Romania'' ''RO'' ''40'' 9 ''00'', plan ''Russian Federation'' ''RU'' ''7'' 10 ''8'',
     plan ''Rwanda'' ''RW'' ''250'' 9 ''00'', plan ''Saint Helena'' ''SH'' ''290'' 4 ''00'',
     plan ''Saint Kitts and Nevis'' ''KN'' ''1'' 10 ''011'', plan ''Saint Lucia'' ''LC'' ''1'' 10 ''011'',
     plan ''Saint Pierre and Miquelon'' ''PM'' ''508'' 6 ''00'',
     plan ''Saint Vincent and the Grenadines'' ''VC'' ''1'' 10 ''011'', plan ''Samoa'' ''WS'' ''685'' 7 ''0'',
     plan ''San Marino'' ''SM'' ''378'' 10 ''00'', plan ''Sao Tome and Principe'' ''ST'' ''239'' 7 ''00'',
     plan ''Saudi Arabia'' ''SA'' ''966'' 9 ''00'', plan ''Senegal'' ''SN'' ''221'' 9 ''00'',
     plan ''Serbia'' ''RS'' ''381'' 9 ''00'', plan ''Seychelles'' ''SC'' ''248'' 7 ''00'',
     plan ''Sierra Leone'' ''SL'' ''232'' 8 ''00'', plan ''Singapore'' ''SG'' ''65'' 8 ''001'',
     plan ''Slovakia'' ''SK'' ''421'' 9 ''00'', plan ''Slovenia'' ''SI'' ''386'' 8 ''00'',
     plan ''Solomon Islands'' ''SB'' ''677'' 7 ''00'', plan ''Somalia'' ''SO'' ''252'' 8 ''00'',
     plan ''South Africa'' ''ZA'' ''27'' 9 ''00'', plan ''Spain'' ''ES'' ''34'' 9 ''00'',
     plan ''Sri Lanka'' ''LK'' ''94'' 9 ''00'', plan ''Sudan'' ''SD'' ''249'' 9 ''00'',
     plan ''Suriname'' ''SR'' ''597'' 7 ''00'', plan ''Swaziland'' ''SZ'' ''268'' 8 ''00'',
     plan ''Sweden'' ''SE'' ''1'' 9 ''00'', plan ''Switzerland'' ''XK'' ''41'' 9 ''00'',
     plan ''Syria'' ''SY'' ''963'' 9 ''00'', plan ''Taiwan'' ''TW'' ''886'' 9 ''810'',
     plan ''Tajikistan'' ''TJ'' ''992'' 9 ''002'', plan ''Tanzania'' ''TZ'' ''255'' 9 ''000'',
     plan ''Thailand'' ''TH'' ''66'' 9 ''001'', plan ''Togo'' ''TG'' ''228'' 8 ''00'',
     plan ''Tokelau'' ''TK'' ''690'' 4 ''00'', plan ''Tonga'' ''TO'' ''676'' 5 ''00'',
     plan ''Trinidad and Tobago'' ''TT'' ''1'' 10 ''011'', plan ''Tunisia'' ''TN'' ''216'' 8 ''00'',
     plan ''Turkey'' ''TR'' ''90'' 10 ''00'', plan ''Turkmenistan'' ''TM'' ''993'' 8 ''00'',
     plan ''Turks and Caicos Islands'' ''TC'' ''1'' 7 ''0'', plan ''Tuvalu'' ''TV'' ''688'' 5 ''00'',
     plan ''Uganda'' ''UG'' ''256'' 9 ''000'', plan ''Ukraine'' ''UA'' ''380'' 9 ''00'',
     plan ''United Arab Emirates'' ''AE'' ''971'' 9 ''00'', plan ''United Kingdom'' ''GB'' ''44'' 10 ''00'',
     plan ''United States'' ''US'' ''1'' 10 ''011'', plan ''Uruguay'' ''UY'' ''598'' 8 ''00'',
     plan ''Uzbekistan'' ''UZ'' ''998'' 9 ''8'', plan ''Vanuatu'' ''VU'' ''678'' 7 ''00'',
     plan ''Venezuela'' ''VE'' ''58'' 10 ''00'', plan ''Vietnam'' ''VN'' ''84'' 9 ''00'',
     plan ''Wallis and Futuna'' ''WF'' ''681'' 5 ''00'', plan ''Yemen'' ''YE'' ''967'' 9 ''00'',
     plan ''Zambia'' ''ZM'' ''260'' 9 ''00'', plan ''Zimbabwe'' ''ZW'' ''263'' 9 ''00'']"

definition dial_plans :: "dial_plan list" where
  "dial_plans = dial_plans_A_K @ dial_plans_K_Z"

definition most_common_dialplan :: dial_plan where
  "most_common_dialplan = plan ''generic'' [] [] 10 ''00''"

section \<open>Country calling codes\<close>

text \<open>\<open>strncmp(a,b,n)==0\<close> of two C strings.\<close>

definition strneq :: "nat \<Rightarrow> string \<Rightarrow> string \<Rightarrow> bool" where
  "strneq n a b \<longleftrightarrow> take n a = take n b"

definition plans_matching :: "string \<Rightarrow> nat \<Rightarrow> dial_plan list" where
  "plans_matching s i = filter (\<lambda>p. strneq i (dp_ccc p) s) dial_plans"

text \<open>The plans found in the last turn of the loop; 8 is the size of the \<open>ccc\<close> field.\<close>

function e164_loop :: "string \<Rightarrow> nat \<Rightarrow> dial_plan list" where
  "e164_loop s i = (let i = i + 1; found = plans_matching s i in
     if (length found > 1 \<or> length found = 0) \<and> i < 8 then e164_loop s i else found)"
  by auto
termination by (relation "measure (\<lambda>(s, i). 8 - i)") auto

definition linphone_dial_plan_lookup_ccc_from_e164 :: "string \<Rightarrow> int option" where
  "linphone_dial_plan_lookup_ccc_from_e164 e164 = (case e164 of [] \<Rightarrow> None
     | _ # s \<Rightarrow>
        if starts_with s ''1'' then Some 1
        else (let found = e164_loop s 0 in
          if length found = 1 then atoi (dp_ccc (last found)) else Some (-1)))"

definition linphone_dial_plan_lookup_ccc_from_iso :: "string \<Rightarrow> int option" where
  "linphone_dial_plan_lookup_ccc_from_iso code =
     (case find (\<lambda>p. code = dp_iso_country_code p) dial_plans of
        Some p \<Rightarrow> atoi (dp_ccc p) | None \<Rightarrow> Some (-1))"

text \<open>The copy of an unknown code needs room for it and its zero in the field \<open>ccc[8]\<close>.\<close>

definition lookup_dial_plan_by_ccc :: "string \<Rightarrow> (bool \<times> dial_plan) option" where
  "lookup_dial_plan_by_ccc ccc = (case find (\<lambda>p. ccc = dp_ccc p) dial_plans of
     Some p \<Rightarrow> Some (True, p)
   | None \<Rightarrow> if length ccc < 8 then Some (False, most_common_dialplan\<lparr>dp_ccc := ccc\<rparr>) else None)"

section \<open>Normalisation\<close>

definition is_phone_char :: "char \<Rightarrow> bool" where
  "is_phone_char c \<longleftrightarrow> is_digit c \<or> c \<in> {CHR '' '', CHR ''.'', CHR ''-'', CHR '')'', CHR ''('', CHR ''/'', CHR ''+'', CHR 0xCA}"

definition linphone_proxy_config_is_phone_number :: "string \<Rightarrow> bool" where
  "linphone_proxy_config_is_phone_number username = list_all is_phone_char username"

definition flatten_number :: "string \<Rightarrow> string" where
  "flatten_number number = filter (\<lambda>c. c = CHR ''+'' \<or> is_digit c) number"

text \<open>The destination is a zeroed buffer of \<open>n\<close> bytes; the result is the text it holds.\<close>

definition replace_plus_with_icp :: "string \<Rightarrow> nat \<Rightarrow> string \<Rightarrow> string option" where
  "replace_plus_with_icp src n icp =
     (if starts_with src ''+'' then
        (if length icp < n then Some (icp @ strncpy (n - 1 - length icp) (tl src)) else None)
      else if 0 < n then Some (strncpy (n - 1) src) else None)"

definition replace_icp_with_plus :: "string \<Rightarrow> nat \<Rightarrow> string \<Rightarrow> string option" where
  "replace_icp_with_plus src n icp =
     (if starts_with src icp then
        (if 2 \<le> n then Some (CHR ''+'' # strncpy (n - 2) (drop (length icp) src)) else None)
      else if 1 \<le> n \<and> length icp \<le> length src then Some (strncpy (n - 1) (drop (length icp) src)) else None)"

text \<open>A national number: the prefix (\<open>+\<close> or the international call prefix), the country calling
  code when it fits, and at most \<open>nnl\<close> digits of the number, counted from its end.\<close>

definition national_number :: "bool_t \<Rightarrow> dial_plan \<Rightarrow> string \<Rightarrow> nat \<Rightarrow> string option" where
  "national_number escape_plus dialplan flatten n = (let
     skip = length flatten - dp_nnl dialplan;
     result = (if truth escape_plus then dp_icp dialplan else ''+'')
   in if n \<le> length result then None
      else (let result = (if n - length result > length (dp_ccc dialplan) then result @ dp_ccc dialplan else result)
            in Some (result @ strncpy (n - length result - 1) (drop skip flatten))))"

definition normalize_with_plan :: "bool_t \<Rightarrow> dial_plan \<Rightarrow> string \<Rightarrow> nat \<Rightarrow> string option" where
  "normalize_with_plan escape_plus dialplan flatten n =
     (if starts_with flatten ''+'' then
        (if truth escape_plus then replace_plus_with_icp flatten n (dp_icp dialplan)
         else Some (strncpy (n - 1) flatten))
      else if starts_with flatten (dp_icp dialplan) then
        (if truth escape_plus then Some (strncpy (n - 1) flatten)
         else replace_icp_with_plus flatten n (dp_icp dialplan))
      else national_number escape_plus dialplan flatten n)"

definition linphone_proxy_config_normalize_number :: "'a proxy_config option \<Rightarrow> string \<Rightarrow> nat
    \<Rightarrow> (string \<times> bool) option" where
  "linphone_proxy_config_normalize_number inproxy username n = do {
     proxy \<leftarrow> (case inproxy of Some p \<Rightarrow> Some p | None \<Rightarrow> linphone_proxy_config_new);
     if n = 0 then None
     else if linphone_proxy_config_is_phone_number username then (let flatten = flatten_number username in
       case pc_dial_prefix proxy of
         None \<Rightarrow> Some (strncpy (n - 1) flatten, True)
       | Some [] \<Rightarrow> Some (strncpy (n - 1) flatten, True)
       | Some prefix \<Rightarrow> do {
           (_, dialplan) \<leftarrow> lookup_dial_plan_by_ccc prefix;
           r \<leftarrow> normalize_with_plan (pc_dial_escape_plus proxy) dialplan flatten n;
           Some (r, True)})
     else Some (strncpy (n - 1) username, False)}"

end
