(* ===== verification/PhoneProps.thy ===== *)
theory PhoneProps
  imports PhoneNumbers
begin

text \<open>
  Properties of the dial plans and of the normalisation of numbers: what the search of a country
  calling code finds and which countries it misses, that a normalised number fits its buffer and
  is stable, and that the spellings of a number agree.
\<close>

section \<open>The table\<close>

text \<open>The codes as a list, so that facts about the whole table are computed.\<close>

definition codes_after :: "string \<Rightarrow> nat \<Rightarrow> string list \<Rightarrow> string list" where
  "codes_after q i cs = filter (\<lambda>c. take i c = q) cs"

definition dial_codes :: "string list" where
  "dial_codes = map dp_ccc dial_plans"

text \<open>No code but the ones in 1 is reached before its own length.\<close>

definition codes_separate :: "string list \<Rightarrow> bool" where
  "codes_separate cs \<longleftrightarrow> list_all (\<lambda>a. let g = codes_after [a] 1 cs in length g > 1
      \<and> list_all (\<lambda>b. let h = codes_after [a, b] 2 g in length h \<noteq> 1 \<or> length (hd h) \<le> 2) ''0123456789'') ''23456789''"

definition code_ok :: "string \<Rightarrow> bool" where
  "code_ok c \<longleftrightarrow> c \<noteq> [] \<and> length c \<le> 3 \<and> list_all is_digit c
     \<and> hd c \<in> set ''123456789'' \<and> list_all (\<lambda>d. d \<in> set ''0123456789'') c \<and> (hd c = CHR ''1'' \<longrightarrow> c = ''1'')"

lemmas table_defs = dial_plans_def dial_plans_A_K_def dial_plans_K_Z_def plan_def

lemma dial_codes_separate: "codes_separate dial_codes"
  unfolding dial_codes_def table_defs by code_simp

lemma dial_codes_ok: "list_all code_ok dial_codes"
  unfolding dial_codes_def table_defs by code_simp

definition icp_ok :: "string \<Rightarrow> bool" where
  "icp_ok s \<longleftrightarrow> s \<noteq> [] \<and> length s \<le> 5 \<and> list_all is_digit s"

lemma dial_icps_ok: "list_all icp_ok (map dp_icp dial_plans)"
  unfolding table_defs by code_simp

lemma code_of_plan: "p \<in> set dial_plans \<Longrightarrow> code_ok (dp_ccc p)"
  using dial_codes_ok by (simp add: dial_codes_def list_all_iff)

lemma plans_matching_codes: "map dp_ccc (plans_matching s i) = codes_after (take i s) i dial_codes"
  by (simp add: plans_matching_def codes_after_def dial_codes_def strneq_def filter_map o_def)

lemma plans_matching_count: "length (plans_matching s i) = length (codes_after (take i s) i dial_codes)"
  unfolding plans_matching_codes [symmetric] by simp

section \<open>The search by number\<close>

declare e164_loop.simps [simp del]

text \<open>The loop stops at the first length that leaves one plan, if any.\<close>

lemma e164_loop_found:
  "length (e164_loop s i) = 1 \<Longrightarrow> \<exists>j>i. e164_loop s i = plans_matching s j
     \<and> (\<forall>k. i < k \<and> k < j \<longrightarrow> length (plans_matching s k) \<noteq> 1)"
proof (induction s i rule: e164_loop.induct)
  case (1 s i)
  show ?case
  proof (cases "(length (plans_matching s (i + 1)) > 1 \<or> length (plans_matching s (i + 1)) = 0) \<and> i + 1 < 8")
    case True
    then have e: "e164_loop s i = e164_loop s (i + 1)" by (subst e164_loop.simps) (simp add: Let_def)
    from "1.IH" [OF refl refl True] "1.prems" e obtain j where j: "j > i + 1" "e164_loop s (i + 1) = plans_matching s j"
      and k: "\<forall>k. i + 1 < k \<and> k < j \<longrightarrow> length (plans_matching s k) \<noteq> 1" by metis
    have "length (plans_matching s k) \<noteq> 1" if "i < k" "k < j" for k
      using that spec [OF k, of k] True by (cases "k = i + 1") auto
    with j e show ?thesis by (intro exI [of _ j]) auto
  next
    case False
    then have "e164_loop s i = plans_matching s (i + 1)" by (subst e164_loop.simps) (auto simp: Let_def)
    then show ?thesis by (intro exI [of _ "i + 1"]) auto
  qed
qed

lemma e164_loop_reaches:
  "length (plans_matching s L) = 1 \<Longrightarrow> i < L \<Longrightarrow> L \<le> 8 \<Longrightarrow> length (e164_loop s i) = 1"
proof (induction s i rule: e164_loop.induct)
  case (1 s i)
  show ?case
  proof (cases "(length (plans_matching s (i + 1)) > 1 \<or> length (plans_matching s (i + 1)) = 0) \<and> i + 1 < 8")
    case True
    then have e: "e164_loop s i = e164_loop s (i + 1)" by (subst e164_loop.simps) (simp add: Let_def)
    from True "1.prems" have "i + 1 < L" by (cases "L = i + 1") auto
    with "1.IH" [OF refl refl True] "1.prems" e show ?thesis by simp
  next
    case False
    then have e: "e164_loop s i = plans_matching s (i + 1)" by (subst e164_loop.simps) (auto simp: Let_def)
    from False "1.prems" have "length (plans_matching s (i + 1)) = 1"
      by (cases "L = i + 1") (auto simp: less_Suc_eq not_less le_Suc_eq)
    with e show ?thesis by simp
  qed
qed

lemma strneq_mono: "strneq j a b \<Longrightarrow> i \<le> j \<Longrightarrow> strneq i a b"
  unfolding strneq_def by (metis min.absorb1 take_take)

lemma starts_with_take: "length p \<le> j \<Longrightarrow> strneq j p s \<Longrightarrow> starts_with s p"
  unfolding strneq_def starts_with_iff by (metis append_take_drop_id take_all)

lemma codes_after_twice: "codes_after [a, b] 2 (codes_after [a] (Suc 0) cs) = codes_after [a, b] 2 cs"
proof -
  have "take 1 c = [a]" if "take 2 c = [a, b]" for c :: string
    using that by (cases c) (auto simp: numeral_2_eq_2)
  then show ?thesis by (auto simp: codes_after_def intro!: filter_cong)
qed

lemma single_plan_is_prefix:
  assumes "plans_matching s j = [p]" and "0 < j" and "\<And>k. 0 < k \<Longrightarrow> k < j \<Longrightarrow> length (plans_matching s k) \<noteq> 1"
    and "\<not> starts_with s ''1''"
  shows "starts_with s (dp_ccc p)"
proof -
  from assms(1) have "p \<in> set (plans_matching s j)" by simp
  then have p: "p \<in> set dial_plans" "strneq j (dp_ccc p) s" by (simp_all add: plans_matching_def)
  have ok: "code_ok (dp_ccc p)" using p(1) by (rule code_of_plan)
  then obtain a c where ac: "dp_ccc p = a # c" by (cases "dp_ccc p") (simp_all add: code_ok_def)
  from p(2) ac assms(2) obtain t where s: "s = a # t" by (cases s; cases j) (simp_all add: strneq_def)
  with ok ac assms(4) have a: "a \<in> set ''23456789''" by (auto simp: code_ok_def)
  with dial_codes_separate have g: "length (codes_after [a] 1 dial_codes) > 1"
    and h: "\<And>b. b \<in> set ''0123456789'' \<Longrightarrow> length (codes_after [a, b] 2 dial_codes) \<noteq> 1
        \<or> length (hd (codes_after [a, b] 2 dial_codes)) \<le> 2"
    by (simp_all add: codes_separate_def Let_def list_all_iff codes_after_twice del: set_simps)
  have "length (dp_ccc p) \<le> j"
  proof (cases "j \<ge> 3")
    case True
    with ok show ?thesis by (simp add: code_ok_def)
  next
    case False
    have "j \<noteq> 1" using g plans_matching_count [of s 1] assms(1) s by auto
    with False assms(2) have j: "j = 2" by simp
    show ?thesis
    proof (rule ccontr)
      assume "\<not> length (dp_ccc p) \<le> j"
      with j ac obtain b c' where b: "c = b # c'" by (cases c) auto
      with ok ac have bd: "b \<in> set ''0123456789''" by (simp add: code_ok_def del: set_simps)
      have "take 2 s = [a, b]" using p(2) j ac b by (simp add: strneq_def numeral_2_eq_2)
      with plans_matching_codes [of s 2] assms(1) j have "codes_after [a, b] 2 dial_codes = [dp_ccc p]" by simp
      with h [OF bd] \<open>\<not> length (dp_ccc p) \<le> j\<close> j show False by simp
    qed
  qed
  then show ?thesis using p(2) by (rule starts_with_take)
qed

text \<open>A country calling code found for a number (a character followed by digits) is the code of
  a country of the table and the number starts with it; the search never answers with the code
  of another number.\<close>

theorem e164_lookup_sound:
  assumes "linphone_dial_plan_lookup_ccc_from_e164 (c # s) = Some v" and "v \<noteq> -1"
  shows "\<exists>p \<in> set dial_plans. atoi (dp_ccc p) = Some v \<and> starts_with s (dp_ccc p)"
proof (cases "starts_with s ''1''")
  case True
  have "plan ''Canada'' ''CA'' ''1'' 10 ''011'' \<in> set dial_plans"
    by (simp add: dial_plans_def dial_plans_A_K_def plan_def)
  moreover have "atoi ''1'' = Some 1" by code_simp
  ultimately show ?thesis using True assms(1)
    by (intro bexI [of _ "plan ''Canada'' ''CA'' ''1'' 10 ''011''"])
      (simp_all add: linphone_dial_plan_lookup_ccc_from_e164_def plan_def)
next
  case False
  with assms have one: "length (e164_loop s 0) = 1" and v: "atoi (dp_ccc (last (e164_loop s 0))) = Some v"
    by (auto simp: linphone_dial_plan_lookup_ccc_from_e164_def Let_def split: if_splits)
  from e164_loop_found [OF one] obtain j where j: "j > 0" "e164_loop s 0 = plans_matching s j"
    "\<And>k. 0 < k \<Longrightarrow> k < j \<Longrightarrow> length (plans_matching s k) \<noteq> 1" by blast
  from one j(2) obtain p where p: "plans_matching s j = [p]" by (auto simp: length_Suc_conv)
  have "p \<in> set dial_plans"
  proof -
    from p have "p \<in> set (plans_matching s j)" by simp
    then show ?thesis by (simp add: plans_matching_def)
  qed
  with v j(2) p single_plan_is_prefix [OF p j(1,3) False] show ?thesis by auto
qed

text \<open>The code of a country is found for every number of the country when the code is not
  the beginning of the code of another entry of the table.\<close>

theorem e164_lookup_finds_unshared_codes:
  assumes "plans_matching (dp_ccc p) (length (dp_ccc p)) = [p]"
  shows "linphone_dial_plan_lookup_ccc_from_e164 (c # dp_ccc p @ rest) = atoi (dp_ccc p)"
proof -
  let ?s = "dp_ccc p @ rest" and ?L = "length (dp_ccc p)"
  from assms have "p \<in> set (plans_matching (dp_ccc p) ?L)" by simp
  then have "p \<in> set dial_plans" by (simp add: plans_matching_def)
  then have ok: "code_ok (dp_ccc p)" by (rule code_of_plan)
  have L: "plans_matching ?s ?L = [p]" using assms by (simp add: plans_matching_def strneq_def)
  show ?thesis
  proof (cases "starts_with ?s ''1''")
    case True
    with ok have "dp_ccc p = ''1''" by (cases "dp_ccc p") (auto simp: code_ok_def)
    moreover have "atoi ''1'' = Some 1" by code_simp
    ultimately show ?thesis by (simp add: linphone_dial_plan_lookup_ccc_from_e164_def)
  next
    case False
    have one: "length (e164_loop ?s 0) = 1"
      using e164_loop_reaches [of ?s ?L 0] L ok by (simp add: code_ok_def)
    from e164_loop_found [OF one] obtain j where j: "e164_loop ?s 0 = plans_matching ?s j" "j > 0"
      "\<And>k. 0 < k \<Longrightarrow> k < j \<Longrightarrow> length (plans_matching ?s k) \<noteq> 1" by blast
    have "j \<le> ?L" using j(3) [of ?L] L ok by (cases "?L < j") (auto simp: code_ok_def)
    then have "p \<in> set (plans_matching ?s j)"
      using \<open>p \<in> set dial_plans\<close> by (simp add: plans_matching_def strneq_def)
    with one j(1) have "plans_matching ?s j = [p]" by (auto simp: length_Suc_conv)
    with one j(1) False show ?thesis
      by (simp add: linphone_dial_plan_lookup_ccc_from_e164_def)
  qed
qed

text \<open>A number whose first characters leave several codes and whose next one leaves none.\<close>

lemma no_single_plan:
  assumes "\<And>k. 0 < k \<Longrightarrow> k \<le> length q \<Longrightarrow> length (codes_after (take k q) k dial_codes) \<noteq> 1"
    and "\<And>c. c \<in> set (codes_after q (length q) dial_codes) \<Longrightarrow> c = q \<or> c ! length q \<noteq> d"
    and "\<not> starts_with q ''1''" and "q \<noteq> []"
  shows "linphone_dial_plan_lookup_ccc_from_e164 (p # q @ d # rest) = Some (-1)"
proof -
  let ?s = "q @ d # rest"
  have none: "length (plans_matching ?s k) \<noteq> 1" if "0 < k" for k
  proof (cases "k \<le> length q")
    case True
    then show ?thesis using assms(1) [OF that True] plans_matching_count [of ?s k] by simp
  next
    case False
    have "codes_after (take k ?s) k dial_codes = []"
    proof (rule ccontr)
      assume "codes_after (take k ?s) k dial_codes \<noteq> []"
      then obtain c where "c \<in> set (codes_after (take k ?s) k dial_codes)"
        by (meson list.set_sel(1))
      then have c: "c \<in> set dial_codes" "take k c = take k ?s" by (simp_all add: codes_after_def)
      define n where "n = k - Suc (length q)"
      with False have k: "k = length q + Suc n" by simp
      have tq: "take (length q) c = q" using arg_cong [OF c(2), of "take (length q)"] k by simp
      with c(1) have "c = q \<or> c ! length q \<noteq> d" by (intro assms(2)) (simp add: codes_after_def)
      moreover have t: "take k c = q @ d # take n rest" using c(2) k by simp
      moreover have "c ! length q = take k c ! length q" using k by simp
      moreover have "length q < length c" using arg_cong [OF t, of length] by simp
      ultimately show False by auto
    qed
    then show ?thesis using plans_matching_count [of ?s k] by simp
  qed
  have "length (e164_loop ?s 0) \<noteq> 1" using e164_loop_found [of ?s 0] none by fastforce
  moreover have "\<not> starts_with ?s ''1''" using assms(3,4) by (cases q) auto
  ultimately show ?thesis by (simp add: linphone_dial_plan_lookup_ccc_from_e164_def)
qed

lemma shared_codes:
  "codes_after ''7'' 1 dial_codes = [''7'', ''7'']"
  "length (codes_after ''4'' 1 dial_codes) \<noteq> 1" "codes_after ''43'' 2 dial_codes = [''43'', ''43'']"
  "length (codes_after ''6'' 1 dial_codes) \<noteq> 1" "codes_after ''66'' 2 dial_codes = [''664'', ''66'']"
  "length (codes_after ''2'' 1 dial_codes) \<noteq> 1" "length (codes_after ''26'' 2 dial_codes) \<noteq> 1"
  "codes_after ''262'' 3 dial_codes = [''262'', ''262'']"
  unfolding dial_codes_def table_defs by code_simp+

lemmas shared_codes_Suc = shared_codes [unfolded numeral_2_eq_2 numeral_3_eq_3 One_nat_def]

text \<open>The numbers of a country whose code another entry of the table has too, or begins with,
  are unknown: no code is found for Russia and Kazakhstan (7), Austria (43, listed for Nepal too),
  Mayotte and Reunion (262), and for Thailand (66, the beginning of the 664 of Montserrat).\<close>

theorem e164_lookup_misses_shared_codes:
  assumes "d \<noteq> CHR ''4''"
  shows "linphone_dial_plan_lookup_ccc_from_e164 (''+7'' @ c # rest) = Some (-1)
    \<and> linphone_dial_plan_lookup_ccc_from_e164 (''+43'' @ c # rest) = Some (-1)
    \<and> linphone_dial_plan_lookup_ccc_from_e164 (''+262'' @ c # rest) = Some (-1)
    \<and> linphone_dial_plan_lookup_ccc_from_e164 (''+66'' @ d # rest) = Some (-1)"
proof -
  have k: "k = 1 \<or> k = 2 \<or> k = 3" if "0 < k" "k \<le> 3" for k :: nat using that by auto
  have "linphone_dial_plan_lookup_ccc_from_e164 (CHR ''+'' # ''7'' @ c # rest) = Some (-1)"
    by (rule no_single_plan) (use k in \<open>auto simp: shared_codes_Suc numeral_2_eq_2 numeral_3_eq_3 le_Suc_eq\<close>)
  moreover have "linphone_dial_plan_lookup_ccc_from_e164 (CHR ''+'' # ''43'' @ c # rest) = Some (-1)"
    by (rule no_single_plan) (use k in \<open>auto simp: shared_codes_Suc numeral_2_eq_2 numeral_3_eq_3 le_Suc_eq\<close>)
  moreover have "linphone_dial_plan_lookup_ccc_from_e164 (CHR ''+'' # ''262'' @ c # rest) = Some (-1)"
    by (rule no_single_plan) (use k in \<open>auto simp: shared_codes_Suc numeral_2_eq_2 numeral_3_eq_3 le_Suc_eq\<close>)
  moreover have "linphone_dial_plan_lookup_ccc_from_e164 (CHR ''+'' # ''66'' @ d # rest) = Some (-1)"
    by (rule no_single_plan) (use k assms in \<open>auto simp: shared_codes_Suc numeral_2_eq_2 numeral_3_eq_3 le_Suc_eq\<close>)
  ultimately show ?thesis by simp
qed

section \<open>Normalisation\<close>

definition is_plus_digit :: "char \<Rightarrow> bool" where
  "is_plus_digit c \<longleftrightarrow> c = CHR ''+'' \<or> is_digit c"

lemma digit_not_plus: "is_digit c \<Longrightarrow> c \<noteq> CHR ''+''"
  by (auto simp: is_digit_def)

lemma flatten_number_id: "list_all is_plus_digit s \<Longrightarrow> flatten_number s = s"
  by (simp add: flatten_number_def is_plus_digit_def list_all_iff)

lemma flatten_number_chars: "list_all is_plus_digit (flatten_number s)"
  by (simp add: flatten_number_def is_plus_digit_def list_all_iff)

lemma phone_number_if_flat: "list_all is_plus_digit s \<Longrightarrow> linphone_proxy_config_is_phone_number s"
  by (auto simp: linphone_proxy_config_is_phone_number_def is_phone_char_def is_plus_digit_def list_all_iff)

lemma digits_flat: "list_all is_digit s \<Longrightarrow> list_all is_plus_digit s"
  by (auto simp: is_plus_digit_def list_all_iff)

lemma flat_take: "list_all P s \<Longrightarrow> list_all P (take n s)"
  by (auto simp: list_all_iff dest: in_set_takeD)

lemma flat_drop: "list_all P s \<Longrightarrow> list_all P (drop n s)"
  by (auto simp: list_all_iff dest: in_set_dropD)

lemma lookup_dial_plan_SomeD:
  assumes "lookup_dial_plan_by_ccc ccc = Some (b, p)"
  shows "dp_ccc p = ccc" and "icp_ok (dp_icp p)"
proof -
  have generic: "icp_ok ''00''" by code_simp
  have icp: "icp_ok (dp_icp p)" if "p \<in> set dial_plans" for p
    using dial_icps_ok that by (simp add: list_all_iff)
  show "dp_ccc p = ccc" using assms
    by (auto simp: lookup_dial_plan_by_ccc_def find_Some_iff split: option.splits if_splits)
  show "icp_ok (dp_icp p)" using assms generic icp
    by (auto simp: lookup_dial_plan_by_ccc_def find_Some_iff most_common_dialplan_def plan_def
        split: option.splits if_splits)
qed

lemma lookup_dial_plan_defined: "length ccc < 8 \<Longrightarrow> \<exists>b p. lookup_dial_plan_by_ccc ccc = Some (b, p)"
  by (cases "find (\<lambda>p. ccc = dp_ccc p) dial_plans") (auto simp: lookup_dial_plan_by_ccc_def)

text \<open>The result of a normalisation with a plan: defined, within the buffer, digits and plus signs only.\<close>

lemma national_number_ok:
  assumes "icp_ok (dp_icp p)" and "5 < n"
  shows "\<exists>r. national_number e p f n = Some r \<and> length r < n
    \<and> (list_all is_digit (dp_ccc p) \<longrightarrow> list_all is_plus_digit f \<longrightarrow> list_all is_plus_digit r)"
proof -
  define pre where "pre = (if truth e then dp_icp p else ''+'')"
  define res where "res = (if n - length pre > length (dp_ccc p) then pre @ dp_ccc p else pre)"
  have pre: "length pre < n" "list_all is_plus_digit pre"
    using assms digits_flat [of "dp_icp p"] by (auto simp: pre_def icp_ok_def is_plus_digit_def)
  have res: "length res < n" "list_all is_digit (dp_ccc p) \<Longrightarrow> list_all is_plus_digit res"
    using pre digits_flat by (auto simp: res_def)
  have "national_number e p f n = Some (res @ take (n - length res - 1) (drop (length f - dp_nnl p) f))"
    using pre by (simp add: national_number_def Let_def pre_def res_def strncpy_def)
  with res show ?thesis by (auto simp: flat_take flat_drop)
qed

lemma normalize_with_plan_ok:
  assumes "icp_ok (dp_icp p)" and "5 < n"
  shows "\<exists>r. normalize_with_plan e p f n = Some r \<and> length r < n
    \<and> (list_all is_digit (dp_ccc p) \<longrightarrow> list_all is_plus_digit f \<longrightarrow> list_all is_plus_digit r)"
proof -
  have icp: "list_all is_plus_digit (dp_icp p)" "length (dp_icp p) < n"
    using assms digits_flat by (auto simp: icp_ok_def)
  have tl: "list_all P f \<Longrightarrow> list_all P (tl f)" for P by (cases f) auto
  show ?thesis
    using assms(2) icp national_number_ok [OF assms]
    by (auto simp: normalize_with_plan_def replace_plus_with_icp_def replace_icp_with_plus_def strncpy_def
        flat_take flat_drop tl is_plus_digit_def [of "CHR ''+''"])
qed

text \<open>The prefix an account really has: \<open>NULL\<close> and the empty string are none.\<close>

definition dial_prefix_of :: "'a proxy_config \<Rightarrow> string option" where
  "dial_prefix_of proxy = (case pc_dial_prefix proxy of Some (c # p) \<Rightarrow> Some (c # p) | _ \<Rightarrow> None)"

lemma normalize_number_cases:
  assumes "0 < n"
  shows "linphone_proxy_config_normalize_number (Some proxy) u n =
    (if linphone_proxy_config_is_phone_number u then
       (case dial_prefix_of proxy of
          None \<Rightarrow> Some (take (n - 1) (flatten_number u), True)
        | Some prefix \<Rightarrow> (case lookup_dial_plan_by_ccc prefix of None \<Rightarrow> None
           | Some (b, p) \<Rightarrow> map_option (\<lambda>r. (r, True)) (normalize_with_plan (pc_dial_escape_plus proxy) p (flatten_number u) n)))
     else Some (take (n - 1) u, False))"
  using assms by (auto simp: linphone_proxy_config_normalize_number_def dial_prefix_of_def Let_def strncpy_def
      split: option.split list.split bind_split)

text \<open>Normalising a number never runs out of its buffer when the buffer has more than five
  bytes and the dial prefix of the account fits a country code: there is a result, shorter than
  the buffer, and a name that is not a number is copied up to the size of the buffer.\<close>

theorem normalized_number_fits:
  assumes "5 < n" and "length (case pc_dial_prefix proxy of Some p \<Rightarrow> p | None \<Rightarrow> []) < 8"
  shows "\<exists>r ret. linphone_proxy_config_normalize_number (Some proxy) u n = Some (r, ret) \<and> length r < n
    \<and> ret = linphone_proxy_config_is_phone_number u \<and> (ret \<or> r = take (n - 1) u)"
proof (cases "linphone_proxy_config_is_phone_number u \<and> dial_prefix_of proxy \<noteq> None")
  case True
  then obtain prefix where prefix: "dial_prefix_of proxy = Some prefix" by auto
  then have "length prefix < 8" using assms(2) by (auto simp: dial_prefix_of_def split: option.splits list.splits)
  then obtain b p where p: "lookup_dial_plan_by_ccc prefix = Some (b, p)" using lookup_dial_plan_defined by blast
  from normalize_with_plan_ok [OF lookup_dial_plan_SomeD(2) [OF p] assms(1)] obtain r where
    "normalize_with_plan (pc_dial_escape_plus proxy) p (flatten_number u) n = Some r" "length r < n" by blast
  with True prefix p assms(1) show ?thesis by (intro exI [of _ r] exI [of _ True]) (simp add: normalize_number_cases)
next
  case False
  with assms(1) show ?thesis by (auto simp: normalize_number_cases)
qed

lemma normalize_with_plan_again:
  assumes "icp_ok (dp_icp p)" and "5 < n" and "normalize_with_plan e p f n = Some r"
  shows "normalize_with_plan e p r n = Some r"
proof -
  obtain i j where icp: "dp_icp p = i # j" "i \<noteq> CHR ''+''" "length (dp_icp p) < n"
    using assms(1,2) digit_not_plus by (cases "dp_icp p") (auto simp: icp_ok_def)
  have r: "length r < n" using normalize_with_plan_ok [OF assms(1,2), of e f] assms(3) by auto
  have pre: "starts_with r (if truth e then dp_icp p else ''+'')"
  proof (cases "starts_with f ''+''")
    case True
    then obtain t where f: "f = CHR ''+'' # t" by (cases f) auto
    then show ?thesis using assms(2,3) icp
      by (cases "n - 1") (auto simp: normalize_with_plan_def replace_plus_with_icp_def strncpy_def)
  next
    case False
    show ?thesis
    proof (cases "starts_with f (dp_icp p)")
      case True
      then obtain t where "f = dp_icp p @ t" by (auto simp: starts_with_iff)
      moreover have "take (n - 1) (dp_icp p @ t) = dp_icp p @ take (n - 1 - length (dp_icp p)) t"
        using icp(3) by simp
      ultimately show ?thesis using assms(2,3) False True
        by (auto simp: normalize_with_plan_def replace_icp_with_plus_def strncpy_def split: if_splits)
    next
      case False
      then show ?thesis using assms(2,3) icp \<open>\<not> starts_with f ''+''\<close>
        by (auto simp: normalize_with_plan_def national_number_def Let_def split: if_splits)
    qed
  qed
  then show ?thesis
  proof (cases "truth e")
    case True
    with pre icp obtain t where "r = i # j @ t" by (auto simp: starts_with_iff)
    with True icp r show ?thesis by (simp add: normalize_with_plan_def strncpy_def)
  next
    case False
    with pre r show ?thesis by (simp add: normalize_with_plan_def strncpy_def)
  qed
qed

text \<open>A normalised number is a fixed point: normalising it again with the same account and
  buffer gives it back.\<close>

theorem normalize_number_idempotent:
  assumes "linphone_proxy_config_normalize_number (Some proxy) u n = Some (r, True)" and "5 < n"
    and "list_all is_digit (case pc_dial_prefix proxy of Some p \<Rightarrow> p | None \<Rightarrow> [])"
  shows "linphone_proxy_config_normalize_number (Some proxy) r n = Some (r, True)"
proof (cases "dial_prefix_of proxy")
  case None
  with assms(1,2) have "r = take (n - 1) (flatten_number u)"
    by (auto simp: normalize_number_cases split: if_splits)
  then have "list_all is_plus_digit r" "length r < n" using assms(2) by (auto simp: flatten_number_chars flat_take)
  with None assms(2) show ?thesis
    by (simp add: normalize_number_cases phone_number_if_flat flatten_number_id)
next
  case (Some prefix)
  then have digits: "list_all is_digit prefix"
    using assms(3) by (auto simp: dial_prefix_of_def split: option.splits list.splits)
  from assms(1,2) Some obtain b p where p: "lookup_dial_plan_by_ccc prefix = Some (b, p)"
    and w: "normalize_with_plan (pc_dial_escape_plus proxy) p (flatten_number u) n = Some r"
    by (auto simp: normalize_number_cases split: if_splits option.splits)
  note plan = lookup_dial_plan_SomeD [OF p]
  have "list_all is_plus_digit r"
    using normalize_with_plan_ok [OF plan(2) assms(2), of "pc_dial_escape_plus proxy" "flatten_number u"] w digits plan(1)
    by (simp add: flatten_number_chars)
  with Some p assms(2) normalize_with_plan_again [OF plan(2) assms(2) w] show ?thesis
    by (simp add: normalize_number_cases phone_number_if_flat flatten_number_id)
qed

text \<open>C38. The spellings of a number agree: a national number of at most the length of the plan,
  the number after \<open>+\<close> and the country code, and the number after the international call prefix
  and the country code are normalised to the same text, whatever separators they contain.\<close>

theorem spellings_agree:
  assumes "dial_prefix_of proxy = Some prefix" and "lookup_dial_plan_by_ccc prefix = Some (b, p)"
    and "flatten_number national = f" and "flatten_number international = ''+'' @ prefix @ f"
    and "flatten_number dialled = dp_icp p @ prefix @ f"
    and "linphone_proxy_config_is_phone_number national \<and> linphone_proxy_config_is_phone_number international
      \<and> linphone_proxy_config_is_phone_number dialled"
    and "list_all is_digit f" and "\<not> starts_with f (dp_icp p)" and "length f \<le> dp_nnl p"
    and "length (dp_icp p) + length prefix + 1 < n"
  shows "linphone_proxy_config_normalize_number (Some proxy) national n =
      Some (take (n - 1) ((if truth (pc_dial_escape_plus proxy) then dp_icp p else ''+'') @ prefix @ f), True)
    \<and> linphone_proxy_config_normalize_number (Some proxy) international n =
      linphone_proxy_config_normalize_number (Some proxy) national n
    \<and> linphone_proxy_config_normalize_number (Some proxy) dialled n =
      linphone_proxy_config_normalize_number (Some proxy) national n"
proof -
  note plan = lookup_dial_plan_SomeD [OF assms(2)]
  obtain i j where icp: "dp_icp p = i # j" "i \<noteq> CHR ''+''"
    using plan(2) digit_not_plus by (cases "dp_icp p") (auto simp: icp_ok_def)
  have f: "\<not> starts_with f ''+''" using assms(7) digit_not_plus by (cases f) auto
  let ?e = "pc_dial_escape_plus proxy"
  let ?r = "take (n - 1) ((if truth ?e then dp_icp p else ''+'') @ prefix @ f)"
  have "normalize_with_plan ?e p f n = Some ?r"
    using assms(8-10) f plan(1)
    by (auto simp: normalize_with_plan_def national_number_def Let_def strncpy_def icp take_Cons')
  moreover have "normalize_with_plan ?e p (''+'' @ prefix @ f) n = Some ?r"
    using assms(10) by (auto simp: normalize_with_plan_def replace_plus_with_icp_def strncpy_def take_Cons')
  moreover have "normalize_with_plan ?e p (dp_icp p @ prefix @ f) n = Some ?r"
    using assms(10) icp by (auto simp: normalize_with_plan_def replace_icp_with_plus_def strncpy_def take_Cons' Suc_diff_Suc)
  ultimately show ?thesis
    using assms(1-6,10) by (simp add: normalize_number_cases)
qed

section \<open>Instances\<close>

definition ex_french :: "string proxy_config" where
  "ex_french = proxy_zero\<lparr>pc_dial_prefix := Some ''33''\<rparr>"

definition france :: dial_plan where
  "france = plan ''France'' ''FR'' ''33'' 9 ''00''"

lemma france_plans: "plans_matching ''33'' (Suc (Suc 0)) = [france]" "lookup_dial_plan_by_ccc ''33'' = Some (True, france)"
  unfolding plans_matching_def lookup_dial_plan_by_ccc_def table_defs france_def by code_simp+

lemma france_fields: "dp_ccc france = ''33''" "dp_icp france = ''00''" "dp_nnl france = 9"
  by (simp_all add: france_def plan_def)

lemma french_dial_prefix: "dial_prefix_of ex_french = Some ''33''" "pc_dial_escape_plus ex_french = 0"
    "pc_dial_prefix ex_french = Some ''33''"
  by (simp_all add: ex_french_def dial_prefix_of_def proxy_zero_def)

lemma e164_lookup_finds_unshared_codes_witness:
  "linphone_dial_plan_lookup_ccc_from_e164 (CHR ''+'' # dp_ccc france @ ''952636505'') = atoi (dp_ccc france)"
  by (rule e164_lookup_finds_unshared_codes) (simp add: france_fields france_plans)

lemma german_number: "linphone_dial_plan_lookup_ccc_from_e164 (CHR ''+'' # ''491'') = Some 49"
  unfolding linphone_dial_plan_lookup_ccc_from_e164_def plans_matching_def table_defs by code_simp

lemma e164_lookup_sound_witness: "\<exists>p \<in> set dial_plans. atoi (dp_ccc p) = Some 49 \<and> starts_with ''491'' (dp_ccc p)"
  by (rule e164_lookup_sound [OF german_number]) simp

lemma e164_lookup_misses_shared_codes_witness:
  "linphone_dial_plan_lookup_ccc_from_e164 (''+7'' @ CHR ''9'' # ''0'') = Some (-1)
    \<and> linphone_dial_plan_lookup_ccc_from_e164 (''+43'' @ CHR ''9'' # ''0'') = Some (-1)
    \<and> linphone_dial_plan_lookup_ccc_from_e164 (''+262'' @ CHR ''9'' # ''0'') = Some (-1)
    \<and> linphone_dial_plan_lookup_ccc_from_e164 (''+66'' @ CHR ''2'' # ''0'') = Some (-1)"
  by (rule e164_lookup_misses_shared_codes) simp

lemma normalized_number_fits_witness:
  "\<exists>r ret. linphone_proxy_config_normalize_number (Some ex_french) ''01 23'' 16 = Some (r, ret) \<and> length r < 16
    \<and> ret = linphone_proxy_config_is_phone_number ''01 23'' \<and> (ret \<or> r = take (16 - 1) ''01 23'')"
  by (rule normalized_number_fits) (simp_all add: french_dial_prefix)

lemma french_number:
  "linphone_proxy_config_normalize_number (Some ex_french) ''0952 636 505'' 32 = Some (''+33952636505'', True)"
proof -
  have "linphone_proxy_config_is_phone_number ''0952 636 505''" "flatten_number ''0952 636 505'' = ''0952636505''"
    by code_simp+
  moreover have "normalize_with_plan 0 france ''0952636505'' 32 = Some ''+33952636505''"
    unfolding france_def plan_def by code_simp
  ultimately show ?thesis by (simp add: normalize_number_cases french_dial_prefix france_plans)
qed

lemma normalize_number_idempotent_witness:
  "linphone_proxy_config_normalize_number (Some ex_french) ''+33952636505'' 32 = Some (''+33952636505'', True)"
proof -
  have "list_all is_digit ''33''" by code_simp
  then show ?thesis by (intro normalize_number_idempotent [OF french_number]) (simp_all add: french_dial_prefix)
qed

lemma spellings_agree_witness:
  "linphone_proxy_config_normalize_number (Some ex_french) ''952 636 505'' 32 =
      Some (take (32 - 1) ((if truth (pc_dial_escape_plus ex_french) then dp_icp france else ''+'') @ ''33'' @ ''952636505''), True)
    \<and> linphone_proxy_config_normalize_number (Some ex_french) ''+33-952636505'' 32 =
      linphone_proxy_config_normalize_number (Some ex_french) ''952 636 505'' 32
    \<and> linphone_proxy_config_normalize_number (Some ex_french) ''00 33 952636505'' 32 =
      linphone_proxy_config_normalize_number (Some ex_french) ''952 636 505'' 32"
proof (rule spellings_agree [OF french_dial_prefix(1) france_plans(2)])
  show "flatten_number ''952 636 505'' = ''952636505''" by code_simp
  show "flatten_number ''+33-952636505'' = ''+'' @ ''33'' @ ''952636505''" by code_simp
  show "flatten_number ''00 33 952636505'' = dp_icp france @ ''33'' @ ''952636505''" unfolding france_fields by code_simp
  show "linphone_proxy_config_is_phone_number ''952 636 505'' \<and> linphone_proxy_config_is_phone_number ''+33-952636505''
      \<and> linphone_proxy_config_is_phone_number ''00 33 952636505''"
    by code_simp
  show "list_all is_digit ''952636505''" by code_simp
  show "\<not> starts_with ''952636505'' (dp_icp france)" by (simp add: france_fields)
qed (simp_all add: france_fields)

end
