(* ===== verification/Authentication.thy ===== *)
theory Authentication
  imports LpAssign ProxyRegister
begin

text \<open>
  Credentials (\<open>coreapi/authentication.c\<close>): the list of authentication informations of the core,
  the search among them, their sections of the configuration store, and the restart of the
  operations that wait for credentials.  The request of the signalling layer is
  \<open>auth_requested\<close> of \<open>coreapi/callbacks.c\<close>.

  An element of the C list is a position of the HOL list.  \<^const>\<open>None\<close> as the outer result is a
  read of uninitialised memory in \<open>realm_match\<close> or an integer of the store out of range.  The
  digest is belle-sip's (\<open>ae_ha1\<close>).
\<close>

record auth_info =
  ai_username :: "string option"
  ai_realm :: "string option"
  ai_userid :: "string option"
  ai_passwd :: "string option"
  ai_ha1 :: "string option"
  ai_domain :: "string option"

section \<open>One authentication information\<close>

text \<open>The copy of a string that is neither \<open>NULL\<close> nor empty.\<close>

definition dup_text :: "string option \<Rightarrow> string option" where
  "dup_text s = (case s of Some (c # t) \<Rightarrow> Some (c # t) | _ \<Rightarrow> None)"

definition linphone_auth_info_new :: "string option \<Rightarrow> string option \<Rightarrow> string option \<Rightarrow> string option
    \<Rightarrow> string option \<Rightarrow> string option \<Rightarrow> auth_info" where
  "linphone_auth_info_new username userid passwd ha1 realm domain =
     \<lparr>ai_username = dup_text username, ai_realm = dup_text realm, ai_userid = dup_text userid,
      ai_passwd = dup_text passwd, ai_ha1 = dup_text ha1, ai_domain = dup_text domain\<rparr>"

definition linphone_auth_info_clone :: "auth_info \<Rightarrow> auth_info" where
  "linphone_auth_info_clone ai =
     \<lparr>ai_username = ai_username ai, ai_realm = ai_realm ai, ai_userid = ai_userid ai,
      ai_passwd = ai_passwd ai, ai_ha1 = ai_ha1 ai, ai_domain = ai_domain ai\<rparr>"

definition linphone_auth_info_set_passwd :: "auth_info \<Rightarrow> string option \<Rightarrow> auth_info" where
  "linphone_auth_info_set_passwd info passwd = info\<lparr>ai_passwd := dup_text passwd\<rparr>"

definition linphone_auth_info_set_username :: "auth_info \<Rightarrow> string option \<Rightarrow> auth_info" where
  "linphone_auth_info_set_username info username = info\<lparr>ai_username := dup_text username\<rparr>"

definition linphone_auth_info_set_userid :: "auth_info \<Rightarrow> string option \<Rightarrow> auth_info" where
  "linphone_auth_info_set_userid info userid = info\<lparr>ai_userid := dup_text userid\<rparr>"

definition linphone_auth_info_set_realm :: "auth_info \<Rightarrow> string option \<Rightarrow> auth_info" where
  "linphone_auth_info_set_realm info realm = info\<lparr>ai_realm := dup_text realm\<rparr>"

definition linphone_auth_info_set_domain :: "auth_info \<Rightarrow> string option \<Rightarrow> auth_info" where
  "linphone_auth_info_set_domain info domain = info\<lparr>ai_domain := dup_text domain\<rparr>"

definition linphone_auth_info_set_ha1 :: "auth_info \<Rightarrow> string option \<Rightarrow> auth_info" where
  "linphone_auth_info_set_ha1 info ha1 = info\<lparr>ai_ha1 := dup_text ha1\<rparr>"

section \<open>Sections of the store\<close>

record auth_env =
  ae_ready :: bool
  ae_save_auth_info :: bool
  ae_ha1 :: "string \<Rightarrow> string \<Rightarrow> string \<Rightarrow> string"

definition auth_section :: "nat \<Rightarrow> string" where
  "auth_section pos = ''auth_info_'' @ show_int (int pos)"

text \<open>The digest replaces the password before it is stored.\<close>

definition with_ha1 :: "auth_env \<Rightarrow> lp_config \<Rightarrow> auth_info \<Rightarrow> auth_info option" where
  "with_ha1 env config obj =
     (if ai_ha1 obj = None \<and> ai_realm obj \<noteq> None \<and> ai_passwd obj \<noteq> None
         \<and> (ai_username obj \<noteq> None \<or> ai_userid obj \<noteq> None) then do {
        store \<leftarrow> lp_config_get_int config ''sip'' ''store_ha1_passwd'' 1;
        Some (if store = 1 then
          obj\<lparr>ai_ha1 := Some (ae_ha1 env
            (case ai_userid obj of Some u \<Rightarrow> u | None \<Rightarrow> the (ai_username obj)) (the (ai_realm obj)) (the (ai_passwd obj)))\<rparr>
          else obj)}
      else Some obj)"

text \<open>Writing fills in the digest of the object it writes: the result is the store and the object.\<close>

definition linphone_auth_info_write_config :: "auth_env \<Rightarrow> lp_config \<Rightarrow> auth_info option \<Rightarrow> nat
    \<Rightarrow> (lp_config \<times> auth_info option) option" where
  "linphone_auth_info_write_config env config info pos = (let
     key = auth_section pos;
     config = lp_config_clean_section config key
   in case info of None \<Rightarrow> Some (config, None)
    | Some obj \<Rightarrow> do {
       store \<leftarrow> lp_config_get_int config ''sip'' ''store_auth_info'' 1;
       if store = 0 then Some (config, Some obj)
       else do {
         obj \<leftarrow> with_ha1 env config obj;
         Some (fold (\<lambda>f. f)
           [set_if key ''username'' (ai_username obj), set_if key ''userid'' (ai_userid obj),
            set_if key ''ha1'' (ai_ha1 obj),
            set_if key ''passwd'' (if ai_ha1 obj = None then ai_passwd obj else None),
            set_if key ''realm'' (ai_realm obj), set_if key ''domain'' (ai_domain obj)] config, Some obj)}})"

definition linphone_auth_info_new_from_config_file :: "lp_config \<Rightarrow> nat \<Rightarrow> auth_info option" where
  "linphone_auth_info_new_from_config_file config pos = (let key = auth_section pos in
     if \<not> lp_config_has_section config key then None
     else Some (linphone_auth_info_new
       (lp_config_get_string config key ''username'' None) (lp_config_get_string config key ''userid'' None)
       (lp_config_get_string config key ''passwd'' None) (lp_config_get_string config key ''ha1'' None)
       (lp_config_get_string config key ''realm'' None) (lp_config_get_string config key ''domain'' None)))"

section \<open>Search\<close>

text \<open>The text between the quotes of a realm, from its copy into a buffer of 128 bytes whose last
  byte is not initialised.\<close>

definition remove_quotes :: "string \<Rightarrow> string option" where
  "remove_quotes realm = (let
     input = strncpy 127 realm;
     input = (if starts_with input [CHR 0x22] then tl input else input)
   in case strchr input (CHR 0x22) of Some (p, _) \<Rightarrow> Some p
    | None \<Rightarrow> if length realm < 127 then Some input else None)"

fun realm_match :: "string option \<Rightarrow> string option \<Rightarrow> bool option" where
  "realm_match None None = Some True"
| "realm_match (Some realm1) (Some realm2) =
     (if realm1 = realm2 then Some True
      else do { p1 \<leftarrow> remove_quotes realm1; p2 \<leftarrow> remove_quotes realm2; Some (p1 = p2) })"
| "realm_match _ _ = Some False"

definition realm_of :: "string option \<Rightarrow> auth_info \<Rightarrow> bool option" where
  "realm_of realm pinfo = (if ai_realm pinfo = None then Some False else realm_match realm (ai_realm pinfo))"

text \<open>The loop over the list from position \<open>i\<close>; \<open>ret\<close> is the only match of a realm so far.\<close>

fun find_auth_from :: "auth_info list \<Rightarrow> nat \<Rightarrow> nat option \<Rightarrow> string option \<Rightarrow> string option \<Rightarrow> string option
    \<Rightarrow> nat option option" where
  "find_auth_from [] i ret username realm domain = Some ret"
| "find_auth_from (pinfo # infos) i ret username realm domain =
     (if username \<noteq> None \<and> username = ai_username pinfo then
        (if realm \<noteq> None \<and> domain \<noteq> None then do {
           r \<leftarrow> realm_of realm pinfo;
           if r \<and> domain = ai_domain pinfo then Some (Some i)
           else find_auth_from infos (i + 1) ret username realm domain}
         else if realm \<noteq> None then do {
           r \<leftarrow> realm_of realm pinfo;
           if r then (if ret \<noteq> None then Some None
                      else find_auth_from infos (i + 1) (Some i) username realm domain)
           else find_auth_from infos (i + 1) ret username realm domain}
         else if domain \<noteq> None \<and> domain = ai_domain pinfo \<and> ai_ha1 pinfo = None then Some (Some i)
         else if domain = None \<and> ai_ha1 pinfo = None then Some (Some i)
         else find_auth_from infos (i + 1) ret username realm domain)
      else find_auth_from infos (i + 1) ret username realm domain)"

definition find_auth_info :: "auth_info list \<Rightarrow> string option \<Rightarrow> string option \<Rightarrow> string option
    \<Rightarrow> nat option option" where
  "find_auth_info infos username realm domain = find_auth_from infos 0 None username realm domain"

definition linphone_core_find_auth_info :: "auth_info list \<Rightarrow> string option \<Rightarrow> string option \<Rightarrow> string option
    \<Rightarrow> nat option option" where
  "linphone_core_find_auth_info infos realm username domain = do {
     ai \<leftarrow> (if realm \<noteq> None then do {
              ai \<leftarrow> find_auth_info infos username realm None;
              if ai = None \<and> domain \<noteq> None then find_auth_info infos username realm domain else Some ai}
            else Some None);
     ai \<leftarrow> (if ai = None \<and> domain \<noteq> None then find_auth_info infos username None domain else Some ai);
     if ai = None then find_auth_info infos username None None else Some ai}"

section \<open>The list of the core\<close>

text \<open>An operation that waits for credentials, with what the server asked and the account it
  belongs to, if any; and the credentials given to an operation.\<close>

record pending_auth =
  pa_op :: nat
  pa_realm :: "string option"
  pa_username :: "string option"
  pa_domain :: "string option"
  pa_user_pointer :: "nat option"

record credentials =
  cr_username :: "string option"
  cr_userid :: "string option"
  cr_realm :: "string option"
  cr_password :: "string option"
  cr_ha1 :: "string option"

record 'a auth_world =
  aw_auth_info :: "auth_info list"
  aw_config :: lp_config
  aw_proxies :: "(nat \<times> 'a proxy_world) list"
  aw_pending :: "pending_auth list"
  aw_authenticated :: "(nat \<times> credentials) list"

definition credentials_of :: "auth_info \<Rightarrow> credentials" where
  "credentials_of ai = \<lparr>cr_username = ai_username ai, cr_userid = ai_userid ai, cr_realm = ai_realm ai,
     cr_password = ai_passwd ai, cr_ha1 = ai_ha1 ai\<rparr>"

fun write_auth_from :: "auth_env \<Rightarrow> lp_config \<Rightarrow> auth_info list \<Rightarrow> nat \<Rightarrow> (lp_config \<times> auth_info list) option" where
  "write_auth_from env config [] i = do {
     (config, _) \<leftarrow> linphone_auth_info_write_config env config None i;
     Some (config, [])}"
| "write_auth_from env config (ai # infos) i = do {
     (config, ai') \<leftarrow> linphone_auth_info_write_config env config (Some ai) i;
     (config, infos) \<leftarrow> write_auth_from env config infos (i + 1);
     Some (config, the ai' # infos)}"

definition write_auth_infos :: "auth_env \<Rightarrow> 'a auth_world \<Rightarrow> 'a auth_world option" where
  "write_auth_infos env w = (if \<not> ae_ready env then Some w
     else do {
       (config, infos) \<leftarrow> write_auth_from env (aw_config w) (aw_auth_info w) 0;
       Some (w\<lparr>aw_config := config, aw_auth_info := infos\<rparr>)})"

text \<open>The account an operation belongs to goes back to registering.\<close>

fun proxy_progress :: "'a proxy_env \<Rightarrow> nat \<Rightarrow> (nat \<times> 'a proxy_world) list \<Rightarrow> (nat \<times> 'a proxy_world) list" where
  "proxy_progress penv a [] = []"
| "proxy_progress penv a ((b, pw) # proxies) =
     (if b = a then (b, linphone_proxy_config_set_state penv RegistrationProgress pw) # proxies
      else (b, pw) # proxy_progress penv a proxies)"

definition retry_pending :: "'a proxy_env \<Rightarrow> pending_auth \<Rightarrow> 'a auth_world \<Rightarrow> 'a auth_world option" where
  "retry_pending penv p w = do {
     ai \<leftarrow> linphone_core_find_auth_info (aw_auth_info w) (pa_realm p) (pa_username p) (pa_domain p);
     case ai of None \<Rightarrow> Some w
     | Some k \<Rightarrow> Some (w
        \<lparr>aw_proxies := (case pa_user_pointer p of Some a \<Rightarrow> proxy_progress penv a (aw_proxies w) | None \<Rightarrow> aw_proxies w),
         aw_authenticated := aw_authenticated w @ [(pa_op p, credentials_of (aw_auth_info w ! k))]\<rparr>)}"

fun retry_all :: "'a proxy_env \<Rightarrow> pending_auth list \<Rightarrow> 'a auth_world \<Rightarrow> 'a auth_world option" where
  "retry_all penv [] w = Some w"
| "retry_all penv (p # ps) w = do { w \<leftarrow> retry_pending penv p w; retry_all penv ps w }"

definition insert_auth_info :: "auth_info list \<Rightarrow> auth_info \<Rightarrow> auth_info list option" where
  "insert_auth_info infos info = do {
     ai \<leftarrow> linphone_core_find_auth_info infos (ai_realm info) (ai_username info) (ai_domain info);
     let infos = (case ai of None \<Rightarrow> infos
       | Some k \<Rightarrow> if ai_domain (infos ! k) \<noteq> None \<and> ai_domain (infos ! k) = ai_domain info
                   then lp_remove_nth k infos else infos);
     Some (infos @ [linphone_auth_info_clone info])}"

definition linphone_core_add_auth_info :: "'a proxy_env \<Rightarrow> auth_env \<Rightarrow> 'a auth_world \<Rightarrow> auth_info
    \<Rightarrow> 'a auth_world option" where
  "linphone_core_add_auth_info penv env w info =
     (if ai_ha1 info = None \<and> ai_passwd info = None then Some w
      else do {
        infos \<leftarrow> insert_auth_info (aw_auth_info w) info;
        w \<leftarrow> retry_all penv (aw_pending w) (w\<lparr>aw_auth_info := infos\<rparr>);
        if ae_save_auth_info env then write_auth_infos env w else Some w})"

definition linphone_core_remove_auth_info :: "auth_env \<Rightarrow> 'a auth_world \<Rightarrow> auth_info \<Rightarrow> 'a auth_world option" where
  "linphone_core_remove_auth_info env w info = do {
     r \<leftarrow> linphone_core_find_auth_info (aw_auth_info w) (ai_realm info) (ai_username info) (ai_domain info);
     case r of None \<Rightarrow> Some w
     | Some k \<Rightarrow> (let w = w\<lparr>aw_auth_info := lp_remove_nth k (aw_auth_info w)\<rparr>
         in if ae_save_auth_info env then write_auth_infos env w else Some w)}"

definition linphone_core_clear_all_auth_info :: "'a auth_world \<Rightarrow> 'a auth_world" where
  "linphone_core_clear_all_auth_info w = w
     \<lparr>aw_config := fold (\<lambda>i config. lp_config_clean_section config (auth_section i))
        [0..<length (aw_auth_info w)] (aw_config w),
      aw_auth_info := []\<rparr>"

text \<open>The credentials read when the core starts (\<open>sip_config_read\<close> of \<open>coreapi/linphonecore.c\<close>), up
  to the first section that is missing.\<close>

partial_function (option) read_auth_infos :: "'a proxy_env \<Rightarrow> auth_env \<Rightarrow> nat \<Rightarrow> 'a auth_world \<Rightarrow> 'a auth_world option" where
  "read_auth_infos penv env i w = (case linphone_auth_info_new_from_config_file (aw_config w) i of
     None \<Rightarrow> Some w
   | Some ai \<Rightarrow> Option.bind (linphone_core_add_auth_info penv env w ai) (read_auth_infos penv env (i + 1)))"

section \<open>Requests of the signalling layer\<close>

datatype sal_auth_mode = SalAuthModeHttpDigest | SalAuthModeTls

record sal_auth_info =
  sa_username :: "string option"
  sa_userid :: "string option"
  sa_password :: "string option"
  sa_realm :: "string option"
  sa_domain :: "string option"
  sa_ha1 :: "string option"
  sa_mode :: sal_auth_mode
  sa_key :: "string option"
  sa_certificates :: "string option"

definition sal_auth_info_new :: sal_auth_info where
  "sal_auth_info_new = \<lparr>sa_username = None, sa_userid = None, sa_password = None, sa_realm = None,
     sa_domain = None, sa_ha1 = None, sa_mode = SalAuthModeHttpDigest, sa_key = None, sa_certificates = None\<rparr>"

definition sal_auth_info_clone :: "sal_auth_info \<Rightarrow> sal_auth_info" where
  "sal_auth_info_clone auth_info = sal_auth_info_new
     \<lparr>sa_username := sa_username auth_info, sa_userid := sa_userid auth_info, sa_realm := sa_realm auth_info,
      sa_domain := (if sa_realm auth_info \<noteq> None then sa_domain auth_info else None),
      sa_password := sa_password auth_info\<rparr>"

definition fill_auth_info :: "auth_info list \<Rightarrow> sal_auth_info \<Rightarrow> (sal_auth_info \<times> bool) option" where
  "fill_auth_info infos sai = do {
     ai \<leftarrow> linphone_core_find_auth_info infos (sa_realm sai) (sa_username sai) (sa_domain sai);
     case ai of None \<Rightarrow> Some (sai, False)
     | Some k \<Rightarrow> (let ai = infos ! k in
         Some (sai\<lparr>sa_userid := (if ai_userid ai \<noteq> None then ai_userid ai else ai_username ai),
                   sa_password := ai_passwd ai, sa_ha1 := ai_ha1 ai\<rparr>, True))}"

text \<open>The files of the client certificate: \<open>exists\<close> answers \<open>stat\<close>, \<open>parse\<close> is belle-sip's reading.\<close>

definition fill_auth_info_with_client_certificate :: "(string \<Rightarrow> bool) \<Rightarrow> (string \<Rightarrow> string option) \<Rightarrow> lp_config
    \<Rightarrow> sal_auth_info \<Rightarrow> sal_auth_info \<times> bool" where
  "fill_auth_info_with_client_certificate file_exists parse config sai = (let
     chain_file = lp_config_get_string config ''sip'' ''client_cert_chain'' None;
     key_file = lp_config_get_string config ''sip'' ''client_cert_key'' None
   in case (key_file, chain_file) of
        (Some k, Some c) \<Rightarrow>
          if \<not> file_exists k \<or> \<not> file_exists c then (sai, False)
          else (let sai = sai\<lparr>sa_certificates := parse c, sa_key := parse k\<rparr>
                in (sai, sa_certificates sai \<noteq> None \<and> sa_key sai \<noteq> None))
      | _ \<Rightarrow> (sai, False))"

text \<open>\<open>notify\<close> is the application's callback, which may add credentials.\<close>

definition auth_requested :: "(string \<Rightarrow> bool) \<Rightarrow> (string \<Rightarrow> string option) \<Rightarrow> ('a auth_world \<Rightarrow> 'a auth_world)
    \<Rightarrow> 'a auth_world \<Rightarrow> sal_auth_info \<Rightarrow> ('a auth_world \<times> sal_auth_info \<times> bool) option" where
  "auth_requested file_exists parse notify w sai = (case sa_mode sai of
     SalAuthModeHttpDigest \<Rightarrow> do {
       (sai, ok) \<leftarrow> fill_auth_info (aw_auth_info w) sai;
       if ok then Some (w, sai, True)
       else do {
         let w = notify w;
         (sai, ok) \<leftarrow> fill_auth_info (aw_auth_info w) sai;
         Some (w, sai, ok)}}
   | SalAuthModeTls \<Rightarrow>
       (case fill_auth_info_with_client_certificate file_exists parse (aw_config w) sai of (sai, ok) \<Rightarrow> Some (w, sai, ok)))"

end
