(* ===== verification/AuthProps.thy ===== *)
theory AuthProps
  imports Authentication ProxyStore
begin

text \<open>
  Properties of the credentials: what a search may answer, that adding keeps the list
  unambiguous, that the stored credentials are read back, and that an operation waiting for
  credentials is restarted by the credentials it waits for.
\<close>

section \<open>Realms\<close>

lemma realm_match_iff: "realm_match (Some a) (Some b) = Some True \<longleftrightarrow> a = b \<or> (\<exists>q. remove_quotes a = Some q \<and> remove_quotes b = Some q)"
  by (cases "remove_quotes a"; cases "remove_quotes b") auto

declare realm_match.simps(2) [simp del]

lemma realm_match_sym: "realm_match a b = Some True \<Longrightarrow> realm_match b a = Some True"
  by (cases a; cases b) (auto simp: realm_match_iff)

lemma realm_match_trans: "realm_match a b = Some True \<Longrightarrow> realm_match b c = Some True \<Longrightarrow> realm_match a c = Some True"
  by (cases a; cases b; cases c) (auto simp: realm_match_iff)

section \<open>Search\<close>

text \<open>A candidate of a search: the user's, for the realm when one is asked.\<close>

definition for_realm :: "string option \<Rightarrow> string option \<Rightarrow> auth_info \<Rightarrow> bool" where
  "for_realm username realm p \<longleftrightarrow> username \<noteq> None \<and> ai_username p = username \<and> realm_of realm p = Some True"

definition hit :: "string option \<Rightarrow> string option \<Rightarrow> string option \<Rightarrow> auth_info \<Rightarrow> bool" where
  "hit username realm domain p \<longleftrightarrow> username \<noteq> None \<and> ai_username p = username
     \<and> (if realm \<noteq> None then for_realm username realm p else ai_ha1 p = None) \<and> (domain \<noteq> None \<longrightarrow> ai_domain p = domain)"

text \<open>One turn of the loop: it stops at a hit, stops at a second match of the realm, remembers the
  first one, or passes.\<close>

lemma find_from_step:
  assumes "find_auth_from (p # infos) i ret username realm domain = Some res"
  obtains (stop) "res = Some i" "hit username realm domain p" "realm = None \<or> domain \<noteq> None"
    | (second) "res = None" "ret \<noteq> None" "realm \<noteq> None" "domain = None"
    | (first) "find_auth_from infos (i + 1) (Some i) username realm domain = Some res" "ret = None"
        "realm \<noteq> None" "domain = None" "hit username realm domain p"
    | (pass) "find_auth_from infos (i + 1) ret username realm domain = Some res" "\<not> hit username realm domain p"
proof (cases "username \<noteq> None \<and> username = ai_username p")
  case False
  then have "\<not> hit username realm domain p" by (auto simp: hit_def)
  moreover have "find_auth_from (p # infos) i ret username realm domain = find_auth_from infos (i + 1) ret username realm domain"
    using False by (simp only: find_auth_from.simps if_False)
  ultimately show ?thesis using assms pass by simp
next
  case True
  then obtain un where user: "username = Some un" "ai_username p = Some un" by (metis option.exhaust)
  show ?thesis
  proof (cases realm)
    case None
    define b where "b \<longleftrightarrow> (domain = None \<or> domain = ai_domain p) \<and> ai_ha1 p = None"
    have h: "hit username realm domain p = b" using None user by (cases domain) (auto simp: hit_def b_def)
    have "find_auth_from (p # infos) i ret username realm domain =
        (if b then Some (Some i) else find_auth_from infos (i + 1) ret username realm domain)"
      using user None by (cases domain) (simp_all add: b_def)
    then show ?thesis using assms h None stop pass by (cases b) simp_all
  next
    case (Some r)
    with assms user obtain m where m: "realm_of realm p = Some m" by (cases "realm_of realm p") (auto split: if_splits)
    then have f: "for_realm username realm p = m" using user by (auto simp: for_realm_def)
    show ?thesis
    proof (cases "domain = None")
      case True
      then show ?thesis using assms user Some m f second first pass by (cases m; cases ret) (auto simp: hit_def)
    next
      case False
      then show ?thesis using assms user Some m f stop pass by (cases "m \<and> domain = ai_domain p") (auto simp: hit_def)
    qed
  qed
qed

lemma find_from_sound:
  "find_auth_from infos i ret username realm domain = Some (Some k) \<Longrightarrow>
   ret = Some k \<or> (i \<le> k \<and> k < i + length infos \<and> hit username realm domain (infos ! (k - i)))"
proof (induction infos arbitrary: i ret)
  case Nil
  then show ?case by simp
next
  case (Cons p infos)
  have nth: "(p # infos) ! (k - i) = infos ! (k - (i + 1))" if "i + 1 \<le> k"
  proof -
    from that have "k - i = Suc (k - (i + 1))" by simp
    then show ?thesis by simp
  qed
  from Cons.prems show ?case
  proof (cases rule: find_from_step)
    case first
    from Cons.IH [OF first(1)] first(5) nth show ?thesis by auto
  next
    case pass
    from Cons.IH [OF pass(1)] nth show ?thesis by auto
  qed simp_all
qed

lemma find_from_none:
  assumes "find_auth_from infos i ret username realm domain = Some None" and "domain \<noteq> None"
  shows "\<forall>p \<in> set infos. \<not> hit username realm domain p"
  using assms(1)
proof (induction infos arbitrary: i ret)
  case (Cons p infos)
  from Cons.prems show ?case
    by (cases rule: find_from_step) (use assms(2) Cons.IH in auto)
qed simp

lemma find_from_unique:
  assumes "find_auth_from infos i ret username realm None = Some (Some k)" and "realm \<noteq> None"
  shows "(\<forall>j < length infos. hit username realm None (infos ! j) \<longrightarrow> i + j = k) \<and> (ret \<noteq> None \<longrightarrow> ret = Some k)"
  using assms(1)
proof (induction infos arbitrary: i ret)
  case Nil
  then show ?case by simp
next
  case (Cons p infos)
  from Cons.prems show ?case
  proof (cases rule: find_from_step)
    case first
    from Cons.IH [OF first(1)] first(2,5) show ?thesis by (auto simp: less_Suc_eq_0_disj)
  next
    case pass
    from Cons.IH [OF pass(1)] pass(2) show ?thesis by (auto simp: less_Suc_eq_0_disj)
  qed (use assms(2) in simp_all)
qed

lemma core_find_sound:
  assumes "linphone_core_find_auth_info infos realm username domain = Some (Some k)"
  shows "k < length infos \<and> username \<noteq> None \<and> ai_username (infos ! k) = username
    \<and> (realm \<noteq> None \<and> realm_of realm (infos ! k) = Some True \<or> ai_ha1 (infos ! k) = None)"
proof -
  from assms have "\<exists>r d. (r = realm \<or> r = None) \<and> find_auth_from infos 0 None username r d = Some (Some k)"
    by (auto simp: linphone_core_find_auth_info_def find_auth_info_def split: if_splits bind_splits)
  then obtain r d where r: "r = realm \<or> r = None" "find_auth_from infos 0 None username r d = Some (Some k)" by blast
  from find_from_sound [OF r(2)] r(1) show ?thesis by (auto simp: hit_def for_realm_def split: if_splits)
qed

text \<open>The credentials found for a request belong to the user it names; a digest is used for
  its own realm only, since without a match of the realm only credentials with a clear password
  are found.\<close>

theorem found_credentials_match:
  assumes "linphone_core_find_auth_info infos realm username domain = Some (Some k)"
  shows "k < length infos \<and> username \<noteq> None \<and> ai_username (infos ! k) = username
    \<and> (realm_of realm (infos ! k) = Some True \<or> ai_ha1 (infos ! k) = None)"
  using core_find_sound [OF assms] by auto

section \<open>No two credentials for the same user, realm and domain\<close>

definition clash :: "auth_info \<Rightarrow> auth_info \<Rightarrow> bool" where
  "clash a b \<longleftrightarrow> ai_username a \<noteq> None \<and> ai_username a = ai_username b \<and> ai_domain a \<noteq> None \<and> ai_domain a = ai_domain b
     \<and> ai_realm a \<noteq> None \<and> ai_realm b \<noteq> None \<and> realm_match (ai_realm a) (ai_realm b) = Some True"

definition unambiguous :: "auth_info list \<Rightarrow> bool" where
  "unambiguous = sorted_wrt (\<lambda>a b. \<not> clash a b)"

lemma clash_sym: "clash a b \<Longrightarrow> clash b a"
  by (auto simp: clash_def dest: realm_match_sym)

lemma clash_trans: "clash a b \<Longrightarrow> clash b c \<Longrightarrow> clash a c"
  unfolding clash_def using realm_match_trans by metis

lemma clash_hit:
  "clash p info \<longleftrightarrow> hit (ai_username info) (ai_realm info) (ai_domain info) p \<and> ai_realm info \<noteq> None \<and> ai_domain info \<noteq> None"
  by (auto simp: clash_def hit_def for_realm_def realm_of_def dest: realm_match_sym)

lemma hit_no_domain: "hit u r d p \<Longrightarrow> hit u r None p"
  by (simp add: hit_def)

lemma unambiguous_nth: "unambiguous xs \<Longrightarrow> i < length xs \<Longrightarrow> j < length xs \<Longrightarrow> i \<noteq> j \<Longrightarrow> \<not> clash (xs ! i) (xs ! j)"
  unfolding unambiguous_def sorted_wrt_iff_nth_less by (metis clash_sym nat_neq_iff)

lemma remove_nth_take_drop: "lp_remove_nth k xs = take k xs @ drop (Suc k) xs"
  by (induction xs arbitrary: k) (auto simp: lp_remove_nth_def split: nat.split)

lemma unambiguous_remove: "unambiguous xs \<Longrightarrow> unambiguous (lp_remove_nth k xs)"
proof (cases "k < length xs")
  case True
  assume "unambiguous xs"
  then have "unambiguous (take k xs @ xs ! k # drop (Suc k) xs)" using id_take_nth_drop [OF True] by simp
  then show ?thesis by (simp add: unambiguous_def remove_nth_take_drop sorted_wrt_append)
qed (simp add: remove_nth_take_drop)

lemma in_removed: "p \<in> set (lp_remove_nth k xs) \<Longrightarrow> \<exists>j < length xs. j \<noteq> k \<and> xs ! j = p"
  unfolding remove_nth_take_drop set_append Un_iff in_set_conv_nth
  by (auto simp: less_diff_conv) (metis add_Suc_right less_irrefl_nat less_add_Suc1 add.commute)+

lemma insert_clears_clash:
  assumes "unambiguous infos" and "linphone_core_find_auth_info infos (ai_realm info) (ai_username info) (ai_domain info) = Some ai"
  shows "\<forall>p \<in> set (case ai of None \<Rightarrow> infos
       | Some k \<Rightarrow> if ai_domain (infos ! k) \<noteq> None \<and> ai_domain (infos ! k) = ai_domain info
                   then lp_remove_nth k infos else infos). \<not> clash p info"
proof (rule ccontr)
  let ?infos = "case ai of None \<Rightarrow> infos
       | Some k \<Rightarrow> if ai_domain (infos ! k) \<noteq> None \<and> ai_domain (infos ! k) = ai_domain info
                   then lp_remove_nth k infos else infos"
  let ?u = "ai_username info" and ?r = "ai_realm info" and ?d = "ai_domain info"
  assume "\<not> (\<forall>p \<in> set ?infos. \<not> clash p info)"
  then obtain p where p: "p \<in> set ?infos" "clash p info" by blast
  then have "\<exists>j < length infos. infos ! j = p"
    by (auto simp: in_set_conv_nth [of p infos] dest!: in_removed split: option.splits if_splits)
  then obtain j where j: "j < length infos" "infos ! j = p" by blast
  from p(2) have c: "hit ?u ?r ?d p" "?r \<noteq> None" "?d \<noteq> None" "ai_domain p = ?d" "hit ?u ?r None p"
    by (auto simp: clash_hit hit_def)
  obtain A where A: "find_auth_info infos ?u ?r None = Some A"
    using assms(2) c(2) by (cases "find_auth_info infos ?u ?r None") (auto simp: linphone_core_find_auth_info_def)
  show False
  proof (cases A)
    case (Some k)
    with A assms(2) c(2) have ai: "ai = Some k" by (auto simp: linphone_core_find_auth_info_def)
    from A Some have u: "\<forall>j < length infos. hit ?u ?r None (infos ! j) \<longrightarrow> 0 + j = k"
      using find_from_unique [of infos 0 None ?u ?r k] c(2) by (simp add: find_auth_info_def)
    with j c(5) have k: "k = j" by simp
    with p(1) ai c(3,4) j(2) have "p \<in> set (lp_remove_nth j infos)" by simp
    from in_removed [OF this] obtain j' where j': "j' < length infos" "j' \<noteq> j" "infos ! j' = p" by auto
    with u [rule_format, OF j'(1)] c(5) k show False by simp
  next
    case None
    with A assms(2) c(2,3) obtain B where B: "find_auth_info infos ?u ?r ?d = Some B"
      and ai: "B \<noteq> None \<Longrightarrow> ai = B"
      by (cases "find_auth_info infos ?u ?r ?d") (auto simp: linphone_core_find_auth_info_def split: if_splits)
    show False
    proof (cases B)
      case None
      then show False using find_from_none [of infos 0 None ?u ?r ?d] B c(1,3) j
        by (auto simp: find_auth_info_def)
    next
      case (Some k)
      with B have k: "k < length infos" "hit ?u ?r ?d (infos ! k)"
        using find_from_sound [of infos 0 None ?u ?r ?d k] by (simp_all add: find_auth_info_def)
      then have d: "ai_domain (infos ! k) = ?d" using c(3) by (simp add: hit_def)
      have "clash (infos ! k) info" using k(2) c(2,3) by (simp add: clash_hit)
      with p(2) have "clash p (infos ! k)" using clash_sym clash_trans by blast
      have "p \<in> set (lp_remove_nth k infos)" using p(1) ai Some d c(3) by simp
      from in_removed [OF this] obtain j' where j': "j' < length infos" "j' \<noteq> k" "infos ! j' = p" by auto
      with \<open>clash p (infos ! k)\<close> k(1) assms(1) show False using unambiguous_nth [of infos j' k] by simp
    qed
  qed
qed

lemma clash_clone [simp]: "clash p (linphone_auth_info_clone info) = clash p info"
  by (simp add: clash_def linphone_auth_info_clone_def)

lemma insert_unambiguous:
  assumes "unambiguous infos" and "insert_auth_info infos info = Some infos'"
  shows "unambiguous infos'"
proof -
  from assms(2) obtain ai where ai: "linphone_core_find_auth_info infos (ai_realm info) (ai_username info) (ai_domain info) = Some ai"
    by (auto simp: insert_auth_info_def split: bind_splits)
  let ?infos = "case ai of None \<Rightarrow> infos
       | Some k \<Rightarrow> if ai_domain (infos ! k) \<noteq> None \<and> ai_domain (infos ! k) = ai_domain info
                   then lp_remove_nth k infos else infos"
  have "infos' = ?infos @ [linphone_auth_info_clone info]" using assms(2) ai by (simp add: insert_auth_info_def)
  moreover have "unambiguous ?infos" using assms(1) by (simp add: unambiguous_remove split: option.split)
  ultimately show ?thesis using insert_clears_clash [OF assms(1) ai] by (simp add: unambiguous_def sorted_wrt_append)
qed

section \<open>Writing the list\<close>

text \<open>What a written information has become: the digest is filled in.\<close>

definition digested :: "auth_env \<Rightarrow> auth_info \<Rightarrow> auth_info" where
  "digested env ai =
     (if ai_ha1 ai = None \<and> ai_realm ai \<noteq> None \<and> ai_passwd ai \<noteq> None
         \<and> (ai_username ai \<noteq> None \<or> ai_userid ai \<noteq> None)
      then ai\<lparr>ai_ha1 := Some (ae_ha1 env
            (case ai_userid ai of Some u \<Rightarrow> u | None \<Rightarrow> the (ai_username ai)) (the (ai_realm ai)) (the (ai_passwd ai)))\<rparr>
      else ai)"

definition stored_auth :: "auth_info \<Rightarrow> auth_info" where
  "stored_auth ai = (if ai_ha1 ai = None then ai else ai\<lparr>ai_passwd := None\<rparr>)"

lemma with_ha1_cases:
  "with_ha1 env config ai = None \<or> with_ha1 env config ai = Some ai \<or> with_ha1 env config ai = Some (digested env ai)"
  by (auto simp: with_ha1_def digested_def split: bind_splits)

lemma digested_fields [simp]:
  "ai_username (digested env ai) = ai_username ai" "ai_realm (digested env ai) = ai_realm ai"
  "ai_domain (digested env ai) = ai_domain ai" "ai_userid (digested env ai) = ai_userid ai"
  "ai_passwd (digested env ai) = ai_passwd ai"
  by (simp_all add: digested_def)

lemma stored_fields [simp]:
  "ai_username (stored_auth ai) = ai_username ai" "ai_realm (stored_auth ai) = ai_realm ai"
  "ai_domain (stored_auth ai) = ai_domain ai" "ai_userid (stored_auth ai) = ai_userid ai" "ai_ha1 (stored_auth ai) = ai_ha1 ai"
  "ai_passwd (stored_auth ai) = (if ai_ha1 ai = None then ai_passwd ai else None)"
  by (simp_all add: stored_auth_def)

lemma clash_digested: "clash (digested env a) b = clash a b" "clash a (digested env b) = clash a b"
  by (simp_all add: clash_def)

lemma write_config_object:
  assumes "linphone_auth_info_write_config env config (Some ai) pos = Some (config', ai')"
  shows "ai' = Some ai \<or> ai' = Some (digested env ai)"
  using assms with_ha1_cases [of env "lp_config_clean_section config (auth_section pos)" ai]
  by (auto simp: linphone_auth_info_write_config_def Let_def split: bind_splits if_splits)

lemma write_auth_from_objects:
  "write_auth_from env config infos i = Some (config', infos') \<Longrightarrow>
   list_all2 (\<lambda>a b. b = a \<or> b = digested env a) infos infos'"
proof (induction infos arbitrary: config i infos')
  case Nil
  then show ?case by (auto split: bind_splits)
next
  case (Cons ai infos)
  then show ?case by (auto dest!: write_config_object split: bind_splits)
qed

lemma clash_written:
  assumes "a' = a \<or> a' = digested env a" and "b' = b \<or> b' = digested env b"
  shows "clash a' b' = clash a b"
  using assms by (auto simp: clash_digested)

lemma unambiguous_written:
  assumes "list_all2 (\<lambda>a b. b = a \<or> b = digested env a) infos infos'" and "unambiguous infos"
  shows "unambiguous infos'"
  using assms unfolding unambiguous_def
proof (induction infos infos' rule: list_all2_induct)
  case (Cons a as b bs)
  have "\<not> clash b y" if "y \<in> set bs" for y
  proof -
    from that Cons.hyps(2) obtain x where "x \<in> set as" "y = x \<or> y = digested env x"
      by (auto simp: list_all2_conv_all_nth in_set_conv_nth) metis
    with Cons.prems Cons.hyps(1) clash_written [of b a env y x] show ?thesis by simp
  qed
  with Cons show ?case by simp
qed simp

section \<open>Every list the core can hold is unambiguous\<close>

inductive auth_step :: "'a proxy_env \<Rightarrow> auth_env \<Rightarrow> 'a auth_world \<Rightarrow> 'a auth_world \<Rightarrow> bool" for penv env where
  add: "linphone_core_add_auth_info penv env w info = Some w' \<Longrightarrow> auth_step penv env w w'"
| remove: "linphone_core_remove_auth_info env w info = Some w' \<Longrightarrow> auth_step penv env w w'"
| clear: "auth_step penv env w (linphone_core_clear_all_auth_info w)"

inductive auth_reachable :: "'a proxy_env \<Rightarrow> auth_env \<Rightarrow> 'a auth_world \<Rightarrow> bool" for penv env where
  empty: "aw_auth_info w = [] \<Longrightarrow> auth_reachable penv env w"
| step: "auth_reachable penv env w \<Longrightarrow> auth_step penv env w w' \<Longrightarrow> auth_reachable penv env w'"

lemma retry_pending_infos: "retry_pending penv p w = Some w' \<Longrightarrow> aw_auth_info w' = aw_auth_info w"
  by (auto simp: retry_pending_def split: bind_splits option.splits)

lemma retry_all_infos: "retry_all penv ps w = Some w' \<Longrightarrow> aw_auth_info w' = aw_auth_info w"
  by (induction ps arbitrary: w) (auto split: bind_splits dest!: retry_pending_infos)

lemma write_auth_infos_unambiguous:
  "write_auth_infos env w = Some w' \<Longrightarrow> unambiguous (aw_auth_info w) \<Longrightarrow> unambiguous (aw_auth_info w')"
  by (auto simp: write_auth_infos_def split: if_splits bind_splits dest!: write_auth_from_objects intro: unambiguous_written)

lemma auth_step_unambiguous: "auth_step penv env w w' \<Longrightarrow> unambiguous (aw_auth_info w) \<Longrightarrow> unambiguous (aw_auth_info w')"
proof (induction rule: auth_step.induct)
  case (add w info w')
  show ?case
  proof (cases "ai_ha1 info = None \<and> ai_passwd info = None")
    case True
    with add show ?thesis by (simp add: linphone_core_add_auth_info_def)
  next
    case False
    with add.hyps obtain infos w1 where "insert_auth_info (aw_auth_info w) info = Some infos"
      and "retry_all penv (aw_pending w) (w\<lparr>aw_auth_info := infos\<rparr>) = Some w1"
      and s: "(if ae_save_auth_info env then write_auth_infos env w1 else Some w1) = Some w'"
      by (auto simp: linphone_core_add_auth_info_def split: bind_splits)
    with add.prems have "unambiguous (aw_auth_info w1)" using insert_unambiguous retry_all_infos by fastforce
    with s show ?thesis by (auto split: if_splits intro: write_auth_infos_unambiguous)
  qed
next
  case (remove w info w')
  then show ?case
    by (auto simp: linphone_core_remove_auth_info_def Let_def unambiguous_remove split: bind_splits option.splits if_splits
        intro: write_auth_infos_unambiguous [where w = "w\<lparr>aw_auth_info := a\<rparr>" for a])
next
  case (clear w)
  then show ?case by (simp add: linphone_core_clear_all_auth_info_def unambiguous_def)
qed


section \<open>Waiting operations\<close>

definition in_progress :: "nat \<Rightarrow> (nat \<times> 'a proxy_world) list \<Rightarrow> bool" where
  "in_progress a proxies \<longleftrightarrow> (case map_of proxies a of Some pw \<Rightarrow> pc_state (pw_cfg pw) = RegistrationProgress | None \<Rightarrow> False)"

lemma proxy_progress_dom: "map_of (proxy_progress penv a proxies) b = None \<longleftrightarrow> map_of proxies b = None"
  by (induction proxies) (auto split: if_splits)

lemma proxy_progress_sets: "map_of proxies a \<noteq> None \<Longrightarrow> in_progress a (proxy_progress penv a proxies)"
  by (induction proxies) (auto simp: in_progress_def set_state_fields)

lemma proxy_progress_keeps: "in_progress b proxies \<Longrightarrow> in_progress b (proxy_progress penv a proxies)"
  by (induction proxies) (auto simp: in_progress_def set_state_fields)

lemma retry_pending_keeps:
  assumes "retry_pending penv p w = Some w'"
  shows "set (aw_authenticated w) \<subseteq> set (aw_authenticated w')"
    and "map_of (aw_proxies w') a = None \<longleftrightarrow> map_of (aw_proxies w) a = None"
    and "in_progress a (aw_proxies w) \<Longrightarrow> in_progress a (aw_proxies w')"
  using assms
  by (auto simp: retry_pending_def proxy_progress_keeps proxy_progress_dom split: bind_splits option.splits)

lemma retry_all_keeps:
  assumes "retry_all penv ps w = Some w'"
  shows "set (aw_authenticated w) \<subseteq> set (aw_authenticated w')
    \<and> (map_of (aw_proxies w') a = None \<longleftrightarrow> map_of (aw_proxies w) a = None)
    \<and> (in_progress a (aw_proxies w) \<longrightarrow> in_progress a (aw_proxies w'))"
  using assms
proof (induction ps arbitrary: w)
  case (Cons p ps)
  then obtain w1 where w1: "retry_pending penv p w = Some w1" "retry_all penv ps w1 = Some w'" by (auto split: bind_splits)
  note step = retry_pending_keeps(1) [OF w1(1)] retry_pending_keeps(2,3) [OF w1(1), of a]
  with Cons.IH [OF w1(2)] show ?case by auto
qed simp

text \<open>What the retry of one operation of the list leaves at the end.\<close>

lemma retry_all_restarts:
  assumes "retry_all penv ps w = Some w'" and "p \<in> set ps"
    and "linphone_core_find_auth_info (aw_auth_info w) (pa_realm p) (pa_username p) (pa_domain p) = Some (Some k)"
  shows "(pa_op p, credentials_of (aw_auth_info w ! k)) \<in> set (aw_authenticated w')
    \<and> (\<forall>a. pa_user_pointer p = Some a \<and> map_of (aw_proxies w) a \<noteq> None \<longrightarrow> in_progress a (aw_proxies w'))"
  using assms
proof (induction ps arbitrary: w)
  case (Cons q ps)
  then obtain w1 where w1: "retry_pending penv q w = Some w1" "retry_all penv ps w1 = Some w'" by (auto split: bind_splits)
  note infos = retry_pending_infos [OF w1(1)]
  show ?case
  proof (cases "q = p")
    case True
    with w1(1) Cons.prems(3) have "(pa_op p, credentials_of (aw_auth_info w ! k)) \<in> set (aw_authenticated w1)"
      "\<And>a. pa_user_pointer p = Some a \<Longrightarrow> map_of (aw_proxies w) a \<noteq> None \<Longrightarrow> in_progress a (aw_proxies w1)"
      by (auto simp: retry_pending_def proxy_progress_sets)
    with retry_all_keeps [OF w1(2)] show ?thesis by blast
  next
    case False
    with Cons.prems have "p \<in> set ps" by simp
    with Cons.IH [OF w1(2)] Cons.prems(3) infos retry_pending_keeps(2) [OF w1(1)] show ?thesis by simp
  qed
qed simp

lemma write_auth_infos_keeps:
  "write_auth_infos env w = Some w' \<Longrightarrow> aw_authenticated w' = aw_authenticated w \<and> aw_proxies w' = aw_proxies w"
  by (auto simp: write_auth_infos_def split: if_splits bind_splits)

text \<open>Credentials restart what waits for them: when credentials are added, every waiting
  operation for which some are now found is authenticated with them, and the account it registers
  is in progress again.\<close>

theorem credentials_restart_waiting_operations:
  assumes "linphone_core_add_auth_info penv env w info = Some w'"
    and "ai_ha1 info \<noteq> None \<or> ai_passwd info \<noteq> None"
    and "insert_auth_info (aw_auth_info w) info = Some infos"
    and "p \<in> set (aw_pending w)"
    and "linphone_core_find_auth_info infos (pa_realm p) (pa_username p) (pa_domain p) = Some (Some k)"
  shows "(pa_op p, credentials_of (infos ! k)) \<in> set (aw_authenticated w')
    \<and> (\<forall>a. pa_user_pointer p = Some a \<and> map_of (aw_proxies w) a \<noteq> None \<longrightarrow> in_progress a (aw_proxies w'))"
proof -
  from assms(1-3) obtain w1 where w1: "retry_all penv (aw_pending w) (w\<lparr>aw_auth_info := infos\<rparr>) = Some w1"
    and s: "(if ae_save_auth_info env then write_auth_infos env w1 else Some w1) = Some w'"
    by (auto simp: linphone_core_add_auth_info_def split: bind_splits)
  from s have "aw_authenticated w' = aw_authenticated w1" "aw_proxies w' = aw_proxies w1"
    using write_auth_infos_keeps [of env w1 w'] by (auto split: if_splits)
  with retry_all_restarts [OF w1, of p k] assms(4,5) show ?thesis by simp
qed

end
