(* ===== verification/AuthStore.thy ===== *)
theory AuthStore
  imports AuthProps
begin

text \<open>
  The stored credentials: writing the list of the core section by section and reading it back
  when the core starts, over the contract of the store; and instances of the properties of the
  credentials.
\<close>

section \<open>Sections\<close>

lemma auth_section_inject [simp]: "auth_section i = auth_section j \<longleftrightarrow> i = j"
  unfolding auth_section_def by (metis append_same_eq nat_int same_append_eq strto_show_int)

lemma auth_section_not_sip [simp]: "auth_section i \<noteq> ''sip''" "''sip'' \<noteq> auth_section i"
  by (simp_all add: auth_section_def)

definition auth_table :: "auth_info \<Rightarrow> (string \<times> string option) list" where
  "auth_table ai =
     [(''username'', ai_username ai), (''userid'', ai_userid ai), (''ha1'', ai_ha1 ai),
      (''passwd'', if ai_ha1 ai = None then ai_passwd ai else None), (''realm'', ai_realm ai), (''domain'', ai_domain ai)]"

text \<open>The store keeps its defaults: credentials are stored, passwords as digests.\<close>

definition store_defaults :: "lp_config \<Rightarrow> bool" where
  "store_defaults c \<longleftrightarrow> lp_ok c \<and> lp_contents c (''sip'', ''store_auth_info'') = None
     \<and> lp_contents c (''sip'', ''store_ha1_passwd'') = None"

lemma get_int_default: "lp_contents c (s, n) = None \<Longrightarrow> lp_config_get_int c s n d = Some d"
  by (simp add: lp_config_get_int_def lp_contents_def)

lemma written_auth_info:
  assumes "store_defaults c"
  obtains c' where "linphone_auth_info_write_config env c (Some ai) i = Some (c', Some (digested env ai))"
    and "store_defaults c'"
    and "\<And>n. lp_contents c' (auth_section i, n) = (case map_of (auth_table (digested env ai)) n of Some v \<Rightarrow> present v | None \<Rightarrow> None)"
    and "\<And>s n. s \<noteq> auth_section i \<Longrightarrow> lp_contents c' (s, n) = lp_contents c (s, n)"
proof -
  let ?key = "auth_section i" and ?ai = "digested env ai"
  let ?c = "lp_config_clean_section c ?key"
  have c: "lp_ok ?c" "\<And>s n. lp_contents ?c (s, n) = (if s = ?key then None else lp_contents c (s, n))"
    using clean_section_laws [of c ?key] assms by (simp_all add: store_defaults_def)
  have d: "lp_config_get_int ?c ''sip'' ''store_auth_info'' 1 = Some 1" "lp_config_get_int ?c ''sip'' ''store_ha1_passwd'' 1 = Some 1"
    using assms by (simp_all add: get_int_default c store_defaults_def)
  define fs where "fs = [set_if ?key ''username'' (ai_username ?ai), set_if ?key ''userid'' (ai_userid ?ai),
      set_if ?key ''ha1'' (ai_ha1 ?ai), set_if ?key ''passwd'' (if ai_ha1 ?ai = None then ai_passwd ?ai else None),
      set_if ?key ''realm'' (ai_realm ?ai), set_if ?key ''domain'' (ai_domain ?ai)]"
  define c' where "c' = fold (\<lambda>f. f) fs ?c"
  have "lp_ok c' \<and> (\<forall>s n. lp_contents c' (s, n) =
    (if s = ?key \<and> n \<in> fst ` set (auth_table ?ai) then present (the (map_of (auth_table ?ai) n)) else lp_contents ?c (s, n)))"
    unfolding c'_def by (rule assigns_fold) (simp_all add: fs_def auth_table_def assigns_set_if c)
  then have w: "lp_ok c'" "\<And>s n. lp_contents c' (s, n) =
    (if s = ?key \<and> n \<in> fst ` set (auth_table ?ai) then present (the (map_of (auth_table ?ai) n)) else lp_contents ?c (s, n))"
    by auto
  have "with_ha1 env ?c ai = Some ?ai" using d by (simp add: with_ha1_def digested_def)
  then have "linphone_auth_info_write_config env c (Some ai) i = Some (c', Some ?ai)"
    unfolding linphone_auth_info_write_config_def Let_def c'_def fs_def using d by simp
  moreover have "lp_contents c' (?key, n) = (case map_of (auth_table ?ai) n of Some v \<Rightarrow> present v | None \<Rightarrow> None)" for n
    using w(2) [of ?key n] c(2) [of ?key n] by (auto split: option.split simp: map_of_eq_None_iff)
      (metis fst_conv image_eqI map_of_SomeD)
  moreover have o: "lp_contents c' (s, n) = lp_contents c (s, n)" if "s \<noteq> ?key" for s n
    using w(2) [of s n] c(2) [of s n] that by simp
  moreover have "store_defaults c'" using assms w(1) o by (simp add: store_defaults_def)
  ultimately show thesis using that by blast
qed

text \<open>Writing a list: every section holds its information, and the section after the last is gone.\<close>

lemma written_list:
  assumes "store_defaults c"
  shows "\<exists>c'. write_auth_from env c infos i = Some (c', map (digested env) infos) \<and> store_defaults c'
    \<and> (\<forall>j < length infos. \<forall>n. lp_contents c' (auth_section (i + j), n) =
         (case map_of (auth_table (digested env (infos ! j))) n of Some v \<Rightarrow> present v | None \<Rightarrow> None))
    \<and> \<not> lp_config_has_section c' (auth_section (i + length infos))
    \<and> (\<forall>j < i. \<forall>n. lp_contents c' (auth_section j, n) = lp_contents c (auth_section j, n))"
  using assms
proof (induction infos arbitrary: c i)
  case Nil
  let ?c = "lp_config_clean_section c (auth_section i)"
  have "lp_ok ?c" "lp_contents ?c = (\<lambda>(s, k). if s = auth_section i then None else lp_contents c (s, k))"
    "\<not> lp_config_has_section ?c (auth_section i)"
    using clean_section_laws [of c "auth_section i"] Nil by (simp_all add: store_defaults_def)
  with Nil show ?case by (simp add: linphone_auth_info_write_config_def Let_def store_defaults_def)
next
  case (Cons ai infos)
  obtain c1 where c1: "linphone_auth_info_write_config env c (Some ai) i = Some (c1, Some (digested env ai))"
    "store_defaults c1"
    "\<And>n. lp_contents c1 (auth_section i, n) = (case map_of (auth_table (digested env ai)) n of Some v \<Rightarrow> present v | None \<Rightarrow> None)"
    "\<And>s n. s \<noteq> auth_section i \<Longrightarrow> lp_contents c1 (s, n) = lp_contents c (s, n)"
    using written_auth_info [OF Cons.prems, of env ai i] by metis
  from Cons.IH [OF c1(2), of "i + 1"] obtain c' where c': "write_auth_from env c1 infos (i + 1) = Some (c', map (digested env) infos)"
    "store_defaults c'"
    "\<And>j n. j < length infos \<Longrightarrow> lp_contents c' (auth_section (i + 1 + j), n) =
         (case map_of (auth_table (digested env (infos ! j))) n of Some v \<Rightarrow> present v | None \<Rightarrow> None)"
    "\<not> lp_config_has_section c' (auth_section (i + 1 + length infos))"
    "\<And>j n. j < i + 1 \<Longrightarrow> lp_contents c' (auth_section j, n) = lp_contents c1 (auth_section j, n)" by blast
  have "lp_contents c' (auth_section (i + j), n) =
         (case map_of (auth_table (digested env ((ai # infos) ! j))) n of Some v \<Rightarrow> present v | None \<Rightarrow> None)"
    if "j < Suc (length infos)" for j n
  proof (cases j)
    case 0
    then show ?thesis using c'(5) [of i n] c1(3) [of n] by simp
  next
    case (Suc k)
    then show ?thesis using c'(3) [of k n] that by simp
  qed
  moreover have "lp_contents c' (auth_section j, n) = lp_contents c (auth_section j, n)" if "j < i" for j n
    using that c'(5) [of j n] c1(4) [of "auth_section j" n] by simp
  ultimately show ?case using c1(1) c'(1,2,4) by simp
qed

section \<open>Reading\<close>

text \<open>Credentials as the functions of the core make them: no empty string, a digest or a password.\<close>

definition auth_valid :: "auth_info \<Rightarrow> bool" where
  "auth_valid ai \<longleftrightarrow> text_ok (ai_username ai) \<and> text_ok (ai_realm ai) \<and> text_ok (ai_userid ai)
     \<and> text_ok (ai_passwd ai) \<and> text_ok (ai_ha1 ai) \<and> text_ok (ai_domain ai) \<and> (ai_ha1 ai \<noteq> None \<or> ai_passwd ai \<noteq> None)"

lemma dup_present: "text_ok v \<Longrightarrow> dup_text v = v"
  by (cases v rule: present.cases) (auto simp: text_ok_def dup_text_def)

lemma table_get:
  assumes "\<And>n. lp_contents c (auth_section i, n) = (case map_of (auth_table ai) n of Some v \<Rightarrow> present v | None \<Rightarrow> None)"
  shows "lp_config_get_string c (auth_section i) n None = (case map_of (auth_table ai) n of Some v \<Rightarrow> present v | None \<Rightarrow> None)"
  unfolding get_string_contents assms by (simp split: option.split)

lemma read_back:
  assumes "\<And>n. lp_contents c (auth_section i, n) = (case map_of (auth_table ai) n of Some v \<Rightarrow> present v | None \<Rightarrow> None)"
    and "auth_valid ai"
  shows "linphone_auth_info_new_from_config_file c i = Some (stored_auth ai)"
proof -
  have p: "present (ai_username ai) = ai_username ai" "present (ai_realm ai) = ai_realm ai" "present (ai_userid ai) = ai_userid ai"
    "present (ai_passwd ai) = ai_passwd ai" "present (ai_ha1 ai) = ai_ha1 ai" "present (ai_domain ai) = ai_domain ai"
    using assms(2) by (simp_all add: auth_valid_def present_text)
  have d: "dup_text (ai_username ai) = ai_username ai" "dup_text (ai_realm ai) = ai_realm ai" "dup_text (ai_userid ai) = ai_userid ai"
    "dup_text (ai_passwd ai) = ai_passwd ai" "dup_text (ai_ha1 ai) = ai_ha1 ai" "dup_text (ai_domain ai) = ai_domain ai"
    "dup_text None = None"
    using assms(2) by (simp_all add: auth_valid_def dup_present text_ok_def)
  have "lp_contents c (auth_section i, ''ha1'') \<noteq> None \<or> lp_contents c (auth_section i, ''passwd'') \<noteq> None"
    using assms(2) p by (auto simp: assms(1) auth_table_def auth_valid_def)
  then have "lp_config_has_section c (auth_section i)" using has_section_contents by blast
  then have "linphone_auth_info_new_from_config_file c i =
      Some (linphone_auth_info_new (ai_username ai) (ai_userid ai) (if ai_ha1 ai = None then ai_passwd ai else None)
        (ai_ha1 ai) (ai_realm ai) (ai_domain ai))"
    by (simp add: linphone_auth_info_new_from_config_file_def Let_def table_get [OF assms(1)] auth_table_def p)
  also have "\<dots> = Some (stored_auth ai)"
    by (auto simp: linphone_auth_info_new_def d intro!: auth_info.equality)
  finally show ?thesis .
qed

lemma find_from_other_users:
  "\<forall>p \<in> set infos. ai_username p \<noteq> username \<Longrightarrow> find_auth_from infos i ret username realm domain = Some ret"
  by (induction infos arbitrary: i) auto

lemma insert_new_user:
  assumes "\<forall>p \<in> set infos. ai_username p \<noteq> ai_username info"
  shows "insert_auth_info infos info = Some (infos @ [info])"
proof -
  have "linphone_auth_info_clone info = info"
    by (rule auth_info.equality) (simp_all add: linphone_auth_info_clone_def)
  then show ?thesis
    by (simp add: insert_auth_info_def linphone_core_find_auth_info_def find_auth_info_def find_from_other_users [OF assms])
qed

lemma read_from:
  assumes "\<And>j. j < length infos \<Longrightarrow> linphone_auth_info_new_from_config_file (aw_config w) (i + j) = Some (infos ! j)"
    and "linphone_auth_info_new_from_config_file (aw_config w) (i + length infos) = None"
    and "\<forall>ai \<in> set infos. ai_ha1 ai \<noteq> None \<or> ai_passwd ai \<noteq> None"
    and "distinct (map ai_username (aw_auth_info w @ infos))" and "aw_pending w = []" and "\<not> ae_ready env"
  shows "read_auth_infos penv env i w = Some (w\<lparr>aw_auth_info := aw_auth_info w @ infos\<rparr>)"
  using assms
proof (induction infos arbitrary: i w)
  case Nil
  then show ?case by (simp add: read_auth_infos.simps)
next
  case (Cons ai infos)
  let ?w = "w\<lparr>aw_auth_info := aw_auth_info w @ [ai]\<rparr>"
  have first: "linphone_auth_info_new_from_config_file (aw_config w) i = Some ai" using Cons.prems(1) [of 0] by simp
  have "\<forall>p \<in> set (aw_auth_info w). ai_username p \<noteq> ai_username ai"
  proof -
    have "ai_username ai \<notin> ai_username ` set (aw_auth_info w)" using Cons.prems(4) by simp
    then show ?thesis by (metis image_eqI)
  qed
  then have "linphone_core_add_auth_info penv env w ai = Some ?w"
    using Cons.prems(3,5,6)
    by (auto simp: linphone_core_add_auth_info_def insert_new_user write_auth_infos_def)
  moreover have "read_auth_infos penv env (i + 1) ?w = Some (?w\<lparr>aw_auth_info := aw_auth_info ?w @ infos\<rparr>)"
  proof (rule Cons.IH)
    show "linphone_auth_info_new_from_config_file (aw_config ?w) (i + 1 + j) = Some (infos ! j)" if "j < length infos" for j
      using Cons.prems(1) [of "Suc j"] that by simp
  qed (use Cons.prems in simp_all)
  ultimately show ?case using first by (simp add: read_auth_infos.simps [of _ _ i])
qed

lemma digested_valid:
  assumes "auth_valid ai" and "\<And>u r p. ae_ha1 env u r p \<noteq> []"
  shows "auth_valid (digested env ai)" and "auth_valid (stored_auth (digested env ai))"
  using assms by (auto simp: auth_valid_def digested_def stored_auth_def text_ok_def)


section \<open>Instances\<close>

definition ex_auth_env :: "bool \<Rightarrow> auth_env" where
  "ex_auth_env ready = \<lparr>ae_ready = ready, ae_save_auth_info = False, ae_ha1 = (\<lambda>u r p. CHR ''#'' # u @ r @ p)\<rparr>"

definition ex_alice :: auth_info where
  "ex_alice = linphone_auth_info_new (Some ''alice'') None (Some ''secret'') None (Some ''example.org'') (Some ''example.org'')"

definition ex_auth_world :: "string auth_world" where
  "ex_auth_world = \<lparr>aw_auth_info = [], aw_config = lp_config_zero, aw_proxies = [(7, ex_world)],
     aw_pending = [\<lparr>pa_op = 3, pa_realm = Some ''example.org'', pa_username = Some ''alice'', pa_domain = Some ''example.org'',
       pa_user_pointer = Some 7\<rparr>], aw_authenticated = []\<rparr>"

definition ex_saved_world :: "string auth_world" where
  "ex_saved_world = ex_auth_world\<lparr>aw_auth_info := [ex_alice]\<rparr>"

definition ex_new_world :: "string auth_world" where
  "ex_new_world = ex_auth_world\<lparr>aw_pending := []\<rparr>"

lemma ex_alice_fields:
  "ai_username ex_alice = Some ''alice''" "ai_realm ex_alice = Some ''example.org''" "ai_domain ex_alice = Some ''example.org''"
  "ai_ha1 ex_alice = None" "ai_passwd ex_alice = Some ''secret''" "ai_userid ex_alice = None"
  by (simp_all add: ex_alice_def linphone_auth_info_new_def dup_text_def)

lemma ex_alice_found:
  "linphone_core_find_auth_info [ex_alice] (Some ''example.org'') (Some ''alice'') (Some ''example.org'') = Some (Some 0)"
  by (simp add: linphone_core_find_auth_info_def find_auth_info_def realm_of_def ex_alice_fields realm_match.simps)

lemma ex_alice_inserted: "insert_auth_info [] ex_alice = Some [ex_alice]"
  using insert_new_user [of "[]" ex_alice] by simp

lemma ex_alice_added:
  "\<exists>w'. linphone_core_add_auth_info ex_env (ex_auth_env True) ex_auth_world ex_alice = Some w'"
  by (simp add: linphone_core_add_auth_info_def ex_alice_fields ex_auth_world_def ex_alice_inserted retry_pending_def
      ex_alice_found ex_auth_env_def)

lemma found_credentials_match_witness:
  "0 < length [ex_alice] \<and> Some ''alice'' \<noteq> (None :: string option) \<and> ai_username ([ex_alice] ! 0) = Some ''alice''
    \<and> (realm_of (Some ''example.org'') ([ex_alice] ! 0) = Some True \<or> ai_ha1 ([ex_alice] ! 0) = None)"
  by (rule found_credentials_match [OF ex_alice_found])


lemma credentials_restart_waiting_operations_witness:
  "\<exists>w' :: string auth_world. (3, credentials_of ex_alice) \<in> set (aw_authenticated w') \<and> in_progress 7 (aw_proxies w')"
proof -
  from ex_alice_added obtain w' where w': "linphone_core_add_auth_info ex_env (ex_auth_env True) ex_auth_world ex_alice = Some w'" ..
  let ?p = "\<lparr>pa_op = 3, pa_realm = Some ''example.org'', pa_username = Some ''alice'', pa_domain = Some ''example.org'',
       pa_user_pointer = Some 7\<rparr>"
  have "(pa_op ?p, credentials_of ([ex_alice] ! 0)) \<in> set (aw_authenticated w')
    \<and> (\<forall>a. pa_user_pointer ?p = Some a \<and> map_of (aw_proxies ex_auth_world) a \<noteq> None \<longrightarrow> in_progress a (aw_proxies w'))"
    by (rule credentials_restart_waiting_operations [OF w'])
      (simp_all add: ex_alice_fields ex_auth_world_def ex_alice_inserted ex_alice_found)
  then have "(3, credentials_of ex_alice) \<in> set (aw_authenticated w') \<and> in_progress 7 (aw_proxies w')"
    by (simp add: ex_auth_world_def)
  then show ?thesis ..
qed


end
