(* ===== verification/CallModel.thy ===== *)
theory CallModel
  imports SdpProcess
begin

text \<open>
  The data of a call: the enumerations of \<open>coreapi/linphonecore.h\<close> and \<open>include/sal/sal.h\<close>,
  the parameters of \<open>coreapi/call_params.c\<close>, and the structures \<open>_LinphoneCallParams\<close>,
  \<open>StunCandidate\<close>, \<open>_PortConfig\<close> and \<open>_LinphoneCall\<close> of \<open>coreapi/private.h\<close>.

  A \<open>LinphoneCall*\<close> is a number, the call's place in the store of the core.  The fields left
  out of a call hold media objects, statistics, video windows and user data; what the modelled
  code asks of the streams is whether they exist and in which state they are.
\<close>

section \<open>Enumerations\<close>

datatype call_state =
    LinphoneCallIdle | LinphoneCallIncomingReceived | LinphoneCallOutgoingInit
  | LinphoneCallOutgoingProgress | LinphoneCallOutgoingRinging | LinphoneCallOutgoingEarlyMedia
  | LinphoneCallConnected | LinphoneCallStreamsRunning | LinphoneCallPausing | LinphoneCallPaused
  | LinphoneCallResuming | LinphoneCallRefered | LinphoneCallError | LinphoneCallEnd
  | LinphoneCallPausedByRemote | LinphoneCallUpdatedByRemote | LinphoneCallIncomingEarlyMedia
  | LinphoneCallUpdating | LinphoneCallReleased | LinphoneCallEarlyUpdatedByRemote
  | LinphoneCallEarlyUpdating

datatype call_dir = LinphoneCallOutgoing | LinphoneCallIncoming

datatype call_status =
  LinphoneCallSuccess | LinphoneCallAborted | LinphoneCallMissed | LinphoneCallDeclined

datatype media_encryption =
    LinphoneMediaEncryptionNone | LinphoneMediaEncryptionSRTP
  | LinphoneMediaEncryptionZRTP | LinphoneMediaEncryptionDTLS

datatype media_direction =
    LinphoneMediaDirectionInactive | LinphoneMediaDirectionSendOnly
  | LinphoneMediaDirectionRecvOnly | LinphoneMediaDirectionSendRecv

datatype sal_reason =
    SalReasonNone | SalReasonDeclined | SalReasonBusy | SalReasonRedirect
  | SalReasonTemporarilyUnavailable | SalReasonRequestTimeout | SalReasonNotFound
  | SalReasonDoNotDisturb | SalReasonUnsupportedContent | SalReasonForbidden | SalReasonUnknown
  | SalReasonServiceUnavailable | SalReasonRequestPending | SalReasonUnauthorized
  | SalReasonNotAcceptable | SalReasonNoMatch | SalReasonMovedPermanently | SalReasonGone
  | SalReasonAddressIncomplete | SalReasonNotImplemented | SalReasonBadGateway
  | SalReasonServerTimeout | SalReasonIOError

section \<open>Call parameters\<close>

record call_params =
  cp_referer :: "nat option"
  cp_audio_bw :: int
  cp_media_encryption :: media_encryption
  cp_down_bw :: int
  cp_up_bw :: int
  cp_down_ptime :: int
  cp_up_ptime :: int
  cp_session_name :: "string option"
  cp_has_video :: bool
  cp_avpf_enabled :: bool
  cp_real_early_media :: bool
  cp_in_conference :: bool
  cp_low_bandwidth :: bool
  cp_no_user_consent :: bool
  cp_avpf_rr_interval :: "16 word"
  cp_audio_dir :: media_direction
  cp_video_dir :: media_direction
  cp_video_declined :: bool
  cp_internal_call_update :: bool
  cp_video_multicast_enabled :: bool
  cp_audio_multicast_enabled :: bool

definition linphone_call_params_new :: call_params where
  "linphone_call_params_new = \<lparr>cp_referer = None, cp_audio_bw = 0,
     cp_media_encryption = LinphoneMediaEncryptionNone, cp_down_bw = 0, cp_up_bw = 0,
     cp_down_ptime = 0, cp_up_ptime = 0, cp_session_name = None, cp_has_video = False,
     cp_avpf_enabled = False, cp_real_early_media = False, cp_in_conference = False,
     cp_low_bandwidth = False, cp_no_user_consent = False, cp_avpf_rr_interval = 0,
     cp_audio_dir = LinphoneMediaDirectionSendRecv, cp_video_dir = LinphoneMediaDirectionSendRecv,
     cp_video_declined = False, cp_internal_call_update = False,
     cp_video_multicast_enabled = False, cp_audio_multicast_enabled = False\<rparr>"

definition get_proto_from_call_params :: "call_params \<Rightarrow> sal_media_proto" where
  "get_proto_from_call_params params =
     (if cp_media_encryption params = LinphoneMediaEncryptionSRTP \<and> cp_avpf_enabled params then SalProtoRtpSavpf
      else if cp_media_encryption params = LinphoneMediaEncryptionSRTP then SalProtoRtpSavp
      else if cp_media_encryption params = LinphoneMediaEncryptionDTLS \<and> cp_avpf_enabled params
        then SalProtoUdpTlsRtpSavpf
      else if cp_media_encryption params = LinphoneMediaEncryptionDTLS then SalProtoUdpTlsRtpSavp
      else if cp_avpf_enabled params then SalProtoRtpAvpf
      else SalProtoRtpAvp)"

fun sal_dir_from_call_params_dir :: "media_direction \<Rightarrow> sal_stream_dir" where
  "sal_dir_from_call_params_dir LinphoneMediaDirectionInactive = SalStreamInactive"
| "sal_dir_from_call_params_dir LinphoneMediaDirectionSendOnly = SalStreamSendOnly"
| "sal_dir_from_call_params_dir LinphoneMediaDirectionRecvOnly = SalStreamRecvOnly"
| "sal_dir_from_call_params_dir LinphoneMediaDirectionSendRecv = SalStreamSendRecv"

fun media_direction_from_sal_stream_dir :: "sal_stream_dir \<Rightarrow> media_direction" where
  "media_direction_from_sal_stream_dir SalStreamInactive = LinphoneMediaDirectionInactive"
| "media_direction_from_sal_stream_dir SalStreamSendOnly = LinphoneMediaDirectionSendOnly"
| "media_direction_from_sal_stream_dir SalStreamRecvOnly = LinphoneMediaDirectionRecvOnly"
| "media_direction_from_sal_stream_dir SalStreamSendRecv = LinphoneMediaDirectionSendRecv"

definition get_audio_dir_from_call_params :: "call_params \<Rightarrow> sal_stream_dir" where
  "get_audio_dir_from_call_params params = sal_dir_from_call_params_dir (cp_audio_dir params)"

definition get_video_dir_from_call_params :: "call_params \<Rightarrow> sal_stream_dir" where
  "get_video_dir_from_call_params params = sal_dir_from_call_params_dir (cp_video_dir params)"

definition linphone_call_params_enable_video :: "call_params \<Rightarrow> bool \<Rightarrow> call_params" where
  "linphone_call_params_enable_video cp enabled = (let cp = cp\<lparr>cp_has_video := enabled\<rparr> in
     if enabled \<and> cp_video_dir cp = LinphoneMediaDirectionInactive
     then cp\<lparr>cp_video_dir := LinphoneMediaDirectionSendRecv\<rparr> else cp)"

section \<open>Calls\<close>

record port_config =
  po_multicast_ip :: string
  po_rtp_port :: int
  po_rtcp_port :: int

record stun_candidate =
  sc_addr :: string
  sc_port :: int

text \<open>The operation a call speaks through: the descriptions it holds (\<open>sal_op\<close>), whether
  \<open>base.local_media\<close> is set, and whether that description is the very object the call
  has in \<open>localdesc\<close>.\<close>

record call_op =
  co_sal :: sal_op
  co_has_local :: bool
  co_shared :: bool

datatype stream_state = MSStreamInitialized | MSStreamPreparing | MSStreamStarted

record call =
  ca_non_op_error :: sal_reason
  ca_dir :: call_dir
  ca_biggestdesc :: "sal_media_description option"
  ca_localdesc :: "sal_media_description option"
  ca_resultdesc :: "sal_media_description option"
  ca_log_status :: call_status
  ca_log_to :: string
  ca_op :: "call_op option"
  ca_ping_op :: bool
  ca_media_localip :: string
  ca_state :: call_state
  ca_prevstate :: call_state
  ca_transfer_state :: call_state
  ca_media_ports :: "port_config list"
  ca_ac :: stun_candidate
  ca_vc :: stun_candidate
  ca_audiostream :: "stream_state option"
  ca_videostream :: "stream_state option"
  ca_refer_to :: "string option"
  ca_params :: call_params
  ca_current_params :: call_params
  ca_up_bw :: int
  ca_ice_session :: bool
  ca_ping_time :: int
  ca_remote_session_id :: nat
  ca_remote_session_ver :: nat
  ca_referer :: "nat option"
  ca_transfer_target :: "nat option"
  ca_localdesc_changed :: changes
  ca_dtmfs_timer :: bool
  ca_dtls_certificate_fingerprint :: string
  ca_refer_pending :: bool
  ca_expect_media_in_ack :: bool
  ca_all_muted :: bool
  ca_playing_ringbacktone :: bool
  ca_ringing_beep :: bool
  ca_defer_update :: bool
  ca_was_automatically_paused :: bool
  ca_ping_replied :: bool
  ca_paused_by_app :: bool

fun linphone_call_state_to_string :: "call_state \<Rightarrow> string" where
  "linphone_call_state_to_string LinphoneCallIdle = ''LinphoneCallIdle''"
| "linphone_call_state_to_string LinphoneCallIncomingReceived = ''LinphoneCallIncomingReceived''"
| "linphone_call_state_to_string LinphoneCallOutgoingInit = ''LinphoneCallOutgoingInit''"
| "linphone_call_state_to_string LinphoneCallOutgoingProgress = ''LinphoneCallOutgoingProgress''"
| "linphone_call_state_to_string LinphoneCallOutgoingRinging = ''LinphoneCallOutgoingRinging''"
| "linphone_call_state_to_string LinphoneCallOutgoingEarlyMedia = ''LinphoneCallOutgoingEarlyMedia''"
| "linphone_call_state_to_string LinphoneCallConnected = ''LinphoneCallConnected''"
| "linphone_call_state_to_string LinphoneCallStreamsRunning = ''LinphoneCallStreamsRunning''"
| "linphone_call_state_to_string LinphoneCallPausing = ''LinphoneCallPausing''"
| "linphone_call_state_to_string LinphoneCallPaused = ''LinphoneCallPaused''"
| "linphone_call_state_to_string LinphoneCallResuming = ''LinphoneCallResuming''"
| "linphone_call_state_to_string LinphoneCallRefered = ''LinphoneCallRefered''"
| "linphone_call_state_to_string LinphoneCallError = ''LinphoneCallError''"
| "linphone_call_state_to_string LinphoneCallEnd = ''LinphoneCallEnd''"
| "linphone_call_state_to_string LinphoneCallPausedByRemote = ''LinphoneCallPausedByRemote''"
| "linphone_call_state_to_string LinphoneCallUpdatedByRemote = ''LinphoneCallUpdatedByRemote''"
| "linphone_call_state_to_string LinphoneCallIncomingEarlyMedia = ''LinphoneCallIncomingEarlyMedia''"
| "linphone_call_state_to_string LinphoneCallUpdating = ''LinphoneCallUpdating''"
| "linphone_call_state_to_string LinphoneCallReleased = ''LinphoneCallReleased''"
| "linphone_call_state_to_string LinphoneCallEarlyUpdatedByRemote = ''LinphoneCallEarlyUpdatedByRemote''"
| "linphone_call_state_to_string LinphoneCallEarlyUpdating = ''LinphoneCallEarlyUpdating''"

section \<open>Facts about parameters\<close>

lemma stream_dir_round_trip [simp]:
  "media_direction_from_sal_stream_dir (sal_dir_from_call_params_dir d) = d"
  "sal_dir_from_call_params_dir (media_direction_from_sal_stream_dir s) = s"
  by (cases d; simp) (cases s; simp)

lemma proto_secured:
  "get_proto_from_call_params p \<in> {SalProtoRtpSavp, SalProtoRtpSavpf}
     \<longleftrightarrow> cp_media_encryption p = LinphoneMediaEncryptionSRTP"
  by (cases "cp_media_encryption p") (auto simp: get_proto_from_call_params_def)

lemma call_state_to_string_inj: "linphone_call_state_to_string a = linphone_call_state_to_string b \<longleftrightarrow> a = b"
  by (cases a; cases b) simp_all

end
