(* ===== verification/PayloadNumbers.thy ===== *)
theory PayloadNumbers
  imports CallModel
begin

text \<open>
  The list of codecs a call offers and the payload type numbers it gives them: the functions
  \<open>get_max_codec_sample_rate\<close> to \<open>make_codec_list\<close> of \<open>coreapi/linphonecall.c\<close>.

  A \<open>PayloadType*\<close> into the list under construction is its position.  \<open>codec_env\<close> holds
  what the code reads from the core (\<open>codecs_conf\<close>, the comfort noise setting), the two
  codecs mediastreamer2 defines (\<open>payload_type_telephone_event\<close>, \<open>payload_type_cn\<close>), and
  the two usability tests of \<open>coreapi/misc.c\<close>, which compute bandwidths in floating point.
\<close>

record codec_env =
  ce_usable_for_bandwidth :: "payload_type \<Rightarrow> int \<Rightarrow> bool"
  ce_check_usability :: "payload_type \<Rightarrow> bool"
  ce_dyn_pt :: int
  ce_telephone_event_pt :: int
  ce_generic_confort_noise :: bool
  ce_payload_type_telephone_event :: payload_type
  ce_payload_type_cn :: payload_type
  ce_audio_codecs :: "payload_type list"
  ce_video_codecs :: "payload_type list"

section \<open>Queries on codec lists\<close>

fun max_rate_loop :: "int \<Rightarrow> payload_type list \<Rightarrow> int" where
  "max_rate_loop max_sample_rate [] = max_sample_rate"
| "max_rate_loop max_sample_rate (pt # l) = (let
     sample_rate = (if strcaseeq0 (Some ''G722'') (pt_mime_type pt) then 16000 else pt_clock_rate pt)
   in max_rate_loop (if sample_rate > max_sample_rate then sample_rate else max_sample_rate) l)"

definition get_max_codec_sample_rate :: "payload_type list \<Rightarrow> int" where
  "get_max_codec_sample_rate codecs = max_rate_loop 0 codecs"

definition codec_alike :: "payload_type \<Rightarrow> payload_type \<Rightarrow> bool" where
  "codec_alike pt it \<longleftrightarrow> strcaseeq0 (pt_mime_type pt) (pt_mime_type it)
     \<and> pt_clock_rate it = pt_clock_rate pt \<and> (pt_channels it = pt_channels pt \<or> pt_channels pt \<le> 0)"

definition same_recv_fmtp :: "payload_type \<Rightarrow> payload_type \<Rightarrow> bool" where
  "same_recv_fmtp pt it \<longleftrightarrow> strcaseeq0 (pt_recv_fmtp it) (pt_recv_fmtp pt)
     \<or> pt_recv_fmtp it = None \<and> pt_recv_fmtp pt = None"

fun find_number_loop :: "payload_type \<Rightarrow> payload_type list \<Rightarrow> payload_type option \<Rightarrow> payload_type option" where
  "find_number_loop pt [] candidate = candidate"
| "find_number_loop pt (it # l) candidate =
     (if codec_alike pt it then
        if same_recv_fmtp pt it then Some it else find_number_loop pt l (Some it)
      else find_number_loop pt l candidate)"

definition find_payload_type_number :: "payload_type list \<Rightarrow> payload_type \<Rightarrow> int" where
  "find_payload_type_number assigned pt =
     (case find_number_loop pt assigned None of Some candidate \<Rightarrow> pt_number candidate | None \<Rightarrow> -1)"

fun number_available_from :: "nat \<Rightarrow> payload_type list \<Rightarrow> int \<Rightarrow> nat option \<Rightarrow> bool" where
  "number_available_from i [] number ignore = True"
| "number_available_from i (pt # l) number ignore =
     (if Some i \<noteq> ignore \<and> pt_number pt = number then False
      else number_available_from (Suc i) l number ignore)"

definition is_payload_type_number_available :: "payload_type list \<Rightarrow> int \<Rightarrow> nat option \<Rightarrow> bool" where
  "is_payload_type_number_available l number ignore = number_available_from 0 l number ignore"

section \<open>Assigning numbers\<close>

text \<open>The \<open>while\<close> loop: the number found, if any, and \<open>dyn_number\<close> after it.\<close>

function next_dyn_number :: "payload_type list \<Rightarrow> int \<Rightarrow> int option \<times> int" where
  "next_dyn_number codecs dyn_number =
     (if dyn_number < 127 then
        if is_payload_type_number_available codecs dyn_number None
        then (Some dyn_number, dyn_number + 1)
        else next_dyn_number codecs (dyn_number + 1)
      else (None, dyn_number))"
  by pat_completeness auto

termination next_dyn_number
  by (relation "measure (\<lambda>(_, n). nat (127 - n))") auto

declare next_dyn_number.simps [simp del]

definition assign_one :: "nat \<Rightarrow> payload_type list \<times> int \<Rightarrow> payload_type list \<times> int" where
  "assign_one i st = (case st of (codecs, dyn_number) \<Rightarrow> (let
     pt = codecs ! i;
     number = pt_number pt;
     number = (if number \<noteq> -1 \<and> FLAG_FROZEN_NUMBER \<notin> pt_flags pt
                  \<and> \<not> is_payload_type_number_available codecs number (Some i) then -1 else number)
   in if number = -1 then
        (case next_dyn_number codecs dyn_number of (found, dyn) \<Rightarrow> (let
           codecs = (case found of Some n \<Rightarrow> codecs[i := pt\<lparr>pt_number := n\<rparr>] | None \<Rightarrow> codecs);
           codecs = (if dyn = 127
              then codecs[i := (codecs ! i)\<lparr>pt_flags := pt_flags (codecs ! i) - {FLAG_ENABLED}\<rparr>] else codecs)
         in (codecs, dyn)))
      else (codecs, dyn_number)))"

definition linphone_core_assign_payload_type_numbers :: "int \<Rightarrow> payload_type list \<Rightarrow> payload_type list" where
  "linphone_core_assign_payload_type_numbers dyn_pt codecs =
     fst (fold assign_one [0..<length codecs] (codecs, dyn_pt))"

section \<open>Telephone events and comfort noise\<close>

fun has_telephone_event_at_rate :: "payload_type list \<Rightarrow> int \<Rightarrow> bool" where
  "has_telephone_event_at_rate [] rate = False"
| "has_telephone_event_at_rate (pt # tev) rate =
     (if pt_clock_rate pt = rate then True else has_telephone_event_at_rate tev rate)"

fun telephone_events_loop :: "codec_env \<Rightarrow> payload_type list \<Rightarrow> payload_type list \<Rightarrow> payload_type list
    \<Rightarrow> payload_type list" where
  "telephone_events_loop env codecs [] ret = ret"
| "telephone_events_loop env codecs (pt # l) ret =
     (if \<not> has_telephone_event_at_rate ret (pt_clock_rate pt) then (let
        tev = (ce_payload_type_telephone_event env)\<lparr>pt_clock_rate := pt_clock_rate pt, pt_number := -1\<rparr>;
        tev = (if ret = [] \<and> is_payload_type_number_available codecs (ce_telephone_event_pt env) None
               then tev\<lparr>pt_number := ce_telephone_event_pt env\<rparr> else tev)
      in telephone_events_loop env codecs l (ret @ [tev]))
      else telephone_events_loop env codecs l ret)"

definition create_telephone_events :: "codec_env \<Rightarrow> payload_type list \<Rightarrow> payload_type list" where
  "create_telephone_events env codecs = telephone_events_loop env codecs codecs []"

definition create_special_payload_types :: "codec_env \<Rightarrow> payload_type list \<Rightarrow> payload_type list" where
  "create_special_payload_types env codecs = create_telephone_events env codecs
     @ (if ce_generic_confort_noise env then [(ce_payload_type_cn env)\<lparr>pt_number := 13\<rparr>] else [])"

section \<open>The list of codecs\<close>

record codec_constraints =
  cc_bandwidth_limit :: int
  cc_max_codecs :: int
  cc_previously_used :: "payload_type list"

definition number_codec :: "payload_type list \<Rightarrow> payload_type \<Rightarrow> payload_type" where
  "number_codec previously_used pt = (let num = find_payload_type_number previously_used pt in
     if num \<noteq> -1 then pt\<lparr>pt_number := num, pt_flags := insert FLAG_FROZEN_NUMBER (pt_flags pt)\<rparr> else pt)"

definition codec_eliminated :: "codec_env \<Rightarrow> codec_constraints \<Rightarrow> payload_type \<Rightarrow> bool" where
  "codec_eliminated env hints pt \<longleftrightarrow> FLAG_ENABLED \<notin> pt_flags pt
     \<or> cc_bandwidth_limit hints > 0 \<and> \<not> ce_usable_for_bandwidth env pt (cc_bandwidth_limit hints)
     \<or> \<not> ce_check_usability env pt"

fun codec_list_loop :: "codec_env \<Rightarrow> codec_constraints \<Rightarrow> payload_type list \<Rightarrow> payload_type list \<Rightarrow> int
    \<Rightarrow> payload_type list" where
  "codec_list_loop env hints [] l nb = l"
| "codec_list_loop env hints (pt # codecs) l nb =
     (if codec_eliminated env hints pt then codec_list_loop env hints codecs l nb
      else (let l = l @ [number_codec (cc_previously_used hints) pt]; nb = nb + 1 in
        if cc_max_codecs hints > 0 \<and> nb \<ge> cc_max_codecs hints then l
        else codec_list_loop env hints codecs l nb))"

definition make_codec_list :: "codec_env \<Rightarrow> codec_constraints \<Rightarrow> sal_stream_type \<Rightarrow> payload_type list
    \<Rightarrow> payload_type list" where
  "make_codec_list env hints stype codecs = (let
     l = codec_list_loop env hints codecs [] 0;
     l = (if stype = SalAudio then l @ create_special_payload_types env l else l)
   in linphone_core_assign_payload_type_numbers (ce_dyn_pt env) l)"

end
