(* ===== verification/PayloadProps.thy ===== *)
theory PayloadProps
  imports PayloadNumbers
begin

text \<open>
  What the numbers of a codec list are good for: a number read back from the peer names one
  codec, numbers of earlier offers are kept, new ones stay in the dynamic range, and one
  telephone-event is offered per clock rate.
\<close>

section \<open>Searching numbers\<close>

lemma number_available_from_iff:
  "number_available_from i l number ignore \<longleftrightarrow>
     (\<forall>k < length l. Some (i + k) \<noteq> ignore \<longrightarrow> pt_number (l ! k) \<noteq> number)"
proof (induction l arbitrary: i)
  case (Cons pt l)
  show ?case unfolding number_available_from.simps Cons.IH
    by (auto simp: All_less_Suc2 nth_Cons split: nat.splits)
qed simp

lemma number_available_iff:
  "is_payload_type_number_available l number ignore \<longleftrightarrow>
     (\<forall>k < length l. Some k \<noteq> ignore \<longrightarrow> pt_number (l ! k) \<noteq> number)"
  by (simp add: is_payload_type_number_available_def number_available_from_iff)

lemma next_dyn_number_SomeD:
  "next_dyn_number codecs dyn = (Some n, dyn') \<Longrightarrow>
     dyn \<le> n \<and> n < 127 \<and> dyn' = n + 1 \<and> is_payload_type_number_available codecs n None"
proof (induction codecs dyn rule: next_dyn_number.induct)
  case (1 codecs dyn)
  then show ?case
    by (subst (asm) next_dyn_number.simps) (auto split: if_splits)
qed

lemma next_dyn_number_NoneD:
  "next_dyn_number codecs dyn = (None, dyn') \<Longrightarrow>
     dyn' = max dyn 127 \<and> (\<forall>n. dyn \<le> n \<and> n < 127 \<longrightarrow> \<not> is_payload_type_number_available codecs n None)"
proof (induction codecs dyn rule: next_dyn_number.induct)
  case (1 codecs dyn)
  show ?case
  proof (cases "dyn < 127 \<and> \<not> is_payload_type_number_available codecs dyn None")
    case True
    with 1 have "dyn' = max (dyn + 1) 127"
      and all: "\<forall>n. dyn + 1 \<le> n \<and> n < 127 \<longrightarrow> \<not> is_payload_type_number_available codecs n None"
      by (auto simp: next_dyn_number.simps [of codecs dyn])
    moreover have "\<not> is_payload_type_number_available codecs n None" if "dyn \<le> n" "n < 127" for n
      using True all that by (cases "n = dyn") auto
    ultimately show ?thesis using True by auto
  next
    case False
    with 1(2) show ?thesis by (auto simp: next_dyn_number.simps [of codecs dyn] split: if_splits)
  qed
qed

section \<open>Assigning numbers\<close>

text \<open>What one step may do to the codec it is about, and that it touches no other.\<close>

lemma assign_one_cases:
  assumes "assign_one i (codecs, dyn) = (codecs', dyn')" and "i < length codecs" and "dyn \<le> 127"
  obtains (keep) "codecs' = codecs" "dyn' = dyn" "pt_number (codecs ! i) \<noteq> -1"
      "FLAG_FROZEN_NUMBER \<in> pt_flags (codecs ! i)
         \<or> is_payload_type_number_available codecs (pt_number (codecs ! i)) (Some i)"
    | (assigned) n f where "codecs' = codecs[i := (codecs ! i)\<lparr>pt_number := n, pt_flags := f\<rparr>]"
        "f = pt_flags (codecs ! i) \<or> f = pt_flags (codecs ! i) - {FLAG_ENABLED}"
        "dyn \<le> n" "n < 127" "dyn' = n + 1" "is_payload_type_number_available codecs n None"
        "pt_number (codecs ! i) = -1 \<or> FLAG_FROZEN_NUMBER \<notin> pt_flags (codecs ! i)"
    | (exhausted) "codecs' = codecs[i := (codecs ! i)\<lparr>pt_flags := pt_flags (codecs ! i) - {FLAG_ENABLED}\<rparr>]"
        "dyn' = 127" "pt_number (codecs ! i) = -1 \<or> FLAG_FROZEN_NUMBER \<notin> pt_flags (codecs ! i)"
proof -
  let ?pt = "codecs ! i"
  let ?re = "pt_number ?pt = -1 \<or> FLAG_FROZEN_NUMBER \<notin> pt_flags ?pt
    \<and> \<not> is_payload_type_number_available codecs (pt_number ?pt) (Some i)"
  show thesis
  proof (cases ?re)
    case False
    with assms(1) show thesis by (intro keep) (auto simp: assign_one_def Let_def split: if_splits)
  next
    case True
    obtain found d where nd: "next_dyn_number codecs dyn = (found, d)" by fastforce
    show thesis
    proof (cases found)
      case (Some n)
      let ?f = "if d = 127 then pt_flags ?pt - {FLAG_ENABLED} else pt_flags ?pt"
      have "codecs' = codecs[i := ?pt\<lparr>pt_number := n, pt_flags := ?f\<rparr>]" "dyn' = d"
        using assms(1,2) True nd Some by (auto simp: assign_one_def Let_def split: if_splits)
      with next_dyn_number_SomeD [of codecs dyn n d] nd Some True show thesis
        by (intro assigned [where n = n and f = ?f]) auto
    next
      case None
      with next_dyn_number_NoneD [of codecs dyn d] nd assms(3) have d: "d = 127" by auto
      have "codecs' = codecs[i := ?pt\<lparr>pt_flags := pt_flags ?pt - {FLAG_ENABLED}\<rparr>]" "dyn' = d"
        using assms(1,2) True nd None d by (auto simp: assign_one_def Let_def split: if_splits)
      with d True show thesis by (intro exhausted) auto
    qed
  qed
qed

text \<open>The invariant of the loop, once the codecs below \<open>k\<close> are settled.\<close>

definition number_unique :: "payload_type list \<Rightarrow> nat \<Rightarrow> bool" where
  "number_unique c i \<longleftrightarrow> (\<forall>j < length c. j \<noteq> i \<longrightarrow> pt_number (c ! j) \<noteq> pt_number (c ! i))"

definition number_kept :: "int \<Rightarrow> payload_type \<Rightarrow> payload_type \<Rightarrow> bool" where
  "number_kept dyn0 old new \<longleftrightarrow>
     (\<exists>n f. new = old\<lparr>pt_number := n, pt_flags := f\<rparr>
        \<and> (f = pt_flags old \<or> f = pt_flags old - {FLAG_ENABLED})
        \<and> (n = pt_number old \<or> dyn0 \<le> n \<and> n < 127 \<and> (pt_number old = -1 \<or> FLAG_FROZEN_NUMBER \<notin> pt_flags old)))"

definition number_settled :: "payload_type list \<Rightarrow> nat \<Rightarrow> bool" where
  "number_settled c i \<longleftrightarrow> FLAG_ENABLED \<notin> pt_flags (c ! i)
     \<or> pt_number (c ! i) \<noteq> -1 \<and> (FLAG_FROZEN_NUMBER \<in> pt_flags (c ! i) \<or> number_unique c i)"

definition assign_inv :: "int \<Rightarrow> payload_type list \<Rightarrow> nat \<Rightarrow> payload_type list \<times> int \<Rightarrow> bool" where
  "assign_inv dyn0 l k st \<longleftrightarrow> (case st of (c, dyn) \<Rightarrow> length c = length l \<and> dyn0 \<le> dyn \<and> dyn \<le> 127
     \<and> (\<forall>i < length l. k \<le> i \<longrightarrow> c ! i = l ! i)
     \<and> (\<forall>i < length l. number_kept dyn0 (l ! i) (c ! i))
     \<and> (\<forall>i < k. number_settled c i))"

lemma number_keptI:
  "new = old\<lparr>pt_number := n, pt_flags := f\<rparr> \<Longrightarrow> f = pt_flags old \<or> f = pt_flags old - {FLAG_ENABLED}
     \<Longrightarrow> n = pt_number old \<or> dyn0 \<le> n \<and> n < 127 \<and> (pt_number old = -1 \<or> FLAG_FROZEN_NUMBER \<notin> pt_flags old)
     \<Longrightarrow> number_kept dyn0 old new"
  by (auto simp only: number_kept_def)

lemma number_kept_refl [simp]: "number_kept dyn0 p p"
  by (auto simp: number_kept_def intro!: exI [of _ "pt_number p"] exI [of _ "pt_flags p"])

lemma settled_update:
  assumes "number_settled c i" and "i \<noteq> k" and "k < length c" and "i < length c"
    and "c' = c[k := q]" and "pt_number q = pt_number (c ! k) \<or> is_payload_type_number_available c (pt_number q) None"
  shows "number_settled c' i"
  using assms by (auto simp: number_settled_def number_unique_def number_available_iff nth_list_update)

lemma assign_inv_step:
  assumes inv: "assign_inv dyn0 l k st" and k: "k < length l" and dyn0: "0 \<le> dyn0"
  shows "assign_inv dyn0 l (Suc k) (assign_one k st)"
proof -
  obtain c dyn where st: "st = (c, dyn)" by fastforce
  obtain c' dyn' where st': "assign_one k st = (c', dyn')" by fastforce
  from inv st have I: "length c = length l" "dyn0 \<le> dyn" "dyn \<le> 127" "\<forall>i < length l. k \<le> i \<longrightarrow> c ! i = l ! i"
    "\<forall>i < length l. number_kept dyn0 (l ! i) (c ! i)" "\<forall>i < k. number_settled c i" by (auto simp: assign_inv_def)
  have ck: "c ! k = l ! k" using I k by simp
  from st st' I k have "assign_one k (c, dyn) = (c', dyn')" "k < length c" "dyn \<le> 127" by auto
  then show ?thesis
  proof (cases rule: assign_one_cases)
    case keep
    then have "number_settled c k" using k I(1)
      by (auto simp: number_settled_def number_unique_def number_available_iff)
    then show ?thesis using keep I st' by (auto simp: assign_inv_def less_Suc_eq)
  next
    case (assigned n f)
    have "number_settled c' i" if "i < k" for i
      by (rule settled_update [where k = k]) (use assigned I k that in auto)
    moreover have "number_settled c' k" using assigned k I(1,2) dyn0
      by (auto simp: number_settled_def number_unique_def number_available_iff nth_list_update)
    moreover have "number_kept dyn0 (l ! k) (c' ! k)"
      by (rule number_keptI [where n = n and f = f]) (use assigned k I(1,2) ck in auto)
    ultimately show ?thesis using assigned I st' k
      by (auto simp: assign_inv_def less_Suc_eq nth_list_update)
  next
    case exhausted
    have "number_settled c' i" if "i < k" for i
      by (rule settled_update [where k = k]) (use exhausted I k that in auto)
    moreover have "number_settled c' k" using exhausted k I(1) by (simp add: number_settled_def)
    moreover have "number_kept dyn0 (l ! k) (c' ! k)"
      by (rule number_keptI [where n = "pt_number (l ! k)" and f = "pt_flags (l ! k) - {FLAG_ENABLED}"])
        (use exhausted k I(1) ck in auto)
    ultimately show ?thesis using exhausted I st' k
      by (auto simp: assign_inv_def less_Suc_eq nth_list_update)
  qed
qed

lemma assign_inv_fold:
  "k \<le> length l \<Longrightarrow> 0 \<le> dyn0 \<Longrightarrow> dyn0 \<le> 127 \<Longrightarrow> assign_inv dyn0 l k (fold assign_one [0..<k] (l, dyn0))"
proof (induction k)
  case 0
  then show ?case by (simp add: assign_inv_def)
next
  case (Suc k)
  then show ?case by (auto intro: assign_inv_step)
qed

lemma assigned_numbers:
  assumes "0 \<le> dyn_pt" "dyn_pt \<le> 127" and "l' = linphone_core_assign_payload_type_numbers dyn_pt l"
  shows "length l' = length l" "i < length l \<Longrightarrow> number_kept dyn_pt (l ! i) (l' ! i)"
    "i < length l \<Longrightarrow> number_settled l' i"
  using assign_inv_fold [of "length l" l dyn_pt] assms
  by (auto simp: assign_inv_def linphone_core_assign_payload_type_numbers_def split: prod.splits)

text \<open>C32. A payload type number names one codec: after the assignment an enabled codec whose
  number was not imposed by an earlier offer has a number, and no other codec of the list,
  enabled or not, has the same one.\<close>

theorem payload_numbers_unambiguous:
  assumes "0 \<le> dyn_pt" and "dyn_pt \<le> 127"
    and "l' = linphone_core_assign_payload_type_numbers dyn_pt l"
    and "i < length l'" and "FLAG_ENABLED \<in> pt_flags (l' ! i)" and "FLAG_FROZEN_NUMBER \<notin> pt_flags (l' ! i)"
    and "j < length l'" and "j \<noteq> i"
  shows "pt_number (l' ! i) \<noteq> -1 \<and> pt_number (l' ! j) \<noteq> pt_number (l' ! i)"
  using assigned_numbers [OF assms(1-3)] assms(4-)
  by (auto simp: number_settled_def number_unique_def)

section \<open>The list of codecs\<close>

lemma codec_list_loop_unbounded:
  "cc_max_codecs hints \<le> 0 \<Longrightarrow> codec_list_loop env hints codecs l nb
     = l @ map (number_codec (cc_previously_used hints)) (filter (\<lambda>pt. \<not> codec_eliminated env hints pt) codecs)"
  by (induction codecs arbitrary: l nb) auto

lemma find_number_loop_SomeD:
  "find_number_loop pt l c = Some q \<Longrightarrow> c = Some q \<or> q \<in> set l \<and> codec_alike pt q"
  by (induction l arbitrary: c) (auto split: if_splits)

lemma find_payload_type_numberD:
  "find_payload_type_number l pt \<noteq> -1 \<Longrightarrow>
     \<exists>q \<in> set l. codec_alike pt q \<and> pt_number q = find_payload_type_number l pt"
  by (auto simp: find_payload_type_number_def dest: find_number_loop_SomeD split: option.splits)

lemma number_codec_frozen:
  "find_payload_type_number prev pt \<noteq> -1 \<Longrightarrow> number_codec prev pt
     = pt\<lparr>pt_number := find_payload_type_number prev pt, pt_flags := insert FLAG_FROZEN_NUMBER (pt_flags pt)\<rparr>"
  by (simp add: number_codec_def Let_def)

text \<open>C33. Numbers survive renegotiation: a configured codec that was offered before, and that
  the call can use, is offered again under the number it had, whatever other codecs were added
  or reordered since.\<close>

theorem reoffer_keeps_numbers:
  assumes "0 \<le> ce_dyn_pt env" and "ce_dyn_pt env \<le> 127" and "cc_max_codecs hints \<le> 0"
    and "pt \<in> set codecs" and "\<not> codec_eliminated env hints pt"
    and "find_payload_type_number (cc_previously_used hints) pt = number" and "number \<noteq> -1"
  shows "\<exists>new \<in> set (make_codec_list env hints stype codecs). pt_number new = number
     \<and> pt_mime_type new = pt_mime_type pt \<and> pt_clock_rate new = pt_clock_rate pt
     \<and> pt_channels new = pt_channels pt \<and> pt_recv_fmtp new = pt_recv_fmtp pt
     \<and> (\<exists>old \<in> set (cc_previously_used hints). codec_alike pt old \<and> pt_number old = number)"
proof -
  define l where "l = codec_list_loop env hints codecs [] 0"
  define l2 where "l2 = (if stype = SalAudio then l @ create_special_payload_types env l else l)"
  let ?q = "number_codec (cc_previously_used hints) pt"
  have "?q \<in> set l2" using assms(3-5) by (auto simp: l2_def l_def codec_list_loop_unbounded)
  then obtain i where i: "i < length l2" "l2 ! i = ?q" by (auto simp: in_set_conv_nth)
  have res: "make_codec_list env hints stype codecs = linphone_core_assign_payload_type_numbers (ce_dyn_pt env) l2"
    by (simp add: make_codec_list_def l2_def l_def Let_def)
  let ?new = "linphone_core_assign_payload_type_numbers (ce_dyn_pt env) l2 ! i"
  have q: "?q = pt\<lparr>pt_number := number, pt_flags := insert FLAG_FROZEN_NUMBER (pt_flags pt)\<rparr>"
    using number_codec_frozen [of "cc_previously_used hints" pt] assms(6,7) by simp
  note A = assigned_numbers [OF assms(1,2) refl, where l = l2]
  have "number_kept (ce_dyn_pt env) ?q ?new" using A(2) [where i = i] i by simp
  then have "pt_number ?new = number" "pt_mime_type ?new = pt_mime_type pt"
    "pt_clock_rate ?new = pt_clock_rate pt" "pt_channels ?new = pt_channels pt" "pt_recv_fmtp ?new = pt_recv_fmtp pt"
    using q assms(7) by (auto simp: number_kept_def)
  moreover have "?new \<in> set (make_codec_list env hints stype codecs)" using A(1) i res by auto
  moreover have "\<exists>old \<in> set (cc_previously_used hints). codec_alike pt old \<and> pt_number old = number"
    using find_payload_type_numberD [of "cc_previously_used hints" pt] assms(6,7) by simp
  ultimately show ?thesis by (intro bexI [of _ ?new]) simp_all
qed

section \<open>Telephone events\<close>

lemma has_telephone_event_iff: "has_telephone_event_at_rate l r \<longleftrightarrow> r \<in> pt_clock_rate ` set l"
  by (induction l) auto

lemma telephone_events_rates:
  "distinct (map pt_clock_rate ret) \<Longrightarrow> distinct (map pt_clock_rate (telephone_events_loop env codecs l ret))
     \<and> pt_clock_rate ` set (telephone_events_loop env codecs l ret) = pt_clock_rate ` set ret \<union> pt_clock_rate ` set l"
proof (induction l arbitrary: ret)
  case (Cons pt l)
  show ?case
  proof (cases "has_telephone_event_at_rate ret (pt_clock_rate pt)")
    case True
    then show ?thesis using Cons.IH [OF Cons.prems] by (auto simp: has_telephone_event_iff)
  next
    case False
    let ?tev = "\<lambda>n. (ce_payload_type_telephone_event env)\<lparr>pt_clock_rate := pt_clock_rate pt, pt_number := n\<rparr>"
    have "\<exists>n. telephone_events_loop env codecs (pt # l) ret = telephone_events_loop env codecs l (ret @ [?tev n])"
      using False by (cases "ret = [] \<and> is_payload_type_number_available codecs (ce_telephone_event_pt env) None")
        (fastforce simp: Let_def)+
    then obtain n where n: "telephone_events_loop env codecs (pt # l) ret
        = telephone_events_loop env codecs l (ret @ [?tev n])" by blast
    show ?thesis unfolding n
      using Cons.IH [of "ret @ [?tev n]"] Cons.prems False by (auto simp: has_telephone_event_iff)
  qed
qed simp

lemma one_telephone_event_per_rate:
  "distinct (map pt_clock_rate (create_telephone_events env codecs))"
  "pt_clock_rate ` set (create_telephone_events env codecs) = pt_clock_rate ` set codecs"
  using telephone_events_rates [of "[]" env codecs codecs] by (auto simp: create_telephone_events_def)

section \<open>Examples\<close>

definition ex_codec :: "string \<Rightarrow> int \<Rightarrow> int \<Rightarrow> string option \<Rightarrow> payload_type" where
  "ex_codec mime rate number fmtp = \<lparr>pt_type = 0, pt_mime_type = Some mime, pt_clock_rate = rate, pt_channels = 1, pt_normal_bitrate = 64000,
     pt_recv_fmtp = fmtp, pt_send_fmtp = None, pt_number = number, pt_flags = {FLAG_ENABLED},
     pt_avpf = \<lparr>avpf_features = 0, avpf_rpsi_compatibility = False, avpf_trr_interval = 0\<rparr>\<rparr>"

definition ex_codec_env :: codec_env where
  "ex_codec_env = \<lparr>ce_usable_for_bandwidth = (\<lambda>_ _. True), ce_check_usability = (\<lambda>_. True), ce_dyn_pt = 96,
     ce_telephone_event_pt = 101, ce_generic_confort_noise = False,
     ce_payload_type_telephone_event = ex_codec ''telephone-event'' 8000 (-1) None,
     ce_payload_type_cn = ex_codec ''CN'' 8000 13 None,
     ce_audio_codecs = [ex_codec ''opus'' 48000 (-1) None, ex_codec ''PCMU'' 8000 0 None],
     ce_video_codecs = [ex_codec ''H264'' 90000 (-1) None]\<rparr>"

lemma payload_numbers_unambiguous_witness:
  "(let l' = linphone_core_assign_payload_type_numbers 96 [ex_codec ''PCMU'' 8000 0 None, ex_codec ''opus'' 48000 (-1) None]
    in pt_number (l' ! 1) = 96 \<and> pt_number (l' ! 1) \<noteq> -1 \<and> pt_number (l' ! 0) \<noteq> pt_number (l' ! 1))"
proof -
  let ?l = "linphone_core_assign_payload_type_numbers 96 [ex_codec ''PCMU'' 8000 0 None, ex_codec ''opus'' 48000 (-1) None]"
  have l: "length ?l = 2" "FLAG_ENABLED \<in> pt_flags (?l ! 1)" "FLAG_FROZEN_NUMBER \<notin> pt_flags (?l ! 1)"
    "pt_number (?l ! 1) = 96" by code_simp+
  have "pt_number (?l ! 1) \<noteq> -1 \<and> pt_number (?l ! 0) \<noteq> pt_number (?l ! 1)"
    by (rule payload_numbers_unambiguous [OF _ _ refl]) (use l in simp_all)
  with l show ?thesis by (simp add: Let_def)
qed

lemma reoffer_keeps_numbers_witness:
  "\<exists>new \<in> set (make_codec_list ex_codec_env
      \<lparr>cc_bandwidth_limit = 0, cc_max_codecs = -1, cc_previously_used = [ex_codec ''opus'' 48000 111 None]\<rparr>
      SalAudio (ce_audio_codecs ex_codec_env)).
     pt_number new = 111 \<and> pt_mime_type new = Some ''opus''"
proof -
  have n: "find_payload_type_number [ex_codec ''opus'' 48000 111 None] (ex_codec ''opus'' 48000 (-1) None) = 111"
    by code_simp
  show ?thesis
    using reoffer_keeps_numbers [of ex_codec_env "\<lparr>cc_bandwidth_limit = 0, cc_max_codecs = -1,
        cc_previously_used = [ex_codec ''opus'' 48000 111 None]\<rparr>" "ex_codec ''opus'' 48000 (-1) None"
        "ce_audio_codecs ex_codec_env" 111 SalAudio] n
    by (auto simp: ex_codec_env_def codec_eliminated_def ex_codec_def)
qed

text \<open>Two configured codecs that differ in their format parameters only share the number of the
  one that was offered before; both are frozen, so the assignment leaves the clash.\<close>

lemma frozen_numbers_clash:
  "map pt_number (make_codec_list ex_codec_env
      \<lparr>cc_bandwidth_limit = 0, cc_max_codecs = -1, cc_previously_used = [ex_codec ''H264'' 90000 102 (Some ''packetization-mode=1'')]\<rparr>
      SalVideo [ex_codec ''H264'' 90000 (-1) (Some ''packetization-mode=1''), ex_codec ''H264'' 90000 (-1) (Some ''packetization-mode=0'')])
   = [102, 102]"
  by code_simp

text \<open>The last dynamic number is given and its codec disabled all the same.\<close>

lemma last_number_disables:
  "(let l = linphone_core_assign_payload_type_numbers 126 [ex_codec ''opus'' 48000 (-1) None]
    in pt_number (l ! 0) = 126 \<and> FLAG_ENABLED \<notin> pt_flags (l ! 0))"
  by code_simp

end
