(* ===== verification/MediaPorts.thy ===== *)
theory MediaPorts
  imports CallModel
begin

unbundle bit_operations_syntax

text \<open>
  The ports of a new call: \<open>find_port_offset\<close> to \<open>port_config_set\<close> and
  \<open>linphone_call_fill_media_multicast_addr\<close> of \<open>coreapi/linphonecall.c\<close>.

  \<open>used\<close> is the list of the \<open>rtp_port\<close>s the calls of the core have for the stream.  The number
  \<open>ortp_random()\<close> draws is a parameter; it is unsigned, so the arithmetic of the draw is done
  on 32-bit words.
\<close>

section \<open>Choosing a port\<close>

function port_offset_from :: "int list \<Rightarrow> int \<Rightarrow> int \<Rightarrow> int" where
  "port_offset_from used base_port offset =
     (if offset < 100 then
        if base_port + offset \<in> set used then port_offset_from used base_port (offset + 2) else offset
      else offset)"
  by pat_completeness auto

termination port_offset_from
  by (relation "measure (\<lambda>(_, _, offset). nat (100 - offset))") auto

declare port_offset_from.simps [simp del]

definition find_port_offset :: "int list \<Rightarrow> int \<Rightarrow> int" where
  "find_port_offset used base_port = (let offset = port_offset_from used base_port 0 in
     if offset = 100 then -1 else offset)"

definition drawn_port :: "32 word \<Rightarrow> int \<Rightarrow> int \<Rightarrow> int" where
  "drawn_port random min_port max_port = (let
     tried_port = sint ((random mod word_of_int (max_port - min_port) + word_of_int min_port) AND NOT 1)
   in if tried_port < min_port then min_port + 2 else tried_port)"

text \<open>The loop over \<open>nb_tries\<close>: neither \<open>tried_port\<close> nor \<open>already_used\<close> is set again in it.\<close>

function tries_loop :: "int list \<Rightarrow> int \<Rightarrow> bool \<Rightarrow> int \<Rightarrow> int" where
  "tries_loop used tried_port already_used nb_tries =
     (if nb_tries < 100 then (let
        already_used = (already_used \<or> tried_port \<in> set used)
      in if \<not> already_used then nb_tries else tries_loop used tried_port already_used (nb_tries + 1))
      else nb_tries)"
  by pat_completeness auto

termination tries_loop
  by (relation "measure (\<lambda>(_, _, _, nb_tries). nat (100 - nb_tries))") auto

declare tries_loop.simps [simp del]

definition select_random_port :: "32 word \<Rightarrow> int list \<Rightarrow> int \<Rightarrow> int \<Rightarrow> int" where
  "select_random_port random used min_port max_port = (let
     tried_port = drawn_port random min_port max_port;
     nb_tries = tries_loop used tried_port False 0
   in if nb_tries = 100 then -1 else tried_port)"

definition port_config_set_random :: "port_config \<Rightarrow> port_config" where
  "port_config_set_random p = p\<lparr>po_rtp_port := -1, po_rtcp_port := -1\<rparr>"

definition port_config_set :: "32 word \<Rightarrow> int list \<Rightarrow> int \<Rightarrow> int \<Rightarrow> port_config \<Rightarrow> port_config" where
  "port_config_set random used min_port max_port p =
     (if min_port > 0 \<and> max_port > 0 then
        if min_port = max_port then (let port_offset = find_port_offset used min_port in
          if port_offset = -1 then port_config_set_random p
          else p\<lparr>po_rtp_port := min_port + port_offset, po_rtcp_port := min_port + port_offset + 1\<rparr>)
        else (let port = select_random_port random used min_port max_port in
          p\<lparr>po_rtp_port := port, po_rtcp_port := port + 1\<rparr>)
      else port_config_set_random p)"

text \<open>\<open>linphone_call_fill_media_multicast_addr\<close>; a missing address is never read.\<close>

definition multicast_addr :: "bool \<Rightarrow> string \<Rightarrow> port_config \<Rightarrow> port_config" where
  "multicast_addr enabled addr p = p\<lparr>po_multicast_ip := (if enabled then strncpy 64 addr else [])\<rparr>"

definition linphone_call_fill_media_multicast_addr :: "string \<Rightarrow> string \<Rightarrow> call \<Rightarrow> call" where
  "linphone_call_fill_media_multicast_addr audio_addr video_addr c = (let
     ports = ca_media_ports c;
     ports = ports[0 := multicast_addr (cp_audio_multicast_enabled (ca_params c)) audio_addr (ports ! 0)];
     ports = ports[1 := multicast_addr (cp_video_multicast_enabled (ca_params c)) video_addr (ports ! 1)]
   in c\<lparr>ca_media_ports := ports\<rparr>)"

section \<open>The loops\<close>

lemma port_offset_from_spec:
  "even offset \<Longrightarrow> offset \<le> 100 \<Longrightarrow> (let r = port_offset_from used base offset in
     offset \<le> r \<and> r \<le> 100 \<and> even r \<and> (r < 100 \<longrightarrow> base + r \<notin> set used)
     \<and> (\<forall>k. offset \<le> k \<and> k < r \<and> even k \<longrightarrow> base + k \<in> set used))"
proof (induction used base offset rule: port_offset_from.induct)
  case (1 used base offset)
  show ?case
  proof (cases "offset < 100 \<and> base + offset \<in> set used")
    case True
    then have "offset < 100" by simp
    with 1(2) have "offset + 2 \<le> 100" by presburger
    with 1 True have IH: "let r = port_offset_from used base (offset + 2) in
      offset + 2 \<le> r \<and> r \<le> 100 \<and> even r \<and> (r < 100 \<longrightarrow> base + r \<notin> set used)
      \<and> (\<forall>k. offset + 2 \<le> k \<and> k < r \<and> even k \<longrightarrow> base + k \<in> set used)" by simp
    have "base + k \<in> set used" if "offset \<le> k" "k < port_offset_from used base (offset + 2)" "even k" for k
    proof (cases "k = offset")
      case False
      with that 1(2) have "offset + 2 \<le> k" by presburger
      with IH that show ?thesis by (auto simp: Let_def)
    qed (use True in simp)
    with IH True show ?thesis by (auto simp: Let_def port_offset_from.simps [of used base offset])
  next
    case False
    with 1(2,3) show ?thesis
      by (subst port_offset_from.simps) (auto simp: Let_def)
  qed
qed

lemma tries_loop_result:
  "nb \<le> 100 \<Longrightarrow> tries_loop used p already nb = (if already \<or> p \<in> set used then 100 else nb)"
proof (induction used p already nb rule: tries_loop.induct)
  case (1 used p already nb)
  then show ?case by (subst tries_loop.simps) (auto simp: Let_def)
qed

lemma select_random_port_eq:
  "select_random_port random used min_port max_port =
     (if drawn_port random min_port max_port \<in> set used then -1 else drawn_port random min_port max_port)"
  by (auto simp: select_random_port_def tries_loop_result Let_def)

lemma clear_low_bit: "uint (w AND NOT 1 :: 32 word) = 2 * (uint w div 2)"
proof (rule bit_eqI)
  fix n
  have "bit (uint (w AND NOT 1)) n \<longleftrightarrow> bit w n \<and> n \<noteq> 0"
    by (auto simp only: bit_uint_iff bit_and_iff bit_not_iff bit_1_iff possible_bit_word dest: bit_imp_le_length)
  moreover have "bit (2 * (uint w div 2)) n \<longleftrightarrow> n \<noteq> 0 \<and> bit (uint w) n"
    by (cases n) (simp_all add: bit_double_iff bit_Suc)
  ultimately show "bit (uint (w AND NOT 1)) n = bit (2 * (uint w div 2)) n"
    by (auto simp: bit_uint_iff dest: bit_imp_le_length)
qed

lemma drawn_port_eq:
  assumes "0 < min_port" and "min_port < max_port" and "max_port < 65536"
  obtains d where "0 \<le> d" "d < max_port - min_port"
    "drawn_port random min_port max_port = (let t = 2 * ((min_port + d) div 2) in if t < min_port then min_port + 2 else t)"
proof -
  define d where "d = uint random mod (max_port - min_port)"
  have d: "0 \<le> d" "d < max_port - min_port" using assms by (simp_all add: d_def)
  define w :: "32 word" where "w = random mod word_of_int (max_port - min_port) + word_of_int min_port"
  have small: "uint (word_of_int k :: 32 word) = k" if "0 \<le> k" "k < 65536" for k
    using that by (simp add: uint_word_of_int)
  have "uint (random mod word_of_int (max_port - min_port)) = d"
    using small [of "max_port - min_port"] assms by (simp add: uint_mod_distrib d_def del: of_int_diff)
  then have w: "uint w = min_port + d"
    using d assms small [of min_port] by (simp add: w_def uint_word_ariths add.commute)
  have "sint (w AND NOT 1) = 2 * ((min_port + d) div 2)"
    using d assms clear_low_bit [of w] by (simp add: sint_uint w signed_take_bit_int_eq_self)
  then show thesis using that [OF d] by (simp add: drawn_port_def w_def Let_def)
qed

lemma drawn_port_bounds:
  assumes "0 < min_port" and "min_port < max_port" and "max_port < 65536"
  shows "min_port \<le> drawn_port random min_port max_port \<and> drawn_port random min_port max_port \<le> max_port + 1"
    and "even min_port \<Longrightarrow> even (drawn_port random min_port max_port) \<and> drawn_port random min_port max_port < max_port"
proof -
  obtain d where d: "0 \<le> d" "d < max_port - min_port"
    "drawn_port random min_port max_port = (let t = 2 * ((min_port + d) div 2) in if t < min_port then min_port + 2 else t)"
    using drawn_port_eq [OF assms] by blast
  then show "min_port \<le> drawn_port random min_port max_port \<and> drawn_port random min_port max_port \<le> max_port + 1"
    by (auto simp: Let_def)
  assume e: "even min_port"
  with d have "\<not> 2 * ((min_port + d) div 2) < min_port" by presburger
  with d show "even (drawn_port random min_port max_port) \<and> drawn_port random min_port max_port < max_port"
    by (auto simp: Let_def)
qed

section \<open>Properties\<close>


text \<open>A ranged port is drawn once: when the port drawn belongs to another call the hundred
  tries of the loop all fail, whatever ports of the range are free, and the call is left with
  RTP port -1 and RTCP port 0.\<close>

theorem ranged_port_is_drawn_once:
  assumes "0 < min_port" and "min_port < max_port"
    and "drawn_port random min_port max_port \<in> set used"
  shows "po_rtp_port (port_config_set random used min_port max_port p) = -1
    \<and> po_rtcp_port (port_config_set random used min_port max_port p) = 0"
  using assms by (simp add: port_config_set_def select_random_port_eq Let_def)

definition ex_port :: port_config where
  "ex_port = \<lparr>po_multicast_ip = [], po_rtp_port = 0, po_rtcp_port = 0\<rparr>"


lemma ranged_port_is_drawn_once_witness:
  "po_rtp_port (port_config_set 5 [7082] 7078 7098 ex_port) = -1
   \<and> po_rtcp_port (port_config_set 5 [7082] 7078 7098 ex_port) = 0"
  by (rule ranged_port_is_drawn_once) (simp_all add: drawn_port_def)

end
