(* ===== verification/Reasons.thy ===== *)
theory Reasons
  imports CallModel
begin

text \<open>
  Why a call ended, in its three forms: the \<open>LinphoneReason\<close> of the application
  (\<open>coreapi/linphonecore.h\<close>), the \<open>SalReason\<close> of the signalling layer and the SIP status code,
  with the conversions of \<open>coreapi/misc.c\<close> and \<open>coreapi/bellesip_sal/sal_op_impl.c\<close>.
\<close>

section \<open>Conversions\<close>

datatype linphone_reason =
    LinphoneReasonNone | LinphoneReasonNoResponse | LinphoneReasonForbidden | LinphoneReasonDeclined
  | LinphoneReasonNotFound | LinphoneReasonNotAnswered | LinphoneReasonBusy | LinphoneReasonUnsupportedContent
  | LinphoneReasonIOError | LinphoneReasonDoNotDisturb | LinphoneReasonUnauthorized | LinphoneReasonNotAcceptable
  | LinphoneReasonNoMatch | LinphoneReasonMovedPermanently | LinphoneReasonGone | LinphoneReasonTemporarilyUnavailable
  | LinphoneReasonAddressIncomplete | LinphoneReasonNotImplemented | LinphoneReasonBadGateway | LinphoneReasonServerTimeout
  | LinphoneReasonUnknown

fun linphone_reason_to_sal :: "linphone_reason \<Rightarrow> sal_reason" where
  "linphone_reason_to_sal LinphoneReasonNone = SalReasonNone"
| "linphone_reason_to_sal LinphoneReasonNoResponse = SalReasonRequestTimeout"
| "linphone_reason_to_sal LinphoneReasonForbidden = SalReasonForbidden"
| "linphone_reason_to_sal LinphoneReasonDeclined = SalReasonDeclined"
| "linphone_reason_to_sal LinphoneReasonNotFound = SalReasonNotFound"
| "linphone_reason_to_sal LinphoneReasonTemporarilyUnavailable = SalReasonTemporarilyUnavailable"
| "linphone_reason_to_sal LinphoneReasonBusy = SalReasonBusy"
| "linphone_reason_to_sal LinphoneReasonNotAcceptable = SalReasonNotAcceptable"
| "linphone_reason_to_sal LinphoneReasonIOError = SalReasonServiceUnavailable"
| "linphone_reason_to_sal LinphoneReasonDoNotDisturb = SalReasonDoNotDisturb"
| "linphone_reason_to_sal LinphoneReasonUnauthorized = SalReasonUnauthorized"
| "linphone_reason_to_sal LinphoneReasonUnsupportedContent = SalReasonUnsupportedContent"
| "linphone_reason_to_sal LinphoneReasonNoMatch = SalReasonNoMatch"
| "linphone_reason_to_sal LinphoneReasonMovedPermanently = SalReasonMovedPermanently"
| "linphone_reason_to_sal LinphoneReasonGone = SalReasonGone"
| "linphone_reason_to_sal LinphoneReasonAddressIncomplete = SalReasonAddressIncomplete"
| "linphone_reason_to_sal LinphoneReasonNotImplemented = SalReasonNotImplemented"
| "linphone_reason_to_sal LinphoneReasonBadGateway = SalReasonBadGateway"
| "linphone_reason_to_sal LinphoneReasonServerTimeout = SalReasonServerTimeout"
| "linphone_reason_to_sal LinphoneReasonNotAnswered = SalReasonRequestTimeout"
| "linphone_reason_to_sal LinphoneReasonUnknown = SalReasonUnknown"

text \<open>\<open>LinphoneReasonBadCredentials\<close> is a macro for \<open>LinphoneReasonForbidden\<close>.\<close>

fun linphone_reason_from_sal :: "sal_reason \<Rightarrow> linphone_reason" where
  "linphone_reason_from_sal SalReasonNone = LinphoneReasonNone"
| "linphone_reason_from_sal SalReasonIOError = LinphoneReasonIOError"
| "linphone_reason_from_sal SalReasonUnknown = LinphoneReasonUnknown"
| "linphone_reason_from_sal SalReasonBusy = LinphoneReasonBusy"
| "linphone_reason_from_sal SalReasonDeclined = LinphoneReasonDeclined"
| "linphone_reason_from_sal SalReasonDoNotDisturb = LinphoneReasonDoNotDisturb"
| "linphone_reason_from_sal SalReasonForbidden = LinphoneReasonForbidden"
| "linphone_reason_from_sal SalReasonNotAcceptable = LinphoneReasonNotAcceptable"
| "linphone_reason_from_sal SalReasonNotFound = LinphoneReasonNotFound"
| "linphone_reason_from_sal SalReasonRedirect = LinphoneReasonNone"
| "linphone_reason_from_sal SalReasonTemporarilyUnavailable = LinphoneReasonTemporarilyUnavailable"
| "linphone_reason_from_sal SalReasonServiceUnavailable = LinphoneReasonIOError"
| "linphone_reason_from_sal SalReasonRequestPending = LinphoneReasonNone"
| "linphone_reason_from_sal SalReasonUnauthorized = LinphoneReasonUnauthorized"
| "linphone_reason_from_sal SalReasonUnsupportedContent = LinphoneReasonUnsupportedContent"
| "linphone_reason_from_sal SalReasonNoMatch = LinphoneReasonNoMatch"
| "linphone_reason_from_sal SalReasonRequestTimeout = LinphoneReasonNotAnswered"
| "linphone_reason_from_sal SalReasonMovedPermanently = LinphoneReasonMovedPermanently"
| "linphone_reason_from_sal SalReasonGone = LinphoneReasonGone"
| "linphone_reason_from_sal SalReasonAddressIncomplete = LinphoneReasonAddressIncomplete"
| "linphone_reason_from_sal SalReasonNotImplemented = LinphoneReasonNotImplemented"
| "linphone_reason_from_sal SalReasonBadGateway = LinphoneReasonBadGateway"
| "linphone_reason_from_sal SalReasonServerTimeout = LinphoneReasonServerTimeout"

fun sal_reason_to_sip_code :: "sal_reason \<Rightarrow> int" where
  "sal_reason_to_sip_code SalReasonNone = 200"
| "sal_reason_to_sip_code SalReasonIOError = 503"
| "sal_reason_to_sip_code SalReasonUnknown = 400"
| "sal_reason_to_sip_code SalReasonBusy = 486"
| "sal_reason_to_sip_code SalReasonDeclined = 603"
| "sal_reason_to_sip_code SalReasonDoNotDisturb = 600"
| "sal_reason_to_sip_code SalReasonForbidden = 403"
| "sal_reason_to_sip_code SalReasonUnsupportedContent = 415"
| "sal_reason_to_sip_code SalReasonNotFound = 404"
| "sal_reason_to_sip_code SalReasonRedirect = 302"
| "sal_reason_to_sip_code SalReasonTemporarilyUnavailable = 480"
| "sal_reason_to_sip_code SalReasonServiceUnavailable = 503"
| "sal_reason_to_sip_code SalReasonRequestPending = 491"
| "sal_reason_to_sip_code SalReasonUnauthorized = 401"
| "sal_reason_to_sip_code SalReasonNotAcceptable = 488"
| "sal_reason_to_sip_code SalReasonNoMatch = 481"
| "sal_reason_to_sip_code SalReasonRequestTimeout = 408"
| "sal_reason_to_sip_code SalReasonMovedPermanently = 301"
| "sal_reason_to_sip_code SalReasonGone = 410"
| "sal_reason_to_sip_code SalReasonAddressIncomplete = 484"
| "sal_reason_to_sip_code SalReasonNotImplemented = 501"
| "sal_reason_to_sip_code SalReasonServerTimeout = 504"
| "sal_reason_to_sip_code SalReasonBadGateway = 502"

text \<open>The switch as a table; code 422 is listed by the source and falls to the default.\<close>

definition sal_reason_of_code :: "(int \<times> sal_reason) list" where
  "sal_reason_of_code = [(0, SalReasonIOError), (301, SalReasonMovedPermanently), (302, SalReasonRedirect),
     (401, SalReasonUnauthorized), (407, SalReasonUnauthorized), (403, SalReasonForbidden),
     (404, SalReasonNotFound), (408, SalReasonRequestTimeout), (410, SalReasonGone),
     (415, SalReasonUnsupportedContent), (480, SalReasonTemporarilyUnavailable), (481, SalReasonNoMatch),
     (484, SalReasonAddressIncomplete), (486, SalReasonBusy), (487, SalReasonNone),
     (488, SalReasonNotAcceptable), (491, SalReasonRequestPending), (501, SalReasonNotImplemented),
     (502, SalReasonBadGateway), (504, SalReasonServerTimeout), (600, SalReasonDoNotDisturb),
     (603, SalReasonDeclined), (503, SalReasonServiceUnavailable)]"

definition sal_reason_from_sip_code :: "int \<Rightarrow> sal_reason" where
  "sal_reason_from_sip_code code = (if code \<ge> 100 \<and> code < 300 then SalReasonNone
     else case map_of sal_reason_of_code code of Some r \<Rightarrow> r | None \<Rightarrow> SalReasonUnknown)"

section \<open>Properties\<close>

lemma sip_code_is_final: "r \<noteq> SalReasonNone \<Longrightarrow> 300 \<le> sal_reason_to_sip_code r \<and> sal_reason_to_sip_code r < 700"
  by (cases r) simp_all

lemma reason_of_code: "sal_reason_from_sip_code (sal_reason_to_sip_code r)
    = (if r = SalReasonIOError then SalReasonServiceUnavailable else r)"
  by (cases r) (simp_all add: sal_reason_from_sip_code_def sal_reason_of_code_def)

text \<open>The reason an application declines a call with is the reason the application at the
  other end reads: it crosses the signalling layers of both sides and the SIP status code
  unchanged, except that no response is read as not answered.\<close>

theorem reason_crosses_the_wire:
  "linphone_reason_from_sal (sal_reason_from_sip_code (sal_reason_to_sip_code (linphone_reason_to_sal r)))
     = (if r = LinphoneReasonNoResponse then LinphoneReasonNotAnswered else r)"
  unfolding reason_of_code by (cases r) simp_all

end
