(* ===== verification/EventApi.thy ===== *)
theory EventApi
  imports Reasons
begin

text \<open>
Subscriptions and publications of generic events (\<open>event.c\<close>, with the callbacks about them in
\<open>callbacks.c\<close>).  An event is reference counted; it owns a signalling operation, whose user
pointer leads back to it.  Events and operations are numbered in the order they are created; a
freed event and a released operation are remembered as such, so that a use of a freed event shows.
The contents of bodies are left out.
\<close>

section \<open>Data\<close>

datatype subscription_dir = LinphoneSubscriptionIncoming | LinphoneSubscriptionOutgoing | LinphoneSubscriptionInvalidDir

datatype subscription_state = LinphoneSubscriptionNone | LinphoneSubscriptionOutgoingProgress
  | LinphoneSubscriptionIncomingReceived | LinphoneSubscriptionPending | LinphoneSubscriptionActive
  | LinphoneSubscriptionTerminated | LinphoneSubscriptionError | LinphoneSubscriptionExpiring

datatype publish_state = LinphonePublishNone | LinphonePublishProgress | LinphonePublishOk
  | LinphonePublishError | LinphonePublishExpiring | LinphonePublishCleared

datatype sal_subscribe_status = SalSubscribeNone | SalSubscribePending | SalSubscribeActive | SalSubscribeTerminated

text \<open>\<open>LinphoneSubscriptionOutgoingInit\<close> is another name of \<^const>\<open>LinphoneSubscriptionOutgoingProgress\<close>.\<close>

record lin_event =
  le_dir :: subscription_dir
  le_op :: nat
  le_send_custom_headers :: "(string \<times> string) list option"
  le_subscription_state :: subscription_state
  le_publish_state :: publish_state
  le_refcnt :: int
  le_name :: string
  le_expires :: int
  le_terminating :: bool
  le_is_out_of_dialog_op :: bool

text \<open>What an operation of the event interface does besides changing events: it tells the listeners
  and sends requests.\<close>

datatype event_action =
    NotifySubscriptionState nat subscription_state
  | NotifyPublishState nat publish_state
  | NotifyReceived nat string
  | SetSentHeaders nat "(string \<times> string) list option"
  | SetManualRefresher nat bool
  | SalSubscribe nat string int
  | SalSubscribeAccept nat
  | SalSubscribeDecline nat sal_reason
  | SalNotify nat
  | SalNotifyClose nat
  | SalUnsubscribe nat
  | SalPublish nat string int
  | SalUnpublish nat
  | SalStopRefreshing nat

record event_world =
  ew_store :: "nat \<Rightarrow> lin_event"
  ew_next :: nat
  ew_freed :: "nat list"
  ew_user_pointer :: "nat \<Rightarrow> nat option"
  ew_next_op :: nat
  ew_released :: "nat list"
  ew_dangling :: bool
  ew_null :: bool
  ew_trace :: "event_action list"

text \<open>Every access to an event through a pointer is an access to live memory or a dangling one.\<close>

definition lev_alive :: "nat \<Rightarrow> event_world \<Rightarrow> bool" where
  "lev_alive e w \<longleftrightarrow> e < ew_next w \<and> e \<notin> set (ew_freed w)"

definition lev_touch :: "nat \<Rightarrow> event_world \<Rightarrow> event_world" where
  "lev_touch e w = w\<lparr>ew_dangling := ew_dangling w \<or> \<not> lev_alive e w\<rparr>"

definition lev_upd :: "nat \<Rightarrow> (lin_event \<Rightarrow> lin_event) \<Rightarrow> event_world \<Rightarrow> event_world" where
  "lev_upd e f w = (let w = lev_touch e w in w\<lparr>ew_store := (ew_store w)(e := f (ew_store w e))\<rparr>)"

definition lev_emit :: "event_action \<Rightarrow> event_world \<Rightarrow> event_world" where
  "lev_emit a w = w\<lparr>ew_trace := ew_trace w @ [a]\<rparr>"

section \<open>States\<close>

fun linphone_subscription_state_from_sal :: "sal_subscribe_status \<Rightarrow> subscription_state" where
  "linphone_subscription_state_from_sal SalSubscribeNone = LinphoneSubscriptionNone"
| "linphone_subscription_state_from_sal SalSubscribePending = LinphoneSubscriptionPending"
| "linphone_subscription_state_from_sal SalSubscribeTerminated = LinphoneSubscriptionTerminated"
| "linphone_subscription_state_from_sal SalSubscribeActive = LinphoneSubscriptionActive"

fun linphone_subscription_state_to_string :: "subscription_state \<Rightarrow> string" where
  "linphone_subscription_state_to_string LinphoneSubscriptionNone = ''LinphoneSubscriptionNone''"
| "linphone_subscription_state_to_string LinphoneSubscriptionIncomingReceived = ''LinphoneSubscriptionIncomingReceived''"
| "linphone_subscription_state_to_string LinphoneSubscriptionOutgoingProgress = ''LinphoneSubscriptionOutoingInit''"
| "linphone_subscription_state_to_string LinphoneSubscriptionPending = ''LinphoneSubscriptionPending''"
| "linphone_subscription_state_to_string LinphoneSubscriptionActive = ''LinphoneSubscriptionActive''"
| "linphone_subscription_state_to_string LinphoneSubscriptionTerminated = ''LinphoneSubscriptionTerminated''"
| "linphone_subscription_state_to_string LinphoneSubscriptionError = ''LinphoneSubscriptionError''"
| "linphone_subscription_state_to_string LinphoneSubscriptionExpiring = ''LinphoneSubscriptionExpiring''"

fun linphone_publish_state_to_string :: "publish_state \<Rightarrow> string" where
  "linphone_publish_state_to_string LinphonePublishNone = ''LinphonePublishNone''"
| "linphone_publish_state_to_string LinphonePublishProgress = ''LinphonePublishProgress''"
| "linphone_publish_state_to_string LinphonePublishOk = ''LinphonePublishOk''"
| "linphone_publish_state_to_string LinphonePublishError = ''LinphonePublishError''"
| "linphone_publish_state_to_string LinphonePublishCleared = ''LinphonePublishCleared''"
| "linphone_publish_state_to_string LinphonePublishExpiring = ''LinphonePublishExpiring''"

section \<open>Creation and references\<close>

definition sal_op_for_event :: "event_world \<Rightarrow> nat \<times> event_world" where
  "sal_op_for_event w = (ew_next_op w, w\<lparr>ew_next_op := Suc (ew_next_op w)\<rparr>)"

definition linphone_event_new_base :: "subscription_dir \<Rightarrow> string \<Rightarrow> nat \<Rightarrow> event_world \<Rightarrow> nat \<times> event_world" where
  "linphone_event_new_base dir name op w = (let e = ew_next w in (e,
     w\<lparr>ew_next := Suc e,
       ew_store := (ew_store w)(e := \<lparr>le_dir = dir, le_op = op, le_send_custom_headers = None,
         le_subscription_state = LinphoneSubscriptionNone, le_publish_state = LinphonePublishNone, le_refcnt = 1,
         le_name = name, le_expires = 0, le_terminating = False, le_is_out_of_dialog_op = False\<rparr>),
       ew_user_pointer := (ew_user_pointer w)(op := Some e)\<rparr>))"

definition linphone_event_new :: "subscription_dir \<Rightarrow> string \<Rightarrow> int \<Rightarrow> event_world \<Rightarrow> nat \<times> event_world" where
  "linphone_event_new dir name expires w = (case sal_op_for_event w of (op, w) \<Rightarrow>
     (case linphone_event_new_base dir name op w of (e, w) \<Rightarrow> (e, lev_upd e (\<lambda>l. l\<lparr>le_expires := expires\<rparr>) w)))"

definition linphone_event_new_with_op_base ::
    "nat \<Rightarrow> subscription_dir \<Rightarrow> string \<Rightarrow> bool \<Rightarrow> event_world \<Rightarrow> nat \<times> event_world" where
  "linphone_event_new_with_op_base op dir name out_of_dialog w =
     (case linphone_event_new_base dir name op w of (e, w) \<Rightarrow>
        (e, lev_upd e (\<lambda>l. l\<lparr>le_is_out_of_dialog_op := out_of_dialog\<rparr>) w))"

definition linphone_event_new_with_op :: "nat \<Rightarrow> subscription_dir \<Rightarrow> string \<Rightarrow> event_world \<Rightarrow> nat \<times> event_world" where
  "linphone_event_new_with_op op dir name = linphone_event_new_with_op_base op dir name False"

definition linphone_event_new_with_out_of_dialog_op ::
    "nat \<Rightarrow> subscription_dir \<Rightarrow> string \<Rightarrow> event_world \<Rightarrow> nat \<times> event_world" where
  "linphone_event_new_with_out_of_dialog_op op dir name = linphone_event_new_with_op_base op dir name True"

definition linphone_event_ref :: "nat \<Rightarrow> event_world \<Rightarrow> event_world" where
  "linphone_event_ref e = lev_upd e (\<lambda>l. l\<lparr>le_refcnt := le_refcnt l + 1\<rparr>)"

text \<open>Destroying an event releases its operation, which forgets it.\<close>

definition linphone_event_destroy :: "nat \<Rightarrow> event_world \<Rightarrow> event_world" where
  "linphone_event_destroy e w = (let op = le_op (ew_store w e) in
     w\<lparr>ew_user_pointer := (ew_user_pointer w)(op := None), ew_released := op # ew_released w,
       ew_freed := e # ew_freed w\<rparr>)"

definition linphone_event_unref :: "nat \<Rightarrow> event_world \<Rightarrow> event_world" where
  "linphone_event_unref e w = (let w = lev_upd e (\<lambda>l. l\<lparr>le_refcnt := le_refcnt l - 1\<rparr>) w
     in if le_refcnt (ew_store w e) = 0 then linphone_event_destroy e w else w)"

section \<open>Transitions\<close>

definition linphone_event_set_state :: "nat \<Rightarrow> subscription_state \<Rightarrow> event_world \<Rightarrow> event_world" where
  "linphone_event_set_state e st w = (let w = lev_touch e w in
     if le_subscription_state (ew_store w e) \<noteq> st then (let
         w = lev_upd e (\<lambda>l. l\<lparr>le_subscription_state := st\<rparr>) w;
         w = lev_emit (NotifySubscriptionState e st) w
       in if st = LinphoneSubscriptionTerminated then linphone_event_unref e w else w)
     else w)"

definition linphone_event_set_publish_state :: "nat \<Rightarrow> publish_state \<Rightarrow> event_world \<Rightarrow> event_world" where
  "linphone_event_set_publish_state e st w = (let w = lev_touch e w in
     if le_publish_state (ew_store w e) \<noteq> st then (let
         w = lev_upd e (\<lambda>l. l\<lparr>le_publish_state := st\<rparr>) w;
         w = lev_emit (NotifyPublishState e st) w
       in (case st of
             LinphonePublishCleared \<Rightarrow> if le_expires (ew_store w e) \<noteq> -1 then linphone_event_unref e w else w
           | LinphonePublishOk \<Rightarrow> if le_expires (ew_store w e) = -1 then linphone_event_unref e w else w
           | LinphonePublishError \<Rightarrow> if le_expires (ew_store w e) = -1 then linphone_event_unref e w else w
           | _ \<Rightarrow> w))
     else w)"

section \<open>Operations of the application\<close>

text \<open>What the signalling layer answers to requests, and the settings read, at one step.\<close>

record event_env =
  vv_refresh_subscribe :: bool
  vv_refresh_publish :: bool
  vv_subscribe :: int
  vv_accept :: int
  vv_decline :: int
  vv_notify :: int
  vv_publish :: int
  vv_reason :: sal_reason

definition linphone_core_create_subscribe :: "event_env \<Rightarrow> string \<Rightarrow> int \<Rightarrow> event_world \<Rightarrow> nat \<times> event_world" where
  "linphone_core_create_subscribe env event expires w =
     (case linphone_event_new LinphoneSubscriptionOutgoing event expires w of (e, w) \<Rightarrow>
        (e, lev_emit (SetManualRefresher (le_op (ew_store w e)) (\<not> vv_refresh_subscribe env)) w))"

definition send_custom_headers :: "nat \<Rightarrow> event_world \<Rightarrow> event_world" where
  "send_custom_headers e w = (let l = ew_store w e in
     case le_send_custom_headers l of
       Some hs \<Rightarrow> lev_upd e (\<lambda>l. l\<lparr>le_send_custom_headers := None\<rparr>) (lev_emit (SetSentHeaders (le_op l) (Some hs)) w)
     | None \<Rightarrow> lev_emit (SetSentHeaders (le_op l) None) w)"

definition linphone_event_send_subscribe :: "event_env \<Rightarrow> nat \<Rightarrow> event_world \<Rightarrow> event_world \<times> int" where
  "linphone_event_send_subscribe env e w = (let w = lev_touch e w; l = ew_store w e in
     if le_dir l \<noteq> LinphoneSubscriptionOutgoing then (w, -1)
     else if le_subscription_state l = LinphoneSubscriptionIncomingReceived
          \<or> le_subscription_state l = LinphoneSubscriptionTerminated
          \<or> le_subscription_state l = LinphoneSubscriptionOutgoingProgress then (w, -1)
     else (let
         w = send_custom_headers e w;
         w = lev_emit (SalSubscribe (le_op l) (le_name l) (le_expires l)) w
       in (if vv_subscribe env = 0 \<and> le_subscription_state (ew_store w e) = LinphoneSubscriptionNone
             then linphone_event_set_state e LinphoneSubscriptionOutgoingProgress w else w, vv_subscribe env)))"

definition linphone_core_subscribe :: "event_env \<Rightarrow> string \<Rightarrow> int \<Rightarrow> event_world \<Rightarrow> nat \<times> event_world" where
  "linphone_core_subscribe env event expires w = (case linphone_core_create_subscribe env event expires w of
     (e, w) \<Rightarrow> (e, fst (linphone_event_send_subscribe env e w)))"

definition linphone_event_accept_subscription :: "event_env \<Rightarrow> nat \<Rightarrow> event_world \<Rightarrow> event_world \<times> int" where
  "linphone_event_accept_subscription env e w = (let w = lev_touch e w in
     if le_subscription_state (ew_store w e) \<noteq> LinphoneSubscriptionIncomingReceived then (w, -1)
     else (let w = lev_emit (SalSubscribeAccept (le_op (ew_store w e))) w
       in (if vv_accept env = 0 then linphone_event_set_state e LinphoneSubscriptionActive w else w, vv_accept env)))"

definition linphone_event_deny_subscription ::
    "event_env \<Rightarrow> nat \<Rightarrow> linphone_reason \<Rightarrow> event_world \<Rightarrow> event_world \<times> int" where
  "linphone_event_deny_subscription env e reason w = (let w = lev_touch e w in
     if le_subscription_state (ew_store w e) \<noteq> LinphoneSubscriptionIncomingReceived then (w, -1)
     else (let w = lev_emit (SalSubscribeDecline (le_op (ew_store w e)) (linphone_reason_to_sal reason)) w
       in (linphone_event_set_state e LinphoneSubscriptionTerminated w, vv_decline env)))"

definition linphone_event_notify :: "event_env \<Rightarrow> nat \<Rightarrow> event_world \<Rightarrow> event_world \<times> int" where
  "linphone_event_notify env e w = (let w = lev_touch e w in
     if le_subscription_state (ew_store w e) \<noteq> LinphoneSubscriptionActive then (w, -1)
     else if le_dir (ew_store w e) \<noteq> LinphoneSubscriptionIncoming then (w, -1)
     else (lev_emit (SalNotify (le_op (ew_store w e))) w, vv_notify env))"

definition linphone_core_create_publish :: "event_env \<Rightarrow> string \<Rightarrow> int \<Rightarrow> event_world \<Rightarrow> nat \<times> event_world" where
  "linphone_core_create_publish env event expires w =
     (case linphone_event_new LinphoneSubscriptionInvalidDir event expires w of (e, w) \<Rightarrow>
        (e, lev_emit (SetManualRefresher (le_op (ew_store w e)) (\<not> vv_refresh_publish env)) w))"

definition send_publish :: "event_env \<Rightarrow> nat \<Rightarrow> bool \<Rightarrow> event_world \<Rightarrow> event_world \<times> int" where
  "send_publish env e notify_err w = (let w = lev_touch e w; l = ew_store w e in
     if le_dir l \<noteq> LinphoneSubscriptionInvalidDir then (w, -1)
     else (let
         w = send_custom_headers e w;
         w = lev_emit (SalPublish (le_op l) (le_name l) (le_expires l)) w
       in (if vv_publish env = 0 then linphone_event_set_publish_state e LinphonePublishProgress w
           else if notify_err then linphone_event_set_publish_state e LinphonePublishError w else w, vv_publish env)))"

definition linphone_core_publish :: "event_env \<Rightarrow> string \<Rightarrow> int \<Rightarrow> event_world \<Rightarrow> nat option \<times> event_world" where
  "linphone_core_publish env event expires w = (case linphone_core_create_publish env event expires w of
     (e, w) \<Rightarrow> (case send_publish env e False w of (w, err) \<Rightarrow>
        if err = -1 then (None, linphone_event_unref e w) else (Some e, w)))"

definition linphone_event_send_publish :: "event_env \<Rightarrow> nat \<Rightarrow> event_world \<Rightarrow> event_world \<times> int" where
  "linphone_event_send_publish env e = send_publish env e True"

definition linphone_event_add_custom_header :: "nat \<Rightarrow> string \<Rightarrow> string \<Rightarrow> event_world \<Rightarrow> event_world" where
  "linphone_event_add_custom_header e name value = lev_upd e (\<lambda>l. l\<lparr>le_send_custom_headers :=
     Some ((case le_send_custom_headers l of None \<Rightarrow> [] | Some hs \<Rightarrow> hs) @ [(name, value)])\<rparr>)"

definition linphone_event_terminate :: "nat \<Rightarrow> event_world \<Rightarrow> event_world" where
  "linphone_event_terminate e w = (let
     w = lev_upd e (\<lambda>l. l\<lparr>le_terminating := True\<rparr>) w;
     l = ew_store w e;
     w = (if le_dir l = LinphoneSubscriptionIncoming then lev_emit (SalNotifyClose (le_op l)) w
          else if le_dir l = LinphoneSubscriptionOutgoing then lev_emit (SalUnsubscribe (le_op l)) w else w)
   in if le_publish_state l \<noteq> LinphonePublishNone then (let
        w = (if le_publish_state l = LinphonePublishOk \<and> le_expires l \<noteq> -1 then lev_emit (SalUnpublish (le_op l)) w
             else lev_emit (SalStopRefreshing (le_op l)) w)
      in linphone_event_set_publish_state e LinphonePublishCleared w)
      else if le_subscription_state l \<noteq> LinphoneSubscriptionNone
      then linphone_event_set_state e LinphoneSubscriptionTerminated w
      else w)"

section \<open>Callbacks of the signalling layer\<close>

definition subscribe_response :: "event_env \<Rightarrow> nat \<Rightarrow> sal_subscribe_status \<Rightarrow> event_world \<Rightarrow> event_world" where
  "subscribe_response env op status w = (case ew_user_pointer w op of None \<Rightarrow> w
     | Some e \<Rightarrow>
        if status = SalSubscribeActive then linphone_event_set_state e LinphoneSubscriptionActive w
        else if status = SalSubscribePending then linphone_event_set_state e LinphoneSubscriptionPending w
        else (let w = lev_touch e w in
          if le_subscription_state (ew_store w e) = LinphoneSubscriptionActive \<and> vv_reason env = SalReasonIOError
          then linphone_event_set_state e LinphoneSubscriptionOutgoingProgress w
          else linphone_event_set_state e LinphoneSubscriptionError w))"

definition sal_notify_received :: "nat \<Rightarrow> sal_subscribe_status \<Rightarrow> string \<Rightarrow> bool \<Rightarrow> event_world \<Rightarrow> event_world" where
  "sal_notify_received op st eventname has_body w =
     (case (case ew_user_pointer w op of
              None \<Rightarrow> linphone_event_new_with_out_of_dialog_op op LinphoneSubscriptionOutgoing eventname w
            | Some e \<Rightarrow> (e, w)) of (e, w) \<Rightarrow> (let
        w = (if has_body then lev_emit (NotifyReceived e eventname) w else w)
      in if st \<noteq> SalSubscribeNone then linphone_event_set_state e (linphone_subscription_state_from_sal st) w else w))"

definition subscribe_received :: "nat \<Rightarrow> string \<Rightarrow> event_world \<Rightarrow> event_world" where
  "subscribe_received op eventname w = (case ew_user_pointer w op of
     None \<Rightarrow> (case linphone_event_new_with_op op LinphoneSubscriptionIncoming eventname w of (e, w) \<Rightarrow>
        linphone_event_set_state e LinphoneSubscriptionIncomingReceived w)
   | Some e \<Rightarrow> w)"

definition subscribe_closed :: "nat \<Rightarrow> event_world \<Rightarrow> event_world" where
  "subscribe_closed op w = (case ew_user_pointer w op of
     None \<Rightarrow> w\<lparr>ew_null := True\<rparr> | Some e \<Rightarrow> linphone_event_set_state e LinphoneSubscriptionTerminated w)"

definition on_publish_response :: "event_env \<Rightarrow> nat \<Rightarrow> event_world \<Rightarrow> event_world" where
  "on_publish_response env op w = (case ew_user_pointer w op of None \<Rightarrow> w
     | Some e \<Rightarrow> (let w = lev_touch e w in
        if vv_reason env = SalReasonNone then
          linphone_event_set_publish_state e
            (if \<not> le_terminating (ew_store w e) then LinphonePublishOk else LinphonePublishCleared) w
        else linphone_event_set_publish_state e
            (if le_publish_state (ew_store w e) = LinphonePublishOk then LinphonePublishProgress else LinphonePublishError) w))"

definition on_expire :: "nat \<Rightarrow> event_world \<Rightarrow> event_world" where
  "on_expire op w = (case ew_user_pointer w op of None \<Rightarrow> w
     | Some e \<Rightarrow> (let w = lev_touch e w in
        if le_publish_state (ew_store w e) = LinphonePublishOk
        then linphone_event_set_publish_state e LinphonePublishExpiring w
        else if le_subscription_state (ew_store w e) = LinphoneSubscriptionActive
        then linphone_event_set_state e LinphoneSubscriptionExpiring w
        else w))"

section \<open>Requests of the other side\<close>

text \<open>A SUBSCRIBE or NOTIFY request, as the signalling stack has parsed it, with the state of the
  dialog the operation has by then (\<^const>\<open>None\<close> when a NOTIFY finds none).\<close>

datatype dialog_state = DialogNull | DialogEarly | DialogConfirmed | DialogTerminated

record event_request =
  rq_notify :: bool
  rq_event :: "string option"
  rq_subscription_state :: "string option"
  rq_expires :: "int option"
  rq_has_body :: bool
  rq_dialog :: "dialog_state option"

definition handle_notify :: "nat \<Rightarrow> event_request \<Rightarrow> string \<Rightarrow> event_world \<Rightarrow> event_world" where
  "handle_notify op rq eventname w = sal_notify_received op
     (case rq_subscription_state rq of None \<Rightarrow> SalSubscribeTerminated
      | Some s \<Rightarrow> if strcaseeq ''terminated'' s then SalSubscribeTerminated else SalSubscribeActive)
     eventname (rq_has_body rq) w"

definition subscribe_process_request_event :: "nat \<Rightarrow> event_request \<Rightarrow> event_world \<Rightarrow> event_world" where
  "subscribe_process_request_event op rq w = (case rq_event rq of None \<Rightarrow> w
     | Some eventname \<Rightarrow> (case rq_dialog rq of
         None \<Rightarrow> if rq_notify rq then handle_notify op rq eventname w else w
       | Some DialogNull \<Rightarrow> subscribe_received op eventname w
       | Some DialogConfirmed \<Rightarrow>
           if rq_notify rq then handle_notify op rq eventname w
           else (case rq_expires rq of None \<Rightarrow> w
             | Some expires \<Rightarrow> if expires > 0 then w else subscribe_closed op w)
       | _ \<Rightarrow> w))"

text \<open>A request finds its operation through its dialog, and is ignored when that operation has been
  released; otherwise it gets a new one.\<close>

definition process_subscription_request :: "nat option \<Rightarrow> event_request \<Rightarrow> event_world \<Rightarrow> event_world" where
  "process_subscription_request dialog_op rq w = (case dialog_op of
     Some op \<Rightarrow> if op \<in> set (ew_released w) then w else subscribe_process_request_event op rq w
   | None \<Rightarrow> if rq_event rq = None then w
       else (case sal_op_for_event w of (op, w) \<Rightarrow> subscribe_process_request_event op rq w))"

section \<open>Steps\<close>

datatype event_input =
    CreateSubscribe string int | Subscribe string int | SendSubscribe nat | AcceptSubscription nat
  | DenySubscription nat linphone_reason | NotifySubscriber nat
  | CreatePublish string int | Publish string int | SendPublish nat
  | AddCustomHeader nat string string | TerminateEvent nat | RefEvent nat | UnrefEvent nat
  | RequestReceived "nat option" event_request
  | SubscribeResponded nat sal_subscribe_status | PublishResponded nat | Expired nat

fun event_handle :: "event_env \<Rightarrow> event_input \<Rightarrow> event_world \<Rightarrow> event_world" where
  "event_handle env (CreateSubscribe event expires) w = snd (linphone_core_create_subscribe env event expires w)"
| "event_handle env (Subscribe event expires) w = snd (linphone_core_subscribe env event expires w)"
| "event_handle env (SendSubscribe e) w = fst (linphone_event_send_subscribe env e w)"
| "event_handle env (AcceptSubscription e) w = fst (linphone_event_accept_subscription env e w)"
| "event_handle env (DenySubscription e reason) w = fst (linphone_event_deny_subscription env e reason w)"
| "event_handle env (NotifySubscriber e) w = fst (linphone_event_notify env e w)"
| "event_handle env (CreatePublish event expires) w = snd (linphone_core_create_publish env event expires w)"
| "event_handle env (Publish event expires) w = snd (linphone_core_publish env event expires w)"
| "event_handle env (SendPublish e) w = fst (linphone_event_send_publish env e w)"
| "event_handle env (AddCustomHeader e name value) w = linphone_event_add_custom_header e name value w"
| "event_handle env (TerminateEvent e) w = linphone_event_terminate e w"
| "event_handle env (RefEvent e) w = linphone_event_ref e w"
| "event_handle env (UnrefEvent e) w = linphone_event_unref e w"
| "event_handle env (RequestReceived dialog_op rq) w = process_subscription_request dialog_op rq w"
| "event_handle env (SubscribeResponded op status) w = subscribe_response env op status w"
| "event_handle env (PublishResponded op) w = on_publish_response env op w"
| "event_handle env (Expired op) w = on_expire op w"

end
