(* ===== verification/EventProps.thy ===== *)
theory EventProps
  imports EventApi
begin

text \<open>
The life of events: an application that takes no references of its own never meets a freed event,
and an event is freed, its operation released once, exactly when it has ended.
\<close>

section \<open>The invariant\<close>

text \<open>An event has ended when its subscription is terminated, when its publication is cleared, or,
  for a publication that is not refreshed, when it is answered.\<close>

definition lev_ended :: "lin_event \<Rightarrow> bool" where
  "lev_ended l \<longleftrightarrow> le_subscription_state l = LinphoneSubscriptionTerminated
     \<or> le_expires l = -1 \<and> le_publish_state l \<in> {LinphonePublishOk, LinphonePublishError}
     \<or> le_expires l \<noteq> -1 \<and> le_publish_state l = LinphonePublishCleared"

text \<open>A publication that could not be sent is dropped before it has a state.\<close>

definition lev_unsent :: "lin_event \<Rightarrow> bool" where
  "lev_unsent l \<longleftrightarrow> le_dir l = LinphoneSubscriptionInvalidDir \<and> le_publish_state l = LinphonePublishNone"

definition events_ok :: "event_world \<Rightarrow> bool" where
  "events_ok w \<longleftrightarrow> \<not> ew_dangling w \<and> \<not> ew_null w
     \<and> (\<forall>e. lev_alive e w \<longrightarrow> le_refcnt (ew_store w e) = 1 \<and> \<not> lev_ended (ew_store w e)
          \<and> le_op (ew_store w e) < ew_next_op w \<and> ew_user_pointer w (le_op (ew_store w e)) = Some e)
     \<and> (\<forall>op e. ew_user_pointer w op = Some e \<longrightarrow> lev_alive e w \<and> le_op (ew_store w e) = op \<and> op \<notin> set (ew_released w))
     \<and> (\<forall>op < ew_next_op w. op \<in> set (ew_released w) \<or> ew_user_pointer w op \<noteq> None)
     \<and> (\<forall>e \<in> set (ew_freed w). e < ew_next w \<and> (lev_ended (ew_store w e) \<or> lev_unsent (ew_store w e)))
     \<and> map (\<lambda>e. le_op (ew_store w e)) (ew_freed w) = ew_released w
     \<and> distinct (ew_released w) \<and> (\<forall>op \<in> set (ew_released w). op < ew_next_op w)"

lemma events_okD:
  assumes "events_ok w"
  shows "\<not> ew_dangling w" "\<not> ew_null w"
    "lev_alive e w \<Longrightarrow> le_refcnt (ew_store w e) = 1" "lev_alive e w \<Longrightarrow> \<not> lev_ended (ew_store w e)"
    "lev_alive e w \<Longrightarrow> ew_user_pointer w (le_op (ew_store w e)) = Some e"
    "ew_user_pointer w op = Some e \<Longrightarrow> lev_alive e w"
    "op < ew_next_op w \<Longrightarrow> op \<notin> set (ew_released w) \<Longrightarrow> \<exists>e. ew_user_pointer w op = Some e"
    "ew_user_pointer w op = Some e \<Longrightarrow> op \<notin> set (ew_released w)"
  using assms by (auto simp: events_ok_def)

lemma touch_alive [simp]: "lev_alive e w \<Longrightarrow> lev_touch e w = w"
  by (simp add: lev_touch_def)

lemma lev_frame [simp]:
  "lev_alive e (lev_emit a w) = lev_alive e w" "ew_store (lev_emit a w) = ew_store w"
  "ew_user_pointer (lev_emit a w) = ew_user_pointer w"
  "lev_alive d (lev_upd e f w) = lev_alive d w" "ew_store (lev_upd e f w) e = f (ew_store w e)"
  "ew_user_pointer (lev_upd e f w) = ew_user_pointer w"
  by (simp_all add: lev_alive_def lev_emit_def lev_upd_def lev_touch_def Let_def)

lemma emit_ok [simp]: "events_ok (lev_emit a w) = events_ok w"
  by (simp add: events_ok_def lev_emit_def lev_alive_def)

lemma op_update: "le_op y = le_op (s e) \<Longrightarrow> (\<lambda>d. le_op ((s(e := y)) d)) = (\<lambda>d. le_op (s d))"
  by auto

lemma upd_ok:
  assumes "events_ok w" "lev_alive e w"
    and "le_op (f (ew_store w e)) = le_op (ew_store w e)" "le_refcnt (f (ew_store w e)) = le_refcnt (ew_store w e)"
    and "\<not> lev_ended (f (ew_store w e))"
  shows "events_ok (lev_upd e f w)"
proof -
  have m: "map (\<lambda>d. le_op (((ew_store w)(e := f (ew_store w e))) d)) (ew_freed w) = ew_released w"
    unfolding op_update [where s = "ew_store w" and e = e, OF assms(3)] using assms(1) by (simp add: events_ok_def)
  show ?thesis using assms m
    by (simp add: events_ok_def lev_upd_def lev_alive_def)
qed

text \<open>Ending an event: the change that ends it, its announcement and the loss of the reference.\<close>

lemma end_ok:
  assumes "events_ok w" "lev_alive e w"
    and "le_op (f (ew_store w e)) = le_op (ew_store w e)" "le_refcnt (f (ew_store w e)) = le_refcnt (ew_store w e)"
    and "lev_ended (f (ew_store w e)) \<or> lev_unsent (f (ew_store w e))"
    and w': "w' = (lev_upd e f w)\<lparr>ew_trace := tr\<rparr>"
  shows "events_ok (linphone_event_unref e w')"
proof -
  let ?l = "(f (ew_store w e))\<lparr>le_refcnt := 0\<rparr>"
  have l: "le_op ?l = le_op (ew_store w e)" "lev_ended ?l \<or> lev_unsent ?l"
    using assms(3,5) by (auto simp: lev_ended_def lev_unsent_def split: if_splits)
  have rc: "le_refcnt (f (ew_store w e)) = 1" using assms(1,2,4) by (simp add: events_okD)
  have fields: "le_op (f (ew_store w e)) = le_op (ew_store w e)" by (rule assms(3))
  have eq: "linphone_event_unref e w' = w\<lparr>ew_store := (ew_store w)(e := ?l), ew_trace := tr,
      ew_user_pointer := (ew_user_pointer w)(le_op (ew_store w e) := None),
      ew_released := le_op (ew_store w e) # ew_released w, ew_freed := e # ew_freed w\<rparr>"
    using assms(2) rc fields
    by (simp add: linphone_event_unref_def linphone_event_destroy_def w' lev_upd_def lev_emit_def lev_alive_def lev_touch_def Let_def)
  have other: "le_op (ew_store w d) \<noteq> le_op (ew_store w e)" if "lev_alive d w" "d \<noteq> e" for d
    using that assms(1,2) events_okD(5) [of w d] events_okD(5) [of w e] by force
  have fresh: "le_op (ew_store w e) \<notin> set (ew_released w)" "le_op (ew_store w e) < ew_next_op w"
    using assms(1,2) by (auto simp: events_ok_def)
  have m: "map (\<lambda>d. le_op (((ew_store w)(e := ?l)) d)) (e # ew_freed w) = le_op (ew_store w e) # ew_released w"
    unfolding op_update [where s = "ew_store w" and e = e and y = ?l, OF l(1)] using assms(1) by (simp add: events_ok_def)
  have alive: "lev_alive d (linphone_event_unref e w') \<longleftrightarrow> lev_alive d w \<and> d \<noteq> e" for d
    by (auto simp: eq lev_alive_def)
  show ?thesis
    unfolding events_ok_def alive
  proof (intro conjI)
    show "\<not> ew_dangling (linphone_event_unref e w')" "\<not> ew_null (linphone_event_unref e w')"
      using assms(1) by (simp_all add: eq events_ok_def)
    show "\<forall>d. lev_alive d w \<and> d \<noteq> e \<longrightarrow> le_refcnt (ew_store (linphone_event_unref e w') d) = 1
        \<and> \<not> lev_ended (ew_store (linphone_event_unref e w') d)
        \<and> le_op (ew_store (linphone_event_unref e w') d) < ew_next_op (linphone_event_unref e w')
        \<and> ew_user_pointer (linphone_event_unref e w') (le_op (ew_store (linphone_event_unref e w') d)) = Some d"
      using assms(1) other by (simp add: eq events_ok_def)
    show "\<forall>op d. ew_user_pointer (linphone_event_unref e w') op = Some d \<longrightarrow> (lev_alive d w \<and> d \<noteq> e)
        \<and> le_op (ew_store (linphone_event_unref e w') d) = op \<and> op \<notin> set (ew_released (linphone_event_unref e w'))"
      using assms(1) l(1) by (auto simp: eq events_ok_def)
    show "\<forall>op < ew_next_op (linphone_event_unref e w'). op \<in> set (ew_released (linphone_event_unref e w'))
        \<or> ew_user_pointer (linphone_event_unref e w') op \<noteq> None"
      using assms(1) by (simp add: eq events_ok_def)
    show "\<forall>d \<in> set (ew_freed (linphone_event_unref e w')). d < ew_next (linphone_event_unref e w')
        \<and> (lev_ended (ew_store (linphone_event_unref e w') d) \<or> lev_unsent (ew_store (linphone_event_unref e w') d))"
      using assms(1,2) l(2) by (simp add: eq events_ok_def lev_alive_def)
    show "map (\<lambda>d. le_op (ew_store (linphone_event_unref e w') d)) (ew_freed (linphone_event_unref e w'))
        = ew_released (linphone_event_unref e w')"
      unfolding eq using m by simp
    show "distinct (ew_released (linphone_event_unref e w'))"
        "\<forall>op \<in> set (ew_released (linphone_event_unref e w')). op < ew_next_op (linphone_event_unref e w')"
      using assms(1) fresh by (simp_all add: eq events_ok_def)
  qed
qed

lemma emit_upd: "lev_emit a (lev_upd e f w) = (lev_upd e f w)\<lparr>ew_trace := ew_trace w @ [a]\<rparr>"
  by (simp add: lev_emit_def lev_upd_def lev_touch_def Let_def)

lemma event_state_ok:
  assumes "events_ok w" "lev_alive e w"
  shows "events_ok (linphone_event_set_state e st w)"
proof -
  let ?f = "\<lambda>l. l\<lparr>le_subscription_state := st\<rparr>"
  have e: "\<not> lev_ended (ew_store w e)" using assms by (rule events_okD(4))
  have "events_ok (linphone_event_unref e (lev_emit a (lev_upd e ?f w)))" if "st = LinphoneSubscriptionTerminated" for a
    using assms that by (intro end_ok [where f = ?f and tr = "ew_trace w @ [a]"])
      (simp_all add: lev_ended_def emit_upd)
  moreover have "events_ok (lev_emit a (lev_upd e ?f w))" if "st \<noteq> LinphoneSubscriptionTerminated" for a
    using upd_ok [OF assms, of ?f] e that by (simp add: lev_ended_def)
  ultimately show ?thesis using assms by (simp add: linphone_event_set_state_def Let_def)
qed

lemma set_publish_state_ok:
  assumes "events_ok w" "lev_alive e w"
  shows "events_ok (linphone_event_set_publish_state e st w)"
proof -
  let ?f = "\<lambda>l. l\<lparr>le_publish_state := st\<rparr>"
  have e: "\<not> lev_ended (ew_store w e)" using assms by (rule events_okD(4))
  have "events_ok (linphone_event_unref e (lev_emit a (lev_upd e ?f w)))" if "lev_ended (?f (ew_store w e))" for a
    using assms that by (intro end_ok [where f = ?f and tr = "ew_trace w @ [a]"]) (simp_all add: emit_upd)
  moreover have "events_ok (lev_emit a (lev_upd e ?f w))" if "\<not> lev_ended (?f (ew_store w e))" for a
    using assms e that by (simp add: upd_ok)
  ultimately show ?thesis using assms e
    by (cases st) (simp_all add: linphone_event_set_publish_state_def Let_def lev_ended_def)
qed

section \<open>Creation\<close>

text \<open>An event created on an operation that is itself new.\<close>

lemma new_base_ok:
  assumes "events_ok w"
  shows "events_ok (snd (linphone_event_new_base dir name (ew_next_op w) (w\<lparr>ew_next_op := Suc (ew_next_op w)\<rparr>)))"
    (is "events_ok ?w")
proof -
  let ?e = "ew_next w" and ?op = "ew_next_op w"
  have alive: "lev_alive d ?w \<longleftrightarrow> lev_alive d w \<or> d = ?e" for d
    using assms by (auto simp: linphone_event_new_base_def lev_alive_def Let_def events_ok_def)
  have old: "d \<noteq> ?e" "le_op (ew_store w d) \<noteq> ?op" if "lev_alive d w" for d
    using that assms by (auto simp: lev_alive_def events_ok_def)
  have freed: "d \<noteq> ?e" if "d \<in> set (ew_freed w)" for d using that assms by (auto simp: events_ok_def)
  have fresh: "?op \<notin> set (ew_released w)" using assms by (auto simp: events_ok_def)
  have m: "map (\<lambda>d. le_op (ew_store ?w d)) (ew_freed w) = ew_released w"
  proof -
    have "map (\<lambda>d. le_op (ew_store ?w d)) (ew_freed w) = map (\<lambda>d. le_op (ew_store w d)) (ew_freed w)"
      by (rule map_cong) (auto simp: linphone_event_new_base_def Let_def dest: freed)
    also have "\<dots> = ew_released w" using assms by (simp add: events_ok_def)
    finally show ?thesis .
  qed
  show ?thesis unfolding events_ok_def alive
  proof (intro conjI)
    show "\<not> ew_dangling ?w" "\<not> ew_null ?w"
      using assms by (simp_all add: linphone_event_new_base_def Let_def events_ok_def)
    show "\<forall>d. lev_alive d w \<or> d = ?e \<longrightarrow> le_refcnt (ew_store ?w d) = 1 \<and> \<not> lev_ended (ew_store ?w d)
        \<and> le_op (ew_store ?w d) < ew_next_op ?w \<and> ew_user_pointer ?w (le_op (ew_store ?w d)) = Some d"
    proof (intro allI impI)
      fix d assume "lev_alive d w \<or> d = ?e"
      then consider "d = ?e" | "lev_alive d w" "d \<noteq> ?e" using old by blast
      then show "le_refcnt (ew_store ?w d) = 1 \<and> \<not> lev_ended (ew_store ?w d)
        \<and> le_op (ew_store ?w d) < ew_next_op ?w \<and> ew_user_pointer ?w (le_op (ew_store ?w d)) = Some d"
      proof cases
        case 1
        then show ?thesis by (simp add: linphone_event_new_base_def Let_def lev_ended_def)
      next
        case 2
        then have "le_refcnt (ew_store w d) = 1 \<and> \<not> lev_ended (ew_store w d) \<and> le_op (ew_store w d) < ?op
            \<and> ew_user_pointer w (le_op (ew_store w d)) = Some d"
          using assms by (simp add: events_ok_def)
        then show ?thesis using 2 old by (simp add: linphone_event_new_base_def Let_def)
      qed
    qed
    show "\<forall>op d. ew_user_pointer ?w op = Some d \<longrightarrow> (lev_alive d w \<or> d = ?e) \<and> le_op (ew_store ?w d) = op
        \<and> op \<notin> set (ew_released ?w)"
    proof (intro allI impI)
      fix op d assume up: "ew_user_pointer ?w op = Some d"
      show "(lev_alive d w \<or> d = ?e) \<and> le_op (ew_store ?w d) = op \<and> op \<notin> set (ew_released ?w)"
      proof (cases "op = ?op")
        case True
        with up fresh show ?thesis by (simp add: linphone_event_new_base_def Let_def)
      next
        case False
        with up have "ew_user_pointer w op = Some d" by (simp add: linphone_event_new_base_def Let_def)
        then have "lev_alive d w \<and> le_op (ew_store w d) = op \<and> op \<notin> set (ew_released w)"
          using assms by (simp add: events_ok_def)
        with old show ?thesis by (simp add: linphone_event_new_base_def Let_def)
      qed
    qed
    show "\<forall>op < ew_next_op ?w. op \<in> set (ew_released ?w) \<or> ew_user_pointer ?w op \<noteq> None"
      using assms by (auto simp: linphone_event_new_base_def Let_def events_ok_def less_Suc_eq)
    show "\<forall>d \<in> set (ew_freed ?w). d < ew_next ?w \<and> (lev_ended (ew_store ?w d) \<or> lev_unsent (ew_store ?w d))"
      using assms freed by (auto simp: linphone_event_new_base_def Let_def events_ok_def less_SucI)
    show "map (\<lambda>d. le_op (ew_store ?w d)) (ew_freed ?w) = ew_released ?w"
      using m by (simp add: linphone_event_new_base_def Let_def)
    show "distinct (ew_released ?w)" "\<forall>op \<in> set (ew_released ?w). op < ew_next_op ?w"
      using assms by (auto simp: linphone_event_new_base_def Let_def events_ok_def less_SucI)
  qed
qed

lemma new_base_alive:
  "events_ok w \<Longrightarrow> lev_alive (ew_next w) (snd (linphone_event_new_base dir name op (w\<lparr>ew_next_op := n\<rparr>)))"
  "fst (linphone_event_new_base dir name op (w\<lparr>ew_next_op := n\<rparr>)) = ew_next w"
  "ew_store (snd (linphone_event_new_base dir name op (w\<lparr>ew_next_op := n\<rparr>))) (ew_next w) =
     \<lparr>le_dir = dir, le_op = op, le_send_custom_headers = None,
      le_subscription_state = LinphoneSubscriptionNone, le_publish_state = LinphonePublishNone, le_refcnt = 1,
      le_name = name, le_expires = 0, le_terminating = False, le_is_out_of_dialog_op = False\<rparr>"
  by (auto simp: linphone_event_new_base_def Let_def lev_alive_def events_ok_def)

lemma new_ok:
  assumes "events_ok w" and "linphone_event_new dir name expires w = (e, w')"
  shows "events_ok w'" "lev_alive e w'" "le_publish_state (ew_store w' e) = LinphonePublishNone"
    "le_dir (ew_store w' e) = dir"
proof -
  obtain w1 where w1: "linphone_event_new_base dir name (ew_next_op w) (w\<lparr>ew_next_op := Suc (ew_next_op w)\<rparr>) = (ew_next w, w1)"
    using new_base_alive(2) by (metis prod.collapse)
  have ok: "events_ok w1" "lev_alive (ew_next w) w1"
    using new_base_ok [OF assms(1)] new_base_alive(1) [OF assms(1)] w1 by (metis snd_conv)+
  have l: "le_publish_state (ew_store w1 (ew_next w)) = LinphonePublishNone" "le_dir (ew_store w1 (ew_next w)) = dir"
      "le_subscription_state (ew_store w1 (ew_next w)) = LinphoneSubscriptionNone"
    using new_base_alive(3) [where dir = dir and name = name and op = "ew_next_op w" and w = w and n = "Suc (ew_next_op w)"] w1
    by simp_all
  have w': "e = ew_next w" "w' = lev_upd (ew_next w) (\<lambda>l. l\<lparr>le_expires := expires\<rparr>) w1"
    using assms(2) w1 by (auto simp: linphone_event_new_def sal_op_for_event_def)
  show "events_ok w'" unfolding w' using ok l by (intro upd_ok) (simp_all add: lev_ended_def)
  show "lev_alive e w'" "le_publish_state (ew_store w' e) = LinphonePublishNone" "le_dir (ew_store w' e) = dir"
    using ok l by (simp_all add: w')
qed

lemma new_with_op_ok:
  assumes "events_ok w"
    and "linphone_event_new_with_op_base (ew_next_op w) dir name out (w\<lparr>ew_next_op := Suc (ew_next_op w)\<rparr>) = (e, w')"
  shows "events_ok w'" "lev_alive e w'"
proof -
  obtain w1 where w1: "linphone_event_new_base dir name (ew_next_op w) (w\<lparr>ew_next_op := Suc (ew_next_op w)\<rparr>) = (ew_next w, w1)"
    using new_base_alive(2) by (metis prod.collapse)
  have ok: "events_ok w1" "lev_alive (ew_next w) w1"
    using new_base_ok [OF assms(1)] new_base_alive(1) [OF assms(1)] w1 by (metis snd_conv)+
  have w': "e = ew_next w" "w' = lev_upd (ew_next w) (\<lambda>l. l\<lparr>le_is_out_of_dialog_op := out\<rparr>) w1"
    using assms(2) w1 by (auto simp: linphone_event_new_with_op_base_def)
  show "events_ok w'" unfolding w' using ok events_okD(4) [OF ok]
    by (intro upd_ok) (simp_all add: lev_ended_def)
  show "lev_alive e w'" using ok by (simp add: w')
qed

section \<open>Operations\<close>

lemma send_headers_ok:
  assumes "events_ok w" "lev_alive e w"
  shows "events_ok (send_custom_headers e w)" "lev_alive e (send_custom_headers e w)"
    "le_publish_state (ew_store (send_custom_headers e w) e) = le_publish_state (ew_store w e)"
    "le_dir (ew_store (send_custom_headers e w) e) = le_dir (ew_store w e)"
  using assms events_okD(4) [OF assms]
  by (auto simp: send_custom_headers_def Let_def lev_ended_def intro!: upd_ok split: option.split)

lemma send_subscribe_ok:
  "events_ok w \<Longrightarrow> lev_alive e w \<Longrightarrow> events_ok (fst (linphone_event_send_subscribe env e w))"
  using send_headers_ok [of w e] by (simp add: linphone_event_send_subscribe_def Let_def event_state_ok)

lemma create_subscribe_ok:
  assumes "events_ok w" and "linphone_core_create_subscribe env event expires w = (e, w')"
  shows "events_ok w'" "lev_alive e w'"
  using assms(2) new_ok [OF assms(1)] by (auto simp: linphone_core_create_subscribe_def split: prod.splits)

lemma event_publish_ok:
  "events_ok w \<Longrightarrow> lev_alive e w \<Longrightarrow> events_ok (fst (send_publish env e notify_err w))"
  using send_headers_ok [of w e] by (simp add: send_publish_def Let_def set_publish_state_ok)

lemma create_publish_ok:
  assumes "events_ok w" and "linphone_core_create_publish env event expires w = (e, w')"
  shows "events_ok w'" "lev_alive e w'" "lev_unsent (ew_store w' e)"
  using assms(2) new_ok [OF assms(1)] by (auto simp: linphone_core_create_publish_def lev_unsent_def split: prod.splits)

lemma unsent_ok:
  assumes "events_ok w" "lev_alive e w" "lev_unsent (ew_store w e)"
  shows "events_ok (linphone_event_unref e w)"
proof -
  have "w = (lev_upd e id w)\<lparr>ew_trace := ew_trace w\<rparr>"
    using assms(2) by (intro event_world.equality) (simp_all add: lev_upd_def)
  with assms show ?thesis by (intro end_ok [where f = id and tr = "ew_trace w"]) simp_all
qed

lemma publish_ok: "events_ok w \<Longrightarrow> events_ok (snd (linphone_core_publish env event expires w))"
proof -
  assume w: "events_ok w"
  obtain e w1 where c: "linphone_core_create_publish env event expires w = (e, w1)" by fastforce
  note ok = create_publish_ok [OF w c]
  obtain w2 err where s: "send_publish env e False w1 = (w2, err)" by fastforce
  have w2: "events_ok w2" using event_publish_ok [OF ok(1,2), of env False] s by simp
  have "events_ok (linphone_event_unref e w2)" if "err = -1"
    using that s ok send_headers_ok [OF ok(1,2)] w2
    by (intro unsent_ok) (auto simp: send_publish_def Let_def lev_unsent_def split: if_splits)
  with w2 show ?thesis by (simp add: linphone_core_publish_def c s)
qed

lemma terminate_ok:
  assumes "events_ok w" "lev_alive e w"
  shows "events_ok (linphone_event_terminate e w)"
proof -
  have "events_ok (lev_upd e (\<lambda>l. l\<lparr>le_terminating := True\<rparr>) w)"
    using assms events_okD(4) [OF assms] by (intro upd_ok) (simp_all add: lev_ended_def)
  with assms show ?thesis
    by (simp add: linphone_event_terminate_def Let_def event_state_ok set_publish_state_ok)
qed

lemma add_header_ok:
  assumes "events_ok w" "lev_alive e w"
  shows "events_ok (linphone_event_add_custom_header e name value w)"
  using assms events_okD(4) [OF assms] unfolding linphone_event_add_custom_header_def
  by (intro upd_ok) (simp_all add: lev_ended_def)

lemma response_ok:
  assumes "events_ok w"
  shows "events_ok (subscribe_response env op status w)" "events_ok (on_publish_response env op w)" "events_ok (on_expire op w)"
  using assms events_okD(6) [OF assms]
  by (auto simp: subscribe_response_def on_publish_response_def on_expire_def Let_def event_state_ok set_publish_state_ok
      split: option.split)

section \<open>Requests\<close>

text \<open>A request for an operation the core knows, or one that opens a dialog or has none.\<close>

fun request_timely :: "event_world \<Rightarrow> nat option \<Rightarrow> event_request \<Rightarrow> bool" where
  "request_timely w (Some op) rq = (op < ew_next_op w)"
| "request_timely w None rq = (rq_dialog rq = (if rq_notify rq then None else Some DialogNull))"

lemma known_request_ok:
  assumes "events_ok w" "op < ew_next_op w" "op \<notin> set (ew_released w)"
  shows "events_ok (subscribe_process_request_event op rq w)"
proof -
  obtain e where e: "ew_user_pointer w op = Some e" using events_okD(7) [OF assms] by blast
  then have alive: "lev_alive e w" using events_okD(6) [OF assms(1)] by blast
  have "events_ok (sal_notify_received op st n b w)" for st n b
    using assms(1) alive e by (simp add: sal_notify_received_def Let_def event_state_ok)
  moreover have "events_ok (subscribe_closed op w)" "events_ok (subscribe_received op n w)" for n
    using assms(1) alive e by (simp_all add: subscribe_closed_def subscribe_received_def event_state_ok)
  ultimately show ?thesis using assms(1)
    by (auto simp: subscribe_process_request_event_def handle_notify_def split: option.split dialog_state.split)
qed

lemma new_request_ok:
  assumes "events_ok w" "rq_event rq = Some n" "request_timely w None rq"
  shows "events_ok (subscribe_process_request_event (ew_next_op w) rq (w\<lparr>ew_next_op := Suc (ew_next_op w)\<rparr>))"
proof -
  let ?w = "w\<lparr>ew_next_op := Suc (ew_next_op w)\<rparr>"
  have none: "ew_user_pointer w (ew_next_op w) = None"
  proof (rule ccontr)
    assume "ew_user_pointer w (ew_next_op w) \<noteq> None"
    then obtain e where e: "ew_user_pointer w (ew_next_op w) = Some e" by blast
    then have "lev_alive e w" "le_op (ew_store w e) = ew_next_op w" using assms(1) by (simp_all add: events_ok_def)
    moreover have "le_op (ew_store w e) < ew_next_op w" if "lev_alive e w" using assms(1) that by (simp add: events_ok_def)
    ultimately show False by simp
  qed
  have new: "events_ok w'" "lev_alive e w'" if "linphone_event_new_with_op_base (ew_next_op w) dir n out ?w = (e, w')" for dir out e w'
    using new_with_op_ok [OF assms(1) that] .
  have "events_ok (subscribe_received (ew_next_op w) n ?w)"
    using none new by (simp add: subscribe_received_def linphone_event_new_with_op_def event_state_ok split: prod.split)
  moreover have "events_ok (sal_notify_received (ew_next_op w) st n b ?w)" for st b
    using none new
    by (simp add: sal_notify_received_def linphone_event_new_with_out_of_dialog_op_def Let_def event_state_ok split: prod.split)
  ultimately show ?thesis using assms(2,3)
    by (simp add: subscribe_process_request_event_def handle_notify_def split: if_splits)
qed

lemma request_ok:
  assumes "events_ok w" "request_timely w dialog_op rq"
  shows "events_ok (process_subscription_request dialog_op rq w)"
proof (cases dialog_op)
  case None
  then show ?thesis using assms new_request_ok [OF assms(1)]
    by (cases "rq_event rq") (simp_all add: process_subscription_request_def sal_op_for_event_def)
next
  case (Some op)
  then show ?thesis using assms known_request_ok [OF assms(1)] by (simp add: process_subscription_request_def)
qed

section \<open>Reachable states\<close>

definition no_events :: event_world where
  "no_events = \<lparr>ew_store = (\<lambda>_. \<lparr>le_dir = LinphoneSubscriptionInvalidDir, le_op = 0, le_send_custom_headers = None,
       le_subscription_state = LinphoneSubscriptionNone, le_publish_state = LinphonePublishNone, le_refcnt = 0,
       le_name = [], le_expires = 0, le_terminating = False, le_is_out_of_dialog_op = False\<rparr>),
     ew_next = 0, ew_freed = [], ew_user_pointer = (\<lambda>_. None), ew_next_op = 0, ew_released = [],
     ew_dangling = False, ew_null = False, ew_trace = []\<rparr>"

text \<open>The application acts on the events it knows to be alive and takes no references of its own; the
  signalling layer reports requests that are timely and responses to operations not released.\<close>

fun event_allowed :: "event_input \<Rightarrow> event_world \<Rightarrow> bool" where
  "event_allowed (SendSubscribe e) w = lev_alive e w"
| "event_allowed (AcceptSubscription e) w = lev_alive e w"
| "event_allowed (DenySubscription e reason) w = lev_alive e w"
| "event_allowed (NotifySubscriber e) w = lev_alive e w"
| "event_allowed (SendPublish e) w = lev_alive e w"
| "event_allowed (AddCustomHeader e name value) w = lev_alive e w"
| "event_allowed (TerminateEvent e) w = lev_alive e w"
| "event_allowed (RefEvent e) w = False"
| "event_allowed (UnrefEvent e) w = False"
| "event_allowed (RequestReceived dialog_op rq) w = request_timely w dialog_op rq"
| "event_allowed _ w = True"

inductive event_reachable :: "event_world \<Rightarrow> bool" where
  start: "event_reachable no_events"
| step: "event_reachable w \<Longrightarrow> event_allowed input w \<Longrightarrow> event_reachable (event_handle env input w)"

lemma handle_ok:
  assumes "events_ok w" "event_allowed input w"
  shows "events_ok (event_handle env input w)"
proof (cases input)
  case (Subscribe event expires)
  then show ?thesis using create_subscribe_ok [OF assms(1), of env event expires]
    by (simp add: linphone_core_subscribe_def send_subscribe_ok split: prod.split)
next
  case (CreateSubscribe event expires)
  then show ?thesis using create_subscribe_ok [OF assms(1), of env event expires]
    by (cases "linphone_core_create_subscribe env event expires w") simp
next
  case (CreatePublish event expires)
  then show ?thesis using create_publish_ok [OF assms(1), of env event expires]
    by (cases "linphone_core_create_publish env event expires w") simp
qed (use assms in \<open>simp_all add: send_subscribe_ok event_publish_ok publish_ok terminate_ok add_header_ok request_ok
  response_ok linphone_event_accept_subscription_def linphone_event_deny_subscription_def linphone_event_notify_def
  linphone_event_send_publish_def Let_def event_state_ok\<close>)

lemma event_reachable_ok: "event_reachable w \<Longrightarrow> events_ok w"
proof (induction rule: event_reachable.induct)
  case start
  then show ?case by (simp add: events_ok_def no_events_def lev_alive_def)
next
  case (step w input env)
  then show ?case by (simp add: handle_ok)
qed

text \<open>C15. As long as the application takes no references of its own, no operation and no callback ever
  uses a freed event or a missing one; every event still alive has a live operation that leads back
  to it and has not ended, every other one has ended, or could not be sent, and its operation has
  been released exactly once.\<close>

theorem events_freed_when_ended:
  assumes "event_reachable w"
  shows "\<not> ew_dangling w \<and> \<not> ew_null w \<and> distinct (ew_released w)
    \<and> (\<forall>e < ew_next w. let l = ew_store w e in
         if e \<in> set (ew_freed w) then (lev_ended l \<or> lev_unsent l) \<and> le_op l \<in> set (ew_released w)
         else \<not> lev_ended l \<and> ew_user_pointer w (le_op l) = Some e \<and> le_op l \<notin> set (ew_released w))"
proof -
  have ok: "events_ok w" using assms by (rule event_reachable_ok)
  have "if e \<in> set (ew_freed w)
      then (lev_ended (ew_store w e) \<or> lev_unsent (ew_store w e)) \<and> le_op (ew_store w e) \<in> set (ew_released w)
      else \<not> lev_ended (ew_store w e) \<and> ew_user_pointer w (le_op (ew_store w e)) = Some e
        \<and> le_op (ew_store w e) \<notin> set (ew_released w)" if e: "e < ew_next w" for e
  proof (cases "e \<in> set (ew_freed w)")
    case True
    have "ew_released w = map (\<lambda>e. le_op (ew_store w e)) (ew_freed w)" using ok by (simp add: events_ok_def)
    then have "le_op (ew_store w e) \<in> set (ew_released w)" using True by simp
    moreover have "lev_ended (ew_store w e) \<or> lev_unsent (ew_store w e)" using ok True by (simp add: events_ok_def)
    ultimately show ?thesis using True by simp
  next
    case False
    with e have "lev_alive e w" by (simp add: lev_alive_def)
    with ok have u: "ew_user_pointer w (le_op (ew_store w e)) = Some e" "\<not> lev_ended (ew_store w e)"
      by (simp_all add: events_okD)
    then have "le_op (ew_store w e) \<notin> set (ew_released w)" using events_okD(8) [OF ok] by blast
    with False u show ?thesis by simp
  qed
  moreover have "\<not> ew_dangling w" "\<not> ew_null w" "distinct (ew_released w)" using ok by (simp_all add: events_ok_def)
  ultimately show ?thesis unfolding Let_def by blast
qed

text \<open>With a reference of its own the application is not safe: after it has terminated a
  subscription it still refers to, the response to the request that ends it makes the event active
  again, and the last notification ends it, and drops a reference, a second time: the event is freed
  while the application refers to it.\<close>

theorem late_response_drops_reference:
  assumes "events_ok w" "lev_alive e w" and op: "op = le_op (ew_store w e)"
    and "le_publish_state (ew_store w e) = LinphonePublishNone"
    and "le_subscription_state (ew_store w e) = LinphoneSubscriptionActive"
    and w1: "w1 = linphone_event_terminate e (linphone_event_ref e w)"
    and w2: "w2 = subscribe_response env op SalSubscribeActive w1"
    and w3: "w3 = sal_notify_received op SalSubscribeTerminated n b w2"
  shows "lev_alive e w1 \<and> le_subscription_state (ew_store w2 e) = LinphoneSubscriptionActive \<and> \<not> lev_alive e w3"
proof -
  have up: "ew_user_pointer w op = Some e" "le_refcnt (ew_store w e) = 1" using assms(1-3) by (simp_all add: events_okD)
  have s1: "lev_alive e w1 \<and> ew_user_pointer w1 op = Some e \<and> le_refcnt (ew_store w1 e) = 1
      \<and> le_subscription_state (ew_store w1 e) = LinphoneSubscriptionTerminated \<and> le_op (ew_store w1 e) = op"
    using assms(2-5) up by (simp add: w1 linphone_event_ref_def linphone_event_terminate_def Let_def
      linphone_event_set_state_def linphone_event_unref_def)
  then have s2: "lev_alive e w2 \<and> ew_user_pointer w2 op = Some e \<and> le_refcnt (ew_store w2 e) = 1
      \<and> le_subscription_state (ew_store w2 e) = LinphoneSubscriptionActive \<and> le_op (ew_store w2 e) = op"
    by (simp add: w2 subscribe_response_def linphone_event_set_state_def Let_def)
  then have "\<not> lev_alive e w3"
    by (simp add: w3 sal_notify_received_def Let_def linphone_event_set_state_def linphone_event_unref_def
      linphone_event_destroy_def) (simp add: lev_alive_def)
  with s1 s2 show ?thesis by simp
qed

section \<open>Witnesses\<close>

definition ex_event_env :: event_env where
  "ex_event_env = \<lparr>vv_refresh_subscribe = True, vv_refresh_publish = True, vv_subscribe = 0, vv_accept = 0,
     vv_decline = 0, vv_notify = 0, vv_publish = 0, vv_reason = SalReasonNone\<rparr>"

definition ex_subscribed :: event_world where
  "ex_subscribed = event_handle ex_event_env (SubscribeResponded 0 SalSubscribeActive)
     (event_handle ex_event_env (Subscribe ''dialog'' 600) no_events)"

definition ex_terminated :: event_world where
  "ex_terminated = event_handle ex_event_env (TerminateEvent 0) ex_subscribed"

lemma ex_subscribed_reachable: "event_reachable ex_subscribed"
  unfolding ex_subscribed_def by (intro event_reachable.intros) simp_all

lemmas ex_event_defs = ex_subscribed_def ex_event_env_def no_events_def linphone_core_subscribe_def
  linphone_core_create_subscribe_def linphone_event_new_def sal_op_for_event_def linphone_event_new_base_def
  linphone_event_send_subscribe_def send_custom_headers_def linphone_event_set_state_def subscribe_response_def
  lev_upd_def lev_touch_def lev_emit_def lev_alive_def Let_def

lemma ex_subscribed_view:
  "lev_alive 0 ex_subscribed" "ew_next ex_subscribed = 1" "le_op (ew_store ex_subscribed 0) = 0"
  "le_publish_state (ew_store ex_subscribed 0) = LinphonePublishNone"
  "le_subscription_state (ew_store ex_subscribed 0) = LinphoneSubscriptionActive"
  by (simp_all add: ex_event_defs)

lemma ex_terminated_view: "ew_next ex_terminated = 1" "ew_freed ex_terminated = [0]" "le_op (ew_store ex_terminated 0) = 0"
  by (simp_all add: ex_terminated_def ex_event_defs linphone_event_terminate_def linphone_event_unref_def
    linphone_event_destroy_def)

lemma events_freed_when_ended_witness: "lev_ended (ew_store ex_terminated 0) \<or> lev_unsent (ew_store ex_terminated 0)"
proof -
  have "event_reachable ex_terminated"
    unfolding ex_terminated_def using ex_subscribed_reachable ex_subscribed_view by (intro event_reachable.step) simp_all
  from events_freed_when_ended [OF this] show ?thesis by (simp add: ex_terminated_view Let_def)
qed

lemma late_response_drops_reference_witness:
  "\<not> lev_alive 0 (sal_notify_received 0 SalSubscribeTerminated ''dialog'' False
      (subscribe_response ex_event_env 0 SalSubscribeActive
        (linphone_event_terminate 0 (linphone_event_ref 0 ex_subscribed))))"
  using late_response_drops_reference [OF event_reachable_ok [OF ex_subscribed_reachable], of 0 0] ex_subscribed_view
  by simp

end
