(* ===== verification/Presence.thy ===== *)
theory Presence
  imports LinPrelude
begin

text \<open>
The presence of a person (\<open>presence.c\<close>): services with a basic status and a contact, persons with
their activities, notes in several languages, and the functions that read and change them.  Objects
are values; a note carries its address besides, because one function links the same note twice.
The clock, the random numbers and the address of a new object come from an environment.  PIDF
documents, which are written and read through libxml2, are left out, except for what is done with
the outcome of parsing one.
\<close>

section \<open>Data\<close>

datatype presence_basic_status = LinphonePresenceBasicStatusOpen | LinphonePresenceBasicStatusClosed

datatype presence_activity_type = LinphonePresenceActivityOffline | LinphonePresenceActivityOnline
  | LinphonePresenceActivityAppointment | LinphonePresenceActivityAway | LinphonePresenceActivityBreakfast
  | LinphonePresenceActivityBusy | LinphonePresenceActivityDinner | LinphonePresenceActivityHoliday
  | LinphonePresenceActivityInTransit | LinphonePresenceActivityLookingForWork | LinphonePresenceActivityLunch
  | LinphonePresenceActivityMeal | LinphonePresenceActivityMeeting | LinphonePresenceActivityOnThePhone
  | LinphonePresenceActivityOther | LinphonePresenceActivityPerformance | LinphonePresenceActivityPermanentAbsence
  | LinphonePresenceActivityPlaying | LinphonePresenceActivityPresentation | LinphonePresenceActivityShopping
  | LinphonePresenceActivitySleeping | LinphonePresenceActivitySpectator | LinphonePresenceActivitySteering
  | LinphonePresenceActivityTravel | LinphonePresenceActivityTV | LinphonePresenceActivityUnknown
  | LinphonePresenceActivityVacation | LinphonePresenceActivityWorking | LinphonePresenceActivityWorship

record presence_note =
  pn_address :: nat
  pn_lang :: "string option"
  pn_content :: string

record presence_service =
  ps_id :: "string option"
  ps_status :: presence_basic_status
  ps_contact :: "string option"
  ps_notes :: "presence_note list"
  ps_timestamp :: int

record presence_activity =
  pa_type :: presence_activity_type
  pa_description :: "string option"

record presence_person =
  pp_id :: "string option"
  pp_activities :: "presence_activity list"
  pp_activities_notes :: "presence_note list"
  pp_notes :: "presence_note list"
  pp_timestamp :: int

record presence_model =
  pm_services :: "presence_service list"
  pm_persons :: "presence_person list"
  pm_notes :: "presence_note list"

record presence_env =
  pr_now :: int
  pr_random :: "nat \<Rightarrow> nat"
  pr_address :: nat

section \<open>Services, activities and notes\<close>

definition presence_id_valid_characters :: string where
  "presence_id_valid_characters = ''0123456789abcdefghijklmnopqrstuvwxyz-.''"

definition presence_id_valid_start_characters :: string where
  "presence_id_valid_start_characters = '':_abcdefghijklmnopqrstuvwxyz''"

definition generate_presence_id :: "presence_env \<Rightarrow> string" where
  "generate_presence_id env =
     presence_id_valid_start_characters ! (pr_random env 0 mod length presence_id_valid_start_characters)
     # map (\<lambda>i. presence_id_valid_characters ! (pr_random env i mod length presence_id_valid_characters)) [1..<6]"

fun presence_basic_status_to_string :: "presence_basic_status \<Rightarrow> string" where
  "presence_basic_status_to_string LinphonePresenceBasicStatusOpen = ''open''"
| "presence_basic_status_to_string LinphonePresenceBasicStatusClosed = ''closed''"

definition presence_service_new :: "presence_env \<Rightarrow> string option \<Rightarrow> presence_basic_status \<Rightarrow> presence_service" where
  "presence_service_new env ident status =
     \<lparr>ps_id = ident, ps_status = status, ps_contact = None, ps_notes = [], ps_timestamp = pr_now env\<rparr>"

definition linphone_presence_service_set_contact :: "string option \<Rightarrow> presence_service \<Rightarrow> presence_service" where
  "linphone_presence_service_set_contact contact s = s\<lparr>ps_contact := contact\<rparr>"

definition linphone_presence_service_new ::
    "presence_env \<Rightarrow> string option \<Rightarrow> presence_basic_status \<Rightarrow> string option \<Rightarrow> presence_service" where
  "linphone_presence_service_new env ident status contact = linphone_presence_service_set_contact contact
     (presence_service_new env (Some (case ident of None \<Rightarrow> generate_presence_id env | Some i \<Rightarrow> i)) status)"

definition linphone_presence_service_set_id :: "presence_env \<Rightarrow> string option \<Rightarrow> presence_service \<Rightarrow> presence_service" where
  "linphone_presence_service_set_id env ident s =
     s\<lparr>ps_id := Some (case ident of None \<Rightarrow> generate_presence_id env | Some i \<Rightarrow> i)\<rparr>"

definition linphone_presence_service_add_note :: "presence_note \<Rightarrow> presence_service \<Rightarrow> presence_service" where
  "linphone_presence_service_add_note note s = s\<lparr>ps_notes := ps_notes s @ [note]\<rparr>"

definition linphone_presence_service_clear_notes :: "presence_service \<Rightarrow> presence_service" where
  "linphone_presence_service_clear_notes s = s\<lparr>ps_notes := []\<rparr>"

text \<open>The test on the time stamp is on the new person, whose fields are still zero.\<close>

definition presence_person_new :: "string option \<Rightarrow> int \<Rightarrow> presence_person" where
  "presence_person_new ident timestamp = \<lparr>pp_id = ident, pp_activities = [], pp_activities_notes = [], pp_notes = [],
     pp_timestamp = timestamp\<rparr>"

definition linphone_presence_person_add_activity :: "presence_activity \<Rightarrow> presence_person \<Rightarrow> presence_person" where
  "linphone_presence_person_add_activity a p = p\<lparr>pp_activities := pp_activities p @ [a]\<rparr>"

definition linphone_presence_person_clear_activities :: "presence_person \<Rightarrow> presence_person" where
  "linphone_presence_person_clear_activities p = p\<lparr>pp_activities := []\<rparr>"

definition linphone_presence_person_add_note :: "presence_note \<Rightarrow> presence_person \<Rightarrow> presence_person" where
  "linphone_presence_person_add_note n p = p\<lparr>pp_notes := pp_notes p @ [n]\<rparr>"

text \<open>The extended list of notes on the activities becomes the list of notes on the person as well:
  appending to a list that is not empty changes it in place.\<close>

definition linphone_presence_person_add_activities_note :: "presence_note \<Rightarrow> presence_person \<Rightarrow> presence_person" where
  "linphone_presence_person_add_activities_note n p = (let ns = pp_activities_notes p @ [n] in
     p\<lparr>pp_notes := ns, pp_activities_notes := (if pp_activities_notes p = [] then [] else ns)\<rparr>)"

definition linphone_presence_person_clear_notes :: "presence_person \<Rightarrow> presence_person" where
  "linphone_presence_person_clear_notes p = p\<lparr>pp_notes := []\<rparr>"

definition linphone_presence_person_clear_activities_notes :: "presence_person \<Rightarrow> presence_person" where
  "linphone_presence_person_clear_activities_notes p = p\<lparr>pp_activities_notes := []\<rparr>"

definition linphone_presence_activity_new :: "presence_activity_type \<Rightarrow> string option \<Rightarrow> presence_activity" where
  "linphone_presence_activity_new acttype description = \<lparr>pa_type = acttype, pa_description = description\<rparr>"

definition linphone_presence_activity_get_type :: "presence_activity option \<Rightarrow> presence_activity_type" where
  "linphone_presence_activity_get_type a = (case a of None \<Rightarrow> LinphonePresenceActivityOffline | Some a \<Rightarrow> pa_type a)"

definition linphone_presence_activity_get_description :: "presence_activity option \<Rightarrow> string option" where
  "linphone_presence_activity_get_description a = (case a of None \<Rightarrow> None | Some a \<Rightarrow> pa_description a)"

definition activity_map :: "(string \<times> presence_activity_type) list" where
  "activity_map = [
     (''appointment'', LinphonePresenceActivityAppointment), (''away'', LinphonePresenceActivityAway),
     (''breakfast'', LinphonePresenceActivityBreakfast), (''busy'', LinphonePresenceActivityBusy),
     (''dinner'', LinphonePresenceActivityDinner), (''holiday'', LinphonePresenceActivityHoliday),
     (''in-transit'', LinphonePresenceActivityInTransit), (''looking-for-work'', LinphonePresenceActivityLookingForWork),
     (''lunch'', LinphonePresenceActivityLunch), (''meal'', LinphonePresenceActivityMeal),
     (''meeting'', LinphonePresenceActivityMeeting), (''on-the-phone'', LinphonePresenceActivityOnThePhone),
     (''other'', LinphonePresenceActivityOther), (''performance'', LinphonePresenceActivityPerformance),
     (''permanent-absence'', LinphonePresenceActivityPermanentAbsence), (''playing'', LinphonePresenceActivityPlaying),
     (''presentation'', LinphonePresenceActivityPresentation), (''shopping'', LinphonePresenceActivityShopping),
     (''sleeping'', LinphonePresenceActivitySleeping), (''spectator'', LinphonePresenceActivitySpectator),
     (''steering'', LinphonePresenceActivitySteering), (''travel'', LinphonePresenceActivityTravel),
     (''tv'', LinphonePresenceActivityTV), (''unknown'', LinphonePresenceActivityUnknown),
     (''vacation'', LinphonePresenceActivityVacation), (''working'', LinphonePresenceActivityWorking),
     (''worship'', LinphonePresenceActivityWorship)]"

definition activity_name_to_presence_activity_type :: "string \<Rightarrow> presence_activity_type option" where
  "activity_name_to_presence_activity_type name = map_option snd (find (\<lambda>e. fst e = name) activity_map)"

definition presence_activity_type_to_string :: "presence_activity_type \<Rightarrow> string option" where
  "presence_activity_type_to_string acttype = map_option fst (find (\<lambda>e. snd e = acttype) activity_map)"

definition is_valid_activity_name :: "string \<Rightarrow> bool" where
  "is_valid_activity_name name = list_ex (\<lambda>e. fst e = name) activity_map"

definition is_valid_activity :: "presence_activity \<Rightarrow> bool" where
  "is_valid_activity a \<longleftrightarrow> \<not> (pa_type a = LinphonePresenceActivityOffline \<or> pa_type a = LinphonePresenceActivityOnline)"

text \<open>A type without a name is printed as the C library prints a null string.\<close>

definition linphone_presence_activity_to_string :: "presence_activity option \<Rightarrow> string" where
  "linphone_presence_activity_to_string a = (let
     acttype = linphone_presence_activity_get_type a;
     description = linphone_presence_activity_get_description a;
     acttype_str = (if acttype = LinphonePresenceActivityOffline then ''offline''
       else if acttype = LinphonePresenceActivityOnline then ''online''
       else (case presence_activity_type_to_string acttype of None \<Rightarrow> ''(null)'' | Some s \<Rightarrow> s))
   in acttype_str @ (case description of None \<Rightarrow> [] | Some d \<Rightarrow> '': '' @ d))"

definition linphone_presence_note_new :: "presence_env \<Rightarrow> string option \<Rightarrow> string option \<Rightarrow> presence_note option" where
  "linphone_presence_note_new env content lang = (case content of None \<Rightarrow> None
     | Some c \<Rightarrow> Some \<lparr>pn_address = pr_address env, pn_lang = lang, pn_content = c\<rparr>)"

definition linphone_presence_note_set_content :: "string \<Rightarrow> presence_note \<Rightarrow> presence_note" where
  "linphone_presence_note_set_content content n = n\<lparr>pn_content := content\<rparr>"

section \<open>The model: status and contact\<close>

definition linphone_presence_model_new :: presence_model where
  "linphone_presence_model_new = \<lparr>pm_services = [], pm_persons = [], pm_notes = []\<rparr>"

definition presence_model_find_open_basic_status :: "presence_service \<Rightarrow> presence_basic_status \<Rightarrow> presence_basic_status" where
  "presence_model_find_open_basic_status s status =
     (if ps_status s = LinphonePresenceBasicStatusOpen then LinphonePresenceBasicStatusOpen else status)"

definition linphone_presence_model_get_basic_status :: "presence_model \<Rightarrow> presence_basic_status" where
  "linphone_presence_model_get_basic_status m =
     fold presence_model_find_open_basic_status (pm_services m) LinphonePresenceBasicStatusClosed"

definition linphone_presence_model_get_nth_service :: "presence_model \<Rightarrow> nat \<Rightarrow> presence_service option" where
  "linphone_presence_model_get_nth_service m idx = (if idx \<ge> length (pm_services m) then None else Some (pm_services m ! idx))"

definition linphone_presence_model_add_service :: "presence_service \<Rightarrow> presence_model \<Rightarrow> presence_model" where
  "linphone_presence_model_add_service s m = m\<lparr>pm_services := pm_services m @ [s]\<rparr>"

definition linphone_presence_model_clear_services :: "presence_model \<Rightarrow> presence_model" where
  "linphone_presence_model_clear_services m = m\<lparr>pm_services := []\<rparr>"

definition linphone_presence_model_set_basic_status ::
    "presence_env \<Rightarrow> presence_basic_status \<Rightarrow> presence_model \<Rightarrow> presence_model" where
  "linphone_presence_model_set_basic_status env status m = linphone_presence_model_add_service
     (linphone_presence_service_new env None status None) (linphone_presence_model_clear_services m)"

definition linphone_presence_model_get_timestamp :: "presence_model \<Rightarrow> int" where
  "linphone_presence_model_get_timestamp m = (let
     t = fold (\<lambda>s t. if ps_timestamp s > t then ps_timestamp s else t) (pm_services m) (-1)
   in fold (\<lambda>p t. if pp_timestamp p > t then pp_timestamp p else t) (pm_persons m) t)"

definition presence_model_find_contact :: "presence_service \<Rightarrow> string option \<Rightarrow> string option" where
  "presence_model_find_contact s contact = (if ps_contact s \<noteq> None \<and> contact = None then ps_contact s else contact)"

definition linphone_presence_model_get_contact :: "presence_model \<Rightarrow> string option" where
  "linphone_presence_model_get_contact m = fold presence_model_find_contact (pm_services m) None"

definition linphone_presence_model_set_contact :: "presence_env \<Rightarrow> string option \<Rightarrow> presence_model \<Rightarrow> presence_model" where
  "linphone_presence_model_set_contact env contact m = (let
     m = (if linphone_presence_model_get_nth_service m 0 = None
          then linphone_presence_model_add_service
            (linphone_presence_service_new env None LinphonePresenceBasicStatusClosed None) m else m)
   in m\<lparr>pm_services := (pm_services m)[0 := linphone_presence_service_set_contact contact (pm_services m ! 0)]\<rparr>)"

section \<open>The model: activities\<close>

text \<open>The position asked for, the one reached and the activity found so far.\<close>

definition presence_model_get_activity ::
    "presence_person \<Rightarrow> nat \<times> nat \<times> presence_activity option \<Rightarrow> nat \<times> nat \<times> presence_activity option" where
  "presence_model_get_activity p st = (case st of (requested, current, activity) \<Rightarrow>
     if requested < current + length (pp_activities p)
     then (requested, current, Some (pp_activities p ! (requested - current)))
     else (requested, current + length (pp_activities p), activity))"

definition linphone_presence_model_get_nb_activities :: "presence_model \<Rightarrow> nat" where
  "linphone_presence_model_get_nb_activities m = fold (\<lambda>p nb. nb + length (pp_activities p)) (pm_persons m) 0"

definition linphone_presence_model_get_nth_activity :: "presence_model \<Rightarrow> nat \<Rightarrow> presence_activity option" where
  "linphone_presence_model_get_nth_activity m idx =
     (if idx \<ge> linphone_presence_model_get_nb_activities m then None
      else snd (snd (fold presence_model_get_activity (pm_persons m) (idx, 0, None))))"

definition linphone_presence_model_get_activity :: "presence_model \<Rightarrow> presence_activity option" where
  "linphone_presence_model_get_activity m = linphone_presence_model_get_nth_activity m 0"

definition linphone_presence_model_add_activity :: "presence_env \<Rightarrow> presence_activity \<Rightarrow> presence_model \<Rightarrow> presence_model" where
  "linphone_presence_model_add_activity env a m = (let
     m = (if pm_persons m = []
          then m\<lparr>pm_persons := [presence_person_new (Some (generate_presence_id env)) (pr_now env)]\<rparr> else m)
   in m\<lparr>pm_persons := (pm_persons m)[0 := linphone_presence_person_add_activity a (pm_persons m ! 0)]\<rparr>)"

definition linphone_presence_model_clear_activities :: "presence_model \<Rightarrow> presence_model" where
  "linphone_presence_model_clear_activities m =
     m\<lparr>pm_persons := map linphone_presence_person_clear_activities (pm_persons m)\<rparr>"

fun activity_basic_status :: "presence_activity_type \<Rightarrow> presence_basic_status" where
  "activity_basic_status LinphonePresenceActivityAppointment = LinphonePresenceBasicStatusClosed"
| "activity_basic_status LinphonePresenceActivityBusy = LinphonePresenceBasicStatusClosed"
| "activity_basic_status LinphonePresenceActivityMeeting = LinphonePresenceBasicStatusClosed"
| "activity_basic_status LinphonePresenceActivityPermanentAbsence = LinphonePresenceBasicStatusClosed"
| "activity_basic_status LinphonePresenceActivityOffline = LinphonePresenceBasicStatusClosed"
| "activity_basic_status LinphonePresenceActivityWorship = LinphonePresenceBasicStatusClosed"
| "activity_basic_status _ = LinphonePresenceBasicStatusOpen"

definition linphone_presence_model_set_activity ::
    "presence_env \<Rightarrow> presence_activity_type \<Rightarrow> string option \<Rightarrow> presence_model \<Rightarrow> presence_model" where
  "linphone_presence_model_set_activity env acttype description m = linphone_presence_model_add_activity env
     (linphone_presence_activity_new acttype description)
     (linphone_presence_model_clear_activities
       (linphone_presence_model_set_basic_status env (activity_basic_status acttype) m))"

definition linphone_presence_model_new_with_activity ::
    "presence_env \<Rightarrow> presence_activity_type \<Rightarrow> string option \<Rightarrow> presence_model" where
  "linphone_presence_model_new_with_activity env acttype description =
     linphone_presence_model_set_activity env acttype description linphone_presence_model_new"

section \<open>The model: notes\<close>

definition find_presence_note_in_list :: "presence_note list \<Rightarrow> string option \<Rightarrow> presence_note option" where
  "find_presence_note_in_list ns lang = find (\<lambda>n. pn_lang n = lang) ns"

definition find_presence_person_note :: "string option \<Rightarrow> presence_person \<Rightarrow> presence_note option \<Rightarrow> presence_note option" where
  "find_presence_person_note lang p found = (case find_presence_note_in_list (pp_activities_notes p) lang of
     Some n \<Rightarrow> Some n | None \<Rightarrow> find_presence_note_in_list (pp_notes p) lang)"

definition find_presence_service_note :: "string option \<Rightarrow> presence_service \<Rightarrow> presence_note option \<Rightarrow> presence_note option" where
  "find_presence_service_note lang s found = find_presence_note_in_list (ps_notes s) lang"

definition get_first_presence_note_in_list :: "presence_note list \<Rightarrow> presence_note option" where
  "get_first_presence_note_in_list ns = (case ns of [] \<Rightarrow> None | n # _ \<Rightarrow> Some n)"

definition get_first_presence_person_note :: "presence_person \<Rightarrow> presence_note option \<Rightarrow> presence_note option" where
  "get_first_presence_person_note p found = (case get_first_presence_note_in_list (pp_activities_notes p) of
     Some n \<Rightarrow> Some n | None \<Rightarrow> get_first_presence_note_in_list (pp_notes p))"

definition get_first_presence_service_note :: "presence_service \<Rightarrow> presence_note option \<Rightarrow> presence_note option" where
  "get_first_presence_service_note s found = get_first_presence_note_in_list (ps_notes s)"

text \<open>One pass: over the persons, then the services, then the notes of the model itself.\<close>

definition note_pass :: "(presence_person \<Rightarrow> presence_note option \<Rightarrow> presence_note option)
    \<Rightarrow> (presence_service \<Rightarrow> presence_note option \<Rightarrow> presence_note option)
    \<Rightarrow> (presence_note list \<Rightarrow> presence_note option) \<Rightarrow> presence_model \<Rightarrow> presence_note option" where
  "note_pass person service own m = (case fold person (pm_persons m) None of Some n \<Rightarrow> Some n
     | None \<Rightarrow> (case fold service (pm_services m) None of Some n \<Rightarrow> Some n | None \<Rightarrow> own (pm_notes m)))"

definition linphone_presence_model_get_note :: "presence_model \<Rightarrow> string option \<Rightarrow> presence_note option" where
  "linphone_presence_model_get_note m lang = (let
     pass = (\<lambda>l. note_pass (find_presence_person_note l) (find_presence_service_note l) (\<lambda>ns. find_presence_note_in_list ns l) m)
   in case (if lang \<noteq> None then pass lang else None) of Some n \<Rightarrow> Some n
      | None \<Rightarrow> (case pass None of Some n \<Rightarrow> Some n
      | None \<Rightarrow> note_pass get_first_presence_person_note get_first_presence_service_note get_first_presence_note_in_list m))"

text \<open>A service created for the note is not added to the model; a note found in the language is
  changed and linked once more.\<close>

definition linphone_presence_model_add_note ::
    "presence_env \<Rightarrow> string option \<Rightarrow> string option \<Rightarrow> presence_model \<Rightarrow> presence_model \<times> int" where
  "linphone_presence_model_add_note env content lang m = (case content of None \<Rightarrow> (m, -1)
     | Some c \<Rightarrow> (case pm_services m of [] \<Rightarrow> (m, 0)
       | s # rest \<Rightarrow> (case find_presence_note_in_list (ps_notes s) lang of
            None \<Rightarrow> (m\<lparr>pm_services := s\<lparr>ps_notes := ps_notes s @
                [\<lparr>pn_address = pr_address env, pn_lang = lang, pn_content = c\<rparr>]\<rparr> # rest\<rparr>, 0)
          | Some n \<Rightarrow> (let n' = linphone_presence_note_set_content c n in
              (m\<lparr>pm_services := s\<lparr>ps_notes :=
                 map (\<lambda>x. if pn_address x = pn_address n then n' else x) (ps_notes s) @ [n']\<rparr> # rest\<rparr>, 0)))))"

definition linphone_presence_model_clear_notes :: "presence_model \<Rightarrow> presence_model" where
  "linphone_presence_model_clear_notes m = m\<lparr>
     pm_persons := map (\<lambda>p. p\<lparr>pp_activities_notes := [], pp_notes := []\<rparr>) (pm_persons m),
     pm_services := map (\<lambda>s. s\<lparr>ps_notes := []\<rparr>) (pm_services m), pm_notes := []\<rparr>"

text \<open>A model that was read without any activity is given one after its basic status.\<close>

definition complete_parsed_presence :: "presence_env \<Rightarrow> presence_model \<Rightarrow> presence_model" where
  "complete_parsed_presence env m = (case linphone_presence_model_get_activity m of
     Some a \<Rightarrow> m
   | None \<Rightarrow> linphone_presence_model_add_activity env (linphone_presence_activity_new
       (case linphone_presence_model_get_basic_status m of
          LinphonePresenceBasicStatusOpen \<Rightarrow> LinphonePresenceActivityOnline
        | LinphonePresenceBasicStatusClosed \<Rightarrow> LinphonePresenceActivityOffline) None) m)"

section \<open>Activities are read as they were set\<close>

lemma activity_names_distinct: "distinct (map fst activity_map)" "distinct (map snd activity_map)"
  by (simp_all add: activity_map_def)

lemma find_fst_iff:
  "distinct (map fst xs) \<Longrightarrow> map_option snd (find (\<lambda>e. fst e = k) xs) = Some v \<longleftrightarrow> (k, v) \<in> set xs"
  by (induction xs) (force simp: image_iff)+

lemma find_snd_iff:
  "distinct (map snd xs) \<Longrightarrow> map_option fst (find (\<lambda>e. snd e = v) xs) = Some k \<longleftrightarrow> (k, v) \<in> set xs"
  by (induction xs) (force simp: image_iff)+

lemma activity_name_iff:
  "activity_name_to_presence_activity_type name = Some t \<longleftrightarrow> presence_activity_type_to_string t = Some name"
  unfolding activity_name_to_presence_activity_type_def presence_activity_type_to_string_def
  unfolding find_fst_iff [OF activity_names_distinct(1)] find_snd_iff [OF activity_names_distinct(2)] ..

lemma activity_type_named:
  "t \<notin> {LinphonePresenceActivityOffline, LinphonePresenceActivityOnline} \<Longrightarrow> \<exists>name. presence_activity_type_to_string t = Some name"
  by (cases t) (simp_all add: presence_activity_type_to_string_def activity_map_def)

lemma fold_count: "fold (\<lambda>p nb. nb + length (pp_activities p)) ps n = n + length (concat (map pp_activities ps))"
  by (induction ps arbitrary: n) simp_all

text \<open>Persons without activities are passed over.\<close>

lemma fold_no_activity:
  "\<forall>p \<in> set ps. pp_activities p = [] \<Longrightarrow> i \<le> n \<Longrightarrow> fold presence_model_get_activity ps (n, i, a) = (n, i, a)"
  by (induction ps) (simp_all add: presence_model_get_activity_def)

lemma activities_of_first_person:
  assumes "pm_persons m = p # ps" "\<forall>q \<in> set ps. pp_activities q = []"
  shows "linphone_presence_model_get_nb_activities m = length (pp_activities p)"
    "linphone_presence_model_get_nth_activity m i = (if i < length (pp_activities p) then Some (pp_activities p ! i) else None)"
proof -
  show n: "linphone_presence_model_get_nb_activities m = length (pp_activities p)"
    using assms by (simp add: linphone_presence_model_get_nb_activities_def fold_count)
  show "linphone_presence_model_get_nth_activity m i = (if i < length (pp_activities p) then Some (pp_activities p ! i) else None)"
    using assms fold_no_activity [of ps 0 i]
    by (simp add: linphone_presence_model_get_nth_activity_def n presence_model_get_activity_def)
qed

lemma set_activity_persons:
  "\<exists>p ps. pm_persons (linphone_presence_model_set_activity env t d m) = p # ps
     \<and> pp_activities p = [\<lparr>pa_type = t, pa_description = d\<rparr>] \<and> (\<forall>q \<in> set ps. pp_activities q = [])"
  by (cases "pm_persons m")
    (auto simp: linphone_presence_model_set_activity_def linphone_presence_model_add_activity_def
      linphone_presence_model_clear_activities_def linphone_presence_model_set_basic_status_def
      linphone_presence_model_add_service_def linphone_presence_model_clear_services_def
      linphone_presence_person_add_activity_def linphone_presence_person_clear_activities_def
      linphone_presence_activity_new_def presence_person_new_def Let_def)

lemma set_activity_status:
  "linphone_presence_model_get_basic_status (linphone_presence_model_set_activity env t d m) = activity_basic_status t"
proof -
  have "pm_services (linphone_presence_model_set_activity env t d m)
      = [linphone_presence_service_new env None (activity_basic_status t) None]"
    by (simp add: linphone_presence_model_set_activity_def linphone_presence_model_add_activity_def
      linphone_presence_model_clear_activities_def linphone_presence_model_set_basic_status_def
      linphone_presence_model_add_service_def linphone_presence_model_clear_services_def Let_def)
  moreover have "ps_status (linphone_presence_service_new env None s None) = s" for s
    by (simp add: linphone_presence_service_new_def linphone_presence_service_set_contact_def presence_service_new_def)
  ultimately show ?thesis
    by (cases "activity_basic_status t")
      (simp_all add: linphone_presence_model_get_basic_status_def presence_model_find_open_basic_status_def)
qed

text \<open>The activity that is set is the only one there is: it is read with its type and its
  description, and the basic status of the model is the one its type stands for.\<close>

theorem set_activity_is_read:
  "let m' = linphone_presence_model_set_activity env t d m in
     linphone_presence_model_get_activity m' = Some \<lparr>pa_type = t, pa_description = d\<rparr>
     \<and> linphone_presence_activity_get_type (linphone_presence_model_get_activity m') = t
     \<and> linphone_presence_activity_get_description (linphone_presence_model_get_activity m') = d
     \<and> linphone_presence_model_get_nb_activities m' = 1
     \<and> linphone_presence_model_get_nth_activity m' (Suc i) = None
     \<and> linphone_presence_model_get_basic_status m' = activity_basic_status t"
proof -
  let ?m = "linphone_presence_model_set_activity env t d m"
  obtain p ps where "pm_persons ?m = p # ps" and a: "pp_activities p = [\<lparr>pa_type = t, pa_description = d\<rparr>]"
    and "\<forall>q \<in> set ps. pp_activities q = []"
    using set_activity_persons by blast
  note first = activities_of_first_person [OF this(1,3), unfolded a]
  show ?thesis
    by (simp add: Let_def first linphone_presence_model_get_activity_def set_activity_status
      linphone_presence_activity_get_type_def linphone_presence_activity_get_description_def)
qed

section \<open>Presences without an activity\<close>

text \<open>The basic status is open when some service is.\<close>

lemma basic_status_open_iff:
  "linphone_presence_model_get_basic_status m = LinphonePresenceBasicStatusOpen
     \<longleftrightarrow> (\<exists>s \<in> set (pm_services m). ps_status s = LinphonePresenceBasicStatusOpen)"
proof -
  have "fold presence_model_find_open_basic_status ss b = LinphonePresenceBasicStatusOpen
      \<longleftrightarrow> b = LinphonePresenceBasicStatusOpen \<or> (\<exists>s \<in> set ss. ps_status s = LinphonePresenceBasicStatusOpen)" for ss b
    by (induction ss arbitrary: b) (auto simp: presence_model_find_open_basic_status_def)
  then show ?thesis
    by (simp add: linphone_presence_model_get_basic_status_def)
qed

lemma get_activity_fold:
  "a \<noteq> None \<or> concat (map pp_activities ps) \<noteq> [] \<Longrightarrow> snd (snd (fold presence_model_get_activity ps (0, 0, a))) \<noteq> None"
  by (induction ps arbitrary: a) (force simp: presence_model_get_activity_def)+

lemma no_activity_iff:
  "linphone_presence_model_get_activity m = None \<longleftrightarrow> (\<forall>p \<in> set (pm_persons m). pp_activities p = [])"
proof -
  have "linphone_presence_model_get_activity m = None \<longleftrightarrow> concat (map pp_activities (pm_persons m)) = []"
    using get_activity_fold [of None "pm_persons m"]
    by (cases "concat (map pp_activities (pm_persons m))")
      (simp_all add: linphone_presence_model_get_activity_def linphone_presence_model_get_nth_activity_def
        linphone_presence_model_get_nb_activities_def fold_count)
  then show ?thesis
    by auto
qed

lemma first_activity_is_read:
  assumes "\<forall>p \<in> set (pm_persons m). pp_activities p = []"
  shows "linphone_presence_model_get_activity (linphone_presence_model_add_activity env a m) = Some a"
proof (cases "pm_persons m")
  case Nil
  then show ?thesis
    using activities_of_first_person(2)
        [of "linphone_presence_model_add_activity env a m" "linphone_presence_person_add_activity a
          (presence_person_new (Some (generate_presence_id env)) (pr_now env))" "[]" 0]
    by (simp add: linphone_presence_model_add_activity_def linphone_presence_model_get_activity_def Let_def
      linphone_presence_person_add_activity_def presence_person_new_def)
next
  case (Cons p ps)
  then show ?thesis
    using assms activities_of_first_person(2)
        [of "linphone_presence_model_add_activity env a m" "linphone_presence_person_add_activity a p" ps 0]
    by (simp add: linphone_presence_model_add_activity_def linphone_presence_model_get_activity_def Let_def
      linphone_presence_person_add_activity_def)
qed

text \<open>A presence that was received always has an activity: its own, or one after its basic status.\<close>

lemma parsed_presence_has_activity:
  "linphone_presence_model_get_activity (complete_parsed_presence env m)
     = (case linphone_presence_model_get_activity m of Some a \<Rightarrow> Some a
        | None \<Rightarrow> Some \<lparr>pa_type = (if \<exists>s \<in> set (pm_services m). ps_status s = LinphonePresenceBasicStatusOpen
            then LinphonePresenceActivityOnline else LinphonePresenceActivityOffline), pa_description = None\<rparr>)"
proof (cases "linphone_presence_model_get_activity m")
  case None
  then have "\<forall>p \<in> set (pm_persons m). pp_activities p = []"
    by (simp add: no_activity_iff)
  note first = first_activity_is_read [OF this]
  show ?thesis
    by (cases "linphone_presence_model_get_basic_status m")
      (use None basic_status_open_iff [of m] in
        \<open>simp_all add: complete_parsed_presence_def first linphone_presence_activity_new_def\<close>)
qed (simp add: complete_parsed_presence_def)

section \<open>Several persons and services\<close>

text \<open>The activities of a model with several persons are counted together, but the search does not
  stop at the first person that has the activity asked for: a later person with as many replaces it.\<close>

lemma later_person_hides_activity:
  assumes "pm_persons m = [p, q]" "i < length (pp_activities p)" "i < length (pp_activities q)"
  shows "linphone_presence_model_get_nth_activity m i = Some (pp_activities q ! i)"
  using assms
  by (simp add: linphone_presence_model_get_nth_activity_def linphone_presence_model_get_nb_activities_def
    presence_model_get_activity_def)

text \<open>Of two persons only the notes of the last one are found.\<close>

lemma later_person_hides_note:
  assumes "pm_persons m = [p, q]" "pp_activities_notes q = []" "pp_notes q = []"
  shows "linphone_presence_model_get_note m lang =
    linphone_presence_model_get_note (m\<lparr>pm_persons := []\<rparr>) lang"
  using assms
  by (simp add: linphone_presence_model_get_note_def note_pass_def find_presence_person_note_def
    find_presence_note_in_list_def get_first_presence_person_note_def get_first_presence_note_in_list_def Let_def split: option.split)

text \<open>A note added to a model without services is lost, with success reported.\<close>

lemma note_without_service_is_lost:
  "pm_services m = [] \<Longrightarrow> linphone_presence_model_add_note env (Some c) lang m = (m, 0)"
  by (simp add: linphone_presence_model_add_note_def)

text \<open>Changing the note of a language links it once more.\<close>

lemma changed_note_is_linked_twice:
  assumes "pm_services m = [s]" "ps_notes s = [n]" "pn_lang n = lang"
  shows "map ps_notes (pm_services (fst (linphone_presence_model_add_note env (Some c) lang m)))
    = [[n\<lparr>pn_content := c\<rparr>, n\<lparr>pn_content := c\<rparr>]]"
  using assms
  by (simp add: linphone_presence_model_add_note_def find_presence_note_in_list_def linphone_presence_note_set_content_def Let_def)

end
