(* ===== verification/Friends.thy ===== *)
theory Friends
  imports Presence ProxyConfig
begin

text \<open>
The list of friends (\<open>friend.c\<close>) and the presence subscriptions in both directions (\<open>presence.c\<close>,
\<open>callbacks.c\<close>).  A friend is reference counted and owns at most two signalling operations: the one
it is subscribed to us with and the one we are subscribed to it with.  Friends and operations are
numbered in the order they are created; released operations and freed friends are remembered.  The
models of presence are values.  Accounts, addresses and the clock belong to the environment.
\<close>

section \<open>Data\<close>

datatype subscribe_policy = LinphoneSPWait | LinphoneSPDeny | LinphoneSPAccept

datatype online_status = LinphoneStatusOffline | LinphoneStatusOnline | LinphoneStatusBusy
  | LinphoneStatusBeRightBack | LinphoneStatusAway | LinphoneStatusOnThePhone | LinphoneStatusOutToLunch
  | LinphoneStatusDoNotDisturb | LinphoneStatusMoved | LinphoneStatusAltService | LinphoneStatusPending
  | LinphoneStatusVacation | LinphoneStatusEnd

record 'a lin_friend =
  fr_uri :: "'a option"
  fr_insub :: "nat option"
  fr_outsub :: "nat option"
  fr_pol :: subscribe_policy
  fr_presence :: "presence_model option"
  fr_in_core :: bool
  fr_refkey :: "string option"
  fr_subscribe :: bool_t
  fr_subscribe_active :: bool
  fr_inc_subscribe_pending :: bool
  fr_commit :: bool
  fr_initial_subscribes_sent :: bool
  fr_refcnt :: int

datatype 'a friend_action =
    FrConfigureOp nat "'a option"
  | FrSubscribe nat int
  | FrUnsubscribe nat
  | FrStopRefreshing nat
  | FrNotify nat "presence_model option"
  | FrNotifyClose nat
  | FrAccept nat
  | FrDecline nat
  | FrSetContact nat nat
  | FrPresenceReceived nat
  | FrNewSubscriptionRequested nat string
  | FrPublish nat presence_model

record 'a friend_world =
  fw_config :: lp_config
  fw_store :: "nat \<Rightarrow> 'a lin_friend"
  fw_next :: nat
  fw_freed :: "nat list"
  fw_friends :: "nat list"
  fw_subscribers :: "nat list"
  fw_presence_model :: "presence_model option"
  fw_minutes_away :: int
  fw_initial_subscribes_sent :: bool
  fw_bl_refresh :: bool
  fw_next_op :: nat
  fw_released :: "nat list"
  fw_null :: bool
  fw_trace :: "'a friend_action list"

text \<open>\<open>fe_uninit\<close> is the content of an integer that a failed conversion leaves as it was.\<close>

record 'a friend_env =
  fe_api :: "'a addr_api"
  fe_accounts :: "nat \<Rightarrow> 'a proxy_config"
  fe_account_list :: "nat list"
  fe_default :: "nat option"
  fe_op_has_contact :: "nat \<Rightarrow> bool"
  fe_presence_env :: presence_env
  fe_ready :: bool
  fe_uninit :: int

definition fr_upd :: "nat \<Rightarrow> ('a lin_friend \<Rightarrow> 'a lin_friend) \<Rightarrow> 'a friend_world \<Rightarrow> 'a friend_world" where
  "fr_upd i f w = w\<lparr>fw_store := (fw_store w)(i := f (fw_store w i))\<rparr>"

definition fr_emit :: "'a friend_action \<Rightarrow> 'a friend_world \<Rightarrow> 'a friend_world" where
  "fr_emit a w = w\<lparr>fw_trace := fw_trace w @ [a]\<rparr>"

definition fr_release :: "nat \<Rightarrow> 'a friend_world \<Rightarrow> 'a friend_world" where
  "fr_release op w = w\<lparr>fw_released := op # fw_released w\<rparr>"

definition fr_dereference_null :: "'a friend_world \<Rightarrow> 'a friend_world" where
  "fr_dereference_null w = w\<lparr>fw_null := True\<rparr>"

definition sal_op_for_presence :: "'a friend_world \<Rightarrow> nat \<times> 'a friend_world" where
  "sal_op_for_presence w = (fw_next_op w, w\<lparr>fw_next_op := Suc (fw_next_op w)\<rparr>)"

definition fr_get_int :: "'a friend_env \<Rightarrow> lp_config \<Rightarrow> string \<Rightarrow> string \<Rightarrow> int \<Rightarrow> int" where
  "fr_get_int env config section key d =
     (case lp_config_get_int config section key d of Some v \<Rightarrow> v | None \<Rightarrow> fe_uninit env)"

section \<open>The account of a destination\<close>

text \<open>The accounts of the domain searched for: one that is registered ends the search, else the first
  that registers and the first that is left are remembered.\<close>

fun search_accounts :: "(nat \<Rightarrow> 'a proxy_config) \<Rightarrow> string \<Rightarrow> nat list \<Rightarrow> nat option \<Rightarrow> nat option
    \<Rightarrow> nat option \<times> nat option \<times> nat option" where
  "search_accounts accounts domain [] reg noreg = (None, reg, noreg)"
| "search_accounts accounts domain (c # cs) reg noreg =
     (if linphone_proxy_config_get_domain (accounts c) = Some domain then
        if pc_state (accounts c) = RegistrationOk then (Some c, reg, noreg)
        else if reg = None \<and> truth (pc_reg_sendregister (accounts c)) then search_accounts accounts domain cs (Some c) noreg
        else if noreg = None then search_accounts accounts domain cs reg (Some c)
        else search_accounts accounts domain cs reg noreg
      else search_accounts accounts domain cs reg noreg)"

definition best_account :: "'a friend_env \<Rightarrow> string \<Rightarrow> nat option" where
  "best_account env domain = (case search_accounts (fe_accounts env) domain (fe_account_list env) None None of
     (Some c, _, _) \<Rightarrow> Some c
   | (None, Some c, _) \<Rightarrow> Some c
   | (None, None, Some c) \<Rightarrow> Some c
   | (None, None, None) \<Rightarrow> fe_default env)"

text \<open>\<^const>\<open>None\<close> is the comparison of a null domain of the default account.\<close>

definition linphone_core_lookup_known_proxy :: "'a friend_env \<Rightarrow> 'a \<Rightarrow> nat option option" where
  "linphone_core_lookup_known_proxy env uri = (case ad_domain (fe_api env) uri of
     None \<Rightarrow> Some (fe_default env)
   | Some domain \<Rightarrow> (case fe_default env of
       None \<Rightarrow> Some (best_account env domain)
     | Some c \<Rightarrow> (case linphone_proxy_config_get_domain (fe_accounts env c) of
         None \<Rightarrow> None
       | Some d \<Rightarrow> if d = domain then Some (Some c) else Some (best_account env domain))))"

section \<open>A friend\<close>

definition linphone_friend_blank :: "'a lin_friend" where
  "linphone_friend_blank = \<lparr>fr_uri = None, fr_insub = None, fr_outsub = None, fr_pol = LinphoneSPAccept,
     fr_presence = None, fr_in_core = False, fr_refkey = None, fr_subscribe = 1, fr_subscribe_active = False,
     fr_inc_subscribe_pending = False, fr_commit = False, fr_initial_subscribes_sent = False, fr_refcnt = 1\<rparr>"

definition linphone_friend_new :: "'a friend_world \<Rightarrow> nat \<times> 'a friend_world" where
  "linphone_friend_new w = (fw_next w,
     w\<lparr>fw_next := Suc (fw_next w), fw_store := (fw_store w)(fw_next w := linphone_friend_blank)\<rparr>)"

definition linphone_friend_set_address :: "'a addr_api \<Rightarrow> 'a \<Rightarrow> nat \<Rightarrow> 'a friend_world \<Rightarrow> 'a friend_world" where
  "linphone_friend_set_address api addr i w = fr_upd i (\<lambda>f. f\<lparr>fr_uri := Some (ad_clean api addr)\<rparr>) w"

definition linphone_friend_new_with_address ::
    "'a addr_api \<Rightarrow> string \<Rightarrow> 'a friend_world \<Rightarrow> nat option \<times> 'a friend_world" where
  "linphone_friend_new_with_address api addr w = (case ad_new api addr of None \<Rightarrow> (None, w)
     | Some a \<Rightarrow> (case linphone_friend_new w of (i, w) \<Rightarrow> (Some i, linphone_friend_set_address api a i w)))"

definition linphone_friend_set_name :: "'a addr_api \<Rightarrow> string option \<Rightarrow> nat \<Rightarrow> 'a friend_world \<Rightarrow> 'a friend_world \<times> int" where
  "linphone_friend_set_name api name i w = (case fr_uri (fw_store w i) of None \<Rightarrow> (w, -1)
     | Some u \<Rightarrow> (fr_upd i (\<lambda>f. f\<lparr>fr_uri := Some (ad_set_display_name api name u)\<rparr>) w, 0))"

definition linphone_friend_enable_subscribes :: "bool_t \<Rightarrow> nat \<Rightarrow> 'a friend_world \<Rightarrow> 'a friend_world" where
  "linphone_friend_enable_subscribes val i w = fr_upd i (\<lambda>f. f\<lparr>fr_subscribe := val\<rparr>) w"

definition linphone_friend_set_inc_subscribe_policy :: "subscribe_policy \<Rightarrow> nat \<Rightarrow> 'a friend_world \<Rightarrow> 'a friend_world" where
  "linphone_friend_set_inc_subscribe_policy pol i w = fr_upd i (\<lambda>f. f\<lparr>fr_pol := pol\<rparr>) w"

definition linphone_friend_ref :: "nat \<Rightarrow> 'a friend_world \<Rightarrow> 'a friend_world" where
  "linphone_friend_ref i w = fr_upd i (\<lambda>f. f\<lparr>fr_refcnt := fr_refcnt f + 1\<rparr>) w"

definition release_held :: "nat option \<Rightarrow> 'a friend_world \<Rightarrow> 'a friend_world" where
  "release_held held w = (case held of None \<Rightarrow> w | Some op \<Rightarrow> fr_release op w)"

definition linphone_friend_destroy :: "nat \<Rightarrow> 'a friend_world \<Rightarrow> 'a friend_world" where
  "linphone_friend_destroy i w = (let
     w = fr_upd i (\<lambda>f. f\<lparr>fr_insub := None\<rparr>) (release_held (fr_insub (fw_store w i)) w);
     w = fr_upd i (\<lambda>f. f\<lparr>fr_outsub := None\<rparr>) (release_held (fr_outsub (fw_store w i)) w)
   in w\<lparr>fw_freed := i # fw_freed w\<rparr>)"

definition linphone_friend_unref :: "nat \<Rightarrow> 'a friend_world \<Rightarrow> 'a friend_world" where
  "linphone_friend_unref i w = (let w = fr_upd i (\<lambda>f. f\<lparr>fr_refcnt := fr_refcnt f - 1\<rparr>) w
   in if fr_refcnt (fw_store w i) = 0 then linphone_friend_destroy i w else w)"

text \<open>The status shown for a friend, after its only or first activity.\<close>

fun activity_online_status :: "presence_activity_type \<Rightarrow> online_status option" where
  "activity_online_status LinphonePresenceActivityBreakfast = Some LinphoneStatusOutToLunch"
| "activity_online_status LinphonePresenceActivityDinner = Some LinphoneStatusOutToLunch"
| "activity_online_status LinphonePresenceActivityLunch = Some LinphoneStatusOutToLunch"
| "activity_online_status LinphonePresenceActivityMeal = Some LinphoneStatusOutToLunch"
| "activity_online_status LinphonePresenceActivityAppointment = Some LinphoneStatusDoNotDisturb"
| "activity_online_status LinphonePresenceActivityMeeting = Some LinphoneStatusDoNotDisturb"
| "activity_online_status LinphonePresenceActivityPerformance = Some LinphoneStatusDoNotDisturb"
| "activity_online_status LinphonePresenceActivityPresentation = Some LinphoneStatusDoNotDisturb"
| "activity_online_status LinphonePresenceActivitySpectator = Some LinphoneStatusDoNotDisturb"
| "activity_online_status LinphonePresenceActivityWorking = Some LinphoneStatusDoNotDisturb"
| "activity_online_status LinphonePresenceActivityWorship = Some LinphoneStatusDoNotDisturb"
| "activity_online_status LinphonePresenceActivityAway = Some LinphoneStatusAway"
| "activity_online_status LinphonePresenceActivitySleeping = Some LinphoneStatusAway"
| "activity_online_status LinphonePresenceActivityHoliday = Some LinphoneStatusVacation"
| "activity_online_status LinphonePresenceActivityTravel = Some LinphoneStatusVacation"
| "activity_online_status LinphonePresenceActivityVacation = Some LinphoneStatusVacation"
| "activity_online_status LinphonePresenceActivityBusy = Some LinphoneStatusBusy"
| "activity_online_status LinphonePresenceActivityLookingForWork = Some LinphoneStatusBusy"
| "activity_online_status LinphonePresenceActivityPlaying = Some LinphoneStatusBusy"
| "activity_online_status LinphonePresenceActivityShopping = Some LinphoneStatusBusy"
| "activity_online_status LinphonePresenceActivityTV = Some LinphoneStatusBusy"
| "activity_online_status LinphonePresenceActivityInTransit = Some LinphoneStatusBeRightBack"
| "activity_online_status LinphonePresenceActivitySteering = Some LinphoneStatusBeRightBack"
| "activity_online_status LinphonePresenceActivityOnThePhone = Some LinphoneStatusOnThePhone"
| "activity_online_status LinphonePresenceActivityOther = Some LinphoneStatusMoved"
| "activity_online_status LinphonePresenceActivityPermanentAbsence = Some LinphoneStatusMoved"
| "activity_online_status LinphonePresenceActivityUnknown = None"
| "activity_online_status LinphonePresenceActivityOnline = None"
| "activity_online_status LinphonePresenceActivityOffline = Some LinphoneStatusOffline"

definition linphone_friend_get_status :: "'a lin_friend \<Rightarrow> online_status" where
  "linphone_friend_get_status f = (case fr_presence f of None \<Rightarrow> LinphoneStatusOffline
     | Some m \<Rightarrow> (let
         basic = (if linphone_presence_model_get_basic_status m = LinphonePresenceBasicStatusOpen
           then LinphoneStatusOnline else LinphoneStatusOffline)
       in if linphone_presence_model_get_nb_activities m \<ge> 1
          then (case activity_online_status (linphone_presence_activity_get_type (linphone_presence_model_get_activity m)) of
            Some s \<Rightarrow> s | None \<Rightarrow> basic)
          else basic))"

text \<open>The text of the vacation status is overwritten: its case has no \<open>break\<close>.\<close>

fun linphone_online_status_to_string :: "online_status \<Rightarrow> string" where
  "linphone_online_status_to_string LinphoneStatusOnline = ''Online''"
| "linphone_online_status_to_string LinphoneStatusBusy = ''Busy''"
| "linphone_online_status_to_string LinphoneStatusBeRightBack = ''Be right back''"
| "linphone_online_status_to_string LinphoneStatusAway = ''Away''"
| "linphone_online_status_to_string LinphoneStatusOnThePhone = ''On the phone''"
| "linphone_online_status_to_string LinphoneStatusOutToLunch = ''Out to lunch''"
| "linphone_online_status_to_string LinphoneStatusDoNotDisturb = ''Do not disturb''"
| "linphone_online_status_to_string LinphoneStatusMoved = ''Moved''"
| "linphone_online_status_to_string LinphoneStatusAltService = ''Using another messaging service''"
| "linphone_online_status_to_string LinphoneStatusOffline = ''Offline''"
| "linphone_online_status_to_string LinphoneStatusPending = ''Pending''"
| "linphone_online_status_to_string LinphoneStatusVacation = ''Unknown status''"
| "linphone_online_status_to_string LinphoneStatusEnd = ''Unknown status''"

section \<open>Storage\<close>

definition friend_section :: "int \<Rightarrow> string" where
  "friend_section index = ''friend_'' @ show_int index"

fun policy_enum_to_str :: "subscribe_policy \<Rightarrow> string" where
  "policy_enum_to_str LinphoneSPAccept = ''accept''"
| "policy_enum_to_str LinphoneSPDeny = ''deny''"
| "policy_enum_to_str LinphoneSPWait = ''wait''"

definition policy_str_to_enum :: "string \<Rightarrow> subscribe_policy" where
  "policy_str_to_enum pol = (if pol = ''accept'' then LinphoneSPAccept else if pol = ''deny'' then LinphoneSPDeny
     else if pol = ''wait'' then LinphoneSPWait else LinphoneSPWait)"

definition linphone_friend_write_to_config_file ::
    "'a addr_api \<Rightarrow> lp_config \<Rightarrow> 'a lin_friend option \<Rightarrow> int \<Rightarrow> lp_config" where
  "linphone_friend_write_to_config_file api config lf index = (let key = friend_section index in case lf of
     None \<Rightarrow> lp_config_clean_section config key
   | Some f \<Rightarrow> (let
       config = set_if key ''url'' (map_option (ad_as_string api) (fr_uri f)) config;
       config = lp_config_set_string config key ''pol'' (Some (policy_enum_to_str (fr_pol f)));
       config = lp_config_set_int config key ''subscribe'' (uint (fr_subscribe f))
     in set_if key ''refkey'' (fr_refkey f) config))"

fun write_friends_from :: "'a addr_api \<Rightarrow> lp_config \<Rightarrow> 'a lin_friend list \<Rightarrow> int \<Rightarrow> lp_config" where
  "write_friends_from api config [] i = linphone_friend_write_to_config_file api config None i"
| "write_friends_from api config (f # fs) i =
     write_friends_from api (linphone_friend_write_to_config_file api config (Some f) i) fs (i + 1)"

definition linphone_core_write_friends_config :: "'a friend_env \<Rightarrow> 'a friend_world \<Rightarrow> 'a friend_world" where
  "linphone_core_write_friends_config env w = (if fe_ready env
     then w\<lparr>fw_config := write_friends_from (fe_api env) (fw_config w) (map (fw_store w) (fw_friends w)) 0\<rparr> else w)"

definition linphone_friend_set_ref_key :: "'a friend_env \<Rightarrow> string option \<Rightarrow> nat \<Rightarrow> 'a friend_world \<Rightarrow> 'a friend_world" where
  "linphone_friend_set_ref_key env key i w = (let w = fr_upd i (\<lambda>f. f\<lparr>fr_refkey := key\<rparr>) w
   in if fr_in_core (fw_store w i) then linphone_core_write_friends_config env w else w)"

definition linphone_friend_new_from_config_file ::
    "'a friend_env \<Rightarrow> int \<Rightarrow> 'a friend_world \<Rightarrow> nat option \<times> 'a friend_world" where
  "linphone_friend_new_from_config_file env index w = (let
     item = friend_section index; config = fw_config w
   in if \<not> lp_config_has_section config item then (None, w)
      else case lp_config_get_string config item ''url'' None of None \<Rightarrow> (None, w)
      | Some url \<Rightarrow> (case linphone_friend_new_with_address (fe_api env) url w of
          (None, w) \<Rightarrow> (None, w)
        | (Some i, w) \<Rightarrow> (let
            pol = (case lp_config_get_string config item ''pol'' None of None \<Rightarrow> LinphoneSPWait | Some p \<Rightarrow> policy_str_to_enum p);
            w = linphone_friend_set_inc_subscribe_policy pol i w;
            w = linphone_friend_enable_subscribes (of_int (fr_get_int env config item ''subscribe'' 0)) i w
          in (Some i, linphone_friend_set_ref_key env (lp_config_get_string config item ''refkey'' None) i w))))"

section \<open>Subscriptions\<close>

definition linphone_find_friend_by_address :: "'a addr_api \<Rightarrow> 'a friend_world \<Rightarrow> nat list \<Rightarrow> 'a \<Rightarrow> nat option" where
  "linphone_find_friend_by_address api w fl addr =
     find (\<lambda>i. case fr_uri (fw_store w i) of None \<Rightarrow> False | Some u \<Rightarrow> linphone_address_weak_equal api u addr) fl"

definition linphone_find_friend_by_inc_subscribe :: "'a friend_world \<Rightarrow> nat list \<Rightarrow> nat \<Rightarrow> nat option" where
  "linphone_find_friend_by_inc_subscribe w l op = find (\<lambda>i. fr_insub (fw_store w i) = Some op) l"

definition linphone_find_friend_by_out_subscribe :: "'a friend_world \<Rightarrow> nat list \<Rightarrow> nat \<Rightarrow> nat option" where
  "linphone_find_friend_by_out_subscribe w l op = find (\<lambda>i. fr_outsub (fw_store w i) = Some op) l"

definition linphone_core_get_friend_by_address :: "'a addr_api \<Rightarrow> 'a friend_world \<Rightarrow> string \<Rightarrow> nat option" where
  "linphone_core_get_friend_by_address api w uri = (case ad_new api uri of None \<Rightarrow> None
     | Some a \<Rightarrow> linphone_find_friend_by_address api w (fw_friends w) a)"

definition linphone_core_get_friend_by_ref_key :: "'a friend_world \<Rightarrow> string option \<Rightarrow> nat option" where
  "linphone_core_get_friend_by_ref_key w key = (case key of None \<Rightarrow> None
     | Some k \<Rightarrow> find (\<lambda>i. fr_refkey (fw_store w i) = Some k) (fw_friends w))"

definition linphone_friend_do_subscribe :: "'a friend_env \<Rightarrow> nat \<Rightarrow> 'a friend_world \<Rightarrow> 'a friend_world" where
  "linphone_friend_do_subscribe env i w = (let
     w = (case fr_outsub (fw_store w i) of
            None \<Rightarrow> fr_upd i (\<lambda>f. f\<lparr>fr_presence := None\<rparr>) w
          | Some op \<Rightarrow> fr_upd i (\<lambda>f. f\<lparr>fr_outsub := None\<rparr>) (fr_release op w))
   in case sal_op_for_presence w of (op, w) \<Rightarrow> (let
     w = fr_upd i (\<lambda>f. f\<lparr>fr_outsub := Some op\<rparr>) w;
     w = fr_emit (FrConfigureOp op (fr_uri (fw_store w i))) w;
     w = fr_emit (FrSubscribe op (fr_get_int env (fw_config w) ''sip'' ''subscribe_expires'' 600)) w
   in fr_upd i (\<lambda>f. f\<lparr>fr_subscribe_active := True\<rparr>) w))"

definition linphone_friend_notify :: "nat \<Rightarrow> presence_model option \<Rightarrow> 'a friend_world \<Rightarrow> 'a friend_world" where
  "linphone_friend_notify i presence w = (case fr_insub (fw_store w i) of None \<Rightarrow> w
     | Some op \<Rightarrow> fr_emit (FrNotify op presence) w)"

definition linphone_friend_unsubscribe :: "nat \<Rightarrow> 'a friend_world \<Rightarrow> 'a friend_world" where
  "linphone_friend_unsubscribe i w = (case fr_outsub (fw_store w i) of None \<Rightarrow> w
     | Some op \<Rightarrow> fr_upd i (\<lambda>f. f\<lparr>fr_subscribe_active := False\<rparr>) (fr_emit (FrUnsubscribe op) w))"

definition linphone_friend_invalidate_subscription :: "'a friend_env \<Rightarrow> nat \<Rightarrow> 'a friend_world \<Rightarrow> 'a friend_world" where
  "linphone_friend_invalidate_subscription env i w = (let
     w = (case fr_outsub (fw_store w i) of None \<Rightarrow> w
       | Some op \<Rightarrow> fr_emit (FrPresenceReceived i) (fr_upd i (\<lambda>f. f\<lparr>fr_outsub := None, fr_subscribe_active := False,
           fr_presence := Some (linphone_presence_model_new_with_activity (fe_presence_env env)
             LinphonePresenceActivityOffline (Some ''unknown activity''))\<rparr>) (fr_release op w)))
   in fr_upd i (\<lambda>f. f\<lparr>fr_initial_subscribes_sent := False\<rparr>) w)"

definition linphone_friend_close_subscriptions :: "nat \<Rightarrow> 'a friend_world \<Rightarrow> 'a friend_world" where
  "linphone_friend_close_subscriptions i w = (let w = linphone_friend_unsubscribe i w
   in case fr_insub (fw_store w i) of None \<Rightarrow> w | Some op \<Rightarrow> fr_emit (FrNotifyClose op) w)"

text \<open>The account of a friend decides whether it may be subscribed to; when a single account is given
  only the friends of this one are touched.\<close>

datatype subscribe_check = OtherAccount | AccountNull | Checked bool

definition can_subscribe :: "'a friend_env \<Rightarrow> 'a lin_friend \<Rightarrow> nat option \<Rightarrow> bool \<Rightarrow> subscribe_check" where
  "can_subscribe env f proxy only_when_registered =
     (if only_when_registered \<and> (truth (fr_subscribe f) \<or> fr_subscribe_active f) then
        (case Option.bind (fr_uri f) (linphone_core_lookup_known_proxy env) of
           None \<Rightarrow> AccountNull
         | Some cfg \<Rightarrow>
             if proxy \<noteq> None \<and> proxy \<noteq> cfg then OtherAccount
             else Checked (case cfg of None \<Rightarrow> True | Some c \<Rightarrow> pc_state (fe_accounts env c) = RegistrationOk))
      else Checked True)"

definition linphone_friend_update_subscribes ::
    "'a friend_env \<Rightarrow> nat option \<Rightarrow> bool \<Rightarrow> nat \<Rightarrow> 'a friend_world \<Rightarrow> 'a friend_world" where
  "linphone_friend_update_subscribes env proxy only_when_registered i w = (let f = fw_store w i in
     case can_subscribe env f proxy only_when_registered of
       OtherAccount \<Rightarrow> w
     | AccountNull \<Rightarrow> fr_dereference_null w
     | Checked can \<Rightarrow>
         if can \<and> truth (fr_subscribe f) \<and> \<not> fr_subscribe_active f then linphone_friend_do_subscribe env i w
         else if can \<and> fr_subscribe_active f \<and> \<not> truth (fr_subscribe f) then linphone_friend_unsubscribe i w
         else (case fr_outsub f of
             Some op \<Rightarrow> if can then w
               else fr_emit (FrStopRefreshing op) (fr_upd i (\<lambda>f. f\<lparr>fr_subscribe_active := False\<rparr>) w)
           | None \<Rightarrow> w))"

definition linphone_core_should_subscribe_friends_only_when_registered :: "'a friend_env \<Rightarrow> 'a friend_world \<Rightarrow> bool" where
  "linphone_core_should_subscribe_friends_only_when_registered env w =
     truth (of_int (fr_get_int env (fw_config w) ''sip'' ''subscribe_presence_only_when_registered'' 1))"

definition answer_subscription :: "'a friend_env \<Rightarrow> nat \<Rightarrow> 'a friend_world \<Rightarrow> 'a friend_world" where
  "answer_subscription env i w = (case fr_pol (fw_store w i) of
     LinphoneSPWait \<Rightarrow> linphone_friend_notify i (Some (linphone_presence_model_new_with_activity (fe_presence_env env)
       LinphonePresenceActivityOther (Some ''Waiting for user acceptance''))) w
   | LinphoneSPAccept \<Rightarrow> if fr_in_core (fw_store w i) then linphone_friend_notify i (fw_presence_model w) w else w
   | LinphoneSPDeny \<Rightarrow> linphone_friend_notify i None w)"

definition linphone_friend_apply :: "'a friend_env \<Rightarrow> nat \<Rightarrow> 'a friend_world \<Rightarrow> 'a friend_world" where
  "linphone_friend_apply env i w = (if fr_uri (fw_store w i) = None then w
     else (let
       w = linphone_core_write_friends_config env w;
       w = (if fr_inc_subscribe_pending (fw_store w i)
            then fr_upd i (\<lambda>f. f\<lparr>fr_inc_subscribe_pending := False\<rparr>) (answer_subscription env i w) else w);
       w = (if fr_in_core (fw_store w i)
            then linphone_friend_update_subscribes env None (linphone_core_should_subscribe_friends_only_when_registered env w) i w
            else w)
     in fr_upd i (\<lambda>f. f\<lparr>fr_commit := False\<rparr>) (w\<lparr>fw_bl_refresh := True\<rparr>)))"

definition linphone_friend_done :: "'a friend_env \<Rightarrow> nat \<Rightarrow> 'a friend_world \<Rightarrow> 'a friend_world" where
  "linphone_friend_done env i w = (if \<not> fr_in_core (fw_store w i) then w else linphone_friend_apply env i w)"

section \<open>The list of friends\<close>

definition linphone_core_add_friend :: "'a friend_env \<Rightarrow> nat \<Rightarrow> 'a friend_world \<Rightarrow> 'a friend_world" where
  "linphone_core_add_friend env i w =
     (if fr_in_core (fw_store w i) \<or> fr_uri (fw_store w i) = None \<or> i \<in> set (fw_friends w) then w
      else (let
        w = (linphone_friend_ref i w)\<lparr>fw_friends := fw_friends w @ [i]\<rparr>;
        w = fr_upd i (\<lambda>f. f\<lparr>fr_in_core := True\<rparr>) w
      in if fe_ready env then linphone_friend_apply env i w else fr_upd i (\<lambda>f. f\<lparr>fr_commit := True\<rparr>) w))"

text \<open>A friend that is removed keeps its pointer to the core.\<close>

definition linphone_core_remove_friend :: "'a friend_env \<Rightarrow> nat \<Rightarrow> 'a friend_world \<Rightarrow> 'a friend_world" where
  "linphone_core_remove_friend env i w = (if i \<in> set (fw_friends w) then (let
       w = linphone_friend_unref i w;
       w = w\<lparr>fw_friends := remove1 i (fw_friends w)\<rparr>
     in linphone_core_write_friends_config env w) else w)"

definition linphone_core_update_friends_subscriptions ::
    "'a friend_env \<Rightarrow> nat option \<Rightarrow> bool \<Rightarrow> 'a friend_world \<Rightarrow> 'a friend_world" where
  "linphone_core_update_friends_subscriptions env cfg only_when_registered w =
     fold (linphone_friend_update_subscribes env cfg only_when_registered) (fw_friends w) w"

definition linphone_core_send_initial_subscribes :: "'a friend_env \<Rightarrow> 'a friend_world \<Rightarrow> 'a friend_world" where
  "linphone_core_send_initial_subscribes env w = (if fw_initial_subscribes_sent w then w
     else (let w = w\<lparr>fw_initial_subscribes_sent := True\<rparr>
       in linphone_core_update_friends_subscriptions env None (linphone_core_should_subscribe_friends_only_when_registered env w) w))"

definition linphone_core_invalidate_friend_subscriptions :: "'a friend_env \<Rightarrow> 'a friend_world \<Rightarrow> 'a friend_world" where
  "linphone_core_invalidate_friend_subscriptions env w =
     (fold (linphone_friend_invalidate_subscription env) (fw_friends w) w)\<lparr>fw_initial_subscribes_sent := False\<rparr>"

text \<open>The friends are read when the core starts, until a section is missing or cannot be read.  Every
  friend uses up a section, so the loop ends; \<open>fuel\<close> bounds the sections read.\<close>

fun read_friends :: "'a friend_env \<Rightarrow> nat \<Rightarrow> int \<Rightarrow> 'a friend_world \<Rightarrow> 'a friend_world option" where
  "read_friends env 0 i w = None"
| "read_friends env (Suc fuel) i w = (case linphone_friend_new_from_config_file env i w of
     (None, w) \<Rightarrow> Some w
   | (Some lf, w) \<Rightarrow> read_friends env fuel (i + 1) (linphone_friend_unref lf (linphone_core_add_friend env lf w)))"

section \<open>Presence of others and of this side\<close>

definition linphone_core_add_subscriber ::
    "'a friend_env \<Rightarrow> string \<Rightarrow> nat \<Rightarrow> 'a friend_world \<Rightarrow> 'a friend_world" where
  "linphone_core_add_subscriber env subscriber op w =
     (case linphone_friend_new_with_address (fe_api env) subscriber w of (None, w) \<Rightarrow> w
      | (Some i, w) \<Rightarrow> (let
          w = fr_upd i (\<lambda>f. f\<lparr>fr_insub := Some op, fr_pol := LinphoneSPAccept, fr_inc_subscribe_pending := True\<rparr>) w;
          w = w\<lparr>fw_subscribers := fw_subscribers w @ [i]\<rparr>
        in (case fr_uri (fw_store w i) of None \<Rightarrow> w
            | Some u \<Rightarrow> fr_emit (FrNewSubscriptionRequested i (ad_as_string (fe_api env) u)) w)))"

definition linphone_core_reject_subscriber :: "nat \<Rightarrow> 'a friend_world \<Rightarrow> 'a friend_world" where
  "linphone_core_reject_subscriber i w = linphone_friend_set_inc_subscribe_policy LinphoneSPDeny i w"

definition linphone_core_notify_all_friends :: "presence_model \<Rightarrow> 'a friend_world \<Rightarrow> 'a friend_world" where
  "linphone_core_notify_all_friends presence w =
     fold (\<lambda>i w. if fr_insub (fw_store w i) \<noteq> None then linphone_friend_notify i (Some presence) w else w) (fw_friends w) w"

definition fix_subscribe_contact :: "'a friend_env \<Rightarrow> nat option \<Rightarrow> nat \<Rightarrow> 'a friend_world \<Rightarrow> 'a friend_world" where
  "fix_subscribe_contact env cfg op w = (case Option.bind cfg (\<lambda>c. pc_op (fe_accounts env c)) of None \<Rightarrow> w
     | Some reg_op \<Rightarrow> if fe_op_has_contact env reg_op then fr_emit (FrSetContact op reg_op) w else w)"

definition linphone_subscription_new :: "'a friend_env \<Rightarrow> nat \<Rightarrow> string \<Rightarrow> 'a friend_world \<Rightarrow> 'a friend_world" where
  "linphone_subscription_new env op from_text w = (case ad_new (fe_api env) from_text of None \<Rightarrow> fr_dereference_null w
     | Some a \<Rightarrow> (let uri = ad_clean (fe_api env) a in
         case linphone_core_lookup_known_proxy env uri of None \<Rightarrow> fr_dereference_null w
         | Some cfg \<Rightarrow> (let w = fix_subscribe_contact env cfg op w in
             case linphone_find_friend_by_address (fe_api env) w (fw_friends w) uri of
               Some i \<Rightarrow> linphone_friend_done env i
                 (fr_emit (FrAccept op) (fr_upd i (\<lambda>f. f\<lparr>fr_insub := Some op, fr_inc_subscribe_pending := True\<rparr>) w))
             | None \<Rightarrow> (case linphone_find_friend_by_address (fe_api env) w (fw_subscribers w) uri of
                 Some i \<Rightarrow> if fr_pol (fw_store w i) = LinphoneSPDeny then fr_emit (FrDecline op) w else w
               | None \<Rightarrow> linphone_core_add_subscriber env (ad_as_string (fe_api env) uri) op (fr_emit (FrAccept op) w)))))"

definition linphone_notify_recv ::
    "'a friend_env \<Rightarrow> nat \<Rightarrow> bool \<Rightarrow> 'a option \<Rightarrow> presence_model option \<Rightarrow> 'a friend_world \<Rightarrow> 'a friend_world" where
  "linphone_notify_recv env op terminated from_address model w = (let
     presence = (case model of Some m \<Rightarrow> m
       | None \<Rightarrow> linphone_presence_model_new_with_activity (fe_presence_env env) LinphonePresenceActivityOffline None);
     lf = (case linphone_find_friend_by_out_subscribe w (fw_friends w) op of Some i \<Rightarrow> Some i
       | None \<Rightarrow> if fr_get_int env (fw_config w) ''sip'' ''allow_out_of_subscribe_presence'' 0 \<noteq> 0
           then Option.bind from_address (linphone_find_friend_by_address (fe_api env) w (fw_friends w)) else None);
     w = (case lf of None \<Rightarrow> w
       | Some i \<Rightarrow> fr_emit (FrPresenceReceived i) (fr_upd i (\<lambda>f. f\<lparr>fr_presence := Some presence, fr_subscribe_active := True\<rparr>) w))
   in if terminated then (let w = fr_release op w in case lf of None \<Rightarrow> w
        | Some i \<Rightarrow> fr_upd i (\<lambda>f. f\<lparr>fr_outsub := None, fr_subscribe_active := False\<rparr>) w)
      else w)"

definition linphone_subscription_closed :: "nat \<Rightarrow> 'a friend_world \<Rightarrow> 'a friend_world" where
  "linphone_subscription_closed op w = (let lf = linphone_find_friend_by_inc_subscribe w (fw_friends w) op; w = fr_release op w
   in case lf of None \<Rightarrow> w | Some i \<Rightarrow> fr_upd i (\<lambda>f. f\<lparr>fr_insub := None\<rparr>) w)"

definition linphone_core_send_publish :: "'a friend_env \<Rightarrow> presence_model \<Rightarrow> 'a friend_world \<Rightarrow> 'a friend_world" where
  "linphone_core_send_publish env presence w =
     fold (\<lambda>c w. if truth (pc_publish (fe_accounts env c)) then fr_emit (FrPublish c presence) w else w) (fe_account_list env) w"

definition linphone_core_send_presence :: "'a friend_env \<Rightarrow> presence_model \<Rightarrow> 'a friend_world \<Rightarrow> 'a friend_world" where
  "linphone_core_send_presence env presence w =
     linphone_core_send_publish env presence (linphone_core_notify_all_friends presence w)"

definition linphone_core_set_presence_model :: "'a friend_env \<Rightarrow> presence_model \<Rightarrow> 'a friend_world \<Rightarrow> 'a friend_world" where
  "linphone_core_set_presence_model env presence w = (let w = linphone_core_send_presence env presence w
   in case fw_presence_model w of None \<Rightarrow> w | Some m \<Rightarrow> w\<lparr>fw_presence_model := Some presence\<rparr>)"

text \<open>A status is published as an activity, with a description where several share one.\<close>

fun status_activity :: "online_status \<Rightarrow> (presence_activity_type \<times> string option) option" where
  "status_activity LinphoneStatusOffline = Some (LinphonePresenceActivityOffline, None)"
| "status_activity LinphoneStatusOnline = Some (LinphonePresenceActivityOnline, None)"
| "status_activity LinphoneStatusBusy = Some (LinphonePresenceActivityBusy, None)"
| "status_activity LinphoneStatusBeRightBack = Some (LinphonePresenceActivityInTransit, None)"
| "status_activity LinphoneStatusAway = Some (LinphonePresenceActivityAway, None)"
| "status_activity LinphoneStatusOnThePhone = Some (LinphonePresenceActivityOnThePhone, None)"
| "status_activity LinphoneStatusOutToLunch = Some (LinphonePresenceActivityLunch, None)"
| "status_activity LinphoneStatusDoNotDisturb = Some (LinphonePresenceActivityBusy, Some ''Do not disturb'')"
| "status_activity LinphoneStatusMoved = Some (LinphonePresenceActivityPermanentAbsence, None)"
| "status_activity LinphoneStatusAltService = Some (LinphonePresenceActivityBusy, Some ''Using another messaging service'')"
| "status_activity LinphoneStatusPending = Some (LinphonePresenceActivityOther, Some ''Waiting for user acceptance'')"
| "status_activity LinphoneStatusVacation = Some (LinphonePresenceActivityVacation, None)"
| "status_activity LinphoneStatusEnd = None"

definition linphone_core_set_presence_info ::
    "'a friend_env \<Rightarrow> int \<Rightarrow> string option \<Rightarrow> online_status \<Rightarrow> 'a friend_world \<Rightarrow> 'a friend_world" where
  "linphone_core_set_presence_info env minutes_away contact os w = (let
     w = (if minutes_away > 0 then w\<lparr>fw_minutes_away := minutes_away\<rparr> else w)
   in case status_activity os of None \<Rightarrow> w
      | Some (acttype, description) \<Rightarrow> (let
          penv = fe_presence_env env;
          presence = linphone_presence_model_new_with_activity penv acttype description;
          presence = linphone_presence_model_set_contact penv contact presence
        in linphone_core_set_presence_model env presence w))"

fun activity_presence_info :: "presence_activity_type \<Rightarrow> string option \<Rightarrow> online_status" where
  "activity_presence_info LinphonePresenceActivityOffline d = LinphoneStatusOffline"
| "activity_presence_info LinphonePresenceActivityOnline d = LinphoneStatusOnline"
| "activity_presence_info LinphonePresenceActivityBusy d =
     (if d = Some ''Do not disturb'' then LinphoneStatusDoNotDisturb
      else if d = Some ''Using another messaging service'' then LinphoneStatusAltService else LinphoneStatusBusy)"
| "activity_presence_info LinphonePresenceActivityInTransit d = LinphoneStatusBeRightBack"
| "activity_presence_info LinphonePresenceActivitySteering d = LinphoneStatusBeRightBack"
| "activity_presence_info LinphonePresenceActivityAway d = LinphoneStatusAway"
| "activity_presence_info LinphonePresenceActivityOnThePhone d = LinphoneStatusOnThePhone"
| "activity_presence_info LinphonePresenceActivityBreakfast d = LinphoneStatusOutToLunch"
| "activity_presence_info LinphonePresenceActivityDinner d = LinphoneStatusOutToLunch"
| "activity_presence_info LinphonePresenceActivityLunch d = LinphoneStatusOutToLunch"
| "activity_presence_info LinphonePresenceActivityMeal d = LinphoneStatusOutToLunch"
| "activity_presence_info LinphonePresenceActivityPermanentAbsence d = LinphoneStatusMoved"
| "activity_presence_info LinphonePresenceActivityOther d =
     (if d = Some ''Waiting for user acceptance'' then LinphoneStatusPending else LinphoneStatusBusy)"
| "activity_presence_info LinphonePresenceActivityVacation d = LinphoneStatusVacation"
| "activity_presence_info LinphonePresenceActivityAppointment d = LinphoneStatusDoNotDisturb"
| "activity_presence_info LinphonePresenceActivityMeeting d = LinphoneStatusDoNotDisturb"
| "activity_presence_info LinphonePresenceActivityWorship d = LinphoneStatusDoNotDisturb"
| "activity_presence_info _ d = LinphoneStatusBusy"

definition linphone_core_get_presence_info :: "presence_model \<Rightarrow> online_status" where
  "linphone_core_get_presence_info m = (let activity = linphone_presence_model_get_activity m
   in activity_presence_info (linphone_presence_activity_get_type activity) (linphone_presence_activity_get_description activity))"

end
