(* ===== verification/FriendStore.thy ===== *)
theory FriendStore
  imports Friends AuthStore
begin

text \<open>
The stored friends: the sections the core writes whenever its list changes, read back when it starts;
and the settings that an entry written over another one inherits from it.
\<close>

section \<open>Sections\<close>

lemma friend_section_inject [simp]: "friend_section i = friend_section j \<longleftrightarrow> i = j"
  unfolding friend_section_def by (metis same_append_eq strto_show_int)

definition friend_entry :: "'a addr_api \<Rightarrow> 'a lin_friend \<Rightarrow> (string \<rightharpoonup> string) \<Rightarrow> (string \<rightharpoonup> string)" where
  "friend_entry api f old = (\<lambda>n.
     if n = ''refkey'' \<and> fr_refkey f \<noteq> None then present (fr_refkey f)
     else if n = ''subscribe'' then Some (tmp30 (show_int (uint (fr_subscribe f))))
     else if n = ''pol'' then Some (policy_enum_to_str (fr_pol f))
     else if n = ''url'' \<and> fr_uri f \<noteq> None then present (map_option (ad_as_string api) (fr_uri f))
     else old n)"

lemma put_contents:
  assumes "lp_ok c"
  shows "lp_ok (lp_config_set_string c s k v)"
    "lp_contents (lp_config_set_string c s k v) = (lp_contents c)((s, k) := present v)"
  using assms by (simp_all add: lp_contents_def lp.contents_put [unfolded lp.contents_def] lp.put_inv)

lemma set_if_contents:
  assumes "lp_ok c"
  shows "lp_ok (set_if s k v c)"
    "lp_contents (set_if s k v c) = (if v = None then lp_contents c else (lp_contents c)((s, k) := present v))"
  using assms by (auto simp: set_if_def put_contents split: option.split)

lemma policy_present [simp]: "present (Some (policy_enum_to_str p)) = Some (policy_enum_to_str p)"
  by (cases p) simp_all

lemma policy_back [simp]: "policy_str_to_enum (policy_enum_to_str p) = p"
  by (cases p) (simp_all add: policy_str_to_enum_def)

lemma written_friend:
  assumes "lp_ok c"
  shows "lp_ok (linphone_friend_write_to_config_file api c (Some f) i)"
    "lp_contents (linphone_friend_write_to_config_file api c (Some f) i) (s, n) =
      (if s = friend_section i then friend_entry api f (\<lambda>n. lp_contents c (s, n)) n else lp_contents c (s, n))"
  using assms present_int [OF byte_range, of "fr_subscribe f"]
  by (auto simp: linphone_friend_write_to_config_file_def Let_def put_contents set_if_contents lp_config_set_int_def
    friend_entry_def)

lemma written_friends:
  assumes "lp_ok c"
  shows "lp_ok (write_friends_from api c fs i)
    \<and> (\<forall>j < length fs. \<forall>n. lp_contents (write_friends_from api c fs i) (friend_section (i + int j), n)
         = friend_entry api (fs ! j) (\<lambda>n. lp_contents c (friend_section (i + int j), n)) n)
    \<and> \<not> lp_config_has_section (write_friends_from api c fs i) (friend_section (i + int (length fs)))
    \<and> (\<forall>j < i. \<forall>n. lp_contents (write_friends_from api c fs i) (friend_section j, n) = lp_contents c (friend_section j, n))"
  using assms
proof (induction fs arbitrary: c i)
  case Nil
  then show ?case
    using clean_section_laws [of c "friend_section i"] by (simp add: linphone_friend_write_to_config_file_def Let_def)
next
  case (Cons f fs)
  let ?c = "linphone_friend_write_to_config_file api c (Some f) i"
  note w = written_friend [OF Cons.prems, of api f i]
  have IH: "lp_ok (write_friends_from api ?c fs (i + 1))"
    "\<And>j n. j < length fs \<Longrightarrow> lp_contents (write_friends_from api ?c fs (i + 1)) (friend_section (i + 1 + int j), n)
         = friend_entry api (fs ! j) (\<lambda>n. lp_contents ?c (friend_section (i + 1 + int j), n)) n"
    "\<not> lp_config_has_section (write_friends_from api ?c fs (i + 1)) (friend_section (i + 1 + int (length fs)))"
    "\<And>j n. j < i + 1 \<Longrightarrow> lp_contents (write_friends_from api ?c fs (i + 1)) (friend_section j, n) = lp_contents ?c (friend_section j, n)"
    using Cons.IH [OF w(1), of "i + 1"] by blast+
  have "lp_contents (write_friends_from api c (f # fs) i) (friend_section (i + int j), n)
      = friend_entry api ((f # fs) ! j) (\<lambda>n. lp_contents c (friend_section (i + int j), n)) n" if "j < Suc (length fs)" for j n
  proof (cases j)
    case 0
    then show ?thesis using IH(4) [of i n] by (simp add: w(2))
  next
    case (Suc k)
    then show ?thesis using IH(2) [of k n] that by (simp add: w(2) add.assoc)
  qed
  moreover have "lp_contents (write_friends_from api c (f # fs) i) (friend_section j, n) = lp_contents c (friend_section j, n)"
    if "j < i" for j n
    using that IH(4) [of j n] by (simp add: w(2))
  ultimately show ?case using IH(1,3) by (simp add: add.assoc)
qed

section \<open>Reading\<close>

text \<open>A friend whose address the address library prints and reads back, and whose reference key is a
  text.\<close>

definition friend_valid :: "'a addr_api \<Rightarrow> 'a lin_friend \<Rightarrow> bool" where
  "friend_valid api f \<longleftrightarrow> (\<exists>u a. fr_uri f = Some u \<and> ad_as_string api u \<noteq> [] \<and> ad_new api (ad_as_string api u) = Some a
     \<and> ad_clean api a = u) \<and> text_ok (fr_refkey f)"

definition friend_read :: "'a lin_friend \<Rightarrow> 'a lin_friend" where
  "friend_read f = linphone_friend_blank\<lparr>fr_uri := fr_uri f, fr_pol := fr_pol f, fr_subscribe := fr_subscribe f,
     fr_refkey := fr_refkey f\<rparr>"

definition friend_restored :: "'a lin_friend \<Rightarrow> 'a lin_friend" where
  "friend_restored f = (friend_read f)\<lparr>fr_in_core := True, fr_commit := True\<rparr>"

lemma word_back: "of_int (uint (b :: 8 word)) = b"
  by simp

lemma read_friend:
  assumes c: "\<And>n. lp_contents (fw_config w) (friend_section i, n) = friend_entry (fe_api env) f old n"
    and v: "friend_valid (fe_api env) f" and old: "fr_refkey f = None \<Longrightarrow> old ''refkey'' = None"
  shows "linphone_friend_new_from_config_file env i w = (Some (fw_next w),
    w\<lparr>fw_next := Suc (fw_next w), fw_store := (fw_store w)(fw_next w := friend_read f)\<rparr>)"
proof -
  from v obtain u a where u: "fr_uri f = Some u" "ad_as_string (fe_api env) u \<noteq> []"
      "ad_new (fe_api env) (ad_as_string (fe_api env) u) = Some a" "ad_clean (fe_api env) a = u" "text_ok (fr_refkey f)"
    unfolding friend_valid_def by blast
  have str: "lp_config_get_string (fw_config w) (friend_section i) n None = friend_entry (fe_api env) f old n" for n
    unfolding get_string_contents c by (simp split: option.split)
  have fields: "friend_entry (fe_api env) f old ''url'' = Some (ad_as_string (fe_api env) u)"
    "friend_entry (fe_api env) f old ''pol'' = Some (policy_enum_to_str (fr_pol f))"
    "friend_entry (fe_api env) f old ''subscribe'' = Some (tmp30 (show_int (uint (fr_subscribe f))))"
    "friend_entry (fe_api env) f old ''refkey'' = fr_refkey f"
    using u old by (simp_all add: friend_entry_def present_nonempty present_text)
  have "lp_config_get_int (fw_config w) (friend_section i) ''subscribe'' 0 = Some (uint (fr_subscribe f))"
    unfolding lp_config_get_int_def str fields by (simp add: read_int [OF byte_range])
  moreover have "lp_config_has_section (fw_config w) (friend_section i)"
    using c [of "''pol''"] fields(2) by (intro has_section_contents [of _ _ "''pol''"]) simp
  ultimately show ?thesis
    by (simp add: linphone_friend_new_from_config_file_def Let_def str fields linphone_friend_new_with_address_def u
      linphone_friend_new_def linphone_friend_set_address_def linphone_friend_set_inc_subscribe_policy_def
      linphone_friend_enable_subscribes_def linphone_friend_set_ref_key_def fr_upd_def fr_get_int_def
      linphone_friend_blank_def friend_read_def)
qed

lemma add_read_friend:
  assumes "\<not> fe_ready env" "fr_uri f = Some u" "\<forall>k \<in> set (fw_friends w). k < fw_next w"
  shows "linphone_friend_unref (fw_next w) (linphone_core_add_friend env (fw_next w)
      (w\<lparr>fw_next := Suc (fw_next w), fw_store := (fw_store w)(fw_next w := friend_read f)\<rparr>))
    = w\<lparr>fw_next := Suc (fw_next w), fw_store := (fw_store w)(fw_next w := friend_restored f),
        fw_friends := fw_friends w @ [fw_next w]\<rparr>"
  using assms
  by (auto simp: linphone_core_add_friend_def linphone_friend_unref_def linphone_friend_ref_def fr_upd_def Let_def
    friend_read_def friend_restored_def linphone_friend_blank_def)

lemma read_friends_back:
  assumes "\<And>j. j < length fs \<Longrightarrow> \<exists>old. (\<forall>n. lp_contents (fw_config w) (friend_section (i + int j), n)
        = friend_entry (fe_api env) (fs ! j) old n) \<and> (fr_refkey (fs ! j) = None \<longrightarrow> old ''refkey'' = None)"
    and "\<not> lp_config_has_section (fw_config w) (friend_section (i + int (length fs)))"
    and "\<forall>f \<in> set fs. friend_valid (fe_api env) f" and "\<not> fe_ready env"
    and "\<forall>k \<in> set (fw_friends w). k < fw_next w" and "length fs < fuel"
  shows "\<exists>w'. read_friends env fuel i w = Some w' \<and> fw_friends w' = fw_friends w @ [fw_next w ..< fw_next w + length fs]
    \<and> (\<forall>j < length fs. fw_store w' (fw_next w + j) = friend_restored (fs ! j))
    \<and> (\<forall>k < fw_next w. fw_store w' k = fw_store w k) \<and> fw_config w' = fw_config w"
  using assms
proof (induction fs arbitrary: i w fuel)
  case Nil
  then obtain k where "fuel = Suc k" by (cases fuel) auto
  with Nil show ?case by (simp add: linphone_friend_new_from_config_file_def)
next
  case (Cons f fs)
  then obtain fuel' where fuel: "fuel = Suc fuel'" by (cases fuel) auto
  let ?w = "w\<lparr>fw_next := Suc (fw_next w), fw_store := (fw_store w)(fw_next w := friend_restored f),
        fw_friends := fw_friends w @ [fw_next w]\<rparr>"
  from Cons.prems(1) [of 0] obtain old where "\<And>n. lp_contents (fw_config w) (friend_section i, n) = friend_entry (fe_api env) f old n"
      "fr_refkey f = None \<Longrightarrow> old ''refkey'' = None" by auto
  moreover from Cons.prems(3) have v: "friend_valid (fe_api env) f" by simp
  moreover from v obtain u where "fr_uri f = Some u" by (auto simp: friend_valid_def)
  ultimately have step: "read_friends env fuel i w = read_friends env fuel' (i + 1) ?w"
    using add_read_friend [OF Cons.prems(4), of f u w] Cons.prems(5)
    by (simp add: fuel read_friend)
  have "\<exists>w'. read_friends env fuel' (i + 1) ?w = Some w' \<and> fw_friends w' = fw_friends ?w @ [fw_next ?w ..< fw_next ?w + length fs]
    \<and> (\<forall>j < length fs. fw_store w' (fw_next ?w + j) = friend_restored (fs ! j))
    \<and> (\<forall>k < fw_next ?w. fw_store w' k = fw_store ?w k) \<and> fw_config w' = fw_config ?w"
  proof (rule Cons.IH)
    fix j assume "j < length fs"
    then show "\<exists>old. (\<forall>n. lp_contents (fw_config ?w) (friend_section (i + 1 + int j), n)
        = friend_entry (fe_api env) (fs ! j) old n) \<and> (fr_refkey (fs ! j) = None \<longrightarrow> old ''refkey'' = None)"
      using Cons.prems(1) [of "Suc j"] by (simp add: add.assoc)
  qed (use Cons.prems fuel in \<open>auto simp: add.assoc less_Suc_eq\<close>)
  then obtain w' where w': "read_friends env fuel' (i + 1) ?w = Some w'"
    "fw_friends w' = fw_friends w @ fw_next w # [Suc (fw_next w) ..< Suc (fw_next w) + length fs]"
    "\<And>j. j < length fs \<Longrightarrow> fw_store w' (Suc (fw_next w) + j) = friend_restored (fs ! j)"
    "\<And>k. k < Suc (fw_next w) \<Longrightarrow> fw_store w' k = fw_store ?w k" "fw_config w' = fw_config w"
    by auto
  have "fw_store w' (fw_next w + j) = friend_restored ((f # fs) ! j)" if "j < Suc (length fs)" for j
    using that w'(3) [of "j - 1"] w'(4) [of "fw_next w"] by (cases j) simp_all
  moreover have "fw_friends w' = fw_friends w @ [fw_next w ..< fw_next w + length (f # fs)]"
    unfolding w'(2) by (simp add: upt_conv_Cons [of "fw_next w"] del: upt_Suc)
  moreover have "\<forall>k < fw_next w. fw_store w' k = fw_store w k"
    by (simp add: w'(4))
  ultimately show ?case
    unfolding step using w'(1,5) by (intro exI [where x = w'] conjI allI impI) simp_all
qed


text \<open>Without its own reference key a friend written over another entry reads with the key of that one:
  the entry of a removed friend is overwritten, not cleaned.\<close>

lemma friend_inherits_refkey:
  assumes "lp_ok c" "fr_refkey f = None"
  shows "lp_config_get_string (linphone_friend_write_to_config_file api c (Some f) i) (friend_section i) ''refkey'' None
    = lp_config_get_string c (friend_section i) ''refkey'' None"
  unfolding get_string_contents written_friend(2) [OF assms(1)] using assms(2) by (simp add: friend_entry_def)

end
