(* ===== verification/FriendProps.thy ===== *)
theory FriendProps
  imports FriendStore
begin

text \<open>
The subscriptions held by the friends: in every state that the application, the registrations, the
network and the signalling layer can lead to, an operation is held exactly as long as it is not
released; and what an update of the subscriptions achieves.
\<close>

section \<open>The invariant\<close>

definition subscribe_ops :: "'a friend_world \<Rightarrow> nat set" where
  "subscribe_ops w = {op. \<exists>e. FrSubscribe op e \<in> set (fw_trace w)}"

definition friend_alive :: "nat \<Rightarrow> 'a friend_world \<Rightarrow> bool" where
  "friend_alive i w \<longleftrightarrow> i < fw_next w \<and> i \<notin> set (fw_freed w)"

definition in_list :: "nat \<Rightarrow> 'a friend_world \<Rightarrow> bool" where
  "in_list i w \<longleftrightarrow> i \<in> set (fw_friends w)"

text \<open>The store of the core keeps the default of \<open>allow_out_of_subscribe_presence\<close>.\<close>

definition config_ok :: "lp_config \<Rightarrow> bool" where
  "config_ok c \<longleftrightarrow> lp_ok c \<and> lp_contents c (''sip'', ''allow_out_of_subscribe_presence'') = None"

text \<open>What one friend has to do with the operations: one in the list is the core's, has an address and
  may be subscribed to; one that is not has no subscription.\<close>

definition friend_ok :: "'a friend_world \<Rightarrow> nat \<Rightarrow> 'a lin_friend \<Rightarrow> bool" where
  "friend_ok w i f \<longleftrightarrow>
     (if in_list i w then fr_in_core f \<and> fr_uri f \<noteq> None else \<not> fr_in_core f \<and> fr_outsub f = None)
     \<and> (fr_subscribe_active f \<longrightarrow> fr_outsub f \<noteq> None)
     \<and> (\<forall>op. fr_outsub f = Some op \<longrightarrow> op \<in> subscribe_ops w \<and> op \<notin> set (fw_released w))
     \<and> (\<forall>op. fr_insub f = Some op \<longrightarrow> op < fw_next_op w \<and> op \<notin> subscribe_ops w)"

definition friends_ok :: "'a friend_world \<Rightarrow> bool" where
  "friends_ok w \<longleftrightarrow> config_ok (fw_config w) \<and> distinct (fw_friends w)
     \<and> (\<forall>i. in_list i w \<longrightarrow> friend_alive i w)
     \<and> (\<forall>i. friend_alive i w \<longrightarrow> friend_ok w i (fw_store w i))
     \<and> (\<forall>i j op. in_list i w \<longrightarrow> in_list j w \<longrightarrow> fr_outsub (fw_store w i) = Some op \<longrightarrow> fr_outsub (fw_store w j) = Some op \<longrightarrow> i = j)
     \<and> (\<forall>op \<in> subscribe_ops w. op < fw_next_op w \<and> (op \<in> set (fw_released w) \<or> (\<exists>i. in_list i w \<and> fr_outsub (fw_store w i) = Some op)))
     \<and> distinct (filter (\<lambda>op. op \<in> subscribe_ops w) (fw_released w))
     \<and> (\<forall>op \<in> set (fw_released w). op < fw_next_op w)"

lemma friends_okD:
  assumes "friends_ok w"
  shows "config_ok (fw_config w)" "distinct (fw_friends w)" "in_list i w \<Longrightarrow> friend_alive i w"
    "friend_alive i w \<Longrightarrow> friend_ok w i (fw_store w i)"
    "in_list i w \<Longrightarrow> in_list j w \<Longrightarrow> fr_outsub (fw_store w i) = Some op \<Longrightarrow> fr_outsub (fw_store w j) = Some op \<Longrightarrow> i = j"
    "op \<in> subscribe_ops w \<Longrightarrow> op < fw_next_op w"
    "op \<in> subscribe_ops w \<Longrightarrow> op \<notin> set (fw_released w) \<Longrightarrow> \<exists>i. in_list i w \<and> fr_outsub (fw_store w i) = Some op"
    "distinct (filter (\<lambda>op. op \<in> subscribe_ops w) (fw_released w))"
    "op \<in> set (fw_released w) \<Longrightarrow> op < fw_next_op w"
  using assms by (auto simp: friends_ok_def)

lemma friends_okI:
  assumes "config_ok (fw_config w)" "distinct (fw_friends w)" "\<And>i. in_list i w \<Longrightarrow> friend_alive i w"
    "\<And>i. friend_alive i w \<Longrightarrow> friend_ok w i (fw_store w i)"
    "\<And>i j op. in_list i w \<Longrightarrow> in_list j w \<Longrightarrow> fr_outsub (fw_store w i) = Some op \<Longrightarrow> fr_outsub (fw_store w j) = Some op \<Longrightarrow> i = j"
    "\<And>op. op \<in> subscribe_ops w \<Longrightarrow> op < fw_next_op w"
    "\<And>op. op \<in> subscribe_ops w \<Longrightarrow> op \<notin> set (fw_released w) \<Longrightarrow> \<exists>i. in_list i w \<and> fr_outsub (fw_store w i) = Some op"
    "distinct (filter (\<lambda>op. op \<in> subscribe_ops w) (fw_released w))"
    "\<And>op. op \<in> set (fw_released w) \<Longrightarrow> op < fw_next_op w"
  shows "friends_ok w"
  using assms unfolding friends_ok_def by blast

lemma friend_okD:
  assumes "friends_ok w" "in_list i w"
  shows "fr_in_core (fw_store w i)" "fr_uri (fw_store w i) \<noteq> None"
    "fr_subscribe_active (fw_store w i) \<Longrightarrow> fr_outsub (fw_store w i) \<noteq> None"
    "fr_outsub (fw_store w i) = Some op \<Longrightarrow> op \<in> subscribe_ops w"
    "fr_outsub (fw_store w i) = Some op \<Longrightarrow> op \<notin> set (fw_released w)"
  using friends_okD(4) [OF assms(1) friends_okD(3) [OF assms]] assms(2) by (auto simp: friend_ok_def)

section \<open>Elementary changes\<close>

lemma fr_frame [simp]:
  "fw_friends (fr_upd i f w) = fw_friends w" "fw_friends (fr_emit a w) = fw_friends w" "fw_friends (fr_release op w) = fw_friends w"
  "fw_config (fr_upd i f w) = fw_config w" "fw_config (fr_emit a w) = fw_config w" "fw_config (fr_release op w) = fw_config w"
  "fw_store (fr_upd i f w) = (fw_store w)(i := f (fw_store w i))" "fw_store (fr_emit a w) = fw_store w" "fw_store (fr_release op w) = fw_store w"
  "fw_subscribers (fr_upd i f w) = fw_subscribers w" "fw_subscribers (fr_emit a w) = fw_subscribers w"
  "fw_next (fr_upd i f w) = fw_next w" "fw_next (fr_emit a w) = fw_next w" "fw_next (fr_release op w) = fw_next w"
  "fw_freed (fr_upd i f w) = fw_freed w" "fw_freed (fr_emit a w) = fw_freed w" "fw_freed (fr_release op w) = fw_freed w"
  "fw_next_op (fr_upd i f w) = fw_next_op w" "fw_next_op (fr_emit a w) = fw_next_op w" "fw_next_op (fr_release op w) = fw_next_op w"
  "fw_released (fr_upd i f w) = fw_released w" "fw_released (fr_emit a w) = fw_released w" "fw_released (fr_release op w) = op # fw_released w"
  "fw_trace (fr_upd i f w) = fw_trace w" "fw_trace (fr_emit a w) = fw_trace w @ [a]" "fw_trace (fr_release op w) = fw_trace w"
  "fw_presence_model (fr_upd i f w) = fw_presence_model w" "fw_presence_model (fr_emit a w) = fw_presence_model w"
  by (simp_all add: fr_upd_def fr_emit_def fr_release_def)

lemma fr_frame_defs [simp]:
  "in_list j (fr_upd i f w) = in_list j w" "in_list j (fr_emit a w) = in_list j w" "in_list j (fr_release op w) = in_list j w"
  "friend_alive j (fr_upd i f w) = friend_alive j w" "friend_alive j (fr_emit a w) = friend_alive j w"
  "friend_alive j (fr_release op w) = friend_alive j w"
  "subscribe_ops (fr_upd i f w) = subscribe_ops w" "subscribe_ops (fr_release op w) = subscribe_ops w"
  by (simp_all add: in_list_def friend_alive_def subscribe_ops_def)

lemma fr_fields [simp]:
  "in_list j (w\<lparr>fw_next_op := n\<rparr>) = in_list j w" "friend_alive j (w\<lparr>fw_next_op := n\<rparr>) = friend_alive j w" "subscribe_ops (w\<lparr>fw_next_op := n\<rparr>) = subscribe_ops w"
  "in_list j (w\<lparr>fw_config := c\<rparr>) = in_list j w" "friend_alive j (w\<lparr>fw_config := c\<rparr>) = friend_alive j w" "subscribe_ops (w\<lparr>fw_config := c\<rparr>) = subscribe_ops w"
  "in_list j (w\<lparr>fw_initial_subscribes_sent := b\<rparr>) = in_list j w" "friend_alive j (w\<lparr>fw_initial_subscribes_sent := b\<rparr>) = friend_alive j w" "subscribe_ops (w\<lparr>fw_initial_subscribes_sent := b\<rparr>) = subscribe_ops w"
  "in_list j (w\<lparr>fw_bl_refresh := b\<rparr>) = in_list j w" "friend_alive j (w\<lparr>fw_bl_refresh := b\<rparr>) = friend_alive j w" "subscribe_ops (w\<lparr>fw_bl_refresh := b\<rparr>) = subscribe_ops w"
  "in_list j (w\<lparr>fw_presence_model := m\<rparr>) = in_list j w" "friend_alive j (w\<lparr>fw_presence_model := m\<rparr>) = friend_alive j w" "subscribe_ops (w\<lparr>fw_presence_model := m\<rparr>) = subscribe_ops w"
  "in_list j (w\<lparr>fw_minutes_away := k\<rparr>) = in_list j w" "friend_alive j (w\<lparr>fw_minutes_away := k\<rparr>) = friend_alive j w" "subscribe_ops (w\<lparr>fw_minutes_away := k\<rparr>) = subscribe_ops w"
  "in_list j (w\<lparr>fw_null := b\<rparr>) = in_list j w" "friend_alive j (w\<lparr>fw_null := b\<rparr>) = friend_alive j w" "subscribe_ops (w\<lparr>fw_null := b\<rparr>) = subscribe_ops w"
  by (simp_all add: in_list_def friend_alive_def subscribe_ops_def)

definition is_subscribe :: "'a friend_action \<Rightarrow> bool" where
  "is_subscribe a \<longleftrightarrow> (\<exists>op e. a = FrSubscribe op e)"

lemma emit_subscribe_ops [simp]:
  "\<not> is_subscribe a \<Longrightarrow> subscribe_ops (fr_emit a w) = subscribe_ops w"
  "subscribe_ops (fr_emit (FrSubscribe op e) w) = insert op (subscribe_ops w)"
  by (auto simp: subscribe_ops_def is_subscribe_def)

lemma not_subscribe [simp]:
  "\<not> is_subscribe (FrConfigureOp a b)" "\<not> is_subscribe (FrUnsubscribe a)" "\<not> is_subscribe (FrStopRefreshing a)"
  "\<not> is_subscribe (FrNotify a p)" "\<not> is_subscribe (FrNotifyClose a)" "\<not> is_subscribe (FrAccept a)"
  "\<not> is_subscribe (FrDecline a)" "\<not> is_subscribe (FrSetContact a c)" "\<not> is_subscribe (FrPresenceReceived a)"
  "\<not> is_subscribe (FrNewSubscriptionRequested a s)" "\<not> is_subscribe (FrPublish a m)"
  by (simp_all add: is_subscribe_def)

text \<open>The invariant sees only some fields of a world.\<close>

lemma friends_ok_cong:
  assumes "friends_ok w" "config_ok (fw_config v)" "fw_friends v = fw_friends w" "fw_next v = fw_next w" "fw_freed v = fw_freed w"
    "fw_store v = fw_store w" "subscribe_ops v = subscribe_ops w" "fw_next_op w \<le> fw_next_op v" "fw_released v = fw_released w"
  shows "friends_ok v"
proof -
  have "in_list i v = in_list i w" "friend_alive i v = friend_alive i w" for i
    using assms by (simp_all add: in_list_def friend_alive_def)
  moreover have "friend_ok w i f \<Longrightarrow> friend_ok v i f" for i f
    using assms by (auto simp: friend_ok_def in_list_def)
  moreover have "op \<in> subscribe_ops w \<Longrightarrow> op < fw_next_op v" for op
    using friends_okD(6) [OF assms(1), of op] assms(8) by simp
  moreover have "op \<in> set (fw_released w) \<Longrightarrow> op < fw_next_op v" for op
    using friends_okD(9) [OF assms(1), of op] assms(8) by simp
  ultimately show ?thesis
    using assms friends_okD [OF assms(1)] by (intro friends_okI) simp_all
qed

lemma fr_emit_ok [simp]: "\<not> is_subscribe a \<Longrightarrow> friends_ok w \<Longrightarrow> friends_ok (fr_emit a w)"
  by (rule friends_ok_cong [where w = w]) (simp_all add: friends_okD(1))

lemma fr_upd_ok:
  assumes "friends_ok w" and "fr_outsub (f (fw_store w i)) = fr_outsub (fw_store w i)"
    and "friend_alive i w \<Longrightarrow> friend_ok w i (f (fw_store w i))"
  shows "friends_ok (fr_upd i f w)"
proof (rule friends_okI)
  fix j assume "friend_alive j (fr_upd i f w)"
  then show "friend_ok (fr_upd i f w) j (fw_store (fr_upd i f w) j)"
    using assms(3) friends_okD(4) [OF assms(1), of j] by (auto simp: friend_ok_def)
next
  have eq: "fr_outsub (fw_store (fr_upd i f w) j) = fr_outsub (fw_store w j)" for j
    using assms(2) by simp
  fix j k q assume "in_list j (fr_upd i f w)" "in_list k (fr_upd i f w)" "fr_outsub (fw_store (fr_upd i f w) j) = Some q"
    "fr_outsub (fw_store (fr_upd i f w) k) = Some q"
  then show "j = k" using friends_okD(5) [OF assms(1), of j k q] unfolding eq by simp
next
  have eq: "fr_outsub (fw_store (fr_upd i f w) j) = fr_outsub (fw_store w j)" for j
    using assms(2) by simp
  fix q assume "q \<in> subscribe_ops (fr_upd i f w)" "q \<notin> set (fw_released (fr_upd i f w))"
  then show "\<exists>j. in_list j (fr_upd i f w) \<and> fr_outsub (fw_store (fr_upd i f w) j) = Some q"
    using friends_okD(7) [OF assms(1), of q] unfolding eq by simp
qed (use friends_okD [OF assms(1)] in simp_all)

text \<open>A change of a field that the subscriptions do not depend on.\<close>

lemma fr_upd_other_ok:
  assumes "friends_ok w" and "fr_outsub (f (fw_store w i)) = fr_outsub (fw_store w i)"
    "fr_in_core (f (fw_store w i)) = fr_in_core (fw_store w i)" "fr_insub (f (fw_store w i)) = fr_insub (fw_store w i)"
    "fr_uri (fw_store w i) \<noteq> None \<longrightarrow> fr_uri (f (fw_store w i)) \<noteq> None"
    "fr_subscribe_active (f (fw_store w i)) \<longrightarrow> fr_outsub (fw_store w i) \<noteq> None"
  shows "friends_ok (fr_upd i f w)"
  using assms(2-) friends_okD(4) [OF assms(1), of i]
  by (intro fr_upd_ok [OF assms(1)]) (auto simp: friend_ok_def split: if_splits)

text \<open>Giving a subscription up, and starting one on a new operation.\<close>

lemma drop_ok:
  assumes "friends_ok w" "in_list i w" "fr_outsub (fw_store w i) = Some op"
    and "fr_outsub (f (fw_store w i)) = None" "\<not> fr_subscribe_active (f (fw_store w i))"
    "fr_in_core (f (fw_store w i)) = fr_in_core (fw_store w i)" "fr_insub (f (fw_store w i)) = fr_insub (fw_store w i)"
    "fr_uri (f (fw_store w i)) = fr_uri (fw_store w i)"
  shows "friends_ok (fr_upd i f (fr_release op w))"
proof (rule friends_okI)
  note ok = friends_okD [OF assms(1)]
  show "distinct (filter (\<lambda>q. q \<in> subscribe_ops (fr_upd i f (fr_release op w))) (fw_released (fr_upd i f (fr_release op w))))"
    using ok(8) friend_okD(4,5) [OF assms(1-3)] by simp
  fix j
  assume "friend_alive j (fr_upd i f (fr_release op w))"
  then have a: "friend_ok w j (fw_store w j)" and al: "friend_alive j w" using ok(4) by simp_all
  have "fr_outsub (fw_store w j) \<noteq> Some op" if "j \<noteq> i"
    using that ok(5) [OF assms(2) _ assms(3), of j] a by (auto simp: friend_ok_def split: if_splits)
  then show "friend_ok (fr_upd i f (fr_release op w)) j (fw_store (fr_upd i f (fr_release op w)) j)"
    using a assms(2,4-8) by (auto simp: friend_ok_def)
next
  fix q assume "q \<in> subscribe_ops (fr_upd i f (fr_release op w))" "q \<notin> set (fw_released (fr_upd i f (fr_release op w)))"
  then show "\<exists>j. in_list j (fr_upd i f (fr_release op w)) \<and> fr_outsub (fw_store (fr_upd i f (fr_release op w)) j) = Some q"
    using friends_okD(7) [OF assms(1), of q] assms(3) by auto
next
  fix q assume "q \<in> set (fw_released (fr_upd i f (fr_release op w)))"
  then show "q < fw_next_op (fr_upd i f (fr_release op w))"
    using friends_okD(9) [OF assms(1), of q] friends_okD(6) [OF assms(1) friend_okD(4) [OF assms(1-3)]] by auto
qed (use friends_okD(1-6) [OF assms(1)] assms(4) in \<open>auto split: if_splits\<close>)

lemma subscribe_ok:
  assumes "friends_ok w" "in_list i w" "fr_outsub (fw_store w i) = None"
  shows "friends_ok (fr_upd i (\<lambda>f. f\<lparr>fr_subscribe_active := True\<rparr>) (fr_emit (FrSubscribe (fw_next_op w) e)
    (fr_emit (FrConfigureOp (fw_next_op w) u)
      (fr_upd i (\<lambda>f. f\<lparr>fr_outsub := Some (fw_next_op w)\<rparr>) (w\<lparr>fw_next_op := Suc (fw_next_op w)\<rparr>)))))" (is "friends_ok ?w")
proof -
  note ok = friends_okD [OF assms(1)]
  let ?op = "fw_next_op w"
  have new: "?op \<notin> subscribe_ops w" using ok(6) by blast
  have alive: "friend_alive i w" using ok(3) assms(2) by blast
  have list: "in_list j ?w = in_list j w" "friend_alive j ?w = friend_alive j w" for j by (simp_all add: in_list_def friend_alive_def)
  have ops: "subscribe_ops ?w = insert ?op (subscribe_ops w)" by (simp add: subscribe_ops_def, auto)
  have rel: "?op \<notin> set (fw_released w)" using ok(9) by blast
  have none: "fr_outsub (fw_store w j) \<noteq> Some ?op" if "in_list j w" for j
    using friend_okD(4) [OF assms(1) that] new by blast
  show ?thesis
  proof (rule friends_okI)
    fix j assume "friend_alive j ?w"
    then show "friend_ok ?w j (fw_store ?w j)"
      using ok(4) [of j] new rel assms(2) unfolding friend_ok_def list ops by (auto simp: less_Suc_eq)
  next
    fix q assume "q \<in> subscribe_ops ?w" "q \<notin> set (fw_released ?w)"
    then show "\<exists>j. in_list j ?w \<and> fr_outsub (fw_store ?w j) = Some q"
      using ok(7) [of q] assms(2,3) unfolding ops list by (cases "q = ?op") (auto, metis option.distinct(1))
  next
    fix j k q assume "in_list j ?w" "in_list k ?w" "fr_outsub (fw_store ?w j) = Some q" "fr_outsub (fw_store ?w k) = Some q"
    then show "j = k" using ok(5) [of j k q] none unfolding list by (auto split: if_splits)
  next
    have "filter (\<lambda>q. q \<in> insert ?op (subscribe_ops w)) (fw_released w) = filter (\<lambda>q. q \<in> subscribe_ops w) (fw_released w)"
      using rel by (intro filter_cong) auto
    then show "distinct (filter (\<lambda>q. q \<in> subscribe_ops ?w) (fw_released ?w))" unfolding ops using ok(8) by simp
  qed (use ok(1,2,3,6,9) in \<open>auto simp: list ops intro: less_SucI\<close>)
qed

lemma fr_fields_ok [simp]:
  "friends_ok w \<Longrightarrow> friends_ok (w\<lparr>fw_initial_subscribes_sent := b\<rparr>)" "friends_ok w \<Longrightarrow> friends_ok (w\<lparr>fw_bl_refresh := b\<rparr>)"
  "friends_ok w \<Longrightarrow> friends_ok (w\<lparr>fw_presence_model := m\<rparr>)" "friends_ok w \<Longrightarrow> friends_ok (w\<lparr>fw_minutes_away := k\<rparr>)"
  "friends_ok w \<Longrightarrow> friends_ok (w\<lparr>fw_null := b\<rparr>)" "friends_ok w \<Longrightarrow> friends_ok (w\<lparr>fw_next_op := Suc (fw_next_op w)\<rparr>)"
  "friends_ok w \<Longrightarrow> config_ok c \<Longrightarrow> friends_ok (w\<lparr>fw_config := c\<rparr>)"
  by (rule friends_ok_cong [where w = w]; simp add: friends_okD(1))+

section \<open>Operations on one friend\<close>

lemma friend_section_not_sip [simp]: "friend_section i \<noteq> ''sip''" "''sip'' \<noteq> friend_section i"
  by (simp_all add: friend_section_def)

lemma write_friends_sip:
  "lp_ok c \<Longrightarrow> lp_ok (write_friends_from api c fs i) \<and> lp_contents (write_friends_from api c fs i) (''sip'', n) = lp_contents c (''sip'', n)"
proof (induction fs arbitrary: c i)
  case Nil
  then show ?case using clean_section_laws [of c "friend_section i"] by (simp add: linphone_friend_write_to_config_file_def Let_def)
next
  case (Cons f fs)
  then show ?case using written_friend [OF Cons.prems, of api f i] by simp
qed

lemma write_friends_config_ok [simp]: "config_ok c \<Longrightarrow> config_ok (write_friends_from api c fs i)"
  by (simp add: config_ok_def write_friends_sip)

lemma write_friends_ok [simp]: "friends_ok w \<Longrightarrow> friends_ok (linphone_core_write_friends_config env w)"
  by (simp add: linphone_core_write_friends_config_def friends_okD(1))

lemma do_subscribe_ok:
  assumes "friends_ok w" "in_list i w" "\<not> fr_subscribe_active (fw_store w i)"
  shows "friends_ok (linphone_friend_do_subscribe env i w)"
proof (cases "fr_outsub (fw_store w i)")
  case None
  let ?w = "fr_upd i (\<lambda>f. f\<lparr>fr_presence := None\<rparr>) w"
  have "friends_ok ?w" using assms(1,3) by (intro fr_upd_other_ok) simp_all
  from subscribe_ok [OF this] show ?thesis
    using None assms(2) by (simp add: linphone_friend_do_subscribe_def sal_op_for_presence_def)
next
  case (Some op)
  let ?w = "fr_upd i (\<lambda>f. f\<lparr>fr_outsub := None\<rparr>) (fr_release op w)"
  have "friends_ok ?w" using assms Some by (intro drop_ok) simp_all
  from subscribe_ok [OF this] show ?thesis
    using Some assms(2) by (simp add: linphone_friend_do_subscribe_def sal_op_for_presence_def)
qed

lemma notify_friend_ok [simp]: "friends_ok w \<Longrightarrow> friends_ok (linphone_friend_notify i p w)"
  by (simp add: linphone_friend_notify_def split: option.split)

lemma unsubscribe_ok [simp]: "friends_ok w \<Longrightarrow> friends_ok (linphone_friend_unsubscribe i w)"
  by (auto simp: linphone_friend_unsubscribe_def split: option.split intro!: fr_upd_other_ok)

lemma invalidate_ok:
  assumes "friends_ok w" "in_list i w"
  shows "friends_ok (linphone_friend_invalidate_subscription env i w)"
proof (cases "fr_outsub (fw_store w i)")
  case None
  then show ?thesis using assms friend_okD(3) [OF assms]
    by (auto simp: linphone_friend_invalidate_subscription_def intro!: fr_upd_other_ok)
next
  case (Some op)
  let ?f = "\<lambda>f. f\<lparr>fr_outsub := None, fr_subscribe_active := False,
    fr_presence := Some (linphone_presence_model_new_with_activity (fe_presence_env env)
      LinphonePresenceActivityOffline (Some ''unknown activity''))\<rparr>"
  have "friends_ok (fr_emit (FrPresenceReceived i) (fr_upd i ?f (fr_release op w)))"
    using assms Some by (intro fr_emit_ok drop_ok) simp_all
  then show ?thesis
    unfolding linphone_friend_invalidate_subscription_def Let_def Some option.case by (rule fr_upd_other_ok) simp_all
qed

lemma close_subscriptions_ok [simp]: "friends_ok w \<Longrightarrow> friends_ok (linphone_friend_close_subscriptions i w)"
  by (simp add: linphone_friend_close_subscriptions_def Let_def split: option.split)

lemma update_subscribes_ok:
  assumes "friends_ok w" "in_list i w"
  shows "friends_ok (linphone_friend_update_subscribes env proxy only i w)"
  using assms friend_okD(3) [OF assms]
  by (auto simp: linphone_friend_update_subscribes_def Let_def fr_dereference_null_def split: subscribe_check.split option.split
    intro!: do_subscribe_ok fr_emit_ok fr_upd_other_ok)

lemma answer_subscription_ok [simp]: "friends_ok w \<Longrightarrow> friends_ok (answer_subscription env i w)"
  by (simp add: answer_subscription_def split: subscribe_policy.split)

lemma do_subscribe_friends [simp]: "fw_friends (linphone_friend_do_subscribe env i w) = fw_friends w"
  by (simp add: linphone_friend_do_subscribe_def sal_op_for_presence_def Let_def split: option.split)

lemma friend_ops_friends [simp]:
  "fw_friends (linphone_friend_notify i p w) = fw_friends w" "fw_friends (linphone_friend_unsubscribe i w) = fw_friends w"
  "fw_friends (linphone_friend_invalidate_subscription env i w) = fw_friends w"
  "fw_friends (linphone_friend_update_subscribes env proxy only i w) = fw_friends w"
  "fw_friends (linphone_core_write_friends_config env w) = fw_friends w"
  "fw_friends (answer_subscription env i w) = fw_friends w"
  by (simp_all add: linphone_friend_notify_def linphone_friend_unsubscribe_def linphone_friend_invalidate_subscription_def
    linphone_friend_update_subscribes_def linphone_core_write_friends_config_def answer_subscription_def fr_dereference_null_def
    Let_def split: option.split subscribe_check.split subscribe_policy.split)

lemma apply_ok:
  fixes w :: "'a friend_world"
  assumes "friends_ok w" "in_list i w"
  shows "friends_ok (linphone_friend_apply env i w)"
proof -
  define w1 where "w1 = linphone_core_write_friends_config env w"
  define w2 where "w2 = (if fr_inc_subscribe_pending (fw_store w1 i)
    then fr_upd i (\<lambda>f. f\<lparr>fr_inc_subscribe_pending := False\<rparr>) (answer_subscription env i w1) else w1)"
  define w3 where "w3 = (if fr_in_core (fw_store w2 i)
    then linphone_friend_update_subscribes env None (linphone_core_should_subscribe_friends_only_when_registered env w2) i w2 else w2)"
  have act: "friends_ok v \<Longrightarrow> in_list i v \<Longrightarrow> friends_ok (fr_upd i (\<lambda>f. f\<lparr>fr_inc_subscribe_pending := False\<rparr>) v)"
    "friends_ok v \<Longrightarrow> in_list i v \<Longrightarrow> friends_ok (fr_upd i (\<lambda>f. f\<lparr>fr_commit := False\<rparr>) v)" for v :: "'a friend_world"
    by (auto intro!: fr_upd_other_ok dest: friend_okD(3))
  have "friends_ok w1" "in_list i w1" using assms by (simp_all add: w1_def in_list_def)
  then have w2: "friends_ok w2" "in_list i w2" using act(1) by (simp_all add: w2_def in_list_def)
  then have w3: "friends_ok w3" "in_list i w3" using update_subscribes_ok [OF w2] by (simp_all add: w3_def in_list_def)
  have "linphone_friend_apply env i w = (if fr_uri (fw_store w i) = None then w
      else fr_upd i (\<lambda>f. f\<lparr>fr_commit := False\<rparr>) (w3\<lparr>fw_bl_refresh := True\<rparr>))"
    unfolding linphone_friend_apply_def Let_def w3_def w2_def w1_def ..
  then show ?thesis using assms(1) w3 act(2) by simp
qed

lemma friend_done_ok: "friends_ok w \<Longrightarrow> in_list i w \<Longrightarrow> friends_ok (linphone_friend_done env i w)"
  by (simp add: linphone_friend_done_def apply_ok)

section \<open>The list\<close>

lemma add_ok:
  assumes "friends_ok w" "friend_alive i w"
  shows "friends_ok (linphone_core_add_friend env i w)"
proof (cases "fr_in_core (fw_store w i) \<or> fr_uri (fw_store w i) = None \<or> i \<in> set (fw_friends w)")
  case True
  then show ?thesis using assms(1) by (simp add: linphone_core_add_friend_def)
next
  case False
  then have new: "\<not> in_list i w" "fr_uri (fw_store w i) \<noteq> None" by (simp_all add: in_list_def)
  define v where "v = fr_upd i (\<lambda>f. f\<lparr>fr_in_core := True\<rparr>) ((linphone_friend_ref i w)\<lparr>fw_friends := fw_friends w @ [i]\<rparr>)"
  note ok = friends_okD [OF assms(1)]
  have f: "fr_outsub (fw_store w i) = None" "\<not> fr_subscribe_active (fw_store w i)"
    using ok(4) [OF assms(2)] new(1) by (auto simp: friend_ok_def)
  have list: "in_list j v \<longleftrightarrow> in_list j w \<or> j = i" "friend_alive j v = friend_alive j w" for j
    by (auto simp: v_def in_list_def friend_alive_def linphone_friend_ref_def fr_upd_def)
  have ops: "subscribe_ops v = subscribe_ops w" "fw_released v = fw_released w" "fw_next_op v = fw_next_op w"
    "fw_config v = fw_config w" "fw_friends v = fw_friends w @ [i]"
    by (simp_all add: v_def subscribe_ops_def linphone_friend_ref_def fr_upd_def)
  have st: "fr_outsub (fw_store v j) = fr_outsub (fw_store w j)" for j
    by (simp add: v_def linphone_friend_ref_def fr_upd_def)
  have vi: "friends_ok v"
  proof (rule friends_okI)
    fix j assume "friend_alive j v"
    then show "friend_ok v j (fw_store v j)"
      using ok(4) [of j] new f unfolding friend_ok_def list ops
      by (cases "j = i") (simp_all add: v_def linphone_friend_ref_def fr_upd_def)
  next
    fix j k q assume "in_list j v" "in_list k v" "fr_outsub (fw_store v j) = Some q" "fr_outsub (fw_store v k) = Some q"
    then show "j = k" using ok(5) [of j k q] f unfolding list st by auto
  next
    fix q assume "q \<in> subscribe_ops v" "q \<notin> set (fw_released v)"
    then show "\<exists>j. in_list j v \<and> fr_outsub (fw_store v j) = Some q"
      using ok(7) [of q] unfolding list st ops by blast
  qed (use ok(1,2,3,6,8,9) new assms(2) in \<open>auto simp: list ops in_list_def\<close>)
  moreover have "in_list i v" by (simp add: list)
  moreover have "friends_ok (fr_upd i (\<lambda>f. f\<lparr>fr_commit := True\<rparr>) v)"
    using vi f by (intro fr_upd_other_ok) (simp_all add: v_def linphone_friend_ref_def fr_upd_def)
  ultimately show ?thesis
    using False assms(1) apply_ok [of v i env] by (simp add: linphone_core_add_friend_def Let_def v_def)
qed

text \<open>The end of a friend, whether it was in the list or not.\<close>

lemma destroy_ok:
  assumes "friends_ok w" "friend_alive i w"
  shows "friends_ok ((linphone_friend_destroy i w)\<lparr>fw_friends := remove1 i (fw_friends w)\<rparr>)"
proof -
  note ok = friends_okD [OF assms(1)]
  define v where "v = (linphone_friend_destroy i w)\<lparr>fw_friends := remove1 i (fw_friends w)\<rparr>"
  define out where "out = (case fr_outsub (fw_store w i) of None \<Rightarrow> [] | Some op \<Rightarrow> [op])"
  define ins where "ins = (case fr_insub (fw_store w i) of None \<Rightarrow> [] | Some op \<Rightarrow> [op])"
  have rel: "fw_released v = out @ ins @ fw_released w"
    by (simp add: v_def linphone_friend_destroy_def release_held_def Let_def out_def ins_def split: option.split)
  have list: "in_list j v \<longleftrightarrow> in_list j w \<and> j \<noteq> i" "friend_alive j v \<longleftrightarrow> friend_alive j w \<and> j \<noteq> i" for j
    using ok(2) by (auto simp: v_def in_list_def friend_alive_def linphone_friend_destroy_def release_held_def Let_def split: option.split)
  have ops: "subscribe_ops v = subscribe_ops w" "fw_next_op v = fw_next_op w" "fw_config v = fw_config w" "fw_friends v = remove1 i (fw_friends w)"
    by (simp_all add: v_def subscribe_ops_def linphone_friend_destroy_def release_held_def Let_def split: option.split)
  have st: "fw_store v j = fw_store w j" if "j \<noteq> i" for j
    using that by (simp add: v_def linphone_friend_destroy_def release_held_def Let_def split: option.split)
  have i: "friend_ok w i (fw_store w i)" using assms(2) by (rule ok(4))
  then have insub: "\<forall>op \<in> set ins. op \<notin> subscribe_ops w \<and> op < fw_next_op w"
    by (simp add: ins_def friend_ok_def split: option.split)
  from i have outsub: "\<forall>op \<in> set out. op \<in> subscribe_ops w \<and> op \<notin> set (fw_released w) \<and> fr_outsub (fw_store w i) = Some op \<and> in_list i w"
    by (auto simp: out_def friend_ok_def split: option.split if_splits)
  have "friends_ok v"
  proof (rule friends_okI)
    fix j assume "friend_alive j v"
    then have j: "friend_alive j w" "j \<noteq> i" by (simp_all add: list)
    then have "op \<notin> set out" if "fr_outsub (fw_store w j) = Some op" for op
      using that outsub ok(5) [of j i op] ok(4) [OF j(1)] by (auto simp: friend_ok_def split: if_splits)
    moreover have "op \<notin> set ins" if "fr_outsub (fw_store w j) = Some op" for op
      using that insub ok(4) [OF j(1)] by (auto simp: friend_ok_def)
    ultimately show "friend_ok v j (fw_store v j)"
      using ok(4) [OF j(1)] j(2) unfolding friend_ok_def list ops rel st [OF j(2)] by simp
  next
    fix j k q assume "in_list j v" "in_list k v" "fr_outsub (fw_store v j) = Some q" "fr_outsub (fw_store v k) = Some q"
    then show "j = k" using ok(5) [of j k q] unfolding list by (simp add: st)
  next
    fix q assume q: "q \<in> subscribe_ops v" "q \<notin> set (fw_released v)"
    then obtain j where j: "in_list j w" "fr_outsub (fw_store w j) = Some q" using ok(7) [of q] unfolding ops rel by auto
    with q(2) have "j \<noteq> i" unfolding rel by (auto simp: out_def)
    with j show "\<exists>j. in_list j v \<and> fr_outsub (fw_store v j) = Some q" unfolding list by (intro exI [where x = j]) (simp add: st)
  next
    have "filter (\<lambda>q. q \<in> subscribe_ops w) (out @ ins @ fw_released w) = out @ filter (\<lambda>q. q \<in> subscribe_ops w) (fw_released w)"
      using insub outsub by (simp add: filter_empty_conv)
    moreover have "distinct out" by (simp add: out_def split: option.split)
    moreover have "set out \<inter> set (filter (\<lambda>q. q \<in> subscribe_ops w) (fw_released w)) = {}" using outsub by fastforce
    ultimately show "distinct (filter (\<lambda>q. q \<in> subscribe_ops v) (fw_released v))"
      unfolding ops rel by (simp only: distinct_append ok(8))
  next
    fix q assume "q \<in> set (fw_released v)"
    then show "q < fw_next_op v" unfolding rel ops using ok(6,9) insub outsub by auto
  qed (use ok(1,2,3,6) in \<open>auto simp: list ops\<close>)
  then show ?thesis by (simp add: v_def)
qed

lemma unref_ok:
  assumes "friends_ok w" "friend_alive i w" "in_list i w \<longrightarrow> fr_refcnt (fw_store w i) > 1"
  shows "friends_ok (linphone_friend_unref i w)"
proof -
  let ?w = "fr_upd i (\<lambda>f. f\<lparr>fr_refcnt := fr_refcnt f - 1\<rparr>) w"
  have w: "friends_ok ?w" "friend_alive i ?w"
    using assms friends_okD(4) [OF assms(1,2)] by (auto simp: friend_ok_def intro!: fr_upd_other_ok)
  have "linphone_friend_destroy i ?w = (linphone_friend_destroy i ?w)\<lparr>fw_friends := remove1 i (fw_friends ?w)\<rparr>"
    if "\<not> in_list i w"
    using that by (intro friend_world.equality)
      (simp_all add: in_list_def remove1_idem linphone_friend_destroy_def release_held_def Let_def split: option.split)
  then show ?thesis using assms(3) w destroy_ok [OF w]
    by (cases "in_list i w") (simp_all add: linphone_friend_unref_def Let_def)
qed

lemma remove_ok:
  assumes "friends_ok w" "in_list i w" "fr_refcnt (fw_store w i) = 1"
  shows "friends_ok (linphone_core_remove_friend env i w)"
proof -
  let ?w = "fr_upd i (\<lambda>f. f\<lparr>fr_refcnt := fr_refcnt f - 1\<rparr>) w"
  have w: "friends_ok ?w" "friend_alive i ?w"
    using assms friend_okD(3) [OF assms(1,2)] friends_okD(3) [OF assms(1,2)] by (auto intro!: fr_upd_other_ok)
  have "fw_friends (linphone_friend_destroy i ?w) = fw_friends w"
    by (simp add: linphone_friend_destroy_def release_held_def Let_def split: option.split)
  then show ?thesis using assms(2,3) destroy_ok [OF w]
    by (simp add: linphone_core_remove_friend_def in_list_def linphone_friend_unref_def Let_def)
qed

section \<open>Creation, notifications and presence\<close>

lemma new_friend_ok [simp]:
  assumes "friends_ok w"
  shows "friends_ok (snd (linphone_friend_new w))"
proof -
  note ok = friends_okD [OF assms]
  define v where "v = snd (linphone_friend_new w)"
  have list: "in_list j v = in_list j w" "friend_alive j v \<Longrightarrow> friend_alive j w \<or> j = fw_next w" "friend_alive j w \<Longrightarrow> friend_alive j v" for j
    by (auto simp: v_def linphone_friend_new_def in_list_def friend_alive_def)
  have ops: "subscribe_ops v = subscribe_ops w" "fw_released v = fw_released w" "fw_next_op v = fw_next_op w"
    "fw_config v = fw_config w" "fw_friends v = fw_friends w"
    by (simp_all add: v_def linphone_friend_new_def subscribe_ops_def)
  have new: "\<not> in_list (fw_next w) w" using ok(3) by (auto simp: friend_alive_def)
  have st: "fw_store v j = (if j = fw_next w then linphone_friend_blank else fw_store w j)" for j
    by (simp add: v_def linphone_friend_new_def)
  have "friends_ok v"
  proof (rule friends_okI)
    fix j assume "friend_alive j v"
    then show "friend_ok v j (fw_store v j)"
      using ok(4) [of j] new list(2) [of j] unfolding friend_ok_def list(1) ops st
      by (cases "j = fw_next w") (simp_all add: linphone_friend_blank_def)
  next
    fix j k q assume "in_list j v" "in_list k v" "fr_outsub (fw_store v j) = Some q" "fr_outsub (fw_store v k) = Some q"
    then show "j = k" using ok(5) [of j k q] new unfolding list(1) st by (auto split: if_splits)
  next
    fix q assume "q \<in> subscribe_ops v" "q \<notin> set (fw_released v)"
    then show "\<exists>j. in_list j v \<and> fr_outsub (fw_store v j) = Some q"
      using ok(7) [of q] new unfolding list(1) st ops by metis
  qed (use ok(1,2,3,6,8,9) list(3) in \<open>auto simp: list(1) ops\<close>)
  then show ?thesis by (simp add: v_def)
qed

lemma set_address_ok [simp]: "friends_ok w \<Longrightarrow> friends_ok (linphone_friend_set_address api a i w)"
  unfolding linphone_friend_set_address_def
  by (rule fr_upd_ok) (auto simp: friend_ok_def dest!: friends_okD(4) split: if_splits)

lemma new_with_address_ok [simp]: "friends_ok w \<Longrightarrow> friends_ok (snd (linphone_friend_new_with_address api s w))"
  using new_friend_ok [of w]
  by (cases "linphone_friend_new w") (simp add: linphone_friend_new_with_address_def split: option.split)

lemma insub_ok:
  assumes "friends_ok w" "op < fw_next_op w" "op \<notin> subscribe_ops w"
    and "\<And>f. fr_insub (g f) = Some op" "\<And>f. fr_outsub (g f) = fr_outsub f" "\<And>f. fr_in_core (g f) = fr_in_core f"
    "\<And>f. fr_uri (g f) = fr_uri f" "\<And>f. fr_subscribe_active (g f) = fr_subscribe_active f"
  shows "friends_ok (fr_upd i g w)"
  using assms(2-) friends_okD(4) [OF assms(1), of i] by (intro fr_upd_ok [OF assms(1)]) (simp_all add: friend_ok_def)

lemma new_with_address_frame [simp]:
  "subscribe_ops (snd (linphone_friend_new_with_address api s w)) = subscribe_ops w"
  "fw_next_op (snd (linphone_friend_new_with_address api s w)) = fw_next_op w"
  by (simp_all add: linphone_friend_new_with_address_def linphone_friend_new_def linphone_friend_set_address_def subscribe_ops_def
    split: option.split)

lemma subscribers_ok [simp]: "friends_ok w \<Longrightarrow> friends_ok (w\<lparr>fw_subscribers := s\<rparr>)"
  by (rule friends_ok_cong [where w = w]) (simp_all add: friends_okD(1) subscribe_ops_def)

lemma add_subscriber_ok:
  assumes "friends_ok w" "op < fw_next_op w" "op \<notin> subscribe_ops w"
  shows "friends_ok (linphone_core_add_subscriber env s op w)"
proof (cases "linphone_friend_new_with_address (fe_api env) s w")
  case (Pair i v)
  have v: "friends_ok v" "op < fw_next_op v" "op \<notin> subscribe_ops v"
    using assms new_with_address_ok [of w "fe_api env" s] new_with_address_frame [of "fe_api env" s w] Pair by simp_all
  let ?g = "\<lambda>f. f\<lparr>fr_insub := Some op, fr_pol := LinphoneSPAccept, fr_inc_subscribe_pending := True\<rparr>"
  have "friends_ok (fr_upd j ?g v)" for j using v by (rule insub_ok) simp_all
  with v show ?thesis
    by (simp add: linphone_core_add_subscriber_def Pair Let_def split: option.split)
qed

lemma find_in: "find P xs = Some x \<Longrightarrow> x \<in> set xs \<and> P x"
  by (auto simp: find_Some_iff)

lemma subscription_new_ok:
  assumes "friends_ok w" "op < fw_next_op w" "op \<notin> subscribe_ops w"
  shows "friends_ok (linphone_subscription_new env op s w)"
proof -
  have step: "friends_ok (linphone_friend_done env i
      (fr_emit (FrAccept op) (fr_upd i (\<lambda>f. f\<lparr>fr_insub := Some op, fr_inc_subscribe_pending := True\<rparr>) v)))"
    if "friends_ok v" "op < fw_next_op v" "op \<notin> subscribe_ops v" "in_list i v" for v i
    using that by (intro friend_done_ok fr_emit_ok insub_ok) simp_all
  have fix_ok: "friends_ok (fix_subscribe_contact env cfg op w) \<and> op < fw_next_op (fix_subscribe_contact env cfg op w)
      \<and> op \<notin> subscribe_ops (fix_subscribe_contact env cfg op w)" for cfg
    using assms by (simp add: fix_subscribe_contact_def split: option.split)
  show ?thesis
    using assms(1) fix_ok
    by (auto simp: linphone_subscription_new_def Let_def fr_dereference_null_def linphone_find_friend_by_address_def
      split: option.split intro!: step add_subscriber_ok dest!: find_in simp: in_list_def [symmetric])
qed

lemma release_foreign_ok:
  assumes "friends_ok w" "op < fw_next_op w" "op \<notin> subscribe_ops w"
  shows "friends_ok (fr_release op w)"
  using friends_okD [OF assms(1)] assms(2,3)
  by (intro friends_okI) (auto simp: friend_ok_def split: if_splits)

lemma no_foreign_presence [simp]: "config_ok c \<Longrightarrow> fr_get_int env c ''sip'' ''allow_out_of_subscribe_presence'' 0 = 0"
  by (simp add: config_ok_def fr_get_int_def get_int_default)

lemma notify_recv_ok:
  assumes "friends_ok w" "op < fw_next_op w" "op \<in> subscribe_ops w \<Longrightarrow> op \<notin> set (fw_released w)"
  shows "friends_ok (linphone_notify_recv env op terminated a model w)"
proof (cases "linphone_find_friend_by_out_subscribe w (fw_friends w) op")
  case None
  then have "op \<notin> subscribe_ops w"
    using assms friends_okD(7) [OF assms(1), of op]
    by (auto simp: linphone_find_friend_by_out_subscribe_def find_None_iff in_list_def)
  then show ?thesis
    using assms None friends_okD(1) [OF assms(1)] release_foreign_ok [OF assms(1,2)]
    by (simp add: linphone_notify_recv_def Let_def)
next
  case (Some i)
  then have i: "in_list i w" "fr_outsub (fw_store w i) = Some op"
    by (auto simp: linphone_find_friend_by_out_subscribe_def in_list_def dest: find_in)
  let ?p = "case model of Some m \<Rightarrow> m
    | None \<Rightarrow> linphone_presence_model_new_with_activity (fe_presence_env env) LinphonePresenceActivityOffline None"
  let ?w = "fr_emit (FrPresenceReceived i) (fr_upd i (\<lambda>f. f\<lparr>fr_presence := Some ?p, fr_subscribe_active := True\<rparr>) w)"
  have w: "friends_ok ?w" using assms(1) i by (intro fr_emit_ok fr_upd_other_ok) simp_all
  have "friends_ok (fr_upd i (\<lambda>f. f\<lparr>fr_outsub := None, fr_subscribe_active := False\<rparr>) (fr_release op ?w))"
    using i by (intro drop_ok [OF w]) simp_all
  with w Some show ?thesis by (simp add: linphone_notify_recv_def Let_def)
qed

lemma fold_ok:
  assumes "\<And>v i. friends_ok v \<Longrightarrow> i \<in> set xs \<Longrightarrow> fw_friends v = fs \<Longrightarrow> friends_ok (g i v) \<and> fw_friends (g i v) = fs"
    and "friends_ok w" "fw_friends w = fs"
  shows "friends_ok (fold g xs w) \<and> fw_friends (fold g xs w) = fs"
  using assms by (induction xs arbitrary: w) auto

lemma fold_friends_ok:
  assumes "\<And>v i. friends_ok v \<Longrightarrow> i \<in> set xs \<Longrightarrow> fw_friends v = fs \<Longrightarrow> friends_ok (g i v) \<and> fw_friends (g i v) = fs"
    and "friends_ok w" "fw_friends w = fs"
  shows "friends_ok (fold g xs w)"
  using fold_ok [of xs fs g w] assms by blast

lemma update_subscriptions_ok: "friends_ok w \<Longrightarrow> friends_ok (linphone_core_update_friends_subscriptions env cfg only w)"
  unfolding linphone_core_update_friends_subscriptions_def
  by (rule fold_friends_ok [where fs = "fw_friends w"]) (simp_all add: update_subscribes_ok in_list_def)

lemma invalidate_all_ok: "friends_ok w \<Longrightarrow> friends_ok (linphone_core_invalidate_friend_subscriptions env w)"
  unfolding linphone_core_invalidate_friend_subscriptions_def
  by (rule fr_fields_ok(1), rule fold_friends_ok [where fs = "fw_friends w"]) (simp_all add: invalidate_ok in_list_def)

lemma send_initial_ok: "friends_ok w \<Longrightarrow> friends_ok (linphone_core_send_initial_subscribes env w)"
  by (simp add: linphone_core_send_initial_subscribes_def update_subscriptions_ok Let_def)

lemma set_presence_model_ok [simp]: "friends_ok w \<Longrightarrow> friends_ok (linphone_core_set_presence_model env m w)"
proof -
  assume w: "friends_ok w"
  have "friends_ok (linphone_core_notify_all_friends m w)"
    unfolding linphone_core_notify_all_friends_def
    by (rule fold_friends_ok [where fs = "fw_friends w"]) (simp_all add: w)
  then have "friends_ok (linphone_core_send_presence env m w)"
    unfolding linphone_core_send_presence_def linphone_core_send_publish_def
    by (intro fold_friends_ok [where fs = "fw_friends (linphone_core_notify_all_friends m w)"]) simp_all
  then show ?thesis by (simp add: linphone_core_set_presence_model_def Let_def split: option.split)
qed

lemma set_presence_info_ok: "friends_ok w \<Longrightarrow> friends_ok (linphone_core_set_presence_info env k c os w)"
  by (simp add: linphone_core_set_presence_info_def Let_def split: option.split prod.split)

section \<open>Reachable states\<close>

text \<open>The application creates friends, changes them, lists and drops them; it removes a friend from
  the list when it has no reference of its own to it, and drops only references it has.  The
  signalling layer reports subscriptions on operations of its own and notifications on operations
  that are not released.  Accounts, network and clock may differ in every step.\<close>

inductive friends_step :: "'a friend_world \<Rightarrow> 'a friend_world \<Rightarrow> bool" where
  step_new: "friends_step w (snd (linphone_friend_new_with_address api s w))"
| step_address: "friends_step w (linphone_friend_set_address api a i w)"
| step_name: "friends_step w (fst (linphone_friend_set_name api name i w))"
| step_enable: "friends_step w (linphone_friend_enable_subscribes val i w)"
| step_policy: "friends_step w (linphone_friend_set_inc_subscribe_policy pol i w)"
| step_ref_key: "friends_step w (linphone_friend_set_ref_key env key i w)"
| step_add: "friend_alive i w \<Longrightarrow> friends_step w (linphone_core_add_friend env i w)"
| step_remove: "in_list i w \<Longrightarrow> fr_refcnt (fw_store w i) = 1 \<Longrightarrow> friends_step w (linphone_core_remove_friend env i w)"
| step_done: "friend_alive i w \<Longrightarrow> friends_step w (linphone_friend_done env i w)"
| step_ref: "friend_alive i w \<Longrightarrow> friends_step w (linphone_friend_ref i w)"
| step_unref: "friend_alive i w \<Longrightarrow> in_list i w \<longrightarrow> fr_refcnt (fw_store w i) > 1 \<Longrightarrow> friends_step w (linphone_friend_unref i w)"
| step_reject: "friends_step w (linphone_core_reject_subscriber i w)"
| step_registration: "friends_step w (linphone_core_update_friends_subscriptions env cfg only w)"
| step_initial: "friends_step w (linphone_core_send_initial_subscribes env w)"
| step_network_down: "friends_step w (linphone_core_invalidate_friend_subscriptions env w)"
| step_close: "friends_step w (linphone_friend_close_subscriptions i w)"
| step_presence: "friends_step w (linphone_core_set_presence_info env k c os w)"
| step_new_op: "friends_step w (snd (sal_op_for_presence w))"
| step_subscription: "op < fw_next_op w \<Longrightarrow> op \<notin> subscribe_ops w \<Longrightarrow> friends_step w (linphone_subscription_new env op s w)"
| step_notify: "op < fw_next_op w \<Longrightarrow> op \<notin> set (fw_released w) \<Longrightarrow>
    friends_step w (linphone_notify_recv env op terminated a model w)"

inductive friends_reachable :: "lp_config \<Rightarrow> 'a friend_world \<Rightarrow> bool" for c where
  reach_start: "fw_config w = c \<Longrightarrow> fw_friends w = [] \<Longrightarrow> fw_next w = 0 \<Longrightarrow> fw_released w = [] \<Longrightarrow> fw_trace w = []
    \<Longrightarrow> friends_reachable c w"
| reach_step: "friends_reachable c w \<Longrightarrow> friends_step w w' \<Longrightarrow> friends_reachable c w'"

lemma setters_ok:
  assumes "friends_ok w"
  shows "friends_ok (fst (linphone_friend_set_name api name i w))" "friends_ok (linphone_friend_enable_subscribes val i w)"
    "friends_ok (linphone_friend_set_inc_subscribe_policy pol i w)" "friends_ok (linphone_friend_set_ref_key env key i w)"
    "friend_alive i w \<Longrightarrow> friends_ok (linphone_friend_ref i w)" "friend_alive i w \<Longrightarrow> friends_ok (linphone_friend_done env i w)"
proof -
  have upd: "friends_ok (fr_upd i f w)" if "\<And>x. fr_outsub (f x) = fr_outsub x" "\<And>x. fr_in_core (f x) = fr_in_core x"
    "\<And>x. fr_insub (f x) = fr_insub x" "\<And>x. fr_uri x \<noteq> None \<Longrightarrow> fr_uri (f x) \<noteq> None"
    "\<And>x. fr_subscribe_active (f x) = fr_subscribe_active x" for f
    using that(4) friends_okD(4) [OF assms, of i]
    by (intro fr_upd_ok [OF assms]) (auto simp: friend_ok_def that(1,2,3,5) split: if_splits)
  show "friends_ok (fst (linphone_friend_set_name api name i w))" "friends_ok (linphone_friend_enable_subscribes val i w)"
    "friends_ok (linphone_friend_set_inc_subscribe_policy pol i w)" "friends_ok (linphone_friend_set_ref_key env key i w)"
    "friends_ok (linphone_friend_ref i w)"
    using assms by (auto simp: linphone_friend_set_name_def linphone_friend_enable_subscribes_def
      linphone_friend_set_inc_subscribe_policy_def linphone_friend_set_ref_key_def linphone_friend_ref_def Let_def
      split: option.split intro!: upd write_friends_ok)
  show "friends_ok (linphone_friend_done env i w)" if "friend_alive i w"
    using that friends_okD(4) [OF assms that] assms
    by (cases "in_list i w") (simp_all add: apply_ok linphone_friend_done_def friend_ok_def)
qed

lemma friends_step_ok: "friends_step w w' \<Longrightarrow> friends_ok w \<Longrightarrow> friends_ok w'"
  by (induction rule: friends_step.induct)
    (simp_all add: setters_ok add_ok remove_ok unref_ok linphone_core_reject_subscriber_def update_subscriptions_ok send_initial_ok
      invalidate_all_ok set_presence_info_ok sal_op_for_presence_def subscription_new_ok notify_recv_ok)

lemma reachable_friends_ok: "friends_reachable c w \<Longrightarrow> config_ok c \<Longrightarrow> friends_ok w"
proof (induction rule: friends_reachable.induct)
  case (reach_start w)
  then show ?case by (intro friends_okI) (simp_all add: in_list_def friend_alive_def subscribe_ops_def)
qed (simp add: friends_step_ok)

lemma count_filter: "P x \<Longrightarrow> count_list (filter P xs) x = count_list xs x"
  by (induction xs) auto

lemma distinct_count: "distinct xs \<Longrightarrow> x \<in> set xs \<Longrightarrow> count_list xs x = 1"
  by (induction xs) auto


section \<open>What an update of the subscriptions achieves\<close>

definition account_ready :: "'a friend_env \<Rightarrow> nat option \<Rightarrow> bool" where
  "account_ready env account = (case account of None \<Rightarrow> True | Some c \<Rightarrow> pc_state (fe_accounts env c) = RegistrationOk)"

lemma do_subscribe_store:
  "fr_subscribe_active (fw_store (linphone_friend_do_subscribe env i w) i)"
  "j \<noteq> i \<Longrightarrow> fw_store (linphone_friend_do_subscribe env i w) j = fw_store w j"
  by (simp_all add: linphone_friend_do_subscribe_def sal_op_for_presence_def Let_def split: option.split)

lemma update_subscribes_store:
  "j \<noteq> i \<Longrightarrow> fw_store (linphone_friend_update_subscribes env proxy only i w) j = fw_store w j"
  by (simp add: linphone_friend_update_subscribes_def linphone_friend_unsubscribe_def fr_dereference_null_def do_subscribe_store Let_def
    split: subscribe_check.split option.split)

lemma update_subscribes_effect:
  assumes "friends_ok w" "in_list i w" "fr_uri (fw_store w i) = Some u" "linphone_core_lookup_known_proxy env u = Some account"
  shows "if proxy = None \<or> account = proxy
    then fr_subscribe_active (fw_store (linphone_friend_update_subscribes env proxy True i w) i)
      \<longleftrightarrow> truth (fr_subscribe (fw_store w i)) \<and> account_ready env account
    else fw_store (linphone_friend_update_subscribes env proxy True i w) i = fw_store w i"
proof (cases "truth (fr_subscribe (fw_store w i)) \<or> fr_subscribe_active (fw_store w i)")
  case True
  then have "can_subscribe env (fw_store w i) proxy True
      = (if proxy = None \<or> account = proxy then Checked (account_ready env account) else OtherAccount)"
    using assms(3,4) by (auto simp: can_subscribe_def account_ready_def)
  moreover have "fr_outsub (fw_store w i) = None \<Longrightarrow> \<not> fr_subscribe_active (fw_store w i)"
    using friend_okD(3) [OF assms(1,2)] by blast
  ultimately show ?thesis
    unfolding linphone_friend_update_subscribes_def Let_def linphone_friend_unsubscribe_def
    by (cases "fr_outsub (fw_store w i)"; cases "fr_subscribe_active (fw_store w i)"; cases "truth (fr_subscribe (fw_store w i))";
        cases "account_ready env account") (simp_all add: do_subscribe_store)
next
  case False
  then show ?thesis
    by (simp add: linphone_friend_update_subscribes_def can_subscribe_def Let_def split: option.split)
qed

lemma fold_each:
  assumes "\<And>v i. friends_ok v \<Longrightarrow> in_list i v \<Longrightarrow> friends_ok (g i v) \<and> fw_friends (g i v) = fw_friends v
      \<and> (\<forall>j. j \<noteq> i \<longrightarrow> fw_store (g i v) j = fw_store v j)"
    and "\<And>v i. friends_ok v \<Longrightarrow> in_list i v \<Longrightarrow> fw_store v i = fw_store w i \<Longrightarrow> Q i (fw_store (g i v) i)"
    and "friends_ok v" "distinct xs" "set xs \<subseteq> set (fw_friends v)" "\<forall>i \<in> set xs. fw_store v i = fw_store w i"
  shows "(\<forall>i \<in> set xs. Q i (fw_store (fold g xs v) i)) \<and> (\<forall>j. j \<notin> set xs \<longrightarrow> fw_store (fold g xs v) j = fw_store v j)"
  using assms(3-)
proof (induction xs arbitrary: v)
  case (Cons x xs)
  then have x: "friends_ok v" "in_list x v" "fw_store v x = fw_store w x" by (simp_all add: in_list_def)
  note s = assms(1) [OF x(1,2)] and q = assms(2) [OF x]
  have "(\<forall>i \<in> set xs. Q i (fw_store (fold g xs (g x v)) i))
      \<and> (\<forall>j. j \<notin> set xs \<longrightarrow> fw_store (fold g xs (g x v)) j = fw_store (g x v) j)"
    using Cons.prems s by (intro Cons.IH) auto
  then show ?case using s q Cons.prems(2) by auto
qed simp

text \<open>An update of the subscriptions that follows the registrations leaves every friend subscribed to
  exactly when the application asks for it and the account of the friend, if it has one, is
  registered; an update for one account leaves the friends of the others as they are.\<close>

lemma update_subscriptions_effect:
  assumes w: "friends_ok w"
    and "i \<in> set (fw_friends w)" and "fr_uri (fw_store w i) = Some u"
    and "\<forall>i \<in> set (fw_friends w). \<forall>u. fr_uri (fw_store w i) = Some u \<longrightarrow> linphone_core_lookup_known_proxy env u \<noteq> None"
  shows "let w' = linphone_core_update_friends_subscriptions env proxy True w;
      account = the (linphone_core_lookup_known_proxy env u)
    in if proxy = None \<or> account = proxy
       then fr_subscribe_active (fw_store w' i) \<longleftrightarrow> truth (fr_subscribe (fw_store w i)) \<and> account_ready env account
       else fw_store w' i = fw_store w i"
proof -
  let ?g = "linphone_friend_update_subscribes env proxy True"
  let ?Q = "\<lambda>i f. \<forall>u. fr_uri (fw_store w i) = Some u \<longrightarrow> i \<in> set (fw_friends w) \<longrightarrow> (let account = the (linphone_core_lookup_known_proxy env u)
    in if proxy = None \<or> account = proxy then fr_subscribe_active f \<longleftrightarrow> truth (fr_subscribe (fw_store w i)) \<and> account_ready env account
       else f = fw_store w i)"
  have "(\<forall>i \<in> set (fw_friends w). ?Q i (fw_store (fold ?g (fw_friends w) w) i))
    \<and> (\<forall>j. j \<notin> set (fw_friends w) \<longrightarrow> fw_store (fold ?g (fw_friends w) w) j = fw_store w j)"
  proof (rule fold_each)
    fix v i assume v: "friends_ok v" "in_list i v" "fw_store v i = fw_store w i"
    show "?Q i (fw_store (?g i v) i)"
    proof (intro allI impI)
      fix u assume u: "fr_uri (fw_store w i) = Some u" "i \<in> set (fw_friends w)"
      then obtain account where "linphone_core_lookup_known_proxy env u = Some account" using assms(4) by blast
      then show "let account = the (linphone_core_lookup_known_proxy env u)
        in if proxy = None \<or> account = proxy
           then fr_subscribe_active (fw_store (?g i v) i) \<longleftrightarrow> truth (fr_subscribe (fw_store w i)) \<and> account_ready env account
           else fw_store (?g i v) i = fw_store w i"
        using update_subscribes_effect [OF v(1,2), of u env account proxy] u(1) v(3) by (simp add: Let_def)
    qed
  qed (use w friends_okD(2) [OF w] in \<open>simp_all add: update_subscribes_ok update_subscribes_store\<close>)
  then show ?thesis
    using assms(2,3) by (simp add: linphone_core_update_friends_subscriptions_def Let_def)
qed

lemma registered_friends_subscribed:
  assumes "friends_reachable c w" and "lp_ok c" and "lp_contents c (''sip'', ''allow_out_of_subscribe_presence'') = None"
    and "i \<in> set (fw_friends w)" and "fr_uri (fw_store w i) = Some u"
    and "\<forall>i \<in> set (fw_friends w). \<forall>u. fr_uri (fw_store w i) = Some u \<longrightarrow> linphone_core_lookup_known_proxy env u \<noteq> None"
  shows "let w' = linphone_core_update_friends_subscriptions env proxy True w;
      account = the (linphone_core_lookup_known_proxy env u)
    in if proxy = None \<or> account = proxy
       then fr_subscribe_active (fw_store w' i) \<longleftrightarrow> truth (fr_subscribe (fw_store w i)) \<and> account_ready env account
       else fw_store w' i = fw_store w i"
  using assms by (intro update_subscriptions_effect reachable_friends_ok) (simp_all add: config_ok_def)

section \<open>The account of a destination\<close>

definition serves :: "'a friend_env \<Rightarrow> string \<Rightarrow> nat \<Rightarrow> bool" where
  "serves env domain c \<longleftrightarrow> linphone_proxy_config_get_domain (fe_accounts env c) = Some domain"

lemma search_accounts_serve:
  assumes "search_accounts (fe_accounts env) domain cs reg noreg = (found, reg', noreg')"
    and "\<And>c. reg = Some c \<or> noreg = Some c \<Longrightarrow> serves env domain c"
  shows "(\<forall>c. found = Some c \<or> reg' = Some c \<or> noreg' = Some c \<longrightarrow> serves env domain c)
    \<and> (\<forall>c. found = Some c \<longrightarrow> pc_state (fe_accounts env c) = RegistrationOk)
    \<and> ((\<exists>c \<in> set cs. serves env domain c \<and> pc_state (fe_accounts env c) = RegistrationOk) \<longrightarrow> found \<noteq> None)
    \<and> ((\<exists>c \<in> set cs. serves env domain c) \<or> reg \<noteq> None \<or> noreg \<noteq> None \<longrightarrow> found \<noteq> None \<or> reg' \<noteq> None \<or> noreg' \<noteq> None)"
  using assms
proof (induction cs arbitrary: reg noreg)
  case (Cons c cs)
  let ?go = "\<lambda>r n. search_accounts (fe_accounts env) domain cs r n = (found, reg', noreg')"
  consider "serves env domain c" "pc_state (fe_accounts env c) = RegistrationOk" "(found, reg', noreg') = (Some c, reg, noreg)"
    | "serves env domain c" "pc_state (fe_accounts env c) \<noteq> RegistrationOk" "?go (Some c) noreg"
    | "serves env domain c" "pc_state (fe_accounts env c) \<noteq> RegistrationOk" "?go reg (Some c)"
    | "serves env domain c" "pc_state (fe_accounts env c) \<noteq> RegistrationOk" "noreg \<noteq> None" "?go reg noreg"
    | "\<not> serves env domain c" "?go reg noreg"
    using Cons.prems(1) unfolding serves_def by (auto split: if_splits)
  then show ?case
  proof cases
    case 1
    then show ?thesis using Cons.prems(2) by auto
  next
    case 2
    have "serves env domain d" if "Some c = Some d \<or> noreg = Some d" for d using that 2(1) Cons.prems(2) by auto
    from Cons.IH [OF 2(3) this] show ?thesis using 2(1,2) by auto
  next
    case 3
    have "serves env domain d" if "reg = Some d \<or> Some c = Some d" for d using that 3(1) Cons.prems(2) by auto
    from Cons.IH [OF 3(3) this] show ?thesis using 3(1,2) by auto
  next
    case 4
    from Cons.IH [OF 4(4) Cons.prems(2)] show ?thesis using 4(1-3) by auto
  next
    case 5
    from Cons.IH [OF 5(2) Cons.prems(2)] show ?thesis using 5(1) by auto
  qed
qed auto

text \<open>An account is chosen that serves the domain if any does, a registered one if there is one and the
  default account is of another domain.\<close>

lemma known_proxy_serves_domain:
  assumes "linphone_core_lookup_known_proxy env u = Some (Some c)" "ad_domain (fe_api env) u = Some domain"
    and "c' \<in> set (fe_account_list env)" "serves env domain c'"
  shows "serves env domain c
    \<and> (pc_state (fe_accounts env c') = RegistrationOk \<longrightarrow>
       fe_default env = Some c \<or> pc_state (fe_accounts env c) = RegistrationOk)"
proof (cases "Option.bind (fe_default env) (\<lambda>c. linphone_proxy_config_get_domain (fe_accounts env c)) = Some domain")
  case True
  then show ?thesis using assms(1,2)
    by (auto simp: linphone_core_lookup_known_proxy_def serves_def split: option.splits bind_splits)
next
  case False
  with assms(1,2) have "best_account env domain = Some c"
    by (auto simp: linphone_core_lookup_known_proxy_def split: option.splits if_splits)
  moreover obtain f r n where s: "search_accounts (fe_accounts env) domain (fe_account_list env) None None = (f, r, n)"
    using prod_cases3 by blast
  moreover note search_accounts_serve [OF s]
  ultimately show ?thesis using assms(3,4)
    by (cases f; cases r; cases n) (auto simp: best_account_def)
qed

section \<open>References of the application\<close>

text \<open>A friend that is removed while the application has a reference to it keeps its subscription and
  its pointer to the core: it cannot be added again, and when the server ends the subscription the
  operation is released under it, to be released a second time with the friend.\<close>

lemma removed_friend_keeps_subscription:
  assumes "friends_ok w" "in_list i w" "fr_refcnt (fw_store w i) > 1" "fr_outsub (fw_store w i) = Some op"
  shows "let w' = linphone_core_remove_friend env i w in
      linphone_core_add_friend env i w' = w'
      \<and> fr_outsub (fw_store (linphone_notify_recv env' op True a m w') i) = Some op
      \<and> op \<in> set (fw_released (linphone_notify_recv env' op True a m w'))"
proof -
  define w' where "w' = linphone_core_remove_friend env i w"
  have w': "fw_store w' = (fw_store w)(i := (fw_store w i)\<lparr>fr_refcnt := fr_refcnt (fw_store w i) - 1\<rparr>)"
    "fw_friends w' = remove1 i (fw_friends w)"
    using assms(2,3) by (simp_all add: w'_def linphone_core_remove_friend_def linphone_friend_unref_def in_list_def
      linphone_core_write_friends_config_def Let_def)
  have "config_ok (fw_config w')"
    using assms(2,3) friends_okD(1) [OF assms(1)]
    by (simp add: w'_def linphone_core_remove_friend_def linphone_friend_unref_def in_list_def
      linphone_core_write_friends_config_def Let_def)
  moreover have "linphone_find_friend_by_out_subscribe w' (fw_friends w') op = None"
    using friends_okD(2) [OF assms(1)] friends_okD(5) [OF assms(1) _ assms(2) _ assms(4)]
    by (auto simp: linphone_find_friend_by_out_subscribe_def find_None_iff w' in_list_def)
  ultimately have "linphone_notify_recv env' op True a m w' = fr_release op w'"
    by (simp add: linphone_notify_recv_def Let_def)
  moreover have "linphone_core_add_friend env i w' = w'"
    using friend_okD(1) [OF assms(1,2)] by (simp add: linphone_core_add_friend_def w')
  ultimately show ?thesis using assms(4) by (simp add: w'_def [symmetric] w')
qed

text \<open>With notifications out of a subscription allowed, one that ends drops the operation a friend is
  subscribed with, without releasing it.\<close>

lemma foreign_notify_drops_subscription:
  assumes "linphone_find_friend_by_out_subscribe w (fw_friends w) op = None"
    and "fr_get_int env (fw_config w) ''sip'' ''allow_out_of_subscribe_presence'' 0 = 1"
    and "linphone_find_friend_by_address (fe_api env) w (fw_friends w) a = Some i"
    and "fr_outsub (fw_store w i) = Some other" "other \<noteq> op" "other \<notin> set (fw_released w)"
  shows "fr_outsub (fw_store (linphone_notify_recv env op True (Some a) m w) i) = None
    \<and> other \<notin> set (fw_released (linphone_notify_recv env op True (Some a) m w))"
  using assms by (simp add: linphone_notify_recv_def Let_def)

section \<open>Instances\<close>

definition ex_friend_env :: "string friend_env" where
  "ex_friend_env = \<lparr>fe_api = ex_addr, fe_accounts = (\<lambda>_. proxy_zero), fe_account_list = [], fe_default = None,
     fe_op_has_contact = (\<lambda>_. False), fe_presence_env = \<lparr>pr_now = 0, pr_random = (\<lambda>_. 0), pr_address = 0\<rparr>,
     fe_ready = False, fe_uninit = 0\<rparr>"

definition ex_friend_start :: "string friend_world" where
  "ex_friend_start = \<lparr>fw_config = lp_config_zero, fw_store = (\<lambda>_. linphone_friend_blank), fw_next = 0, fw_freed = [],
     fw_friends = [], fw_subscribers = [], fw_presence_model = None, fw_minutes_away = 0,
     fw_initial_subscribes_sent = False, fw_bl_refresh = False, fw_next_op = 0, fw_released = [], fw_null = False, fw_trace = []\<rparr>"

definition ex_bob_listed :: "string friend_world" where
  "ex_bob_listed = linphone_core_add_friend ex_friend_env 0
     (snd (linphone_friend_new_with_address ex_addr ''sip:bob@example.org'' ex_friend_start))"

definition ex_bob_subscribed :: "string friend_world" where
  "ex_bob_subscribed = linphone_core_send_initial_subscribes ex_friend_env ex_bob_listed"

lemma ex_bob_listed_value:
  "ex_bob_listed = ex_friend_start\<lparr>fw_next := 1, fw_friends := [0],
     fw_store := (fw_store ex_friend_start)(0 := linphone_friend_blank\<lparr>fr_uri := Some ''sip:bob@example.org'', fr_in_core := True,
       fr_commit := True, fr_refcnt := 2\<rparr>)\<rparr>"
  by (simp add: ex_bob_listed_def linphone_friend_new_with_address_def linphone_friend_new_def linphone_friend_set_address_def
    linphone_core_add_friend_def linphone_friend_ref_def fr_upd_def Let_def ex_friend_env_def ex_addr_def ex_friend_start_def
    linphone_friend_blank_def)

lemma ex_bob_reachable: "friends_reachable lp_config_zero ex_bob_listed"
proof -
  let ?w = "snd (linphone_friend_new_with_address ex_addr ''sip:bob@example.org'' ex_friend_start)"
  have "friends_reachable lp_config_zero ex_friend_start" by (rule reach_start) (simp_all add: ex_friend_start_def)
  then have "friends_reachable lp_config_zero ?w" using step_new by (rule reach_step)
  moreover have "friend_alive 0 ?w"
    by (simp add: ex_friend_start_def friend_alive_def linphone_friend_new_with_address_def linphone_friend_new_def
      linphone_friend_set_address_def fr_upd_def ex_addr_def)
  ultimately show ?thesis unfolding ex_bob_listed_def using step_add reach_step by blast
qed

lemma empty_config: "lp_ok lp_config_zero" "lp_contents lp_config_zero e = None"
  by (simp_all add: lp_ok_def lp_config_zero_def lp_contents_def lp_config_get_string_def lp_config_find_section_def split: prod.split)



end
