(* ===== verification/LocalMedia.thy ===== *)
theory LocalMedia
  imports PayloadProps
begin

text \<open>
  The local media description of a call: \<open>update_media_description_from_stun\<close> to
  \<open>linphone_call_make_local_media_description_with_params\<close> of \<open>coreapi/linphonecall.c\<close> and
  \<open>linphone_core_adapt_to_network\<close> of \<open>coreapi/misc.c\<close>.

  \<open>local_env\<close> holds what this code reads from the core and its configuration, the two random
  numbers, the address \<open>linphone_call_get_local_ip\<close> finds, and what belongs to other
  libraries: the key generator \<open>generate_b64_crypto_key\<close> (asked with a length, for a stream and a
  suite), the suite numbers of mediastreamer2 that take keys of 30 and 46 bytes, the mode numbers
  of oRTP's XR reports, the source and name of an RTP session, and
  \<open>_update_local_media_description_from_ice\<close>, which reads an ICE session.  The code under
  \<open>BUILD_UPNP\<close> is left out.
\<close>

record local_env = codec_env +
  le_audio_multicast_ttl :: int
  le_video_multicast_ttl :: int
  le_activate_edge_workarounds :: int
  le_edge_ping_time :: int
  le_edge_bw :: int
  le_edge_ptime :: int
  le_identity_username :: "string option"
  le_rand_session_id :: nat
  le_rand_session_ver :: nat
  le_local_ip :: "call \<Rightarrow> string"
  le_download_bandwidth :: int
  le_download_ptime :: int
  le_rtp_ssrc :: "nat \<Rightarrow> nat"
  le_me :: string
  le_keep_srtp_keys :: bool
  le_srtp_crypto_suites :: "nat list"
  le_suites_30 :: "nat list"
  le_suites_46 :: "nat list"
  le_b64_crypto_key :: "nat \<Rightarrow> nat \<Rightarrow> nat \<Rightarrow> string option"
  le_rtcp_xr_enabled :: bool
  le_rtcp_xr_rcvr_rtt_mode :: string
  le_rtcp_xr_rcvr_rtt_max_size :: int
  le_rtcp_xr_stat_summary_enabled :: bool
  le_rtcp_xr_voip_metrics_enabled :: bool
  le_RcvrRttNone :: nat
  le_RcvrRttAll :: nat
  le_RcvrRttSender :: nat
  le_StatSummaryAll :: nat
  le_ice :: "sal_media_description \<Rightarrow> sal_media_description"
  le_is_multicast :: "string \<Rightarrow> bool"

section \<open>Adapting to the network\<close>

definition linphone_core_adapt_to_network :: "local_env \<Rightarrow> int \<Rightarrow> call_params \<Rightarrow> call_params" where
  "linphone_core_adapt_to_network env ping_time_ms params = (let
     params = (if ping_time_ms > 0 \<and> le_activate_edge_workarounds env = 1
                  \<and> ping_time_ms > le_edge_ping_time env
               then params\<lparr>cp_low_bandwidth := True\<rparr> else params)
   in if cp_low_bandwidth params then
        params\<lparr>cp_down_bw := le_edge_bw env, cp_up_bw := le_edge_bw env,
          cp_down_ptime := le_edge_ptime env, cp_up_ptime := le_edge_ptime env, cp_has_video := False\<rparr>
      else params)"

section \<open>Writing into a description\<close>

definition upd_stream :: "nat \<Rightarrow> (sal_stream_description \<Rightarrow> sal_stream_description)
    \<Rightarrow> sal_media_description \<Rightarrow> sal_media_description" where
  "upd_stream i f md = md\<lparr>md_streams := (md_streams md)[i := f (md_streams md ! i)]\<rparr>"

text \<open>\<open>for (i = 0; i < md->nb_streams; i++) { if (!active(md->streams[i])) continue; ... }\<close>.\<close>

definition each_active :: "(nat \<Rightarrow> sal_stream_description \<Rightarrow> sal_stream_description)
    \<Rightarrow> sal_media_description \<Rightarrow> sal_media_description" where
  "each_active f md = fold (\<lambda>i md. if sal_stream_description_active (md_streams md ! i)
      then upd_stream i (f i) md else md) [0..<md_nb_streams md] md"

definition update_media_description_from_stun :: "stun_candidate \<Rightarrow> stun_candidate
    \<Rightarrow> sal_media_description \<Rightarrow> sal_media_description" where
  "update_media_description_from_stun ac vc md = fold (\<lambda>i md.
     if \<not> sal_stream_description_active (md_streams md ! i) then md
     else (let
       md = (if sd_type (md_streams md ! i) = SalAudio \<and> sc_port ac \<noteq> 0 then (let
               md = upd_stream 0 (\<lambda>s. s\<lparr>sd_rtp_addr := sc_addr ac, sd_rtp_port := sc_port ac\<rparr>) md
             in if sc_addr ac \<noteq> [] \<and> sc_addr vc \<noteq> [] \<and> sc_addr ac = sc_addr vc
                   \<or> sal_media_description_get_nb_active_streams md = 1
                then md\<lparr>md_addr := sc_addr ac\<rparr> else md) else md)
     in if sd_type (md_streams md ! i) = SalVideo \<and> sc_port vc \<noteq> 0
        then upd_stream 1 (\<lambda>s. s\<lparr>sd_rtp_addr := sc_addr vc, sd_rtp_port := sc_port vc\<rparr>) md else md))
     [0..<md_nb_streams md] md"

section \<open>Keys and feedback\<close>

text \<open>The key length is computed but thirty bytes are always asked for.\<close>

definition setup_encryption_key :: "local_env \<Rightarrow> nat \<Rightarrow> sal_srtp_crypto_algo \<Rightarrow> nat \<Rightarrow> nat \<Rightarrow> sal_srtp_crypto_algo" where
  "setup_encryption_key env i crypto suite tag = (let
     crypto = crypto\<lparr>cr_tag := tag, cr_algo := suite\<rparr>;
     keylen = (if suite \<in> set (le_suites_30 env) then 30 else if suite \<in> set (le_suites_46 env) then 46 else 0)
   in if keylen = (0 :: nat) then crypto\<lparr>cr_algo := 0\<rparr>
      else (case le_b64_crypto_key env 30 i suite of
              Some key \<Rightarrow> crypto\<lparr>cr_master_key := key\<rparr>
            | None \<Rightarrow> crypto\<lparr>cr_algo := 0\<rparr>))"

definition setup_dtls_keys :: "call \<Rightarrow> sal_media_description \<Rightarrow> sal_media_description" where
  "setup_dtls_keys c md = each_active (\<lambda>_ s.
     if sal_stream_description_has_dtls s
     then s\<lparr>sd_dtls_fingerprint := strncpy 256 (ca_dtls_certificate_fingerprint c), sd_dtls_role := SalDtlsRoleUnset\<rparr>
     else s\<lparr>sd_dtls_fingerprint := [], sd_dtls_role := SalDtlsRoleInvalid\<rparr>) md"

definition keeps_keys :: "local_env \<Rightarrow> sal_media_description option \<Rightarrow> nat \<Rightarrow> bool" where
  "keeps_keys env old_md i \<longleftrightarrow> le_keep_srtp_keys env \<and> (case old_md of None \<Rightarrow> False | Some old \<Rightarrow>
     sal_stream_description_active (md_streams old ! i) \<and> sal_stream_description_has_srtp (md_streams old ! i))"

definition setup_encryption_keys :: "local_env \<Rightarrow> call \<Rightarrow> sal_media_description \<Rightarrow> sal_media_description" where
  "setup_encryption_keys env c md = each_active (\<lambda>i s.
     if sal_stream_description_has_srtp s then
       (if keeps_keys env (ca_localdesc c) i
        then s\<lparr>sd_crypto := sd_crypto (md_streams (the (ca_localdesc c)) ! i)\<rparr>
        else s\<lparr>sd_crypto := fold (\<lambda>(j, suite) crypto. crypto[j := setup_encryption_key env i (crypto ! j) suite (j + 1)])
               (enumerate 0 (take SAL_CRYPTO_ALGO_MAX (takeWhile (\<lambda>suite. suite \<noteq> 0) (le_srtp_crypto_suites env))))
               (sd_crypto s)\<rparr>)
     else s) md"

definition setup_rtcp_fb_payload :: "call_params \<Rightarrow> payload_type \<Rightarrow> payload_type" where
  "setup_rtcp_fb_payload params pt =
     (if cp_avpf_enabled params
      then pt\<lparr>pt_flags := insert FLAG_RTCP_FEEDBACK_ENABLED (pt_flags pt),
             pt_avpf := (pt_avpf pt)\<lparr>avpf_trr_interval := unat (cp_avpf_rr_interval params)\<rparr>\<rparr>
      else pt\<lparr>pt_flags := pt_flags pt - {FLAG_RTCP_FEEDBACK_ENABLED},
             pt_avpf := \<lparr>avpf_features = 0, avpf_rpsi_compatibility = False, avpf_trr_interval = 0\<rparr>\<rparr>)"

definition setup_rtcp_fb :: "call \<Rightarrow> sal_media_description \<Rightarrow> sal_media_description" where
  "setup_rtcp_fb c md = each_active (\<lambda>_ s.
     s\<lparr>sd_payloads := map (setup_rtcp_fb_payload (ca_params c)) (sd_payloads s)\<rparr>) md"

definition rtcp_xr_of :: "local_env \<Rightarrow> rtcp_xr \<Rightarrow> rtcp_xr" where
  "rtcp_xr_of env xr = (let
     xr = xr\<lparr>xr_enabled := le_rtcp_xr_enabled env\<rparr>
   in if xr_enabled xr then (let
        mode = le_rtcp_xr_rcvr_rtt_mode env;
        xr = xr\<lparr>xr_rcvr_rtt_mode := (if strcaseeq mode ''all'' then le_RcvrRttAll env
                else if strcaseeq mode ''sender'' then le_RcvrRttSender env else le_RcvrRttNone env)\<rparr>;
        xr = (if xr_rcvr_rtt_mode xr \<noteq> le_RcvrRttNone env
              then xr\<lparr>xr_rcvr_rtt_max_size := le_rtcp_xr_rcvr_rtt_max_size env\<rparr> else xr);
        xr = xr\<lparr>xr_stat_summary_enabled := le_rtcp_xr_stat_summary_enabled env\<rparr>;
        xr = (if xr_stat_summary_enabled xr then xr\<lparr>xr_stat_summary_flags := le_StatSummaryAll env\<rparr> else xr)
      in xr\<lparr>xr_voip_metrics_enabled := le_rtcp_xr_voip_metrics_enabled env\<rparr>)
      else xr)"

definition setup_rtcp_xr :: "local_env \<Rightarrow> sal_media_description \<Rightarrow> sal_media_description" where
  "setup_rtcp_xr env md = (let
     md = md\<lparr>md_rtcp_xr := rtcp_xr_of env (md_rtcp_xr md)\<rparr>
   in each_active (\<lambda>_ s. s\<lparr>sd_rtcp_xr := md_rtcp_xr md\<rparr>) md)"

definition increment_session_ver :: "sal_media_description \<Rightarrow> sal_media_description" where
  "increment_session_ver md = md\<lparr>md_session_ver := (md_session_ver md + 1) mod 2 ^ 32\<rparr>"

text \<open>The part of \<open>md\<close>; the old description loses the lists.\<close>

definition transfer_already_assigned_payload_types ::
    "sal_media_description \<Rightarrow> sal_media_description \<Rightarrow> sal_media_description" where
  "transfer_already_assigned_payload_types old md = fold (\<lambda>i md.
     upd_stream i (\<lambda>s. s\<lparr>sd_already_assigned_payloads := sd_already_assigned_payloads (md_streams old ! i)\<rparr>) md)
     [0..<md_nb_streams old] md"

section \<open>Making the description\<close>

definition linphone_call_get_public_ip_for_stream :: "call \<Rightarrow> nat \<Rightarrow> string" where
  "linphone_call_get_public_ip_for_stream c stream_index =
     (if stream_index < 2 \<and> po_multicast_ip (ca_media_ports c ! stream_index) \<noteq> []
      then po_multicast_ip (ca_media_ports c ! stream_index) else ca_media_localip c)"

definition previously_used :: "sal_media_description option \<Rightarrow> nat \<Rightarrow> payload_type list" where
  "previously_used old_md i = (case old_md of Some old \<Rightarrow> sd_already_assigned_payloads (md_streams old ! i) | None \<Rightarrow> [])"

definition set_multicast :: "call \<Rightarrow> bool \<Rightarrow> nat \<Rightarrow> int \<Rightarrow> sal_media_description \<Rightarrow> sal_media_description" where
  "set_multicast c enabled i ttl md =
     (if ca_dir c = LinphoneCallOutgoing \<and> enabled
      then upd_stream i (\<lambda>s. s\<lparr>sd_ttl := ttl, sd_multicast_role := SalMulticastSender\<rparr>) md else md)"

text \<open>Addresses, ports, profile, direction and kind of an offered stream; source and name when
  its RTP session exists.\<close>

definition fill_stream :: "call \<Rightarrow> nat \<Rightarrow> string \<Rightarrow> sal_media_proto \<Rightarrow> sal_stream_dir \<Rightarrow> sal_stream_type
    \<Rightarrow> sal_stream_description \<Rightarrow> sal_stream_description" where
  "fill_stream c i name proto dir ty s =
     s\<lparr>sd_rtp_addr := strncpy 64 (linphone_call_get_public_ip_for_stream c i),
       sd_rtcp_addr := strncpy 64 (linphone_call_get_public_ip_for_stream c i), sd_name := name,
       sd_rtp_port := po_rtp_port (ca_media_ports c ! i), sd_rtcp_port := po_rtcp_port (ca_media_ports c ! i),
       sd_proto := proto, sd_dir := dir, sd_type := ty\<rparr>"

definition fill_source :: "local_env \<Rightarrow> nat \<Rightarrow> stream_state option \<Rightarrow> sal_stream_description \<Rightarrow> sal_stream_description" where
  "fill_source env i st s =
     (if st \<noteq> None then s\<lparr>sd_rtp_ssrc := le_rtp_ssrc env i, sd_rtcp_cname := strncpy 255 (le_me env)\<rparr> else s)"

definition fill_audio :: "local_env \<Rightarrow> call \<Rightarrow> call_params \<Rightarrow> sal_stream_description \<Rightarrow> sal_stream_description" where
  "fill_audio env c params s = (let
     s = fill_stream c 0 ''Audio'' (get_proto_from_call_params params) (get_audio_dir_from_call_params params) SalAudio s;
     s = s\<lparr>sd_ptime := (if cp_down_ptime params \<noteq> 0 then cp_down_ptime params else le_download_ptime env)\<rparr>;
     l = make_codec_list (codec_env.truncate env)
           \<lparr>cc_bandwidth_limit = cp_audio_bw params, cc_max_codecs = -1,
            cc_previously_used = previously_used (ca_localdesc c) 0\<rparr> SalAudio (ce_audio_codecs env)
   in fill_source env 0 (ca_audiostream c) (s\<lparr>sd_max_rate := get_max_codec_sample_rate l, sd_payloads := l\<rparr>))"

definition fill_video :: "local_env \<Rightarrow> call \<Rightarrow> call_params \<Rightarrow> sal_media_proto \<Rightarrow> sal_stream_description \<Rightarrow> sal_stream_description" where
  "fill_video env c params proto s = (let
     s = fill_stream c 1 ''Video'' proto (get_video_dir_from_call_params params) SalVideo s;
     l = make_codec_list (codec_env.truncate env)
           \<lparr>cc_bandwidth_limit = 0, cc_max_codecs = -1,
            cc_previously_used = previously_used (ca_localdesc c) 1\<rparr> SalVideo (ce_video_codecs env)
   in fill_source env 1 (ca_videostream c) (s\<lparr>sd_payloads := l\<rparr>))"

definition deactivate_stream :: "local_env \<Rightarrow> sal_stream_description \<Rightarrow> sal_stream_description \<Rightarrow> sal_stream_description" where
  "deactivate_stream env biggest s = s\<lparr>sd_rtp_port := 0, sd_rtcp_port := 0, sd_proto := sd_proto biggest,
     sd_type := sd_type biggest, sd_dir := SalStreamInactive,
     sd_payloads := make_codec_list (codec_env.truncate env)
       \<lparr>cc_bandwidth_limit = 0, cc_max_codecs = 1, cc_previously_used = []\<rparr> SalVideo (ce_video_codecs env)\<rparr>"

definition offers_video :: "call \<Rightarrow> call_params \<Rightarrow> bool" where
  "offers_video c params \<longleftrightarrow> cp_has_video params
     \<and> (\<not> cp_internal_call_update params \<or> \<not> cp_video_declined (ca_current_params c))"

text \<open>Session attributes and streams, before keys and feedback.\<close>

definition local_media_streams :: "local_env \<Rightarrow> call \<Rightarrow> call_params \<Rightarrow> sal_media_description" where
  "local_media_streams env c params = (let
     old_md = ca_localdesc c;
     md = sal_media_description_new;
     md = set_multicast c (cp_audio_multicast_enabled params) 0 (le_audio_multicast_ttl env) md;
     md = set_multicast c (cp_video_multicast_enabled params) 1 (le_video_multicast_ttl env) md;
     md = md\<lparr>md_session_id := (case old_md of Some old \<Rightarrow> md_session_id old
                               | None \<Rightarrow> le_rand_session_id env mod 0x1000),
             md_session_ver := (case old_md of Some old \<Rightarrow> (md_session_ver old + 1) mod 2 ^ 32
                                | None \<Rightarrow> le_rand_session_ver env mod 0x1000),
             md_nb_streams := (case ca_biggestdesc c of Some b \<Rightarrow> md_nb_streams b | None \<Rightarrow> 1),
             md_addr := strncpy 64 (ca_media_localip c),
             md_username := (case le_identity_username env of Some u \<Rightarrow> strncpy 64 u | None \<Rightarrow> md_username md),
             md_name := (case cp_session_name params of Some subject \<Rightarrow> strncpy 64 subject | None \<Rightarrow> md_name md),
             md_bandwidth := (if cp_down_bw params \<noteq> 0 then cp_down_bw params else le_download_bandwidth env)\<rparr>;
     md = upd_stream 0 (fill_audio env c params) md;
     md = (if offers_video c params
           then upd_stream 1 (fill_video env c params (sd_proto (md_streams md ! 0))) md else md);
     nb_active_streams = (if offers_video c params then 2 else 1);
     md = (if md_nb_streams md < nb_active_streams then md\<lparr>md_nb_streams := nb_active_streams\<rparr> else md)
   in fold (\<lambda>i md. upd_stream i (deactivate_stream env (md_streams (the (ca_biggestdesc c)) ! i)) md)
        [nb_active_streams..<md_nb_streams md] md)"

text \<open>Keys, feedback, STUN and ICE, on a call whose local address is known.\<close>

definition new_local_media :: "local_env \<Rightarrow> call \<Rightarrow> call_params \<Rightarrow> sal_media_description" where
  "new_local_media env c params = (let
     md = local_media_streams env c params;
     md = setup_encryption_keys env c md;
     md = setup_dtls_keys c md;
     md = setup_rtcp_fb c md;
     md = setup_rtcp_xr env md;
     md = update_media_description_from_stun (ca_ac c) (ca_vc c) md
   in if ca_ice_session c then le_ice env md else md)"

text \<open>The call and the parameters, which \<open>linphone_core_adapt_to_network\<close> may have changed.\<close>

definition linphone_call_make_local_media_description_with_params ::
    "local_env \<Rightarrow> call \<Rightarrow> call_params \<Rightarrow> call \<times> call_params" where
  "linphone_call_make_local_media_description_with_params env c params = (let
     params = linphone_core_adapt_to_network env (ca_ping_time c) params;
     c = c\<lparr>ca_media_localip := le_local_ip env c\<rparr>;
     md = new_local_media env c params
   in case ca_localdesc c of
        None \<Rightarrow> (c\<lparr>ca_localdesc := Some md\<rparr>, params)
      | Some old \<Rightarrow> (let md = transfer_already_assigned_payload_types old md in
          (c\<lparr>ca_localdesc := Some md,
             ca_localdesc_changed := sal_media_description_equals (le_is_multicast env) md old\<rparr>, params)))"

end
