(* ===== verification/CallCore.thy ===== *)
theory CallCore
  imports LocalMedia MediaPorts
begin

text \<open>
  The state of the core that call control works on, and the routines every operation on a call
  goes through: the descriptions of the call's operation (\<open>coreapi/bellesip_sal/sal_op_call.c\<close>),
  the list of calls and the ring (\<open>coreapi/linphonecore.c\<close>), the state machine with its end and
  release (\<open>linphone_call_set_state\<close>, \<open>coreapi/linphonecall.c\<close>) and the update of the
  media streams (\<open>linphone_core_update_streams\<close>, \<open>coreapi/callbacks.c\<close>).

  \<open>core\<close> has the calls in a store indexed by number (\<open>lc_next\<close> is the first free one);
  \<open>lc_tasks\<close> holds the calls for which \<open>resume_call_after_failed_transfer\<close> is queued,
  the other fields are those of \<open>LinphoneCore\<close>, and \<open>lc_trace\<close> records, in order, what
  the core asks of the application, of SIP and of the media layer.  \<open>call_env\<close> holds the
  configuration and the answers of code outside this model: the media layer (which streams
  exist after they are initialised or started), ICE, the SIP stack's results, URL parsing.  The
  answers are those of one event; a step of the system may use any \<open>call_env\<close>.

  Left out: local conferences (no conference exists, so \<open>linphone_core_is_in_conference\<close> is
  \<open>FALSE\<close> and \<open>linphone_core_conference_check_uninit\<close> does nothing), \<open>BUILD_UPNP\<close>,
  camera settings, statistics, log messages, display texts and reference counting.  The
  application is told of state changes but does not call back into the core while it is told.
\<close>

section \<open>Actions and state\<close>

datatype action =
    NotifyCallState nat call_state | NotifyTransferState nat call_state | NotifyReferReceived string
  | NotifyCallLog nat
  | SalCall nat | SalCallAccept nat | SalCallDecline nat sal_reason | SalCallTerminate nat
  | SalCallUpdate nat string bool | SalNotifyRinging nat bool | SalRelease nat
  | SalRefer nat string | SalReferWithReplaces nat nat | SalNotifyReferState nat nat
  | SalDeclineUnknown sal_reason
  | StartStreams nat bool bool | StopStreams nat | InitStreams nat
  | UpdateDestinations nat | UpdateCrypto nat | UnmuteStreams nat
  | LocalRing | RemoteRing | StopRing | StopDtmf | CallWaitingTone | OnHoldTone | ErrorTone sal_reason
  | CallLostTone
  | SoundcardUsage bool | ForkEarlyMedia nat

record core =
  lc_store :: "nat \<Rightarrow> call"
  lc_next :: nat
  lc_calls :: "nat list"
  lc_current_call :: "nat option"
  lc_ringstream :: bool
  lc_dtmf_playing :: bool
  lc_missed_calls :: nat
  lc_call_logs :: "nat list"
  lc_tasks :: "nat list"
  lc_trace :: "action list"

record call_env =
  ve_local :: local_env
  ve_api :: ortp_api
  ve_is_ipv6 :: "string \<Rightarrow> bool"
  ve_max_calls :: nat
  ve_max_call_logs :: nat
  ve_use_files :: bool
  ve_rtp_input :: bool
  ve_slow_capture_card :: bool
  ve_ring_sndcard :: bool
  ve_local_ring :: bool
  ve_play_sndcard :: bool
  ve_remote_ring :: bool
  ve_ring_during_early_media :: bool
  ve_remote_ringback_tone :: bool
  ve_upload_bandwidth :: int
  ve_media_encryption_mandatory :: bool
  ve_media_encryption :: media_encryption
  ve_sdp_200_ack :: bool
  ve_ping_with_options :: bool
  ve_use_ice :: bool
  ve_keep_sdp_version :: bool
  ve_defer_update_default :: bool
  ve_inactive_video_on_pause :: bool
  ve_incoming_calls_early_media :: bool
  ve_auto_answer_replacing_calls :: bool
  ve_video_automatically_accept :: bool
  ve_video_enabled :: bool
  ve_audio_multicast_addr :: string
  ve_video_multicast_addr :: string
  ve_default_params :: call_params
  ve_random_port :: "nat \<Rightarrow> 32 word"
  ve_audio_port_range :: "int \<times> int"
  ve_video_port_range :: "int \<times> int"
  ve_init_streams :: "call \<Rightarrow> stream_state option \<times> stream_state option"
  ve_start_streams :: "call \<Rightarrow> stream_state option \<times> stream_state option"
  ve_started_video :: "call \<Rightarrow> bool"
  ve_prepare_ice :: "call \<Rightarrow> bool \<Rightarrow> bool \<times> int"
  ve_ice_kept :: "nat \<Rightarrow> bool"
  ve_losing_pairs :: "nat \<Rightarrow> bool"
  ve_candidates_gathered :: "nat \<Rightarrow> bool"
  ve_invite_result :: "nat \<Rightarrow> int"
  ve_update_result :: "nat \<Rightarrow> int"
  ve_sal_op_idle :: "nat \<Rightarrow> bool"
  ve_sal_error_reason :: "nat \<Rightarrow> sal_reason"
  ve_replaces :: "nat \<Rightarrow> nat option option"
  ve_remote_contact :: "nat \<Rightarrow> string option"
  ve_interpret_url :: "string \<Rightarrow> string option"
  ve_has_dest_proxy :: "string \<Rightarrow> bool"
  ve_avpf_enabled :: "string \<Rightarrow> bool"
  ve_avpf_rr_interval :: "string \<Rightarrow> 16 word"
  ve_cnx_ip_to_0000_if_sendonly :: bool
  ve_one_matching_codec :: bool
  ve_dtls_supported :: bool
  ve_srtp_supported :: bool
  ve_stun :: "(int \<times> stun_candidate \<times> stun_candidate) option"

definition emit :: "action \<Rightarrow> core \<Rightarrow> core" where
  "emit a w = w\<lparr>lc_trace := lc_trace w @ [a]\<rparr>"

definition upd :: "nat \<Rightarrow> (call \<Rightarrow> call) \<Rightarrow> core \<Rightarrow> core" where
  "upd i f w = w\<lparr>lc_store := (lc_store w)(i := f (lc_store w i))\<rparr>"

section \<open>The operation of a call\<close>

definition op_process :: "call_env \<Rightarrow> call_op \<Rightarrow> call_op" where
  "op_process env h = h\<lparr>co_sal := sdp_process (ve_api env) (ve_is_ipv6 env) (co_sal h)\<rparr>"

definition sal_call_set_local_media_description :: "sal_media_description option \<Rightarrow> bool \<Rightarrow> call_op \<Rightarrow> call_op" where
  "sal_call_set_local_media_description desc shared h = (let
     s = co_sal h;
     s = (case desc of Some d \<Rightarrow> s\<lparr>op_local_media := d\<rparr> | None \<Rightarrow> s);
     s = (if op_remote_media s \<noteq> None then s\<lparr>op_sdp_answer := None\<rparr> else s)
   in h\<lparr>co_sal := s, co_has_local := (desc \<noteq> None), co_shared := shared \<and> desc \<noteq> None\<rparr>)"

definition sal_call_get_final_media_description :: "call_env \<Rightarrow> call_op \<Rightarrow> call_op" where
  "sal_call_get_final_media_description env h =
     (if co_has_local h \<and> op_remote_media (co_sal h) \<noteq> None \<and> op_result (co_sal h) = None
      then op_process env h else h)"

definition handle_offer_answer_response :: "call_env \<Rightarrow> call_op \<Rightarrow> call_op" where
  "handle_offer_answer_response env h =
     (if co_has_local h then
        if op_sdp_offering (co_sal h) then h
        else (let h = (if op_sdp_answer (co_sal h) = None then op_process env h else h)
              in h\<lparr>co_sal := (co_sal h)\<lparr>op_sdp_answer := None\<rparr>\<rparr>)
      else h)"

definition handle_sdp_from_response :: "call_env \<Rightarrow> sal_media_description option \<Rightarrow> call_op \<Rightarrow> call_op" where
  "handle_sdp_from_response env sdp h = (let h = h\<lparr>co_sal := (co_sal h)\<lparr>op_remote_media := sdp\<rparr>\<rparr>
     in if co_has_local h then op_process env h else h)"

definition sal_op_reset_descriptions :: "call_op \<Rightarrow> call_op" where
  "sal_op_reset_descriptions h = h\<lparr>co_sal := (co_sal h)\<lparr>op_remote_media := None, op_result := None\<rparr>\<rparr>"

definition is_media_description_acceptable :: "sal_media_description \<Rightarrow> bool" where
  "is_media_description_acceptable md = (if md_nb_streams md = 0 then False else True)"

text \<open>The operation, and whether the request goes on; \<open>None\<close> is a request without SDP.\<close>

definition process_sdp_for_invite :: "sal_media_description option \<Rightarrow> call_op \<Rightarrow> call_op \<times> bool" where
  "process_sdp_for_invite sdp h = (case sdp of
     Some md \<Rightarrow> (h\<lparr>co_sal := (co_sal h)\<lparr>op_sdp_offering := False, op_remote_media := Some md\<rparr>\<rparr>,
                 is_media_description_acceptable md)
   | None \<Rightarrow> (h\<lparr>co_sal := (co_sal h)\<lparr>op_sdp_offering := True\<rparr>\<rparr>, True))"

definition sal_op_fill_invite :: "call_op \<Rightarrow> call_op" where
  "sal_op_fill_invite h = h\<lparr>co_sal := (co_sal h)\<lparr>op_sdp_offering := co_has_local h\<rparr>\<rparr>"

text \<open>The fresh operation of \<open>sal_op_new\<close>, configured.\<close>

definition sal_op_new :: "call_env \<Rightarrow> call_op" where
  "sal_op_new env = \<lparr>co_sal = \<lparr>op_local_media = sal_media_description_new, op_remote_media = None, op_result = None,
     op_sdp_answer = None, op_sdp_offering = False,
     op_cnx_ip_to_0000_if_sendonly_enabled = ve_cnx_ip_to_0000_if_sendonly env,
     op_one_matching_codec = ve_one_matching_codec env\<rparr>, co_has_local = False, co_shared = False\<rparr>"

section \<open>Descriptions of a call\<close>

text \<open>An operation changes under the call; what \<open>sdp_process\<close> writes into the local description is
  seen in \<open>localdesc\<close> when the two are one object, and a write into \<open>localdesc\<close> is seen by
  the operation.\<close>

definition with_op :: "(call_op \<Rightarrow> call_op) \<Rightarrow> call \<Rightarrow> call" where
  "with_op f c = (case ca_op c of None \<Rightarrow> c | Some h \<Rightarrow> (let h' = f h in
     c\<lparr>ca_op := Some h', ca_localdesc := (if co_shared h' then Some (op_local_media (co_sal h')) else ca_localdesc c)\<rparr>))"

definition write_localdesc :: "(sal_media_description \<Rightarrow> sal_media_description) \<Rightarrow> call \<Rightarrow> call" where
  "write_localdesc f c = (case ca_localdesc c of None \<Rightarrow> c | Some md \<Rightarrow>
     c\<lparr>ca_localdesc := Some (f md),
       ca_op := map_option (\<lambda>h. if co_shared h then h\<lparr>co_sal := (co_sal h)\<lparr>op_local_media := f md\<rparr>\<rparr> else h) (ca_op c)\<rparr>)"

definition set_local :: "call \<Rightarrow> call" where
  "set_local c = with_op (sal_call_set_local_media_description (ca_localdesc c) True) c"

definition clear_local :: "call \<Rightarrow> call" where
  "clear_local c = with_op (sal_call_set_local_media_description None False) c"

text \<open>\<open>linphone_call_make_local_media_description_with_params\<close> replaces the object.\<close>

definition unshare :: "call \<Rightarrow> call" where
  "unshare c = c\<lparr>ca_op := map_option (\<lambda>h. h\<lparr>co_shared := False\<rparr>) (ca_op c)\<rparr>"

definition make_local_with :: "call_env \<Rightarrow> call_params \<Rightarrow> call \<Rightarrow> call" where
  "make_local_with env params c =
     unshare (fst (linphone_call_make_local_media_description_with_params (ve_local env) c params))"

definition linphone_call_make_local_media_description :: "call_env \<Rightarrow> call \<Rightarrow> call" where
  "linphone_call_make_local_media_description env c =
     (case linphone_call_make_local_media_description_with_params (ve_local env) c (ca_params c) of
        (c, params) \<Rightarrow> unshare (c\<lparr>ca_params := params\<rparr>))"

definition linphone_call_increment_local_media_description :: "call \<Rightarrow> call" where
  "linphone_call_increment_local_media_description c = write_localdesc increment_session_ver c"

definition remote_media :: "call \<Rightarrow> sal_media_description option" where
  "remote_media c = (case ca_op c of None \<Rightarrow> None | Some h \<Rightarrow> op_remote_media (co_sal h))"

definition op_final :: "call \<Rightarrow> sal_media_description option" where
  "op_final c = (case ca_op c of None \<Rightarrow> None | Some h \<Rightarrow> op_result (co_sal h))"

definition is_offerer :: "call \<Rightarrow> bool" where
  "is_offerer c = (case ca_op c of None \<Rightarrow> False | Some h \<Rightarrow> op_sdp_offering (co_sal h))"

text \<open>Ask for the final description: the call, whose operation may compute it now.\<close>

definition get_final :: "call_env \<Rightarrow> call \<Rightarrow> call" where
  "get_final env c = with_op (sal_call_get_final_media_description env) c"

definition linphone_call_update_remote_session_id_and_ver :: "call \<Rightarrow> call" where
  "linphone_call_update_remote_session_id_and_ver c = (case remote_media c of None \<Rightarrow> c
     | Some r \<Rightarrow> c\<lparr>ca_remote_session_id := md_session_id r, ca_remote_session_ver := md_session_ver r\<rparr>)"

definition linphone_core_incompatible_security :: "call_env \<Rightarrow> sal_media_description \<Rightarrow> bool" where
  "linphone_core_incompatible_security env md \<longleftrightarrow> ve_media_encryption_mandatory env
     \<and> ve_media_encryption env = LinphoneMediaEncryptionSRTP \<and> \<not> sal_media_description_has_srtp md"

section \<open>The list of calls and the ring\<close>

definition linphone_core_can_we_add_call :: "call_env \<Rightarrow> core \<Rightarrow> bool" where
  "linphone_core_can_we_add_call env w \<longleftrightarrow> length (lc_calls w) < ve_max_calls env"

definition notify_soundcard_usage :: "call_env \<Rightarrow> bool \<Rightarrow> core \<Rightarrow> core" where
  "notify_soundcard_usage env used w = (if ve_slow_capture_card env then emit (SoundcardUsage used) w else w)"

fun all_paused :: "(nat \<Rightarrow> call) \<Rightarrow> nat list \<Rightarrow> bool" where
  "all_paused st [] = True"
| "all_paused st (i # the_calls) =
     (if ca_state (st i) \<noteq> LinphoneCallPausing \<and> ca_state (st i) \<noteq> LinphoneCallPaused then False
      else all_paused st the_calls)"

definition linphone_core_soundcard_hint_check :: "call_env \<Rightarrow> core \<Rightarrow> core" where
  "linphone_core_soundcard_hint_check env w =
     (if (lc_calls w = [] \<or> all_paused (lc_store w) (lc_calls w)) \<and> \<not> ve_use_files env \<and> \<not> ve_rtp_input env
      then notify_soundcard_usage env False w else w)"

text \<open>The new core, and whether the call was added.\<close>

definition linphone_core_add_call :: "call_env \<Rightarrow> nat \<Rightarrow> core \<Rightarrow> core \<times> bool" where
  "linphone_core_add_call env i w =
     (if linphone_core_can_we_add_call env w then (let
        w = (if lc_calls w = [] then notify_soundcard_usage env True w else w)
      in (w\<lparr>lc_calls := lc_calls w @ [i]\<rparr>, True))
      else (w, False))"

definition linphone_core_del_call :: "nat \<Rightarrow> core \<Rightarrow> core" where
  "linphone_core_del_call i w = (if i \<in> set (lc_calls w) then w\<lparr>lc_calls := remove1 i (lc_calls w)\<rparr> else w)"

definition linphone_core_stop_dtmf :: "core \<Rightarrow> core" where
  "linphone_core_stop_dtmf w = emit StopDtmf w"

definition stop_beep :: "nat \<Rightarrow> core \<Rightarrow> core" where
  "stop_beep i w = (if ca_ringing_beep (lc_store w i)
     then upd i (\<lambda>c. c\<lparr>ca_ringing_beep := False\<rparr>) (linphone_core_stop_dtmf w) else w)"

definition linphone_core_stop_ringing :: "core \<Rightarrow> core" where
  "linphone_core_stop_ringing w = (let
     w = (if lc_ringstream w then emit StopRing w\<lparr>lc_ringstream := False, lc_dtmf_playing := False\<rparr> else w)
   in case lc_current_call w of None \<Rightarrow> w | Some i \<Rightarrow> stop_beep i w)"

definition linphone_core_stop_dtmf_stream :: "core \<Rightarrow> core" where
  "linphone_core_stop_dtmf_stream w = (if lc_dtmf_playing w then linphone_core_stop_ringing w else w)"

fun sound_locked :: "(nat \<Rightarrow> call) \<Rightarrow> nat list \<Rightarrow> bool" where
  "sound_locked st [] = False"
| "sound_locked st (i # calls) =
     (if ca_state (st i) \<in> {LinphoneCallOutgoingInit, LinphoneCallOutgoingProgress, LinphoneCallOutgoingRinging,
           LinphoneCallOutgoingEarlyMedia, LinphoneCallConnected, LinphoneCallRefered,
           LinphoneCallIncomingEarlyMedia, LinphoneCallUpdating}
      then True else sound_locked st calls)"

definition linphone_core_sound_resources_locked :: "core \<Rightarrow> bool" where
  "linphone_core_sound_resources_locked w = sound_locked (lc_store w) (lc_calls w)"

section \<open>Media streams\<close>

definition set_streams :: "stream_state option \<times> stream_state option \<Rightarrow> call \<Rightarrow> call" where
  "set_streams av c = c\<lparr>ca_audiostream := fst av, ca_videostream := snd av\<rparr>"

definition linphone_call_init_media_streams :: "call_env \<Rightarrow> nat \<Rightarrow> core \<Rightarrow> core" where
  "linphone_call_init_media_streams env i w =
     emit (InitStreams i) (upd i (\<lambda>c. set_streams (ve_init_streams env c) c) w)"

definition linphone_call_stop_media_streams :: "nat \<Rightarrow> core \<Rightarrow> core" where
  "linphone_call_stop_media_streams i w = (let c = lc_store w i in
     if ca_audiostream c \<noteq> None \<or> ca_videostream c \<noteq> None
     then emit (StopStreams i) (upd i (set_streams (None, None)) w) else w)"

definition linphone_call_start_media_streams :: "call_env \<Rightarrow> nat \<Rightarrow> bool \<Rightarrow> bool \<Rightarrow> core \<Rightarrow> core" where
  "linphone_call_start_media_streams env i all_inputs_muted send_ringbacktone w = (let c = lc_store w i in
     if ca_audiostream c = None \<and> ca_videostream c = None then w
     else emit (StartStreams i all_inputs_muted send_ringbacktone) (upd i (\<lambda>c.
       (set_streams (ve_start_streams env c) c)\<lparr>
         ca_current_params := (ca_current_params c)\<lparr>cp_has_video := ve_started_video env c\<rparr>,
         ca_all_muted := all_inputs_muted, ca_playing_ringbacktone := send_ringbacktone,
         ca_up_bw := ve_upload_bandwidth env\<rparr>) w))"

definition SAL_MEDIA_DESCRIPTION_FORCE_STREAM_RECONSTRUCTION :: changes where
  "SAL_MEDIA_DESCRIPTION_FORCE_STREAM_RECONSTRUCTION = 64"

definition media_parameters_changed :: "call_env \<Rightarrow> call \<Rightarrow> sal_media_description \<Rightarrow> sal_media_description \<Rightarrow> changes" where
  "media_parameters_changed env c oldmd newmd =
     (if cp_in_conference (ca_params c) \<noteq> cp_in_conference (ca_current_params c)
      then SAL_MEDIA_DESCRIPTION_FORCE_STREAM_RECONSTRUCTION
      else if ca_up_bw c \<noteq> ve_upload_bandwidth env then SAL_MEDIA_DESCRIPTION_FORCE_STREAM_RECONSTRUCTION
      else ca_localdesc_changed c OR sal_media_description_equals (le_is_multicast (ve_local env)) oldmd newmd)"

definition needs_restart :: "changes \<Rightarrow> bool" where
  "needs_restart md_changed \<longleftrightarrow> md_changed AND (SAL_MEDIA_DESCRIPTION_CODEC_CHANGED
     OR SAL_MEDIA_DESCRIPTION_STREAMS_CHANGED OR SAL_MEDIA_DESCRIPTION_NETWORK_XXXCAST_CHANGED
     OR SAL_MEDIA_DESCRIPTION_FORCE_STREAM_RECONSTRUCTION) \<noteq> 0"

fun freeze_payloads :: "payload_type list \<Rightarrow> payload_type list \<Rightarrow> payload_type list" where
  "freeze_payloads assigned [] = assigned"
| "freeze_payloads assigned (pt # l) =
     freeze_payloads (if is_payload_type_number_available assigned (pt_number pt) None then assigned @ [pt] else assigned) l"

definition linphone_call_update_frozen_payloads :: "sal_media_description \<Rightarrow> call \<Rightarrow> call" where
  "linphone_call_update_frozen_payloads result_desc c = write_localdesc (\<lambda>local.
     fold (\<lambda>i local. upd_stream i (\<lambda>s. s\<lparr>sd_already_assigned_payloads :=
         freeze_payloads (sd_already_assigned_payloads s) (sd_payloads (md_streams result_desc ! i))\<rparr>) local)
       [0..<md_nb_streams result_desc] local) c"

text \<open>Whether running streams survive the new description: \<open>Some\<close> of what is to be updated in
  them, \<open>None\<close> when they are restarted.\<close>

definition streams_survive :: "call_env \<Rightarrow> call \<Rightarrow> sal_media_description option \<Rightarrow> sal_media_description \<Rightarrow> changes option" where
  "streams_survive env c oldmd new_md = (case oldmd of None \<Rightarrow> None | Some old \<Rightarrow>
     (let md_changed = media_parameters_changed env c old new_md in
      if needs_restart md_changed \<or> ca_playing_ringbacktone c then None else Some md_changed))"

definition update_running_streams :: "nat \<Rightarrow> changes \<Rightarrow> core \<Rightarrow> core" where
  "update_running_streams i md_changed w =
     (if md_changed = SAL_MEDIA_DESCRIPTION_UNCHANGED
      then (if ca_all_muted (lc_store w i) then emit (UnmuteStreams i) w else w)
      else (let
        w = (if md_changed AND SAL_MEDIA_DESCRIPTION_NETWORK_CHANGED \<noteq> 0 then emit (UpdateDestinations i) w else w)
      in if md_changed AND SAL_MEDIA_DESCRIPTION_CRYPTO_KEYS_CHANGED \<noteq> 0 then emit (UpdateCrypto i) w else w))"

text \<open>The end of the function: streams are created when there are none and started.\<close>

definition start_updated_streams :: "call_env \<Rightarrow> nat \<Rightarrow> sal_media_description \<Rightarrow> core \<Rightarrow> core" where
  "start_updated_streams env i new_md w = (let
     w = (if ca_audiostream (lc_store w i) = None then linphone_call_init_media_streams env i w else w);
     c = lc_store w i;
     send_ringbacktone = (ca_state c = LinphoneCallIncomingEarlyMedia \<and> ve_remote_ringback_tone env);
     all_muted = ((ca_state c = LinphoneCallIncomingEarlyMedia \<or> ca_state c = LinphoneCallOutgoingEarlyMedia)
        \<and> \<not> cp_real_early_media (ca_params c));
     w = linphone_call_start_media_streams env i all_muted send_ringbacktone w;
     w = (if ca_state c = LinphoneCallPausing \<and> ca_paused_by_app c \<and> length (lc_calls w) = 1
          then emit OnHoldTone w else w)
   in upd i (linphone_call_update_frozen_payloads new_md) w)"

definition set_biggestdesc :: "sal_media_description \<Rightarrow> call \<Rightarrow> call" where
  "set_biggestdesc new_md c =
     (if (case ca_biggestdesc c of None \<Rightarrow> True | Some b \<Rightarrow> md_nb_streams new_md > md_nb_streams b)
      then c\<lparr>ca_biggestdesc := (if is_offerer c then ca_localdesc c else remote_media c)\<rparr> else c)"

definition linphone_core_update_streams :: "call_env \<Rightarrow> nat \<Rightarrow> sal_media_description option \<Rightarrow> core \<Rightarrow> core" where
  "linphone_core_update_streams env i md w = (let
     c = lc_store w i;
     oldmd = ca_resultdesc c;
     w = (if ca_state c = LinphoneCallIncomingEarlyMedia \<and> ve_ring_during_early_media env then w
          else linphone_core_stop_ringing w)
   in case md of None \<Rightarrow> w | Some new_md \<Rightarrow> (let
     w = upd i (set_biggestdesc new_md) w;
     w = upd i (\<lambda>c. c\<lparr>ca_expect_media_in_ack := False, ca_resultdesc := Some new_md\<rparr>) w;
     c = lc_store w i
   in if ca_audiostream c = Some MSStreamStarted \<or> ca_videostream c = Some MSStreamStarted then
        (case streams_survive env c oldmd new_md of
           Some md_changed \<Rightarrow> update_running_streams i md_changed w
         | None \<Rightarrow> start_updated_streams env i new_md
             (linphone_call_init_media_streams env i (linphone_call_stop_media_streams i w)))
      else start_updated_streams env i new_md w))"

end
