(* ===== verification/CallState.thy ===== *)
theory CallState
  imports CallCore
begin

text \<open>
  The state machine of a call: \<open>linphone_call_set_state\<close> with the end
  (\<open>linphone_call_set_terminated\<close>, \<open>linphone_call_log_completed\<close>) and the release
  (\<open>linphone_call_set_released\<close>) it brings, of \<open>coreapi/linphonecall.c\<close>; and the parts of
  \<open>coreapi/linphonecore.c\<close> that end a call.  What one transition does to the rest of the core
  is proved here once, for the theories on operations and events.
\<close>

section \<open>End and release\<close>

definition linphone_call_free_media_resources :: "nat \<Rightarrow> core \<Rightarrow> core" where
  "linphone_call_free_media_resources i w =
     upd i (\<lambda>c. c\<lparr>ca_ice_session := False\<rparr>) (linphone_call_stop_media_streams i w)"

definition linphone_call_log_completed :: "call_env \<Rightarrow> nat \<Rightarrow> core \<Rightarrow> core" where
  "linphone_call_log_completed env i w = (let
     w = (if ca_log_status (lc_store w i) = LinphoneCallMissed
          then w\<lparr>lc_missed_calls := lc_missed_calls w + 1\<rparr> else w);
     logs = i # lc_call_logs w;
     logs = (if length logs > ve_max_call_logs env then butlast logs else logs)
   in emit (NotifyCallLog i) (w\<lparr>lc_call_logs := logs\<rparr>))"

definition linphone_call_set_terminated :: "call_env \<Rightarrow> nat \<Rightarrow> core \<Rightarrow> core" where
  "linphone_call_set_terminated env i w = (let
     w = linphone_call_free_media_resources i w;
     w = linphone_call_log_completed env i w;
     w = (if lc_current_call w = Some i then w\<lparr>lc_current_call := None\<rparr> else w);
     w = linphone_core_del_call i w
   in stop_beep i w)"

definition linphone_call_set_released :: "call_env \<Rightarrow> nat \<Rightarrow> core \<Rightarrow> core" where
  "linphone_call_set_released env i w = (let
     w = (if ca_op (lc_store w i) \<noteq> None then (let
            w = (if ca_non_op_error (lc_store w i) = SalReasonNone
                 then upd i (\<lambda>c. c\<lparr>ca_non_op_error := ve_sal_error_reason env i\<rparr>) w else w)
          in emit (SalRelease i) (upd i (\<lambda>c. c\<lparr>ca_op := None\<rparr>) w)) else w)
   in upd i (\<lambda>c. c\<lparr>ca_referer := None, ca_transfer_target := None\<rparr>) w)"

section \<open>Transitions\<close>

definition call_over :: "call_state \<Rightarrow> bool" where
  "call_over s \<longleftrightarrow> s = LinphoneCallEnd \<or> s = LinphoneCallError"

text \<open>The status a call leaves in its log when it is over.\<close>

definition final_log_status :: "sal_reason \<Rightarrow> call_status \<Rightarrow> call_status" where
  "final_log_status reason status = (if reason = SalReasonDeclined then LinphoneCallDeclined
     else if reason = SalReasonRequestTimeout then LinphoneCallMissed else status)"

definition enter_state :: "call_env \<Rightarrow> nat \<Rightarrow> call_state \<Rightarrow> core \<Rightarrow> core" where
  "enter_state env i cstate w =
     (if call_over cstate then
        linphone_call_set_terminated env i
          (upd i (\<lambda>c. c\<lparr>ca_log_status := final_log_status (ca_non_op_error c) (ca_log_status c)\<rparr>) w)
      else if cstate = LinphoneCallConnected then upd i (\<lambda>c. c\<lparr>ca_log_status := LinphoneCallSuccess\<rparr>) w
      else w)"

definition linphone_call_set_state :: "call_env \<Rightarrow> nat \<Rightarrow> call_state \<Rightarrow> core \<Rightarrow> core" where
  "linphone_call_set_state env i cstate w = (let c = lc_store w i in
     if ca_state c = cstate then w
     else (let w = upd i (\<lambda>c. c\<lparr>ca_prevstate := ca_state c\<rparr>) w in
       if call_over (ca_state c) \<and> cstate \<noteq> LinphoneCallReleased then w
       else (let
         w = (if cstate \<noteq> LinphoneCallRefered then upd i (\<lambda>c. c\<lparr>ca_state := cstate\<rparr>) w else w);
         w = enter_state env i cstate w;
         w = (if cstate \<noteq> LinphoneCallStreamsRunning then upd i (\<lambda>c. c\<lparr>ca_dtmfs_timer := False\<rparr>) w else w);
         w = emit (NotifyCallState i cstate) w;
         w = (if cstate = LinphoneCallReleased then linphone_call_set_released env i w else w)
       in linphone_core_soundcard_hint_check env w)))"

definition linphone_call_set_transfer_state :: "nat \<Rightarrow> call_state \<Rightarrow> core \<Rightarrow> core" where
  "linphone_call_set_transfer_state i state w =
     (if state \<noteq> ca_transfer_state (lc_store w i)
      then emit (NotifyTransferState i state) (upd i (\<lambda>c. c\<lparr>ca_transfer_state := state\<rparr>) w) else w)"

section \<open>What the routines leave alone\<close>

named_theorems core_frame \<open>fields of the core that a routine does not touch\<close>

lemma emit_frame [simp]:
  "lc_store (emit a w) = lc_store w" "lc_next (emit a w) = lc_next w" "lc_calls (emit a w) = lc_calls w"
  "lc_current_call (emit a w) = lc_current_call w" "lc_ringstream (emit a w) = lc_ringstream w"
  "lc_call_logs (emit a w) = lc_call_logs w" "lc_missed_calls (emit a w) = lc_missed_calls w"
  "lc_trace (emit a w) = lc_trace w @ [a]" "lc_dtmf_playing (emit a w) = lc_dtmf_playing w"
  "lc_tasks (emit a w) = lc_tasks w"
  by (simp_all add: emit_def)

lemma upd_frame [simp]:
  "lc_store (upd i f w) = (lc_store w)(i := f (lc_store w i))" "lc_next (upd i f w) = lc_next w"
  "lc_calls (upd i f w) = lc_calls w" "lc_current_call (upd i f w) = lc_current_call w"
  "lc_ringstream (upd i f w) = lc_ringstream w" "lc_call_logs (upd i f w) = lc_call_logs w"
  "lc_missed_calls (upd i f w) = lc_missed_calls w" "lc_trace (upd i f w) = lc_trace w"
  "lc_dtmf_playing (upd i f w) = lc_dtmf_playing w" "lc_tasks (upd i f w) = lc_tasks w"
  by (simp_all add: upd_def)

end
