(* ===== verification/CallControl.thy ===== *)
theory CallControl
  imports CallState Reasons
begin

text \<open>
  The operations of \<open>coreapi/linphonecore.c\<close> on calls: creating, starting, accepting,
  updating, pausing, resuming, transferring and ending them, with the constructors of
  \<open>coreapi/linphonecall.c\<close>.  Each takes the environment of the event and the core and returns
  the core, with the \<open>int\<close> or the call the function returns.  The statements under
  \<open>#ifdef VIDEO_ENABLED\<close> only adjust video streams, and \<open>linphone_call_set_contact_op\<close>,
  \<open>audio_stream_prepare_sound\<close> and the choice of sampling rates set nothing modelled here.
\<close>

section \<open>New calls\<close>

definition call_zero :: "call_dir \<Rightarrow> string \<Rightarrow> call" where
  "call_zero dir to = \<lparr>ca_non_op_error = SalReasonNone, ca_dir = dir, ca_biggestdesc = None, ca_localdesc = None,
     ca_resultdesc = None, ca_log_status = LinphoneCallAborted, ca_log_to = to, ca_op = None, ca_ping_op = False,
     ca_media_localip = [], ca_state = LinphoneCallIdle, ca_prevstate = LinphoneCallIdle,
     ca_transfer_state = LinphoneCallIdle,
     ca_media_ports = replicate 2 \<lparr>po_multicast_ip = [], po_rtp_port = 0, po_rtcp_port = 0\<rparr>,
     ca_ac = \<lparr>sc_addr = [], sc_port = 0\<rparr>, ca_vc = \<lparr>sc_addr = [], sc_port = 0\<rparr>,
     ca_audiostream = None, ca_videostream = None, ca_refer_to = None,
     ca_params = linphone_call_params_new, ca_current_params = linphone_call_params_new, ca_up_bw = 0,
     ca_ice_session = False, ca_ping_time = 0, ca_remote_session_id = 0, ca_remote_session_ver = 0,
     ca_referer = None, ca_transfer_target = None, ca_localdesc_changed = 0, ca_dtmfs_timer = False,
     ca_dtls_certificate_fingerprint = [], ca_refer_pending = False, ca_expect_media_in_ack = False,
     ca_all_muted = False, ca_playing_ringbacktone = False, ca_ringing_beep = False, ca_defer_update = False,
     ca_was_automatically_paused = False, ca_ping_replied = False, ca_paused_by_app = False\<rparr>"

definition used_ports :: "nat \<Rightarrow> core \<Rightarrow> int list" where
  "used_ports stream_index w = map (\<lambda>i. po_rtp_port (ca_media_ports (lc_store w i) ! stream_index)) (lc_calls w)"

definition linphone_call_init_common :: "call_env \<Rightarrow> core \<Rightarrow> call \<Rightarrow> call" where
  "linphone_call_init_common env w c = (let
     ports = ca_media_ports c;
     ports = ports[0 := (case ve_audio_port_range env of (min_port, max_port) \<Rightarrow>
       port_config_set (ve_random_port env 0) (used_ports 0 w) min_port max_port (ports ! 0))];
     ports = ports[1 := (case ve_video_port_range env of (min_port, max_port) \<Rightarrow>
       port_config_set (ve_random_port env 1) (used_ports 1 w) min_port max_port (ports ! 1))]
   in c\<lparr>ca_media_ports := ports\<rparr>)"

definition run_stun_tests :: "call_env \<Rightarrow> call \<Rightarrow> call" where
  "run_stun_tests env c = (case ve_stun env of None \<Rightarrow> c
     | Some (ping_time, ac, vc) \<Rightarrow> c\<lparr>ca_ping_time := ping_time, ca_ac := ac, ca_vc := vc\<rparr>)"

definition linphone_call_new_outgoing :: "call_env \<Rightarrow> core \<Rightarrow> string \<Rightarrow> call_params \<Rightarrow> call" where
  "linphone_call_new_outgoing env w to params = (let
     c = linphone_call_init_common env w (call_zero LinphoneCallOutgoing to);
     c = c\<lparr>ca_params := params\<rparr>;
     c = linphone_call_fill_media_multicast_addr (ve_audio_multicast_addr env) (ve_video_multicast_addr env) c;
     c = c\<lparr>ca_ice_session := ve_use_ice env\<rparr>;
     c = run_stun_tests env c
   in c\<lparr>ca_referer := cp_referer params, ca_op := Some (sal_op_new env)\<rparr>)"

definition linphone_call_set_compatible_incoming_call_parameters ::
    "call_env \<Rightarrow> sal_media_description \<Rightarrow> call \<Rightarrow> call" where
  "linphone_call_set_compatible_incoming_call_parameters env md c = (let
     p = (ca_params c)\<lparr>cp_avpf_enabled := sal_media_description_has_avpf md\<rparr>;
     p = (if cp_avpf_enabled p then p\<lparr>cp_avpf_rr_interval := ve_avpf_rr_interval env (ca_log_to c) * 1000\<rparr> else p);
     p = (if sal_media_description_has_dtls md \<and> ve_dtls_supported env
            then p\<lparr>cp_media_encryption := LinphoneMediaEncryptionDTLS\<rparr>
          else if sal_media_description_has_srtp md \<and> ve_srtp_supported env
            then p\<lparr>cp_media_encryption := LinphoneMediaEncryptionSRTP\<rparr>
          else if cp_media_encryption p \<noteq> LinphoneMediaEncryptionZRTP
            then p\<lparr>cp_media_encryption := LinphoneMediaEncryptionNone\<rparr> else p)
   in c\<lparr>ca_params := p\<rparr>)"

text \<open>One step of the loop over the offered streams that recognises multicast; the code's array of
  ports has two cells.\<close>

definition receive_multicast :: "(string \<Rightarrow> bool) \<Rightarrow> nat \<Rightarrow> call \<times> sal_media_description \<Rightarrow> call \<times> sal_media_description" where
  "receive_multicast is_multicast i st = (case st of (c, md) \<Rightarrow> (let addr = sd_rtp_addr (md_streams md ! i) in
     if addr \<noteq> [] \<and> is_multicast addr
     then (c\<lparr>ca_media_ports := (ca_media_ports c)[i := (ca_media_ports c ! i)\<lparr>po_multicast_ip := strncpy 64 addr\<rparr>]\<rparr>,
           upd_stream i (\<lambda>s. s\<lparr>sd_multicast_role := SalMulticastReceiver\<rparr>) md)
     else st))"

definition offered_parameters :: "call_env \<Rightarrow> call \<Rightarrow> call" where
  "offered_parameters env c = (case remote_media c of None \<Rightarrow> c | Some md \<Rightarrow> (let
     c = linphone_call_set_compatible_incoming_call_parameters env md c
   in if is_offerer c then c
      else (case fold (receive_multicast (le_is_multicast (ve_local env))) [0..<md_nb_streams md] (c, md) of
              (c, md) \<Rightarrow> with_op (\<lambda>h. h\<lparr>co_sal := (co_sal h)\<lparr>op_remote_media := Some md\<rparr>\<rparr>) c)))"

definition linphone_call_new_incoming :: "call_env \<Rightarrow> core \<Rightarrow> string \<Rightarrow> call_op \<Rightarrow> call" where
  "linphone_call_new_incoming env w to h = (let
     h = h\<lparr>co_sal := (co_sal h)\<lparr>op_cnx_ip_to_0000_if_sendonly_enabled := ve_cnx_ip_to_0000_if_sendonly env\<rparr>\<rparr>;
     c = (call_zero LinphoneCallIncoming to)\<lparr>ca_op := Some h, ca_ping_op := ve_ping_with_options env\<rparr>;
     c = linphone_call_init_common env w c;
     c = c\<lparr>ca_params := ve_default_params env\<rparr>;
     c = c\<lparr>ca_params := (ca_params c)\<lparr>cp_has_video := ve_video_enabled env \<and> ve_video_automatically_accept env\<rparr>\<rparr>;
     c = offered_parameters env c
   in c\<lparr>ca_ice_session := ve_use_ice env \<and> remote_media c \<noteq> None\<rparr>)"

text \<open>A new call takes the first free number.\<close>

definition alloc :: "call \<Rightarrow> core \<Rightarrow> core \<times> nat" where
  "alloc c w = (let i = lc_next w in (w\<lparr>lc_store := (lc_store w)(i := c), lc_next := Suc i\<rparr>, i))"

section \<open>ICE, parameters, operation\<close>

text \<open>The core and the result of \<open>linphone_call_prepare_ice\<close>; 1 defers the operation.\<close>

definition linphone_call_prepare_ice :: "call_env \<Rightarrow> nat \<Rightarrow> bool \<Rightarrow> core \<Rightarrow> core \<times> int" where
  "linphone_call_prepare_ice env i incoming_offer w = (let c = lc_store w i in
     if ve_use_ice env \<and> ca_ice_session c then
       (case ve_prepare_ice env c incoming_offer of (kept, result) \<Rightarrow>
          (upd i (\<lambda>c. c\<lparr>ca_ice_session := kept\<rparr>) w, result))
     else (w, 0))"

definition linphone_call_set_new_params :: "call_params \<Rightarrow> call \<Rightarrow> call" where
  "linphone_call_set_new_params params c = c\<lparr>ca_params := params\<rparr>"

definition remote_has_video :: "call \<Rightarrow> bool" where
  "remote_has_video c = (case remote_media c of None \<Rightarrow> False
     | Some md \<Rightarrow> sal_media_description_nb_active_streams_of_type md SalVideo > 0)"

definition linphone_call_fix_call_parameters :: "call \<Rightarrow> call" where
  "linphone_call_fix_call_parameters c = (if is_offerer c
     then c\<lparr>ca_current_params := (ca_current_params c)\<lparr>cp_video_declined := cp_has_video (ca_params c) \<and> \<not> remote_has_video c\<rparr>\<rparr>
     else c)"

definition linphone_call_create_op :: "call_env \<Rightarrow> nat \<Rightarrow> core \<Rightarrow> core" where
  "linphone_call_create_op env i w = (let
     w = (if ca_op (lc_store w i) \<noteq> None then emit (SalRelease i) w else w)
   in upd i (\<lambda>c. c\<lparr>ca_op := Some (sal_op_new env)\<rparr>) w)"

definition sal_call_accept :: "call_env \<Rightarrow> nat \<Rightarrow> core \<Rightarrow> core" where
  "sal_call_accept env i w = upd i (with_op (handle_offer_answer_response env)) (emit (SalCallAccept i) w)"

definition sal_call_notify_ringing :: "call_env \<Rightarrow> nat \<Rightarrow> bool \<Rightarrow> core \<Rightarrow> core" where
  "sal_call_notify_ringing env i early_media w = emit (SalNotifyRinging i early_media)
     (if early_media then upd i (with_op (handle_offer_answer_response env)) w else w)"

text \<open>The offer is filled in when the request can be built; an error leaves the operation alone.\<close>

definition sal_call_update :: "call_env \<Rightarrow> nat \<Rightarrow> string \<Rightarrow> bool \<Rightarrow> core \<Rightarrow> core \<times> int" where
  "sal_call_update env i subject no_user_consent w =
     (emit (SalCallUpdate i subject no_user_consent)
        (if ve_update_result env i = 0 then upd i (with_op sal_op_fill_invite) w else w), ve_update_result env i)"

definition linphone_core_notify_refer_state :: "nat \<Rightarrow> nat \<Rightarrow> core \<Rightarrow> core" where
  "linphone_core_notify_refer_state referer newcall w =
     (if ca_op (lc_store w referer) \<noteq> None then emit (SalNotifyReferState referer newcall) w else w)"

section \<open>Pausing and resuming\<close>

definition pause_params :: "call_env \<Rightarrow> call_params \<Rightarrow> call_params" where
  "pause_params env params = params\<lparr>cp_audio_dir := LinphoneMediaDirectionSendOnly,
     cp_video_dir := (if ve_inactive_video_on_pause env then LinphoneMediaDirectionInactive
                      else LinphoneMediaDirectionSendOnly)\<rparr>"

text \<open>Whether there is media to pause, and the subject of the request that pauses it.\<close>

definition pause_subject :: "call \<Rightarrow> string option" where
  "pause_subject c = (case ca_resultdesc c of None \<Rightarrow> None | Some md \<Rightarrow>
     if sal_media_description_has_dir md SalStreamSendRecv then Some ''Call on hold''
     else if sal_media_description_has_dir md SalStreamRecvOnly then Some ''Call on hold for me too''
     else None)"

definition pause_call_internal :: "call_env \<Rightarrow> nat \<Rightarrow> core \<Rightarrow> core \<times> int" where
  "pause_call_internal env i w = (let c = lc_store w i in
     if ca_state c \<noteq> LinphoneCallStreamsRunning \<and> ca_state c \<noteq> LinphoneCallPausedByRemote then (w, -1)
     else (case pause_subject c of None \<Rightarrow> (w, -1) | Some subject \<Rightarrow> (let
       params = pause_params env (ca_params c);
       w = upd i (make_local_with env params) w;
       w = upd i set_local w;
       w = fst (sal_call_update env i subject False w);
       w = w\<lparr>lc_current_call := None\<rparr>;
       w = linphone_call_stop_media_streams i w;
       w = linphone_call_set_state env i LinphoneCallPausing w
     in (upd i (\<lambda>c. c\<lparr>ca_paused_by_app := False\<rparr>) w, 0))))"

definition linphone_core_pause_call :: "call_env \<Rightarrow> nat \<Rightarrow> core \<Rightarrow> core \<times> int" where
  "linphone_core_pause_call env i w = (case pause_call_internal env i w of (w, err) \<Rightarrow>
     (if err = 0 then upd i (\<lambda>c. c\<lparr>ca_paused_by_app := True\<rparr>) w else w, err))"

definition linphone_core_pause_all_calls :: "call_env \<Rightarrow> core \<Rightarrow> core" where
  "linphone_core_pause_all_calls env w = fold (\<lambda>i w.
     if ca_state (lc_store w i) = LinphoneCallStreamsRunning \<or> ca_state (lc_store w i) = LinphoneCallPausedByRemote
     then fst (pause_call_internal env i w) else w) (lc_calls w) w"

definition linphone_core_preempt_sound_resources :: "call_env \<Rightarrow> core \<Rightarrow> core" where
  "linphone_core_preempt_sound_resources env w = (let
     w = (case lc_current_call w of Some i \<Rightarrow> fst (pause_call_internal env i w) | None \<Rightarrow> w)
   in if lc_ringstream w then linphone_core_stop_ringing w else w)"

definition linphone_core_resume_call :: "call_env \<Rightarrow> nat \<Rightarrow> core \<Rightarrow> core \<times> int" where
  "linphone_core_resume_call env i w = (let c = lc_store w i in
     if ca_state c \<noteq> LinphoneCallPaused then (w, -1)
     else if \<not> cp_in_conference (ca_params c) \<and> linphone_core_sound_resources_locked w then (w, -1)
     else (let
       w = (if \<not> cp_in_conference (ca_params c) then linphone_core_preempt_sound_resources env w else w);
       w = upd i (\<lambda>c. c\<lparr>ca_was_automatically_paused := False\<rparr>) w;
       w = upd i (linphone_call_make_local_media_description env) w;
       w = upd i (if ve_sdp_200_ack env then clear_local else set_local) w;
       w = upd i (write_localdesc (\<lambda>md. sal_media_description_set_dir md SalStreamSendRecv)) w;
       c = lc_store w i;
       subject = (if cp_in_conference (ca_params c) \<and> \<not> cp_in_conference (ca_current_params c)
                  then ''Conference'' else ''Call resuming'')
     in case sal_call_update env i subject False w of (w, err) \<Rightarrow>
       if err \<noteq> 0 then (w, -1)
       else (let
         w = linphone_call_set_state env i LinphoneCallResuming w;
         w = (if \<not> cp_in_conference (ca_params (lc_store w i)) then w\<lparr>lc_current_call := Some i\<rparr> else w)
       in (if ve_sdp_200_ack env then upd i set_local w else w, 0))))"

section \<open>Ending calls\<close>

definition linphone_core_abort_call :: "call_env \<Rightarrow> nat \<Rightarrow> core \<Rightarrow> core" where
  "linphone_core_abort_call env i w = (let
     w = emit (SalCallTerminate i) w;
     w = linphone_core_stop_ringing w;
     w = linphone_call_stop_media_streams i w
   in linphone_call_set_state env i LinphoneCallError w)"

definition terminate_call :: "call_env \<Rightarrow> nat \<Rightarrow> core \<Rightarrow> core" where
  "terminate_call env i w = (let
     w = (if ca_state (lc_store w i) = LinphoneCallIncomingReceived
             \<and> ca_non_op_error (lc_store w i) \<noteq> SalReasonRequestTimeout
          then upd i (\<lambda>c. c\<lparr>ca_non_op_error := SalReasonDeclined\<rparr>) w else w);
     w = linphone_core_stop_ringing w;
     w = linphone_call_stop_media_streams i w
   in linphone_call_set_state env i LinphoneCallEnd w)"

definition linphone_core_redirect_call :: "call_env \<Rightarrow> nat \<Rightarrow> core \<Rightarrow> core \<times> int" where
  "linphone_core_redirect_call env i w =
     (if ca_state (lc_store w i) = LinphoneCallIncomingReceived then (let
        w = emit (SalCallDecline i SalReasonRedirect) w;
        w = upd i (\<lambda>c. c\<lparr>ca_non_op_error := SalReasonRedirect\<rparr>) w
      in (terminate_call env i w, 0))
      else (w, -1))"

definition linphone_core_decline_call :: "call_env \<Rightarrow> nat \<Rightarrow> linphone_reason \<Rightarrow> core \<Rightarrow> core \<times> int" where
  "linphone_core_decline_call env i reason w =
     (if ca_state (lc_store w i) \<noteq> LinphoneCallIncomingReceived
         \<and> ca_state (lc_store w i) \<noteq> LinphoneCallIncomingEarlyMedia then (w, -1)
      else (terminate_call env i (emit (SalCallDecline i (linphone_reason_to_sal reason)) w), 0))"

definition terminate_one :: "call_env \<Rightarrow> nat \<Rightarrow> core \<Rightarrow> core \<times> int" where
  "terminate_one env i w = (case ca_state (lc_store w i) of
       LinphoneCallReleased \<Rightarrow> (w, -1)
     | LinphoneCallEnd \<Rightarrow> (w, -1)
     | LinphoneCallIncomingReceived \<Rightarrow> linphone_core_decline_call env i LinphoneReasonDeclined w
     | LinphoneCallIncomingEarlyMedia \<Rightarrow> linphone_core_decline_call env i LinphoneReasonDeclined w
     | LinphoneCallOutgoingInit \<Rightarrow>
         (terminate_call env i (upd i (\<lambda>c. c\<lparr>ca_op := None\<rparr>) (emit (SalRelease i) w)), 0)
     | _ \<Rightarrow> (terminate_call env i (emit (SalCallTerminate i) w), 0))"

text \<open>\<open>None\<close> is a null pointer: the unique call is meant.\<close>

definition linphone_core_terminate_call :: "call_env \<Rightarrow> nat option \<Rightarrow> core \<Rightarrow> core \<times> int" where
  "linphone_core_terminate_call env the_call w = (case the_call of
       Some i \<Rightarrow> terminate_one env i w
     | None \<Rightarrow> (if length (lc_calls w) = 1 then terminate_one env (hd (lc_calls w)) w else (w, -1)))"

definition linphone_core_terminate_all_calls :: "call_env \<Rightarrow> core \<Rightarrow> core" where
  "linphone_core_terminate_all_calls env w = fold (\<lambda>i w. fst (terminate_one env i w)) (lc_calls w) w"

section \<open>Starting an outgoing call\<close>

definition linphone_core_start_invite :: "call_env \<Rightarrow> nat \<Rightarrow> core \<Rightarrow> core" where
  "linphone_core_start_invite env i w = (let
     w = linphone_core_stop_dtmf_stream w;
     w = upd i (linphone_call_make_local_media_description env) w;
     w = (if \<not> ve_sdp_200_ack env then upd i set_local w else w);
     w = emit (SalCall i) (upd i (with_op sal_op_fill_invite) w);
     w = (if ve_sdp_200_ack env then upd i set_local w else w)
   in if ve_invite_result env i < 0
      then linphone_call_set_state env i LinphoneCallError (linphone_call_stop_media_streams i w)
      else linphone_call_set_state env i LinphoneCallOutgoingProgress w)"

definition linphone_core_restart_invite :: "call_env \<Rightarrow> nat \<Rightarrow> core \<Rightarrow> core" where
  "linphone_core_restart_invite env i w = linphone_core_start_invite env i
     (linphone_call_init_media_streams env i (linphone_call_stop_media_streams i (linphone_call_create_op env i w)))"

definition linphone_core_proceed_with_invite_if_ready :: "call_env \<Rightarrow> nat \<Rightarrow> core \<Rightarrow> core" where
  "linphone_core_proceed_with_invite_if_ready env i w = (let
     c = lc_store w i;
     ice_ready = (if ca_ice_session c then ve_candidates_gathered env i else True);
     ping_ready = (if ca_ping_op c then ca_ping_replied c else True)
   in if ice_ready \<and> ping_ready then linphone_core_start_invite env i w else w)"

definition invite_params :: "call_env \<Rightarrow> string \<Rightarrow> call_params \<Rightarrow> call_params" where
  "invite_params env addr cp = (let cp = cp\<lparr>cp_avpf_enabled := ve_avpf_enabled env addr\<rparr> in
     if ve_has_dest_proxy env addr \<or> cp_avpf_enabled cp
     then cp\<lparr>cp_avpf_rr_interval := ve_avpf_rr_interval env addr * 1000\<rparr> else cp)"

definition linphone_core_invite_address_with_params ::
    "call_env \<Rightarrow> string \<Rightarrow> call_params \<Rightarrow> core \<Rightarrow> core \<times> nat option" where
  "linphone_core_invite_address_with_params env addr params w = (let
     w = linphone_core_preempt_sound_resources env w
   in if \<not> linphone_core_can_we_add_call env w then (w, None)
      else (case alloc (linphone_call_new_outgoing env w addr (invite_params env addr params)) w of (w, i) \<Rightarrow>
        (case linphone_core_add_call env i w of
           (w, False) \<Rightarrow> (w, None)
         | (w, True) \<Rightarrow> (let
             w = w\<lparr>lc_current_call := Some i\<rparr>;
             w = linphone_call_set_state env i LinphoneCallOutgoingInit w;
             w = linphone_call_init_media_streams env i w
           in case (if ve_use_ice env then linphone_call_prepare_ice env i False w else (w, 0)) of (w, result) \<Rightarrow> (let
             ping = (\<not> ve_has_dest_proxy env addr \<and> ve_ping_with_options env);
             w = (if ping then upd i (\<lambda>c. c\<lparr>ca_ping_replied := False, ca_ping_op := True\<rparr>) w else w)
           in (if result = 1 \<or> ping then w else linphone_core_start_invite env i w, Some i))))))"

definition linphone_core_invite_with_params :: "call_env \<Rightarrow> string \<Rightarrow> call_params \<Rightarrow> core \<Rightarrow> core \<times> nat option" where
  "linphone_core_invite_with_params env url p w = (case ve_interpret_url env url of
     Some addr \<Rightarrow> linphone_core_invite_address_with_params env addr p w | None \<Rightarrow> (w, None))"

section \<open>Transfers\<close>

definition linphone_core_transfer_call :: "call_env \<Rightarrow> nat option \<Rightarrow> string \<Rightarrow> core \<Rightarrow> core \<times> int" where
  "linphone_core_transfer_call env call url w = (case ve_interpret_url env url of
       None \<Rightarrow> (w, -1)
     | Some real_url \<Rightarrow> (case call of None \<Rightarrow> (w, -1)
       | Some i \<Rightarrow> (linphone_call_set_transfer_state i LinphoneCallOutgoingInit (emit (SalRefer i real_url) w), 0)))"

definition linphone_core_transfer_call_to_another :: "nat \<Rightarrow> nat \<Rightarrow> core \<Rightarrow> core" where
  "linphone_core_transfer_call_to_another i dest w =
     linphone_call_set_transfer_state i LinphoneCallOutgoingInit (emit (SalReferWithReplaces i dest) w)"

definition linphone_core_start_refered_call ::
    "call_env \<Rightarrow> nat \<Rightarrow> call_params option \<Rightarrow> core \<Rightarrow> core \<times> nat option" where
  "linphone_core_start_refered_call env i params w = (let
     cp = (case params of Some p \<Rightarrow> p | None \<Rightarrow> ve_default_params env);
     w = (if ca_state (lc_store w i) \<noteq> LinphoneCallPaused
          then upd i (\<lambda>c. c\<lparr>ca_was_automatically_paused := True\<rparr>) (fst (pause_call_internal env i w)) else w);
     cp = (if params = None then cp\<lparr>cp_has_video := cp_has_video (ca_current_params (lc_store w i))\<rparr> else cp);
     cp = cp\<lparr>cp_referer := Some i\<rparr>;
     w = upd i (\<lambda>c. c\<lparr>ca_refer_pending := False\<rparr>) w
   in case ca_refer_to (lc_store w i) of None \<Rightarrow> (w, None) | Some refer_to \<Rightarrow>
     (case linphone_core_invite_with_params env refer_to cp w of
        (w, Some newcall) \<Rightarrow> (linphone_core_notify_refer_state i newcall
            (upd i (\<lambda>c. c\<lparr>ca_transfer_target := Some newcall\<rparr>) w), Some newcall)
      | (w, None) \<Rightarrow> (w, None)))"

end
