(* ===== verification/CallAnswer.thy ===== *)
theory CallAnswer
  imports CallControl
begin

text \<open>
  The operations of \<open>coreapi/linphonecore.c\<close> that change a session or answer a change: updates
  asked by this side and by the other one, early media, the announcement of an incoming call and
  its acceptance.
\<close>

section \<open>Updating a call\<close>

definition linphone_core_start_update_call :: "call_env \<Rightarrow> nat \<Rightarrow> core \<Rightarrow> core \<times> int" where
  "linphone_core_start_update_call env i w = (let
     no_user_consent = cp_no_user_consent (ca_params (lc_store w i));
     w = upd i (linphone_call_fill_media_multicast_addr (ve_audio_multicast_addr env) (ve_video_multicast_addr env)) w;
     w = (if \<not> no_user_consent then upd i (linphone_call_make_local_media_description env) w else w);
     subject = (if cp_in_conference (ca_params (lc_store w i)) then ''Conference''
                else if \<not> no_user_consent then ''Media change'' else ''Refreshing'');
     w = upd i (if \<not> ve_sdp_200_ack env then set_local else clear_local) w
   in case sal_call_update env i subject no_user_consent w of (w, err) \<Rightarrow>
     (if ve_sdp_200_ack env then upd i set_local w else w, err))"

definition update_next_state :: "call_state \<Rightarrow> call_state option" where
  "update_next_state s = (if s \<in> {LinphoneCallIncomingReceived, LinphoneCallIncomingEarlyMedia,
       LinphoneCallOutgoingRinging, LinphoneCallOutgoingEarlyMedia} then Some LinphoneCallEarlyUpdating
     else if s = LinphoneCallStreamsRunning then Some LinphoneCallUpdating else None)"

definition linphone_core_update_call :: "call_env \<Rightarrow> nat \<Rightarrow> call_params option \<Rightarrow> core \<Rightarrow> core \<times> int" where
  "linphone_core_update_call env i params w = (case update_next_state (ca_state (lc_store w i)) of
     None \<Rightarrow> (w, -1)
   | Some nextstate \<Rightarrow> (case params of None \<Rightarrow> (w, 0) | Some p \<Rightarrow> (let
       w = linphone_call_set_state env i nextstate w;
       w = upd i (linphone_call_set_new_params p) w
     in case linphone_call_prepare_ice env i False w of (w, err) \<Rightarrow>
       if err = 1 then (w, 0) else linphone_core_start_update_call env i w)))"

definition linphone_core_defer_call_update :: "nat \<Rightarrow> core \<Rightarrow> core \<times> int" where
  "linphone_core_defer_call_update i w =
     (if ca_state (lc_store w i) = LinphoneCallUpdatedByRemote
      then (upd i (\<lambda>c. c\<lparr>ca_defer_update := True\<rparr>) w, 0) else (w, -1))"

text \<open>The final description is asked for, and what it is.\<close>

definition ask_final :: "call_env \<Rightarrow> nat \<Rightarrow> core \<Rightarrow> core" where
  "ask_final env i w = upd i (get_final env) w"

definition final_of :: "nat \<Rightarrow> core \<Rightarrow> sal_media_description option" where
  "final_of i w = op_final (lc_store w i)"

definition linphone_core_start_accept_call_update :: "call_env \<Rightarrow> nat \<Rightarrow> call_state \<Rightarrow> core \<Rightarrow> core" where
  "linphone_core_start_accept_call_update env i next_state w =
     (if ca_ice_session (lc_store w i) \<and> ve_losing_pairs env i then w
      else (let
        w = upd i (linphone_call_make_local_media_description env) w;
        w = upd i linphone_call_update_remote_session_id_and_ver w;
        w = upd i set_local w;
        w = sal_call_accept env i w;
        w = ask_final env i w;
        w = (case final_of i w of None \<Rightarrow> w
             | Some md \<Rightarrow> if \<not> sal_media_description_empty md
                 then upd i linphone_call_fix_call_parameters (linphone_core_update_streams env i (Some md) w) else w)
      in linphone_call_set_state env i next_state w))"

text \<open>The parameters an update is accepted with.\<close>

definition accepted_params :: "call_env \<Rightarrow> call_params option \<Rightarrow> call \<Rightarrow> call" where
  "accepted_params env params c = (let
     c = (case params of
            Some p \<Rightarrow> linphone_call_set_new_params p c
          | None \<Rightarrow> (let
              p = linphone_call_params_enable_video (ca_params c)
                    (ve_video_automatically_accept env \<or> cp_has_video (ca_current_params c));
              p = (if \<not> is_offerer c then p\<lparr>cp_audio_multicast_enabled := False, cp_video_multicast_enabled := False\<rparr> else p)
            in c\<lparr>ca_params := p\<rparr>));
     c = (if cp_has_video (ca_params c) \<and> \<not> ve_video_enabled env
          then c\<lparr>ca_params := (ca_params c)\<lparr>cp_has_video := False\<rparr>\<rparr> else c)
   in if cp_in_conference (ca_current_params c)
      then c\<lparr>ca_params := (ca_params c)\<lparr>cp_has_video := False\<rparr>\<rparr> else c)"

definition same_sdp_version :: "call \<Rightarrow> bool" where
  "same_sdp_version c \<longleftrightarrow> (case remote_media c of None \<Rightarrow> False
     | Some r \<Rightarrow> md_session_id r = ca_remote_session_id c \<and> md_session_ver r = ca_remote_session_ver c)"

definition accept_call_update_internal ::
    "call_env \<Rightarrow> nat \<Rightarrow> call_params option \<Rightarrow> call_state \<Rightarrow> core \<Rightarrow> core" where
  "accept_call_update_internal env i params next_state w =
     (if ve_keep_sdp_version env \<and> same_sdp_version (lc_store w i)
      then linphone_call_set_state env i next_state (sal_call_accept env i w)
      else (let
        w = upd i (accepted_params env params) w;
        w = upd i (linphone_call_fill_media_multicast_addr (ve_audio_multicast_addr env) (ve_video_multicast_addr env)) w;
        w = linphone_call_init_media_streams env i w
      in case linphone_call_prepare_ice env i True w of (w, result) \<Rightarrow>
           if result = 1 then w else linphone_core_start_accept_call_update env i next_state w))"

definition linphone_core_accept_call_update :: "call_env \<Rightarrow> nat \<Rightarrow> call_params option \<Rightarrow> core \<Rightarrow> core \<times> int" where
  "linphone_core_accept_call_update env i params w =
     (if ca_state (lc_store w i) \<noteq> LinphoneCallUpdatedByRemote then (w, -1)
      else (accept_call_update_internal env i params (ca_prevstate (lc_store w i)) w, 0))"

section \<open>Accepting a call\<close>

definition linphone_core_accept_early_media_with_params ::
    "call_env \<Rightarrow> nat \<Rightarrow> call_params option \<Rightarrow> core \<Rightarrow> core \<times> int" where
  "linphone_core_accept_early_media_with_params env i params w =
     (if ca_state (lc_store w i) = LinphoneCallIncomingReceived then (let
        w = (case params of None \<Rightarrow> w | Some p \<Rightarrow> (let
               w = upd i (linphone_call_set_new_params p) w;
               w = upd i (linphone_call_make_local_media_description env) w
             in upd i set_local w));
        w = sal_call_notify_ringing env i True w;
        w = linphone_call_set_state env i LinphoneCallIncomingEarlyMedia w;
        w = ask_final env i w;
        w = (case final_of i w of None \<Rightarrow> w | Some md \<Rightarrow> linphone_core_update_streams env i (Some md) w)
      in (w, 0))
      else (w, -1))"

definition outgoing_pending :: "call_state \<Rightarrow> bool" where
  "outgoing_pending s \<longleftrightarrow> s \<in> {LinphoneCallOutgoingInit, LinphoneCallOutgoingProgress,
     LinphoneCallOutgoingRinging, LinphoneCallOutgoingEarlyMedia}"

text \<open>The loop that terminates the other attempts to set up a call, and what else accepting does to
  the other calls and to the ring.\<close>

definition end_other_attempts :: "call_env \<Rightarrow> nat \<Rightarrow> core \<Rightarrow> core" where
  "end_other_attempts env i w = fold (\<lambda>a w. if a \<noteq> i \<and> outgoing_pending (ca_state (lc_store w a))
     then fst (terminate_one env a w) else w) (lc_calls w) w"

definition make_way_for :: "call_env \<Rightarrow> nat \<Rightarrow> core \<Rightarrow> core" where
  "make_way_for env i w = (let
     w = end_other_attempts env i w;
     w = (case ve_replaces env i of Some (Some rc) \<Rightarrow> fst (terminate_one env rc w) | _ \<Rightarrow> w);
     w = (if lc_current_call w \<noteq> Some i then linphone_core_preempt_sound_resources env w else w);
     w = (if lc_ringstream w then linphone_core_stop_ringing w else w)
   in stop_beep i w)"

definition accept_with_params :: "call_env \<Rightarrow> nat \<Rightarrow> call_params \<Rightarrow> core \<Rightarrow> core" where
  "accept_with_params env i params w = (let
     md = remote_media (lc_store w i);
     w = upd i (linphone_call_set_new_params params) w;
     w = (case md of None \<Rightarrow> w
          | Some md \<Rightarrow> upd i (linphone_call_set_compatible_incoming_call_parameters env md) w);
     w = fst (linphone_call_prepare_ice env i True w);
     w = upd i (linphone_call_make_local_media_description env) w
   in upd i set_local w)"

definition accept_one :: "call_env \<Rightarrow> nat \<Rightarrow> call_params option \<Rightarrow> core \<Rightarrow> core" where
  "accept_one env i params w = (let
     w = make_way_for env i w;
     w = (case params of None \<Rightarrow> w | Some p \<Rightarrow> accept_with_params env i p w);
     w = upd i linphone_call_update_remote_session_id_and_ver w;
     w = sal_call_accept env i w;
     w = w\<lparr>lc_current_call := Some i\<rparr>;
     w = linphone_call_set_state env i LinphoneCallConnected w;
     w = ask_final env i w
   in case final_of i w of
        Some new_md \<Rightarrow> linphone_call_set_state env i LinphoneCallStreamsRunning
          (upd i linphone_call_fix_call_parameters (linphone_core_update_streams env i (Some new_md) w))
      | None \<Rightarrow> upd i (\<lambda>c. c\<lparr>ca_expect_media_in_ack := True\<rparr>) w)"

definition linphone_core_accept_call_with_params ::
    "call_env \<Rightarrow> nat option \<Rightarrow> call_params option \<Rightarrow> core \<Rightarrow> core \<times> int" where
  "linphone_core_accept_call_with_params env call params w =
     (case (case call of Some i \<Rightarrow> Some i | None \<Rightarrow> if length (lc_calls w) \<noteq> 1 then None else Some (hd (lc_calls w))) of
        None \<Rightarrow> (w, -1)
      | Some i \<Rightarrow>
          if ca_state (lc_store w i) \<noteq> LinphoneCallIncomingReceived
             \<and> ca_state (lc_store w i) \<noteq> LinphoneCallIncomingEarlyMedia then (w, -1)
          else (accept_one env i params w, 0))"

section \<open>Announcing an incoming call\<close>

definition linphone_core_notify_incoming_call :: "call_env \<Rightarrow> nat \<Rightarrow> core \<Rightarrow> core" where
  "linphone_core_notify_incoming_call env i w = (let
     w = (if length (lc_calls w) = 1 then (let
            w = w\<lparr>lc_current_call := Some i\<rparr>;
            w = (if lc_ringstream w \<and> lc_dtmf_playing w then linphone_core_stop_dtmf_stream w else w)
          in if ve_ring_sndcard env \<and> \<not> lc_ringstream w \<and> ve_local_ring env
             then emit LocalRing (w\<lparr>lc_ringstream := True\<rparr>) else w)
          else emit CallWaitingTone (upd i (\<lambda>c. c\<lparr>ca_ringing_beep := True\<rparr>) w));
     w = linphone_call_set_state env i LinphoneCallIncomingReceived w
   in if ca_state (lc_store w i) = LinphoneCallIncomingReceived then (let
        w = (if ve_incoming_calls_early_media env
             then fst (linphone_core_accept_early_media_with_params env i None w)
             else sal_call_notify_ringing env i False w)
      in if ve_replaces env i \<noteq> None \<and> ve_auto_answer_replacing_calls env
         then fst (linphone_core_accept_call_with_params env (Some i) None w) else w)
      else w)"

end
