(* ===== verification/CallEvents.thy ===== *)
theory CallEvents
  imports CallAnswer
begin

text \<open>
  What the signalling layer, the timers and ICE report about calls: the callbacks of
  \<open>coreapi/callbacks.c\<close>, the ICE cases of \<open>handle_ice_events\<close> (\<open>coreapi/linphonecall.c\<close>), and
  the events of the system.  A handler is told the call its operation belongs to; an operation
  whose call is gone has no user pointer, and its reports are ignored by the code, except that
  \<open>call_failure\<close> and \<open>call_updating\<close> dereference the null call.

  The SDP of a message is a parameter: \<open>None\<close> when the message has none.
\<close>

section \<open>A new call\<close>

text \<open>The outcome of the presence test is a parameter: \<open>None\<close> when calls are accepted, else the
  reason it declines with, if any.  So is what is known of the caller: the address to look for,
  if any, as its test against the remote address of a call.\<close>

definition new_incoming_resources :: "call_env \<Rightarrow> nat \<Rightarrow> core \<Rightarrow> core" where
  "new_incoming_resources env i w = (let w = linphone_call_init_media_streams env i w in
     if ve_use_ice env \<and> remote_media (lc_store w i) \<noteq> None
     then fst (linphone_call_prepare_ice env i True w)
     else upd i (run_stun_tests env) w)"

definition call_received :: "call_env \<Rightarrow> sal_reason option option \<Rightarrow> (nat \<Rightarrow> bool) option \<Rightarrow> string
    \<Rightarrow> call_op \<Rightarrow> core \<Rightarrow> core" where
  "call_received env presence caller to h w = (case presence of
     Some declined \<Rightarrow> (case declined of Some r \<Rightarrow> emit (SalDeclineUnknown r) w | None \<Rightarrow> w)
   | None \<Rightarrow>
       if \<not> linphone_core_can_we_add_call env w then emit (SalDeclineUnknown SalReasonBusy) w
       else if (case caller of Some same \<Rightarrow> list_ex same (lc_calls w) | None \<Rightarrow> False)
         then emit (SalDeclineUnknown SalReasonBusy) w
       else (case alloc (linphone_call_new_incoming env w to h) w of (w, i) \<Rightarrow> (let
         w = new_incoming_resources env i w;
         w = upd i (linphone_call_make_local_media_description env) w;
         w = upd i set_local w;
         w = ask_final env i w
       in if (case final_of i w of None \<Rightarrow> False
              | Some md \<Rightarrow> sal_media_description_empty md \<or> linphone_core_incompatible_security env md)
          then upd i (\<lambda>c. c\<lparr>ca_op := None\<rparr>) (emit (SalCallDecline i SalReasonNotAcceptable) w)
          else (let w = fst (linphone_core_add_call env i w)
            in if ve_use_ice env \<and> ca_ice_session (lc_store w i) then w
               else linphone_core_notify_incoming_call env i w))))"

section \<open>Answers to this side's requests\<close>

definition start_remote_ring :: "call_env \<Rightarrow> core \<Rightarrow> core" where
  "start_remote_ring env w = (if ve_play_sndcard env \<and> ve_remote_ring env
     then emit RemoteRing (w\<lparr>lc_ringstream := True\<rparr>) else w)"

definition streams_started :: "call \<Rightarrow> bool" where
  "streams_started c \<longleftrightarrow> ca_audiostream c = Some MSStreamStarted \<or> ca_videostream c = Some MSStreamStarted"

definition current_audio_dir :: "call \<Rightarrow> media_direction" where
  "current_audio_dir c = (case ca_resultdesc c of None \<Rightarrow> cp_audio_dir (ca_current_params c)
     | Some md \<Rightarrow> (case sal_media_description_find_best_stream md SalAudio of
         Some sd \<Rightarrow> media_direction_from_sal_stream_dir (sd_dir sd) | None \<Rightarrow> LinphoneMediaDirectionInactive))"

definition call_ringing :: "call_env \<Rightarrow> nat \<Rightarrow> core \<Rightarrow> core" where
  "call_ringing env i w = (let w = ask_final env i w in case final_of i w of
     None \<Rightarrow> (let w = linphone_core_stop_dtmf_stream w in
       if ca_state (lc_store w i) = LinphoneCallOutgoingEarlyMedia then w
       else if lc_ringstream w then w
       else linphone_call_set_state env i LinphoneCallOutgoingRinging (start_remote_ring env w))
   | Some md \<Rightarrow>
       if streams_started (lc_store w i) then emit (ForkEarlyMedia i) w
       else (let
         w = linphone_call_set_state env i LinphoneCallOutgoingEarlyMedia w;
         w = linphone_core_stop_ringing w;
         w = linphone_core_update_streams env i (Some md) w
       in if current_audio_dir (lc_store w i) = LinphoneMediaDirectionInactive
             \<and> ca_audiostream (lc_store w i) \<noteq> None \<and> \<not> lc_ringstream w
          then start_remote_ring env w else w))"

text \<open>The \<open>switch\<close> on the state, with \<open>update_state\<close>.\<close>

definition accepted_transition :: "call_env \<Rightarrow> nat \<Rightarrow> core \<Rightarrow> core \<times> bool" where
  "accepted_transition env i w = (let s = ca_state (lc_store w i) in
     if s = LinphoneCallOutgoingProgress \<or> s = LinphoneCallOutgoingRinging \<or> s = LinphoneCallOutgoingEarlyMedia
     then (let w = linphone_call_set_state env i LinphoneCallConnected w in
       (case ca_referer (lc_store w i) of None \<Rightarrow> w | Some r \<Rightarrow> linphone_core_notify_refer_state r i w, True))
     else if s = LinphoneCallEarlyUpdating
     then (linphone_call_set_state env i (ca_prevstate (lc_store w i)) w, False)
     else (w, True))"

text \<open>The description to run with: the early media one when the answer has none.\<close>

definition effective_final :: "nat \<Rightarrow> sal_media_description option \<Rightarrow> core \<Rightarrow> sal_media_description option" where
  "effective_final i md w = (let c = lc_store w i in
     if ca_prevstate c = LinphoneCallOutgoingEarlyMedia
        \<and> (case md of None \<Rightarrow> True | Some m \<Rightarrow> sal_media_description_empty m) \<and> ca_resultdesc c \<noteq> None
     then ca_resultdesc c else md)"

definition usable_final :: "call_env \<Rightarrow> sal_media_description option \<Rightarrow> sal_media_description option" where
  "usable_final env md = (case md of None \<Rightarrow> None
     | Some m \<Rightarrow> if \<not> sal_media_description_empty m \<and> \<not> linphone_core_incompatible_security env m then Some m else None)"

definition accepted_with_media :: "call_env \<Rightarrow> nat \<Rightarrow> bool \<Rightarrow> sal_media_description \<Rightarrow> core \<Rightarrow> core" where
  "accepted_with_media env i update_state md w = (let
     w = upd i linphone_call_update_remote_session_id_and_ver w
   in if sal_media_description_has_dir md SalStreamSendOnly \<or> sal_media_description_has_dir md SalStreamInactive then (let
        w = linphone_core_update_streams env i (Some md) w;
        w = (if update_state then linphone_call_set_state env i LinphoneCallPaused w else w)
      in if ca_refer_pending (lc_store w i) then fst (linphone_core_start_refered_call env i None w) else w)
      else if sal_media_description_has_dir md SalStreamRecvOnly then (let
        w = linphone_core_update_streams env i (Some md) w
      in if update_state then linphone_call_set_state env i LinphoneCallPausedByRemote w else w)
      else (let
        w = linphone_core_update_streams env i (Some md) w;
        w = upd i linphone_call_fix_call_parameters w;
        w = (if \<not> cp_in_conference (ca_current_params (lc_store w i)) then w\<lparr>lc_current_call := Some i\<rparr> else w)
      in if update_state then linphone_call_set_state env i LinphoneCallStreamsRunning w else w))"

definition accepted_without_media :: "call_env \<Rightarrow> nat \<Rightarrow> core \<Rightarrow> core" where
  "accepted_without_media env i w = (let s = ca_prevstate (lc_store w i) in
     if outgoing_pending s then linphone_core_abort_call env i w
     else linphone_call_set_state env i s w)"

definition call_accepted :: "call_env \<Rightarrow> nat \<Rightarrow> core \<Rightarrow> core" where
  "call_accepted env i w = (let
     w = (if ca_ice_session (lc_store w i) \<and> remote_media (lc_store w i) \<noteq> None
          then upd i (\<lambda>c. c\<lparr>ca_ice_session := ve_ice_kept env i\<rparr>) w else w);
     w = ask_final env i w;
     md = final_of i w
   in case accepted_transition env i w of (w, update_state) \<Rightarrow>
        (case usable_final env (effective_final i md w) of
           Some m \<Rightarrow> accepted_with_media env i update_state m w
         | None \<Rightarrow> accepted_without_media env i w))"

definition call_ack :: "call_env \<Rightarrow> nat \<Rightarrow> core \<Rightarrow> core" where
  "call_ack env i w =
     (if ca_expect_media_in_ack (lc_store w i) then (let w = ask_final env i w in
        case final_of i w of
          Some md \<Rightarrow> if \<not> sal_media_description_empty md
            then linphone_call_set_state env i LinphoneCallStreamsRunning (linphone_core_update_streams env i (Some md) w)
            else linphone_core_abort_call env i w
        | None \<Rightarrow> linphone_core_abort_call env i w)
      else w)"

section \<open>Requests of the other side\<close>

definition call_resumed :: "call_env \<Rightarrow> nat \<Rightarrow> core \<Rightarrow> core" where
  "call_resumed env i w = accept_call_update_internal env i None LinphoneCallStreamsRunning
     (upd i linphone_call_increment_local_media_description w)"

definition call_paused_by_remote :: "call_env \<Rightarrow> nat \<Rightarrow> core \<Rightarrow> core" where
  "call_paused_by_remote env i w = (let
     w = upd i linphone_call_increment_local_media_description w;
     params = ca_params (lc_store w i);
     params = (if ve_inactive_video_on_pause env then params\<lparr>cp_video_dir := LinphoneMediaDirectionInactive\<rparr> else params)
   in accept_call_update_internal env i (Some params) LinphoneCallPausedByRemote w)"

definition needs_approval :: "call_env \<Rightarrow> bool \<Rightarrow> sal_media_description option \<Rightarrow> sal_media_description option \<Rightarrow> bool" where
  "needs_approval env is_update prev_result md \<longleftrightarrow> is_update \<and> (case (prev_result, md) of
     (Some p, Some m) \<Rightarrow> sal_media_description_equals (le_is_multicast (ve_local env)) p m
        AND (SAL_MEDIA_DESCRIPTION_CRYPTO_POLICY_CHANGED OR SAL_MEDIA_DESCRIPTION_STREAMS_CHANGED) \<noteq> 0
   | _ \<Rightarrow> False)"

text \<open>The capabilities are compared first: the core, and whether the update is declined.\<close>

definition check_update :: "call_env \<Rightarrow> nat \<Rightarrow> bool \<Rightarrow> core \<Rightarrow> core \<times> bool" where
  "check_update env i is_update w = (let prev_result = ca_resultdesc (lc_store w i) in
     if remote_media (lc_store w i) = None then (w, False)
     else (let
       w = (if ca_state (lc_store w i) \<noteq> LinphoneCallPaused
            then upd i set_local (upd i (linphone_call_make_local_media_description env) w) else w);
       w = ask_final env i w;
       md = final_of i w;
       bad = (case md of None \<Rightarrow> False
          | Some m \<Rightarrow> sal_media_description_empty m \<or> linphone_core_incompatible_security env m)
     in if bad \<or> needs_approval env is_update prev_result md
        then (emit (SalCallDecline i SalReasonNotAcceptable) w, True) else (w, False)))"

definition expect_answer_in_ack :: "bool \<Rightarrow> nat \<Rightarrow> core \<Rightarrow> core" where
  "expect_answer_in_ack no_sdp i w = (if no_sdp then upd i (\<lambda>c. c\<lparr>ca_expect_media_in_ack := True\<rparr>) w else w)"

definition call_updated_by_remote :: "call_env \<Rightarrow> nat \<Rightarrow> bool \<Rightarrow> core \<Rightarrow> core" where
  "call_updated_by_remote env i is_update w = (let no_sdp = (remote_media (lc_store w i) = None) in
     case check_update env i is_update w of (w, declined) \<Rightarrow>
       if declined then w
       else if ca_state (lc_store w i) = LinphoneCallStreamsRunning then (let
         w = upd i (\<lambda>c. c\<lparr>ca_defer_update := ve_defer_update_default env\<rparr>) w;
         w = linphone_call_set_state env i LinphoneCallUpdatedByRemote w;
         w = (if \<not> ca_defer_update (lc_store w i) then fst (linphone_core_accept_call_update env i None w) else w)
       in expect_answer_in_ack no_sdp i w)
       else if ca_state (lc_store w i) = LinphoneCallPausedByRemote then (let
         w = upd i (\<lambda>c. c\<lparr>ca_defer_update := ve_defer_update_default env\<rparr>) w;
         w = (if \<not> ca_defer_update (lc_store w i)
              then accept_call_update_internal env i None (ca_state (lc_store w i)) w else w)
       in expect_answer_in_ack no_sdp i w)
       else if is_update then (let
         w = linphone_call_set_state env i LinphoneCallEarlyUpdatedByRemote w
       in accept_call_update_internal env i None (ca_prevstate (lc_store w i)) w)
       else w)"

definition pauses :: "sal_media_description \<Rightarrow> bool" where
  "pauses rmd \<longleftrightarrow> sal_media_description_has_dir rmd SalStreamSendOnly \<or> sal_media_description_has_dir rmd SalStreamInactive"

definition call_updating :: "call_env \<Rightarrow> nat \<Rightarrow> bool \<Rightarrow> core \<Rightarrow> core" where
  "call_updating env i is_update w = (case remote_media (lc_store w i) of
     None \<Rightarrow> call_updated_by_remote env i is_update w
   | Some rmd \<Rightarrow> (let s = ca_state (lc_store w i) in
       if s = LinphoneCallPausedByRemote then
         (if sal_media_description_has_dir rmd SalStreamSendRecv \<or> sal_media_description_has_dir rmd SalStreamRecvOnly
          then call_resumed env i w else call_updated_by_remote env i is_update w)
       else if s \<in> {LinphoneCallOutgoingRinging, LinphoneCallOutgoingEarlyMedia, LinphoneCallIncomingEarlyMedia} then
         (if is_update then call_updated_by_remote env i is_update w else w)
       else if s \<in> {LinphoneCallStreamsRunning, LinphoneCallConnected, LinphoneCallPaused} then
         (if pauses rmd then call_paused_by_remote env i w else call_updated_by_remote env i is_update w)
       else if s \<in> {LinphoneCallUpdating, LinphoneCallPausing, LinphoneCallResuming, LinphoneCallUpdatedByRemote}
         then emit (SalCallDecline i SalReasonNotImplemented) w
       else w))"

section \<open>The end of a call\<close>

definition linphone_core_in_call :: "core \<Rightarrow> bool" where
  "linphone_core_in_call w \<longleftrightarrow> lc_current_call w \<noteq> None"

definition call_terminated :: "call_env \<Rightarrow> nat \<Rightarrow> core \<Rightarrow> core" where
  "call_terminated env i w = (let s = ca_state (lc_store w i) in
     if call_over s then w
     else (let
       w = (if s = LinphoneCallIncomingReceived \<or> s = LinphoneCallIncomingEarlyMedia
            then upd i (\<lambda>c. c\<lparr>ca_non_op_error := SalReasonRequestTimeout\<rparr>) w else w);
       w = (if ca_refer_pending (lc_store w i) then fst (linphone_core_start_refered_call env i None w) else w);
       w = (if lc_ringstream w \<and> (length (lc_calls w) = 1 \<or> linphone_core_in_call w)
            then linphone_core_stop_ringing w else w);
       w = linphone_call_stop_media_streams i w
     in linphone_call_set_state env i LinphoneCallEnd w))"

datatype retry = RetryWithoutAvpf | RetryWithoutSrtp nat

text \<open>The loop over the active streams looking for something to give up.\<close>

fun find_retry :: "bool \<Rightarrow> call_params \<Rightarrow> nat \<Rightarrow> sal_stream_description list \<Rightarrow> retry option" where
  "find_retry mandatory params i [] = None"
| "find_retry mandatory params i (s # ss) =
     (if \<not> sal_stream_description_active s then find_retry mandatory params (Suc i) ss
      else if cp_media_encryption params = LinphoneMediaEncryptionSRTP then
        if cp_avpf_enabled params then Some RetryWithoutAvpf
        else if \<not> mandatory then Some (RetryWithoutSrtp i)
        else find_retry mandatory params (Suc i) ss
      else if cp_avpf_enabled params then Some RetryWithoutAvpf
      else find_retry mandatory params (Suc i) ss)"

fun give_up :: "retry \<Rightarrow> call \<Rightarrow> call" where
  "give_up RetryWithoutAvpf c = c\<lparr>ca_params := (ca_params c)\<lparr>cp_avpf_enabled := False\<rparr>\<rparr>"
| "give_up (RetryWithoutSrtp k) c = write_localdesc
     (upd_stream k (\<lambda>s. s\<lparr>sd_crypto := replicate SAL_CRYPTO_ALGO_MAX crypto_zero\<rparr>))
     (c\<lparr>ca_params := (ca_params c)\<lparr>cp_media_encryption := LinphoneMediaEncryptionNone\<rparr>\<rparr>)"

definition retry_for :: "call_env \<Rightarrow> call \<Rightarrow> retry option" where
  "retry_for env c = (if outgoing_pending (ca_state c) then
     (case ca_localdesc c of None \<Rightarrow> None
      | Some md \<Rightarrow> find_retry (ve_media_encryption_mandatory env) (ca_params c) 0 (used_streams md)) else None)"

text \<open>The part of \<open>call_failure\<close> after the \<open>switch\<close> on the reason.\<close>

definition fail_call :: "call_env \<Rightarrow> nat \<Rightarrow> sal_reason \<Rightarrow> core \<Rightarrow> core" where
  "fail_call env i reason w = (let
     referer = ca_referer (lc_store w i);
     s = ca_state (lc_store w i)
   in if s = LinphoneCallUpdating \<or> s = LinphoneCallPausing \<or> s = LinphoneCallResuming
      then linphone_call_set_state env i (ca_prevstate (lc_store w i)) w
      else (let
        w = linphone_core_stop_ringing w;
        w = linphone_call_stop_media_streams i w;
        w = (if \<not> call_over (ca_state (lc_store w i)) then (let
               w = linphone_call_set_state env i
                     (if reason = SalReasonDeclined then LinphoneCallEnd else LinphoneCallError) w
             in if reason \<noteq> SalReasonNone then emit (ErrorTone reason) w else w) else w)
      in case referer of None \<Rightarrow> w
         | Some r \<Rightarrow> (let w = linphone_core_notify_refer_state r i w in w\<lparr>lc_tasks := lc_tasks w @ [r]\<rparr>)))"

definition call_failure :: "call_env \<Rightarrow> nat \<Rightarrow> sal_reason \<Rightarrow> core \<Rightarrow> core" where
  "call_failure env i reason w =
     (if reason = SalReasonRedirect then (let w = linphone_call_stop_media_streams i w in
        case (if outgoing_pending (ca_state (lc_store w i)) then ve_remote_contact env i else None) of
          Some redirection_to \<Rightarrow> linphone_core_restart_invite env i (upd i (\<lambda>c. c\<lparr>ca_log_to := redirection_to\<rparr>) w)
        | None \<Rightarrow> fail_call env i reason w)
      else if reason = SalReasonUnsupportedContent \<or> reason = SalReasonNotAcceptable then
        (case retry_for env (lc_store w i) of
           Some r \<Rightarrow> linphone_core_restart_invite env i (upd i (give_up r) w)
         | None \<Rightarrow> fail_call env i reason w)
      else if reason = SalReasonRequestPending then
        linphone_call_set_state env i (ca_prevstate (lc_store w i)) w
      else fail_call env i reason w)"

definition call_released :: "call_env \<Rightarrow> nat \<Rightarrow> core \<Rightarrow> core" where
  "call_released env i w = linphone_call_set_state env i LinphoneCallReleased w"

definition refer_received :: "call_env \<Rightarrow> nat option \<Rightarrow> string \<Rightarrow> core \<Rightarrow> core" where
  "refer_received env call referto w = (case call of
     None \<Rightarrow> emit (NotifyReferReceived referto) w
   | Some i \<Rightarrow> (let
       w = upd i (\<lambda>c. c\<lparr>ca_refer_to := Some referto, ca_refer_pending := True\<rparr>) w;
       w = linphone_call_set_state env i LinphoneCallRefered w
     in if ca_refer_pending (lc_store w i) then fst (linphone_core_start_refered_call env i None w) else w))"

definition ping_reply :: "call_env \<Rightarrow> nat \<Rightarrow> core \<Rightarrow> core" where
  "ping_reply env i w = (if ca_state (lc_store w i) = LinphoneCallOutgoingInit
     then linphone_core_proceed_with_invite_if_ready env i (upd i (\<lambda>c. c\<lparr>ca_ping_replied := True\<rparr>) w) else w)"

text \<open>The queued task: the core, and whether it stays in the queue.\<close>

definition resume_call_after_failed_transfer :: "call_env \<Rightarrow> nat \<Rightarrow> core \<Rightarrow> core \<times> bool" where
  "resume_call_after_failed_transfer env i w = (let c = lc_store w i in
     if ca_was_automatically_paused c \<and> ca_state c = LinphoneCallPausing then (w, True)
     else if ca_was_automatically_paused c \<and> ca_state c = LinphoneCallPaused then
       (if ve_sal_op_idle env i then (fst (linphone_core_resume_call env i w), False) else (w, True))
     else (w, False))"

section \<open>ICE\<close>

text \<open>The end of the gathering of candidates; \<open>gathered\<close> is the round trip time measured, or
  \<open>None\<close> when it failed.\<close>

definition ice_gathering_finished :: "call_env \<Rightarrow> nat \<Rightarrow> int option \<Rightarrow> core \<Rightarrow> core" where
  "ice_gathering_finished env i gathered w = (let
     w = (case gathered of
            Some ping_time \<Rightarrow> if ping_time \<ge> 0 then upd i (\<lambda>c. c\<lparr>ca_ping_time := ping_time\<rparr>) w else w
          | None \<Rightarrow> upd i (\<lambda>c. c\<lparr>ca_ice_session := False\<rparr>) w);
     s = ca_state (lc_store w i)
   in if s = LinphoneCallUpdating then fst (linphone_core_start_update_call env i w)
      else if s = LinphoneCallUpdatedByRemote
        then linphone_core_start_accept_call_update env i (ca_prevstate (lc_store w i)) w
      else if s = LinphoneCallOutgoingInit then linphone_core_proceed_with_invite_if_ready env i w
      else if s = LinphoneCallIdle then (let
        w = upd i (\<lambda>c. if ca_ice_session c then write_localdesc (le_ice (ve_local env)) c else c) w;
        w = upd i set_local w
      in linphone_core_notify_incoming_call env i w)
      else w)"

definition ice_losing_pairs_completed :: "call_env \<Rightarrow> nat \<Rightarrow> core \<Rightarrow> core" where
  "ice_losing_pairs_completed env i w = (if ca_state (lc_store w i) = LinphoneCallUpdatedByRemote
     then linphone_core_start_accept_call_update env i (ca_prevstate (lc_store w i)) w else w)"

definition ice_restart_needed :: "call_env \<Rightarrow> nat \<Rightarrow> core \<Rightarrow> core" where
  "ice_restart_needed env i w = fst (linphone_core_update_call env i (Some (ca_current_params (lc_store w i))) w)"

text \<open>The end of the connectivity checks: the state of the session, whether this side leads it and
  whether some stream has a working pair, and the setting \<open>update_call_when_ice_completed\<close>.  What is
  then done to the running streams belongs to the media library.\<close>

datatype ice_session_state = IS_Completed | IS_Failed | IS_Running

record ice_result =
  ir_state :: ice_session_state
  ir_controlling :: bool
  ir_some_completed :: bool
  ir_update_when_completed :: bool

definition ice_update_params :: "call \<Rightarrow> call_params" where
  "ice_update_params c = (ca_current_params c)\<lparr>
     cp_media_encryption := (case cp_media_encryption (ca_params c) of
         LinphoneMediaEncryptionZRTP \<Rightarrow> LinphoneMediaEncryptionZRTP
       | LinphoneMediaEncryptionDTLS \<Rightarrow> LinphoneMediaEncryptionDTLS
       | _ \<Rightarrow> cp_media_encryption (ca_current_params c)),
     cp_internal_call_update := True\<rparr>"

definition ice_processing_finished :: "call_env \<Rightarrow> nat \<Rightarrow> ice_result \<Rightarrow> core \<Rightarrow> core" where
  "ice_processing_finished env i r w = (let params = ice_update_params (lc_store w i) in
     if ir_controlling r
        \<and> (ir_state r = IS_Completed \<and> ir_update_when_completed r \<or> ir_state r = IS_Failed \<and> ir_some_completed r)
     then fst (linphone_core_update_call env i (Some params) w) else w)"

section \<open>Transfers carried out by the other side\<close>

datatype sal_refer_status = SalReferTrying | SalReferSuccess | SalReferFailed

definition notify_refer :: "call_env \<Rightarrow> nat \<Rightarrow> sal_refer_status \<Rightarrow> core \<Rightarrow> core" where
  "notify_refer env i status w = (let
     cstate = (case status of SalReferTrying \<Rightarrow> LinphoneCallOutgoingProgress
       | SalReferSuccess \<Rightarrow> LinphoneCallConnected | SalReferFailed \<Rightarrow> LinphoneCallError);
     w = linphone_call_set_transfer_state i cstate w
   in if cstate = LinphoneCallConnected then fst (linphone_core_terminate_call env (Some i) w) else w)"

section \<open>Time\<close>

text \<open>What one turn of the main loop finds: how long ago each call was logged and connected
  (\<open>None\<close> when it has not been), whose streams receive nothing any more, and the limits of the
  settings.\<close>

record turn =
  tu_one_second_elapsed :: bool
  tu_elapsed :: "nat \<Rightarrow> int"
  tu_connected :: "nat \<Rightarrow> int option"
  tu_stream_alive :: "nat \<Rightarrow> bool"
  tu_nortp_timeout :: int
  tu_delayed_timeout :: int
  tu_inc_timeout :: int
  tu_in_call_timeout :: int

definition linphone_core_disconnected :: "call_env \<Rightarrow> nat \<Rightarrow> core \<Rightarrow> core" where
  "linphone_core_disconnected env i w = emit CallLostTone (fst (linphone_core_terminate_call env (Some i) w))"

definition linphone_call_background_tasks :: "call_env \<Rightarrow> turn \<Rightarrow> nat \<Rightarrow> core \<Rightarrow> core" where
  "linphone_call_background_tasks env t i w =
     (if ca_state (lc_store w i) = LinphoneCallStreamsRunning \<and> tu_one_second_elapsed t
         \<and> ca_audiostream (lc_store w i) = Some MSStreamStarted \<and> tu_nortp_timeout t > 0 \<and> \<not> tu_stream_alive t i
      then linphone_core_disconnected env i w else w)"

definition start_delayed_call :: "call_env \<Rightarrow> turn \<Rightarrow> nat \<Rightarrow> core \<Rightarrow> core" where
  "start_delayed_call env t i w =
     (if ca_state (lc_store w i) = LinphoneCallOutgoingInit \<and> tu_elapsed t i \<ge> tu_delayed_timeout t
      then linphone_core_start_invite env i (upd i (\<lambda>c. c\<lparr>ca_ice_session := False\<rparr>) w) else w)"

definition decline_overdue_call :: "call_env \<Rightarrow> turn \<Rightarrow> nat \<Rightarrow> core \<Rightarrow> core" where
  "decline_overdue_call env t i w =
     (if (ca_state (lc_store w i) = LinphoneCallIncomingReceived \<or> ca_state (lc_store w i) = LinphoneCallIncomingEarlyMedia)
         \<and> tu_elapsed t i > tu_inc_timeout t
      then (let
        decline_reason = (if lc_current_call w \<noteq> None then LinphoneReasonBusy else LinphoneReasonDeclined);
        w = upd i (\<lambda>c. c\<lparr>ca_log_status := LinphoneCallMissed, ca_non_op_error := SalReasonRequestTimeout\<rparr>) w
      in fst (linphone_core_decline_call env i decline_reason w))
      else w)"

definition end_overlong_call :: "call_env \<Rightarrow> turn \<Rightarrow> nat \<Rightarrow> core \<Rightarrow> core" where
  "end_overlong_call env t i w =
     (if tu_in_call_timeout t > 0 \<and> (case tu_connected t i of None \<Rightarrow> False | Some s \<Rightarrow> s > tu_in_call_timeout t)
      then fst (linphone_core_terminate_call env (Some i) w) else w)"

definition iterate_call :: "call_env \<Rightarrow> turn \<Rightarrow> nat \<Rightarrow> core \<Rightarrow> core" where
  "iterate_call env t i w = end_overlong_call env t i (decline_overdue_call env t i
     (start_delayed_call env t i (linphone_call_background_tasks env t i w)))"

definition iterate_calls :: "call_env \<Rightarrow> turn \<Rightarrow> core \<Rightarrow> core" where
  "iterate_calls env t w = fold (iterate_call env t) (lc_calls w) w"

section \<open>Events\<close>

text \<open>What the application may ask and what the lower layers may report.  A message carries its
  SDP, which the signalling layer stores in the operation before it calls back
  (\<open>call_process_response\<close>, \<open>process_request_event\<close>).\<close>

datatype event =
    Invite string call_params | Accept "nat option" "call_params option" | AcceptEarlyMedia nat "call_params option"
  | Terminate "nat option" | Decline nat linphone_reason | Redirect nat | TerminateAll
  | Pause nat | PauseAll | Resume nat | Update nat "call_params option" | DeferUpdate nat
  | AcceptUpdate nat "call_params option" | Transfer "nat option" string | TransferToAnother nat nat
  | Incoming "sal_reason option option" "(nat \<Rightarrow> bool) option" string "sal_media_description option"
  | Provisional nat "sal_media_description option" | Answered nat "sal_media_description option"
  | UpdateAnswered nat | Ack nat "sal_media_description option"
  | Request nat bool "sal_media_description option" | Bye nat | Failure nat sal_reason
  | ReleasedByStack nat | ReferTo "nat option" string | PingReply nat | RunTask
  | IceGathered nat "int option" | IceLosingPairs nat | IceRestart nat | IceProcessed nat ice_result
  | NotifyRefer nat sal_refer_status | Iterate turn

text \<open>An invitation or a request whose SDP is refused is declined by the signalling layer.\<close>

definition incoming_request :: "call_env \<Rightarrow> nat \<Rightarrow> bool \<Rightarrow> sal_media_description option \<Rightarrow> core \<Rightarrow> core" where
  "incoming_request env i is_update sdp w = (let
     w = upd i (with_op (\<lambda>h. fst (process_sdp_for_invite sdp (sal_op_reset_descriptions h)))) w
   in if (case sdp of None \<Rightarrow> True | Some md \<Rightarrow> is_media_description_acceptable md)
      then call_updating env i is_update w else emit (SalCallDecline i SalReasonNotAcceptable) w)"

definition incoming_ack :: "call_env \<Rightarrow> nat \<Rightarrow> sal_media_description option \<Rightarrow> core \<Rightarrow> core" where
  "incoming_ack env i sdp w = call_ack env i (case sdp of None \<Rightarrow> w
     | Some md \<Rightarrow> if is_offerer (lc_store w i)
         then upd i (with_op (\<lambda>h. op_process env (h\<lparr>co_sal := (co_sal h)\<lparr>op_remote_media := Some md\<rparr>\<rparr>))) w else w)"

definition run_task :: "call_env \<Rightarrow> core \<Rightarrow> core" where
  "run_task env w = (case lc_tasks w of [] \<Rightarrow> w
     | i # rest \<Rightarrow> (case resume_call_after_failed_transfer env i (w\<lparr>lc_tasks := rest\<rparr>) of
          (w, again) \<Rightarrow> if again then w\<lparr>lc_tasks := lc_tasks w @ [i]\<rparr> else w))"

fun handle :: "call_env \<Rightarrow> event \<Rightarrow> core \<Rightarrow> core" where
  "handle env (Invite url p) w = fst (linphone_core_invite_with_params env url p w)"
| "handle env (Accept call params) w = fst (linphone_core_accept_call_with_params env call params w)"
| "handle env (AcceptEarlyMedia i params) w = fst (linphone_core_accept_early_media_with_params env i params w)"
| "handle env (Terminate call) w = fst (linphone_core_terminate_call env call w)"
| "handle env (Decline i reason) w = fst (linphone_core_decline_call env i reason w)"
| "handle env (Redirect i) w = fst (linphone_core_redirect_call env i w)"
| "handle env TerminateAll w = linphone_core_terminate_all_calls env w"
| "handle env (Pause i) w = fst (linphone_core_pause_call env i w)"
| "handle env PauseAll w = linphone_core_pause_all_calls env w"
| "handle env (Resume i) w = fst (linphone_core_resume_call env i w)"
| "handle env (Update i params) w = fst (linphone_core_update_call env i params w)"
| "handle env (DeferUpdate i) w = fst (linphone_core_defer_call_update i w)"
| "handle env (AcceptUpdate i params) w = fst (linphone_core_accept_call_update env i params w)"
| "handle env (Transfer call url) w = fst (linphone_core_transfer_call env call url w)"
| "handle env (TransferToAnother i dest) w = linphone_core_transfer_call_to_another i dest w"
| "handle env (Incoming presence caller to sdp) w =
     (if (case sdp of None \<Rightarrow> True | Some md \<Rightarrow> is_media_description_acceptable md)
      then call_received env presence caller to (fst (process_sdp_for_invite sdp (sal_op_new env))) w
      else emit (SalDeclineUnknown SalReasonNotAcceptable) w)"
| "handle env (Provisional i sdp) w = call_ringing env i (upd i (with_op (handle_sdp_from_response env sdp)) w)"
| "handle env (Answered i sdp) w = call_accepted env i (upd i (with_op (handle_sdp_from_response env sdp)) w)"
| "handle env (UpdateAnswered i) w = call_accepted env i w"
| "handle env (Ack i sdp) w = incoming_ack env i sdp w"
| "handle env (Request i is_update sdp) w = incoming_request env i is_update sdp w"
| "handle env (Bye i) w = call_terminated env i w"
| "handle env (Failure i reason) w = call_failure env i reason w"
| "handle env (ReleasedByStack i) w = call_released env i w"
| "handle env (ReferTo call referto) w = refer_received env call referto w"
| "handle env (PingReply i) w = ping_reply env i w"
| "handle env RunTask w = run_task env w"
| "handle env (IceGathered i gathered) w = ice_gathering_finished env i gathered w"
| "handle env (IceLosingPairs i) w = ice_losing_pairs_completed env i w"
| "handle env (IceRestart i) w = ice_restart_needed env i w"
| "handle env (IceProcessed i r) w = ice_processing_finished env i r w"
| "handle env (NotifyRefer i status) w = notify_refer env i status w"
| "handle env (Iterate t) w = iterate_calls env t w"

end
