(* ===== verification/PresenceInfo.thy ===== *)
theory PresenceInfo
  imports Friends CallEvents
begin

text \<open>
What the presence of this side means for it and for others: the status the application sets, the
one it reads back, the one its friends are shown, and the calls that are refused because of it
(\<open>call_received\<close> of \<open>callbacks.c\<close>).
\<close>

section \<open>Refusal of calls\<close>

text \<open>The reason a call is declined with, and \<open>Some None\<close> for one that is dropped without an answer.\<close>

definition declined_by_presence :: "presence_model \<Rightarrow> sal_reason option option" where
  "declined_by_presence m = (if linphone_presence_model_get_basic_status m = LinphonePresenceBasicStatusClosed
     then Some (case linphone_presence_activity_get_type (linphone_presence_model_get_activity m) of
         LinphonePresenceActivityBusy \<Rightarrow> Some SalReasonBusy
       | LinphonePresenceActivityAppointment \<Rightarrow> Some SalReasonTemporarilyUnavailable
       | LinphonePresenceActivityMeeting \<Rightarrow> Some SalReasonTemporarilyUnavailable
       | LinphonePresenceActivityOffline \<Rightarrow> Some SalReasonTemporarilyUnavailable
       | LinphonePresenceActivityWorship \<Rightarrow> Some SalReasonTemporarilyUnavailable
       | LinphonePresenceActivityPermanentAbsence \<Rightarrow>
           if linphone_presence_model_get_contact m \<noteq> None then Some SalReasonRedirect else None
       | _ \<Rightarrow> None)
     else None)"

section \<open>The model made for a status\<close>

definition info_presence :: "presence_env \<Rightarrow> presence_activity_type \<Rightarrow> string option \<Rightarrow> string option \<Rightarrow> presence_model" where
  "info_presence penv acttype description contact =
     linphone_presence_model_set_contact penv contact (linphone_presence_model_new_with_activity penv acttype description)"

lemma new_with_activity_fields:
  "pm_services (linphone_presence_model_new_with_activity penv t d) = [linphone_presence_service_new penv None (activity_basic_status t) None]"
  "pm_persons (linphone_presence_model_new_with_activity penv t d)
    = [linphone_presence_person_add_activity \<lparr>pa_type = t, pa_description = d\<rparr> (presence_person_new (Some (generate_presence_id penv)) (pr_now penv))]"
  by (simp_all add: linphone_presence_model_new_with_activity_def linphone_presence_model_set_activity_def
    linphone_presence_model_add_activity_def linphone_presence_model_clear_activities_def linphone_presence_model_set_basic_status_def
    linphone_presence_model_add_service_def linphone_presence_model_clear_services_def linphone_presence_model_new_def
    linphone_presence_activity_new_def Let_def)

lemma info_presence_fields:
  "pm_services (info_presence penv t d contact)
    = [linphone_presence_service_set_contact contact (linphone_presence_service_new penv None (activity_basic_status t) None)]"
  "pm_persons (info_presence penv t d contact) = pm_persons (linphone_presence_model_new_with_activity penv t d)"
  by (simp_all add: info_presence_def linphone_presence_model_set_contact_def linphone_presence_model_get_nth_service_def
    new_with_activity_fields)

lemma info_presence_read:
  "linphone_presence_model_get_basic_status (info_presence penv t d contact) = activity_basic_status t"
  "linphone_presence_model_get_contact (info_presence penv t d contact) = contact"
  "linphone_presence_model_get_activity (info_presence penv t d contact) = Some \<lparr>pa_type = t, pa_description = d\<rparr>"
  "linphone_presence_model_get_nb_activities (info_presence penv t d contact) = 1"
proof -
  have s: "ps_status (linphone_presence_service_set_contact contact (linphone_presence_service_new penv None b None)) = b"
    "ps_contact (linphone_presence_service_set_contact contact (linphone_presence_service_new penv None b None)) = contact" for b
    by (simp_all add: linphone_presence_service_new_def linphone_presence_service_set_contact_def presence_service_new_def)
  show "linphone_presence_model_get_basic_status (info_presence penv t d contact) = activity_basic_status t"
    by (cases "activity_basic_status t")
      (simp_all add: linphone_presence_model_get_basic_status_def info_presence_fields presence_model_find_open_basic_status_def s)
  show "linphone_presence_model_get_contact (info_presence penv t d contact) = contact"
    by (simp add: linphone_presence_model_get_contact_def info_presence_fields presence_model_find_contact_def s)
  show "linphone_presence_model_get_activity (info_presence penv t d contact) = Some \<lparr>pa_type = t, pa_description = d\<rparr>"
    "linphone_presence_model_get_nb_activities (info_presence penv t d contact) = 1"
    by (simp_all add: linphone_presence_model_get_activity_def linphone_presence_model_get_nth_activity_def
      linphone_presence_model_get_nb_activities_def info_presence_fields new_with_activity_fields presence_model_get_activity_def
      linphone_presence_person_add_activity_def presence_person_new_def)
qed

lemma presence_model_frame:
  "fw_presence_model (linphone_core_send_presence env m w) = fw_presence_model w"
proof -
  have *: "fw_presence_model (fold g xs v) = fw_presence_model v" if "\<And>i v. fw_presence_model (g i v) = fw_presence_model v" for g xs v
    using that by (induction xs arbitrary: v) simp_all
  show ?thesis
    unfolding linphone_core_send_presence_def linphone_core_send_publish_def linphone_core_notify_all_friends_def
    by (subst *, simp add: fr_emit_def, subst *)
      (simp_all add: linphone_friend_notify_def fr_emit_def split: option.split)
qed

lemma set_presence_info_model:
  assumes "fw_presence_model w \<noteq> None" "status_activity os = Some (t, d)"
  shows "fw_presence_model (linphone_core_set_presence_info env k contact os w) = Some (info_presence (fe_presence_env env) t d contact)"
  using assms
  by (auto simp: linphone_core_set_presence_info_def linphone_core_set_presence_model_def Let_def presence_model_frame info_presence_def)

section \<open>What is read and shown\<close>

text \<open>C29. The status the application sets is the one it reads back, with the contact it gave; a friend
  that is shown this presence sees the same status, except for the three that are published as
  another activity with a description.\<close>

theorem presence_info_read_back:
  assumes "fw_presence_model w \<noteq> None" and "os \<noteq> LinphoneStatusEnd" and "fr_presence f = fw_presence_model w'"
    and "w' = linphone_core_set_presence_info env minutes contact os w"
  shows "map_option linphone_core_get_presence_info (fw_presence_model w') = Some os
    \<and> Option.bind (fw_presence_model w') linphone_presence_model_get_contact = contact
    \<and> linphone_friend_get_status f = (if os = LinphoneStatusDoNotDisturb \<or> os = LinphoneStatusAltService then LinphoneStatusBusy
        else if os = LinphoneStatusPending then LinphoneStatusMoved else os)"
proof -
  obtain t d where td: "status_activity os = Some (t, d)" using assms(2) by (cases os) simp_all
  have m: "fw_presence_model w' = Some (info_presence (fe_presence_env env) t d contact)"
    unfolding assms(4) using assms(1) td by (rule set_presence_info_model)
  show ?thesis
    using td unfolding m
    by (cases os) (auto simp: linphone_core_get_presence_info_def linphone_friend_get_status_def m assms(3) info_presence_read
      linphone_presence_activity_get_type_def linphone_presence_activity_get_description_def Let_def)
qed

section \<open>Calls\<close>

lemma declined_by_info:
  "declined_by_presence (info_presence penv t d contact) = (if activity_basic_status t = LinphonePresenceBasicStatusClosed
     then Some (case t of
         LinphonePresenceActivityBusy \<Rightarrow> Some SalReasonBusy
       | LinphonePresenceActivityPermanentAbsence \<Rightarrow> if contact \<noteq> None then Some SalReasonRedirect else None
       | _ \<Rightarrow> Some SalReasonTemporarilyUnavailable)
     else None)"
  by (cases t) (simp_all add: declined_by_presence_def info_presence_read linphone_presence_activity_get_type_def)

text \<open>The status decides over incoming calls.  Offline, a call is declined as temporarily
  unavailable, busy in any form as busy, and moved it is redirected when there is a contact; no call
  is created.  In every other status the call goes on as if there were no presence.\<close>

theorem presence_decides_over_calls:
  assumes "fw_presence_model w \<noteq> None" and "os \<noteq> LinphoneStatusEnd"
    and "fw_presence_model (linphone_core_set_presence_info env minutes contact os w) = Some m"
  shows "call_received cenv (declined_by_presence m) caller to h core =
    (if os = LinphoneStatusOffline then emit (SalDeclineUnknown SalReasonTemporarilyUnavailable) core
     else if os \<in> {LinphoneStatusBusy, LinphoneStatusDoNotDisturb, LinphoneStatusAltService}
       then emit (SalDeclineUnknown SalReasonBusy) core
     else if os = LinphoneStatusMoved then (if contact = None then core else emit (SalDeclineUnknown SalReasonRedirect) core)
     else call_received cenv None caller to h core)"
proof -
  obtain t d where td: "status_activity os = Some (t, d)" using assms(2) by (cases os) simp_all
  have "m = info_presence (fe_presence_env env) t d contact"
    using assms(3) set_presence_info_model [OF assms(1) td] by simp
  then show ?thesis
    using td by (cases os) (auto simp: declined_by_info call_received_def)
qed

text \<open>A call that arrives while this side has moved without leaving a contact gets no answer.\<close>

lemma moved_without_contact_gives_no_answer:
  "call_received cenv (declined_by_presence (info_presence penv LinphonePresenceActivityPermanentAbsence d None)) caller to h core = core"
  by (simp add: declined_by_info call_received_def)

section \<open>Instances\<close>

definition ex_presence_env :: "string friend_env" where
  "ex_presence_env = \<lparr>fe_api = ex_addr, fe_accounts = (\<lambda>_. proxy_zero), fe_account_list = [], fe_default = None,
     fe_op_has_contact = (\<lambda>_. False), fe_presence_env = \<lparr>pr_now = 5, pr_random = (\<lambda>n. n), pr_address = 0\<rparr>,
     fe_ready = True, fe_uninit = 0\<rparr>"

definition ex_online :: "string friend_world" where
  "ex_online = \<lparr>fw_config = lp_config_zero, fw_store = (\<lambda>_. linphone_friend_blank), fw_next = 0, fw_freed = [],
     fw_friends = [], fw_subscribers = [], fw_presence_model = Some
       (linphone_presence_model_new_with_activity (fe_presence_env ex_presence_env) LinphonePresenceActivityOnline None),
     fw_minutes_away = 0, fw_initial_subscribes_sent = False, fw_bl_refresh = False, fw_next_op = 0, fw_released = [],
     fw_null = False, fw_trace = []\<rparr>"

definition ex_disturbed :: "string friend_world" where
  "ex_disturbed = linphone_core_set_presence_info ex_presence_env 0 None LinphoneStatusDoNotDisturb ex_online"

lemma presence_info_read_back_witness:
  "map_option linphone_core_get_presence_info (fw_presence_model ex_disturbed) = Some LinphoneStatusDoNotDisturb
    \<and> linphone_friend_get_status ((linphone_friend_blank :: string lin_friend)\<lparr>fr_presence := fw_presence_model ex_disturbed\<rparr>) = LinphoneStatusBusy"
  using presence_info_read_back [of ex_online LinphoneStatusDoNotDisturb
      "(linphone_friend_blank :: string lin_friend)\<lparr>fr_presence := fw_presence_model ex_disturbed\<rparr>" ex_disturbed ex_presence_env 0 None]
  by (simp add: ex_disturbed_def ex_online_def)

lemma presence_decides_over_calls_witness:
  "\<exists>m. fw_presence_model ex_disturbed = Some m
    \<and> (\<forall>cenv caller to h core. call_received cenv (declined_by_presence m) caller to h core = emit (SalDeclineUnknown SalReasonBusy) core)"
proof -
  have "fw_presence_model ex_disturbed \<noteq> None"
    using set_presence_info_model [of ex_online LinphoneStatusDoNotDisturb _ _ ex_presence_env 0 None]
    by (simp add: ex_disturbed_def ex_online_def)
  then obtain m where "fw_presence_model ex_disturbed = Some m" by blast
  with presence_decides_over_calls [of ex_online LinphoneStatusDoNotDisturb ex_presence_env 0 None m] show ?thesis
    by (simp add: ex_disturbed_def ex_online_def)
qed

end
