(* ===== verification/Accounts.thy ===== *)
theory Accounts
  imports FriendProps Reasons
begin

text \<open>
The accounts of the core (\<open>proxy.c\<close>, \<open>linphonecore.c\<close>): the list, the default account, the
accounts that are removed but not yet forgotten, what the network does to them, and the store.
An account is a number; its own life is the world of \<open>ProxyRegister\<close>, and what the rest of
the program does when it asks for it (the accounts are saved, the friends updated) is done here.
The friends and the store of the core are those of \<open>Friends\<close>.
\<close>

section \<open>State\<close>

datatype account_action =
    AccNetworkReachable bool | AccResetTransports | AccResolveStun | AccDisplayStatus nat

record 'a account_core =
  ac_friends :: "'a friend_world"
  ac_store :: "nat \<Rightarrow> 'a proxy_world"
  ac_next :: nat
  ac_refcnt :: "nat \<Rightarrow> int"
  ac_freed :: "nat list"
  ac_proxies :: "nat list"
  ac_deleted :: "nat list"
  ac_deletion_date :: "nat \<Rightarrow> int"
  ac_default :: "nat option"
  ac_network_reachable :: bool
  ac_network_to_be_notified :: bool
  ac_netup_time :: int
  ac_auto_net_state_mon :: bool
  ac_network_last_status :: bool
  ac_network_last_check :: int
  ac_localip :: string
  ac_trace :: "account_action list"

record 'a account_env =
  av_proxy :: "'a proxy_env"
  av_friend :: "'a friend_env"
  av_now :: int
  av_local_ip :: string

definition ac_config :: "'a account_core \<Rightarrow> lp_config" where
  "ac_config w = fw_config (ac_friends w)"

definition ac_cfg :: "'a account_core \<Rightarrow> nat \<Rightarrow> 'a proxy_config" where
  "ac_cfg w c = pw_cfg (ac_store w c)"

definition with_config :: "(lp_config \<Rightarrow> lp_config) \<Rightarrow> 'a account_core \<Rightarrow> 'a account_core" where
  "with_config f w = w\<lparr>ac_friends := (ac_friends w)\<lparr>fw_config := f (ac_config w)\<rparr>\<rparr>"

definition acc_emit :: "account_action \<Rightarrow> 'a account_core \<Rightarrow> 'a account_core" where
  "acc_emit a w = w\<lparr>ac_trace := ac_trace w @ [a]\<rparr>"

text \<open>What the accounts are to the friends, and the core to an account.\<close>

definition friend_env_of :: "'a account_env \<Rightarrow> 'a account_core \<Rightarrow> 'a friend_env" where
  "friend_env_of av w = (av_friend av)\<lparr>fe_accounts := ac_cfg w, fe_account_list := ac_proxies w, fe_default := ac_default w\<rparr>"

definition proxy_env_of :: "'a account_env \<Rightarrow> 'a account_core \<Rightarrow> 'a proxy_env" where
  "proxy_env_of av w = (av_proxy av)\<lparr>pe_network_reachable := ac_network_reachable w,
     pe_subscribe_friends_only_when_registered :=
       linphone_core_should_subscribe_friends_only_when_registered (friend_env_of av w) (ac_friends w)\<rparr>"

definition api_of :: "'a account_env \<Rightarrow> 'a addr_api" where
  "api_of av = fe_api (av_friend av)"

section \<open>Storage\<close>

definition linphone_core_get_default_proxy_config_index :: "'a account_core \<Rightarrow> int" where
  "linphone_core_get_default_proxy_config_index w = (case ac_default w of None \<Rightarrow> -1
     | Some c \<Rightarrow> (case first_index (\<lambda>x. x = c) 0 (ac_proxies w) of None \<Rightarrow> -1 | Some k \<Rightarrow> int k))"

fun write_accounts_from :: "lp_config \<Rightarrow> 'a proxy_config list \<Rightarrow> int \<Rightarrow> lp_config" where
  "write_accounts_from config [] i = linphone_proxy_config_write_to_config_file config (None :: 'a proxy_config option) i"
| "write_accounts_from config (cfg # cfgs) i =
     write_accounts_from (linphone_proxy_config_write_to_config_file config (Some cfg) i) cfgs (i + 1)"

definition linphone_proxy_config_write_all_to_config_file :: "'a account_env \<Rightarrow> 'a account_core \<Rightarrow> 'a account_core" where
  "linphone_proxy_config_write_all_to_config_file av w = (if \<not> fe_ready (av_friend av) then w
     else with_config (\<lambda>config. lp_config_set_int (write_accounts_from config (map (ac_cfg w) (ac_proxies w)) 0)
       ''sip'' ''default_proxy'' (linphone_core_get_default_proxy_config_index w)) w)"

section \<open>An operation on one account\<close>

definition account_effect :: "'a account_env \<Rightarrow> nat \<Rightarrow> 'a proxy_action \<Rightarrow> 'a account_core \<Rightarrow> 'a account_core" where
  "account_effect av c a w = (case a of
     ActSaveAccounts \<Rightarrow> linphone_proxy_config_write_all_to_config_file av w
   | ActUpdateFriends \<Rightarrow> w\<lparr>ac_friends := linphone_core_update_friends_subscriptions (friend_env_of av w) (Some c) True (ac_friends w)\<rparr>
   | _ \<Rightarrow> w)"

definition account_do :: "'a account_env \<Rightarrow> nat \<Rightarrow> ('a proxy_world \<Rightarrow> 'a proxy_world) \<Rightarrow> 'a account_core \<Rightarrow> 'a account_core" where
  "account_do av c f w = (let before = ac_store w c; after = f before
     in fold (account_effect av c) (drop (length (pw_trace before)) (pw_trace after)) (w\<lparr>ac_store := (ac_store w)(c := after)\<rparr>))"

text \<open>An account made by the application or read from the store.\<close>

definition new_account :: "'a proxy_config \<Rightarrow> 'a account_core \<Rightarrow> nat \<times> 'a account_core" where
  "new_account cfg w = (ac_next w, w\<lparr>ac_next := Suc (ac_next w),
     ac_store := (ac_store w)(ac_next w := proxy_start cfg), ac_refcnt := (ac_refcnt w)(ac_next w := 1)\<rparr>)"

definition linphone_proxy_config_ref :: "nat \<Rightarrow> 'a account_core \<Rightarrow> 'a account_core" where
  "linphone_proxy_config_ref c w = w\<lparr>ac_refcnt := (ac_refcnt w)(c := ac_refcnt w c + 1)\<rparr>"

definition linphone_proxy_config_destroy :: "'a account_env \<Rightarrow> nat \<Rightarrow> 'a account_core \<Rightarrow> 'a account_core" where
  "linphone_proxy_config_destroy av c w = (let w = account_do av c linphone_proxy_config_release_ops w
     in w\<lparr>ac_freed := c # ac_freed w\<rparr>)"

definition linphone_proxy_config_unref :: "'a account_env \<Rightarrow> nat \<Rightarrow> 'a account_core \<Rightarrow> 'a account_core" where
  "linphone_proxy_config_unref av c w = (let w = w\<lparr>ac_refcnt := (ac_refcnt w)(c := ac_refcnt w c - 1)\<rparr>
     in if ac_refcnt w c = 0 then linphone_proxy_config_destroy av c w else w)"

definition linphone_proxy_config_release :: "'a account_env \<Rightarrow> nat \<Rightarrow> 'a account_core \<Rightarrow> 'a account_core" where
  "linphone_proxy_config_release av c w =
     linphone_proxy_config_unref av c (account_do av c linphone_proxy_config_release_ops w)"

section \<open>The list\<close>

definition linphone_core_add_proxy_config :: "'a account_env \<Rightarrow> nat \<Rightarrow> 'a account_core \<Rightarrow> 'a account_core \<times> int" where
  "linphone_core_add_proxy_config av c w =
     (if \<not> linphone_proxy_config_check (ac_cfg w c) then (w, -1)
      else if c \<in> set (ac_proxies w) then (w, 0)
      else (let w = (linphone_proxy_config_ref c w)\<lparr>ac_proxies := ac_proxies w @ [c]\<rparr>
        in (account_do av c (\<lambda>p. fst (linphone_proxy_config_done (api_of av) p)) w, 0)))"

text \<open>The unregistration of an account that is registered, on its way out.\<close>

definition unregister_removed :: "'a account_env \<Rightarrow> nat \<Rightarrow> 'a account_core \<Rightarrow> 'a account_core" where
  "unregister_removed av c w = (let
     w = account_do av c (linphone_proxy_config_edit (api_of av)) w;
     w = account_do av c (upd (\<lambda>cfg. linphone_proxy_config_enableregister cfg 0)) w;
     w = account_do av c (\<lambda>p. fst (linphone_proxy_config_done (api_of av) p)) w
   in account_do av c (linphone_proxy_config_update (api_of av) (proxy_env_of av w)) w)"

definition linphone_core_remove_proxy_config :: "'a account_env \<Rightarrow> nat \<Rightarrow> 'a account_core \<Rightarrow> 'a account_core" where
  "linphone_core_remove_proxy_config av c w = (if c \<notin> set (ac_proxies w) then w
     else (let
       w = w\<lparr>ac_proxies := remove1 c (ac_proxies w), ac_deleted := ac_deleted w @ [c],
             ac_deletion_date := (ac_deletion_date w)(c := av_now av)\<rparr>;
       w = (if pc_state (ac_cfg w c) = RegistrationOk then unregister_removed av c w else w);
       w = (if ac_default w = Some c then w\<lparr>ac_default := None\<rparr> else w)
     in linphone_proxy_config_write_all_to_config_file av w))"

definition linphone_core_clear_proxy_config :: "'a account_env \<Rightarrow> 'a account_core \<Rightarrow> 'a account_core" where
  "linphone_core_clear_proxy_config av w =
     linphone_proxy_config_write_all_to_config_file av (fold (linphone_core_remove_proxy_config av) (ac_proxies w) w)"

definition linphone_core_set_default_proxy_config :: "'a account_env \<Rightarrow> nat option \<Rightarrow> 'a account_core \<Rightarrow> 'a account_core" where
  "linphone_core_set_default_proxy_config av config w =
     (if (case config of None \<Rightarrow> False | Some c \<Rightarrow> c \<notin> set (ac_proxies w)) then w\<lparr>ac_default := None\<rparr>
      else (let w = w\<lparr>ac_default := config\<rparr> in if fe_ready (av_friend av)
        then with_config (\<lambda>config. lp_config_set_int config ''sip'' ''default_proxy'' (linphone_core_get_default_proxy_config_index w)) w
        else w))"

definition linphone_core_set_default_proxy_index :: "'a account_env \<Rightarrow> int \<Rightarrow> 'a account_core \<Rightarrow> 'a account_core" where
  "linphone_core_set_default_proxy_index av index w = linphone_core_set_default_proxy_config av
     (if index < 0 then None else if nat index < length (ac_proxies w) then Some (ac_proxies w ! nat index) else None) w"

text \<open>Reading the accounts when the core starts: until a section is missing.  \<^const>\<open>None\<close> is a number
  out of range or the end of the fuel.\<close>

fun read_accounts :: "'a account_env \<Rightarrow> nat \<Rightarrow> int \<Rightarrow> 'a account_core \<Rightarrow> 'a account_core option" where
  "read_accounts av 0 i w = None"
| "read_accounts av (Suc fuel) i w = (case linphone_proxy_config_new_from_config_file (api_of av) (ac_config w) i of
     None \<Rightarrow> None
   | Some None \<Rightarrow> Some w
   | Some (Some cfg) \<Rightarrow> (case new_account cfg w of (c, w) \<Rightarrow>
       read_accounts av fuel (i + 1) (linphone_proxy_config_unref av c (fst (linphone_core_add_proxy_config av c w)))))"

definition sip_config_read_accounts :: "'a account_env \<Rightarrow> nat \<Rightarrow> 'a account_core \<Rightarrow> 'a account_core option" where
  "sip_config_read_accounts av fuel w = (case read_accounts av fuel 0 w of None \<Rightarrow> None
     | Some w \<Rightarrow> Option.bind (lp_config_get_int (ac_config w) ''sip'' ''default_proxy'' (-1))
         (\<lambda>index. Some (linphone_core_set_default_proxy_index av index w)))"

section \<open>The main loop and the network\<close>

definition forget_deleted :: "'a account_env \<Rightarrow> nat \<Rightarrow> 'a account_core \<Rightarrow> 'a account_core" where
  "forget_deleted av c w = (if av_now av - ac_deletion_date w c > 32 then (let
       w = w\<lparr>ac_deleted := remove1 c (ac_deleted w)\<rparr>;
       w = account_do av c linphone_proxy_config_release_ops w
     in linphone_proxy_config_unref av c w) else w)"

definition proxy_update :: "'a account_env \<Rightarrow> 'a account_core \<Rightarrow> 'a account_core" where
  "proxy_update av w = (let
     w = fold (\<lambda>c w. account_do av c (linphone_proxy_config_update (api_of av) (proxy_env_of av w)) w) (ac_proxies w) w
   in fold (forget_deleted av) (ac_deleted w) w)"

definition network_change :: "'a account_env \<Rightarrow> bool \<Rightarrow> nat \<Rightarrow> 'a account_core \<Rightarrow> 'a account_core" where
  "network_change av isReachable c w = (if truth (pc_reg_sendregister (ac_cfg w c)) then
     (if \<not> isReachable then account_do av c (linphone_proxy_config_set_state (proxy_env_of av w) RegistrationNone)
        (account_do av c linphone_proxy_config_stop_refreshing w)
      else account_do av c (upd (\<lambda>cfg. cfg\<lparr>pc_commit := True\<rparr>)) w)
   else w)"

definition set_network_reachable :: "'a account_env \<Rightarrow> bool \<Rightarrow> 'a account_core \<Rightarrow> 'a account_core" where
  "set_network_reachable av isReachable w = (if ac_network_reachable w = isReachable then w else (let
     w = w\<lparr>ac_network_to_be_notified := True\<rparr>;
     w = fold (network_change av isReachable) (ac_proxies w) w;
     w = w\<lparr>ac_netup_time := av_now av, ac_network_reachable := isReachable\<rparr>
   in if \<not> isReachable
      then acc_emit AccResetTransports (w\<lparr>ac_friends :=
        linphone_core_invalidate_friend_subscriptions (friend_env_of av w) (ac_friends w)\<rparr>)
      else acc_emit AccResolveStun w))"

definition linphone_core_set_network_reachable :: "'a account_env \<Rightarrow> bool \<Rightarrow> 'a account_core \<Rightarrow> 'a account_core" where
  "linphone_core_set_network_reachable av isReachable w =
     set_network_reachable av isReachable (w\<lparr>ac_auto_net_state_mon := False\<rparr>)"

text \<open>The address found for this machine tells whether there is a network.\<close>

definition monitor_network_state :: "'a account_env \<Rightarrow> 'a account_core \<Rightarrow> 'a account_core" where
  "monitor_network_state av w =
     (if ac_network_last_check w = 0 \<or> av_now av - ac_network_last_check w \<ge> 5 then (let
        newip = av_local_ip av;
        new_status = (newip \<noteq> ''::1'' \<and> newip \<noteq> ''127.0.0.1'');
        w = (if new_status = ac_network_last_status w \<and> new_status \<and> newip \<noteq> ac_localip w
             then (set_network_reachable av False w)\<lparr>ac_network_last_status := False\<rparr> else w);
        w = w\<lparr>ac_localip := strncpy 64 newip\<rparr>;
        w = (if new_status \<noteq> ac_network_last_status w
             then (set_network_reachable av new_status w)\<lparr>ac_network_last_status := new_status\<rparr> else w)
      in w\<lparr>ac_network_last_check := av_now av\<rparr>)
      else w)"

definition notify_network :: "'a account_core \<Rightarrow> 'a account_core" where
  "notify_network w = (if ac_network_to_be_notified w
     then acc_emit (AccNetworkReachable (ac_network_reachable w)) (w\<lparr>ac_network_to_be_notified := False\<rparr>) else w)"

definition linphone_core_refresh_registers :: "'a account_env \<Rightarrow> 'a account_core \<Rightarrow> 'a account_core" where
  "linphone_core_refresh_registers av w = (if \<not> ac_network_reachable w then w
     else fold (\<lambda>c w. if truth (pc_reg_sendregister (ac_cfg w c)) \<and> pc_expires (ac_cfg w c) > 0
       then account_do av c (linphone_proxy_config_refresh_register (proxy_env_of av w)) w else w) (ac_proxies w) w)"

definition linphone_core_invalidate_registers :: "'a account_env \<Rightarrow> 'a account_core \<Rightarrow> 'a account_core" where
  "linphone_core_invalidate_registers av w = fold (\<lambda>c w. if truth (pc_reg_sendregister (ac_cfg w c))
     then account_do av c (\<lambda>p. fst (linphone_proxy_config_done (api_of av) p)) (account_do av c (linphone_proxy_config_edit (api_of av)) w)
     else w) (ac_proxies w) w"

section \<open>Answers of the registrar\<close>

text \<open>The account is the one the operation points back to; none, once it was removed.\<close>

definition register_success :: "'a account_env \<Rightarrow> nat option \<Rightarrow> bool \<Rightarrow> 'a account_core \<Rightarrow> 'a account_core" where
  "register_success av cfg registered w = (case cfg of None \<Rightarrow> w
     | Some c \<Rightarrow> acc_emit (AccDisplayStatus c) (account_do av c (linphone_proxy_config_set_state (proxy_env_of av w)
         (if registered then RegistrationOk else RegistrationCleared)) w))"

definition register_failure :: "'a account_env \<Rightarrow> nat option \<Rightarrow> sal_reason \<Rightarrow> 'a account_core \<Rightarrow> 'a account_core" where
  "register_failure av cfg reason w = (case cfg of None \<Rightarrow> w
     | Some c \<Rightarrow> (let
         w = acc_emit (AccDisplayStatus c) w;
         st = (if (reason = SalReasonServiceUnavailable \<or> reason = SalReasonIOError) \<and> pc_state (ac_cfg w c) = RegistrationOk
           then RegistrationProgress else RegistrationFailed);
         w = account_do av c (linphone_proxy_config_set_state (proxy_env_of av w) st) w
       in if pc_publish_op (ac_cfg w c) \<noteq> None
          then account_do av c (\<lambda>p. upd (\<lambda>cfg. cfg\<lparr>pc_send_publish := truth (pc_publish cfg)\<rparr>) (release_publish_op p)) w
          else w))"

section \<open>Shutdown\<close>

definition sip_config_uninit_accounts :: "'a account_env \<Rightarrow> 'a account_core \<Rightarrow> 'a account_core" where
  "sip_config_uninit_accounts av w = (let
     w = (if ac_network_reachable w
          then fold (\<lambda>c. account_do av c linphone_proxy_config_unregister) (ac_proxies w) w else w);
     w = (fold (linphone_proxy_config_release av) (ac_proxies w) w)\<lparr>ac_proxies := []\<rparr>
   in (fold (linphone_proxy_config_release av) (ac_deleted w) w)\<lparr>ac_deleted := []\<rparr>)"

end
