(* ===== verification/AccountProps.thy ===== *)
theory AccountProps
  imports Accounts ProxyRegister
begin

text \<open>
The accounts of the core in every state that the application, the main loop, the network, the
registrars and the friends can lead to: which accounts there are, who holds them, and that their
operations are released with them.
\<close>

section \<open>The invariant\<close>

definition account_alive :: "nat \<Rightarrow> 'a account_core \<Rightarrow> bool" where
  "account_alive c w \<longleftrightarrow> c < ac_next w \<and> c \<notin> set (ac_freed w)"

text \<open>The references of the two lists of the core.\<close>

definition core_refs :: "'a account_core \<Rightarrow> nat \<Rightarrow> nat" where
  "core_refs w c = count_list (ac_proxies w) c + count_list (ac_deleted w) c"

definition account_ok :: "'a account_core \<Rightarrow> nat \<Rightarrow> bool" where
  "account_ok w c \<longleftrightarrow> (0 < core_refs w c \<longrightarrow> account_alive c w)
     \<and> (account_alive c w \<longrightarrow> 0 < ac_refcnt w c \<and> int (core_refs w c) \<le> ac_refcnt w c)
     \<and> (c < ac_next w \<longrightarrow> ops_ok (ac_store w c))
     \<and> (c \<in> set (ac_freed w) \<longrightarrow> c < ac_next w \<and> held (ac_cfg w c) = {})"

text \<open>The default account is one of the list; only while an account is being removed it may be that one.\<close>

definition accounts_ok :: "nat set \<Rightarrow> 'a account_core \<Rightarrow> bool" where
  "accounts_ok X w \<longleftrightarrow> friends_ok (ac_friends w) \<and> distinct (ac_proxies w)
     \<and> (\<forall>d. ac_default w = Some d \<longrightarrow> d \<in> set (ac_proxies w) \<union> X) \<and> distinct (ac_freed w) \<and> (\<forall>c. account_ok w c)"

lemma accounts_okD:
  assumes "accounts_ok X w"
  shows "friends_ok (ac_friends w)" "distinct (ac_proxies w)" "ac_default w = Some d \<Longrightarrow> d \<in> set (ac_proxies w) \<union> X"
    "distinct (ac_freed w)" "account_ok w c"
  using assms by (simp_all add: accounts_ok_def)

lemma count_pos: "0 < count_list xs x \<longleftrightarrow> x \<in> set xs"
  by (induction xs) auto

lemma in_core_refs: "0 < core_refs w c \<longleftrightarrow> c \<in> set (ac_proxies w) \<or> c \<in> set (ac_deleted w)"
  by (simp add: core_refs_def count_pos add_gr_0)

lemma listed_alive: "accounts_ok X w \<Longrightarrow> c \<in> set (ac_proxies w) \<or> c \<in> set (ac_deleted w) \<Longrightarrow> account_alive c w"
  using accounts_okD(5) [of X w c] in_core_refs [of w c] by (simp add: account_ok_def)

text \<open>The invariant sees only some fields, and the friends only through their own.\<close>

lemma accounts_ok_cong:
  assumes "accounts_ok X w" "friends_ok (ac_friends v)" "ac_store v = ac_store w" "ac_next v = ac_next w" "ac_refcnt v = ac_refcnt w"
    "ac_freed v = ac_freed w" "ac_proxies v = ac_proxies w" "ac_deleted v = ac_deleted w" "ac_default v = ac_default w"
  shows "accounts_ok X v"
  using assms by (simp add: accounts_ok_def account_ok_def account_alive_def core_refs_def ac_cfg_def)

section \<open>The store and the friends\<close>

lemma proxy_section_not_sip [simp]: "proxy_section i \<noteq> ''sip''" "''sip'' \<noteq> proxy_section i"
  by (simp_all add: proxy_section_def)

lemma write_accounts_sip:
  "lp_ok c \<Longrightarrow> lp_ok (write_accounts_from c cfgs i) \<and> lp_contents (write_accounts_from c cfgs i) (''sip'', n) = lp_contents c (''sip'', n)"
proof (induction cfgs arbitrary: c i)
  case Nil
  then show ?case using clean_section_laws [of c "proxy_section i"]
    by (simp add: linphone_proxy_config_write_to_config_file_def Let_def)
next
  case (Cons f fs)
  then show ?case using written_account [OF Cons.prems, where obj = f and index = i] by simp
qed

lemma set_int_contents:
  assumes "lp_ok c"
  shows "lp_ok (lp_config_set_int c s k i)"
    "lp_contents (lp_config_set_int c s k i) e = (if e = (s, k) then present (Some (tmp30 (show_int i))) else lp_contents c e)"
  using assms by (auto simp: lp_config_set_int_def lp_contents_def lp.contents_put [unfolded lp.contents_def] lp.put_inv)

lemma default_index_config_ok [simp]: "config_ok c \<Longrightarrow> config_ok (lp_config_set_int c ''sip'' ''default_proxy'' i)"
  by (simp add: config_ok_def set_int_contents)

lemma write_accounts_config_ok [simp]: "config_ok c \<Longrightarrow> config_ok (write_accounts_from c cfgs i)"
  by (simp add: config_ok_def write_accounts_sip)

lemma with_config_ok: "accounts_ok X w \<Longrightarrow> config_ok (f (ac_config w)) \<Longrightarrow> accounts_ok X (with_config f w)"
  by (rule accounts_ok_cong [where w = w]) (simp_all add: with_config_def accounts_okD(1))

lemma ac_config_ok [simp]: "accounts_ok X w \<Longrightarrow> config_ok (ac_config w)"
  by (simp add: ac_config_def friends_okD(1) accounts_okD(1))

lemma write_all_ok: "accounts_ok X w \<Longrightarrow> accounts_ok X (linphone_proxy_config_write_all_to_config_file av w)"
  by (simp add: linphone_proxy_config_write_all_to_config_file_def with_config_ok)

text \<open>Saving the accounts and changing the friends touch nothing else.\<close>

lemma same_accounts [simp]:
  "ac_store (with_config f w) = ac_store w" "ac_next (with_config f w) = ac_next w" "ac_refcnt (with_config f w) = ac_refcnt w"
  "ac_freed (with_config f w) = ac_freed w" "ac_proxies (with_config f w) = ac_proxies w" "ac_deleted (with_config f w) = ac_deleted w"
  "ac_deletion_date (with_config f w) = ac_deletion_date w"
  "ac_default (with_config f w) = ac_default w" "ac_network_reachable (with_config f w) = ac_network_reachable w"
  "ac_cfg (with_config f w) = ac_cfg w"
  by (simp_all add: with_config_def ac_cfg_def fun_eq_iff)

lemma write_all_frame [simp]:
  "ac_store (linphone_proxy_config_write_all_to_config_file av w) = ac_store w"
  "ac_next (linphone_proxy_config_write_all_to_config_file av w) = ac_next w"
  "ac_refcnt (linphone_proxy_config_write_all_to_config_file av w) = ac_refcnt w"
  "ac_freed (linphone_proxy_config_write_all_to_config_file av w) = ac_freed w"
  "ac_proxies (linphone_proxy_config_write_all_to_config_file av w) = ac_proxies w"
  "ac_deleted (linphone_proxy_config_write_all_to_config_file av w) = ac_deleted w"
  "ac_deletion_date (linphone_proxy_config_write_all_to_config_file av w) = ac_deletion_date w"
  "ac_default (linphone_proxy_config_write_all_to_config_file av w) = ac_default w"
  "ac_network_reachable (linphone_proxy_config_write_all_to_config_file av w) = ac_network_reachable w"
  "ac_cfg (linphone_proxy_config_write_all_to_config_file av w) = ac_cfg w"
  by (simp_all add: linphone_proxy_config_write_all_to_config_file_def)

lemma account_effect_frame:
  "ac_store (account_effect av c a w) = ac_store w \<and> ac_next (account_effect av c a w) = ac_next w
   \<and> ac_refcnt (account_effect av c a w) = ac_refcnt w \<and> ac_freed (account_effect av c a w) = ac_freed w
   \<and> ac_proxies (account_effect av c a w) = ac_proxies w \<and> ac_deleted (account_effect av c a w) = ac_deleted w
   \<and> ac_deletion_date (account_effect av c a w) = ac_deletion_date w
   \<and> ac_default (account_effect av c a w) = ac_default w \<and> ac_network_reachable (account_effect av c a w) = ac_network_reachable w"
  by (simp add: account_effect_def split: proxy_action.split)

lemma account_effects_frame:
  "ac_store (fold (account_effect av c) as w) = ac_store w \<and> ac_next (fold (account_effect av c) as w) = ac_next w
   \<and> ac_refcnt (fold (account_effect av c) as w) = ac_refcnt w \<and> ac_freed (fold (account_effect av c) as w) = ac_freed w
   \<and> ac_proxies (fold (account_effect av c) as w) = ac_proxies w \<and> ac_deleted (fold (account_effect av c) as w) = ac_deleted w
   \<and> ac_deletion_date (fold (account_effect av c) as w) = ac_deletion_date w
   \<and> ac_default (fold (account_effect av c) as w) = ac_default w
   \<and> ac_network_reachable (fold (account_effect av c) as w) = ac_network_reachable w"
  by (induction as arbitrary: w) (simp_all add: account_effect_frame)

lemma account_do_frame [simp]:
  "ac_store (account_do av c f w) = (ac_store w)(c := f (ac_store w c))" "ac_next (account_do av c f w) = ac_next w"
  "ac_refcnt (account_do av c f w) = ac_refcnt w" "ac_freed (account_do av c f w) = ac_freed w"
  "ac_proxies (account_do av c f w) = ac_proxies w" "ac_deleted (account_do av c f w) = ac_deleted w"
  "ac_deletion_date (account_do av c f w) = ac_deletion_date w"
  "ac_default (account_do av c f w) = ac_default w" "ac_network_reachable (account_do av c f w) = ac_network_reachable w"
  by (simp_all add: account_do_def Let_def account_effects_frame)

lemma account_do_cfg [simp]:
  "ac_cfg (account_do av c f w) d = (if d = c then pw_cfg (f (ac_store w c)) else ac_cfg w d)"
  by (simp add: ac_cfg_def)

lemma alive_frame [simp]:
  "account_alive c (account_do av d f w) = account_alive c w"
  "account_alive c (linphone_proxy_config_write_all_to_config_file av w) = account_alive c w"
  by (simp_all add: account_alive_def)

lemma account_effects_friends_ok:
  "friends_ok (ac_friends w) \<Longrightarrow> friends_ok (ac_friends (fold (account_effect av c) as w))"
proof (induction as arbitrary: w)
  case (Cons a as)
  have "friends_ok (ac_friends (account_effect av c a w))"
    using Cons.prems by (auto simp: account_effect_def linphone_proxy_config_write_all_to_config_file_def with_config_def
      update_subscriptions_ok ac_config_def friends_okD(1) split: proxy_action.split)
  then show ?case using Cons.IH by simp
qed simp

lemma account_do_ok:
  assumes "accounts_ok X w" "account_alive c w" "ops_ok (ac_store w c) \<Longrightarrow> ops_ok (f (ac_store w c))"
  shows "accounts_ok X (account_do av c f w)"
proof -
  have "friends_ok (ac_friends (account_do av c f w))"
    unfolding account_do_def Let_def by (rule account_effects_friends_ok) (simp add: accounts_okD(1) [OF assms(1)])
  moreover have "account_ok (account_do av c f w) d" for d
    using accounts_okD(5) [OF assms(1), of d] assms(2,3) by (auto simp: account_ok_def account_alive_def core_refs_def)
  ultimately show ?thesis using accounts_okD(2-4) [OF assms(1)] by (simp add: accounts_ok_def)
qed

section \<open>References\<close>

lemma release_ops_ok: "ops_ok p \<Longrightarrow> ops_ok (linphone_proxy_config_release_ops p)"
  by (simp add: linphone_proxy_config_release_ops_def release_op_ok release_publish_op_ok)

lemma release_ops_held: "held (pw_cfg (linphone_proxy_config_release_ops p)) = {}"
  by (simp add: linphone_proxy_config_release_ops_def release_op_def release_publish_op_def held_def proxy_world_simps
    split: option.split)

lemma new_account_ok: "accounts_ok X w \<Longrightarrow> accounts_ok X (snd (new_account cfg w))"
proof -
  assume w: "accounts_ok X w"
  have new: "core_refs w (ac_next w) = 0" "ac_next w \<notin> set (ac_freed w)"
    using accounts_okD(5) [OF w, of "ac_next w"] by (auto simp: account_ok_def account_alive_def)
  have "account_ok (snd (new_account cfg w)) c" for c
    using accounts_okD(5) [OF w, of c] new
    by (auto simp: account_ok_def account_alive_def core_refs_def new_account_def ac_cfg_def ops_ok_def proxy_start_def held_def less_Suc_eq)
  with accounts_okD(1-4) [OF w] show ?thesis by (simp add: accounts_ok_def) (simp add: new_account_def)
qed

lemma ref_ok: "accounts_ok X w \<Longrightarrow> accounts_ok X (linphone_proxy_config_ref c w)"
  by (auto simp: accounts_ok_def account_ok_def account_alive_def core_refs_def ac_cfg_def linphone_proxy_config_ref_def)

lemma drop_ref_ok:
  assumes "accounts_ok X w" "account_alive c w" "int (core_refs w c) < ac_refcnt w c" "ac_refcnt w c \<noteq> 1"
  shows "accounts_ok X (w\<lparr>ac_refcnt := (ac_refcnt w)(c := ac_refcnt w c - 1)\<rparr>)"
  using assms by (auto simp: accounts_ok_def account_ok_def account_alive_def core_refs_def ac_cfg_def)

lemma refcnt_swap:
  "w\<lparr>ac_refcnt := r, ac_friends := f\<rparr> = w\<lparr>ac_friends := f, ac_refcnt := r\<rparr>"
  "w\<lparr>ac_refcnt := r, ac_store := s\<rparr> = w\<lparr>ac_store := s, ac_refcnt := r\<rparr>"
  by (cases w, simp)+

lemma account_effect_refcnt: "account_effect av c a (w\<lparr>ac_refcnt := r\<rparr>) = (account_effect av c a w)\<lparr>ac_refcnt := r\<rparr>"
proof -
  have "ac_cfg (w\<lparr>ac_refcnt := r\<rparr>) = ac_cfg w" by (simp add: ac_cfg_def fun_eq_iff)
  moreover have "linphone_core_get_default_proxy_config_index (w\<lparr>ac_refcnt := r\<rparr>) = linphone_core_get_default_proxy_config_index w"
    by (cases "ac_default w") (simp_all add: linphone_core_get_default_proxy_config_index_def)
  ultimately show ?thesis
    by (simp add: account_effect_def linphone_proxy_config_write_all_to_config_file_def with_config_def ac_config_def
      friend_env_of_def refcnt_swap split: proxy_action.split)
qed

lemma account_do_refcnt: "account_do av c f (w\<lparr>ac_refcnt := r\<rparr>) = (account_do av c f w)\<lparr>ac_refcnt := r\<rparr>"
proof -
  have "fold (account_effect av c) as (v\<lparr>ac_refcnt := r\<rparr>) = (fold (account_effect av c) as v)\<lparr>ac_refcnt := r\<rparr>" for as v
    by (induction as arbitrary: v) (simp_all add: account_effect_refcnt)
  from this [of _ "w\<lparr>ac_store := (ac_store w)(c := f (ac_store w c))\<rparr>"] show ?thesis
    by (simp add: account_do_def Let_def refcnt_swap)
qed

lemma account_unref_ok:
  assumes "accounts_ok X w" "account_alive c w" "int (core_refs w c) < ac_refcnt w c"
  shows "accounts_ok X (linphone_proxy_config_unref av c w)"
proof (cases "ac_refcnt w c = 1")
  case False
  then show ?thesis using drop_ref_ok [OF assms] by (simp add: linphone_proxy_config_unref_def)
next
  case True
  define v where "v = account_do av c linphone_proxy_config_release_ops w"
  have v: "accounts_ok X v" unfolding v_def by (rule account_do_ok [OF assms(1,2)]) (rule release_ops_ok)
  have u: "linphone_proxy_config_unref av c w = v\<lparr>ac_refcnt := (ac_refcnt v)(c := 0), ac_freed := c # ac_freed v\<rparr>"
    (is "_ = ?v")
    using True by (simp add: linphone_proxy_config_unref_def linphone_proxy_config_destroy_def account_do_refcnt v_def)
  have none: "core_refs v c = 0" using assms(3) True by (simp add: v_def core_refs_def)
  have "c \<notin> set (ac_freed v)" "c < ac_next v" using assms(2) by (simp_all add: v_def account_alive_def)
  moreover have "held (ac_cfg v c) = {}" by (simp add: v_def release_ops_held)
  ultimately have "account_ok ?v d" for d
    using accounts_okD(5) [OF v, of d] none by (auto simp: account_ok_def account_alive_def core_refs_def ac_cfg_def)
  with accounts_okD(1-4) [OF v] \<open>c \<notin> set (ac_freed v)\<close> show ?thesis unfolding u by (simp add: accounts_ok_def)
qed

section \<open>Operations on the list\<close>

lemma commit_ok: "accounts_ok X w \<Longrightarrow> account_alive c w \<Longrightarrow>
    accounts_ok X (account_do av c (\<lambda>p. fst (linphone_proxy_config_done api p)) w)"
  by (rule account_do_ok) (simp_all add: done_ok)

lemma append_ok:
  assumes "accounts_ok X w" "account_alive c w" "c \<notin> set (ac_proxies w)"
  shows "accounts_ok X ((linphone_proxy_config_ref c w)\<lparr>ac_proxies := ac_proxies w @ [c]\<rparr>)"
proof -
  define v where "v = (linphone_proxy_config_ref c w)\<lparr>ac_proxies := ac_proxies w @ [c]\<rparr>"
  have "account_ok v d" for d
    using accounts_okD(5) [OF assms(1), of d] assms(2)
    by (auto simp: v_def account_ok_def account_alive_def core_refs_def ac_cfg_def linphone_proxy_config_ref_def)
  with accounts_okD(1-4) [OF assms(1)] assms(3) have "accounts_ok X v"
    by (auto simp: accounts_ok_def v_def linphone_proxy_config_ref_def)
  then show ?thesis by (simp add: v_def)
qed

lemma add_account_ok:
  assumes "accounts_ok X w" "account_alive c w"
  shows "accounts_ok X (fst (linphone_core_add_proxy_config av c w))"
  using assms commit_ok [OF append_ok [OF assms], where c = c and api = "api_of av" and av = av]
  by (simp add: linphone_core_add_proxy_config_def Let_def account_alive_def linphone_proxy_config_ref_def)

lemma keep_ops_ok: "accounts_ok X w \<Longrightarrow> account_alive c w \<Longrightarrow> keeps_ops f \<Longrightarrow> accounts_ok X (account_do av c (upd f) w)"
  by (rule account_do_ok) (simp_all add: ops_ok_upd keeps_ops_def)

lemma unregister_removed_ok: "accounts_ok X w \<Longrightarrow> account_alive c w \<Longrightarrow> accounts_ok X (unregister_removed av c w)"
  unfolding unregister_removed_def Let_def
  by (intro account_do_ok commit_ok keep_ops_ok) (simp_all add: edit_ok update_ok keeps_ops_def linphone_proxy_config_enableregister_def)

lemma unregister_removed_frame [simp]:
  "ac_next (unregister_removed av c w) = ac_next w" "ac_refcnt (unregister_removed av c w) = ac_refcnt w"
  "ac_freed (unregister_removed av c w) = ac_freed w" "ac_proxies (unregister_removed av c w) = ac_proxies w"
  "ac_deleted (unregister_removed av c w) = ac_deleted w" "ac_default (unregister_removed av c w) = ac_default w"
  "ac_deletion_date (unregister_removed av c w) = ac_deletion_date w"
  "ac_network_reachable (unregister_removed av c w) = ac_network_reachable w"
  by (simp_all add: unregister_removed_def Let_def)

text \<open>An account that leaves the list stays referenced by the list of the removed ones; the default
  account is forgotten with it.\<close>

lemma count_remove1: "count_list (remove1 x xs) y = (if x = y then count_list xs y - 1 else count_list xs y)"
  by (induction xs) (auto simp: count_pos [symmetric])

lemma remove_account_ok:
  assumes "accounts_ok X w"
  shows "accounts_ok X (linphone_core_remove_proxy_config av c w)"
proof (cases "c \<in> set (ac_proxies w)")
  case True
  define v where "v = w\<lparr>ac_proxies := remove1 c (ac_proxies w), ac_deleted := ac_deleted w @ [c],
     ac_deletion_date := (ac_deletion_date w)(c := av_now av)\<rparr>"
  have refs: "core_refs v d = core_refs w d" for d
    using True count_pos [of "ac_proxies w" c] by (auto simp: v_def core_refs_def count_remove1)
  have "account_ok v d" for d
    using accounts_okD(5) [OF assms, of d] unfolding account_ok_def refs by (simp add: v_def account_alive_def ac_cfg_def)
  with accounts_okD(1-4) [OF assms] have v: "accounts_ok (insert c X) v"
    by (auto simp: accounts_ok_def v_def)
  then have alive: "account_alive c v" by (rule listed_alive) (simp add: v_def)
  define u where "u = (if pc_state (ac_cfg v c) = RegistrationOk then unregister_removed av c v else v)"
  have u: "accounts_ok (insert c X) u" "ac_default u = ac_default w"
    using v alive by (simp_all add: u_def unregister_removed_ok v_def)
  have "accounts_ok X (if ac_default u = Some c then u\<lparr>ac_default := None\<rparr> else u)"
    using u(1) by (auto simp: accounts_ok_def account_ok_def account_alive_def core_refs_def ac_cfg_def)
  from write_all_ok [OF this] True show ?thesis
    unfolding linphone_core_remove_proxy_config_def Let_def v_def [symmetric] u_def [symmetric] by simp
next
  case False
  then show ?thesis using assms by (simp add: linphone_core_remove_proxy_config_def)
qed

lemma fold_accounts_ok:
  assumes "\<And>v c. accounts_ok X v \<Longrightarrow> c \<in> set cs \<Longrightarrow> \<forall>c \<in> set cs. account_alive c v \<Longrightarrow>
      accounts_ok X (g c v) \<and> (\<forall>d \<in> set cs. account_alive d (g c v))"
    and "accounts_ok X w" "\<forall>c \<in> set cs. account_alive c w"
  shows "accounts_ok X (fold g cs w)"
proof -
  have "set xs \<subseteq> set cs \<Longrightarrow> accounts_ok X v \<Longrightarrow> \<forall>c \<in> set cs. account_alive c v \<Longrightarrow>
      accounts_ok X (fold g xs v)" for xs v
  proof (induction xs arbitrary: v)
    case (Cons x xs)
    then show ?case using assms(1) [of v x] by simp
  qed simp
  then show ?thesis using assms(2,3) by simp
qed

lemma clear_ok: "accounts_ok X w \<Longrightarrow> accounts_ok X (linphone_core_clear_proxy_config av w)"
proof -
  assume w: "accounts_ok X w"
  have "accounts_ok X (fold (linphone_core_remove_proxy_config av) cs w)" for cs
    using w by (induction cs arbitrary: w) (simp_all add: remove_account_ok)
  then show ?thesis by (simp add: linphone_core_clear_proxy_config_def write_all_ok)
qed

lemma set_default_ok: "accounts_ok X w \<Longrightarrow> accounts_ok X (linphone_core_set_default_proxy_config av d w)"
proof -
  assume w: "accounts_ok X w"
  have "accounts_ok X (w\<lparr>ac_default := e\<rparr>)" if "\<forall>c. e = Some c \<longrightarrow> c \<in> set (ac_proxies w)" for e
    using w that by (auto simp: accounts_ok_def account_ok_def account_alive_def core_refs_def ac_cfg_def)
  then show ?thesis using w ac_config_ok
    by (auto simp: linphone_core_set_default_proxy_config_def Let_def intro!: with_config_ok default_index_config_ok split: option.splits)
qed

section \<open>The main loop and the network\<close>

text \<open>Forgetting the accounts removed long ago: what is left to do never asks for more entries of an
  account than there are.\<close>

lemma forget_ok:
  assumes "accounts_ok X w" "0 < count_list (ac_deleted w) c"
  shows "accounts_ok X (forget_deleted av c w)" "count_list (ac_deleted w) d - (if d = c then 1 else 0) \<le> count_list (ac_deleted (forget_deleted av c w)) d"
proof -
  define v where "v = w\<lparr>ac_deleted := remove1 c (ac_deleted w)\<rparr>"
  have alive: "account_alive c w" using assms by (auto simp: count_pos intro: listed_alive)
  have refs: "core_refs v d = core_refs w d - (if d = c then 1 else 0)" for d
    using assms(2) by (auto simp: v_def core_refs_def count_remove1)
  have ok: "account_ok w c" using accounts_okD(5) [OF assms(1)] .
  have "account_ok v d" for d
    using accounts_okD(5) [OF assms(1), of d] unfolding account_ok_def refs by (auto simp: v_def account_alive_def ac_cfg_def)
  with accounts_okD(1-4) [OF assms(1)] have v: "accounts_ok X v" by (simp add: accounts_ok_def v_def)
  define u where "u = account_do av c linphone_proxy_config_release_ops v"
  have u: "accounts_ok X u" "account_alive c u" unfolding u_def
    using v alive account_do_ok [OF v, of c linphone_proxy_config_release_ops] by (simp_all add: release_ops_ok v_def account_alive_def)
  have "core_refs u c = core_refs w c - 1" using refs [of c] by (simp add: u_def core_refs_def)
  then have "int (core_refs u c) < ac_refcnt u c"
    using ok alive assms(2) by (auto simp: account_ok_def u_def v_def core_refs_def)
  from account_unref_ok [OF u this] assms(1) show "accounts_ok X (forget_deleted av c w)"
    by (simp add: forget_deleted_def Let_def u_def v_def)
  show "count_list (ac_deleted w) d - (if d = c then 1 else 0) \<le> count_list (ac_deleted (forget_deleted av c w)) d"
    by (simp add: forget_deleted_def Let_def count_remove1 linphone_proxy_config_unref_def linphone_proxy_config_destroy_def)
qed

lemma forget_all_ok:
  assumes "accounts_ok X w" "\<And>c. count_list cs c \<le> count_list (ac_deleted w) c"
  shows "accounts_ok X (fold (forget_deleted av) cs w)"
  using assms
proof (induction cs arbitrary: w)
  case (Cons c cs)
  have pos: "0 < count_list (ac_deleted w) c" using Cons.prems(2) [of c] by simp
  have "count_list cs d \<le> count_list (ac_deleted (forget_deleted av c w)) d" for d
    using forget_ok(2) [OF Cons.prems(1) pos, of d av] Cons.prems(2) [of d] by (auto split: if_splits)
  with Cons.IH forget_ok(1) [OF Cons.prems(1) pos] show ?case by simp
qed simp

lemma proxy_update_ok: "accounts_ok X w \<Longrightarrow> accounts_ok X (proxy_update av w)"
proof -
  assume w: "accounts_ok X w"
  have "accounts_ok X (fold (\<lambda>c w. account_do av c (linphone_proxy_config_update (api_of av) (proxy_env_of av w)) w) (ac_proxies w) w)"
    by (rule fold_accounts_ok) (use w listed_alive [OF w] in \<open>simp_all add: account_do_ok update_ok\<close>)
  then show ?thesis by (simp add: proxy_update_def Let_def forget_all_ok)
qed

lemma network_state_ok: "accounts_ok X w \<Longrightarrow> friends_ok f \<Longrightarrow> accounts_ok X (w\<lparr>ac_friends := f\<rparr>)"
  "accounts_ok X w \<Longrightarrow> accounts_ok X (w\<lparr>ac_network_reachable := b\<rparr>)" "accounts_ok X w \<Longrightarrow> accounts_ok X (w\<lparr>ac_network_to_be_notified := b\<rparr>)"
  "accounts_ok X w \<Longrightarrow> accounts_ok X (w\<lparr>ac_netup_time := t\<rparr>)" "accounts_ok X w \<Longrightarrow> accounts_ok X (w\<lparr>ac_auto_net_state_mon := b\<rparr>)"
  "accounts_ok X w \<Longrightarrow> accounts_ok X (w\<lparr>ac_network_last_status := b\<rparr>)" "accounts_ok X w \<Longrightarrow> accounts_ok X (w\<lparr>ac_network_last_check := t\<rparr>)"
  "accounts_ok X w \<Longrightarrow> accounts_ok X (w\<lparr>ac_localip := s\<rparr>)" "accounts_ok X w \<Longrightarrow> accounts_ok X (acc_emit a w)"
  by (rule accounts_ok_cong [where w = w]; simp add: accounts_okD(1) acc_emit_def)+

lemma network_change_ok:
  assumes "accounts_ok X w" "account_alive c w"
  shows "accounts_ok X (network_change av r c w)"
proof -
  define v where "v = account_do av c linphone_proxy_config_stop_refreshing w"
  have "accounts_ok X v" unfolding v_def
    using assms by (intro account_do_ok) (simp_all add: linphone_proxy_config_stop_refreshing_def release_op_ok release_publish_op_ok)
  moreover have "account_alive c v" using assms(2) by (simp add: v_def)
  ultimately have "accounts_ok X (account_do av c (linphone_proxy_config_set_state (proxy_env_of av w) RegistrationNone) v)"
    by (rule account_do_ok) (rule set_state_ok)
  then show ?thesis using assms by (simp add: network_change_def keep_ops_ok keeps_ops_def v_def)
qed

lemma network_change_frame [simp]: "account_alive d (network_change av r c w) = account_alive d w"
  by (simp add: network_change_def)

lemma set_network_ok: "accounts_ok X w \<Longrightarrow> accounts_ok X (set_network_reachable av r w)"
proof -
  assume w: "accounts_ok X w"
  define w1 where "w1 = w\<lparr>ac_network_to_be_notified := True\<rparr>"
  define w2 where "w2 = fold (network_change av r) (ac_proxies w1) w1"
  define w3 where "w3 = w2\<lparr>ac_netup_time := av_now av, ac_network_reachable := r\<rparr>"
  have w1: "accounts_ok X w1" unfolding w1_def using w by (rule network_state_ok)
  then have "accounts_ok X w2" unfolding w2_def
    by (rule fold_accounts_ok [rotated]) (use listed_alive [OF w1] in \<open>simp_all add: network_change_ok\<close>)
  then have w3: "accounts_ok X w3" unfolding w3_def by (intro network_state_ok)
  show ?thesis unfolding set_network_reachable_def Let_def w1_def [symmetric] w2_def [symmetric] w3_def [symmetric]
    using w w3 accounts_okD(1) [OF w3] by (simp add: network_state_ok invalidate_all_ok)
qed

lemma monitor_ok: "accounts_ok X w \<Longrightarrow> accounts_ok X (monitor_network_state av w)"
  by (simp add: monitor_network_state_def Let_def network_state_ok set_network_ok)

lemma refresh_registers_ok: "accounts_ok X w \<Longrightarrow> accounts_ok X (linphone_core_refresh_registers av w)"
proof -
  assume w: "accounts_ok X w"
  have "accounts_ok X (fold (\<lambda>c w. if truth (pc_reg_sendregister (ac_cfg w c)) \<and> pc_expires (ac_cfg w c) > 0
       then account_do av c (linphone_proxy_config_refresh_register (proxy_env_of av w)) w else w) (ac_proxies w) w)"
    by (rule fold_accounts_ok) (use w listed_alive [OF w] in \<open>simp_all add: account_do_ok refresh_ok\<close>)
  with w show ?thesis by (simp add: linphone_core_refresh_registers_def)
qed

lemma invalidate_registers_ok: "accounts_ok X w \<Longrightarrow> accounts_ok X (linphone_core_invalidate_registers av w)"
proof -
  assume w: "accounts_ok X w"
  have step: "accounts_ok X (account_do av c (\<lambda>p. fst (linphone_proxy_config_done (api_of av) p)) (account_do av c (linphone_proxy_config_edit (api_of av)) v))"
    if "accounts_ok X v" "account_alive c v" for v c
    using that by (intro commit_ok account_do_ok edit_ok) simp_all
  show ?thesis unfolding linphone_core_invalidate_registers_def
    by (rule fold_accounts_ok) (use w listed_alive [OF w] in \<open>simp_all add: step\<close>)
qed

lemma register_success_ok: "accounts_ok X w \<Longrightarrow> account_alive c w \<Longrightarrow> accounts_ok X (register_success av (Some c) r w)"
  by (simp add: register_success_def network_state_ok account_do_ok set_state_ok)

lemma register_failure_ok:
  assumes "accounts_ok X w" "account_alive c w"
  shows "accounts_ok X (register_failure av (Some c) reason w)"
proof -
  define w1 where "w1 = acc_emit (AccDisplayStatus c) w"
  define st where "st = (if (reason = SalReasonServiceUnavailable \<or> reason = SalReasonIOError) \<and> pc_state (ac_cfg w1 c) = RegistrationOk
    then RegistrationProgress else RegistrationFailed)"
  define w2 where "w2 = account_do av c (linphone_proxy_config_set_state (proxy_env_of av w1) st) w1"
  have w1: "accounts_ok X w1" "account_alive c w1"
    using assms(2) network_state_ok(9) [OF assms(1)] unfolding w1_def by (blast, simp add: acc_emit_def account_alive_def)
  then have w2: "accounts_ok X w2" "account_alive c w2" by (simp_all add: w2_def account_do_ok set_state_ok)
  then have "accounts_ok X (account_do av c (\<lambda>p. upd (\<lambda>cfg. cfg\<lparr>pc_send_publish := truth (pc_publish cfg)\<rparr>) (release_publish_op p)) w2)"
    by (intro account_do_ok ops_ok_upd release_publish_op_ok) simp_all
  then show ?thesis using w2
    unfolding register_failure_def Let_def option.case w1_def [symmetric] st_def [symmetric] w2_def [symmetric] by simp
qed

section \<open>Reachable states\<close>

text \<open>What happens to the accounts and the friends of a core between its start and its end.  The
  application makes accounts, changes those it holds, and gives up only references of its own; a
  registration is answered on the operation of an account that is still there.\<close>

inductive account_step :: "'a account_core \<Rightarrow> 'a account_core \<Rightarrow> bool" where
  acc_create: "account_step w (snd (new_account cfg w))"
| acc_own: "account_alive c w \<Longrightarrow> (\<And>p. proxy_step api p (f p)) \<Longrightarrow> account_step w (account_do av c f w)"
| acc_ref: "account_alive c w \<Longrightarrow> account_step w (linphone_proxy_config_ref c w)"
| acc_unref: "account_alive c w \<Longrightarrow> int (core_refs w c) < ac_refcnt w c \<Longrightarrow> account_step w (linphone_proxy_config_unref av c w)"
| acc_add: "account_alive c w \<Longrightarrow> account_step w (fst (linphone_core_add_proxy_config av c w))"
| acc_remove: "account_step w (linphone_core_remove_proxy_config av c w)"
| acc_clear: "account_step w (linphone_core_clear_proxy_config av w)"
| acc_default: "account_step w (linphone_core_set_default_proxy_config av d w)"
| acc_default_index: "account_step w (linphone_core_set_default_proxy_index av i w)"
| acc_iterate: "account_step w (proxy_update av w)"
| acc_monitor: "account_step w (monitor_network_state av w)"
| acc_notify: "account_step w (notify_network w)"
| acc_network: "account_step w (linphone_core_set_network_reachable av r w)"
| acc_refresh: "account_step w (linphone_core_refresh_registers av w)"
| acc_invalidate: "account_step w (linphone_core_invalidate_registers av w)"
| acc_success: "account_alive c w \<Longrightarrow> account_step w (register_success av (Some c) registered w)"
| acc_failure: "account_alive c w \<Longrightarrow> account_step w (register_failure av (Some c) reason w)"
| acc_friends: "friends_step (ac_friends w) f \<Longrightarrow> account_step w (w\<lparr>ac_friends := f\<rparr>)"

inductive accounts_reachable :: "lp_config \<Rightarrow> 'a account_core \<Rightarrow> bool" for config where
  acc_start: "friends_reachable config (ac_friends w) \<Longrightarrow> ac_next w = 0 \<Longrightarrow> ac_freed w = [] \<Longrightarrow> ac_proxies w = []
    \<Longrightarrow> ac_deleted w = [] \<Longrightarrow> ac_default w = None \<Longrightarrow> accounts_reachable config w"
| acc_run: "accounts_reachable config w \<Longrightarrow> account_step w w' \<Longrightarrow> accounts_reachable config w'"

lemma account_step_ok: "account_step w w' \<Longrightarrow> accounts_ok {} w \<Longrightarrow> accounts_ok {} w'"
proof (induction rule: account_step.induct)
  case (acc_own c w api f av)
  then show ?case by (intro account_do_ok) (auto intro: proxy_step_ok)
next
  case (acc_friends w f)
  then show ?case by (intro network_state_ok(1)) (auto intro: friends_step_ok dest: accounts_okD(1))
qed (simp_all add: new_account_ok ref_ok account_unref_ok add_account_ok remove_account_ok clear_ok set_default_ok
  linphone_core_set_default_proxy_index_def proxy_update_ok monitor_ok notify_network_def network_state_ok
  linphone_core_set_network_reachable_def set_network_ok refresh_registers_ok invalidate_registers_ok register_success_ok
  register_failure_ok)

lemma accounts_reachable_ok: "accounts_reachable config w \<Longrightarrow> config_ok config \<Longrightarrow> accounts_ok {} w"
proof (induction rule: accounts_reachable.induct)
  case (acc_start w)
  then show ?case using reachable_friends_ok
    by (auto simp: accounts_ok_def account_ok_def account_alive_def core_refs_def)
qed (simp add: account_step_ok)

text \<open>C16. The accounts are held as long as they are needed and no longer: in every reachable state the
  list has no account twice and the default account is in it, no account of the list or waiting for
  its unregistration is freed, none is freed twice, and the operations alive are those the accounts
  hold, which for a freed account are none.\<close>

theorem accounts_held:
  assumes "accounts_reachable config w" and "lp_ok config"
    and "lp_contents config (''sip'', ''allow_out_of_subscribe_presence'') = None"
  shows "distinct (ac_proxies w) \<and> (\<forall>d. ac_default w = Some d \<longrightarrow> d \<in> set (ac_proxies w))
    \<and> (\<forall>c \<in> set (ac_proxies w) \<union> set (ac_deleted w). c < ac_next w \<and> c \<notin> set (ac_freed w))
    \<and> distinct (ac_freed w)
    \<and> (\<forall>c < ac_next w. live_after (pw_trace (ac_store w c)) {} = Some (held (pw_cfg (ac_store w c))))
    \<and> (\<forall>c \<in> set (ac_freed w). live_after (pw_trace (ac_store w c)) {} = Some {})"
proof -
  have w: "accounts_ok {} w" using assms by (intro accounts_reachable_ok) (simp_all add: config_ok_def)
  have "c < ac_next w \<and> c \<notin> set (ac_freed w)" if "c \<in> set (ac_proxies w) \<union> set (ac_deleted w)" for c
    using that listed_alive [OF w, of c] by (auto simp: account_alive_def)
  moreover have "live_after (pw_trace (ac_store w c)) {} = Some (held (pw_cfg (ac_store w c)))" if "c < ac_next w" for c
    using that accounts_okD(5) [OF w, of c] by (simp add: account_ok_def ops_ok_def)
  moreover from this have "live_after (pw_trace (ac_store w c)) {} = Some {}" if "c \<in> set (ac_freed w)" for c
    using that accounts_okD(5) [OF w, of c] by (simp add: account_ok_def ac_cfg_def)
  ultimately show ?thesis using accounts_okD(2-4) [OF w] by auto
qed

end
