(* ===== verification/AccountStore.thy ===== *)
theory AccountStore
  imports AccountProps FriendStore
begin

text \<open>
The stored accounts: the sections the core writes whenever an account is committed or removed, read
back when it starts, with the account that was the default one.
\<close>

section \<open>Sections\<close>

lemma proxy_section_inject [simp]: "proxy_section i = proxy_section j \<longleftrightarrow> i = j"
  unfolding proxy_section_def by (metis same_append_eq strto_show_int)

lemma has_section_iff: "lp_config_has_section lp s \<longleftrightarrow> s \<in> sec_name ` set (lp_sections lp)"
  unfolding lp_config_has_section_def lp_config_find_section_def
  by (cases "first_index (\<lambda>sec. sec_name sec = s) 0 (lp_sections lp)")
    (auto dest: first_index_NoneD first_index_SomeD intro!: rev_image_eqI nth_mem)

lemma upd_section_names:
  "k < length (lp_sections lp) \<Longrightarrow> sec_name (f (lp_sections lp ! k)) = sec_name (lp_sections lp ! k)
    \<Longrightarrow> map sec_name (lp_sections (upd_section k f lp)) = map sec_name (lp_sections lp)"
  by (simp add: upd_section_def map_update) (metis list_update_id map_update)

lemma set_string_other_section:
  assumes "\<not> lp_config_has_section lp s" "s \<noteq> section"
  shows "\<not> lp_config_has_section (lp_config_set_string lp section k v) s"
proof -
  have names: "sec_name ` set (lp_sections (upd_section j f lp)) = sec_name ` set (lp_sections lp)"
    if "lp_config_find_section lp section = Some j" "\<And>sec. sec_name (f sec) = sec_name sec" for j f
    using upd_section_names [of j lp f] that first_index_SomeD
    unfolding lp_config_find_section_def list.set_map [symmetric] by fastforce
  show ?thesis
    using assms names unfolding lp_config_set_string_def has_section_iff
    by (auto simp: Let_def lp_config_add_section_def lp_section_add_item_def lp_section_new_def lp_section_remove_item_def
      upd_item_def split: option.splits list.splits)
qed

lemma set_int_other_section:
  "\<not> lp_config_has_section lp s \<Longrightarrow> s \<noteq> section \<Longrightarrow> \<not> lp_config_has_section (lp_config_set_int lp section k i) s"
  by (simp add: lp_config_set_int_def set_string_other_section)

lemma written_accounts:
  assumes "lp_ok c"
  shows "lp_ok (write_accounts_from c cfgs i)
    \<and> (\<forall>j < length cfgs. \<forall>n. lp_contents (write_accounts_from c cfgs i) (proxy_section (i + int j), n)
         = (case map_of (proxy_table (cfgs ! j)) n of Some v \<Rightarrow> present v | None \<Rightarrow> None))
    \<and> \<not> lp_config_has_section (write_accounts_from c cfgs i) (proxy_section (i + int (length cfgs)))
    \<and> (\<forall>s. (\<forall>j \<ge> i. s \<noteq> proxy_section j) \<longrightarrow> (\<forall>n. lp_contents (write_accounts_from c cfgs i) (s, n) = lp_contents c (s, n)))"
  using assms
proof (induction cfgs arbitrary: c i)
  case Nil
  then show ?case
    using clean_section_laws [of c "proxy_section i"] by (simp add: linphone_proxy_config_write_to_config_file_def Let_def)
next
  case (Cons f fs)
  let ?c = "linphone_proxy_config_write_to_config_file c (Some f) i"
  note w = written_account [OF Cons.prems, where obj = f and index = i]
  have IH: "lp_ok (write_accounts_from ?c fs (i + 1))"
    "\<And>j n. j < length fs \<Longrightarrow> lp_contents (write_accounts_from ?c fs (i + 1)) (proxy_section (i + 1 + int j), n)
         = (case map_of (proxy_table (fs ! j)) n of Some v \<Rightarrow> present v | None \<Rightarrow> None)"
    "\<not> lp_config_has_section (write_accounts_from ?c fs (i + 1)) (proxy_section (i + 1 + int (length fs)))"
    "\<And>s n. \<forall>j \<ge> i + 1. s \<noteq> proxy_section j \<Longrightarrow> lp_contents (write_accounts_from ?c fs (i + 1)) (s, n) = lp_contents ?c (s, n)"
    using Cons.IH [OF w(1), of "i + 1"] by blast+
  have "lp_contents (write_accounts_from c (f # fs) i) (proxy_section (i + int j), n)
      = (case map_of (proxy_table ((f # fs) ! j)) n of Some v \<Rightarrow> present v | None \<Rightarrow> None)" if "j < Suc (length fs)" for j n
  proof (cases j)
    case 0
    then show ?thesis using IH(4) [of "proxy_section i" n] by (simp add: w(2))
  next
    case (Suc k)
    then show ?thesis using IH(2) [of k n] that by (simp add: add.assoc)
  qed
  moreover have "lp_contents (write_accounts_from c (f # fs) i) (s, n) = lp_contents c (s, n)" if "\<forall>j \<ge> i. s \<noteq> proxy_section j" for s n
    using that IH(4) [of s n] by (simp add: w(3))
  ultimately show ?case using IH(1,3) by (simp add: add.assoc)
qed

section \<open>Reading\<close>

text \<open>An account read from the store is waiting for its registration.\<close>

definition account_restored :: "'a proxy_config \<Rightarrow> 'a proxy_config" where
  "account_restored obj = (stored_part obj)\<lparr>pc_commit := True\<rparr>"

lemma stored_part_fields [simp]:
  "pc_op (stored_part obj) = None" "pc_publish_op (stored_part obj) = None"
  "pc_reg_proxy (stored_part obj) = pc_reg_proxy obj" "pc_reg_identity (stored_part obj) = pc_reg_identity obj"
  by (simp_all add: stored_part_def proxy_zero_def)

lemma valid_check: "proxy_valid api obj \<Longrightarrow> linphone_proxy_config_check (stored_part obj)"
  by (auto simp: linphone_proxy_config_check_def proxy_valid_def)

lemma start_stored: "proxy_start (stored_part obj) = \<lparr>pw_cfg = stored_part obj, pw_trace = [], pw_next = 0\<rparr>"
  by (simp add: proxy_start_def)

lemma done_stored:
  assumes "linphone_proxy_config_check (stored_part obj)"
  shows "fst (linphone_proxy_config_done api (proxy_start (stored_part obj)))
    = \<lparr>pw_cfg = account_restored obj, pw_trace = [ActSaveAccounts], pw_next = 0\<rparr>"
  using assms by (simp add: start_stored linphone_proxy_config_done_def Let_def account_restored_def act_def upd_def)

lemma add_read_account:
  assumes "\<not> fe_ready (av_friend av)" "proxy_valid api obj" "\<forall>k \<in> set (ac_proxies w). k < ac_next w"
  shows "(case new_account (stored_part obj) w of (c, w) \<Rightarrow>
      linphone_proxy_config_unref av c (fst (linphone_core_add_proxy_config av c w)))
    = w\<lparr>ac_next := Suc (ac_next w), ac_refcnt := (ac_refcnt w)(ac_next w := 1), ac_proxies := ac_proxies w @ [ac_next w],
        ac_store := (ac_store w)(ac_next w := \<lparr>pw_cfg = account_restored obj, pw_trace = [ActSaveAccounts], pw_next = 0\<rparr>)\<rparr>"
proof -
  have save: "account_effect av c ActSaveAccounts v = v" for c v
    using assms(1) by (simp add: account_effect_def linphone_proxy_config_write_all_to_config_file_def)
  have "linphone_proxy_config_check (pw_cfg (proxy_start (stored_part obj)))"
    using valid_check [OF assms(2)] by (simp add: start_stored)
  moreover have "ac_next w \<notin> set (ac_proxies w)" using assms(3) by auto
  ultimately show ?thesis
    by (simp add: new_account_def linphone_core_add_proxy_config_def linphone_proxy_config_unref_def linphone_proxy_config_ref_def
      account_do_def Let_def done_stored [OF valid_check [OF assms(2)]] ac_cfg_def save) (simp add: start_stored save)
qed

lemma read_accounts_back:
  assumes "\<And>j n. j < length cfgs \<Longrightarrow> lp_contents (ac_config w) (proxy_section (i + int j), n)
        = (case map_of (proxy_table (cfgs ! j)) n of Some v \<Rightarrow> present v | None \<Rightarrow> None)"
    and "\<not> lp_config_has_section (ac_config w) (proxy_section (i + int (length cfgs)))"
    and "\<And>n. lp_contents (ac_config w) (''proxy_default_values'', n) = None"
    and "\<forall>f \<in> set cfgs. proxy_valid (api_of av) f" and "\<not> fe_ready (av_friend av)"
    and "\<forall>k \<in> set (ac_proxies w). k < ac_next w" and "length cfgs < fuel"
  shows "\<exists>w'. read_accounts av fuel i w = Some w' \<and> ac_proxies w' = ac_proxies w @ [ac_next w ..< ac_next w + length cfgs]
    \<and> (\<forall>j < length cfgs. ac_cfg w' (ac_next w + j) = account_restored (cfgs ! j))
    \<and> (\<forall>k < ac_next w. ac_cfg w' k = ac_cfg w k) \<and> ac_config w' = ac_config w"
  using assms
proof (induction cfgs arbitrary: i w fuel)
  case Nil
  then obtain k where "fuel = Suc k" by (cases fuel) auto
  with Nil show ?case by (simp add: linphone_proxy_config_new_from_config_file_def)
next
  case (Cons f fs)
  then obtain fuel' where fuel: "fuel = Suc fuel'" by (cases fuel) auto
  define v where "v = w\<lparr>ac_next := Suc (ac_next w), ac_refcnt := (ac_refcnt w)(ac_next w := 1), ac_proxies := ac_proxies w @ [ac_next w],
        ac_store := (ac_store w)(ac_next w := \<lparr>pw_cfg = account_restored f, pw_trace = [ActSaveAccounts], pw_next = 0\<rparr>)\<rparr>"
  have v: "ac_config v = ac_config w" "ac_next v = Suc (ac_next w)" "ac_proxies v = ac_proxies w @ [ac_next w]"
    "ac_cfg v k = (if k = ac_next w then account_restored f else ac_cfg w k)" for k
    by (simp_all add: v_def ac_config_def ac_cfg_def)
  have valid: "proxy_valid (api_of av) f" using Cons.prems(4) by simp
  have "linphone_proxy_config_new_from_config_file (api_of av) (ac_config w) i = Some (Some (stored_part f))"
    using Cons.prems(1) [of 0] Cons.prems(3) by (intro read_account [OF _ valid]) simp_all
  then have step: "read_accounts av fuel i w = read_accounts av fuel' (i + 1) v"
    using add_read_account [OF Cons.prems(5) valid Cons.prems(6)] 
    by (cases "new_account (stored_part f) w") (simp add: fuel v_def)
  have "\<exists>w'. read_accounts av fuel' (i + 1) v = Some w' \<and> ac_proxies w' = ac_proxies v @ [ac_next v ..< ac_next v + length fs]
    \<and> (\<forall>j < length fs. ac_cfg w' (ac_next v + j) = account_restored (fs ! j))
    \<and> (\<forall>k < ac_next v. ac_cfg w' k = ac_cfg v k) \<and> ac_config w' = ac_config v"
  proof (rule Cons.IH)
    fix j n assume "j < length fs"
    then show "lp_contents (ac_config v) (proxy_section (i + 1 + int j), n)
        = (case map_of (proxy_table (fs ! j)) n of Some v \<Rightarrow> present v | None \<Rightarrow> None)"
      using Cons.prems(1) [of "Suc j" n] by (simp add: v add.assoc)
  qed (use Cons.prems in \<open>auto simp: v fuel add.assoc less_Suc_eq\<close>)
  then obtain w' where w': "read_accounts av fuel' (i + 1) v = Some w'"
    "ac_proxies w' = ac_proxies w @ ac_next w # [Suc (ac_next w) ..< Suc (ac_next w) + length fs]"
    "\<And>j. j < length fs \<Longrightarrow> ac_cfg w' (Suc (ac_next w) + j) = account_restored (fs ! j)"
    "\<And>k. k < Suc (ac_next w) \<Longrightarrow> ac_cfg w' k = (if k = ac_next w then account_restored f else ac_cfg w k)"
    "ac_config w' = ac_config w" unfolding v by auto
  have "ac_cfg w' (ac_next w + j) = account_restored ((f # fs) ! j)" if "j < Suc (length fs)" for j
    using that w'(3) [of "j - 1"] w'(4) [of "ac_next w"] by (cases j) auto
  moreover have "ac_next w # [Suc (ac_next w) ..< Suc (ac_next w) + length fs] = [ac_next w ..< ac_next w + length (f # fs)]"
    using upt_conv_Cons [of "ac_next w" "ac_next w + length (f # fs)"] by simp
  ultimately show ?case using step w'(1,2,5) w'(4) [OF less_SucI] by (intro exI [where x = w']) simp
qed

lemma first_index_upt: "k < n \<Longrightarrow> first_index (\<lambda>x. x = m + k) i [m ..< m + n] = Some (i + k)"
proof (induction k arbitrary: m i n)
  case 0
  then show ?case by (simp add: upt_conv_Cons)
next
  case (Suc k)
  then obtain n' where "n = Suc n'" by (cases n) auto
  with Suc.IH [of n' "Suc m" "Suc i"] Suc.prems show ?case by (simp add: upt_conv_Cons)
qed

lemma default_index_range: "- 1 \<le> linphone_core_get_default_proxy_config_index w
    \<and> linphone_core_get_default_proxy_config_index w < int (length (ac_proxies w)) \<or> ac_proxies w = []"
  by (auto simp: linphone_core_get_default_proxy_config_index_def split: option.split dest: first_index_SomeD)


end
