(* ===== verification/AccountRuns.thy ===== *)
theory AccountRuns
  imports AccountStore
begin

text \<open>
What the network and the registrars do to the accounts, and what a registration does to the
friends: properties that span the accounts (\<open>proxy.c\<close>), the core and the friends (\<open>friend.c\<close>),
with concrete runs.
\<close>

section \<open>The network goes and comes back\<close>

text \<open>Every account of the list is changed once, by itself.\<close>

lemma fold_each_account:
  assumes "\<And>v c. c \<in> set cs \<Longrightarrow> P v \<Longrightarrow> P (g c v) \<and> ac_store (g c v) = (ac_store v)(c := f v (ac_store v c))"
    and "\<And>v c. c \<in> set cs \<Longrightarrow> P v \<Longrightarrow> R (ac_store w c) (f v (ac_store w c))"
    and "distinct cs" "P v" "\<forall>c \<in> set cs. ac_store v c = ac_store w c"
  shows "P (fold g cs v) \<and> (\<forall>c \<in> set cs. R (ac_store w c) (ac_store (fold g cs v) c))
    \<and> (\<forall>c. c \<notin> set cs \<longrightarrow> ac_store (fold g cs v) c = ac_store v c)"
  using assms
proof (induction cs arbitrary: v)
  case (Cons c cs)
  have c: "c \<in> set (c # cs)" by simp
  note s = Cons.prems(1) [OF c Cons.prems(4), THEN conjunct1] Cons.prems(1) [OF c Cons.prems(4), THEN conjunct2]
  have "P (fold g cs (g c v)) \<and> (\<forall>d \<in> set cs. R (ac_store w d) (ac_store (fold g cs (g c v)) d))
      \<and> (\<forall>d. d \<notin> set cs \<longrightarrow> ac_store (fold g cs (g c v)) d = ac_store (g c v) d)"
  proof (rule Cons.IH)
    show "\<forall>d \<in> set cs. ac_store (g c v) d = ac_store w d" using Cons.prems(3,5) by (auto simp: s(2))
  qed (use Cons.prems(1,2,3) s(1) in simp_all)
  moreover have "R (ac_store w c) (f v (ac_store w c))" using Cons.prems(2) [OF c Cons.prems(4)] .
  ultimately show ?case using Cons.prems(3,5) by (auto simp: s(2))
qed simp

definition after_change :: "bool \<Rightarrow> 'a proxy_world \<Rightarrow> 'a proxy_world \<Rightarrow> bool" where
  "after_change reachable p p' \<longleftrightarrow> (if \<not> truth (pc_reg_sendregister (pw_cfg p)) then p' = p
     else if reachable then p' = upd (\<lambda>cfg. cfg\<lparr>pc_commit := True\<rparr>) p
     else (\<exists>env. p' = linphone_proxy_config_set_state env RegistrationNone (linphone_proxy_config_stop_refreshing p)))"

lemma network_change_store:
  "ac_proxies (network_change av r c v) = ac_proxies v \<and> ac_deleted (network_change av r c v) = ac_deleted v
    \<and> ac_store (network_change av r c v) = (ac_store v)(c := (\<lambda>p. if \<not> truth (pc_reg_sendregister (pw_cfg p)) then p
        else if r then upd (\<lambda>cfg. cfg\<lparr>pc_commit := True\<rparr>) p
        else linphone_proxy_config_set_state (proxy_env_of av v) RegistrationNone (linphone_proxy_config_stop_refreshing p)) (ac_store v c))"
  by (simp add: network_change_def ac_cfg_def)

lemma acc_emit_frame [simp]:
  "ac_proxies (acc_emit a w) = ac_proxies w" "ac_deleted (acc_emit a w) = ac_deleted w" "ac_store (acc_emit a w) = ac_store w"
  "ac_network_reachable (acc_emit a w) = ac_network_reachable w" "ac_cfg (acc_emit a w) = ac_cfg w" "ac_friends (acc_emit a w) = ac_friends w"
  "ac_default (acc_emit a w) = ac_default w"
  by (simp_all add: acc_emit_def ac_cfg_def fun_eq_iff)

lemma set_network_store:
  assumes "distinct (ac_proxies w)" "ac_network_reachable w \<noteq> r"
  shows "ac_network_reachable (set_network_reachable av r w) = r"
    "ac_proxies (set_network_reachable av r w) = ac_proxies w" "ac_deleted (set_network_reachable av r w) = ac_deleted w"
    "c \<in> set (ac_proxies w) \<Longrightarrow> after_change r (ac_store w c) (ac_store (set_network_reachable av r w) c)"
proof -
  define w1 where "w1 = w\<lparr>ac_network_to_be_notified := True\<rparr>"
  have w1: "ac_proxies w1 = ac_proxies w" "ac_deleted w1 = ac_deleted w" "ac_store w1 = ac_store w" by (simp_all add: w1_def)
  define w2 where "w2 = fold (network_change av r) (ac_proxies w1) w1"
  have w2: "(ac_proxies w2 = ac_proxies w \<and> ac_deleted w2 = ac_deleted w)
    \<and> (\<forall>c \<in> set (ac_proxies w). after_change r (ac_store w c) (ac_store w2 c))
    \<and> (\<forall>c. c \<notin> set (ac_proxies w) \<longrightarrow> ac_store w2 c = ac_store w1 c)"
    unfolding w2_def w1(1)
    by (rule fold_each_account [where f = "\<lambda>v p. if \<not> truth (pc_reg_sendregister (pw_cfg p)) then p
        else if r then upd (\<lambda>cfg. cfg\<lparr>pc_commit := True\<rparr>) p
        else linphone_proxy_config_set_state (proxy_env_of av v) RegistrationNone (linphone_proxy_config_stop_refreshing p)"])
      (use assms(1) in \<open>auto simp: network_change_store w1 after_change_def\<close>)
  define w3 where "w3 = w2\<lparr>ac_netup_time := av_now av, ac_network_reachable := r\<rparr>"
  have w3: "ac_proxies w3 = ac_proxies w2" "ac_deleted w3 = ac_deleted w2" "ac_store w3 = ac_store w2" "ac_network_reachable w3 = r"
    by (simp_all add: w3_def)
  have e: "set_network_reachable av r w = (if \<not> r then acc_emit AccResetTransports (w3\<lparr>ac_friends :=
        linphone_core_invalidate_friend_subscriptions (friend_env_of av w3) (ac_friends w3)\<rparr>) else acc_emit AccResolveStun w3)"
    using assms(2) unfolding set_network_reachable_def Let_def w1_def [symmetric] w2_def [symmetric] w3_def [symmetric] by simp
  have w2': "ac_proxies w2 = ac_proxies w" "ac_deleted w2 = ac_deleted w"
    "c \<in> set (ac_proxies w) \<Longrightarrow> after_change r (ac_store w c) (ac_store w2 c)" using w2 by blast+
  have s: "ac_store (set_network_reachable av r w) = ac_store w2" by (simp add: e w3)
  show "ac_network_reachable (set_network_reachable av r w) = r" "ac_proxies (set_network_reachable av r w) = ac_proxies w"
    "ac_deleted (set_network_reachable av r w) = ac_deleted w" by (simp_all add: e w3 w2')
  show "c \<in> set (ac_proxies w) \<Longrightarrow> after_change r (ac_store w c) (ac_store (set_network_reachable av r w) c)"
    unfolding s by (rule w2'(3))
qed

lemma proxy_env_fields [simp]:
  "pe_network_reachable (proxy_env_of av w) = ac_network_reachable w"
  "pe_sal_register (proxy_env_of av w) = pe_sal_register (av_proxy av)"
  by (simp_all add: proxy_env_of_def)

text \<open>The main loop updates every account of the list; one that is waiting to be forgotten is not in
  the list unless the application put it back.\<close>

definition after_update :: "'a account_env \<Rightarrow> bool \<Rightarrow> 'a proxy_world \<Rightarrow> 'a proxy_world \<Rightarrow> bool" where
  "after_update av reachable p p' \<longleftrightarrow> (\<exists>env. pe_network_reachable env = reachable \<and> pe_sal_register env = pe_sal_register (av_proxy av)
     \<and> p' = linphone_proxy_config_update (api_of av) env p)"

lemma forget_store: "d \<noteq> c \<Longrightarrow> ac_store (forget_deleted av c w) d = ac_store w d"
  by (simp add: forget_deleted_def Let_def linphone_proxy_config_unref_def linphone_proxy_config_destroy_def)

lemma forget_all_store: "d \<notin> set cs \<Longrightarrow> ac_store (fold (forget_deleted av) cs w) d = ac_store w d"
  by (induction cs arbitrary: w) (simp_all add: forget_store)

lemma proxy_update_store:
  assumes "distinct (ac_proxies w)" "c \<in> set (ac_proxies w)" "c \<notin> set (ac_deleted w)"
  shows "after_update av (ac_network_reachable w) (ac_store w c) (ac_store (proxy_update av w) c)"
proof -
  define v where "v = fold (\<lambda>c w. account_do av c (linphone_proxy_config_update (api_of av) (proxy_env_of av w)) w) (ac_proxies w) w"
  have "(ac_deleted v = ac_deleted w \<and> ac_network_reachable v = ac_network_reachable w)
    \<and> (\<forall>c \<in> set (ac_proxies w). after_update av (ac_network_reachable w) (ac_store w c) (ac_store v c))
    \<and> (\<forall>c. c \<notin> set (ac_proxies w) \<longrightarrow> ac_store v c = ac_store w c)"
    unfolding v_def
    by (rule fold_each_account [where f = "\<lambda>v. linphone_proxy_config_update (api_of av) (proxy_env_of av v)"])
      (use assms(1) in \<open>auto simp: after_update_def intro!: exI [where x = "proxy_env_of av _"]\<close>)
  then show ?thesis using assms(2,3) by (simp add: proxy_update_def v_def [symmetric] Let_def forget_all_store)
qed

text \<open>C19. A change of the network renews the registrations: when it goes down every account of the list
  that registers gives its operations up and has no state, and when it comes back the next turn of the
  main loop registers each of them again on a new operation.\<close>

theorem network_change_reregisters:
  assumes "distinct (ac_proxies w)" and "ac_network_reachable w" and "c \<in> set (ac_proxies w)" and "c \<notin> set (ac_deleted w)"
    and "truth (pc_reg_sendregister (ac_cfg w c))" and "pc_type (ac_cfg w c) = None"
  shows "let down = set_network_reachable av False w; up = set_network_reachable av' True down; next = proxy_update av'' up in
    pc_op (ac_cfg down c) = None \<and> pc_publish_op (ac_cfg down c) = None \<and> pc_state (ac_cfg down c) = RegistrationNone
    \<and> pc_commit (ac_cfg up c)
    \<and> pc_op (ac_cfg next c) = Some (pw_next (ac_store w c)) \<and> \<not> pc_commit (ac_cfg next c)
    \<and> pc_state (ac_cfg next c) = (if pe_sal_register (av_proxy av'') = 0 then RegistrationProgress else RegistrationFailed)"
proof -
  define v where "v = set_network_reachable av False w"
  define u where "u = set_network_reachable av' True v"
  have v: "ac_network_reachable v = False" "ac_proxies v = ac_proxies w" "ac_deleted v = ac_deleted w"
    "after_change False (ac_store w c) (ac_store v c)"
    using set_network_store [where w = w and r = False and av = av] assms(1-3) by (simp_all add: v_def)
  have u: "ac_network_reachable u = True" "ac_proxies u = ac_proxies w" "ac_deleted u = ac_deleted w"
    "after_change True (ac_store v c) (ac_store u c)"
    using set_network_store [where w = v and r = True and av = av'] v(1-3) assms(1,3) by (simp_all add: u_def)
  obtain env where "ac_store v c = linphone_proxy_config_set_state env RegistrationNone (linphone_proxy_config_stop_refreshing (ac_store w c))"
    using v(4) assms(5) by (auto simp: after_change_def ac_cfg_def)
  moreover have "pc_op (pw_cfg (linphone_proxy_config_stop_refreshing p)) = None \<and> pc_publish_op (pw_cfg (linphone_proxy_config_stop_refreshing p)) = None
      \<and> pc_reg_sendregister (pw_cfg (linphone_proxy_config_stop_refreshing p)) = pc_reg_sendregister (pw_cfg p)
      \<and> pc_type (pw_cfg (linphone_proxy_config_stop_refreshing p)) = pc_type (pw_cfg p)
      \<and> pw_next (linphone_proxy_config_stop_refreshing p) = pw_next p" for p :: "'a proxy_world"
    by (simp add: linphone_proxy_config_stop_refreshing_def release_op_def release_publish_op_def proxy_world_simps split: option.split)
  moreover have "pc_reg_sendregister (pw_cfg (linphone_proxy_config_set_state env st p)) = pc_reg_sendregister (pw_cfg p)
      \<and> pc_type (pw_cfg (linphone_proxy_config_set_state env st p)) = pc_type (pw_cfg p)
      \<and> pw_next (linphone_proxy_config_set_state env st p) = pw_next p" for p :: "'a proxy_world" and st
    by (simp add: linphone_proxy_config_set_state_def Let_def act_if_def proxy_world_simps)
  ultimately have vc: "pc_op (ac_cfg v c) = None" "pc_publish_op (ac_cfg v c) = None" "pc_state (ac_cfg v c) = RegistrationNone"
    "truth (pc_reg_sendregister (pw_cfg (ac_store v c)))" "pc_type (pw_cfg (ac_store v c)) = None" "pw_next (ac_store v c) = pw_next (ac_store w c)"
    using assms(5,6) by (simp_all add: ac_cfg_def set_state_fields)
  have uc: "ac_store u c = upd (\<lambda>cfg. cfg\<lparr>pc_commit := True\<rparr>) (ac_store v c)" using u(4) vc(4) by (simp add: after_change_def)
  obtain env where env: "pe_network_reachable env" "pe_sal_register env = pe_sal_register (av_proxy av'')"
    "ac_store (proxy_update av'' u) c = linphone_proxy_config_update (api_of av'') env (ac_store u c)"
    using proxy_update_store [of u c av''] u(1-3) assms(1,3,4) by (auto simp: after_update_def)
  have "can_register env" using env(1) by (simp add: can_register_def)
  then show ?thesis
    using update_registers [where w = "ac_store u c" and env = env and api = "api_of av''"] vc env(2)
    by (simp add: Let_def v_def [symmetric] u_def [symmetric] ac_cfg_def uc proxy_world_simps env(3))
qed

section \<open>A registration and the friends\<close>

lemma friend_env_cong:
  "ac_cfg v = ac_cfg w \<Longrightarrow> ac_proxies v = ac_proxies w \<Longrightarrow> ac_default v = ac_default w \<Longrightarrow> friend_env_of av v = friend_env_of av w"
  by (simp add: friend_env_of_def)

lemma register_success_friends:
  assumes "(pc_state (ac_cfg w c) = RegistrationOk) \<noteq> registered"
    and "linphone_core_should_subscribe_friends_only_when_registered (friend_env_of av w) (ac_friends w)"
  shows "ac_friends (register_success av (Some c) registered w) = linphone_core_update_friends_subscriptions
      (friend_env_of av (register_success av (Some c) registered w)) (Some c) True (ac_friends w)"
    "pc_state (ac_cfg (register_success av (Some c) registered w) c) = (if registered then RegistrationOk else RegistrationCleared)"
proof -
  define st where "st = (if registered then RegistrationOk else RegistrationCleared)"
  define p where "p = linphone_proxy_config_set_state (proxy_env_of av w) st (ac_store w c)"
  define v where "v = w\<lparr>ac_store := (ac_store w)(c := p)\<rparr>"
  have env: "pe_subscribe_friends_only_when_registered (proxy_env_of av w)" using assms(2) by (simp add: proxy_env_of_def)
  have tr: "drop (length (pw_trace (ac_store w c))) (pw_trace p)
      = ActUpdateFriends # (if pe_has_core (proxy_env_of av w) then [ActNotify st] else [])"
    using assms(1) env by (auto simp: p_def st_def linphone_proxy_config_set_state_def Let_def act_if_def proxy_world_simps ac_cfg_def)
  have w': "register_success av (Some c) registered w = acc_emit (AccDisplayStatus c)
      (fold (account_effect av c) (ActUpdateFriends # (if pe_has_core (proxy_env_of av w) then [ActNotify st] else [])) v)"
    unfolding register_success_def option.case account_do_def Let_def st_def [symmetric] p_def [symmetric] v_def [symmetric] tr ..
  have f: "ac_friends (register_success av (Some c) registered w) = linphone_core_update_friends_subscriptions (friend_env_of av v) (Some c) True (ac_friends w)"
    unfolding w' by (simp add: account_effect_def v_def)
  have "friend_env_of av (register_success av (Some c) registered w) = friend_env_of av v"
    unfolding w' by (rule friend_env_cong) (simp_all add: account_effect_def ac_cfg_def fun_eq_iff)
  with f show "ac_friends (register_success av (Some c) registered w) = linphone_core_update_friends_subscriptions
      (friend_env_of av (register_success av (Some c) registered w)) (Some c) True (ac_friends w)" by simp
  show "pc_state (ac_cfg (register_success av (Some c) registered w) c) = (if registered then RegistrationOk else RegistrationCleared)"
    by (simp add: register_success_def set_state_fields)
qed


section \<open>An account put back while it is being removed\<close>

text \<open>An account of the list that is still waiting to be forgotten, because the application put it back
  after removing it, loses its operations when its time comes, and is not registered any more although
  its state still says so: nothing commits it.\<close>

lemma readded_account_stranded:
  assumes "ac_proxies w = [c]" "ac_deleted w = [c]" "av_now av - ac_deletion_date w c > 32" "ac_refcnt w c > 1"
    and "\<not> pc_commit (ac_cfg w c)" "\<not> pc_send_publish (ac_cfg w c)"
  shows "ac_proxies (proxy_update av w) = [c] \<and> pc_op (ac_cfg (proxy_update av w) c) = None
    \<and> pc_state (ac_cfg (proxy_update av w) c) = pc_state (ac_cfg w c) \<and> \<not> pc_commit (ac_cfg (proxy_update av w) c)"
proof -
  have idle: "linphone_proxy_config_update (api_of av) (proxy_env_of av w) (ac_store w c) = ac_store w c"
    using assms(5,6) by (simp add: linphone_proxy_config_update_def ac_cfg_def)
  have r: "pc_op (pw_cfg (linphone_proxy_config_release_ops p)) = None \<and> pc_state (pw_cfg (linphone_proxy_config_release_ops p)) = pc_state (pw_cfg p)
      \<and> pc_commit (pw_cfg (linphone_proxy_config_release_ops p)) = pc_commit (pw_cfg p)" for p :: "'a proxy_world"
    by (simp add: linphone_proxy_config_release_ops_def release_op_def release_publish_op_def proxy_world_simps split: option.split)
  show ?thesis
    using assms by (simp add: proxy_update_def Let_def forget_deleted_def linphone_proxy_config_unref_def idle r ac_cfg_def)
qed

section \<open>Instances\<close>

text \<open>A core with one account and one friend, both of the same domain.\<close>

definition ex_account_env :: "string account_env" where
  "ex_account_env = \<lparr>av_proxy = ex_env, av_friend = ex_friend_env, av_now = 100, av_local_ip = ''10.0.0.1''\<rparr>"

definition ex_no_account :: "string account_core" where
  "ex_no_account = \<lparr>ac_friends = ex_bob_listed, ac_store = (\<lambda>_. proxy_start proxy_zero), ac_next = 0, ac_refcnt = (\<lambda>_. 0),
     ac_freed = [], ac_proxies = [], ac_deleted = [], ac_deletion_date = (\<lambda>_. 0), ac_default = None, ac_network_reachable = True,
     ac_network_to_be_notified = False, ac_netup_time = 0, ac_auto_net_state_mon = True, ac_network_last_status = True,
     ac_network_last_check = 0, ac_localip = ''10.0.0.1'', ac_trace = []\<rparr>"

definition ex_one_account :: "string account_core" where
  "ex_one_account = fst (linphone_core_add_proxy_config ex_account_env 0 (snd (new_account ex_account ex_no_account)))"

lemma ex_one_account_reachable: "accounts_reachable lp_config_zero ex_one_account"
proof -
  have "accounts_reachable lp_config_zero ex_no_account"
    using ex_bob_reachable by (intro acc_start) (simp_all add: ex_no_account_def)
  then have "accounts_reachable lp_config_zero (snd (new_account ex_account ex_no_account))"
    by (rule acc_run) (rule acc_create)
  moreover have "account_alive 0 (snd (new_account ex_account ex_no_account))"
    by (simp add: account_alive_def new_account_def ex_no_account_def)
  ultimately show ?thesis unfolding ex_one_account_def using acc_run acc_add by blast
qed

lemma ex_account_start: "proxy_start ex_account = \<lparr>pw_cfg = ex_account, pw_trace = [], pw_next = 0\<rparr>"
  by (simp add: proxy_start_def ex_account_def proxy_fresh_def proxy_zero_def)

lemma add_ex_account:
  assumes "ac_next w \<notin> set (ac_proxies w)"
  shows "fst (linphone_core_add_proxy_config ex_account_env (ac_next w) (snd (new_account ex_account w)))
    = w\<lparr>ac_next := Suc (ac_next w), ac_refcnt := (ac_refcnt w)(ac_next w := 2), ac_proxies := ac_proxies w @ [ac_next w],
     ac_store := (ac_store w)(ac_next w := \<lparr>pw_cfg = ex_account\<lparr>pc_commit := True\<rparr>, pw_trace = [ActSaveAccounts], pw_next = 0\<rparr>)\<rparr>"
proof -
  have save: "account_effect ex_account_env c ActSaveAccounts v = v" for c v
    by (simp add: account_effect_def linphone_proxy_config_write_all_to_config_file_def ex_account_env_def ex_friend_env_def)
  have "linphone_proxy_config_check ex_account" by (simp add: linphone_proxy_config_check_def ex_account_def)
  moreover have "pc_op ex_account = None" by (simp add: ex_account_def proxy_fresh_def proxy_zero_def)
  ultimately show ?thesis using assms
    by (simp add: new_account_def linphone_core_add_proxy_config_def Let_def linphone_proxy_config_ref_def
      account_do_def ac_cfg_def ex_account_start linphone_proxy_config_done_def act_def upd_def save)
qed

lemma ex_no_account_fields: "ac_next ex_no_account = 0" "ac_proxies ex_no_account = []"
  by (simp_all add: ex_no_account_def)

lemma ex_one_account_value:
  "ex_one_account = ex_no_account\<lparr>ac_next := 1, ac_refcnt := (ac_refcnt ex_no_account)(0 := 2), ac_proxies := [0],
     ac_store := (ac_store ex_no_account)(0 := \<lparr>pw_cfg = ex_account\<lparr>pc_commit := True\<rparr>, pw_trace = [ActSaveAccounts], pw_next = 0\<rparr>)\<rparr>"
  using add_ex_account [of ex_no_account] by (simp add: ex_no_account_fields ex_one_account_def)

lemma accounts_held_witness:
  "ac_proxies ex_one_account = [0] \<and> 0 \<notin> set (ac_freed ex_one_account)
    \<and> live_after (pw_trace (ac_store ex_one_account 0)) {} = Some {}"
  using accounts_held [OF ex_one_account_reachable empty_config]
  by (simp add: ex_one_account_value held_def ex_account_def proxy_fresh_def proxy_zero_def)

lemma network_change_reregisters_witness:
  "pc_op (ac_cfg (proxy_update ex_account_env (set_network_reachable ex_account_env True
     (set_network_reachable ex_account_env False ex_one_account))) 0) = Some 0"
  using network_change_reregisters [of ex_one_account 0 ex_account_env ex_account_env ex_account_env]
  by (simp add: ex_one_account_value ex_no_account_def ac_cfg_def ex_account_def proxy_fresh_def proxy_zero_def truth_def Let_def)



end
