(* ===== verification/CallLogs.thy ===== *)
theory CallLogs
  imports CallModel AuthStore "HOL-Library.Signed_Division"
begin

text \<open>
The call logs (\<open>call_log.c\<close>, \<open>linphonecore.c\<close>, \<open>linphonecall.c\<close>): the history of the
calls that are over, its bound, and its sections in the configuration store.  Enumerations are
integers, as the store may hold any; addresses belong to the address library, the text of a date and
of a floating-point number to the C library.  Logs are numbered in the order they are made; they are
reference counted and the freed ones remembered.
\<close>

section \<open>Data\<close>

fun call_dir_int :: "call_dir \<Rightarrow> int" where
  "call_dir_int LinphoneCallOutgoing = 0"
| "call_dir_int LinphoneCallIncoming = 1"

fun call_status_int :: "call_status \<Rightarrow> int" where
  "call_status_int LinphoneCallSuccess = 0"
| "call_status_int LinphoneCallAborted = 1"
| "call_status_int LinphoneCallMissed = 2"
| "call_status_int LinphoneCallDeclined = 3"

record ('a, 'f) call_log =
  cl_dir :: int
  cl_status :: int
  cl_from :: 'a
  cl_to :: 'a
  cl_start_date :: string
  cl_duration :: int
  cl_refkey :: "string option"
  cl_quality :: 'f
  cl_start_date_time :: int
  cl_connected_date_time :: int
  cl_call_id :: "string option"
  cl_video_enabled :: bool_t

record ('a, 'f) log_world =
  lw_config :: lp_config
  lw_store :: "nat \<Rightarrow> ('a, 'f) call_log"
  lw_next :: nat
  lw_refcnt :: "nat \<Rightarrow> int"
  lw_freed :: "nat list"
  lw_call_logs :: "nat list"
  lw_missed_calls :: int
  lw_max_call_logs :: int
  lw_starting :: bool
  lw_updated :: "nat list"

record ('a, 'f) log_env =
  le_api :: "'a addr_api"
  le_now :: int
  le_strftime :: "int \<Rightarrow> string"
  le_mktime :: "string \<Rightarrow> int"
  le_printf_f :: "'f \<Rightarrow> string"
  le_sscanf_f :: "string \<Rightarrow> 'f option"
  le_minus_one :: 'f

section \<open>A log\<close>

definition set_call_log_date :: "('a, 'f) log_env \<Rightarrow> int \<Rightarrow> ('a, 'f) call_log \<Rightarrow> ('a, 'f) call_log" where
  "set_call_log_date env start_time cl = cl\<lparr>cl_start_date := le_strftime env start_time\<rparr>"

definition call_log_fresh :: "('a, 'f) log_env \<Rightarrow> int \<Rightarrow> 'a \<Rightarrow> 'a \<Rightarrow> ('a, 'f) call_log" where
  "call_log_fresh env dir from to = set_call_log_date env (le_now env) \<lparr>cl_dir = dir, cl_status = call_status_int LinphoneCallAborted,
     cl_from = from, cl_to = to, cl_start_date = [], cl_duration = 0, cl_refkey = None, cl_quality = le_minus_one env,
     cl_start_date_time = le_now env, cl_connected_date_time = 0, cl_call_id = None, cl_video_enabled = 0\<rparr>"

definition linphone_call_log_new :: "('a, 'f) log_env \<Rightarrow> int \<Rightarrow> 'a \<Rightarrow> 'a \<Rightarrow> ('a, 'f) log_world \<Rightarrow> nat \<times> ('a, 'f) log_world" where
  "linphone_call_log_new env dir from to w = (lw_next w, w\<lparr>lw_next := Suc (lw_next w),
     lw_store := (lw_store w)(lw_next w := call_log_fresh env dir from to), lw_refcnt := (lw_refcnt w)(lw_next w := 1)\<rparr>)"

definition linphone_call_log_ref :: "nat \<Rightarrow> ('a, 'f) log_world \<Rightarrow> ('a, 'f) log_world" where
  "linphone_call_log_ref i w = w\<lparr>lw_refcnt := (lw_refcnt w)(i := lw_refcnt w i + 1)\<rparr>"

definition linphone_call_log_unref :: "nat \<Rightarrow> ('a, 'f) log_world \<Rightarrow> ('a, 'f) log_world" where
  "linphone_call_log_unref i w = (let w = w\<lparr>lw_refcnt := (lw_refcnt w)(i := lw_refcnt w i - 1)\<rparr>
     in if lw_refcnt w i = 0 then w\<lparr>lw_freed := i # lw_freed w\<rparr> else w)"

definition linphone_call_log_get_remote_address :: "('a, 'f) call_log \<Rightarrow> 'a" where
  "linphone_call_log_get_remote_address cl = (if cl_dir cl = call_dir_int LinphoneCallIncoming then cl_from cl else cl_to cl)"

definition linphone_call_log_set_ref_key :: "string option \<Rightarrow> ('a, 'f) call_log \<Rightarrow> ('a, 'f) call_log" where
  "linphone_call_log_set_ref_key refkey cl = cl\<lparr>cl_refkey := refkey\<rparr>"

definition linphone_call_log_to_str :: "'a addr_api \<Rightarrow> ('a, 'f) call_log \<Rightarrow> string" where
  "linphone_call_log_to_str api cl = (let
     status = (if cl_status cl = call_status_int LinphoneCallAborted then ''aborted''
       else if cl_status cl = call_status_int LinphoneCallSuccess then ''completed''
       else if cl_status cl = call_status_int LinphoneCallMissed then ''missed'' else ''unknown'')
   in (if cl_dir cl = call_dir_int LinphoneCallIncoming then ''Incoming call'' else ''Outgoing call'') @ '' at '' @ cl_start_date cl
     @ CHR 0x0A # ''From: '' @ ad_as_string api (cl_from cl) @ CHR 0x0A # ''To: '' @ ad_as_string api (cl_to cl)
     @ CHR 0x0A # ''Status: '' @ status @ CHR 0x0A # ''Duration: '' @ show_int (cl_duration cl sdiv 60) @ '' mn ''
     @ show_int (cl_duration cl smod 60) @ '' sec'' @ [CHR 0x0A])"

section \<open>Storage\<close>

definition log_section :: "int \<Rightarrow> string" where
  "log_section i = take 31 (''call_log_'' @ show_int i)"

definition write_log :: "('a, 'f) log_env \<Rightarrow> lp_config \<Rightarrow> ('a, 'f) call_log \<Rightarrow> int \<Rightarrow> lp_config" where
  "write_log env cfg cl i = (let
     key = log_section i;
     cfg = lp_config_clean_section cfg key;
     cfg = lp_config_set_int cfg key ''dir'' (cl_dir cl);
     cfg = lp_config_set_int cfg key ''status'' (cl_status cl);
     cfg = lp_config_set_string cfg key ''from'' (Some (ad_as_string (le_api env) (cl_from cl)));
     cfg = lp_config_set_string cfg key ''to'' (Some (ad_as_string (le_api env) (cl_to cl)));
     cfg = (if cl_start_date_time cl \<noteq> 0 then lp_config_set_int64 cfg key ''start_date_time'' (cl_start_date_time cl)
            else lp_config_set_string cfg key ''start_date'' (Some (cl_start_date cl)));
     cfg = lp_config_set_int cfg key ''duration'' (cl_duration cl);
     cfg = set_if key ''refkey'' (cl_refkey cl) cfg;
     cfg = lp_config_set_float (le_printf_f env) cfg key ''quality'' (cl_quality cl);
     cfg = lp_config_set_int cfg key ''video_enabled'' (uint (cl_video_enabled cl))
   in lp_config_set_string cfg key ''call_id'' (cl_call_id cl))"

text \<open>The sections after the last log are cleaned up to the bound of the history.\<close>

fun write_logs_from :: "('a, 'f) log_env \<Rightarrow> lp_config \<Rightarrow> ('a, 'f) call_log list \<Rightarrow> int \<Rightarrow> lp_config" where
  "write_logs_from env cfg [] i = cfg"
| "write_logs_from env cfg (cl # cls) i = write_logs_from env (write_log env cfg cl i) cls (i + 1)"

fun clean_logs :: "nat \<Rightarrow> int \<Rightarrow> lp_config \<Rightarrow> lp_config" where
  "clean_logs 0 i cfg = cfg"
| "clean_logs (Suc n) i cfg = clean_logs n (i + 1) (lp_config_clean_section cfg (log_section i))"

definition call_logs_write_to_config_file :: "('a, 'f) log_env \<Rightarrow> ('a, 'f) log_world \<Rightarrow> ('a, 'f) log_world" where
  "call_logs_write_to_config_file env w = (if lw_starting w then w else (let n = length (lw_call_logs w) in
     w\<lparr>lw_config := clean_logs (nat (lw_max_call_logs w - int n)) (int n)
       (write_logs_from env (lw_config w) (map (lw_store w) (lw_call_logs w)) 0)\<rparr>))"

text \<open>A section without readable addresses is skipped.  \<^const>\<open>None\<close> is a number out of range.\<close>

datatype ('a, 'f) log_read = NoLog | SkipLog | ReadLog "('a, 'f) call_log"

definition read_log :: "('a, 'f) log_env \<Rightarrow> lp_config \<Rightarrow> int \<Rightarrow> ('a, 'f) log_read option" where
  "read_log env cfg i = (let key = log_section i; str = (\<lambda>name. lp_config_get_string cfg key name None) in
     if \<not> lp_config_has_section cfg key then Some NoLog
     else (case (Option.bind (str ''from'') (ad_new (le_api env)), Option.bind (str ''to'') (ad_new (le_api env))) of
       (Some from, Some to) \<Rightarrow> do {
         dir \<leftarrow> lp_config_get_int cfg key ''dir'' 0;
         let cl = call_log_fresh env dir from to;
         status \<leftarrow> lp_config_get_int cfg key ''status'' 0;
         let cl = cl\<lparr>cl_status := status\<rparr>;
         sec \<leftarrow> lp_config_get_int64 cfg key ''start_date_time'' 0;
         let cl = (if sec \<noteq> 0 then set_call_log_date env sec (cl\<lparr>cl_start_date_time := sec\<rparr>)
           else (case str ''start_date'' of None \<Rightarrow> cl
             | Some tmp \<Rightarrow> cl\<lparr>cl_start_date := strncpy 128 tmp, cl_start_date_time := le_mktime env (strncpy 128 tmp)\<rparr>));
         duration \<leftarrow> lp_config_get_int cfg key ''duration'' 0;
         let cl = cl\<lparr>cl_duration := duration, cl_refkey := str ''refkey'',
           cl_quality := lp_config_get_float (le_sscanf_f env) cfg key ''quality'' (le_minus_one env)\<rparr>;
         video \<leftarrow> lp_config_get_int cfg key ''video_enabled'' 0;
         Some (ReadLog (cl\<lparr>cl_video_enabled := of_int video, cl_call_id := str ''call_id''\<rparr>)) }
     | _ \<Rightarrow> Some SkipLog))"

fun read_logs :: "('a, 'f) log_env \<Rightarrow> nat \<Rightarrow> int \<Rightarrow> ('a, 'f) log_world \<Rightarrow> ('a, 'f) log_world option" where
  "read_logs env 0 i w = None"
| "read_logs env (Suc fuel) i w = (case read_log env (lw_config w) i of
     None \<Rightarrow> None
   | Some NoLog \<Rightarrow> Some w
   | Some SkipLog \<Rightarrow> read_logs env fuel (i + 1) w
   | Some (ReadLog cl) \<Rightarrow> (case linphone_call_log_new env (cl_dir cl) (cl_from cl) (cl_to cl) w of (k, w) \<Rightarrow>
       read_logs env fuel (i + 1) (w\<lparr>lw_store := (lw_store w)(k := cl), lw_call_logs := lw_call_logs w @ [k]\<rparr>)))"

section \<open>The history\<close>

definition call_log_completed :: "('a, 'f) log_env \<Rightarrow> int \<Rightarrow> nat \<Rightarrow> ('a, 'f) log_world \<Rightarrow> ('a, 'f) log_world" where
  "call_log_completed env duration i w = (let
     w = w\<lparr>lw_store := (lw_store w)(i := (lw_store w i)\<lparr>cl_duration := duration\<rparr>)\<rparr>;
     w = (if cl_status (lw_store w i) = call_status_int LinphoneCallMissed then w\<lparr>lw_missed_calls := lw_missed_calls w + 1\<rparr> else w);
     w = (linphone_call_log_ref i w)\<lparr>lw_call_logs := i # lw_call_logs w\<rparr>;
     w = (if int (length (lw_call_logs w)) > lw_max_call_logs w
          then (linphone_call_log_unref (last (lw_call_logs w)) w)\<lparr>lw_call_logs := butlast (lw_call_logs w)\<rparr> else w);
     w = w\<lparr>lw_updated := i # lw_updated w\<rparr>
   in call_logs_write_to_config_file env w)"

definition linphone_core_clear_call_logs :: "('a, 'f) log_env \<Rightarrow> ('a, 'f) log_world \<Rightarrow> ('a, 'f) log_world" where
  "linphone_core_clear_call_logs env w = (let
     w = w\<lparr>lw_missed_calls := 0\<rparr>;
     w = (fold linphone_call_log_unref (lw_call_logs w) w)\<lparr>lw_call_logs := []\<rparr>
   in call_logs_write_to_config_file env w)"

definition linphone_core_remove_call_log :: "('a, 'f) log_env \<Rightarrow> nat \<Rightarrow> ('a, 'f) log_world \<Rightarrow> ('a, 'f) log_world" where
  "linphone_core_remove_call_log env i w =
     linphone_call_log_unref i (call_logs_write_to_config_file env (w\<lparr>lw_call_logs := remove1 i (lw_call_logs w)\<rparr>))"

definition linphone_core_reset_missed_calls_count :: "('a, 'f) log_world \<Rightarrow> ('a, 'f) log_world" where
  "linphone_core_reset_missed_calls_count w = w\<lparr>lw_missed_calls := 0\<rparr>"

end
