(* ===== verification/CallLogProps.thy ===== *)
theory CallLogProps
  imports CallLogs AccountStore
begin

text \<open>
The history is what the bound leaves of the calls that are over, newest first, and survives a restart.
\<close>

section \<open>Sections of the store\<close>

lemma log_section_whole:
  assumes "0 \<le> i" "i < 10 ^ 20"
  shows "log_section i = ''call_log_'' @ show_int i"
proof -
  have "length (show_int i) \<le> 20 + 1" using assms by (intro length_show_int) simp_all
  then show ?thesis by (simp add: log_section_def)
qed

lemma log_section_inject:
  assumes "0 \<le> i" "i < 10 ^ 20" "0 \<le> j" "j < 10 ^ 20"
  shows "log_section i = log_section j \<longleftrightarrow> i = j"
  unfolding log_section_whole [OF assms(1,2)] log_section_whole [OF assms(3,4)] by (metis same_append_eq strto_show_int)

definition log_table :: "('a, 'f) log_env \<Rightarrow> ('a, 'f) call_log \<Rightarrow> (string \<times> string option) list" where
  "log_table env cl =
     [(''dir'', Some (tmp30 (show_int (cl_dir cl)))), (''status'', Some (tmp30 (show_int (cl_status cl)))),
      (''from'', Some (ad_as_string (le_api env) (cl_from cl))), (''to'', Some (ad_as_string (le_api env) (cl_to cl))),
      (if cl_start_date_time cl \<noteq> 0 then (''start_date_time'', Some (tmp30 (show_int (cl_start_date_time cl))))
       else (''start_date'', Some (cl_start_date cl))),
      (''duration'', Some (tmp30 (show_int (cl_duration cl)))), (''refkey'', cl_refkey cl),
      (''quality'', Some (tmp30 (le_printf_f env (cl_quality cl)))),
      (''video_enabled'', Some (tmp30 (show_int (uint (cl_video_enabled cl))))), (''call_id'', cl_call_id cl)]"

lemma written_log:
  assumes "lp_ok c"
  shows "lp_ok (write_log env c cl i)"
    "lp_contents (write_log env c cl i) (log_section i, n) = (case map_of (log_table env cl) n of Some v \<Rightarrow> present v | None \<Rightarrow> None)"
    "s \<noteq> log_section i \<Longrightarrow> lp_contents (write_log env c cl i) (s, n) = lp_contents c (s, n)"
proof -
  let ?key = "log_section i"
  let ?c = "lp_config_clean_section c ?key"
  have c: "lp_ok ?c" "lp_contents ?c (s, n) = (if s = ?key then None else lp_contents c (s, n))" for s n
    using clean_section_laws [OF assms] by simp_all
  let ?set = "\<lambda>n v c. lp_config_set_string c ?key n v"
  define fs where "fs = [?set ''dir'' (Some (tmp30 (show_int (cl_dir cl)))), ?set ''status'' (Some (tmp30 (show_int (cl_status cl)))),
      ?set ''from'' (Some (ad_as_string (le_api env) (cl_from cl))), ?set ''to'' (Some (ad_as_string (le_api env) (cl_to cl))),
      (if cl_start_date_time cl \<noteq> 0 then ?set ''start_date_time'' (Some (tmp30 (show_int (cl_start_date_time cl))))
       else ?set ''start_date'' (Some (cl_start_date cl))),
      ?set ''duration'' (Some (tmp30 (show_int (cl_duration cl)))), set_if ?key ''refkey'' (cl_refkey cl),
      ?set ''quality'' (Some (tmp30 (le_printf_f env (cl_quality cl)))),
      ?set ''video_enabled'' (Some (tmp30 (show_int (uint (cl_video_enabled cl))))), ?set ''call_id'' (cl_call_id cl)]"
  have w: "write_log env c cl i = fold (\<lambda>f. f) fs ?c"
    by (simp add: write_log_def fs_def Let_def lp_config_set_int_def lp_config_set_int64_def lp_config_set_float_def)
  have "lp_ok (fold (\<lambda>f. f) fs ?c) \<and> (\<forall>s n. lp_contents (fold (\<lambda>f. f) fs ?c) (s, n) =
    (if s = ?key \<and> n \<in> fst ` set (log_table env cl) then present (the (map_of (log_table env cl) n)) else lp_contents ?c (s, n)))"
    by (rule assigns_fold) (simp_all add: fs_def log_table_def assigns_set_if assigns_set c)
  then have p: "lp_ok (write_log env c cl i)" "lp_contents (write_log env c cl i) (s, n) =
    (if s = ?key \<and> n \<in> fst ` set (log_table env cl) then present (the (map_of (log_table env cl) n)) else lp_contents ?c (s, n))" for s n
    unfolding w by blast+
  show "lp_ok (write_log env c cl i)" by (rule p)
  show "lp_contents (write_log env c cl i) (?key, n) = (case map_of (log_table env cl) n of Some v \<Rightarrow> present v | None \<Rightarrow> None)"
    using p(2) [of ?key n] c(2) [of ?key n] by (auto split: option.split simp: map_of_eq_None_iff dest: map_of_SomeD)
      (metis fst_conv image_eqI map_of_SomeD)
  show "s \<noteq> ?key \<Longrightarrow> lp_contents (write_log env c cl i) (s, n) = lp_contents c (s, n)"
    using p(2) [of s n] c(2) [of s n] by simp
qed

lemma clean_section_names: "lp_ok c \<Longrightarrow> \<not> lp_config_has_section c s \<Longrightarrow> \<not> lp_config_has_section (lp_config_clean_section c key) s"
  unfolding has_section_iff lp_config_clean_section_def
  by (auto simp: Let_def lp_config_remove_section_def lp_remove_nth_def split: option.split dest!: in_set_takeD in_set_dropD)

lemma write_log_names:
  assumes "lp_ok c" "\<not> lp_config_has_section c s" "s \<noteq> log_section i"
  shows "\<not> lp_config_has_section (write_log env c cl i) s"
  using clean_section_names [OF assms(1,2), of "log_section i"] assms(3)
  by (simp add: write_log_def Let_def lp_config_set_int_def lp_config_set_int64_def lp_config_set_float_def set_if_def
    set_string_other_section split: option.split)

lemma written_logs:
  assumes "lp_ok c" "0 \<le> i" "i + int (length cls) < 10 ^ 20"
  shows "lp_ok (write_logs_from env c cls i)
    \<and> (\<forall>j < length cls. \<forall>n. lp_contents (write_logs_from env c cls i) (log_section (i + int j), n)
         = (case map_of (log_table env (cls ! j)) n of Some v \<Rightarrow> present v | None \<Rightarrow> None))
    \<and> (\<forall>s. (\<forall>j < length cls. s \<noteq> log_section (i + int j)) \<longrightarrow>
         (\<forall>n. lp_contents (write_logs_from env c cls i) (s, n) = lp_contents c (s, n))
         \<and> (\<not> lp_config_has_section c s \<longrightarrow> \<not> lp_config_has_section (write_logs_from env c cls i) s))"
  using assms
proof (induction cls arbitrary: c i)
  case (Cons f fs)
  let ?c = "write_log env c f i"
  note w = written_log [OF Cons.prems(1), where env = env and cl = f and i = i]
  have IH: "lp_ok (write_logs_from env ?c fs (i + 1))"
    "\<And>j n. j < length fs \<Longrightarrow> lp_contents (write_logs_from env ?c fs (i + 1)) (log_section (i + 1 + int j), n)
         = (case map_of (log_table env (fs ! j)) n of Some v \<Rightarrow> present v | None \<Rightarrow> None)"
    "\<And>s n. \<forall>j < length fs. s \<noteq> log_section (i + 1 + int j) \<Longrightarrow>
       lp_contents (write_logs_from env ?c fs (i + 1)) (s, n) = lp_contents ?c (s, n)"
    "\<And>s. \<forall>j < length fs. s \<noteq> log_section (i + 1 + int j) \<Longrightarrow> \<not> lp_config_has_section ?c s \<Longrightarrow>
       \<not> lp_config_has_section (write_logs_from env ?c fs (i + 1)) s"
    using Cons.IH [OF w(1), of "i + 1"] Cons.prems(2,3) by auto
  have "lp_contents (write_logs_from env c (f # fs) i) (log_section (i + int j), n)
      = (case map_of (log_table env ((f # fs) ! j)) n of Some v \<Rightarrow> present v | None \<Rightarrow> None)" if "j < Suc (length fs)" for j n
  proof (cases j)
    case 0
    have "\<forall>j < length fs. log_section i \<noteq> log_section (i + 1 + int j)"
      using Cons.prems(2,3) by (auto simp: log_section_inject)
    from IH(3) [OF this, of n] 0 show ?thesis by (simp add: w(2))
  next
    case (Suc k)
    then show ?thesis using IH(2) [of k n] that by (simp add: add.assoc)
  qed
  moreover have "(\<forall>n. lp_contents (write_logs_from env c (f # fs) i) (s, n) = lp_contents c (s, n))
      \<and> (\<not> lp_config_has_section c s \<longrightarrow> \<not> lp_config_has_section (write_logs_from env c (f # fs) i) s)"
    if "\<forall>j < Suc (length fs). s \<noteq> log_section (i + int j)" for s
  proof -
    have "s \<noteq> log_section i" "\<forall>j < length fs. s \<noteq> log_section (i + 1 + int j)"
      using that by (force, auto simp: add.assoc dest: spec [where x = "Suc _"])
    then show ?thesis using IH(3,4) [of s] write_log_names [OF Cons.prems(1), of s i env f] by (simp add: w(3))
  qed
  ultimately show ?case using IH(1) by simp
qed simp

lemma cleaned_logs:
  assumes "lp_ok c" "0 \<le> i" "i + int n < 10 ^ 20"
  shows "lp_ok (clean_logs n i c)
    \<and> (\<forall>s. (\<forall>j < n. s \<noteq> log_section (i + int j)) \<longrightarrow>
         (\<forall>k. lp_contents (clean_logs n i c) (s, k) = lp_contents c (s, k)))
    \<and> (\<forall>s. \<not> lp_config_has_section c s \<or> (0 < n \<and> s = log_section i) \<longrightarrow> \<not> lp_config_has_section (clean_logs n i c) s)"
  using assms
proof (induction n arbitrary: c i)
  case (Suc n)
  let ?c = "lp_config_clean_section c (log_section i)"
  have c: "lp_ok ?c" "\<And>s k. s \<noteq> log_section i \<Longrightarrow> lp_contents ?c (s, k) = lp_contents c (s, k)"
    "\<not> lp_config_has_section ?c (log_section i)" "\<And>s. \<not> lp_config_has_section c s \<Longrightarrow> \<not> lp_config_has_section ?c s"
    using clean_section_laws [OF Suc.prems(1), of "log_section i"] clean_section_names [OF Suc.prems(1)] by auto
  have IH: "lp_ok (clean_logs n (i + 1) ?c)"
    "\<And>s k. \<forall>j < n. s \<noteq> log_section (i + 1 + int j) \<Longrightarrow> lp_contents (clean_logs n (i + 1) ?c) (s, k) = lp_contents ?c (s, k)"
    "\<And>s. \<not> lp_config_has_section ?c s \<Longrightarrow> \<not> lp_config_has_section (clean_logs n (i + 1) ?c) s"
    using Suc.IH [OF c(1), of "i + 1"] Suc.prems(2,3) by auto
  have "lp_contents (clean_logs (Suc n) i c) (s, k) = lp_contents c (s, k)" if "\<forall>j < Suc n. s \<noteq> log_section (i + int j)" for s k
  proof -
    have "s \<noteq> log_section i" "\<forall>j < n. s \<noteq> log_section (i + 1 + int j)"
      using that by (force, auto simp: add.assoc dest: spec [where x = "Suc _"])
    then show ?thesis using IH(2) [of s k] c(2) by simp
  qed
  then show ?case using IH(1,3) c(3,4) by auto
qed simp

text \<open>What a whole writing leaves in the store.\<close>

lemma logs_written:
  assumes "lp_ok (lw_config w)" "\<not> lw_starting w" "int (length (lw_call_logs w)) \<le> lw_max_call_logs w" "lw_max_call_logs w < 2 ^ 31"
    and "\<not> lp_config_has_section (lw_config w) (log_section (lw_max_call_logs w))"
  shows "lp_ok (lw_config (call_logs_write_to_config_file env w))"
    "\<forall>j < length (lw_call_logs w). \<forall>n. lp_contents (lw_config (call_logs_write_to_config_file env w)) (log_section (int j), n)
       = (case map_of (log_table env (lw_store w (lw_call_logs w ! j))) n of Some v \<Rightarrow> present v | None \<Rightarrow> None)"
    "\<not> lp_config_has_section (lw_config (call_logs_write_to_config_file env w)) (log_section (int (length (lw_call_logs w))))"
proof -
  define cls where "cls = map (lw_store w) (lw_call_logs w)"
  define n where "n = nat (lw_max_call_logs w - int (length cls))"
  define c where "c = write_logs_from env (lw_config w) cls 0"
  have len: "length cls = length (lw_call_logs w)" by (simp add: cls_def)
  have e: "lw_config (call_logs_write_to_config_file env w) = clean_logs n (int (length cls)) c"
    using assms(2) by (simp add: call_logs_write_to_config_file_def Let_def c_def cls_def n_def)
  have b: "int (length cls) + int n < 10 ^ 20" "int (length cls) < 10 ^ 20"
    using assms(3,4) by (simp_all add: n_def len)
  note wr = written_logs [OF assms(1), of 0 cls env, folded c_def]
  have c: "lp_ok c" "\<And>j k. j < length cls \<Longrightarrow> lp_contents c (log_section (int j), k)
         = (case map_of (log_table env (cls ! j)) k of Some v \<Rightarrow> present v | None \<Rightarrow> None)"
    "\<And>s. \<forall>j < length cls. s \<noteq> log_section (int j) \<Longrightarrow> \<not> lp_config_has_section (lw_config w) s \<Longrightarrow> \<not> lp_config_has_section c s"
    using wr b(2) by auto
  note cl = cleaned_logs [OF c(1), of "int (length cls)" n]
  show "lp_ok (lw_config (call_logs_write_to_config_file env w))" unfolding e using cl b by simp
  show "\<forall>j < length (lw_call_logs w). \<forall>k. lp_contents (lw_config (call_logs_write_to_config_file env w)) (log_section (int j), k)
       = (case map_of (log_table env (lw_store w (lw_call_logs w ! j))) k of Some v \<Rightarrow> present v | None \<Rightarrow> None)"
  proof (intro allI impI)
    fix j k assume j: "j < length (lw_call_logs w)"
    then have "\<forall>m < n. log_section (int j) \<noteq> log_section (int (length cls) + int m)"
      using b by (auto simp: log_section_inject len)
    then have "lp_contents (clean_logs n (int (length cls)) c) (log_section (int j), k) = lp_contents c (log_section (int j), k)"
      using cl b by simp
    then show "lp_contents (lw_config (call_logs_write_to_config_file env w)) (log_section (int j), k)
       = (case map_of (log_table env (lw_store w (lw_call_logs w ! j))) k of Some v \<Rightarrow> present v | None \<Rightarrow> None)"
      using c(2) [of j k] j by (simp add: e len) (simp add: cls_def)
  qed
  show "\<not> lp_config_has_section (lw_config (call_logs_write_to_config_file env w)) (log_section (int (length (lw_call_logs w))))"
  proof (cases n)
    case 0
    then have m: "lw_max_call_logs w = int (length cls)" using assms(3) by (simp add: n_def len)
    have "\<forall>j < length cls. log_section (int (length cls)) \<noteq> log_section (int j)" using b by (auto simp: log_section_inject)
    with c(3) assms(5) have "\<not> lp_config_has_section c (log_section (int (length cls)))" by (simp add: m)
    then show ?thesis unfolding e len [symmetric] using cl b by simp
  next
    case (Suc k)
    then show ?thesis unfolding e len [symmetric] using cl b by simp
  qed
qed

section \<open>Reading\<close>

text \<open>A log whose addresses and quality their libraries print and read back, with a date.\<close>

definition log_valid :: "('a, 'f) log_env \<Rightarrow> ('a, 'f) call_log \<Rightarrow> bool" where
  "log_valid env cl \<longleftrightarrow> (\<forall>a \<in> {cl_from cl, cl_to cl}. ad_as_string (le_api env) a \<noteq> [] \<and> ad_new (le_api env) (ad_as_string (le_api env) a) = Some a)
     \<and> (\<forall>i \<in> {cl_dir cl, cl_status cl, cl_duration cl}. - (2 ^ 31) \<le> i \<and> i < 2 ^ 31)
     \<and> cl_start_date_time cl \<noteq> 0 \<and> - (2 ^ 63) \<le> cl_start_date_time cl \<and> cl_start_date_time cl < 2 ^ 63
     \<and> text_ok (cl_refkey cl) \<and> text_ok (cl_call_id cl)
     \<and> tmp30 (le_printf_f env (cl_quality cl)) \<noteq> [] \<and> le_sscanf_f env (tmp30 (le_printf_f env (cl_quality cl))) = Some (cl_quality cl)"

definition log_restored :: "('a, 'f) log_env \<Rightarrow> ('a, 'f) call_log \<Rightarrow> ('a, 'f) call_log" where
  "log_restored env cl = cl\<lparr>cl_start_date := le_strftime env (cl_start_date_time cl), cl_connected_date_time := 0\<rparr>"

lemma log_keys:
  assumes "cl_start_date_time cl \<noteq> 0"
  shows "map_of (log_table env cl) ''dir'' = Some (Some (tmp30 (show_int (cl_dir cl))))"
    "map_of (log_table env cl) ''status'' = Some (Some (tmp30 (show_int (cl_status cl))))"
    "map_of (log_table env cl) ''duration'' = Some (Some (tmp30 (show_int (cl_duration cl))))"
    "map_of (log_table env cl) ''video_enabled'' = Some (Some (tmp30 (show_int (uint (cl_video_enabled cl)))))"
    "map_of (log_table env cl) ''start_date_time'' = Some (Some (tmp30 (show_int (cl_start_date_time cl))))"
    "map_of (log_table env cl) ''from'' = Some (Some (ad_as_string (le_api env) (cl_from cl)))"
    "map_of (log_table env cl) ''to'' = Some (Some (ad_as_string (le_api env) (cl_to cl)))"
    "map_of (log_table env cl) ''refkey'' = Some (cl_refkey cl)" "map_of (log_table env cl) ''call_id'' = Some (cl_call_id cl)"
    "map_of (log_table env cl) ''quality'' = Some (Some (tmp30 (le_printf_f env (cl_quality cl))))"
  using assms by (simp_all add: log_table_def)

lemma read_log_back:
  assumes w: "\<And>n. lp_contents c (log_section i, n) = (case map_of (log_table env cl) n of Some v \<Rightarrow> present v | None \<Rightarrow> None)"
    and v: "log_valid env cl"
  shows "read_log env c i = Some (ReadLog (log_restored env cl))"
proof -
  let ?key = "log_section i"
  have valid: "ad_as_string (le_api env) (cl_from cl) \<noteq> []" "ad_as_string (le_api env) (cl_to cl) \<noteq> []"
    "ad_new (le_api env) (ad_as_string (le_api env) (cl_from cl)) = Some (cl_from cl)"
    "ad_new (le_api env) (ad_as_string (le_api env) (cl_to cl)) = Some (cl_to cl)"
    "cl_start_date_time cl \<noteq> 0" "- (2 ^ 63) \<le> cl_start_date_time cl" "cl_start_date_time cl < 2 ^ 63"
    "text_ok (cl_refkey cl)" "text_ok (cl_call_id cl)" "tmp30 (le_printf_f env (cl_quality cl)) \<noteq> []"
    "le_sscanf_f env (tmp30 (le_printf_f env (cl_quality cl))) = Some (cl_quality cl)"
    and ranges: "- (2 ^ 31) \<le> cl_dir cl" "cl_dir cl < 2 ^ 31" "- (2 ^ 31) \<le> cl_status cl" "cl_status cl < 2 ^ 31"
    "- (2 ^ 31) \<le> cl_duration cl" "cl_duration cl < 2 ^ 31"
    using v unfolding log_valid_def by blast+
  note k = log_keys [OF valid(5), of env]
  have t: "tmp30 (show_int (cl_start_date_time cl)) = show_int (cl_start_date_time cl)" using valid(6,7) by (intro tmp30_int) auto
  have str: "lp_config_get_string c ?key n None = u" if "map_of (log_table env cl) n = Some u" "text_ok u" for n u
    using that by (simp add: get_string_contents w present_text split: option.split)
  have num: "lp_config_get_int c ?key n 0 = Some j"
    if "map_of (log_table env cl) n = Some (Some (tmp30 (show_int j)))" "- (2 ^ 31) \<le> j" "j < 2 ^ 31" for n j
    using that by (simp add: lp_config_get_int_def get_string_contents w present_int read_int)
  have addr: "text_ok (Some (ad_as_string (le_api env) (cl_from cl)))" "text_ok (Some (ad_as_string (le_api env) (cl_to cl)))"
    using valid(1,2) by (simp_all add: text_ok_def)
  have date: "lp_config_get_int64 c ?key ''start_date_time'' 0 = Some (cl_start_date_time cl)"
    using valid(6,7) by (simp add: lp_config_get_int64_def get_string_contents w k(5) t present_nonempty as_int_def atoll_def)
  have quality: "lp_config_get_float (le_sscanf_f env) c ?key ''quality'' d = cl_quality cl" for d
    using valid(10,11) by (simp add: lp_config_get_float_def get_string_contents w k(10) present_nonempty)
  have sec: "lp_config_has_section c ?key"
    using present_int [OF ranges(1,2)] by (intro has_section_contents [where n = "''dir''"]) (simp add: w k(1))
  show ?thesis
    using sec valid(3,4,5)
    by (simp add: read_log_def Let_def str [OF k(6) addr(1)] str [OF k(7) addr(2)] num [OF k(1) ranges(1,2)] num [OF k(2) ranges(3,4)]
      num [OF k(3) ranges(5,6)] num [OF k(4) byte_range] date quality str [OF k(8) valid(8)] str [OF k(9) valid(9)]
      call_log_fresh_def set_call_log_date_def log_restored_def)
qed

lemma read_logs_back:
  assumes "\<And>j n. j < length cls \<Longrightarrow> lp_contents (lw_config w) (log_section (i + int j), n)
        = (case map_of (log_table env (cls ! j)) n of Some v \<Rightarrow> present v | None \<Rightarrow> None)"
    and "\<not> lp_config_has_section (lw_config w) (log_section (i + int (length cls)))"
    and "\<forall>cl \<in> set cls. log_valid env cl" and "\<forall>k \<in> set (lw_call_logs w). k < lw_next w" and "length cls < fuel"
  shows "\<exists>w'. read_logs env fuel i w = Some w' \<and> map (lw_store w') (lw_call_logs w') = map (lw_store w) (lw_call_logs w) @ map (log_restored env) cls
    \<and> lw_config w' = lw_config w"
  using assms
proof (induction cls arbitrary: i w fuel)
  case Nil
  then obtain k where "fuel = Suc k" by (cases fuel) auto
  with Nil show ?case by (simp add: read_log_def)
next
  case (Cons f fs)
  then obtain fuel' where fuel: "fuel = Suc fuel'" by (cases fuel) auto
  have r: "read_log env (lw_config w) i = Some (ReadLog (log_restored env f))"
    using Cons.prems(1) [of 0] Cons.prems(3) by (intro read_log_back) simp_all
  define v where "v = w\<lparr>lw_next := Suc (lw_next w), lw_refcnt := (lw_refcnt w)(lw_next w := 1),
     lw_store := (lw_store w)(lw_next w := log_restored env f), lw_call_logs := lw_call_logs w @ [lw_next w]\<rparr>"
  have step: "read_logs env fuel i w = read_logs env fuel' (i + 1) v"
    by (simp add: fuel r linphone_call_log_new_def v_def)
  have v: "lw_config v = lw_config w" "map (lw_store v) (lw_call_logs v) = map (lw_store w) (lw_call_logs w) @ [log_restored env f]"
    "\<forall>k \<in> set (lw_call_logs v). k < lw_next v"
    using Cons.prems(4) by (auto simp: v_def)
  have "\<exists>w'. read_logs env fuel' (i + 1) v = Some w'
    \<and> map (lw_store w') (lw_call_logs w') = map (lw_store v) (lw_call_logs v) @ map (log_restored env) fs \<and> lw_config w' = lw_config v"
  proof (rule Cons.IH)
    fix j n assume "j < length fs"
    then show "lp_contents (lw_config v) (log_section (i + 1 + int j), n)
        = (case map_of (log_table env (fs ! j)) n of Some v \<Rightarrow> present v | None \<Rightarrow> None)"
      using Cons.prems(1) [of "Suc j" n] by (simp add: v add.assoc)
  qed (use Cons.prems v(3) in \<open>simp_all add: v(1) fuel add.assoc\<close>)
  then show ?case unfolding step v by auto
qed


section \<open>The bound of the history\<close>

text \<open>The calls that are over, each with its duration, oldest first.\<close>

definition calls_over :: "('a, 'f) log_env \<Rightarrow> (nat \<times> int) list \<Rightarrow> ('a, 'f) log_world \<Rightarrow> ('a, 'f) log_world" where
  "calls_over env calls w = fold (\<lambda>(i, d). call_log_completed env d i) calls w"

lemma write_frame [simp]:
  "lw_call_logs (call_logs_write_to_config_file env w) = lw_call_logs w" "lw_store (call_logs_write_to_config_file env w) = lw_store w"
  "lw_max_call_logs (call_logs_write_to_config_file env w) = lw_max_call_logs w"
  "lw_missed_calls (call_logs_write_to_config_file env w) = lw_missed_calls w"
  "lw_freed (call_logs_write_to_config_file env w) = lw_freed w" "lw_refcnt (call_logs_write_to_config_file env w) = lw_refcnt w"
  "lw_next (call_logs_write_to_config_file env w) = lw_next w"
  by (simp_all add: call_logs_write_to_config_file_def Let_def)

lemma unref_frame [simp]:
  "lw_call_logs (linphone_call_log_unref i w) = lw_call_logs w" "lw_store (linphone_call_log_unref i w) = lw_store w"
  "lw_max_call_logs (linphone_call_log_unref i w) = lw_max_call_logs w" "lw_missed_calls (linphone_call_log_unref i w) = lw_missed_calls w"
  "lw_next (linphone_call_log_unref i w) = lw_next w"
  by (simp_all add: linphone_call_log_unref_def Let_def)

lemma newest_kept:
  assumes "0 \<le> m" "int (length xs) \<le> m"
  shows "(if int (length (i # xs)) > m then butlast (i # xs) else i # xs) = take (nat m) (i # xs)"
proof (cases "int (length xs) = m")
  case True
  then have "nat m = length xs" by simp
  then show ?thesis using True by (simp add: butlast_conv_take)
next
  case False
  then show ?thesis using assms by simp
qed

lemma completed_frame:
  assumes "0 \<le> lw_max_call_logs w" "int (length (lw_call_logs w)) \<le> lw_max_call_logs w"
  shows "lw_call_logs (call_log_completed env d i w) = take (nat (lw_max_call_logs w)) (i # lw_call_logs w)"
    "lw_max_call_logs (call_log_completed env d i w) = lw_max_call_logs w"
    "cl_status (lw_store (call_log_completed env d i w) j) = cl_status (lw_store w j)"
    "lw_missed_calls (call_log_completed env d i w) = lw_missed_calls w
       + (if cl_status (lw_store w i) = call_status_int LinphoneCallMissed then 1 else 0)"
  using newest_kept [OF assms, of i] by (auto simp: call_log_completed_def Let_def linphone_call_log_ref_def)

text \<open>C28. The history keeps the newest: after any number of calls it holds the most recent ones, newest
  first, as many as its bound allows, and the count of missed calls grew by those that were missed.\<close>

theorem history_keeps_newest:
  assumes "0 \<le> lw_max_call_logs w" and "int (length (lw_call_logs w)) \<le> lw_max_call_logs w"
  shows "lw_call_logs (calls_over env calls w) = take (nat (lw_max_call_logs w)) (rev (map fst calls) @ lw_call_logs w)
    \<and> lw_missed_calls (calls_over env calls w) = lw_missed_calls w
        + int (length (filter (\<lambda>(i, d). cl_status (lw_store w i) = call_status_int LinphoneCallMissed) calls))"
  using assms
proof (induction calls arbitrary: w)
  case (Cons c calls)
  obtain i d where c: "c = (i, d)" by fastforce
  define v where "v = call_log_completed env d i w"
  note f = completed_frame [OF Cons.prems, of env d i, folded v_def]
  have "int (length (lw_call_logs v)) \<le> lw_max_call_logs v" using Cons.prems(1) by (simp add: f)
  then have "lw_call_logs (calls_over env calls v) = take (nat (lw_max_call_logs v)) (rev (map fst calls) @ lw_call_logs v)
    \<and> lw_missed_calls (calls_over env calls v) = lw_missed_calls v
        + int (length (filter (\<lambda>(i, d). cl_status (lw_store v i) = call_status_int LinphoneCallMissed) calls))"
    using Cons.prems(1) by (intro Cons.IH) (simp_all add: f)
  moreover have "take n (xs @ take n ys) = take n (xs @ ys)" for n and xs ys :: "nat list" by (simp add: take_append min_def)
  moreover have "calls_over env (c # calls) w = calls_over env calls v" by (simp add: calls_over_def c v_def)
  ultimately show ?case by (simp add: f c)
qed (simp add: calls_over_def)

text \<open>With more logs than the bound, as a store of a larger bound leaves them, nothing cleans the section
  after the last log: after one is removed the last one is there twice for the next start.\<close>

lemma stale_log_stays:
  assumes "lp_ok (lw_config w)" "\<not> lw_starting w" "lw_max_call_logs w \<le> int (length (lw_call_logs w))" "int (length (lw_call_logs w)) < 2 ^ 31"
  shows "lp_contents (lw_config (call_logs_write_to_config_file env w)) (log_section (int (length (lw_call_logs w))), k)
    = lp_contents (lw_config w) (log_section (int (length (lw_call_logs w))), k)"
proof -
  have "\<forall>j < length (lw_call_logs w). log_section (int (length (lw_call_logs w))) \<noteq> log_section (int j)"
    using assms(4) by (auto simp: log_section_inject)
  then show ?thesis
    using written_logs [OF assms(1), of 0 "map (lw_store w) (lw_call_logs w)" env] assms(2-4)
    by (simp add: call_logs_write_to_config_file_def Let_def)
qed

section \<open>Instances\<close>

definition ex_log_env :: "(string, int) log_env" where
  "ex_log_env = \<lparr>le_api = ex_addr, le_now = 5, le_strftime = (\<lambda>_. ''today''), le_mktime = (\<lambda>_. 0), le_printf_f = show_int,
     le_sscanf_f = (\<lambda>s. Some (strto 10 s)), le_minus_one = -1\<rparr>"

definition ex_missed :: "(string, int) call_log" where
  "ex_missed = (call_log_fresh ex_log_env 1 ''sip:bob@example.org'' ''sip:alice@example.org'')\<lparr>cl_status := 2\<rparr>"

definition ex_logs :: "(string, int) log_world" where
  "ex_logs = \<lparr>lw_config = lp_config_zero, lw_store = (\<lambda>_. ex_missed), lw_next = 3, lw_refcnt = (\<lambda>_. 1), lw_freed = [],
     lw_call_logs = [0], lw_missed_calls = 1, lw_max_call_logs = 2, lw_starting = False, lw_updated = []\<rparr>"


lemma history_keeps_newest_witness:
  "lw_call_logs (calls_over ex_log_env [(1, 10), (2, 20)] ex_logs) = [2, 1]
    \<and> lw_missed_calls (calls_over ex_log_env [(1, 10), (2, 20)] ex_logs) = 3"
  using history_keeps_newest [of ex_logs ex_log_env "[(1, 10), (2, 20)]"]
  by (simp add: ex_logs_def ex_missed_def)

end
