(* ===== verification/ChatModel.thy ===== *)
theory ChatModel
  imports Friends Reasons
begin

text \<open>
Chat rooms and messages (\<open>chat.c\<close>) and their storage (\<open>message_storage.c\<close>).  Rooms, messages,
operations and HTTP requests are numbered in the order they are made; rooms and messages are reference
counted, and the freed ones remembered, so that a use of a freed one is a fault of the state.
Enumerations that the data base stores are integers, as it may hold any.  The data base, libxml2, the
encryption of messages and the stack below are parameters.
\<close>

section \<open>Data\<close>

datatype chat_state = LinphoneChatMessageStateIdle | LinphoneChatMessageStateInProgress | LinphoneChatMessageStateDelivered
  | LinphoneChatMessageStateNotDelivered | LinphoneChatMessageStateFileTransferError | LinphoneChatMessageStateFileTransferDone

fun chat_state_int :: "chat_state \<Rightarrow> int" where
  "chat_state_int LinphoneChatMessageStateIdle = 0"
| "chat_state_int LinphoneChatMessageStateInProgress = 1"
| "chat_state_int LinphoneChatMessageStateDelivered = 2"
| "chat_state_int LinphoneChatMessageStateNotDelivered = 3"
| "chat_state_int LinphoneChatMessageStateFileTransferError = 4"
| "chat_state_int LinphoneChatMessageStateFileTransferDone = 5"

definition linphone_chat_message_state_to_string :: "int \<Rightarrow> string option" where
  "linphone_chat_message_state_to_string state =
     (if state = chat_state_int LinphoneChatMessageStateIdle then Some ''LinphoneChatMessageStateIdle''
      else if state = chat_state_int LinphoneChatMessageStateInProgress then Some ''LinphoneChatMessageStateInProgress''
      else if state = chat_state_int LinphoneChatMessageStateDelivered then Some ''LinphoneChatMessageStateDelivered''
      else if state = chat_state_int LinphoneChatMessageStateNotDelivered then Some ''LinphoneChatMessageStateNotDelivered''
      else if state = chat_state_int LinphoneChatMessageStateFileTransferError then Some ''LinphoneChatMessageStateFileTransferError''
      else if state = chat_state_int LinphoneChatMessageStateFileTransferDone then Some ''LinphoneChatMessageStateFileTransferDone ''
      else None)"

datatype chat_dir = LinphoneChatMessageIncoming | LinphoneChatMessageOutgoing

fun chat_dir_int :: "chat_dir \<Rightarrow> int" where
  "chat_dir_int LinphoneChatMessageIncoming = 0"
| "chat_dir_int LinphoneChatMessageOutgoing = 1"

datatype composing_state = LinphoneIsComposingIdle | LinphoneIsComposingActive

record chat_content =
  ct_type :: "string option"
  ct_subtype :: "string option"
  ct_name :: "string option"
  ct_encoding :: "string option"
  ct_size :: "64 word"
  ct_key :: "string option"

definition linphone_content_new :: chat_content where
  "linphone_content_new = \<lparr>ct_type = None, ct_subtype = None, ct_name = None, ct_encoding = None, ct_size = 0, ct_key = None\<rparr>"

text \<open>A message has an old callback for its state and a newer one; whether they are set is all that is
  kept of them.\<close>

record 'a chat_message =
  cm_room :: nat
  cm_dir :: int
  cm_message :: "string option"
  cm_cb :: bool
  cm_state_changed :: bool
  cm_appdata :: "string option"
  cm_url :: "string option"
  cm_from :: "'a option"
  cm_to :: "'a option"
  cm_time :: int
  cm_headers :: "(string \<times> string) list"
  cm_state :: int
  cm_is_read :: bool_t
  cm_storage_id :: "32 word"
  cm_op :: "nat option"
  cm_content :: "chat_content option"
  cm_content_type :: "string option"
  cm_http :: "nat option"
  cm_filepath :: "string option"
  cm_refcnt :: int

text \<open>A timer is kept with its delay in milliseconds.\<close>

record 'a chat_room =
  cr_peer :: 'a
  cr_transient :: "nat list"
  cr_remote_composing :: composing_state
  cr_composing :: composing_state
  cr_remote_timer :: "int option"
  cr_idle_timer :: "int option"
  cr_refresh_timer :: "int option"
  cr_has_core :: bool
  cr_refcnt :: int

datatype op_owner = NoOwner | OwnedByMessage nat | OwnedByCall

datatype chat_fault = UsesFreedMessage nat | UsesFreedRoom nat | DereferencesNull | TakesCallForMessage | ReadsPastEnd

datatype 'a chat_action =
    TextMessageReceived nat "'a option" string
  | MessageReceived nat nat
  | IsComposingReceived nat
  | MsgStateChanged nat int
  | MsgStateCallback nat int
  | ConfigureOp nat nat "(string \<times> string) list" bool
  | SalSendMessage nat "string option" string string "string option"
  | SalReply nat int
  | HttpPost nat nat
  | HttpUpload nat nat
  | HttpGet nat nat
  | HttpCancel nat
  | FileReceived nat

section \<open>The data base\<close>

text \<open>The rows of the two tables, the statements the storage makes, and the data base as the storage uses
  it.  Rows of a room are selected newest first, with a limit and an offset.  The buffer of that
  statement has 511 bytes: what a statement that does not fit returns is another parameter.\<close>

record history_row =
  hr_id :: int
  hr_local :: string
  hr_remote :: string
  hr_direction :: int
  hr_message :: "string option"
  hr_time :: string
  hr_read :: int
  hr_status :: int
  hr_url :: "string option"
  hr_utc :: "int option"
  hr_appdata :: "string option"
  hr_content :: "int option"

record content_row =
  co_type :: "string option"
  co_subtype :: "string option"
  co_name :: "string option"
  co_encoding :: "string option"
  co_size :: int

datatype statement =
    InsertHistory history_row
  | InsertContent content_row
  | UpdateStatus int int
  | UpdateAppdata "string option" int
  | UpdateRead int string
  | UpdateUrl "string option" int
  | DeleteMessage int
  | DeleteHistory string

record 'db sql_api =
  sq_exec :: "statement \<Rightarrow> 'db \<Rightarrow> 'db"
  sq_last_insert_rowid :: "'db \<Rightarrow> int"
  sq_history :: "string \<Rightarrow> int option \<Rightarrow> int option \<Rightarrow> 'db \<Rightarrow> history_row list"
  sq_cut_history :: "string \<Rightarrow> int option \<Rightarrow> int option \<Rightarrow> 'db \<Rightarrow> history_row list"
  sq_count :: "string \<Rightarrow> bool \<Rightarrow> 'db \<Rightarrow> int"
  sq_content :: "int \<Rightarrow> 'db \<Rightarrow> content_row list"
  sq_contacts :: "'db \<Rightarrow> string list"
  sq_quote :: "string \<Rightarrow> string"

section \<open>The state and what is around it\<close>

record ('a, 'db) chat_world =
  cw_room :: "nat \<Rightarrow> 'a chat_room"
  cw_next_room :: nat
  cw_chatrooms :: "nat list"
  cw_freed_rooms :: "nat list"
  cw_msg :: "nat \<Rightarrow> 'a chat_message"
  cw_next_msg :: nat
  cw_freed :: "nat list"
  cw_owner :: "nat \<Rightarrow> op_owner"
  cw_next_op :: nat
  cw_released :: "nat list"
  cw_next_http :: nat
  cw_db :: "'db option"
  cw_deny :: linphone_reason
  cw_last_ids :: "string list"
  cw_faults :: "chat_fault list"
  cw_trace :: "'a chat_action list"

datatype lime_result = LimeNoCache | LimeBadCache | LimeFailed | LimeDone string

datatype xml_node = XmlNode (xml_name: string) (xml_type: "string option") (xml_url: "string option") (xml_text: "string option")
  (xml_children: "xml_node list")

record ('a, 'db) chat_env =
  ch_accounts :: "'a friend_env"
  ch_sql :: "'db sql_api"
  ch_config :: lp_config
  ch_now :: int
  ch_interpret_url :: "string \<Rightarrow> 'a option"
  ch_primary_contact :: "string option"
  ch_calls :: "('a \<times> call_state \<times> nat) list"
  ch_lime_available :: bool
  ch_encrypt :: "string option \<Rightarrow> string option \<Rightarrow> lime_result"
  ch_decrypt :: "string option \<Rightarrow> lime_result"
  ch_build_request :: bool
  ch_composing_xml :: "bool \<Rightarrow> string option \<Rightarrow> string option"
  ch_parse_composing :: "string \<Rightarrow> (string option \<times> string option) list option"
  ch_parse_xml :: "string option \<Rightarrow> xml_node list option"
  ch_b64_decode :: "string \<Rightarrow> string"
  ch_add_file_key :: "string option \<Rightarrow> chat_content \<Rightarrow> string option"
  ch_random_key :: string
  ch_op_to :: "nat \<Rightarrow> string option"
  ch_op_headers :: "nat \<Rightarrow> (string \<times> string) list option"
  ch_transfer_server :: "string option"
  ch_http_cancelled :: "nat \<Rightarrow> bool"

abbreviation ch_api :: "('a, 'db) chat_env \<Rightarrow> 'a addr_api" where
  "ch_api env \<equiv> fe_api (ch_accounts env)"

definition ch_int :: "('a, 'db) chat_env \<Rightarrow> string \<Rightarrow> int \<Rightarrow> int" where
  "ch_int env key dflt = fr_get_int (ch_accounts env) (ch_config env) ''sip'' key dflt"

definition ch_fault :: "chat_fault \<Rightarrow> ('a, 'db) chat_world \<Rightarrow> ('a, 'db) chat_world" where
  "ch_fault f w = w\<lparr>cw_faults := f # cw_faults w\<rparr>"

definition ch_emit :: "'a chat_action \<Rightarrow> ('a, 'db) chat_world \<Rightarrow> ('a, 'db) chat_world" where
  "ch_emit a w = w\<lparr>cw_trace := cw_trace w @ [a]\<rparr>"

text \<open>Every access through a pointer is an access to live memory or a fault.\<close>

definition touch_msg :: "nat \<Rightarrow> ('a, 'db) chat_world \<Rightarrow> ('a, 'db) chat_world" where
  "touch_msg i w = (if i \<in> set (cw_freed w) then ch_fault (UsesFreedMessage i) w else w)"

definition touch_room :: "nat \<Rightarrow> ('a, 'db) chat_world \<Rightarrow> ('a, 'db) chat_world" where
  "touch_room r w = (if r \<in> set (cw_freed_rooms w) then ch_fault (UsesFreedRoom r) w
     else if \<not> cr_has_core (cw_room w r) then ch_fault DereferencesNull w else w)"

definition upd_msg :: "nat \<Rightarrow> ('a chat_message \<Rightarrow> 'a chat_message) \<Rightarrow> ('a, 'db) chat_world \<Rightarrow> ('a, 'db) chat_world" where
  "upd_msg i f w = (touch_msg i w)\<lparr>cw_msg := (cw_msg w)(i := f (cw_msg w i))\<rparr>"

definition upd_room :: "nat \<Rightarrow> ('a chat_room \<Rightarrow> 'a chat_room) \<Rightarrow> ('a, 'db) chat_world \<Rightarrow> ('a, 'db) chat_world" where
  "upd_room r f w = w\<lparr>cw_room := (cw_room w)(r := f (cw_room w r))\<rparr>"

definition ch_exec :: "('a, 'db) chat_env \<Rightarrow> statement \<Rightarrow> ('a, 'db) chat_world \<Rightarrow> ('a, 'db) chat_world" where
  "ch_exec env st w = (case cw_db w of None \<Rightarrow> w | Some db \<Rightarrow> w\<lparr>cw_db := Some (sq_exec (ch_sql env) st db)\<rparr>)"

definition sal_op_for_chat :: "('a, 'db) chat_world \<Rightarrow> nat \<times> ('a, 'db) chat_world" where
  "sal_op_for_chat w = (cw_next_op w, w\<lparr>cw_next_op := Suc (cw_next_op w), cw_owner := (cw_owner w)(cw_next_op w := NoOwner)\<rparr>)"

definition release_chat_op :: "nat \<Rightarrow> ('a, 'db) chat_world \<Rightarrow> ('a, 'db) chat_world" where
  "release_chat_op op w = w\<lparr>cw_owner := (cw_owner w)(op := NoOwner), cw_released := op # cw_released w\<rparr>"

section \<open>References to messages\<close>

definition linphone_chat_message_ref :: "nat \<Rightarrow> ('a, 'db) chat_world \<Rightarrow> ('a, 'db) chat_world" where
  "linphone_chat_message_ref i = upd_msg i (\<lambda>m. m\<lparr>cm_refcnt := cm_refcnt m + 1\<rparr>)"

definition linphone_chat_message_destroy :: "nat \<Rightarrow> ('a, 'db) chat_world \<Rightarrow> ('a, 'db) chat_world" where
  "linphone_chat_message_destroy i w = (let w = (case cm_op (cw_msg w i) of Some op \<Rightarrow> release_chat_op op w | None \<Rightarrow> w)
     in w\<lparr>cw_freed := i # cw_freed w\<rparr>)"

definition linphone_chat_message_unref :: "nat \<Rightarrow> ('a, 'db) chat_world \<Rightarrow> ('a, 'db) chat_world" where
  "linphone_chat_message_unref i w = (let w = upd_msg i (\<lambda>m. m\<lparr>cm_refcnt := cm_refcnt m - 1\<rparr>) w
     in if cm_refcnt (cw_msg w i) = 0 then linphone_chat_message_destroy i w else w)"

section \<open>Rooms\<close>

definition linphone_core_disable_chat :: "linphone_reason \<Rightarrow> ('a, 'db) chat_world \<Rightarrow> ('a, 'db) chat_world" where
  "linphone_core_disable_chat deny_reason w = w\<lparr>cw_deny := deny_reason\<rparr>"

definition linphone_core_enable_chat :: "('a, 'db) chat_world \<Rightarrow> ('a, 'db) chat_world" where
  "linphone_core_enable_chat w = w\<lparr>cw_deny := LinphoneReasonNone\<rparr>"

definition linphone_core_chat_enabled :: "('a, 'db) chat_world \<Rightarrow> bool" where
  "linphone_core_chat_enabled w \<longleftrightarrow> cw_deny w \<noteq> LinphoneReasonNone"

definition linphone_chat_room_matches :: "'a addr_api \<Rightarrow> 'a chat_room \<Rightarrow> 'a \<Rightarrow> bool" where
  "linphone_chat_room_matches api cr from = linphone_address_weak_equal api (cr_peer cr) from"

definition linphone_core_create_chat_room_base :: "'a \<Rightarrow> ('a, 'db) chat_world \<Rightarrow> nat \<times> ('a, 'db) chat_world" where
  "linphone_core_create_chat_room_base addr w = (let r = cw_next_room w in (r,
     w\<lparr>cw_room := (cw_room w)(r := \<lparr>cr_peer = addr, cr_transient = [], cr_remote_composing = LinphoneIsComposingIdle,
         cr_composing = LinphoneIsComposingIdle, cr_remote_timer = None, cr_idle_timer = None, cr_refresh_timer = None,
         cr_has_core = True, cr_refcnt = 1\<rparr>),
       cw_next_room := Suc r, cw_chatrooms := cw_chatrooms w @ [r]\<rparr>))"

definition linphone_core_create_chat_room_from_url ::
    "('a, 'db) chat_env \<Rightarrow> string \<Rightarrow> ('a, 'db) chat_world \<Rightarrow> nat option \<times> ('a, 'db) chat_world" where
  "linphone_core_create_chat_room_from_url env to w = (case ch_interpret_url env to of
     Some parsed_url \<Rightarrow> (case linphone_core_create_chat_room_base parsed_url w of (r, w) \<Rightarrow> (Some r, w))
   | None \<Rightarrow> (None, w))"

definition linphone_core_find_chat_room :: "'a addr_api \<Rightarrow> 'a \<Rightarrow> ('a, 'db) chat_world \<Rightarrow> nat option" where
  "linphone_core_find_chat_room api addr w = find (\<lambda>r. linphone_chat_room_matches api (cw_room w r) addr) (cw_chatrooms w)"

definition linphone_core_get_or_create_chat_room ::
    "('a, 'db) chat_env \<Rightarrow> string \<Rightarrow> ('a, 'db) chat_world \<Rightarrow> nat option \<times> ('a, 'db) chat_world" where
  "linphone_core_get_or_create_chat_room env to w = (case ch_interpret_url env to of
     None \<Rightarrow> (None, w)
   | Some to_addr \<Rightarrow> (case linphone_core_find_chat_room (ch_api env) to_addr w of
       Some r \<Rightarrow> (Some r, w)
     | None \<Rightarrow> linphone_core_create_chat_room_from_url env to w))"

definition linphone_core_get_chat_room :: "'a addr_api \<Rightarrow> 'a \<Rightarrow> ('a, 'db) chat_world \<Rightarrow> nat \<times> ('a, 'db) chat_world" where
  "linphone_core_get_chat_room api addr w = (case linphone_core_find_chat_room api addr w of
     Some r \<Rightarrow> (r, w) | None \<Rightarrow> linphone_core_create_chat_room_base addr w)"

definition linphone_chat_room_delete_composing_idle_timer :: "nat \<Rightarrow> ('a, 'db) chat_world \<Rightarrow> ('a, 'db) chat_world" where
  "linphone_chat_room_delete_composing_idle_timer r = upd_room r (\<lambda>cr. cr\<lparr>cr_idle_timer := None\<rparr>)"

definition linphone_chat_room_delete_composing_refresh_timer :: "nat \<Rightarrow> ('a, 'db) chat_world \<Rightarrow> ('a, 'db) chat_world" where
  "linphone_chat_room_delete_composing_refresh_timer r = upd_room r (\<lambda>cr. cr\<lparr>cr_refresh_timer := None\<rparr>)"

definition linphone_chat_room_delete_remote_composing_refresh_timer :: "nat \<Rightarrow> ('a, 'db) chat_world \<Rightarrow> ('a, 'db) chat_world" where
  "linphone_chat_room_delete_remote_composing_refresh_timer r = upd_room r (\<lambda>cr. cr\<lparr>cr_remote_timer := None\<rparr>)"

definition linphone_chat_room_destroy :: "nat \<Rightarrow> ('a, 'db) chat_world \<Rightarrow> ('a, 'db) chat_world" where
  "linphone_chat_room_destroy r w = (let
     w = fold linphone_chat_message_unref (cr_transient (cw_room w r)) w;
     w = linphone_chat_room_delete_composing_idle_timer r w;
     w = linphone_chat_room_delete_composing_refresh_timer r w;
     w = linphone_chat_room_delete_remote_composing_refresh_timer r w;
     w = (if cr_has_core (cw_room w r) then w\<lparr>cw_chatrooms := remove1 r (cw_chatrooms w)\<rparr> else w)
   in w\<lparr>cw_freed_rooms := r # cw_freed_rooms w\<rparr>)"

definition linphone_chat_room_ref :: "nat \<Rightarrow> ('a, 'db) chat_world \<Rightarrow> ('a, 'db) chat_world" where
  "linphone_chat_room_ref r = upd_room r (\<lambda>cr. cr\<lparr>cr_refcnt := cr_refcnt cr + 1\<rparr>)"

definition linphone_chat_room_unref :: "nat \<Rightarrow> ('a, 'db) chat_world \<Rightarrow> ('a, 'db) chat_world" where
  "linphone_chat_room_unref r w = (let w = upd_room r (\<lambda>cr. cr\<lparr>cr_refcnt := cr_refcnt cr - 1\<rparr>) w
     in if cr_refcnt (cw_room w r) = 0 then linphone_chat_room_destroy r w else w)"

definition linphone_chat_room_release :: "nat \<Rightarrow> ('a, 'db) chat_world \<Rightarrow> ('a, 'db) chat_world" where
  "linphone_chat_room_release r w = linphone_chat_room_unref r (upd_room r (\<lambda>cr. cr\<lparr>cr_has_core := False\<rparr>) w)"

definition linphone_chat_room_is_remote_composing :: "'a chat_room \<Rightarrow> bool" where
  "linphone_chat_room_is_remote_composing cr \<longleftrightarrow> cr_remote_composing cr = LinphoneIsComposingActive"

section \<open>Messages\<close>

definition chat_message_blank :: "nat \<Rightarrow> 'a chat_message" where
  "chat_message_blank r = \<lparr>cm_room = r, cm_dir = 0, cm_message = None, cm_cb = False, cm_state_changed = False, cm_appdata = None,
     cm_url = None, cm_from = None, cm_to = None, cm_time = 0, cm_headers = [], cm_state = 0, cm_is_read = 0, cm_storage_id = 0,
     cm_op = None, cm_content = None, cm_content_type = None, cm_http = None, cm_filepath = None, cm_refcnt = 1\<rparr>"

definition new_message :: "'a chat_message \<Rightarrow> ('a, 'db) chat_world \<Rightarrow> nat \<times> ('a, 'db) chat_world" where
  "new_message m w = (cw_next_msg w, w\<lparr>cw_msg := (cw_msg w)(cw_next_msg w := m), cw_next_msg := Suc (cw_next_msg w)\<rparr>)"

definition linphone_chat_room_create_message ::
    "nat \<Rightarrow> string option \<Rightarrow> ('a, 'db) chat_world \<Rightarrow> nat \<times> ('a, 'db) chat_world" where
  "linphone_chat_room_create_message r message = new_message ((chat_message_blank r)\<lparr>cm_message := message, cm_is_read := 1\<rparr>)"

text \<open>The identity of the default account, or else the primary contact.\<close>

definition linphone_core_get_identity :: "('a, 'db) chat_env \<Rightarrow> string option" where
  "linphone_core_get_identity env = (case fe_default (ch_accounts env) of
     Some c \<Rightarrow> pc_reg_identity (fe_accounts (ch_accounts env) c) | None \<Rightarrow> ch_primary_contact env)"

text \<open>\<^const>\<open>None\<close> is an account without a domain, which the look-up dereferences.\<close>

definition linphone_core_find_best_identity :: "('a, 'db) chat_env \<Rightarrow> 'a \<Rightarrow> string option option" where
  "linphone_core_find_best_identity env to = map_option (\<lambda>cfg. case cfg of
     Some c \<Rightarrow> pc_reg_identity (fe_accounts (ch_accounts env) c) | None \<Rightarrow> ch_primary_contact env)
   (linphone_core_lookup_known_proxy (ch_accounts env) to)"

definition linphone_chat_message_set_from_address :: "'a \<Rightarrow> 'a chat_message \<Rightarrow> 'a chat_message" where
  "linphone_chat_message_set_from_address addr m = m\<lparr>cm_from := Some addr\<rparr>"

definition linphone_chat_message_set_to_address :: "'a \<Rightarrow> 'a chat_message \<Rightarrow> 'a chat_message" where
  "linphone_chat_message_set_to_address addr m = m\<lparr>cm_to := Some addr\<rparr>"

text \<open>Cloning an address that could not be made dereferences it.\<close>

definition own_address :: "('a, 'db) chat_env \<Rightarrow> 'a option" where
  "own_address env = Option.bind (linphone_core_get_identity env) (ad_new (ch_api env))"

definition linphone_chat_room_create_message_2 :: "('a, 'db) chat_env \<Rightarrow> nat \<Rightarrow> string option \<Rightarrow> string option \<Rightarrow> int \<Rightarrow> int \<Rightarrow> bool_t
    \<Rightarrow> bool \<Rightarrow> ('a, 'db) chat_world \<Rightarrow> nat \<times> ('a, 'db) chat_world" where
  "linphone_chat_room_create_message_2 env r message url state time is_read is_incoming w = (let
     w = touch_room r w; peer = cr_peer (cw_room w r);
     w = (if own_address env = None then ch_fault DereferencesNull w else w);
     m = (chat_message_blank r)\<lparr>cm_message := message, cm_url := url, cm_time := time, cm_state := state, cm_is_read := is_read,
       cm_dir := chat_dir_int (if is_incoming then LinphoneChatMessageIncoming else LinphoneChatMessageOutgoing),
       cm_from := (if is_incoming then Some peer else own_address env),
       cm_to := (if is_incoming then own_address env else Some peer)\<rparr>
   in new_message m w)"

definition linphone_chat_room_create_file_transfer_message ::
    "('a, 'db) chat_env \<Rightarrow> nat \<Rightarrow> chat_content \<Rightarrow> ('a, 'db) chat_world \<Rightarrow> nat \<times> ('a, 'db) chat_world" where
  "linphone_chat_room_create_file_transfer_message env r initial_content w = (let
     w = touch_room r w;
     w = (if own_address env = None then ch_fault DereferencesNull w else w);
     m = (chat_message_blank r)\<lparr>cm_is_read := 1, cm_content := Some initial_content,
       cm_dir := chat_dir_int LinphoneChatMessageOutgoing, cm_to := Some (cr_peer (cw_room w r)), cm_from := own_address env\<rparr>
   in new_message m w)"

definition linphone_chat_message_clone :: "nat \<Rightarrow> ('a, 'db) chat_world \<Rightarrow> nat \<times> ('a, 'db) chat_world" where
  "linphone_chat_message_clone i w = (let m = cw_msg w i in
     new_message ((chat_message_blank (cm_room m))\<lparr>cm_message := cm_message m, cm_is_read := 1, cm_url := cm_url m,
       cm_appdata := cm_appdata m, cm_cb := cm_cb m, cm_time := cm_time m, cm_state := cm_state m,
       cm_storage_id := cm_storage_id m, cm_from := cm_from m, cm_filepath := cm_filepath m\<rparr>) (touch_msg i w))"

definition linphone_chat_message_get_to_address :: "('a, 'db) chat_world \<Rightarrow> 'a chat_message \<Rightarrow> 'a option" where
  "linphone_chat_message_get_to_address w m = (case cm_to m of Some a \<Rightarrow> Some a | None \<Rightarrow>
     if cm_dir m = chat_dir_int LinphoneChatMessageOutgoing then Some (cr_peer (cw_room w (cm_room m))) else None)"

definition linphone_chat_message_get_local_address :: "'a chat_message \<Rightarrow> 'a option" where
  "linphone_chat_message_get_local_address m = (if cm_dir m = chat_dir_int LinphoneChatMessageOutgoing then cm_from m else cm_to m)"

definition linphone_chat_message_set_external_body_url :: "string option \<Rightarrow> 'a chat_message \<Rightarrow> 'a chat_message" where
  "linphone_chat_message_set_external_body_url url m = m\<lparr>cm_url := url\<rparr>"

end
