(* ===== verification/ChatStorage.thy ===== *)
theory ChatStorage
  imports ChatModel
begin

text \<open>
The history of messages (\<open>message_storage.c\<close>): what is stored of a message, the updates of its row,
the counts, deletions and selections of a room, and the rooms found at start-up.
\<close>

section \<open>Storing\<close>

definition linphone_chat_message_store_content ::
    "('a, 'db) chat_env \<Rightarrow> chat_content \<Rightarrow> ('a, 'db) chat_world \<Rightarrow> int \<times> ('a, 'db) chat_world" where
  "linphone_chat_message_store_content env content w = (let
     w = ch_exec env (InsertContent \<lparr>co_type = ct_type content, co_subtype = ct_subtype content, co_name = ct_name content,
       co_encoding = ct_encoding content, co_size = sint (ucast (ct_size content) :: 32 word)\<rparr>) w
   in (case cw_db w of None \<Rightarrow> (-1, w) | Some db \<Rightarrow> (sint (word_of_int (sq_last_insert_rowid (ch_sql env) db) :: 32 word), w)))"

definition history_row_of :: "('a, 'db) chat_env \<Rightarrow> ('a, 'db) chat_world \<Rightarrow> 'a chat_message \<Rightarrow> 'a \<Rightarrow> int \<Rightarrow> history_row" where
  "history_row_of env w m local content_id = \<lparr>hr_id = 0, hr_local = ad_as_string_uri_only (ch_api env) local,
     hr_remote = ad_as_string_uri_only (ch_api env) (cr_peer (cw_room w (cm_room m))), hr_direction = cm_dir m,
     hr_message = cm_message m, hr_time = ''-1'', hr_read = uint (cm_is_read m), hr_status = cm_state m, hr_url = cm_url m,
     hr_utc = Some (cm_time m), hr_appdata = cm_appdata m, hr_content = Some content_id\<rparr>"

definition linphone_chat_message_store ::
    "('a, 'db) chat_env \<Rightarrow> nat \<Rightarrow> ('a, 'db) chat_world \<Rightarrow> 32 word \<times> ('a, 'db) chat_world" where
  "linphone_chat_message_store env i w = (let w = touch_room (cm_room (cw_msg w i)) (touch_msg i w); m = cw_msg w i in
     if cw_db w = None then (0, w)
     else (case (case cm_content m of Some c \<Rightarrow> linphone_chat_message_store_content env c w | None \<Rightarrow> (-1, w)) of (content_id, w) \<Rightarrow>
       (case linphone_chat_message_get_local_address m of
          None \<Rightarrow> (0, ch_fault DereferencesNull w)
        | Some local \<Rightarrow> (let w = ch_exec env (InsertHistory (history_row_of env w m local content_id)) w
            in (case cw_db w of None \<Rightarrow> (0, w) | Some db \<Rightarrow> (word_of_int (sq_last_insert_rowid (ch_sql env) db), w))))))"

definition linphone_chat_message_store_state :: "('a, 'db) chat_env \<Rightarrow> nat \<Rightarrow> ('a, 'db) chat_world \<Rightarrow> ('a, 'db) chat_world" where
  "linphone_chat_message_store_state env i w = (let w = touch_room (cm_room (cw_msg w i)) (touch_msg i w) in
     ch_exec env (UpdateStatus (cm_state (cw_msg w i)) (sint (cm_storage_id (cw_msg w i)))) w)"

definition linphone_chat_message_store_appdata :: "('a, 'db) chat_env \<Rightarrow> nat \<Rightarrow> ('a, 'db) chat_world \<Rightarrow> ('a, 'db) chat_world" where
  "linphone_chat_message_store_appdata env i w = (let w = touch_room (cm_room (cw_msg w i)) (touch_msg i w) in
     ch_exec env (UpdateAppdata (cm_appdata (cw_msg w i)) (sint (cm_storage_id (cw_msg w i)))) w)"

definition linphone_chat_message_set_appdata ::
    "('a, 'db) chat_env \<Rightarrow> string option \<Rightarrow> nat \<Rightarrow> ('a, 'db) chat_world \<Rightarrow> ('a, 'db) chat_world" where
  "linphone_chat_message_set_appdata env data i w =
     linphone_chat_message_store_appdata env i (upd_msg i (\<lambda>m. m\<lparr>cm_appdata := data\<rparr>) w)"

section \<open>Rooms\<close>

definition peer_uri :: "('a, 'db) chat_env \<Rightarrow> nat \<Rightarrow> ('a, 'db) chat_world \<Rightarrow> string" where
  "peer_uri env r w = ad_as_string_uri_only (ch_api env) (cr_peer (cw_room w r))"

definition linphone_chat_room_mark_as_read :: "('a, 'db) chat_env \<Rightarrow> nat \<Rightarrow> ('a, 'db) chat_world \<Rightarrow> ('a, 'db) chat_world" where
  "linphone_chat_room_mark_as_read env r w = (let w = touch_room r w in ch_exec env (UpdateRead 1 (peer_uri env r w)) w)"

definition linphone_chat_room_update_url :: "('a, 'db) chat_env \<Rightarrow> nat \<Rightarrow> nat \<Rightarrow> ('a, 'db) chat_world \<Rightarrow> ('a, 'db) chat_world" where
  "linphone_chat_room_update_url env r i w = (let w = touch_msg i (touch_room r w) in
     ch_exec env (UpdateUrl (cm_url (cw_msg w i)) (sint (cm_storage_id (cw_msg w i)))) w)"

definition linphone_chat_room_get_messages_count ::
    "('a, 'db) chat_env \<Rightarrow> nat \<Rightarrow> bool \<Rightarrow> ('a, 'db) chat_world \<Rightarrow> int" where
  "linphone_chat_room_get_messages_count env r unread_only w =
     (case cw_db w of None \<Rightarrow> 0 | Some db \<Rightarrow> sq_count (ch_sql env) (peer_uri env r w) unread_only db)"

definition linphone_chat_room_get_unread_messages_count :: "('a, 'db) chat_env \<Rightarrow> nat \<Rightarrow> ('a, 'db) chat_world \<Rightarrow> int" where
  "linphone_chat_room_get_unread_messages_count env r w = linphone_chat_room_get_messages_count env r True w"

definition linphone_chat_room_get_history_size :: "('a, 'db) chat_env \<Rightarrow> nat \<Rightarrow> ('a, 'db) chat_world \<Rightarrow> int" where
  "linphone_chat_room_get_history_size env r w = linphone_chat_room_get_messages_count env r False w"

definition linphone_chat_room_delete_message :: "('a, 'db) chat_env \<Rightarrow> nat \<Rightarrow> nat \<Rightarrow> ('a, 'db) chat_world \<Rightarrow> ('a, 'db) chat_world" where
  "linphone_chat_room_delete_message env r i w = (let w = touch_msg i (touch_room r w) in
     ch_exec env (DeleteMessage (sint (cm_storage_id (cw_msg w i)))) w)"

definition linphone_chat_room_delete_history :: "('a, 'db) chat_env \<Rightarrow> nat \<Rightarrow> ('a, 'db) chat_world \<Rightarrow> ('a, 'db) chat_world" where
  "linphone_chat_room_delete_history env r w = (let w = touch_room r w in ch_exec env (DeleteHistory (peer_uri env r w)) w)"

section \<open>Reading\<close>

definition get_transient_message ::
    "nat \<Rightarrow> 32 word \<Rightarrow> ('a, 'db) chat_world \<Rightarrow> nat option \<times> ('a, 'db) chat_world" where
  "get_transient_message r storage_id w =
     (case find (\<lambda>i. cm_storage_id (cw_msg w i) = storage_id) (cr_transient (cw_room w r)) of
        None \<Rightarrow> (None, w) | Some i \<Rightarrow> (Some i, linphone_chat_message_ref i w))"

definition callback_content :: "content_row \<Rightarrow> chat_content option \<Rightarrow> chat_content option" where
  "callback_content row content = Some \<lparr>ct_type = co_type row, ct_subtype = co_subtype row, ct_name = co_name row,
     ct_encoding = co_encoding row, ct_size = word_of_int (co_size row), ct_key = None\<rparr>"

definition fetch_content_from_database ::
    "('a, 'db) chat_env \<Rightarrow> int \<Rightarrow> ('a, 'db) chat_world \<Rightarrow> chat_content option \<Rightarrow> chat_content option" where
  "fetch_content_from_database env content_id w content =
     (case cw_db w of None \<Rightarrow> content | Some db \<Rightarrow> fold callback_content (sq_content (ch_sql env) content_id db) content)"

definition message_of_row :: "('a, 'db) chat_env \<Rightarrow> nat \<Rightarrow> history_row \<Rightarrow> ('a, 'db) chat_world \<Rightarrow> 'a chat_message" where
  "message_of_row env r row w = (let incoming = (hr_direction row = chat_dir_int LinphoneChatMessageIncoming);
     local = ad_new (ch_api env) (hr_local row); remote = ad_new (ch_api env) (hr_remote row)
   in (chat_message_blank r)\<lparr>cm_message := hr_message row,
     cm_dir := chat_dir_int (if incoming then LinphoneChatMessageIncoming else LinphoneChatMessageOutgoing),
     cm_from := (if incoming then remote else local), cm_to := (if incoming then local else remote),
     cm_time := (case hr_utc row of Some utc \<Rightarrow> utc | None \<Rightarrow> ch_now env),
     cm_is_read := word_of_int (hr_read row), cm_state := hr_status row, cm_storage_id := word_of_int (hr_id row),
     cm_url := hr_url row, cm_appdata := hr_appdata row,
     cm_content := (case hr_content row of Some cid \<Rightarrow> if cid \<ge> 0 then fetch_content_from_database env cid w None else None | None \<Rightarrow> None)\<rparr>)"

text \<open>A message of the history is the one in progress if there is one with its number.\<close>

definition create_chat_message ::
    "('a, 'db) chat_env \<Rightarrow> nat \<Rightarrow> history_row \<Rightarrow> ('a, 'db) chat_world \<Rightarrow> nat \<times> ('a, 'db) chat_world" where
  "create_chat_message env r row w = (case get_transient_message r (word_of_int (hr_id row)) w of
     (Some i, w) \<Rightarrow> (i, w)
   | (None, w) \<Rightarrow> (let m = message_of_row env r row w; w = (if cm_from m = None then ch_fault DereferencesNull w else w)
       in new_message m w))"

fun read_history :: "('a, 'db) chat_env \<Rightarrow> nat \<Rightarrow> history_row list \<Rightarrow> nat list \<Rightarrow> ('a, 'db) chat_world
    \<Rightarrow> nat list \<times> ('a, 'db) chat_world" where
  "read_history env r [] hist w = (hist, w)"
| "read_history env r (row # rows) hist w = (case create_chat_message env r row w of (i, w) \<Rightarrow> read_history env r rows (i # hist) w)"

definition history_statement :: "string \<Rightarrow> string" where
  "history_statement quoted = ''SELECT * FROM history WHERE remoteContact = '' @ quoted @ '' ORDER BY id DESC''"

definition history_rows :: "('a, 'db) chat_env \<Rightarrow> string \<Rightarrow> int option \<Rightarrow> int option \<Rightarrow> 'db \<Rightarrow> history_row list" where
  "history_rows env peer lim off db = (let text = history_statement (sq_quote (ch_sql env) peer) in
     if length text \<le> 510 then sq_history (ch_sql env) peer lim off db
     else sq_cut_history (ch_sql env) (take 510 text) lim off db)"

definition history_limit :: "int \<Rightarrow> int \<Rightarrow> int option" where
  "history_limit startm endm = (if endm > 0 \<and> endm \<ge> startm \<or> startm = 0 \<and> endm = 0 then Some (endm + 1 - startm)
     else if startm > 0 then Some (-1) else None)"

definition linphone_chat_room_get_history_range :: "('a, 'db) chat_env \<Rightarrow> nat \<Rightarrow> int \<Rightarrow> int \<Rightarrow> ('a, 'db) chat_world
    \<Rightarrow> nat list \<times> ('a, 'db) chat_world" where
  "linphone_chat_room_get_history_range env r startm endm w = (let w = touch_room r w in
     case cw_db w of None \<Rightarrow> ([], w)
     | Some db \<Rightarrow> (let startm = (if startm < 0 then 0 else startm); off = (if startm > 0 then Some startm else None)
         in read_history env r (history_rows env (peer_uri env r w) (history_limit startm endm) off db) [] w))"

definition linphone_chat_room_get_history ::
    "('a, 'db) chat_env \<Rightarrow> nat \<Rightarrow> int \<Rightarrow> ('a, 'db) chat_world \<Rightarrow> nat list \<times> ('a, 'db) chat_world" where
  "linphone_chat_room_get_history env r nb_message = linphone_chat_room_get_history_range env r 0 (nb_message - 1)"

text \<open>Every contact of the history gets a room.\<close>

definition linphone_message_storage_init_chat_rooms :: "('a, 'db) chat_env \<Rightarrow> ('a, 'db) chat_world \<Rightarrow> ('a, 'db) chat_world" where
  "linphone_message_storage_init_chat_rooms env w = (case cw_db w of None \<Rightarrow> w
   | Some db \<Rightarrow> fold (\<lambda>address w. snd (linphone_core_get_or_create_chat_room env address w)) (sq_contacts (ch_sql env) db) w)"

end
