(* ===== verification/ChatOps.thy ===== *)
theory ChatOps
  imports ChatStorage
begin

text \<open>
What happens to messages (\<open>chat.c\<close>, the callbacks on messages of \<open>callbacks.c\<close>, the requests of
\<open>sal_op_message.c\<close>): sending, the answers of the other side, receiving, the notices that somebody is
typing, and the transfer of files through a server.
\<close>

section \<open>The answers of the other side\<close>

datatype delivery_status = SalTextDeliveryInProgress | SalTextDeliveryDone | SalTextDeliveryFailed

fun chatStatusSal2Linphone :: "delivery_status \<Rightarrow> chat_state" where
  "chatStatusSal2Linphone SalTextDeliveryInProgress = LinphoneChatMessageStateInProgress"
| "chatStatusSal2Linphone SalTextDeliveryDone = LinphoneChatMessageStateDelivered"
| "chatStatusSal2Linphone SalTextDeliveryFailed = LinphoneChatMessageStateNotDelivered"

definition linphone_chat_message_update_state :: "('a, 'db) chat_env \<Rightarrow> nat \<Rightarrow> ('a, 'db) chat_world \<Rightarrow> ('a, 'db) chat_world" where
  "linphone_chat_message_update_state env i w = (let
     w = linphone_chat_message_store_state env i w; m = cw_msg w i
   in if cm_state m = chat_state_int LinphoneChatMessageStateDelivered \<or> cm_state m = chat_state_int LinphoneChatMessageStateNotDelivered
      then linphone_chat_message_unref i (upd_room (cm_room m) (\<lambda>cr. cr\<lparr>cr_transient := remove1 i (cr_transient cr)\<rparr>) w)
      else w)"

definition text_delivery_update ::
    "('a, 'db) chat_env \<Rightarrow> nat \<Rightarrow> delivery_status \<Rightarrow> ('a, 'db) chat_world \<Rightarrow> ('a, 'db) chat_world" where
  "text_delivery_update env op status w = (case cw_owner w op of
     NoOwner \<Rightarrow> w
   | OwnedByCall \<Rightarrow> ch_fault TakesCallForMessage w
   | OwnedByMessage i \<Rightarrow> (let
       w = upd_msg i (\<lambda>m. m\<lparr>cm_state := chat_state_int (chatStatusSal2Linphone status)\<rparr>) w;
       w = linphone_chat_message_update_state env i w;
       w = touch_msg i w; m = cw_msg w i;
       w = (if cm_state_changed m then ch_emit (MsgStateChanged i (cm_state m)) w
            else if cm_cb m then ch_emit (MsgStateCallback i (cm_state m)) w else w)
     in if status \<noteq> SalTextDeliveryInProgress then linphone_chat_message_unref i w else w))"

definition message_process_response ::
    "('a, 'db) chat_env \<Rightarrow> nat \<Rightarrow> int \<Rightarrow> ('a, 'db) chat_world \<Rightarrow> ('a, 'db) chat_world" where
  "message_process_response env op code w = text_delivery_update env op
     (if code \<ge> 100 \<and> code < 200 then SalTextDeliveryInProgress
      else if code \<ge> 200 \<and> code < 300 then SalTextDeliveryDone else SalTextDeliveryFailed) w"

definition message_process_error :: "('a, 'db) chat_env \<Rightarrow> nat \<Rightarrow> bool \<Rightarrow> ('a, 'db) chat_world \<Rightarrow> ('a, 'db) chat_world" where
  "message_process_error env op outgoing w = (if outgoing then text_delivery_update env op SalTextDeliveryFailed w else w)"

section \<open>Sending\<close>

definition encrypted_content_type :: "string \<Rightarrow> bool" where
  "encrypted_content_type content_type \<longleftrightarrow> content_type = ''xml/cipher'' \<or> content_type = ''application/cipher.vnd.gsma.rcs-ft-http+xml''"

definition sal_message_send :: "('a, 'db) chat_env \<Rightarrow> nat \<Rightarrow> string option \<Rightarrow> string \<Rightarrow> string \<Rightarrow> string option \<Rightarrow> string option
    \<Rightarrow> ('a, 'db) chat_world \<Rightarrow> ('a, 'db) chat_world" where
  "sal_message_send env op from to content_type msg uri w =
     (if cw_owner w op \<noteq> OwnedByCall \<and> \<not> ch_build_request env then w
      else if encrypted_content_type content_type then (case ch_encrypt env msg uri of
          LimeNoCache \<Rightarrow> text_delivery_update env op SalTextDeliveryFailed w
        | LimeBadCache \<Rightarrow> w
        | LimeFailed \<Rightarrow> text_delivery_update env op SalTextDeliveryFailed w
        | LimeDone body \<Rightarrow> ch_emit (SalSendMessage op from to content_type (Some body)) w)
      else ch_emit (SalSendMessage op from to content_type msg) w)"

definition sal_text_send ::
    "('a, 'db) chat_env \<Rightarrow> nat \<Rightarrow> string option \<Rightarrow> string \<Rightarrow> string option \<Rightarrow> ('a, 'db) chat_world \<Rightarrow> ('a, 'db) chat_world" where
  "sal_text_send env op from to msg = sal_message_send env op from to ''text/plain'' msg None"

definition linphone_core_get_call_by_remote_address :: "('a, 'db) chat_env \<Rightarrow> string \<Rightarrow> ('a \<times> call_state \<times> nat) option" where
  "linphone_core_get_call_by_remote_address env remote_address = Option.bind (ad_new (ch_api env) remote_address)
     (\<lambda>raddr. find (\<lambda>(addr, st, op). linphone_address_weak_equal (ch_api env) addr raddr) (ch_calls env))"

text \<open>The call a message goes through, with its remote address and its operation.\<close>

definition chat_call_dialog :: "('a, 'db) chat_env \<Rightarrow> 'a chat_room \<Rightarrow> ('a \<times> nat) option" where
  "chat_call_dialog env cr = (if ch_int env ''chat_use_call_dialogs'' 0 = 0 then None
     else (case linphone_core_get_call_by_remote_address env (ad_as_string (ch_api env) (cr_peer cr)) of
       None \<Rightarrow> None
     | Some (addr, st, op) \<Rightarrow>
         if st = LinphoneCallConnected \<or> st = LinphoneCallStreamsRunning \<or> st = LinphoneCallPaused
            \<or> st = LinphoneCallPausing \<or> st = LinphoneCallPausedByRemote then Some (addr, op) else None))"

definition chat_identity :: "('a, 'db) chat_env \<Rightarrow> 'a \<Rightarrow> ('a, 'db) chat_world \<Rightarrow> string option \<times> ('a, 'db) chat_world" where
  "chat_identity env addr w = (case linphone_core_find_best_identity env addr of
     None \<Rightarrow> (None, ch_fault DereferencesNull w) | Some identity \<Rightarrow> (identity, w))"

text \<open>An operation of its own for what is sent out of a call.\<close>

definition new_chat_op :: "('a, 'db) chat_env \<Rightarrow> nat \<Rightarrow> (string \<times> string) list \<Rightarrow> ('a, 'db) chat_world
    \<Rightarrow> nat \<times> string option \<times> ('a, 'db) chat_world" where
  "new_chat_op env r headers w = (case chat_identity env (cr_peer (cw_room w r)) w of (identity, w) \<Rightarrow>
     (case sal_op_for_chat w of (op, w) \<Rightarrow>
       (op, identity, ch_emit (ConfigureOp op r headers (ch_int env ''chat_msg_with_contact'' 0 \<noteq> 0)) w)))"

definition linphone_core_lime_enabled :: "('a, 'db) chat_env \<Rightarrow> bool" where
  "linphone_core_lime_enabled env \<longleftrightarrow> ch_int env ''lime'' 0 \<noteq> 0 \<and> ch_lime_available env"

definition linphone_core_lime_for_file_sharing_enabled :: "('a, 'db) chat_env \<Rightarrow> bool" where
  "linphone_core_lime_for_file_sharing_enabled env \<longleftrightarrow> linphone_core_lime_enabled env
     \<and> ch_int env ''lime_for_file_sharing'' 1 \<noteq> 0 \<and> ch_lime_available env"

definition send_body :: "('a, 'db) chat_env \<Rightarrow> nat \<Rightarrow> nat \<Rightarrow> nat \<Rightarrow> string option \<Rightarrow> ('a, 'db) chat_world \<Rightarrow> ('a, 'db) chat_world" where
  "send_body env r i op identity w = (let m = cw_msg w i; to = ad_as_string (ch_api env) (cr_peer (cw_room w r)) in
     case cm_url m of
       Some url \<Rightarrow> sal_message_send env op identity to
         (''message/external-body; access-type=URL; URL='' @ [CHR 0x22] @ url @ [CHR 0x22]) None None w
     | None \<Rightarrow> (let
         lime = linphone_core_lime_enabled env;
         w = (if lime then linphone_chat_message_ref i w else w);
         content_type = (if lime then Some (if cm_content_type m = Some ''application/vnd.gsma.rcs-ft-http+xml''
           then ''application/cipher.vnd.gsma.rcs-ft-http+xml'' else ''xml/cipher'') else cm_content_type m)
       in (case content_type of
             None \<Rightarrow> sal_text_send env op identity to (cm_message m) w
           | Some ct \<Rightarrow> sal_message_send env op identity to ct (cm_message m) (Some (peer_uri env r w)) w)))"

text \<open>Once sent, a message is stored and waits among the transient ones of its room.\<close>

definition after_send :: "('a, 'db) chat_env \<Rightarrow> nat \<Rightarrow> nat \<Rightarrow> string option \<Rightarrow> ('a, 'db) chat_world \<Rightarrow> ('a, 'db) chat_world" where
  "after_send env r i identity w = (let
     w = upd_msg i (\<lambda>m. m\<lparr>cm_dir := chat_dir_int LinphoneChatMessageOutgoing, cm_from := Option.bind identity (ad_new (ch_api env))\<rparr>) w
   in (case linphone_chat_message_store env i w of (sid, w) \<Rightarrow> (let
     w = upd_msg i (\<lambda>m. m\<lparr>cm_storage_id := sid\<rparr>) w;
     w = linphone_chat_message_ref i w;
     w = upd_room r (\<lambda>cr. cr\<lparr>cr_transient := cr_transient cr @ [i],
           cr_composing := (if cr_composing cr = LinphoneIsComposingActive then LinphoneIsComposingIdle else cr_composing cr)\<rparr>) w;
     w = linphone_chat_room_delete_composing_idle_timer r w;
     w = linphone_chat_room_delete_composing_refresh_timer r w
   in linphone_chat_message_unref i w)))"

definition upload_message :: "('a, 'db) chat_env \<Rightarrow> nat \<Rightarrow> ('a, 'db) chat_world \<Rightarrow> ('a, 'db) chat_world" where
  "upload_message env i w = (case ch_transfer_server env of
     None \<Rightarrow> w
   | Some server \<Rightarrow> (let h = cw_next_http w;
       w = w\<lparr>cw_next_http := Suc h\<rparr>;
       w = upd_msg i (\<lambda>m. m\<lparr>cm_http := Some h\<rparr>) w;
       w = ch_emit (HttpPost h i) w
     in linphone_chat_message_unref i w))"

definition linphone_chat_room_send :: "('a, 'db) chat_env \<Rightarrow> nat \<Rightarrow> nat \<Rightarrow> ('a, 'db) chat_world \<Rightarrow> ('a, 'db) chat_world" where
  "linphone_chat_room_send env r i w = (let w = linphone_chat_message_ref i (touch_room r w) in
     if cm_content (cw_msg w i) \<noteq> None \<and> cm_content_type (cw_msg w i) = None then upload_message env i w
     else (let w' = upd_msg i (\<lambda>m. m\<lparr>cm_time := ch_now env\<rparr>) w in
       case chat_call_dialog env (cw_room w r) of
         Some (addr, op) \<Rightarrow> (case chat_identity env addr w' of (identity, w) \<Rightarrow>
           after_send env r i identity (send_body env r i op identity w))
       | None \<Rightarrow> (case new_chat_op env r (cm_headers (cw_msg w' i)) w' of (op, identity, w) \<Rightarrow> (let
           w = upd_msg i (\<lambda>m. m\<lparr>cm_op := Some op\<rparr>) w;
           w = w\<lparr>cw_owner := (cw_owner w)(op := OwnedByMessage i)\<rparr>
         in after_send env r i identity (send_body env r i op identity w)))))"

definition linphone_chat_room_send_message :: "('a, 'db) chat_env \<Rightarrow> nat \<Rightarrow> string \<Rightarrow> ('a, 'db) chat_world \<Rightarrow> ('a, 'db) chat_world" where
  "linphone_chat_room_send_message env r msg w = (case linphone_chat_room_create_message r (Some msg) w of (i, w) \<Rightarrow>
     linphone_chat_room_send env r i w)"

definition linphone_chat_room_send_message2 ::
    "('a, 'db) chat_env \<Rightarrow> nat \<Rightarrow> nat \<Rightarrow> bool \<Rightarrow> ('a, 'db) chat_world \<Rightarrow> ('a, 'db) chat_world" where
  "linphone_chat_room_send_message2 env r i status_cb w = linphone_chat_room_send env r i
     (upd_msg i (\<lambda>m. m\<lparr>cm_cb := status_cb, cm_state := chat_state_int LinphoneChatMessageStateInProgress\<rparr>) w)"

definition linphone_chat_room_send_chat_message :: "('a, 'db) chat_env \<Rightarrow> nat \<Rightarrow> nat \<Rightarrow> ('a, 'db) chat_world \<Rightarrow> ('a, 'db) chat_world" where
  "linphone_chat_room_send_chat_message env r i w = linphone_chat_room_send env r i
     (upd_msg i (\<lambda>m. m\<lparr>cm_state := chat_state_int LinphoneChatMessageStateInProgress\<rparr>) w)"

section \<open>Receiving\<close>

record sal_message =
  sm_from :: string
  sm_text :: "string option"
  sm_url :: "string option"
  sm_content_type :: "string option"
  sm_message_id :: string
  sm_time :: int

definition linphone_chat_room_message_received :: "nat \<Rightarrow> nat \<Rightarrow> ('a, 'db) chat_world \<Rightarrow> ('a, 'db) chat_world" where
  "linphone_chat_room_message_received r i w = (let
     m = cw_msg w i;
     w = (case cm_message m of Some text \<Rightarrow> ch_emit (TextMessageReceived r (cm_from m) text) w | None \<Rightarrow> w);
     w = ch_emit (MessageReceived r i) w;
     w = upd_room r (\<lambda>cr. cr\<lparr>cr_remote_composing := LinphoneIsComposingIdle\<rparr>) w
   in ch_emit (IsComposingReceived r) w)"

text \<open>A content type without a slash has its end taken for one; of an empty element there is no text.\<close>

type_synonym file_description = "chat_content \<times> string option \<times> chat_fault list"

definition file_info_field :: "('a, 'db) chat_env \<Rightarrow> xml_node \<Rightarrow> file_description \<Rightarrow> file_description" where
  "file_info_field env cur acc = (case acc of (c, url, faults) \<Rightarrow> (let name = xml_name cur in
     if name = ''file-size'' then (case xml_text cur of None \<Rightarrow> (c, url, DereferencesNull # faults)
       | Some text \<Rightarrow> (c\<lparr>ct_size := word_of_int (strto 10 text)\<rparr>, url, faults))
     else if name = ''file-name'' then (c\<lparr>ct_name := xml_text cur\<rparr>, url, faults)
     else if name = ''content-type'' then (case xml_text cur of None \<Rightarrow> (c, url, DereferencesNull # faults)
       | Some text \<Rightarrow> (case dropWhile (\<lambda>ch. ch \<noteq> CHR 0x2F) text of
           [] \<Rightarrow> (c\<lparr>ct_type := Some text\<rparr>, url, ReadsPastEnd # faults)
         | _ # sub \<Rightarrow> (c\<lparr>ct_type := Some (takeWhile (\<lambda>ch. ch \<noteq> CHR 0x2F) text), ct_subtype := Some sub\<rparr>, url, faults)))
     else if name = ''data'' then (c, xml_url cur, faults)
     else if name = ''file-key'' then (case xml_text cur of None \<Rightarrow> (c, url, DereferencesNull # faults)
       | Some text \<Rightarrow> (c\<lparr>ct_key := Some (ch_b64_decode env text)\<rparr>, url, faults))
     else acc))"

definition file_info :: "('a, 'db) chat_env \<Rightarrow> string option \<Rightarrow> file_description" where
  "file_info env text = (case ch_parse_xml env text of
     None \<Rightarrow> (linphone_content_new, None, [])
   | Some nodes \<Rightarrow> (case find (\<lambda>n. xml_name n = ''file-info'' \<and> xml_type n = Some ''file'') nodes of
       None \<Rightarrow> (linphone_content_new, None, [])
     | Some n \<Rightarrow> fold (file_info_field env) (xml_children n) (linphone_content_new, None, [])))"

definition message_for_body ::
    "('a, 'db) chat_env \<Rightarrow> nat \<Rightarrow> sal_message \<Rightarrow> ('a, 'db) chat_world \<Rightarrow> nat \<times> ('a, 'db) chat_world" where
  "message_for_body env r sm w = (case sm_content_type sm of
     Some ct \<Rightarrow> (case linphone_chat_room_create_message r None w of (i, w) \<Rightarrow> (case file_info env (sm_text sm) of (c, url, faults) \<Rightarrow>
       (i, upd_msg i (\<lambda>m. m\<lparr>cm_content_type := Some ct, cm_content := Some c, cm_url := url\<rparr>) (fold ch_fault (rev faults) w))))
   | None \<Rightarrow> linphone_chat_room_create_message r (sm_text sm) w)"

definition received_message :: "('a, 'db) chat_env \<Rightarrow> nat \<Rightarrow> sal_message \<Rightarrow> 'a \<Rightarrow> 'a chat_message \<Rightarrow> 'a chat_message" where
  "received_message env op sm peer m = m\<lparr>cm_from := Some peer,
     cm_to := (case ch_op_to env op of Some t \<Rightarrow> ad_new (ch_api env) t | None \<Rightarrow> own_address env),
     cm_time := sm_time sm, cm_state := chat_state_int LinphoneChatMessageStateDelivered, cm_is_read := 0,
     cm_dir := chat_dir_int LinphoneChatMessageIncoming,
     cm_headers := (case ch_op_headers env op of Some hs \<Rightarrow> hs | None \<Rightarrow> cm_headers m),
     cm_url := (case sm_url sm of Some url \<Rightarrow> Some url | None \<Rightarrow> cm_url m)\<rparr>"

definition linphone_core_message_received ::
    "('a, 'db) chat_env \<Rightarrow> nat \<Rightarrow> sal_message \<Rightarrow> ('a, 'db) chat_world \<Rightarrow> ('a, 'db) chat_world" where
  "linphone_core_message_received env op sm w = (case ad_new (ch_api env) (sm_from sm) of
     None \<Rightarrow> ch_fault DereferencesNull w
   | Some addr \<Rightarrow> (case linphone_core_get_chat_room (ch_api env) (ad_clean (ch_api env) addr) w of (r, w) \<Rightarrow>
       (case message_for_body env r sm w of (i, w) \<Rightarrow>
         (case linphone_chat_message_store env i (upd_msg i (received_message env op sm (cr_peer (cw_room w r))) w) of (sid, w) \<Rightarrow>
            linphone_chat_message_unref i (linphone_chat_room_message_received r i
              (upd_msg i (\<lambda>m. m\<lparr>cm_storage_id := sid\<rparr>) w))))))"

definition is_duplicate_msg :: "string \<Rightarrow> string list \<Rightarrow> bool \<times> string list" where
  "is_duplicate_msg msg_id ids = (let
     is_duplicate = (msg_id \<in> set ids);
     kept = (if length ids \<ge> 10 then butlast ids else ids)
   in (is_duplicate, if is_duplicate then kept else msg_id # kept))"

definition sal_message_reply :: "nat \<Rightarrow> sal_reason \<Rightarrow> ('a, 'db) chat_world \<Rightarrow> ('a, 'db) chat_world" where
  "sal_message_reply op reason = ch_emit (SalReply op (sal_reason_to_sip_code reason))"

definition text_received :: "('a, 'db) chat_env \<Rightarrow> nat \<Rightarrow> sal_message \<Rightarrow> ('a, 'db) chat_world \<Rightarrow> ('a, 'db) chat_world" where
  "text_received env op sm w = (let
     in_call = (cw_owner w op = OwnedByCall);
     w = (if cw_deny w = LinphoneReasonNone then (case is_duplicate_msg (sm_message_id sm) (cw_last_ids w) of (dup, ids) \<Rightarrow> (let
             w = w\<lparr>cw_last_ids := ids\<rparr> in if dup then w else linphone_core_message_received env op sm w)) else w);
     w = sal_message_reply op (linphone_reason_to_sal (cw_deny w)) w
   in if in_call then w else release_chat_op op w)"

section \<open>Composing\<close>

definition composing_refresh_str :: "('a, 'db) chat_env \<Rightarrow> string" where
  "composing_refresh_str env = take 3 (show_int (uint (word_of_int (ch_int env ''composing_refresh_timeout'' 60) :: 32 word)))"

definition linphone_chat_room_create_is_composing_xml :: "('a, 'db) chat_env \<Rightarrow> 'a chat_room \<Rightarrow> string option" where
  "linphone_chat_room_create_is_composing_xml env cr = (let active = (cr_composing cr = LinphoneIsComposingActive) in
     ch_composing_xml env active (if active then Some (composing_refresh_str env) else None))"

definition linphone_chat_room_send_is_composing_notification ::
    "('a, 'db) chat_env \<Rightarrow> nat \<Rightarrow> ('a, 'db) chat_world \<Rightarrow> ('a, 'db) chat_world" where
  "linphone_chat_room_send_is_composing_notification env r w = (let w = touch_room r w in
     case (case chat_call_dialog env (cw_room w r) of
             Some (addr, op) \<Rightarrow> (case chat_identity env addr w of (identity, w) \<Rightarrow> (op, identity, w))
           | None \<Rightarrow> new_chat_op env r [] w) of
       (op, identity, w) \<Rightarrow> (case linphone_chat_room_create_is_composing_xml env (cw_room w r) of
          None \<Rightarrow> w
        | Some content \<Rightarrow> sal_message_send env op identity (ad_as_string (ch_api env) (cr_peer (cw_room w r)))
            ''application/im-iscomposing+xml'' (Some content) None w))"

definition linphone_chat_room_stop_composing :: "('a, 'db) chat_env \<Rightarrow> nat \<Rightarrow> ('a, 'db) chat_world \<Rightarrow> ('a, 'db) chat_world" where
  "linphone_chat_room_stop_composing env r w = (let
     w = upd_room r (\<lambda>cr. cr\<lparr>cr_composing := LinphoneIsComposingIdle\<rparr>) w;
     w = linphone_chat_room_send_is_composing_notification env r w;
     w = linphone_chat_room_delete_composing_refresh_timer r w
   in upd_room r (\<lambda>cr. cr\<lparr>cr_idle_timer := None\<rparr>) w)"

definition linphone_chat_room_refresh_composing :: "('a, 'db) chat_env \<Rightarrow> nat \<Rightarrow> ('a, 'db) chat_world \<Rightarrow> ('a, 'db) chat_world" where
  "linphone_chat_room_refresh_composing = linphone_chat_room_send_is_composing_notification"

definition linphone_chat_room_compose :: "('a, 'db) chat_env \<Rightarrow> nat \<Rightarrow> ('a, 'db) chat_world \<Rightarrow> ('a, 'db) chat_world" where
  "linphone_chat_room_compose env r w = (let
     idle_timeout = ch_int env ''composing_idle_timeout'' 15;
     refresh_timeout = ch_int env ''composing_refresh_timeout'' 60;
     w = touch_room r w;
     w = (if cr_composing (cw_room w r) = LinphoneIsComposingIdle then (let
         w = upd_room r (\<lambda>cr. cr\<lparr>cr_composing := LinphoneIsComposingActive\<rparr>) w;
         w = linphone_chat_room_send_is_composing_notification env r w
       in upd_room r (\<lambda>cr. cr\<lparr>cr_refresh_timer := Some (refresh_timeout * 1000),
            cr_idle_timer := (if cr_idle_timer cr = None then Some (idle_timeout * 1000) else cr_idle_timer cr)\<rparr>) w)
       else w)
   in if cr_idle_timer (cw_room w r) = None then ch_fault DereferencesNull w
      else upd_room r (\<lambda>cr. cr\<lparr>cr_idle_timer := Some (idle_timeout * 1000)\<rparr>) w)"

definition linphone_chat_room_remote_refresh_composing_expired :: "nat \<Rightarrow> ('a, 'db) chat_world \<Rightarrow> ('a, 'db) chat_world" where
  "linphone_chat_room_remote_refresh_composing_expired r w = ch_emit (IsComposingReceived r)
     (upd_room r (\<lambda>cr. cr\<lparr>cr_remote_timer := None, cr_remote_composing := LinphoneIsComposingIdle\<rparr>) w)"

fun composing_texts :: "(string option \<times> string option) list \<Rightarrow> string option \<times> string option \<Rightarrow> string option \<times> string option" where
  "composing_texts [] acc = acc"
| "composing_texts ((state_str, refresh_str) # nodes) acc =
     composing_texts nodes (if state_str = None then (None, snd acc) else (state_str, refresh_str))"

definition process_im_is_composing_notification ::
    "('a, 'db) chat_env \<Rightarrow> nat \<Rightarrow> (string option \<times> string option) list \<Rightarrow> ('a, 'db) chat_world \<Rightarrow> ('a, 'db) chat_world" where
  "process_im_is_composing_notification env r nodes w = (case composing_texts nodes (None, None) of
     (None, _) \<Rightarrow> w
   | (Some state_str, refresh_str) \<Rightarrow> (let
       refresh_duration = (case refresh_str of Some s \<Rightarrow> sint (word_of_int (strto 10 s) :: 32 word)
         | None \<Rightarrow> ch_int env ''composing_remote_refresh_timeout'' 120);
       w = (if state_str = ''active'' then upd_room r (\<lambda>cr. cr\<lparr>cr_remote_timer := Some (refresh_duration * 1000),
                cr_remote_composing := LinphoneIsComposingActive\<rparr>) w
            else upd_room r (\<lambda>cr. cr\<lparr>cr_remote_composing := LinphoneIsComposingIdle\<rparr>)
              (linphone_chat_room_delete_remote_composing_refresh_timer r w))
     in ch_emit (IsComposingReceived r) w))"

definition linphone_chat_room_notify_is_composing ::
    "('a, 'db) chat_env \<Rightarrow> nat \<Rightarrow> string \<Rightarrow> ('a, 'db) chat_world \<Rightarrow> ('a, 'db) chat_world" where
  "linphone_chat_room_notify_is_composing env r text w = (case ch_parse_composing env text of
     None \<Rightarrow> w | Some nodes \<Rightarrow> process_im_is_composing_notification env r nodes w)"

definition linphone_core_is_composing_received ::
    "('a, 'db) chat_env \<Rightarrow> string \<Rightarrow> string \<Rightarrow> ('a, 'db) chat_world \<Rightarrow> ('a, 'db) chat_world" where
  "linphone_core_is_composing_received env from text w = (case linphone_core_get_or_create_chat_room env from w of
     (None, w) \<Rightarrow> w | (Some r, w) \<Rightarrow> linphone_chat_room_notify_is_composing env r text w)"

section \<open>Requests that arrive\<close>

record message_request =
  mr_content_type :: "(string \<times> string) option"
  mr_from :: string
  mr_call_id :: string
  mr_cseq :: int
  mr_date :: "int option"
  mr_body :: "string option"
  mr_url :: "string option"

definition is_cipher_xml :: "string \<times> string \<Rightarrow> bool" where
  "is_cipher_xml ct \<longleftrightarrow> ct = (''xml'', ''cipher'') \<or> ct = (''application'', ''cipher.vnd.gsma.rcs-ft-http+xml'')"

definition is_rcs_filetransfer :: "string \<times> string \<Rightarrow> bool" where
  "is_rcs_filetransfer ct \<longleftrightarrow> ct = (''application'', ''vnd.gsma.rcs-ft-http+xml'') \<or> ct = (''application'', ''cipher.vnd.gsma.rcs-ft-http+xml'')"

definition request_message :: "('a, 'db) chat_env \<Rightarrow> message_request \<Rightarrow> string \<times> string \<Rightarrow> string option \<Rightarrow> sal_message" where
  "request_message env rq ct decrypted = \<lparr>sm_from = mr_from rq,
     sm_text = (if is_cipher_xml ct then decrypted else if ct = (''text'', ''plain'') \<or> is_rcs_filetransfer ct then mr_body rq else None),
     sm_url = (if ct = (''message'', ''external-body'') then map_option (\<lambda>u. butlast (tl u)) (mr_url rq) else None),
     sm_content_type = (if is_rcs_filetransfer ct then Some ''application/vnd.gsma.rcs-ft-http+xml'' else None),
     sm_message_id = take 254 (mr_call_id rq @ show_int (mr_cseq rq)),
     sm_time = (case mr_date rq of Some d \<Rightarrow> d | None \<Rightarrow> ch_now env)\<rparr>"

definition reject_message :: "nat \<Rightarrow> int \<Rightarrow> ('a, 'db) chat_world \<Rightarrow> ('a, 'db) chat_world" where
  "reject_message op code w = release_chat_op op (ch_emit (SalReply op code) w)"

text \<open>A request without a content type is read through a null pointer.\<close>

definition sal_process_incoming_message ::
    "('a, 'db) chat_env \<Rightarrow> nat \<Rightarrow> message_request \<Rightarrow> ('a, 'db) chat_world \<Rightarrow> ('a, 'db) chat_world" where
  "sal_process_incoming_message env op rq w = (case mr_content_type rq of
     None \<Rightarrow> ch_fault DereferencesNull w
   | Some ct \<Rightarrow> (case (if is_cipher_xml ct then ch_decrypt env (mr_body rq) else LimeNoCache) of
       LimeFailed \<Rightarrow> reject_message op 488 w
     | LimeDone text \<Rightarrow> text_received env op (request_message env rq ct (Some text)) w
     | _ \<Rightarrow> if is_cipher_xml ct then reject_message op 500 w
        else if ct = (''text'', ''plain'') \<or> ct = (''message'', ''external-body'') \<or> is_rcs_filetransfer ct
          then text_received env op (request_message env rq ct None) w
        else if ct = (''application'', ''im-iscomposing+xml'')
          then ch_emit (SalReply op 200) (linphone_core_is_composing_received env (mr_from rq) (case mr_body rq of Some b \<Rightarrow> b | None \<Rightarrow> []) w)
        else reject_message op 415 w))"

section \<open>Files\<close>

definition state_callbacks :: "nat \<Rightarrow> ('a, 'db) chat_world \<Rightarrow> ('a, 'db) chat_world" where
  "state_callbacks i w = (let
     w = (if cm_cb (cw_msg w i) then ch_emit (MsgStateCallback i (cm_state (cw_msg w i))) w else w)
   in if cm_state_changed (cw_msg w i) then ch_emit (MsgStateChanged i (cm_state (cw_msg w i))) w else w)"

definition set_state_and_tell :: "chat_state \<Rightarrow> nat \<Rightarrow> ('a, 'db) chat_world \<Rightarrow> ('a, 'db) chat_world" where
  "set_state_and_tell st i w = state_callbacks i (upd_msg i (\<lambda>m. m\<lparr>cm_state := chat_state_int st\<rparr>) w)"

definition process_io_error_upload :: "nat \<Rightarrow> ('a, 'db) chat_world \<Rightarrow> ('a, 'db) chat_world" where
  "process_io_error_upload i = set_state_and_tell LinphoneChatMessageStateNotDelivered i"

definition process_auth_requested_upload :: "nat \<Rightarrow> ('a, 'db) chat_world \<Rightarrow> ('a, 'db) chat_world" where
  "process_auth_requested_upload i = set_state_and_tell LinphoneChatMessageStateNotDelivered i"

definition process_io_error_download :: "nat \<Rightarrow> ('a, 'db) chat_world \<Rightarrow> ('a, 'db) chat_world" where
  "process_io_error_download i = set_state_and_tell LinphoneChatMessageStateFileTransferError i"

definition process_auth_requested_download :: "nat \<Rightarrow> ('a, 'db) chat_world \<Rightarrow> ('a, 'db) chat_world" where
  "process_auth_requested_download i = set_state_and_tell LinphoneChatMessageStateFileTransferError i"

definition new_http :: "(nat \<Rightarrow> 'a chat_action) \<Rightarrow> nat \<Rightarrow> ('a, 'db) chat_world \<Rightarrow> ('a, 'db) chat_world" where
  "new_http request i w = (let h = cw_next_http w in
     ch_emit (request h) (upd_msg i (\<lambda>m. m\<lparr>cm_http := Some h\<rparr>) (w\<lparr>cw_next_http := Suc h\<rparr>)))"

text \<open>The server first answers an empty request with 204, then the file with 200 and a description of it,
  which is what is sent to the other side.\<close>

definition linphone_chat_message_process_response_from_post_file ::
    "('a, 'db) chat_env \<Rightarrow> nat \<Rightarrow> int \<Rightarrow> string option \<Rightarrow> ('a, 'db) chat_world \<Rightarrow> ('a, 'db) chat_world" where
  "linphone_chat_message_process_response_from_post_file env i code body w = (case cm_content (cw_msg w i) of
     None \<Rightarrow> if code = 200 \<or> code = 204 then ch_fault DereferencesNull w else w
   | Some c \<Rightarrow>
       if code = 204 then (let
           w = (if linphone_core_lime_for_file_sharing_enabled env
                then upd_msg i (\<lambda>m. m\<lparr>cm_content := Some (c\<lparr>ct_key := Some (ch_random_key env)\<rparr>)\<rparr>) w else w)
         in new_http (\<lambda>h. HttpUpload h i) i w)
       else if code = 200 then (let
           message = (if ct_key c \<noteq> None then (case ch_add_file_key env body c of Some text \<Rightarrow> Some text | None \<Rightarrow> cm_message (cw_msg w i))
                      else body);
           w = upd_msg i (\<lambda>m. m\<lparr>cm_http := None, cm_message := message,
                 cm_content_type := Some ''application/vnd.gsma.rcs-ft-http+xml''\<rparr>) w;
           w = set_state_and_tell LinphoneChatMessageStateFileTransferDone i w
         in linphone_chat_room_send env (cm_room (cw_msg w i)) i w)
       else w)"

definition linphone_chat_process_response_headers_from_get_file ::
    "nat \<Rightarrow> (string option \<times> string option) option \<Rightarrow> int option \<Rightarrow> ('a, 'db) chat_world \<Rightarrow> ('a, 'db) chat_world" where
  "linphone_chat_process_response_headers_from_get_file i content_type content_length w =
     (if cm_content (cw_msg w i) = None then (let c = linphone_content_new\<lparr>ct_name := Some []\<rparr>;
          c = (case content_type of Some (t, s) \<Rightarrow> c\<lparr>ct_type := t, ct_subtype := s\<rparr> | None \<Rightarrow> c);
          c = (case content_length of Some n \<Rightarrow> c\<lparr>ct_size := word_of_int n\<rparr> | None \<Rightarrow> c)
        in upd_msg i (\<lambda>m. m\<lparr>cm_content := Some c\<rparr>) w)
      else w)"

definition linphone_chat_process_response_from_get_file :: "nat \<Rightarrow> int \<Rightarrow> ('a, 'db) chat_world \<Rightarrow> ('a, 'db) chat_world" where
  "linphone_chat_process_response_from_get_file i code w = (if code = 200 then (let
       w = touch_msg i w;
       w = (if cm_content (cw_msg w i) = None then ch_fault DereferencesNull w else w)
     in set_state_and_tell LinphoneChatMessageStateFileTransferDone i (ch_emit (FileReceived i) w)) else w)"

definition linphone_chat_message_download_file :: "nat \<Rightarrow> ('a, 'db) chat_world \<Rightarrow> ('a, 'db) chat_world" where
  "linphone_chat_message_download_file i w = (case cm_url (cw_msg w i) of None \<Rightarrow> w
   | Some url \<Rightarrow> upd_msg i (\<lambda>m. m\<lparr>cm_state := chat_state_int LinphoneChatMessageStateInProgress\<rparr>) (new_http (\<lambda>h. HttpGet h i) i w))"

definition linphone_chat_message_start_file_download :: "nat \<Rightarrow> bool \<Rightarrow> ('a, 'db) chat_world \<Rightarrow> ('a, 'db) chat_world" where
  "linphone_chat_message_start_file_download i status_cb w =
     linphone_chat_message_download_file i (upd_msg i (\<lambda>m. m\<lparr>cm_cb := status_cb\<rparr>) w)"

definition linphone_chat_message_cancel_file_transfer :: "('a, 'db) chat_env \<Rightarrow> nat \<Rightarrow> ('a, 'db) chat_world \<Rightarrow> ('a, 'db) chat_world" where
  "linphone_chat_message_cancel_file_transfer env i w = (let w = touch_msg i w in case cm_http (cw_msg w i) of
     None \<Rightarrow> w
   | Some h \<Rightarrow> if ch_http_cancelled env h then w
       else set_state_and_tell LinphoneChatMessageStateNotDelivered i
         (upd_msg i (\<lambda>m. m\<lparr>cm_http := None\<rparr>) (ch_emit (HttpCancel h) w)))"

end
