(* ===== verification/ChatProps.thy ===== *)
theory ChatProps
  imports ChatOps
begin

text \<open>
The notices of typing in every reachable state of the chat rooms, and single routines: who takes part in
a duplicate, what a request in a call does to it, what a message sent in a call waits for.
\<close>

section \<open>What leaves the notices of typing alone\<close>

text \<open>The part of the rooms that is about typing.\<close>

type_synonym typing = "composing_state \<times> int option \<times> int option \<times> composing_state \<times> int option"

definition typing :: "'a chat_room \<Rightarrow> typing" where
  "typing cr = (cr_composing cr, cr_idle_timer cr, cr_refresh_timer cr, cr_remote_composing cr, cr_remote_timer cr)"

definition typings :: "('a, 'db) chat_world \<Rightarrow> nat \<Rightarrow> typing" where
  "typings w r = typing (cw_room w r)"

lemma typings_same: "cw_room w = cw_room v \<Longrightarrow> typings w = typings v" by (simp add: typings_def fun_eq_iff)

lemma room_frame [simp]:
  "cw_room (ch_fault f w) = cw_room w" "cw_room (ch_emit a w) = cw_room w" "cw_room (touch_msg i w) = cw_room w"
  "cw_room (touch_room r w) = cw_room w" "cw_room (upd_msg i g w) = cw_room w" "cw_room (ch_exec env st w) = cw_room w"
  "cw_room (release_chat_op op w) = cw_room w" "cw_room (fold ch_fault fs w) = cw_room w"
proof -
  show "cw_room (fold ch_fault fs w) = cw_room w" by (induction fs arbitrary: w) (simp_all add: ch_fault_def)
qed (auto simp: ch_fault_def ch_emit_def touch_msg_def touch_room_def upd_msg_def ch_exec_def release_chat_op_def split: option.splits)

lemma room_frame_message [simp]:
  "cw_room (linphone_chat_message_ref i w) = cw_room w" "cw_room (linphone_chat_message_destroy i w) = cw_room w"
  "cw_room (linphone_chat_message_unref i w) = cw_room w"
  "cw_room (snd (sal_op_for_chat w)) = cw_room w" "cw_room (snd (new_message m w)) = cw_room w"
  "cw_room (snd (linphone_chat_room_create_message r text w)) = cw_room w"
  by (auto simp: linphone_chat_message_ref_def linphone_chat_message_destroy_def linphone_chat_message_unref_def Let_def
    sal_op_for_chat_def new_message_def linphone_chat_room_create_message_def split: option.splits)

lemma room_frame_store [simp]:
  "cw_room (snd (linphone_chat_message_store_content env c w)) = cw_room w"
  "cw_room (snd (linphone_chat_message_store env i w)) = cw_room w"
  "cw_room (linphone_chat_message_store_state env i w) = cw_room w"
proof -
  show c: "cw_room (snd (linphone_chat_message_store_content env c w)) = cw_room w" for c w
    by (simp add: linphone_chat_message_store_content_def Let_def split: option.splits)
  show "cw_room (linphone_chat_message_store_state env i w) = cw_room w" by (simp add: linphone_chat_message_store_state_def Let_def)
  show "cw_room (snd (linphone_chat_message_store env i w)) = cw_room w"
    using c by (auto simp: linphone_chat_message_store_def Let_def split: option.splits prod.splits) (metis room_frame(3,4) snd_conv)+
qed

lemma typings_frame [simp]:
  "typings (ch_fault f w) = typings w" "typings (ch_emit a w) = typings w" "typings (touch_msg i w) = typings w"
  "typings (touch_room r w) = typings w" "typings (upd_msg i g w) = typings w" "typings (release_chat_op op w) = typings w"
  "typings (fold ch_fault fs w) = typings w" "typings (linphone_chat_message_ref i w) = typings w"
  "typings (linphone_chat_message_unref i w) = typings w" "typings (linphone_chat_message_store_state env i w) = typings w"
  by (rule typings_same, simp)+

lemma typings_fields [simp]:
  "typings (w\<lparr>cw_next_http := n\<rparr>) = typings w" "typings (w\<lparr>cw_owner := ow\<rparr>) = typings w"
  "typings (w\<lparr>cw_last_ids := ids\<rparr>) = typings w"
  by (simp_all add: typings_def fun_eq_iff)

lemma cw_room_upd_room [simp]: "cw_room (upd_room r f w) = (cw_room w)(r := f (cw_room w r))" by (simp add: upd_room_def)

lemma typings_upd_room: "typings (upd_room r f w) = (typings w)(r := typing (f (cw_room w r)))"
  by (auto simp: typings_def upd_room_def)

lemma typings_transient [simp]: "typings (upd_room r (\<lambda>cr. cr\<lparr>cr_transient := g cr\<rparr>) w) = typings w"
  by (auto simp: typings_def upd_room_def typing_def)

lemma typings_update_state [simp]: "typings (linphone_chat_message_update_state env i w) = typings w"
  by (simp add: linphone_chat_message_update_state_def Let_def)

lemma typings_delivery [simp]: "typings (text_delivery_update env op status w) = typings w"
  by (simp add: text_delivery_update_def Let_def split: op_owner.split)

lemma typings_send [simp]:
  "typings (sal_message_send env op from to ct msg uri w) = typings w" "typings (sal_text_send env op from to msg w) = typings w"
  by (simp_all add: sal_message_send_def sal_text_send_def split: lime_result.split)

lemma room_frame_identity [simp]: "cw_room (snd (chat_identity env addr w)) = cw_room w"
  by (simp add: chat_identity_def split: option.splits)

lemma room_frame_new_op [simp]: "cw_room (snd (snd (new_chat_op env r hs w))) = cw_room w"
proof -
  obtain identity v where v: "chat_identity env (cr_peer (cw_room w r)) w = (identity, v)" by fastforce
  then have "cw_room v = cw_room w" by (metis room_frame_identity snd_conv)
  then show ?thesis by (simp add: new_chat_op_def v sal_op_for_chat_def ch_emit_def)
qed

lemma typings_send_body [simp]: "typings (send_body env r i op identity w) = typings w"
  by (simp add: send_body_def Let_def split: option.split)

section \<open>Typing in reachable states\<close>

text \<open>Somebody who is typing here has both timers, the one who is typing on the other side the remote one.\<close>

fun typing_ok :: "typing \<Rightarrow> bool" where
  "typing_ok (here, idle, refresh, there, remote) \<longleftrightarrow> (here = LinphoneIsComposingActive \<longleftrightarrow> idle \<noteq> None)
     \<and> (here = LinphoneIsComposingActive \<longleftrightarrow> refresh \<noteq> None) \<and> (there = LinphoneIsComposingActive \<longrightarrow> remote \<noteq> None)"

definition typings_ok :: "('a, 'db) chat_world \<Rightarrow> bool" where
  "typings_ok w \<longleftrightarrow> (\<forall>r. typing_ok (typings w r))"

lemma typings_okI: "typings_ok w \<Longrightarrow> typings v = typings w \<Longrightarrow> typings_ok v" by (simp add: typings_ok_def)

lemma typings_ok_upd: "typings_ok w \<Longrightarrow> typings v = (typings w)(r := t) \<Longrightarrow> typing_ok t \<Longrightarrow> typings_ok v"
  by (simp add: typings_ok_def)

lemma room_typing_ok: "typings_ok w \<Longrightarrow> typing_ok (typing (cw_room w r))" by (simp add: typings_ok_def typings_def)

text \<open>A room where nobody types here.\<close>

definition quiet :: "'a chat_room \<Rightarrow> typing" where
  "quiet cr = (LinphoneIsComposingIdle, None, None, cr_remote_composing cr, cr_remote_timer cr)"

lemma quiet_ok: "typings_ok w \<Longrightarrow> typing_ok (quiet (cw_room w r))"
  using room_typing_ok [of w r] by (simp add: quiet_def typing_def)

lemma same_typing: "typings v = typings w \<Longrightarrow> typing (cw_room v r) = typing (cw_room w r)"
  by (metis typings_def)

lemma same_quiet: "typings v = typings w \<Longrightarrow> quiet (cw_room v r) = quiet (cw_room w r)"
  using same_typing [of v w r] by (simp add: quiet_def typing_def)

lemma typings_after_send: "typings (after_send env r i identity w) = (typings w)(r := quiet (cw_room w r))"
proof -
  define u where "u = upd_msg i (\<lambda>m. m\<lparr>cm_dir := chat_dir_int LinphoneChatMessageOutgoing, cm_from := Option.bind identity (ad_new (ch_api env))\<rparr>) w"
  obtain sid v where v: "linphone_chat_message_store env i u = (sid, v)" by fastforce
  have v': "cw_room v = cw_room w" using room_frame_store(2) [of env i u] by (simp add: v) (simp add: u_def)
  have "cw_room (after_send env r i identity w) = (cw_room w)(r := (cw_room w r)\<lparr>cr_transient := cr_transient (cw_room w r) @ [i],
      cr_composing := LinphoneIsComposingIdle, cr_idle_timer := None, cr_refresh_timer := None\<rparr>)"
    unfolding after_send_def Let_def u_def [symmetric] v prod.case
    by (cases "cr_composing (cw_room w r)") (simp_all add: linphone_chat_room_delete_composing_idle_timer_def
      linphone_chat_room_delete_composing_refresh_timer_def v')
  then show ?thesis by (simp add: typings_def quiet_def typing_def fun_eq_iff)
qed

lemma typings_send_message:
  "typings (linphone_chat_room_send env r i w) = typings w
   \<or> typings (linphone_chat_room_send env r i w) = (typings w)(r := quiet (cw_room w r))"
proof -
  define u where "u = linphone_chat_message_ref i (touch_room r w)"
  define u' where "u' = upd_msg i (\<lambda>m. m\<lparr>cm_time := ch_now env\<rparr>) u"
  have u: "typings u = typings w" "typings u' = typings w" by (simp_all add: u_def u'_def)
  have "typings (upload_message env i u) = typings w"
    by (simp add: upload_message_def Let_def u split: option.split)
  moreover have "typings (case chat_identity env addr u' of (identity, w) \<Rightarrow> after_send env r i identity (send_body env r i op identity w))
      = (typings w)(r := quiet (cw_room w r))" for addr op
  proof -
    obtain identity v where v: "chat_identity env addr u' = (identity, v)" by fastforce
    have "typings v = typings u'" by (rule typings_same) (use room_frame_identity [of env addr u'] in \<open>simp add: v\<close>)
    then have tv: "typings v = typings w" by (simp add: u(2))
    then have s: "typings (send_body env r i op identity v) = typings w" by simp
    show ?thesis by (simp add: v typings_after_send tv same_quiet [OF s])
  qed
  moreover have "typings (case new_chat_op env r hs u' of (op, identity, w) \<Rightarrow> (let
        w = upd_msg i (\<lambda>m. m\<lparr>cm_op := Some op\<rparr>) w; w = w\<lparr>cw_owner := (cw_owner w)(op := OwnedByMessage i)\<rparr>
      in after_send env r i identity (send_body env r i op identity w))) = (typings w)(r := quiet (cw_room w r))" for hs
  proof -
    obtain op identity v where v: "new_chat_op env r hs u' = (op, identity, v)" by (metis prod_cases3)
    define x where "x = upd_msg i (\<lambda>m. m\<lparr>cm_op := Some op\<rparr>) v"
    define y where "y = x\<lparr>cw_owner := (cw_owner x)(op := OwnedByMessage i)\<rparr>"
    have "cw_room v = cw_room u'" using room_frame_new_op [of env r hs u'] by (simp add: v)
    then have "cw_room y = cw_room u'" by (simp add: y_def x_def)
    then have "typings y = typings u'" by (rule typings_same)
    then have ty: "typings y = typings w" by (simp add: u(2))
    then have s: "typings (send_body env r i op identity y) = typings w" by simp
    show ?thesis unfolding v prod.case Let_def x_def [symmetric] y_def [symmetric]
      by (simp add: typings_after_send ty same_quiet [OF s])
  qed
  ultimately show ?thesis unfolding linphone_chat_room_send_def Let_def u_def [symmetric] u'_def [symmetric]
    by (auto split: option.splits prod.splits)
qed

lemma typings_ok_send: "typings_ok w \<Longrightarrow> typings_ok (linphone_chat_room_send env r i w)"
  using typings_send_message [of env r i w] by (auto intro: typings_okI typings_ok_upd quiet_ok)

lemma typings_notification [simp]: "typings (linphone_chat_room_send_is_composing_notification env r w) = typings w"
proof -
  define u where "u = touch_room r w"
  have u: "cw_room u = cw_room w" by (simp add: u_def)
  obtain op identity v where v: "(case chat_call_dialog env (cw_room u r) of
      Some (addr, op) \<Rightarrow> (case chat_identity env addr u of (identity, w) \<Rightarrow> (op, identity, w)) | None \<Rightarrow> new_chat_op env r [] u) = (op, identity, v)"
    by (metis prod_cases3)
  have "cw_room v = cw_room u"
  proof (cases "chat_call_dialog env (cw_room u r)")
    case None
    then show ?thesis using v room_frame_new_op [of env r "[]" u] by simp
  next
    case (Some d)
    then show ?thesis using v room_frame_identity [of env "fst d" u] by (cases d) (auto split: prod.splits)
  qed
  then have "typings v = typings u" by (rule typings_same)
  then have "typings v = typings w" by (simp add: u_def)
  then show ?thesis unfolding linphone_chat_room_send_is_composing_notification_def Let_def u_def [symmetric] v prod.case
    by (simp split: option.split)
qed

lemma typings_ok_stop: "typings_ok w \<Longrightarrow> typings_ok (linphone_chat_room_stop_composing env r w)"
proof -
  assume ok: "typings_ok w"
  define u where "u = upd_room r (\<lambda>cr. cr\<lparr>cr_composing := LinphoneIsComposingIdle\<rparr>) w"
  define v where "v = linphone_chat_room_send_is_composing_notification env r u"
  have "typings v = typings u" by (simp add: v_def)
  moreover have "typing_ok (typing (cw_room w r))" by (rule room_typing_ok [OF ok])
  moreover from calculation(1) have "typing (cw_room v r) = typing (cw_room u r)" by (rule same_typing)
  ultimately show ?thesis unfolding linphone_chat_room_stop_composing_def Let_def u_def [symmetric] v_def [symmetric]
    using ok by (auto simp: typings_ok_def linphone_chat_room_delete_composing_refresh_timer_def typings_upd_room u_def typing_def)
qed

lemma typings_ok_compose:
  assumes "typings_ok w"
  shows "typings_ok (linphone_chat_room_compose env r w)"
proof (cases "cr_composing (cw_room w r)")
  case LinphoneIsComposingIdle
  define u where "u = upd_room r (\<lambda>cr. cr\<lparr>cr_composing := LinphoneIsComposingActive\<rparr>) (touch_room r w)"
  define v where "v = linphone_chat_room_send_is_composing_notification env r u"
  have v: "typings v = typings u" by (simp add: v_def)
  then have "typing (cw_room v r) = typing (cw_room u r)" by (rule same_typing)
  then show ?thesis unfolding linphone_chat_room_compose_def Let_def
    using LinphoneIsComposingIdle assms v room_typing_ok [OF assms, of r] unfolding u_def [symmetric] v_def [symmetric]
    by (auto simp: typings_ok_def typings_upd_room u_def typing_def)
next
  case LinphoneIsComposingActive
  then show ?thesis using assms room_typing_ok [OF assms, of r]
    by (auto simp: linphone_chat_room_compose_def typings_ok_def typings_upd_room typing_def)
qed

text \<open>Keeping somebody's typing up never dereferences a timer that is not there.\<close>

lemma compose_finds_timer:
  assumes "typings_ok w" "cr_composing (cw_room w r) = LinphoneIsComposingActive"
  shows "cr_idle_timer (cw_room w r) \<noteq> None"
  using room_typing_ok [OF assms(1), of r] assms(2) by (auto simp: typing_def)

lemma typings_ok_expired: "typings_ok w \<Longrightarrow> typings_ok (linphone_chat_room_remote_refresh_composing_expired r w)"
  using room_typing_ok [of w r]
  by (auto simp: linphone_chat_room_remote_refresh_composing_expired_def typings_ok_def typings_upd_room typing_def)

lemma typings_ok_create: "typings_ok w \<Longrightarrow> typings_ok (snd (linphone_core_create_chat_room_base addr w))"
  by (auto simp: linphone_core_create_chat_room_base_def Let_def typings_ok_def typings_def typing_def)

lemma typings_ok_get:
  "typings_ok w \<Longrightarrow> typings_ok (snd (linphone_core_get_or_create_chat_room env to w))"
  "typings_ok w \<Longrightarrow> typings_ok (snd (linphone_core_get_chat_room api addr w))"
  using typings_ok_create [of w]
  by (auto simp: linphone_core_get_or_create_chat_room_def linphone_core_create_chat_room_from_url_def
    linphone_core_get_chat_room_def split: option.splits prod.splits) (metis snd_conv)+

lemma typings_ok_heard: "typings_ok w \<Longrightarrow> typings_ok (linphone_chat_room_message_received r i w)"
proof -
  assume ok: "typings_ok w"
  define u where "u = (case cm_message (cw_msg w i) of Some text \<Rightarrow> ch_emit (TextMessageReceived r (cm_from (cw_msg w i)) text) w | None \<Rightarrow> w)"
  have u: "cw_room u = cw_room w" by (simp add: u_def split: option.split)
  then have "typings u = typings w" by (rule typings_same)
  then show ?thesis unfolding linphone_chat_room_message_received_def Let_def u_def [symmetric]
    using ok room_typing_ok [OF ok, of r] by (auto simp: typings_ok_def typings_upd_room u typing_def)
qed

lemma typings_ok_notice: "typings_ok w \<Longrightarrow> typings_ok (process_im_is_composing_notification env r nodes w)"
  using room_typing_ok [of w r]
  by (auto simp: process_im_is_composing_notification_def Let_def linphone_chat_room_delete_remote_composing_refresh_timer_def
    typings_ok_def typings_upd_room typing_def split: option.split prod.split)

lemma typings_ok_is_composing: "typings_ok w \<Longrightarrow> typings_ok (linphone_core_is_composing_received env sender text w)"
  using typings_ok_get(1) [of w env sender]
  by (auto simp: linphone_core_is_composing_received_def linphone_chat_room_notify_is_composing_def
    intro: typings_ok_notice split: option.splits prod.splits)

lemma room_frame_body [simp]: "cw_room (snd (message_for_body env r sm w)) = cw_room w"
  by (auto simp: message_for_body_def linphone_chat_room_create_message_def new_message_def split: option.split prod.split)

lemma typings_ok_frame [simp]:
  "typings_ok (ch_fault f w) = typings_ok w" "typings_ok (ch_emit a w) = typings_ok w" "typings_ok (release_chat_op op w) = typings_ok w"
  "typings_ok (linphone_chat_message_ref i w) = typings_ok w" "typings_ok (linphone_chat_message_unref i w) = typings_ok w"
  "typings_ok (upd_msg i g w) = typings_ok w" "typings_ok (text_delivery_update env op status w) = typings_ok w"
  "typings_ok (w\<lparr>cw_last_ids := ids\<rparr>) = typings_ok w" "typings_ok (touch_msg i w) = typings_ok w"
  "typings_ok (linphone_chat_room_send_is_composing_notification env r w) = typings_ok w"
  by (simp_all add: typings_ok_def)

lemma typings_ok_message:
  assumes "typings_ok w"
  shows "typings_ok (linphone_core_message_received env op sm w)"
proof (cases "ad_new (ch_api env) (sm_from sm)")
  case (Some addr)
  obtain r u where u: "linphone_core_get_chat_room (ch_api env) (ad_clean (ch_api env) addr) w = (r, u)" by fastforce
  obtain i v where v: "message_for_body env r sm u = (i, v)" by fastforce
  define y where "y = upd_msg i (received_message env op sm (cr_peer (cw_room v r))) v"
  obtain sid x where x: "linphone_chat_message_store env i y = (sid, x)" by fastforce
  have "typings_ok u" using typings_ok_get(2) [OF assms] u by (metis snd_conv)
  moreover have "cw_room x = cw_room y" using room_frame_store(2) [of env i y] unfolding x snd_conv .
  then have "typings x = typings u"
    by (intro typings_same) (use room_frame_body [of env r sm u] in \<open>simp add: v y_def\<close>)
  ultimately have "typings_ok x" by (rule typings_okI)
  then show ?thesis using typings_ok_heard [of "upd_msg i (\<lambda>m. m\<lparr>cm_storage_id := sid\<rparr>) x" r i]
    by (simp add: linphone_core_message_received_def Some u v y_def [symmetric] x)
qed (simp add: linphone_core_message_received_def assms)

lemma typings_ok_received: "typings_ok w \<Longrightarrow> typings_ok (text_received env op sm w)"
  by (simp add: text_received_def Let_def sal_message_reply_def typings_ok_message split: prod.split)

lemma typings_ok_incoming: "typings_ok w \<Longrightarrow> typings_ok (sal_process_incoming_message env op rq w)"
  by (simp add: sal_process_incoming_message_def reject_message_def typings_ok_received typings_ok_is_composing
    split: option.split lime_result.split)

lemma typings_ok_told [simp]: "typings_ok (set_state_and_tell st i w) = typings_ok w"
  by (simp add: set_state_and_tell_def state_callbacks_def Let_def)

lemma typings_ok_http [simp]: "typings_ok (new_http req i w) = typings_ok w"
  by (simp add: new_http_def Let_def typings_ok_def)

lemma typings_ok_posted: "typings_ok w \<Longrightarrow> typings_ok (linphone_chat_message_process_response_from_post_file env i code body w)"
  by (auto simp: linphone_chat_message_process_response_from_post_file_def Let_def intro: typings_ok_send split: option.split)

lemma room_frame_history [simp]: "cw_room (snd (read_history env r rows hist w)) = cw_room w"
proof (induction env r rows hist w rule: read_history.induct)
  case (2 env r row rows hist w)
  obtain i v where v: "create_chat_message env r row w = (i, v)" by fastforce
  have "cw_room v = cw_room w"
    using v by (auto simp: create_chat_message_def get_transient_message_def new_message_def Let_def split: option.splits if_splits)
  then show ?case using 2 by (simp add: v)
qed simp

lemma typings_ok_history: "typings_ok w \<Longrightarrow> typings_ok (snd (linphone_chat_room_get_history_range env r a b w))"
  by (rule typings_okI [OF _ typings_same], assumption)
    (simp add: linphone_chat_room_get_history_range_def Let_def split: option.split)

text \<open>What the application, the other side, the timers and the server of files do to the rooms, as long as
  no room is destroyed.\<close>

inductive chat_step :: "('a, 'db) chat_world \<Rightarrow> ('a, 'db) chat_world \<Rightarrow> bool" where
  room_of_address: "chat_step w (snd (linphone_core_get_chat_room api addr w))"
| room_of_url: "chat_step w (snd (linphone_core_get_or_create_chat_room env url w))"
| make_message: "chat_step w (snd (linphone_chat_room_create_message r text w))"
| hold_message: "chat_step w (linphone_chat_message_ref i w)"
| drop_message: "chat_step w (linphone_chat_message_unref i w)"
| send_message: "chat_step w (linphone_chat_room_send_chat_message env r i w)"
| send_with_callback: "chat_step w (linphone_chat_room_send_message2 env r i cb w)"
| answer: "chat_step w (message_process_response env op code w)"
| failure: "chat_step w (message_process_error env op outgoing w)"
| request: "chat_step w (sal_process_incoming_message env op rq w)"
| compose: "chat_step w (linphone_chat_room_compose env r w)"
| typing_stops: "cr_idle_timer (cw_room w r) \<noteq> None \<Longrightarrow> chat_step w (linphone_chat_room_stop_composing env r w)"
| typing_goes_on: "cr_refresh_timer (cw_room w r) \<noteq> None \<Longrightarrow> chat_step w (linphone_chat_room_refresh_composing env r w)"
| remote_typing_ends: "cr_remote_timer (cw_room w r) \<noteq> None \<Longrightarrow> chat_step w (linphone_chat_room_remote_refresh_composing_expired r w)"
| server_answer: "chat_step w (linphone_chat_message_process_response_from_post_file env i code body w)"
| upload_error: "chat_step w (process_io_error_upload i w)"
| download: "chat_step w (linphone_chat_message_start_file_download i cb w)"
| download_answer: "chat_step w (linphone_chat_process_response_from_get_file i code w)"
| download_error: "chat_step w (process_io_error_download i w)"
| cancel: "chat_step w (linphone_chat_message_cancel_file_transfer env i w)"
| browse: "chat_step w (snd (linphone_chat_room_get_history_range env r a b w))"

inductive chat_reachable :: "('a, 'db) chat_world \<Rightarrow> bool" where
  start: "(\<forall>r. typing (cw_room w r) = (LinphoneIsComposingIdle, None, None, LinphoneIsComposingIdle, None)) \<Longrightarrow> chat_reachable w"
| step: "chat_reachable w \<Longrightarrow> chat_step w v \<Longrightarrow> chat_reachable v"

lemma typings_ok_step: "chat_step w v \<Longrightarrow> typings_ok w \<Longrightarrow> typings_ok v"
proof (induction rule: chat_step.induct)
  case (make_message w r msg)
  then show ?case by (rule typings_okI) (rule typings_same, simp)
next
  case (send_with_callback w env r i cb)
  then show ?case by (simp add: linphone_chat_room_send_message2_def typings_ok_send)
next
  case (download w i cb)
  then show ?case
    by (simp add: linphone_chat_message_start_file_download_def linphone_chat_message_download_file_def split: option.split)
next
  case (cancel w env i)
  then show ?case by (simp add: linphone_chat_message_cancel_file_transfer_def Let_def typings_ok_def split: option.split)
      (simp add: set_state_and_tell_def state_callbacks_def Let_def)
qed (simp_all add: typings_ok_get linphone_chat_room_send_chat_message_def typings_ok_send message_process_response_def
  message_process_error_def typings_ok_incoming typings_ok_compose typings_ok_stop linphone_chat_room_refresh_composing_def
  typings_ok_expired typings_ok_posted process_io_error_upload_def process_io_error_download_def typings_ok_history
  linphone_chat_process_response_from_get_file_def Let_def)

lemma typings_ok_reachable: "chat_reachable w \<Longrightarrow> typings_ok w"
proof (induction rule: chat_reachable.induct)
  case (step w v)
  then show ?case by (blast intro: typings_ok_step)
qed (simp add: typings_ok_def typings_def)

text \<open>C22. Notices of typing end: in every reachable state this side is shown as typing in a room exactly
  when the timers that end it and that renew it run, and the other side is shown as typing only while the
  timer that ends it runs.\<close>

theorem typing_ends:
  assumes "chat_reachable w"
  shows "(cr_composing (cw_room w r) = LinphoneIsComposingActive \<longleftrightarrow> cr_idle_timer (cw_room w r) \<noteq> None)
    \<and> (cr_composing (cw_room w r) = LinphoneIsComposingActive \<longleftrightarrow> cr_refresh_timer (cw_room w r) \<noteq> None)
    \<and> (linphone_chat_room_is_remote_composing (cw_room w r) \<longrightarrow> cr_remote_timer (cw_room w r) \<noteq> None)"
  using room_typing_ok [OF typings_ok_reachable [OF assms], of r]
  by (auto simp: typing_def linphone_chat_room_is_remote_composing_def)

section \<open>Retransmissions\<close>

text \<open>Finding a duplicate forgets the oldest of ten messages, so the second retransmission of that one is
  delivered as a new message.\<close>

lemma second_retransmission_delivered:
  assumes "length ids = 10" "distinct ids"
  shows "\<exists>kept. is_duplicate_msg (last ids) ids = (True, kept) \<and> fst (is_duplicate_msg (last ids) kept) = False"
proof -
  have "ids \<noteq> []" using assms(1) by auto
  then have "last ids \<notin> set (butlast ids)" using assms(2)
    by (metis append_butlast_last_id distinct_append IntI list.set_intros(1) empty_iff)
  then show ?thesis using assms(1) \<open>ids \<noteq> []\<close> by (simp add: is_duplicate_msg_def)
qed

section \<open>Where messages are lost or leak\<close>

text \<open>The test whether chat is enabled has the wrong sense.\<close>

lemma chat_enabled_inverted:
  "\<not> linphone_core_chat_enabled (linphone_core_enable_chat w)"
  "linphone_core_chat_enabled (linphone_core_disable_chat LinphoneReasonDeclined w)"
  by (simp_all add: linphone_core_chat_enabled_def linphone_core_enable_chat_def linphone_core_disable_chat_def)

text \<open>A request with a body of unknown type, sent in a call, releases the operation of the call.\<close>

lemma unknown_body_releases_call:
  assumes "cw_owner w op = OwnedByCall" "mr_content_type rq = Some (''text'', ''html'')"
  shows "cw_owner (sal_process_incoming_message env op rq w) op = NoOwner
    \<and> op \<in> set (cw_released (sal_process_incoming_message env op rq w))"
  by (simp add: sal_process_incoming_message_def assms is_cipher_xml_def is_rcs_filetransfer_def reject_message_def
    release_chat_op_def)

text \<open>A request without a content type is read through a null pointer.\<close>

lemma no_content_type_crashes:
  "mr_content_type rq = None \<Longrightarrow> DereferencesNull \<in> set (cw_faults (sal_process_incoming_message env op rq w))"
  by (simp add: sal_process_incoming_message_def ch_fault_def)

text \<open>Without a server for files a message with a file keeps the reference taken to send it.\<close>

lemma no_server_leaks:
  assumes "cm_content (cw_msg w i) \<noteq> None" "cm_content_type (cw_msg w i) = None" "ch_transfer_server env = None"
  shows "cm_refcnt (cw_msg (linphone_chat_room_send env r i w) i) = cm_refcnt (cw_msg w i) + 1"
  using assms by (simp add: linphone_chat_room_send_def upload_message_def linphone_chat_message_ref_def upd_msg_def
    touch_msg_def touch_room_def ch_fault_def)

text \<open>An upload the server refuses is not noticed: the message stays in progress and nobody is told.\<close>

lemma refused_upload_unnoticed:
  "code \<noteq> 200 \<Longrightarrow> code \<noteq> 204 \<Longrightarrow> linphone_chat_message_process_response_from_post_file env i code body w = w"
  by (simp add: linphone_chat_message_process_response_from_post_file_def split: option.split)

text \<open>A delay of a thousand seconds and more is announced by its first three digits.\<close>

lemma long_delay_cut:
  "ch_int env ''composing_refresh_timeout'' 60 = 1200 \<Longrightarrow> composing_refresh_str env = ''120''"
  by (simp add: composing_refresh_str_def) code_simp

end
