(* ===== verification/ChatHistory.thy ===== *)
theory ChatHistory
  imports ChatProps
begin

text \<open>
What the history of a room returns, and the whole life of a message that is sent: from the application to
the data base, over the answers of the other side, to its end.
\<close>

section \<open>The data base\<close>

text \<open>What the statements of the storage do to the table of messages, and what its selections return: the
  documented behaviour of SQL for them.  A new row gets a number above all others.\<close>

fun history_run :: "statement \<Rightarrow> int \<Rightarrow> history_row list \<Rightarrow> history_row list" where
  "history_run (InsertHistory row) rowid rows = rows @ [row\<lparr>hr_id := rowid\<rparr>]"
| "history_run (InsertContent c) rowid rows = rows"
| "history_run (UpdateStatus st i) rowid rows = map (\<lambda>x. if hr_id x = i then x\<lparr>hr_status := st\<rparr> else x) rows"
| "history_run (UpdateAppdata d i) rowid rows = map (\<lambda>x. if hr_id x = i then x\<lparr>hr_appdata := d\<rparr> else x) rows"
| "history_run (UpdateRead n peer) rowid rows = map (\<lambda>x. if hr_remote x = peer then x\<lparr>hr_read := n\<rparr> else x) rows"
| "history_run (UpdateUrl u i) rowid rows = map (\<lambda>x. if hr_id x = i then x\<lparr>hr_url := u\<rparr> else x) rows"
| "history_run (DeleteMessage i) rowid rows = filter (\<lambda>x. hr_id x \<noteq> i) rows"
| "history_run (DeleteHistory peer) rowid rows = filter (\<lambda>x. hr_remote x \<noteq> peer) rows"

definition sql_page :: "int option \<Rightarrow> int option \<Rightarrow> 'r list \<Rightarrow> 'r list" where
  "sql_page lim off rows = (let rest = drop (case off of Some k \<Rightarrow> nat k | None \<Rightarrow> 0) rows in
     case lim of Some n \<Rightarrow> if n < 0 then rest else take (nat n) rest | None \<Rightarrow> rest)"

definition room_rows :: "string \<Rightarrow> history_row list \<Rightarrow> history_row list" where
  "room_rows peer = filter (\<lambda>x. hr_remote x = peer)"

definition sqlite :: "'db sql_api \<Rightarrow> ('db \<Rightarrow> history_row list) \<Rightarrow> bool" where
  "sqlite api rows \<longleftrightarrow>
     (\<forall>st db. rows (sq_exec api st db) = history_run st (sq_last_insert_rowid api (sq_exec api st db)) (rows db))
   \<and> (\<forall>row db. \<forall>x \<in> set (rows db). hr_id x < sq_last_insert_rowid api (sq_exec api (InsertHistory row) db))
   \<and> (\<forall>peer lim off db. sq_history api peer lim off db = sql_page lim off (rev (sort_key hr_id (room_rows peer (rows db)))))
   \<and> (\<forall>peer unread db. sq_count api peer unread db
        = int (length (filter (\<lambda>x. unread \<longrightarrow> hr_read x = 0) (room_rows peer (rows db)))))"

text \<open>The table is in the order of its numbers, and stays so.\<close>

definition table_ok :: "history_row list \<Rightarrow> bool" where
  "table_ok rows \<longleftrightarrow> sorted_wrt (<) (map hr_id rows)"

lemma same_numbers: "(\<And>x. hr_id (f x) = hr_id x) \<Longrightarrow> hr_id \<circ> (\<lambda>x. if P x then f x else x) = hr_id"
  by (simp add: fun_eq_iff)

lemma table_ok_run:
  assumes "sqlite api rows" "table_ok (rows db)"
  shows "table_ok (rows (sq_exec api st db))"
proof -
  have "sorted_wrt (<) (map hr_id (filter P xs))" if "sorted_wrt (<) (map hr_id xs)" for P and xs :: "history_row list"
    using that by (induction xs) auto
  moreover have "rows (sq_exec api st db) = history_run st (sq_last_insert_rowid api (sq_exec api st db)) (rows db)"
    "\<forall>row. \<forall>x \<in> set (rows db). hr_id x < sq_last_insert_rowid api (sq_exec api (InsertHistory row) db)"
    using assms(1) unfolding sqlite_def by blast+
  ultimately show ?thesis using assms(2) by (cases st) (auto simp: table_ok_def sorted_wrt_append same_numbers)
qed

lemma selected_rows:
  assumes "sqlite api rows" "table_ok (rows db)"
  shows "sq_history api peer lim off db = sql_page lim off (rev (room_rows peer (rows db)))"
proof -
  have "sorted (map hr_id (room_rows peer (rows db)))"
    using sorted_filter [of hr_id "rows db" "\<lambda>x. hr_remote x = peer"] assms(2)
    by (simp add: room_rows_def table_ok_def strict_sorted_iff)
  then show ?thesis using assms(1) by (simp add: sqlite_def sort_key_id_if_sorted)
qed

section \<open>Reading the history\<close>

text \<open>The message a row stands for, references aside: the one in progress with its number, or one made of
  the row.\<close>

definition message_shown :: "('a, 'db) chat_env \<Rightarrow> nat \<Rightarrow> ('a, 'db) chat_world \<Rightarrow> history_row \<Rightarrow> 'a chat_message" where
  "message_shown env r w row = (case find (\<lambda>i. cm_storage_id (cw_msg w i) = word_of_int (hr_id row)) (cr_transient (cw_room w r)) of
     Some i \<Rightarrow> cw_msg w i | None \<Rightarrow> message_of_row env r row w)"

definition unreferenced :: "'a chat_message \<Rightarrow> 'a chat_message" where
  "unreferenced m = m\<lparr>cm_refcnt := 0\<rparr>"

lemma row_frame: "cw_db v = cw_db w \<Longrightarrow> message_of_row env r row v = message_of_row env r row w"
  by (simp add: message_of_row_def Let_def fetch_content_from_database_def cong: option.case_cong if_cong)

definition transients_alive :: "('a, 'db) chat_world \<Rightarrow> nat \<Rightarrow> bool" where
  "transients_alive w r \<longleftrightarrow> (\<forall>i \<in> set (cr_transient (cw_room w r)). i < cw_next_msg w)"

text \<open>Making a message of a row changes nothing else but references.\<close>

lemma create_chat_message_frame:
  assumes "transients_alive w r" "create_chat_message env r row w = (i, v)"
  shows "cw_room v = cw_room w" "cw_db v = cw_db w" "cw_next_msg w \<le> cw_next_msg v" "i < cw_next_msg v"
    "unreferenced (cw_msg v i) = unreferenced (message_shown env r w row)"
    "\<And>j. j < cw_next_msg w \<Longrightarrow> unreferenced (cw_msg v j) = unreferenced (cw_msg w j)"
proof -
  let ?f = "find (\<lambda>i. cm_storage_id (cw_msg w i) = word_of_int (hr_id row)) (cr_transient (cw_room w r))"
  have "cw_room v = cw_room w \<and> cw_db v = cw_db w \<and> cw_next_msg w \<le> cw_next_msg v \<and> i < cw_next_msg v
    \<and> unreferenced (cw_msg v i) = unreferenced (message_shown env r w row)
    \<and> (\<forall>j < cw_next_msg w. unreferenced (cw_msg v j) = unreferenced (cw_msg w j))"
  proof (cases ?f)
    case None
    define m where "m = message_of_row env r row w"
    define u where "u = (if cm_from m = None then ch_fault DereferencesNull w else w)"
    have "cw_room u = cw_room w \<and> cw_db u = cw_db w \<and> cw_next_msg u = cw_next_msg w \<and> cw_msg u = cw_msg w"
      by (simp add: u_def ch_fault_def)
    moreover have "new_message m u = (i, v)"
      using assms(2) None by (simp add: create_chat_message_def get_transient_message_def Let_def m_def [symmetric] u_def [symmetric])
    moreover have "message_shown env r w row = m" by (simp add: message_shown_def None m_def)
    ultimately show ?thesis by (auto simp: new_message_def)
  next
    case (Some k)
    then have "k \<in> set (cr_transient (cw_room w r))" by (auto simp: find_Some_iff)
    then have "k < cw_next_msg w" using assms(1) by (simp add: transients_alive_def)
    moreover have "i = k \<and> v = linphone_chat_message_ref k w"
      using assms(2) Some by (auto simp: create_chat_message_def get_transient_message_def)
    ultimately show ?thesis
      by (simp add: linphone_chat_message_ref_def upd_msg_def touch_msg_def ch_fault_def message_shown_def Some unreferenced_def)
  qed
  then show "cw_room v = cw_room w" "cw_db v = cw_db w" "cw_next_msg w \<le> cw_next_msg v" "i < cw_next_msg v"
    "unreferenced (cw_msg v i) = unreferenced (message_shown env r w row)"
    "\<And>j. j < cw_next_msg w \<Longrightarrow> unreferenced (cw_msg v j) = unreferenced (cw_msg w j)" by blast+
qed

lemma storage_id_unreferenced: "cm_storage_id (unreferenced m) = cm_storage_id m" by (simp add: unreferenced_def)

text \<open>Messages that are the same, references aside, are found and shown the same.\<close>

lemma shown_frame:
  assumes "transients_alive w r" "cw_room v = cw_room w" "cw_db v = cw_db w"
    "\<And>j. j < cw_next_msg w \<Longrightarrow> unreferenced (cw_msg v j) = unreferenced (cw_msg w j)"
  shows "unreferenced (message_shown env r v row) = unreferenced (message_shown env r w row)"
proof -
  have id: "cm_storage_id (cw_msg v j) = cm_storage_id (cw_msg w j)" if "j < cw_next_msg w" for j
    using assms(4) [OF that] by (metis storage_id_unreferenced)
  let ?f = "\<lambda>v. find (\<lambda>i. cm_storage_id (cw_msg v i) = word_of_int (hr_id row)) (cr_transient (cw_room w r))"
  have eq: "?f v = ?f w" 
  proof (rule find_cong [OF refl])
    fix i assume "i \<in> set (cr_transient (cw_room w r))"
    then have "i < cw_next_msg w" using assms(1) by (simp add: transients_alive_def)
    then show "(cm_storage_id (cw_msg v i) = word_of_int (hr_id row)) = (cm_storage_id (cw_msg w i) = word_of_int (hr_id row))"
      by (simp add: id)
  qed
  show ?thesis
  proof (cases "?f w")
    case None
    then show ?thesis using eq assms(2) by (simp add: message_shown_def row_frame [OF assms(3)])
  next
    case (Some k)
    then have "k < cw_next_msg w" using assms(1) by (auto simp: find_Some_iff transients_alive_def)
    then show ?thesis using Some eq assms(2,4) by (simp add: message_shown_def)
  qed
qed

lemma read_history_shows:
  assumes "transients_alive w r" "\<And>j. j \<in> set hist \<Longrightarrow> j < cw_next_msg w" "read_history env r rows hist w = (ids, v)"
  shows "map (\<lambda>i. unreferenced (cw_msg v i)) ids
      = map (\<lambda>row. unreferenced (message_shown env r w row)) (rev rows) @ map (\<lambda>i. unreferenced (cw_msg w i)) hist"
  using assms
proof (induction rows arbitrary: hist w)
  case (Cons row rows)
  obtain i u where u: "create_chat_message env r row w = (i, u)" by fastforce
  note f = create_chat_message_frame [OF Cons.prems(1) u]
  have "transients_alive u r" using Cons.prems(1) f(1,3) by (fastforce simp: transients_alive_def)
  moreover have "j < cw_next_msg u" if "j \<in> set (i # hist)" for j using that f(3,4) Cons.prems(2) by fastforce
  moreover have "read_history env r rows (i # hist) u = (ids, v)" using Cons.prems(3) u by simp
  ultimately have "map (\<lambda>i. unreferenced (cw_msg v i)) ids
      = map (\<lambda>row. unreferenced (message_shown env r u row)) (rev rows) @ map (\<lambda>i. unreferenced (cw_msg u i)) (i # hist)"
    by (rule Cons.IH)
  moreover have "unreferenced (message_shown env r u x) = unreferenced (message_shown env r w x)" for x
    by (rule shown_frame [OF Cons.prems(1) f(1,2,6)])
  moreover have "map (\<lambda>i. unreferenced (cw_msg u i)) hist = map (\<lambda>i. unreferenced (cw_msg w i)) hist"
    using f(6) Cons.prems(2) by simp
  ultimately show ?case by (simp add: f(5))
qed simp

text \<open>C21. Pages of the history: the messages from the \<open>startm\<close>-th newest to the \<open>endm\<close>-th newest of a room are
  returned oldest first, each the one in progress with its number or made of its row; without an end,
  or with one before the start, the page reaches to the oldest.\<close>

theorem history_pages:
  assumes "sqlite (ch_sql env) rows" and "cw_db w = Some db" and "table_ok (rows db)"
    and "transients_alive w r" and "length (history_statement (sq_quote (ch_sql env) (peer_uri env r w))) \<le> 510"
    and "linphone_chat_room_get_history_range env r startm endm w = (ids, v)" and "0 \<le> startm"
  shows "map (\<lambda>i. unreferenced (cw_msg v i)) ids = map (\<lambda>row. unreferenced (message_shown env r w row))
    (rev (let newest = drop (nat startm) (rev (room_rows (peer_uri env r w) (rows db)))
          in if startm \<le> endm then take (nat (endm + 1 - startm)) newest else newest))"
proof -
  define u where "u = touch_room r w"
  have u: "cw_room u = cw_room w" "cw_db u = cw_db w" "cw_msg u = cw_msg w" "cw_next_msg u = cw_next_msg w"
    by (simp_all add: u_def touch_room_def ch_fault_def)
  then have p: "peer_uri env r u = peer_uri env r w" "transients_alive u r"
    "message_shown env r u row = message_shown env r w row" for row
    using assms(4) by (simp_all add: peer_uri_def transients_alive_def message_shown_def row_frame [OF u(2)]
      split: option.split)
  have page: "sql_page (history_limit startm endm) (if startm > 0 then Some startm else None) xs
      = (let newest = drop (nat startm) xs in if startm \<le> endm then take (nat (endm + 1 - startm)) newest else newest)" for xs :: "history_row list"
    using assms(7) by (auto simp: sql_page_def history_limit_def Let_def)
  have "read_history env r (history_rows env (peer_uri env r u) (history_limit startm endm) (if startm > 0 then Some startm else None) db) [] u = (ids, v)"
    using assms(2,6,7) u(2) by (simp add: linphone_chat_room_get_history_range_def Let_def u_def [symmetric])
  from read_history_shows [OF p(2) _ this] show ?thesis
    using assms(5) by (simp add: p(1,3) history_rows_def Let_def selected_rows [OF assms(1,3)] page)
qed

end
