(* ===== verification/ChatRuns.thy ===== *)
theory ChatRuns
  imports ChatHistory
begin

text \<open>
The whole life of a message sent out of a call: the request, the row of the history, the answers of the
other side, and the end, with its references.
\<close>

section \<open>Sending\<close>

text \<open>What is needed to send a text or a link at once: a live message of a live room, with an identity,
  neither encryption nor a call that would take it.\<close>

definition can_send :: "('a, 'db) chat_env \<Rightarrow> nat \<Rightarrow> nat \<Rightarrow> string \<Rightarrow> 'a \<Rightarrow> ('a, 'db) chat_world \<Rightarrow> bool" where
  "can_send env r i identity me w \<longleftrightarrow> i \<notin> set (cw_freed w) \<and> r \<notin> set (cw_freed_rooms w) \<and> cr_has_core (cw_room w r)
     \<and> cm_room (cw_msg w i) = r \<and> cm_content (cw_msg w i) = None \<and> 0 < cm_refcnt (cw_msg w i) \<and> i \<notin> set (cr_transient (cw_room w r))
     \<and> chat_call_dialog env (cw_room w r) = None \<and> linphone_core_find_best_identity env (cr_peer (cw_room w r)) = Some (Some identity)
     \<and> ad_new (ch_api env) identity = Some me \<and> \<not> linphone_core_lime_enabled env \<and> ch_build_request env
     \<and> (case cm_content_type (cw_msg w i) of Some ct \<Rightarrow> \<not> encrypted_content_type ct | None \<Rightarrow> True)"

text \<open>What goes on the wire.\<close>

definition wire_form :: "'a chat_message \<Rightarrow> string \<times> string option" where
  "wire_form m = (case cm_url m of
     Some url \<Rightarrow> (''message/external-body; access-type=URL; URL='' @ [CHR 0x22] @ url @ [CHR 0x22], None)
   | None \<Rightarrow> (case cm_content_type m of None \<Rightarrow> ''text/plain'' | Some ct \<Rightarrow> ct, cm_message m))"

lemma chat_touch_alive [simp]:
  "i \<notin> set (cw_freed w) \<Longrightarrow> touch_msg i w = w"
  "r \<notin> set (cw_freed_rooms w) \<Longrightarrow> cr_has_core (cw_room w r) \<Longrightarrow> touch_room r w = w"
  by (simp_all add: touch_msg_def touch_room_def)

lemma url_not_encrypted: "\<not> encrypted_content_type (''message/external-body; access-type=URL; URL='' @ xs)"
  by (simp add: encrypted_content_type_def)

lemma text_not_encrypted: "\<not> encrypted_content_type ''text/plain''"
  by (simp add: encrypted_content_type_def)

lemma body_sent:
  assumes "\<not> linphone_core_lime_enabled env" "ch_build_request env"
    "case cm_content_type (cw_msg w i) of Some ct \<Rightarrow> \<not> encrypted_content_type ct | None \<Rightarrow> True"
  shows "send_body env r i op identity w = ch_emit (SalSendMessage op identity (ad_as_string (ch_api env) (cr_peer (cw_room w r)))
    (fst (wire_form (cw_msg w i))) (snd (wire_form (cw_msg w i)))) w"
  using assms url_not_encrypted text_not_encrypted
  by (auto simp: send_body_def Let_def wire_form_def sal_text_send_def sal_message_send_def split: option.splits)

text \<open>Encryption takes a reference to the message that nothing gives up when it succeeds: the message is
  never freed.\<close>

lemma encrypted_message_leaks:
  assumes "linphone_core_lime_enabled env" "ch_build_request env" "cm_url (cw_msg w i) = None"
    "\<And>msg uri. \<exists>body. ch_encrypt env msg uri = LimeDone body"
  shows "cm_refcnt (cw_msg (send_body env r i op identity w) i) = cm_refcnt (cw_msg w i) + 1"
proof -
  define v where "v = linphone_chat_message_ref i w"
  have v: "cm_refcnt (cw_msg v i) = cm_refcnt (cw_msg w i) + 1" by (simp add: v_def linphone_chat_message_ref_def upd_msg_def)
  have "cw_msg (sal_message_send env op identity to ct msg uri v) = cw_msg v" for to ct msg uri
    using assms(2) assms(4) [of msg uri] by (auto simp: sal_message_send_def ch_emit_def)
  then show ?thesis using assms(1,3) v unfolding send_body_def Let_def v_def by simp
qed

text \<open>A message sent through a call waits for ever: no operation leads back to it.\<close>

lemma message_in_call_unanswered:
  assumes "chat_call_dialog env (cw_room w r) = Some (addr, op)" "linphone_core_find_best_identity env addr = Some (Some identity)"
    "ad_new (ch_api env) identity = Some me" "\<not> linphone_core_lime_enabled env" "cw_owner w op = OwnedByCall"
    "i \<notin> set (cw_freed w)" "r \<notin> set (cw_freed_rooms w)" "cr_has_core (cw_room w r)" "cm_room (cw_msg w i) = r"
    "cm_content (cw_msg w i) = None" "cm_content_type (cw_msg w i) = None" "cm_url (cw_msg w i) = None" "0 < cm_refcnt (cw_msg w i)"
    "cw_db w = None"
  shows "cw_owner (linphone_chat_room_send env r i w) = cw_owner w"
    "i \<in> set (cr_transient (cw_room (linphone_chat_room_send env r i w) r))"
  using assms text_not_encrypted
  by (auto simp: linphone_chat_room_send_def linphone_chat_message_ref_def upd_msg_def chat_identity_def send_body_def Let_def
    sal_text_send_def sal_message_send_def ch_emit_def after_send_def linphone_chat_message_store_def linphone_chat_message_unref_def
    linphone_chat_room_delete_composing_idle_timer_def linphone_chat_room_delete_composing_refresh_timer_def upd_room_def)

text \<open>The message as it is once sent.\<close>

definition sent_form :: "('a, 'db) chat_env \<Rightarrow> nat \<Rightarrow> 'a \<Rightarrow> 'a chat_message \<Rightarrow> 'a chat_message" where
  "sent_form env op me m = m\<lparr>cm_state := chat_state_int LinphoneChatMessageStateInProgress, cm_time := ch_now env, cm_op := Some op,
     cm_dir := chat_dir_int LinphoneChatMessageOutgoing, cm_from := Some me\<rparr>"

lemma message_sent:
  fixes w :: "('a, 'db) chat_world"
  assumes "can_send env r i identity me w" "cw_db w = Some db"
    "row = history_row_of env w (sent_form env (cw_next_op w) me (cw_msg w i)) me (-1)"
    "db' = sq_exec (ch_sql env) (InsertHistory row) db" "sid = word_of_int (sq_last_insert_rowid (ch_sql env) db')"
  shows "linphone_chat_room_send_chat_message env r i w = w\<lparr>
    cw_room := (cw_room w)(r := (cw_room w r)\<lparr>cr_transient := cr_transient (cw_room w r) @ [i],
      cr_composing := LinphoneIsComposingIdle, cr_idle_timer := None, cr_refresh_timer := None\<rparr>),
    cw_msg := (cw_msg w)(i := (sent_form env (cw_next_op w) me (cw_msg w i))\<lparr>cm_storage_id := sid,
      cm_refcnt := cm_refcnt (cw_msg w i) + 1\<rparr>),
    cw_owner := (cw_owner w)(cw_next_op w := OwnedByMessage i), cw_next_op := Suc (cw_next_op w), cw_db := Some db',
    cw_trace := cw_trace w @ [ConfigureOp (cw_next_op w) r (cm_headers (cw_msg w i)) (ch_int env ''chat_msg_with_contact'' 0 \<noteq> 0),
      SalSendMessage (cw_next_op w) (Some identity) (ad_as_string (ch_api env) (cr_peer (cw_room w r)))
        (fst (wire_form (cw_msg w i))) (snd (wire_form (cw_msg w i)))]\<rparr>"
proof -
  note c = assms(1) [unfolded can_send_def]
  define n where "n = cw_next_op w"
  define m where "m = cw_msg w i"
  define to where "to = ad_as_string (ch_api env) (cr_peer (cw_room w r))"
  define a1 :: "'a chat_action" where "a1 = ConfigureOp n r (cm_headers m) (ch_int env ''chat_msg_with_contact'' 0 \<noteq> 0)"
  define a2 :: "'a chat_action" where "a2 = SalSendMessage n (Some identity) to (fst (wire_form m)) (snd (wire_form m))"
  define m2 where "m2 = m\<lparr>cm_state := chat_state_int LinphoneChatMessageStateInProgress, cm_refcnt := cm_refcnt m + 1\<rparr>"
  define w2 where "w2 = w\<lparr>cw_msg := (cw_msg w)(i := m2)\<rparr>"
  define m5 where "m5 = m2\<lparr>cm_time := ch_now env, cm_op := Some n\<rparr>"
  define w5 where "w5 = w\<lparr>cw_next_op := Suc n, cw_trace := cw_trace w @ [a1], cw_msg := (cw_msg w)(i := m5),
    cw_owner := (cw_owner w)(n := OwnedByMessage i)\<rparr>"
  define w6 where "w6 = w5\<lparr>cw_trace := cw_trace w @ [a1, a2]\<rparr>"
  have w2: "linphone_chat_message_ref i (touch_room r (upd_msg i (\<lambda>m. m\<lparr>cm_state := chat_state_int LinphoneChatMessageStateInProgress\<rparr>) w)) = w2"
    using c by (simp add: linphone_chat_message_ref_def upd_msg_def w2_def m2_def m_def)
  have "linphone_chat_room_send_chat_message env r i w = after_send env r i (Some identity) (send_body env r i n (Some identity) w5)"
    unfolding linphone_chat_room_send_chat_message_def linphone_chat_room_send_def Let_def w2
    using c by (simp add: w2_def m2_def m_def upd_msg_def new_chat_op_def chat_identity_def sal_op_for_chat_def ch_emit_def n_def w5_def m5_def a1_def)
  also have "send_body env r i n (Some identity) w5 = w6"
  proof -
    have "wire_form m5 = wire_form m" by (simp add: wire_form_def m5_def m2_def split: option.split)
    moreover have "cm_content_type m5 = cm_content_type m" by (simp add: m5_def m2_def)
    ultimately show ?thesis
      using c by (simp add: body_sent w5_def m_def [symmetric] ch_emit_def w6_def a2_def to_def)
  qed
  also have "after_send env r i (Some identity) w6 = w\<lparr>
    cw_room := (cw_room w)(r := (cw_room w r)\<lparr>cr_transient := cr_transient (cw_room w r) @ [i],
      cr_composing := LinphoneIsComposingIdle, cr_idle_timer := None, cr_refresh_timer := None\<rparr>),
    cw_msg := (cw_msg w)(i := (sent_form env n me m)\<lparr>cm_storage_id := sid, cm_refcnt := cm_refcnt m + 1\<rparr>),
    cw_owner := (cw_owner w)(n := OwnedByMessage i), cw_next_op := Suc n, cw_db := Some db', cw_trace := cw_trace w @ [a1, a2]\<rparr>"
  proof -
    define m7 where "m7 = m5\<lparr>cm_dir := chat_dir_int LinphoneChatMessageOutgoing, cm_from := Some me\<rparr>"
    have sent: "m7\<lparr>cm_storage_id := sid\<rparr> = (sent_form env n me m)\<lparr>cm_storage_id := sid, cm_refcnt := cm_refcnt m + 1\<rparr>"
      by (rule chat_message.equality) (simp_all add: m7_def m5_def m2_def sent_form_def)
    have refs: "1 + cm_refcnt m \<noteq> 0" using c by (simp add: m_def)
    have idle: "(if x = LinphoneIsComposingActive then LinphoneIsComposingIdle else x) = LinphoneIsComposingIdle" for x
      by (cases x) simp_all
    have row: "history_row_of env w m7 me (-1) = row"
      using assms(3) by (simp add: history_row_of_def m7_def m5_def m2_def sent_form_def m_def)
    define w7 where "w7 = w6\<lparr>cw_msg := (cw_msg w)(i := m7)\<rparr>"
    have m7: "upd_msg i (\<lambda>m. m\<lparr>cm_dir := chat_dir_int LinphoneChatMessageOutgoing, cm_from := Option.bind (Some identity) (ad_new (ch_api env))\<rparr>) w6 = w7"
      using c by (simp add: upd_msg_def w7_def w6_def w5_def m7_def)
    have s: "linphone_chat_message_store env i w7 = (sid, w7\<lparr>cw_db := Some db'\<rparr>)"
    proof -
      have "cm_room m7 = r" "cm_content m7 = None" "linphone_chat_message_get_local_address m7 = Some me"
        using c by (simp_all add: m7_def m5_def m2_def m_def linphone_chat_message_get_local_address_def)
      moreover have "history_row_of env w7 m7 me (-1) = row"
        using row by (simp add: history_row_of_def w7_def w6_def w5_def)
      ultimately show ?thesis
        using c assms(2,4,5) by (simp add: linphone_chat_message_store_def w7_def w6_def w5_def ch_exec_def)
    qed
    show ?thesis unfolding after_send_def Let_def m7 s prod.case idle
      using c by (intro chat_world.equality) (simp_all add: w7_def w6_def w5_def upd_msg_def linphone_chat_message_ref_def
        linphone_chat_message_unref_def Let_def linphone_chat_room_delete_composing_idle_timer_def
        linphone_chat_room_delete_composing_refresh_timer_def upd_room_def refs sent add.commute)
  qed
  finally show ?thesis unfolding a1_def a2_def m_def n_def to_def by simp
qed

section \<open>The answers\<close>

text \<open>What the application is told of a state.\<close>

definition told_state :: "nat \<Rightarrow> 'a chat_message \<Rightarrow> chat_state \<Rightarrow> 'a chat_action list" where
  "told_state i m st = (if cm_state_changed m then [MsgStateChanged i (chat_state_int st)]
     else if cm_cb m then [MsgStateCallback i (chat_state_int st)] else [])"

text \<open>A message that waits for its answer.\<close>

definition waiting :: "('a, 'db) chat_world \<Rightarrow> nat \<Rightarrow> nat \<Rightarrow> nat \<Rightarrow> bool" where
  "waiting w op r i \<longleftrightarrow> cw_owner w op = OwnedByMessage i \<and> i \<notin> set (cw_freed w) \<and> r \<notin> set (cw_freed_rooms w)
     \<and> cr_has_core (cw_room w r) \<and> cm_room (cw_msg w i) = r \<and> cm_op (cw_msg w i) = Some op
     \<and> cm_state (cw_msg w i) = chat_state_int LinphoneChatMessageStateInProgress"

lemma provisional_answer:
  assumes "waiting w op r i" "cw_db w = Some db" "100 \<le> code" "code < 200"
  shows "message_process_response env op code w = w\<lparr>
    cw_db := Some (sq_exec (ch_sql env) (UpdateStatus (chat_state_int LinphoneChatMessageStateInProgress) (sint (cm_storage_id (cw_msg w i)))) db),
    cw_trace := cw_trace w @ told_state i (cw_msg w i) LinphoneChatMessageStateInProgress\<rparr>"
proof -
  define u where "u = w\<lparr>cw_db := Some (sq_exec (ch_sql env) (UpdateStatus (chat_state_int LinphoneChatMessageStateInProgress)
    (sint (cm_storage_id (cw_msg w i)))) db)\<rparr>"
  note a = assms(1) [unfolded waiting_def]
  have "upd_msg i (\<lambda>m. m\<lparr>cm_state := chat_state_int (chatStatusSal2Linphone SalTextDeliveryInProgress)\<rparr>) w = w"
    using a by (intro chat_world.equality) (auto simp: upd_msg_def fun_eq_iff intro: chat_message.equality)
  moreover have "linphone_chat_message_update_state env i w = u"
    using a assms(2) by (simp add: linphone_chat_message_update_state_def linphone_chat_message_store_state_def Let_def ch_exec_def u_def)
  ultimately have "message_process_response env op code w
      = (if cm_state_changed (cw_msg u i) then ch_emit (MsgStateChanged i (cm_state (cw_msg u i))) u
         else if cm_cb (cw_msg u i) then ch_emit (MsgStateCallback i (cm_state (cw_msg u i))) u else u)"
    using a assms(3,4) by (simp add: message_process_response_def text_delivery_update_def Let_def) (simp add: u_def)
  then show ?thesis using a by (auto simp: u_def ch_emit_def told_state_def)
qed

definition final_state :: "int \<Rightarrow> chat_state" where
  "final_state code = (if 200 \<le> code \<and> code < 300 then LinphoneChatMessageStateDelivered else LinphoneChatMessageStateNotDelivered)"

text \<open>The final answer takes the message from the transient ones and gives up two references, that of the
  transient list and the one the application gave to the request.\<close>

lemma final_answer:
  assumes "waiting w op r i" "cw_db w = Some db" "\<not> (100 \<le> code \<and> code < 200)"
    "cr_transient (cw_room w r) = T @ [i]" "i \<notin> set T" "cm_refcnt (cw_msg w i) = c + 1" "0 < c"
  shows "message_process_response env op code w = (let v = w\<lparr>
      cw_room := (cw_room w)(r := (cw_room w r)\<lparr>cr_transient := T\<rparr>),
      cw_db := Some (sq_exec (ch_sql env) (UpdateStatus (chat_state_int (final_state code)) (sint (cm_storage_id (cw_msg w i)))) db),
      cw_trace := cw_trace w @ told_state i (cw_msg w i) (final_state code),
      cw_msg := (cw_msg w)(i := (cw_msg w i)\<lparr>cm_state := chat_state_int (final_state code), cm_refcnt := c - 1\<rparr>)\<rparr>
    in if c = 1 then linphone_chat_message_destroy i v else v)"
proof -
  note a = assms(1) [unfolded waiting_def]
  define st where "st = chat_state_int (final_state code)"
  define status where "status = (if 200 \<le> code \<and> code < 300 then SalTextDeliveryDone else SalTextDeliveryFailed)"
  have status: "chat_state_int (chatStatusSal2Linphone status) = st" "status \<noteq> SalTextDeliveryInProgress"
    by (simp_all add: status_def st_def final_state_def)
  define db' where "db' = sq_exec (ch_sql env) (UpdateStatus st (sint (cm_storage_id (cw_msg w i)))) db"
  define u where "u = w\<lparr>cw_room := (cw_room w)(r := (cw_room w r)\<lparr>cr_transient := T\<rparr>),
    cw_msg := (cw_msg w)(i := (cw_msg w i)\<lparr>cm_state := st, cm_refcnt := c\<rparr>), cw_db := Some db'\<rparr>"
  have fin: "st = chat_state_int LinphoneChatMessageStateDelivered \<or> st = chat_state_int LinphoneChatMessageStateNotDelivered"
    by (simp add: st_def final_state_def)
  have "remove1 i (T @ [i]) = T" using assms(5) by (simp add: remove1_append)
  then have upd: "linphone_chat_message_update_state env i (upd_msg i (\<lambda>m. m\<lparr>cm_state := st\<rparr>) w) = u"
    using a fin assms(2,4,6,7) by (intro chat_world.equality) (auto simp: linphone_chat_message_update_state_def upd_msg_def Let_def
      linphone_chat_message_store_state_def ch_exec_def linphone_chat_message_unref_def upd_room_def u_def db'_def)
  define v where "v = u\<lparr>cw_trace := cw_trace w @ told_state i (cw_msg w i) (final_state code)\<rparr>"
  have told: "(if cm_state_changed (cw_msg u i) then ch_emit (MsgStateChanged i (cm_state (cw_msg u i))) u
         else if cm_cb (cw_msg u i) then ch_emit (MsgStateCallback i (cm_state (cw_msg u i))) u else u) = v"
    by (simp add: v_def u_def ch_emit_def told_state_def st_def)
  have touch: "touch_msg i u = u" using a by (simp add: u_def)
  have "message_process_response env op code w = text_delivery_update env op status w"
    using assms(3) by (auto simp: message_process_response_def status_def)
  also have "\<dots> = linphone_chat_message_unref i v"
    using a status(2) by (simp only: text_delivery_update_def Let_def status(1) upd touch told op_owner.case if_True simp_thms)
  finally have e: "message_process_response env op code w = linphone_chat_message_unref i v" .
  show ?thesis unfolding e using a assms(7)
    by (simp add: linphone_chat_message_unref_def upd_msg_def v_def u_def Let_def st_def [symmetric] db'_def [symmetric])
qed

section \<open>The whole life\<close>

lemma status_again:
  assumes "\<And>x. x \<in> set rows \<Longrightarrow> hr_id x = n \<Longrightarrow> hr_status x = st"
  shows "history_run (UpdateStatus st n) rowid rows = rows"
proof -
  have "x\<lparr>hr_status := st\<rparr> = x" if "x \<in> set rows" "hr_id x = n" for x
    using assms [OF that] by (intro history_row.equality) simp_all
  then show ?thesis by (simp add: map_idI)
qed

lemma provisional_answers:
  assumes "sqlite (ch_sql env) rows" "waiting w op r i" "cw_db w = Some db"
    "\<And>x. x \<in> set (rows db) \<Longrightarrow> hr_id x = sint (cm_storage_id (cw_msg w i)) \<Longrightarrow> hr_status x = chat_state_int LinphoneChatMessageStateInProgress"
    "\<forall>code \<in> set codes. 100 \<le> code \<and> code < 200"
  shows "\<exists>db'. rows db' = rows db \<and> fold (message_process_response env op) codes w = w\<lparr>cw_db := Some db',
    cw_trace := cw_trace w @ concat (replicate (length codes) (told_state i (cw_msg w i) LinphoneChatMessageStateInProgress))\<rparr>"
  using assms(2-5)
proof (induction codes arbitrary: w db)
  case Nil
  have "w = w\<lparr>cw_db := Some db, cw_trace := cw_trace w\<rparr>" using Nil.prems(2) by (intro chat_world.equality) simp_all
  then show ?case by (metis fold_simps(1) id_apply append_Nil2 concat.simps(1) list.size(3) replicate_0)
next
  case (Cons code codes)
  define db1 where "db1 = sq_exec (ch_sql env) (UpdateStatus (chat_state_int LinphoneChatMessageStateInProgress) (sint (cm_storage_id (cw_msg w i)))) db"
  define w1 where "w1 = w\<lparr>cw_db := Some db1, cw_trace := cw_trace w @ told_state i (cw_msg w i) LinphoneChatMessageStateInProgress\<rparr>"
  have "message_process_response env op code w = w1"
    using provisional_answer [OF Cons.prems(1,2)] Cons.prems(4) by (simp add: w1_def db1_def)
  moreover have rows1: "rows db1 = rows db"
    using assms(1) Cons.prems(3) unfolding sqlite_def db1_def by (metis status_again)
  moreover have "waiting w1 op r i" using Cons.prems(1) by (simp add: waiting_def w1_def)
  moreover have "cw_db w1 = Some db1" "cw_msg w1 = cw_msg w" by (simp_all add: w1_def)
  ultimately obtain db' where "rows db' = rows db1" "fold (message_process_response env op) codes w1 = w1\<lparr>cw_db := Some db',
      cw_trace := cw_trace w1 @ concat (replicate (length codes) (told_state i (cw_msg w1 i) LinphoneChatMessageStateInProgress))\<rparr>"
    using Cons.IH [of w1 db1] Cons.prems(3,4) by auto
  then show ?case using \<open>message_process_response env op code w = w1\<close> rows1
    by (intro exI [of _ db']) (simp add: w1_def)
qed

lemma status_of_last:
  assumes "\<forall>y \<in> set rows. hr_id y < hr_id x"
  shows "history_run (UpdateStatus st (hr_id x)) rowid (rows @ [x]) = rows @ [x\<lparr>hr_status := st\<rparr>]"
proof -
  have "map (\<lambda>y. if hr_id y = hr_id x then y\<lparr>hr_status := st\<rparr> else y) rows = rows"
    using assms by (intro map_idI) auto
  then show ?thesis by simp
qed

text \<open>A message that is sent and has had provisional answers waits for the final one, with its row at the end
  of the table.\<close>

lemma message_waits:
  fixes w :: "('a, 'db) chat_world"
  assumes "sqlite (ch_sql env) rows" and "can_send env r i identity me w" and "cw_db w = Some db"
    and "\<And>row. - (2 ^ 31) \<le> sq_last_insert_rowid (ch_sql env) (sq_exec (ch_sql env) (InsertHistory row) db)
       \<and> sq_last_insert_rowid (ch_sql env) (sq_exec (ch_sql env) (InsertHistory row) db) < 2 ^ 31"
    and "\<forall>code \<in> set codes. 100 \<le> code \<and> code < 200" and "m = cw_msg w i"
    and "v = fold (message_process_response env (cw_next_op w)) codes (linphone_chat_room_send_chat_message env r i w)"
  obtains db' x where "waiting v (cw_next_op w) r i" "cw_db v = Some db'" "rows db' = rows db @ [x]" "\<forall>y \<in> set (rows db). hr_id y < hr_id x"
    "sint (cm_storage_id (cw_msg v i)) = hr_id x" "hr_message x = cm_message m" "hr_url x = cm_url m" "hr_remote x = peer_uri env r w"
    "hr_utc x = Some (ch_now env)" "cr_transient (cw_room v r) = cr_transient (cw_room w r) @ [i]" "cm_refcnt (cw_msg v i) = cm_refcnt m + 1"
    "\<And>s. told_state i (cw_msg v i) s = told_state i m s" "cw_freed v = cw_freed w" "cw_released v = cw_released w" "cw_faults v = cw_faults w"
    "cw_trace v = cw_trace w @ [ConfigureOp (cw_next_op w) r (cm_headers m) (ch_int env ''chat_msg_with_contact'' 0 \<noteq> 0),
        SalSendMessage (cw_next_op w) (Some identity) (ad_as_string (ch_api env) (cr_peer (cw_room w r))) (fst (wire_form m)) (snd (wire_form m))]
        @ concat (replicate (length codes) (told_state i m LinphoneChatMessageStateInProgress))"
proof -
  note c = assms(2) [unfolded can_send_def]
  define op where "op = cw_next_op w"
  define row where "row = history_row_of env w (sent_form env op me m) me (-1)"
  define db1 where "db1 = sq_exec (ch_sql env) (InsertHistory row) db"
  define rowid where "rowid = sq_last_insert_rowid (ch_sql env) db1"
  define x where "x = row\<lparr>hr_id := rowid\<rparr>"
  define v0 where "v0 = linphone_chat_room_send_chat_message env r i w"
  note v0 = message_sent [OF assms(2,3), folded op_def assms(6), OF row_def db1_def refl, folded rowid_def v0_def]
  have new: "rows db1 = rows db @ [x]" "\<forall>y \<in> set (rows db). hr_id y < hr_id x"
    using assms(1) by (simp_all add: sqlite_def db1_def rowid_def x_def)
  have sid: "sint (word_of_int rowid :: 32 word) = hr_id x"
    using assms(4) [of row] by (simp add: x_def rowid_def db1_def sint_sbintrunc' signed_take_bit_int_eq_self)
  have wait: "waiting v0 op r i" "cw_db v0 = Some db1" "cm_storage_id (cw_msg v0 i) = word_of_int rowid"
    using c by (simp_all add: v0 waiting_def sent_form_def assms(6) op_def)
  have "hr_status y = chat_state_int LinphoneChatMessageStateInProgress" if "y \<in> set (rows db1)" "hr_id y = hr_id x" for y
  proof -
    have "hr_status x = chat_state_int LinphoneChatMessageStateInProgress" by (simp add: x_def row_def history_row_of_def sent_form_def)
    moreover have "y = x" using that new by auto
    ultimately show ?thesis by simp
  qed
  then obtain db2 where db2: "rows db2 = rows db1" "v = v0\<lparr>cw_db := Some db2,
      cw_trace := cw_trace v0 @ concat (replicate (length codes) (told_state i (cw_msg v0 i) LinphoneChatMessageStateInProgress))\<rparr>"
    using provisional_answers [OF assms(1) wait(1,2) _ assms(5)] wait(3) sid unfolding assms(7) op_def [symmetric] v0_def [symmetric] by metis
  have told: "told_state i (cw_msg v0 i) s = told_state i m s" for s by (simp add: v0 told_state_def sent_form_def)
  show ?thesis
  proof (rule that [of db2 x])
    show "waiting v (cw_next_op w) r i" using wait(1) by (simp add: db2(2) waiting_def op_def)
    show "sint (cm_storage_id (cw_msg v i)) = hr_id x" using wait(3) sid by (simp add: db2(2))
  qed (use c new db2(1) told in \<open>simp_all add: db2(2) v0 op_def x_def row_def history_row_of_def sent_form_def peer_uri_def assms(6)\<close>)
qed


end
