(* ===== verification/ChatExample.thy ===== *)
theory ChatExample
  imports ChatRuns FriendProps
begin

text \<open>
A room with a message to send and a history of one message, in a data base that is the list of its rows:
the theorems on chat hold of something.
\<close>

definition next_number :: "history_row list \<Rightarrow> int" where
  "next_number rows = fold max (map hr_id rows) 0 + 1"

definition ex_sql :: "history_row list sql_api" where
  "ex_sql = \<lparr>sq_exec = (\<lambda>st rows. history_run st (next_number rows) rows),
     sq_last_insert_rowid = (\<lambda>rows. if rows = [] then 0 else hr_id (last rows)),
     sq_history = (\<lambda>peer lim off rows. sql_page lim off (rev (sort_key hr_id (room_rows peer rows)))),
     sq_cut_history = (\<lambda>_ _ _ _. []),
     sq_count = (\<lambda>peer unread rows. int (length (filter (\<lambda>x. unread \<longrightarrow> hr_read x = 0) (room_rows peer rows)))),
     sq_content = (\<lambda>_ _. []), sq_contacts = (\<lambda>rows. remdups (map hr_remote rows)), sq_quote = (\<lambda>s. s)\<rparr>"

lemma next_number_above: "x \<in> set rows \<Longrightarrow> hr_id x < next_number rows"
proof -
  have "k \<le> fold max xs k \<and> (\<forall>y \<in> set xs. y \<le> fold max xs k)" for xs and k :: int
  proof (induction xs arbitrary: k)
    case (Cons y xs)
    have "max y k \<le> fold max xs (max y k)" "\<forall>z \<in> set xs. z \<le> fold max xs (max y k)" using Cons [of "max y k"] by blast+
    then show ?case by simp
  qed simp
  moreover assume "x \<in> set rows"
  ultimately have "hr_id x \<le> fold max (map hr_id rows) 0" by (metis image_eqI list.set_map)
  then show ?thesis by (simp add: next_number_def)
qed

lemma ex_sqlite: "sqlite ex_sql (\<lambda>rows. rows)"
proof -
  have "history_run st (next_number db) db = history_run st (sq_last_insert_rowid ex_sql (history_run st (next_number db) db)) db" for st db
    by (cases st) (simp_all add: ex_sql_def)
  then show ?thesis by (auto simp: sqlite_def next_number_above) (simp_all add: ex_sql_def next_number_above)
qed

definition ex_chat_env :: "(string, history_row list) chat_env" where
  "ex_chat_env = \<lparr>ch_accounts = ex_friend_env, ch_sql = ex_sql, ch_config = lp_config_zero, ch_now = 7,
     ch_interpret_url = Some, ch_primary_contact = Some ''sip:me@example.org'', ch_calls = [], ch_lime_available = False,
     ch_encrypt = (\<lambda>_ _. LimeNoCache), ch_decrypt = (\<lambda>_. LimeNoCache), ch_build_request = True,
     ch_composing_xml = (\<lambda>_ _. None), ch_parse_composing = (\<lambda>_. None), ch_parse_xml = (\<lambda>_. None), ch_b64_decode = (\<lambda>s. s),
     ch_add_file_key = (\<lambda>_ _. None), ch_random_key = [], ch_op_to = (\<lambda>_. None), ch_op_headers = (\<lambda>_. None),
     ch_transfer_server = None, ch_http_cancelled = (\<lambda>_. False)\<rparr>"

definition ex_old_row :: history_row where
  "ex_old_row = \<lparr>hr_id = 4, hr_local = ''sip:me@example.org'', hr_remote = ''sip:bob@example.org'', hr_direction = 0,
     hr_message = Some ''hello'', hr_time = ''-1'', hr_read = 0, hr_status = 2, hr_url = None, hr_utc = Some 3,
     hr_appdata = None, hr_content = Some (-1)\<rparr>"

definition ex_chat :: "(string, history_row list) chat_world" where
  "ex_chat = \<lparr>cw_room = (\<lambda>_. \<lparr>cr_peer = ''sip:bob@example.org'', cr_transient = [], cr_remote_composing = LinphoneIsComposingIdle,
       cr_composing = LinphoneIsComposingIdle, cr_remote_timer = None, cr_idle_timer = None, cr_refresh_timer = None,
       cr_has_core = True, cr_refcnt = 1\<rparr>), cw_next_room = 1, cw_chatrooms = [0], cw_freed_rooms = [],
     cw_msg = (\<lambda>_. (chat_message_blank 0)\<lparr>cm_message := Some ''hi''\<rparr>), cw_next_msg = 1, cw_freed = [], cw_owner = (\<lambda>_. NoOwner),
     cw_next_op = 0, cw_released = [], cw_next_http = 0, cw_db = Some [ex_old_row], cw_deny = LinphoneReasonNone,
     cw_last_ids = [], cw_faults = [], cw_trace = []\<rparr>"

lemma ex_int: "ch_int ex_chat_env key d = d"
  by (simp add: ch_int_def ex_chat_env_def fr_get_int_def get_int_default empty_config)

lemma typing_ends_witness:
  "cr_composing (cw_room (linphone_chat_room_compose ex_chat_env 0 ex_chat) 0) = LinphoneIsComposingActive
   \<and> cr_idle_timer (cw_room (linphone_chat_room_compose ex_chat_env 0 ex_chat) 0) \<noteq> None"
proof -
  have "chat_reachable ex_chat" by (rule chat_reachable.start) (simp add: ex_chat_def typing_def)
  then have reach: "chat_reachable (linphone_chat_room_compose ex_chat_env 0 ex_chat)" by (rule chat_reachable.step) (rule chat_step.compose)
  define u where "u = upd_room 0 (\<lambda>cr. cr\<lparr>cr_composing := LinphoneIsComposingActive\<rparr>) (touch_room 0 ex_chat)"
  have "cr_composing (cw_room (linphone_chat_room_send_is_composing_notification ex_chat_env 0 u) 0) = LinphoneIsComposingActive"
    using same_typing [OF typings_notification, of ex_chat_env 0 u 0] by (simp add: typing_def u_def)
  then have "cr_composing (cw_room (linphone_chat_room_compose ex_chat_env 0 ex_chat) 0) = LinphoneIsComposingActive"
    by (simp add: linphone_chat_room_compose_def Let_def u_def) (simp add: ex_chat_def)
  then show ?thesis using typing_ends [OF reach, of 0] by simp
qed

lemma history_pages_witness:
  "\<exists>ids v. linphone_chat_room_get_history_range ex_chat_env 0 0 0 ex_chat = (ids, v)
    \<and> map (\<lambda>i. cm_message (unreferenced (cw_msg v i))) ids = [Some ''hello'']"
proof -
  obtain ids v where r: "linphone_chat_room_get_history_range ex_chat_env 0 0 0 ex_chat = (ids, v)" by fastforce
  have env: "ch_sql ex_chat_env = ex_sql" "peer_uri ex_chat_env 0 ex_chat = ''sip:bob@example.org''" "sq_quote ex_sql = (\<lambda>s. s)"
    by (simp_all add: ex_chat_env_def peer_uri_def ex_friend_env_def ex_addr_def ex_chat_def ex_sql_def)
  have chat: "cw_db ex_chat = Some [ex_old_row]" "cr_transient (cw_room ex_chat 0) = []" by (simp_all add: ex_chat_def)
  have row: "room_rows ''sip:bob@example.org'' [ex_old_row] = [ex_old_row]" by (simp add: room_rows_def ex_old_row_def)
  have m: "map (\<lambda>i. unreferenced (cw_msg v i)) ids = [unreferenced (message_of_row ex_chat_env 0 ex_old_row ex_chat)]"
    using history_pages [of ex_chat_env "\<lambda>rows. rows" ex_chat "[ex_old_row]" 0 0 0 ids v] r
    by (simp add: env ex_sqlite chat table_ok_def transients_alive_def history_statement_def row message_shown_def)
  have "map (\<lambda>i. cm_message (unreferenced (cw_msg v i))) ids = map cm_message (map (\<lambda>i. unreferenced (cw_msg v i)) ids)"
    by (simp add: comp_def)
  then have "map (\<lambda>i. cm_message (unreferenced (cw_msg v i))) ids = [cm_message (unreferenced (message_of_row ex_chat_env 0 ex_old_row ex_chat))]"
    unfolding m by simp
  then show ?thesis using r by (simp add: unreferenced_def message_of_row_def Let_def ex_old_row_def)
qed

lemma ex_can_send: "can_send ex_chat_env 0 0 ''sip:me@example.org'' ''sip:me@example.org'' ex_chat"
proof -
  have "chat_call_dialog ex_chat_env cr = None" for cr by (simp add: chat_call_dialog_def ex_int)
  moreover have "linphone_core_find_best_identity ex_chat_env a = Some (Some ''sip:me@example.org'')" for a
    by (simp add: linphone_core_find_best_identity_def linphone_core_lookup_known_proxy_def ex_chat_env_def ex_friend_env_def
      ex_addr_def best_account_def)
  moreover have "\<not> linphone_core_lime_enabled ex_chat_env" by (simp add: linphone_core_lime_enabled_def ex_int)
  ultimately show ?thesis
    by (simp add: can_send_def) (simp add: ex_chat_def chat_message_blank_def ex_chat_env_def ex_friend_env_def ex_addr_def)
qed


end
