(* ===== verification/CallAbs.thy ===== *)
theory CallAbs
  imports CallEvents
begin

text \<open>
  The abstract state machine of the calls: which calls there are, which are listed, which one is
  current, their states and previous states, and what was announced of them.  \<open>ctl\<close> abstracts a
  core to it.  Everything media, SDP, ICE and ringing do is invisible there, and
  \<open>linphone_call_set_state\<close> is the abstract transition \<open>move\<close>.
\<close>

section \<open>The abstract machine\<close>

record ctl =
  a_next :: nat
  a_calls :: "nat list"
  a_current :: "nat option"
  a_state :: "nat \<Rightarrow> call_state"
  a_prev :: "nat \<Rightarrow> call_state"
  a_notes :: "(nat \<times> call_state) list"
  a_ended :: "nat list"

fun note_of :: "action \<Rightarrow> (nat \<times> call_state) list" where
  "note_of (NotifyCallState i s) = [(i, s)]"
| "note_of _ = []"

fun ended_of :: "action \<Rightarrow> nat list" where
  "ended_of (NotifyCallLog i) = [i]"
| "ended_of _ = []"

definition ctl :: "core \<Rightarrow> ctl" where
  "ctl w = \<lparr>a_next = lc_next w, a_calls = lc_calls w, a_current = lc_current_call w,
     a_state = (\<lambda>i. ca_state (lc_store w i)), a_prev = (\<lambda>i. ca_prevstate (lc_store w i)),
     a_notes = concat (map note_of (lc_trace w)), a_ended = concat (map ended_of (lc_trace w))\<rparr>"

text \<open>The end of a call.\<close>

definition finish :: "nat \<Rightarrow> ctl \<Rightarrow> ctl" where
  "finish i a = a\<lparr>a_ended := a_ended a @ [i], a_current := (if a_current a = Some i then None else a_current a),
     a_calls := remove1 i (a_calls a)\<rparr>"

definition move :: "nat \<Rightarrow> call_state \<Rightarrow> ctl \<Rightarrow> ctl" where
  "move i s a =
     (if a_state a i = s then a
      else (let b = a\<lparr>a_prev := (a_prev a)(i := a_state a i)\<rparr> in
        if call_over (a_state a i) \<and> s \<noteq> LinphoneCallReleased then b
        else (let
          b = (if s \<noteq> LinphoneCallRefered then b\<lparr>a_state := (a_state b)(i := s)\<rparr> else b);
          b = (if call_over s then finish i b else b)
        in b\<lparr>a_notes := a_notes b @ [(i, s)]\<rparr>)))"

section \<open>Routines the abstraction does not see\<close>

named_theorems ctl_simps \<open>routines that leave the abstraction alone\<close>
named_theorems keep_simps \<open>routines on a call that leave its states alone\<close>

text \<open>A function on calls that touches neither state.\<close>

definition keeps :: "(call \<Rightarrow> call) \<Rightarrow> bool" where
  "keeps f \<longleftrightarrow> (\<forall>c. ca_state (f c) = ca_state c \<and> ca_prevstate (f c) = ca_prevstate c)"

lemma keepsI: "(\<And>c. ca_state (f c) = ca_state c) \<Longrightarrow> (\<And>c. ca_prevstate (f c) = ca_prevstate c) \<Longrightarrow> keeps f"
  by (simp add: keeps_def)

lemma keepsD: "keeps f \<Longrightarrow> ca_state (f c) = ca_state c" "keeps f \<Longrightarrow> ca_prevstate (f c) = ca_prevstate c"
  by (simp_all add: keeps_def)

lemma ctl_upd [ctl_simps]: "keeps f \<Longrightarrow> ctl (upd i f w) = ctl w"
  by (auto simp: ctl_def fun_eq_iff keepsD)

lemma ctl_emit: "ctl (emit x w) = (ctl w)\<lparr>a_notes := a_notes (ctl w) @ note_of x, a_ended := a_ended (ctl w) @ ended_of x\<rparr>"
  by (simp add: ctl_def)

lemma ctl_emit_other [ctl_simps]: "note_of x = [] \<Longrightarrow> ended_of x = [] \<Longrightarrow> ctl (emit x w) = ctl w"
  by (simp add: ctl_def)

lemma ctl_fields [simp]:
  "a_next (ctl w) = lc_next w" "a_calls (ctl w) = lc_calls w" "a_current (ctl w) = lc_current_call w"
  "a_state (ctl w) i = ca_state (lc_store w i)" "a_prev (ctl w) i = ca_prevstate (lc_store w i)"
  by (simp_all add: ctl_def)

lemma ctl_ring [ctl_simps]:
  "ctl (w\<lparr>lc_ringstream := r\<rparr>) = ctl w" "ctl (w\<lparr>lc_dtmf_playing := d\<rparr>) = ctl w"
  "ctl (w\<lparr>lc_missed_calls := m\<rparr>) = ctl w" "ctl (w\<lparr>lc_call_logs := l\<rparr>) = ctl w"
  "ctl (w\<lparr>lc_tasks := t\<rparr>) = ctl w"
  by (simp_all add: ctl_def)

text \<open>The abstraction decides every state, so a routine it does not see changes none.\<close>

lemma same_ctl_state: "ctl w' = ctl w \<Longrightarrow> ca_state (lc_store w' i) = ca_state (lc_store w i)"
  by (metis ctl_fields(4))

lemma same_ctl_calls: "ctl w' = ctl w \<Longrightarrow> lc_calls w' = lc_calls w \<and> lc_next w' = lc_next w \<and> lc_current_call w' = lc_current_call w"
  by (metis ctl_fields(1,2,3))

subsection \<open>On one call\<close>

lemma keeps_fields [keep_simps]:
  "keeps (\<lambda>c. c\<lparr>ca_non_op_error := r\<rparr>)" "keeps (\<lambda>c. c\<lparr>ca_op := o1\<rparr>)" "keeps (\<lambda>c. c\<lparr>ca_ice_session := b\<rparr>)"
  "keeps (\<lambda>c. c\<lparr>ca_ringing_beep := b\<rparr>)" "keeps (\<lambda>c. c\<lparr>ca_log_status := st\<rparr>)" "keeps (\<lambda>c. c\<lparr>ca_dtmfs_timer := b\<rparr>)"
  "keeps (\<lambda>c. c\<lparr>ca_paused_by_app := b\<rparr>)" "keeps (\<lambda>c. c\<lparr>ca_was_automatically_paused := b\<rparr>)"
  "keeps (\<lambda>c. c\<lparr>ca_refer_pending := b\<rparr>)" "keeps (\<lambda>c. c\<lparr>ca_expect_media_in_ack := b\<rparr>)"
  "keeps (\<lambda>c. c\<lparr>ca_defer_update := b\<rparr>)" "keeps (\<lambda>c. c\<lparr>ca_ping_replied := b\<rparr>)" "keeps (\<lambda>c. c\<lparr>ca_ping_time := t\<rparr>)"
  "keeps (\<lambda>c. c\<lparr>ca_log_to := to\<rparr>)" "keeps (\<lambda>c. c\<lparr>ca_transfer_target := tt\<rparr>)" "keeps (\<lambda>c. c\<lparr>ca_transfer_state := s\<rparr>)"
  "keeps (\<lambda>c. c\<lparr>ca_referer := tt, ca_transfer_target := tt\<rparr>)"
  "keeps (\<lambda>c. c\<lparr>ca_ping_replied := b, ca_ping_op := b2\<rparr>)"
  "keeps (\<lambda>c. c\<lparr>ca_refer_to := rt, ca_refer_pending := b\<rparr>)"
  "keeps (\<lambda>c. c\<lparr>ca_expect_media_in_ack := b, ca_resultdesc := md\<rparr>)"
  "keeps (\<lambda>c. c\<lparr>ca_log_status := final_log_status (ca_non_op_error c) (ca_log_status c)\<rparr>)"
  by (simp_all add: keeps_def)

lemma keeps_if [keep_simps]: "keeps f \<Longrightarrow> keeps g \<Longrightarrow> keeps (if b then f else g)"
  by simp

lemma with_op_states [simp]: "ca_state (with_op f c) = ca_state c" "ca_prevstate (with_op f c) = ca_prevstate c"
  by (simp_all add: with_op_def Let_def split: option.split)

lemma write_localdesc_states [simp]:
  "ca_state (write_localdesc f c) = ca_state c" "ca_prevstate (write_localdesc f c) = ca_prevstate c"
  by (simp_all add: write_localdesc_def split: option.split)

lemma keeps_with_op [keep_simps]: "keeps (with_op f)" "keeps (write_localdesc g)"
  by (simp_all add: keeps_def)

lemma keeps_local [keep_simps]: "keeps set_local" "keeps clear_local" "keeps (get_final env)" "keeps unshare"
  by (simp_all add: keeps_def set_local_def clear_local_def get_final_def unshare_def)

lemma keeps_descriptions [keep_simps]:
  "keeps linphone_call_increment_local_media_description" "keeps (linphone_call_update_frozen_payloads md)"
  by (simp_all add: keeps_def linphone_call_increment_local_media_description_def
      linphone_call_update_frozen_payloads_def)

lemma keeps_remote_id [keep_simps]: "keeps linphone_call_update_remote_session_id_and_ver"
  by (simp add: keeps_def linphone_call_update_remote_session_id_and_ver_def split: option.split)

lemma keeps_biggest [keep_simps]: "keeps (set_biggestdesc md)" "keeps (set_streams av)"
  by (simp_all add: keeps_def set_biggestdesc_def set_streams_def)

lemma make_local_states [simp]:
  "ca_state (fst (linphone_call_make_local_media_description_with_params le c p)) = ca_state c"
  "ca_prevstate (fst (linphone_call_make_local_media_description_with_params le c p)) = ca_prevstate c"
  by (simp_all add: linphone_call_make_local_media_description_with_params_def Let_def split: option.split)

lemma keeps_make_local [keep_simps]: "keeps (make_local_with env p)"
  by (simp add: keeps_def make_local_with_def unshare_def)

lemma keeps_make_local_own [keep_simps]: "keeps (linphone_call_make_local_media_description env)"
  by (simp add: keeps_def linphone_call_make_local_media_description_def unshare_def split_beta)

lemma keeps_params [keep_simps]:
  "keeps (linphone_call_set_new_params p)" "keeps linphone_call_fix_call_parameters"
  "keeps (linphone_call_fill_media_multicast_addr a v)"
  by (simp_all add: keeps_def linphone_call_set_new_params_def linphone_call_fix_call_parameters_def
      linphone_call_fill_media_multicast_addr_def Let_def)

lemma keeps_compatible [keep_simps]: "keeps (linphone_call_set_compatible_incoming_call_parameters env md)"
  by (simp add: keeps_def linphone_call_set_compatible_incoming_call_parameters_def Let_def)

lemma keeps_accepted [keep_simps]: "keeps (accepted_params env ps)"
  by (simp add: keeps_def accepted_params_def linphone_call_set_new_params_def Let_def split: option.split)

lemma keeps_stun [keep_simps]: "keeps (run_stun_tests env)"
  by (simp add: keeps_def run_stun_tests_def split: option.split prod.split)

lemma keeps_give_up [keep_simps]: "keeps (give_up r)"
  by (cases r) (simp_all add: keeps_def)

lemma keeps_ice [keep_simps]: "keeps (\<lambda>c. if ca_ice_session c then write_localdesc f c else c)"
  by (simp add: keeps_def)

lemma keeps_start [keep_simps]:
  "keeps (\<lambda>c. (set_streams (g c) c)\<lparr>ca_current_params := h c, ca_all_muted := b, ca_playing_ringbacktone := b2, ca_up_bw := n\<rparr>)"
  "keeps (\<lambda>c. set_streams (g c) c)"
  by (simp_all add: keeps_def set_streams_def)

subsection \<open>On the core\<close>

lemma ctl_media [ctl_simps]:
  "ctl (notify_soundcard_usage env b w) = ctl w" "ctl (linphone_core_soundcard_hint_check env w) = ctl w"
  "ctl (linphone_core_stop_dtmf w) = ctl w" "ctl (stop_beep i w) = ctl w"
  "ctl (linphone_core_stop_ringing w) = ctl w" "ctl (linphone_core_stop_dtmf_stream w) = ctl w"
  "ctl (linphone_call_init_media_streams env i w) = ctl w" "ctl (linphone_call_stop_media_streams i w) = ctl w"
  "ctl (linphone_call_start_media_streams env i b b2 w) = ctl w"
  "ctl (linphone_call_free_media_resources i w) = ctl w"
proof -
  show n: "ctl (notify_soundcard_usage env b w) = ctl w" for b w
    by (simp add: notify_soundcard_usage_def ctl_simps)
  show "ctl (linphone_core_soundcard_hint_check env w) = ctl w"
    by (simp add: linphone_core_soundcard_hint_check_def n)
  show "ctl (linphone_core_stop_dtmf w) = ctl w"
    by (simp add: linphone_core_stop_dtmf_def ctl_simps)
  show b: "ctl (stop_beep i w) = ctl w" for i w
    by (simp add: stop_beep_def linphone_core_stop_dtmf_def ctl_simps keep_simps)
  show r: "ctl (linphone_core_stop_ringing w) = ctl w" for w
    by (auto simp: linphone_core_stop_ringing_def Let_def b ctl_simps split: option.splits)
  show "ctl (linphone_core_stop_dtmf_stream w) = ctl w"
    by (simp add: linphone_core_stop_dtmf_stream_def r)
  show "ctl (linphone_call_init_media_streams env i w) = ctl w"
    by (simp add: linphone_call_init_media_streams_def ctl_simps keep_simps)
  show s: "ctl (linphone_call_stop_media_streams i w) = ctl w"
    by (simp add: linphone_call_stop_media_streams_def Let_def ctl_simps keep_simps)
  show "ctl (linphone_call_start_media_streams env i b b2 w) = ctl w"
    by (simp add: linphone_call_start_media_streams_def Let_def ctl_simps keep_simps)
  show "ctl (linphone_call_free_media_resources i w) = ctl w"
    by (simp add: linphone_call_free_media_resources_def s ctl_simps keep_simps)
qed

lemma ctl_update_streams [ctl_simps]: "ctl (linphone_core_update_streams env i md w) = ctl w"
proof -
  have u: "ctl (update_running_streams i ch w) = ctl w" for ch w
    by (simp add: update_running_streams_def Let_def ctl_simps)
  have s: "ctl (start_updated_streams env i m w) = ctl w" for m w
    by (simp add: start_updated_streams_def Let_def ctl_simps keep_simps)
  show ?thesis
    by (simp add: linphone_core_update_streams_def Let_def u s ctl_simps keep_simps split: option.split)
qed

lemma ctl_sal [ctl_simps]:
  "ctl (sal_call_accept env i w) = ctl w" "ctl (sal_call_notify_ringing env i b w) = ctl w"
  "ctl (ask_final env i w) = ctl w" "ctl (linphone_call_create_op env i w) = ctl w"
  "ctl (linphone_core_notify_refer_state i j w) = ctl w" "ctl (linphone_call_set_transfer_state i s w) = ctl w"
  "ctl (fst (sal_call_update env i subject b w)) = ctl w" "ctl (fst (linphone_call_prepare_ice env i b w)) = ctl w"
  by (simp_all add: sal_call_accept_def sal_call_notify_ringing_def ask_final_def linphone_call_create_op_def
      linphone_core_notify_refer_state_def linphone_call_set_transfer_state_def sal_call_update_def
      linphone_call_prepare_ice_def Let_def ctl_simps keep_simps split: prod.split)

lemma ctl_sal_update: "sal_call_update env i subject b w = (w', err) \<Longrightarrow> ctl w' = ctl w"
  by (metis ctl_sal(7) fst_conv)

lemma ctl_prepare_ice: "linphone_call_prepare_ice env i b w = (w', result) \<Longrightarrow> ctl w' = ctl w"
  by (metis ctl_sal(8) fst_conv)

lemma ctl_released [ctl_simps]: "ctl (linphone_call_set_released env i w) = ctl w"
  by (simp add: linphone_call_set_released_def Let_def ctl_simps keep_simps)

lemma ctl_log_completed: "ctl (linphone_call_log_completed env i w) = (ctl w)\<lparr>a_ended := a_ended (ctl w) @ [i]\<rparr>"
  by (simp add: linphone_call_log_completed_def Let_def ctl_emit ctl_simps)

lemma ctl_terminated: "ctl (linphone_call_set_terminated env i w) = finish i (ctl w)"
proof -
  define v where "v = linphone_call_log_completed env i (linphone_call_free_media_resources i w)"
  have v: "ctl v = (ctl w)\<lparr>a_ended := a_ended (ctl w) @ [i]\<rparr>"
    by (simp add: v_def ctl_log_completed ctl_simps)
  define u where "u = (if lc_current_call v = Some i then v\<lparr>lc_current_call := None\<rparr> else v)"
  have u: "ctl u = (ctl v)\<lparr>a_current := (if a_current (ctl v) = Some i then None else a_current (ctl v))\<rparr>"
    by (auto simp: u_def ctl_def)
  have d: "ctl (linphone_core_del_call i u) = (ctl u)\<lparr>a_calls := remove1 i (a_calls (ctl u))\<rparr>"
    by (auto simp: linphone_core_del_call_def ctl_def remove1_idem)
  have "ctl (linphone_call_set_terminated env i w) = ctl (linphone_core_del_call i u)"
    by (simp add: linphone_call_set_terminated_def Let_def u_def v_def ctl_simps)
  then show ?thesis unfolding d u v by (simp add: finish_def)
qed

text \<open>The concrete transition is the abstract one.\<close>

lemma ctl_enter_state: "ctl (enter_state env i s w) = (if call_over s then finish i (ctl w) else ctl w)"
  by (simp add: enter_state_def ctl_terminated ctl_simps keep_simps)

lemma ctl_prev: "ctl (upd i (\<lambda>c. c\<lparr>ca_prevstate := s\<rparr>) w) = (ctl w)\<lparr>a_prev := (a_prev (ctl w))(i := s)\<rparr>"
  by (auto simp: ctl_def fun_eq_iff)

lemma ctl_state: "ctl (upd i (\<lambda>c. c\<lparr>ca_state := s\<rparr>) w) = (ctl w)\<lparr>a_state := (a_state (ctl w))(i := s)\<rparr>"
  by (auto simp: ctl_def fun_eq_iff)

lemma upd_eq: "upd i f w = upd i (\<lambda>_. f (lc_store w i)) w"
  by (simp add: upd_def)

lemma ctl_set_state: "ctl (linphone_call_set_state env i s w) = move i s (ctl w)"
proof (cases "ca_state (lc_store w i) = s")
  case False
  let ?p = "upd i (\<lambda>c. c\<lparr>ca_prevstate := ca_state c\<rparr>) w"
  have p: "ctl ?p = (ctl w)\<lparr>a_prev := (a_prev (ctl w))(i := ca_state (lc_store w i))\<rparr>"
    by (auto simp: ctl_def fun_eq_iff)
  show ?thesis
  proof (cases "call_over (ca_state (lc_store w i)) \<and> s \<noteq> LinphoneCallReleased")
    case True
    with False p show ?thesis by (simp add: linphone_call_set_state_def move_def Let_def)
  next
    case alive: False
    define q where "q = (if s \<noteq> LinphoneCallRefered then upd i (\<lambda>c. c\<lparr>ca_state := s\<rparr>) ?p else ?p)"
    have q: "ctl q = (if s \<noteq> LinphoneCallRefered then (ctl ?p)\<lparr>a_state := (a_state (ctl ?p))(i := s)\<rparr> else ctl ?p)"
      by (simp add: q_def ctl_state)
    define r where "r = emit (NotifyCallState i s) (let v = enter_state env i s q in
      if s \<noteq> LinphoneCallStreamsRunning then upd i (\<lambda>c. c\<lparr>ca_dtmfs_timer := False\<rparr>) v else v)"
    have r: "ctl r = (if call_over s then finish i (ctl q) else ctl q)
        \<lparr>a_notes := a_notes (if call_over s then finish i (ctl q) else ctl q) @ [(i, s)]\<rparr>"
      by (simp add: r_def ctl_emit ctl_enter_state ctl_simps keep_simps Let_def)
    have "ctl (linphone_call_set_state env i s w) = ctl r"
      using False alive
      by (cases "s = LinphoneCallReleased") (simp_all add: linphone_call_set_state_def Let_def q_def r_def ctl_simps)
    with False alive show ?thesis
      by (cases "s = LinphoneCallReleased") (simp_all add: r q p move_def Let_def)
  qed
qed (simp add: linphone_call_set_state_def move_def)

lemma state_set_state:
  "ca_state (lc_store (linphone_call_set_state env i s w) j) = a_state (move i s (ctl w)) j"
  by (metis ctl_fields(4) ctl_set_state)

end
