(* ===== verification/CallMachine.thy ===== *)
theory CallMachine
  imports CallAbs
begin

text \<open>
  The runs of the abstract machine.  \<open>evolves N\<close> composes its elementary changes: a listed or
  ended call moves to another state, the current call is dropped or set to a
  listed one, a call is created and listed while less than \<open>N\<close> are, or created and refused.
  \<open>ctl_ok N\<close> is what such runs keep.  The release of a call, which the signalling layer alone
  brings about, is treated apart.
\<close>

section \<open>Runs\<close>

definition call_dead :: "call_state \<Rightarrow> bool" where
  "call_dead s \<longleftrightarrow> call_over s \<or> s = LinphoneCallReleased"

text \<open>A call the core or the signalling layer may still act on.\<close>

definition usable :: "nat \<Rightarrow> ctl \<Rightarrow> bool" where
  "usable i a \<longleftrightarrow> i < a_next a \<and> (i \<in> set (a_calls a) \<or> call_over (a_state a i))"

definition create :: "bool \<Rightarrow> ctl \<Rightarrow> ctl" where
  "create listed a = a\<lparr>a_next := Suc (a_next a), a_calls := (if listed then a_calls a @ [a_next a] else a_calls a),
     a_state := (a_state a)(a_next a := LinphoneCallIdle), a_prev := (a_prev a)(a_next a := LinphoneCallIdle)\<rparr>"

inductive evolves :: "nat \<Rightarrow> ctl \<Rightarrow> ctl \<Rightarrow> bool" for N a where
  stay [simp, intro!]: "evolves N a a"
| moved: "evolves N a b \<Longrightarrow> usable i b \<Longrightarrow> s \<noteq> LinphoneCallReleased
    \<Longrightarrow> evolves N a (move i s b)"
| drop_current: "evolves N a b \<Longrightarrow> evolves N a (b\<lparr>a_current := None\<rparr>)"
| set_current: "evolves N a b \<Longrightarrow> i \<in> set (a_calls b) \<Longrightarrow> evolves N a (b\<lparr>a_current := Some i\<rparr>)"
| create: "evolves N a b \<Longrightarrow> listed \<longrightarrow> length (a_calls b) < N \<Longrightarrow> evolves N a (create listed b)"

section \<open>Transitions\<close>

lemma move_next [simp]: "a_next (move i s a) = a_next a"
  by (simp add: move_def finish_def Let_def)

lemma move_state: "a_state (move i s a) j =
    (if j = i \<and> \<not> (call_over (a_state a i) \<and> s \<noteq> LinphoneCallReleased) \<and> s \<noteq> LinphoneCallRefered then s else a_state a j)"
  by (auto simp: move_def finish_def Let_def)

lemma move_calls: "a_calls (move i s a) =
    (if call_over s \<and> \<not> call_over (a_state a i) then remove1 i (a_calls a) else a_calls a)"
  by (auto simp: move_def finish_def Let_def call_over_def)

lemma move_ended: "a_ended (move i s a) =
    (if call_over s \<and> \<not> call_over (a_state a i) then a_ended a @ [i] else a_ended a)"
  by (auto simp: move_def finish_def Let_def call_over_def)

lemma move_current: "a_current (move i s a) =
    (if call_over s \<and> \<not> call_over (a_state a i) \<and> a_current a = Some i then None else a_current a)"
  by (auto simp: move_def finish_def Let_def call_over_def)

lemma move_prev: "a_prev (move i s a) j =
    (if j = i \<and> a_state a i \<noteq> s then a_state a i else a_prev a j)"
  by (auto simp: move_def finish_def Let_def)

lemma call_over_simps [simp]: "call_over LinphoneCallEnd" "call_over LinphoneCallError"
    "\<not> call_over LinphoneCallIdle" "\<not> call_over LinphoneCallIncomingReceived"
    "\<not> call_over LinphoneCallOutgoingInit" "\<not> call_over LinphoneCallOutgoingProgress"
    "\<not> call_over LinphoneCallOutgoingRinging" "\<not> call_over LinphoneCallOutgoingEarlyMedia"
    "\<not> call_over LinphoneCallConnected" "\<not> call_over LinphoneCallStreamsRunning"
    "\<not> call_over LinphoneCallPausing" "\<not> call_over LinphoneCallPaused"
    "\<not> call_over LinphoneCallResuming" "\<not> call_over LinphoneCallRefered"
    "\<not> call_over LinphoneCallPausedByRemote" "\<not> call_over LinphoneCallUpdatedByRemote"
    "\<not> call_over LinphoneCallIncomingEarlyMedia" "\<not> call_over LinphoneCallUpdating"
    "\<not> call_over LinphoneCallReleased" "\<not> call_over LinphoneCallEarlyUpdatedByRemote"
    "\<not> call_over LinphoneCallEarlyUpdating"
  by (simp_all add: call_over_def)

section \<open>Progress\<close>

lemma move_usable: "usable i a \<Longrightarrow> s \<noteq> LinphoneCallReleased \<Longrightarrow> usable i (move j s a)"
  by (auto simp: usable_def move_calls move_state call_over_def split: if_splits)

lemma evolves_next: "evolves N a b \<Longrightarrow> a_next a \<le> a_next b"
  by (induction rule: evolves.induct) (auto simp: create_def)

lemma evolves_usable: "evolves N a b \<Longrightarrow> usable i a \<Longrightarrow> usable i b"
proof (induction rule: evolves.induct)
  case (moved b j s)
  then show ?case by (auto intro: move_usable)
qed (auto simp: usable_def create_def)

lemma evolves_trans: "evolves N b c \<Longrightarrow> evolves N a b \<Longrightarrow> evolves N a c"
proof (induction rule: evolves.induct)
  case (moved c i s)
  then show ?case by (auto intro: evolves.moved)
qed (auto intro: evolves.intros)

text \<open>A call that is over stays over, and announces nothing.\<close>

definition announced :: "nat \<Rightarrow> ctl \<Rightarrow> call_state list" where
  "announced i a = map snd (filter (\<lambda>n. fst n = i) (a_notes a))"

lemma move_notes: "a_notes (move i s a) =
    (if a_state a i = s \<or> call_over (a_state a i) \<and> s \<noteq> LinphoneCallReleased then a_notes a else a_notes a @ [(i, s)])"
  by (auto simp: move_def finish_def Let_def)

lemma move_announced: "announced j (move i s a) =
    (if j \<noteq> i \<or> a_state a i = s \<or> call_over (a_state a i) \<and> s \<noteq> LinphoneCallReleased then announced j a
     else announced j a @ [s])"
  by (simp add: announced_def move_notes)

lemma announced_frame [simp]: "announced i (a\<lparr>a_current := c\<rparr>) = announced i a" "announced i (create listed a) = announced i a"
  by (simp_all add: announced_def create_def)

lemma evolves_over:
  "evolves N a b \<Longrightarrow> i < a_next a \<Longrightarrow> call_over (a_state a i) \<Longrightarrow> a_state b i = a_state a i \<and> announced i b = announced i a"
proof (induction rule: evolves.induct)
  case (moved b j s)
  then show ?case by (auto simp: move_state move_announced)
next
  case (create b listed)
  then show ?case using evolves_next [OF create.hyps(1)] by (auto simp: create_def announced_def)
qed auto

section \<open>What is kept\<close>

definition ctl_ok :: "nat \<Rightarrow> ctl \<Rightarrow> bool" where
  "ctl_ok N a \<longleftrightarrow> distinct (a_calls a) \<and> length (a_calls a) \<le> N
     \<and> (\<forall>i \<in> set (a_calls a). i < a_next a \<and> \<not> call_dead (a_state a i))
     \<and> (\<forall>i. a_current a = Some i \<longrightarrow> i \<in> set (a_calls a))
     \<and> (\<forall>i < a_next a. \<not> call_dead (a_state a i) \<and> a_state a i \<noteq> LinphoneCallIdle \<longrightarrow> i \<in> set (a_calls a))
     \<and> (\<forall>i < a_next a. \<not> call_dead (a_state a i) \<longrightarrow> \<not> call_dead (a_prev a i))
     \<and> (\<forall>i < a_next a. count_list (a_ended a) i = (if call_dead (a_state a i) then 1 else 0))
     \<and> (\<forall>i \<in> set (a_ended a). i < a_next a)
     \<and> (\<forall>i < a_next a. a_state a i \<noteq> LinphoneCallReleased \<longrightarrow> a_prev a i \<noteq> LinphoneCallReleased)
     \<and> (\<forall>i \<ge> a_next a. a_state a i = LinphoneCallIdle)"

lemma ctl_okD:
  assumes "ctl_ok N a"
  shows "distinct (a_calls a)" "length (a_calls a) \<le> N" "i \<in> set (a_calls a) \<Longrightarrow> i < a_next a"
    "i \<in> set (a_calls a) \<Longrightarrow> \<not> call_dead (a_state a i)" "a_current a = Some i \<Longrightarrow> i \<in> set (a_calls a)"
    "i < a_next a \<Longrightarrow> \<not> call_dead (a_state a i) \<Longrightarrow> a_state a i \<noteq> LinphoneCallIdle \<Longrightarrow> i \<in> set (a_calls a)"
    "i < a_next a \<Longrightarrow> \<not> call_dead (a_state a i) \<Longrightarrow> \<not> call_dead (a_prev a i)"
    "i < a_next a \<Longrightarrow> count_list (a_ended a) i = (if call_dead (a_state a i) then 1 else 0)"
    "i \<in> set (a_ended a) \<Longrightarrow> i < a_next a"
    "i < a_next a \<Longrightarrow> a_state a i \<noteq> LinphoneCallReleased \<Longrightarrow> a_prev a i \<noteq> LinphoneCallReleased"
    "a_next a \<le> i \<Longrightarrow> a_state a i = LinphoneCallIdle"
  using assms unfolding ctl_ok_def by blast+

lemma ctl_okI:
  assumes "distinct (a_calls a)" "length (a_calls a) \<le> N"
    "\<And>i. i \<in> set (a_calls a) \<Longrightarrow> i < a_next a \<and> \<not> call_dead (a_state a i)"
    "\<And>i. a_current a = Some i \<Longrightarrow> i \<in> set (a_calls a)"
    "\<And>i. i < a_next a \<Longrightarrow> \<not> call_dead (a_state a i) \<Longrightarrow> a_state a i \<noteq> LinphoneCallIdle \<Longrightarrow> i \<in> set (a_calls a)"
    "\<And>i. i < a_next a \<Longrightarrow> \<not> call_dead (a_state a i) \<Longrightarrow> \<not> call_dead (a_prev a i)"
    "\<And>i. i < a_next a \<Longrightarrow> count_list (a_ended a) i = (if call_dead (a_state a i) then 1 else 0)"
    "\<And>i. i \<in> set (a_ended a) \<Longrightarrow> i < a_next a"
    "\<And>i. i < a_next a \<Longrightarrow> a_state a i \<noteq> LinphoneCallReleased \<Longrightarrow> a_prev a i \<noteq> LinphoneCallReleased"
    "\<And>i. a_next a \<le> i \<Longrightarrow> a_state a i = LinphoneCallIdle"
  shows "ctl_ok N a"
  using assms unfolding ctl_ok_def by blast

lemma count_list_append_single [simp]: "count_list (xs @ [x]) y = count_list xs y + (if x = y then 1 else 0)"
  by (induction xs) auto

text \<open>An applied transition of a call that is not over, to a state that is not one of the ends.\<close>

lemma move_alive_ok:
  assumes ok: "ctl_ok N a" and i: "i \<in> set (a_calls a)" and over: "\<not> call_over (a_state a i)" and s: "\<not> call_dead s"
  shows "ctl_ok N (move i s a)"
proof (rule ctl_okI)
  have s': "\<not> call_over s" using s by (simp add: call_dead_def)
  have i': "i < a_next a" "\<not> call_dead (a_state a i)" using ctl_okD(3,4) [OF ok i] by auto
  have st: "call_dead (a_state (move i s a) j) = call_dead (a_state a j)" for j
    using i' s over by (simp add: move_state)
  have idle: "a_state (move i s a) j \<noteq> LinphoneCallIdle \<Longrightarrow> j \<noteq> i \<Longrightarrow> a_state a j \<noteq> LinphoneCallIdle" for j
    by (simp add: move_state)
  have pv: "\<not> call_dead (a_prev a j) \<Longrightarrow> \<not> call_dead (a_prev (move i s a) j)" for j
    using i' by (simp add: move_prev)
  show "distinct (a_calls (move i s a))" "length (a_calls (move i s a)) \<le> N"
    using ctl_okD(1,2) [OF ok] s' by (simp_all add: move_calls)
  show "j < a_next (move i s a) \<and> \<not> call_dead (a_state (move i s a) j)" if "j \<in> set (a_calls (move i s a))" for j
    using that ctl_okD(3,4) [OF ok, of j] s' by (simp add: move_calls st)
  show "j \<in> set (a_calls (move i s a))" if "a_current (move i s a) = Some j" for j
    using that ctl_okD(5) [OF ok, of j] s' by (simp add: move_calls move_current)
  show "j \<in> set (a_calls (move i s a))" if "j < a_next (move i s a)" "\<not> call_dead (a_state (move i s a) j)"
      "a_state (move i s a) j \<noteq> LinphoneCallIdle" for j
    using that ctl_okD(6) [OF ok, of j] i s' idle [of j] by (cases "j = i") (simp_all add: move_calls st)
  show "\<not> call_dead (a_prev (move i s a) j)" if "j < a_next (move i s a)" "\<not> call_dead (a_state (move i s a) j)" for j
    using that ctl_okD(7) [OF ok, of j] pv by (simp add: st)
  show "count_list (a_ended (move i s a)) j = (if call_dead (a_state (move i s a) j) then 1 else 0)"
      if "j < a_next (move i s a)" for j
    using that ctl_okD(8) [OF ok, of j] s' by (simp add: move_ended st)
  show "j < a_next (move i s a)" if "j \<in> set (a_ended (move i s a))" for j
    using that ctl_okD(9) [OF ok, of j] s' by (simp add: move_ended)
  show "a_prev (move i s a) j \<noteq> LinphoneCallReleased" if "j < a_next (move i s a)"
      "a_state (move i s a) j \<noteq> LinphoneCallReleased" for j
    using that ctl_okD(10) [OF ok, of j] i' by (cases "j = i") (auto simp: move_prev move_state call_dead_def)
  show "a_state (move i s a) j = LinphoneCallIdle" if "a_next (move i s a) \<le> j" for j
    using that ctl_okD(11) [OF ok, of j] i' by (simp add: move_state)
qed

text \<open>The end of a call.\<close>

lemma move_end_ok:
  assumes ok: "ctl_ok N a" and i: "i \<in> set (a_calls a)" and over: "\<not> call_over (a_state a i)" and s: "call_over s"
  shows "ctl_ok N (move i s a)"
proof (rule ctl_okI)
  have i': "i < a_next a" "\<not> call_dead (a_state a i)" using ctl_okD(3,4) [OF ok i] by auto
  have sr: "s \<noteq> LinphoneCallRefered" using s by auto
  have st: "a_state (move i s a) j = (if j = i then s else a_state a j)" for j
    using over sr by (simp add: move_state)
  have calls: "a_calls (move i s a) = remove1 i (a_calls a)" using s over by (simp add: move_calls)
  have mem: "j \<in> set (a_calls (move i s a)) \<longleftrightarrow> j \<in> set (a_calls a) \<and> j \<noteq> i" for j
    using ctl_okD(1) [OF ok] by (simp add: calls)
  have dead: "call_dead s" using s by (simp add: call_dead_def)
  show "distinct (a_calls (move i s a))" "length (a_calls (move i s a)) \<le> N"
    using ctl_okD(1,2) [OF ok] i by (simp_all add: calls length_remove1)
  show "j < a_next (move i s a) \<and> \<not> call_dead (a_state (move i s a) j)" if "j \<in> set (a_calls (move i s a))" for j
    using that ctl_okD(3,4) [OF ok, of j] by (simp add: mem st)
  show "j \<in> set (a_calls (move i s a))" if "a_current (move i s a) = Some j" for j
    using that ctl_okD(5) [OF ok, of j] s over by (auto simp: mem move_current split: if_splits)
  show "j \<in> set (a_calls (move i s a))" if "j < a_next (move i s a)" "\<not> call_dead (a_state (move i s a) j)"
      "a_state (move i s a) j \<noteq> LinphoneCallIdle" for j
    using that ctl_okD(6) [OF ok, of j] dead by (cases "j = i") (simp_all add: mem st)
  show "\<not> call_dead (a_prev (move i s a) j)" if "j < a_next (move i s a)" "\<not> call_dead (a_state (move i s a) j)" for j
    using that ctl_okD(7) [OF ok, of j] dead by (cases "j = i") (simp_all add: move_prev st)
  show "count_list (a_ended (move i s a)) j = (if call_dead (a_state (move i s a) j) then 1 else 0)"
      if "j < a_next (move i s a)" for j
    using that ctl_okD(8) [OF ok, of j] s over dead i' by (cases "j = i") (simp_all add: move_ended st)
  show "j < a_next (move i s a)" if "j \<in> set (a_ended (move i s a))" for j
    using that ctl_okD(9) [OF ok, of j] s over i' by (auto simp: move_ended)
  show "a_prev (move i s a) j \<noteq> LinphoneCallReleased" if "j < a_next (move i s a)"
      "a_state (move i s a) j \<noteq> LinphoneCallReleased" for j
    using that ctl_okD(10) [OF ok, of j] i' by (cases "j = i") (auto simp: move_prev move_state call_dead_def)
  show "a_state (move i s a) j = LinphoneCallIdle" if "a_next (move i s a) \<le> j" for j
    using that ctl_okD(11) [OF ok, of j] i' by (simp add: move_state)
qed

text \<open>A transition a call that is over ignores.\<close>

lemma move_ignored: "call_over (a_state a i) \<Longrightarrow> s \<noteq> LinphoneCallReleased \<Longrightarrow>
    move i s a = (if a_state a i = s then a else a\<lparr>a_prev := (a_prev a)(i := a_state a i)\<rparr>)"
  by (simp add: move_def Let_def)

lemma frame_ok:
  assumes ok: "ctl_ok N a"
    and same: "a_next b = a_next a" "a_calls b = a_calls a" "a_state b = a_state a" "a_ended b = a_ended a"
    and current: "\<And>i. a_current b = Some i \<Longrightarrow> i \<in> set (a_calls a)"
    and prev: "\<And>i. a_prev b i = a_prev a i \<or> call_over (a_state a i) \<and> a_prev b i \<noteq> LinphoneCallReleased"
  shows "ctl_ok N b"
proof (rule ctl_okI, unfold same)
  show "distinct (a_calls a)" "length (a_calls a) \<le> N" using ctl_okD(1,2) [OF ok] .
  show "i < a_next a \<and> \<not> call_dead (a_state a i)" if "i \<in> set (a_calls a)" for i
    using ctl_okD(3,4) [OF ok that] ..
  show "\<not> call_dead (a_prev b i)" if "i < a_next a" "\<not> call_dead (a_state a i)" for i
    using prev [of i] that ctl_okD(7) [OF ok, of i] by (auto simp: call_dead_def)
  show "a_prev b i \<noteq> LinphoneCallReleased" if "i < a_next a" "a_state a i \<noteq> LinphoneCallReleased" for i
    using prev [of i] ctl_okD(10) [OF ok that] by auto
qed (fact current, erule (2) ctl_okD(6) [OF ok], erule ctl_okD(8) [OF ok], erule ctl_okD(9) [OF ok],
    erule ctl_okD(11) [OF ok])

lemma prev_ok: "ctl_ok N a \<Longrightarrow> call_over (a_state a i) \<Longrightarrow> p \<noteq> LinphoneCallReleased \<Longrightarrow> ctl_ok N (a\<lparr>a_prev := (a_prev a)(i := p)\<rparr>)"
  by (rule frame_ok, assumption) (auto dest: ctl_okD(5))

lemma move_ok:
  assumes ok: "ctl_ok N a" and u: "usable i a" and s: "s \<noteq> LinphoneCallReleased"
  shows "ctl_ok N (move i s a)"
proof (cases "call_over (a_state a i)")
  case True
  then have "a_state a i \<noteq> LinphoneCallReleased" by auto
  then show ?thesis using prev_ok [OF ok, of i] True s ok by (simp add: move_ignored)
next
  case False
  then have "i \<in> set (a_calls a)" using u by (simp add: usable_def)
  then show ?thesis using move_alive_ok [OF ok] move_end_ok [OF ok] False s by (auto simp: call_dead_def)
qed

lemma create_ok: "ctl_ok N a \<Longrightarrow> listed \<longrightarrow> length (a_calls a) < N \<Longrightarrow> ctl_ok N (create listed a)"
proof (rule ctl_okI)
  assume ok: "ctl_ok N a" and l: "listed \<longrightarrow> length (a_calls a) < N"
  note ok = ctl_okD [OF ok]
  have new: "a_next a \<notin> set (a_calls a)" "a_next a \<notin> set (a_ended a)" using ok(3,9) by blast+
  show "distinct (a_calls (create listed a))" using ok(1) new by (simp add: create_def)
  show "length (a_calls (create listed a)) \<le> N" using ok(2) l by (cases listed) (simp_all add: create_def)
  show "i \<in> set (a_calls (create listed a)) \<Longrightarrow> i < a_next (create listed a) \<and> \<not> call_dead (a_state (create listed a) i)" for i
    using ok(3,4) [of i] new by (auto simp: create_def call_dead_def split: if_splits)
  show "a_current (create listed a) = Some i \<Longrightarrow> i \<in> set (a_calls (create listed a))" for i
    using ok(5) [of i] by (auto simp: create_def)
  show "i \<in> set (a_calls (create listed a))" if "i < a_next (create listed a)"
      "\<not> call_dead (a_state (create listed a) i)" "a_state (create listed a) i \<noteq> LinphoneCallIdle" for i
    using that ok(6) [of i] by (auto simp: create_def split: if_splits)
  show "\<not> call_dead (a_prev (create listed a) i)" if "i < a_next (create listed a)"
      "\<not> call_dead (a_state (create listed a) i)" for i
    using that ok(7) [of i] by (auto simp: create_def call_dead_def split: if_splits)
  show "count_list (a_ended (create listed a)) i = (if call_dead (a_state (create listed a) i) then 1 else 0)"
    if "i < a_next (create listed a)" for i
    using that ok(8) [of i] new by (auto simp: create_def call_dead_def less_Suc_eq)
  show "i \<in> set (a_ended (create listed a)) \<Longrightarrow> i < a_next (create listed a)" for i
    using ok(9) [of i] by (auto simp: create_def)
  show "a_prev (create listed a) i \<noteq> LinphoneCallReleased" if "i < a_next (create listed a)"
      "a_state (create listed a) i \<noteq> LinphoneCallReleased" for i
    using that ok(10) [of i] by (auto simp: create_def less_Suc_eq)
  show "a_next (create listed a) \<le> i \<Longrightarrow> a_state (create listed a) i = LinphoneCallIdle" for i
    using ok(11) [of i] by (simp add: create_def)
qed

lemma evolves_ok: "evolves N a b \<Longrightarrow> ctl_ok N a \<Longrightarrow> ctl_ok N b"
proof (induction rule: evolves.induct)
  case (drop_current b)
  show ?case by (rule frame_ok [of N b]) (use drop_current in simp_all)
next
  case (set_current b i)
  show ?case by (rule frame_ok [of N b]) (use set_current in simp_all)
next
  case (moved b i s)
  then show ?case by (intro move_ok)
next
  case (create b listed)
  then show ?case by (intro create_ok)
qed

text \<open>The release of a call that is over.\<close>

lemma release_ok:
  assumes ok: "ctl_ok N a" and i: "i < a_next a" "call_over (a_state a i)"
  shows "ctl_ok N (move i LinphoneCallReleased a)"
proof -
  have out: "i \<notin> set (a_calls a)" using ctl_okD(4) [OF ok, of i] i by (auto simp: call_dead_def)
  have st: "call_dead (a_state (move i LinphoneCallReleased a) j) = call_dead (a_state a j)" for j
    using i by (simp add: move_state call_dead_def)
  have idle: "a_state (move i LinphoneCallReleased a) j = (if j = i then LinphoneCallReleased else a_state a j)" for j
    by (simp add: move_state)
  have same: "a_calls (move i LinphoneCallReleased a) = a_calls a" "a_ended (move i LinphoneCallReleased a) = a_ended a"
      "a_current (move i LinphoneCallReleased a) = a_current a"
    by (simp_all add: move_calls move_ended move_current)
  have pv: "a_prev (move i LinphoneCallReleased a) j = a_prev a j" if "\<not> call_dead (a_state a j)" for j
    using that i by (auto simp: move_prev call_dead_def)
  show ?thesis
  proof (rule ctl_okI, unfold same st move_next)
    show "distinct (a_calls a)" "length (a_calls a) \<le> N" using ctl_okD(1,2) [OF ok] .
    show "j < a_next a \<and> \<not> call_dead (a_state a j)" if "j \<in> set (a_calls a)" for j
      using that ctl_okD(3,4) [OF ok, of j] by simp
    show "j \<in> set (a_calls a)" if "a_current a = Some j" for j using that by (rule ctl_okD(5) [OF ok])
    show "j \<in> set (a_calls a)" if "j < a_next a" "\<not> call_dead (a_state a j)"
        "a_state (move i LinphoneCallReleased a) j \<noteq> LinphoneCallIdle" for j
      using that i ctl_okD(6) [OF ok, of j] by (cases "j = i") (simp_all add: idle call_dead_def)
    show "\<not> call_dead (a_prev (move i LinphoneCallReleased a) j)" if "j < a_next a" "\<not> call_dead (a_state a j)" for j
      using that ctl_okD(7) [OF ok, of j] by (simp add: pv)
    show "count_list (a_ended a) j = (if call_dead (a_state a j) then 1 else 0)" if "j < a_next a" for j
      using that by (rule ctl_okD(8) [OF ok])
    show "j < a_next a" if "j \<in> set (a_ended a)" for j using that by (rule ctl_okD(9) [OF ok])
    show "a_prev (move i LinphoneCallReleased a) j \<noteq> LinphoneCallReleased" if "j < a_next a"
        "a_state (move i LinphoneCallReleased a) j \<noteq> LinphoneCallReleased" for j
      using that ctl_okD(10) [OF ok, of j] by (cases "j = i") (auto simp: move_prev idle)
    show "a_state (move i LinphoneCallReleased a) j = LinphoneCallIdle" if "a_next a \<le> j" for j
      using that i ctl_okD(11) [OF ok, of j] by (simp add: idle)
  qed
qed

text \<open>A released call stays released, in silence.\<close>

lemma evolves_released:
  "evolves N a b \<Longrightarrow> ctl_ok N a \<Longrightarrow> i < a_next a \<Longrightarrow> a_state a i = LinphoneCallReleased \<Longrightarrow>
     a_state b i = LinphoneCallReleased \<and> announced i b = announced i a"
proof (induction rule: evolves.induct)
  case (moved b j s)
  have "j \<noteq> i"
  proof
    assume "j = i"
    then have "i \<in> set (a_calls b)" using moved by (auto simp: usable_def)
    then show False using ctl_okD(4) [OF evolves_ok [OF moved.hyps(1)], of i] moved by (simp add: call_dead_def)
  qed
  then show ?case using moved by (simp add: move_state move_announced)
next
  case (create b listed)
  then show ?case using evolves_next [OF create.hyps(1)] by (auto simp: create_def announced_def)
qed auto

section \<open>What the listeners know\<close>

text \<open>The last state announced of a call, a transfer request aside.\<close>

definition told :: "nat \<Rightarrow> ctl \<Rightarrow> call_state" where
  "told i a = last (LinphoneCallIdle # filter (\<lambda>s. s \<noteq> LinphoneCallRefered) (announced i a))"

definition told_ok :: "ctl \<Rightarrow> bool" where
  "told_ok a \<longleftrightarrow> (\<forall>i < a_next a. told i a = a_state a i) \<and> (\<forall>n \<in> set (a_notes a). fst n < a_next a)"

lemma move_told: "i < a_next a \<Longrightarrow> told_ok a \<Longrightarrow> told_ok (move i s a)"
  by (auto simp: told_ok_def told_def move_announced move_state move_notes)

lemma create_told:
  assumes "told_ok a"
  shows "told_ok (create listed a)"
proof -
  have "announced (a_next a) a = []" using assms by (auto simp: announced_def told_ok_def filter_empty_conv)
  then have "told i (create listed a) = a_state (create listed a) i" if "i < Suc (a_next a)" for i
    using that assms by (cases "i = a_next a") (simp_all add: told_def create_def announced_def told_ok_def)
  then show ?thesis using assms by (auto simp: told_ok_def create_def less_Suc_eq)
qed

lemma evolves_told: "evolves N a b \<Longrightarrow> told_ok a \<Longrightarrow> told_ok b"
proof (induction rule: evolves.induct)
  case (moved b i s)
  then show ?case by (intro move_told) (simp_all add: usable_def)
next
  case (create b listed)
  then show ?case by (intro create_told)
qed (simp_all add: told_ok_def told_def)

end
