(* ===== verification/CallRuns.thy ===== *)
theory CallRuns
  imports CallMachine
begin

text \<open>
  The routines of the core as runs of the abstract machine.  \<open>runs N I w w'\<close> says that, from a sane
  core whose calls \<open>I\<close> are usable, \<open>w'\<close> is reached by elementary changes; it composes along the
  \<open>let\<close> chains of the operations by the rules \<open>runs_intro\<close>.
\<close>

section \<open>Runs on cores\<close>

definition runs :: "nat \<Rightarrow> nat set \<Rightarrow> core \<Rightarrow> core \<Rightarrow> bool" where
  "runs N I w w' \<longleftrightarrow> (ctl_ok N (ctl w) \<longrightarrow> (\<forall>i \<in> I. usable i (ctl w)) \<longrightarrow> evolves N (ctl w) (ctl w'))"

named_theorems runs_intro \<open>composition of runs\<close>

lemma runs_refl [runs_intro]: "runs N I w w"
  by (simp add: runs_def)

lemma runs_trans: "runs N I v w \<Longrightarrow> runs N I u v \<Longrightarrow> runs N I u w"
  unfolding runs_def by (meson evolves_ok evolves_trans evolves_usable)

lemma runs_wlog:
  "(ctl_ok N (ctl w) \<Longrightarrow> (\<And>i. i \<in> I \<Longrightarrow> usable i (ctl w)) \<Longrightarrow> runs N I w w') \<Longrightarrow> runs N I w w'"
  unfolding runs_def by blast

lemma runs_mono: "runs N I w w' \<Longrightarrow> I \<subseteq> J \<Longrightarrow> runs N J w w'"
  unfolding runs_def by blast

text \<open>A run keeps what the composition asks.\<close>

lemma runs_ok: "runs N I w w' \<Longrightarrow> ctl_ok N (ctl w) \<Longrightarrow> \<forall>i \<in> I. usable i (ctl w) \<Longrightarrow> ctl_ok N (ctl w')"
  unfolding runs_def by (meson evolves_ok)

lemma runs_usable: "runs N I w w' \<Longrightarrow> ctl_ok N (ctl w) \<Longrightarrow> \<forall>i \<in> I. usable i (ctl w) \<Longrightarrow> usable j (ctl w) \<Longrightarrow> usable j (ctl w')"
  unfolding runs_def by (meson evolves_usable)

text \<open>A run that uses one more call, usable at its start.\<close>

lemma runs_more: "runs N (insert j I) v w \<Longrightarrow> runs N I u v \<Longrightarrow> usable j (ctl v) \<Longrightarrow> runs N I u w"
  unfolding runs_def by (metis evolves_ok evolves_trans evolves_usable insert_iff)

section \<open>The elementary changes\<close>

lemma runs_same: "ctl w' = ctl v \<Longrightarrow> runs N I w v \<Longrightarrow> runs N I w w'"
  by (simp add: runs_def)

lemma runs_set_state [runs_intro]:
  "i \<in> I \<Longrightarrow> s \<noteq> LinphoneCallReleased \<Longrightarrow> runs N I w v \<Longrightarrow> runs N I w (linphone_call_set_state env i s v)"
  unfolding runs_def ctl_set_state by (meson evolves.moved evolves_usable)

lemma runs_drop_current [runs_intro]: "runs N I w v \<Longrightarrow> runs N I w (v\<lparr>lc_current_call := None\<rparr>)"
proof -
  have "ctl (v\<lparr>lc_current_call := None\<rparr>) = (ctl v)\<lparr>a_current := None\<rparr>" by (simp add: ctl_def)
  then show "runs N I w v \<Longrightarrow> ?thesis" unfolding runs_def by (metis evolves.drop_current)
qed

lemma runs_set_current: "i \<in> set (lc_calls v) \<Longrightarrow> runs N I w v \<Longrightarrow> runs N I w (v\<lparr>lc_current_call := Some i\<rparr>)"
proof -
  have "ctl (v\<lparr>lc_current_call := Some i\<rparr>) = (ctl v)\<lparr>a_current := Some i\<rparr>" by (simp add: ctl_def)
  then show "i \<in> set (lc_calls v) \<Longrightarrow> runs N I w v \<Longrightarrow> ?thesis"
    unfolding runs_def by (metis evolves.set_current ctl_fields(2))
qed

text \<open>What the abstraction does not see.\<close>

lemma runs_invisible [runs_intro]:
  "runs N I w v \<Longrightarrow> keeps f \<Longrightarrow> runs N I w (upd i f v)"
  "runs N I w v \<Longrightarrow> note_of x = [] \<Longrightarrow> ended_of x = [] \<Longrightarrow> runs N I w (emit x v)"
  "runs N I w v \<Longrightarrow> runs N I w (v\<lparr>lc_ringstream := r\<rparr>)" "runs N I w v \<Longrightarrow> runs N I w (v\<lparr>lc_tasks := t\<rparr>)"
  "runs N I w v \<Longrightarrow> runs N I w (linphone_core_stop_ringing v)"
  "runs N I w v \<Longrightarrow> runs N I w (linphone_core_stop_dtmf_stream v)"
  "runs N I w v \<Longrightarrow> runs N I w (stop_beep i v)"
  "runs N I w v \<Longrightarrow> runs N I w (linphone_call_stop_media_streams i v)"
  "runs N I w v \<Longrightarrow> runs N I w (linphone_call_init_media_streams env i v)"
  "runs N I w v \<Longrightarrow> runs N I w (linphone_core_update_streams env i md v)"
  "runs N I w v \<Longrightarrow> runs N I w (sal_call_accept env i v)"
  "runs N I w v \<Longrightarrow> runs N I w (sal_call_notify_ringing env i b v)"
  "runs N I w v \<Longrightarrow> runs N I w (ask_final env i v)"
  "runs N I w v \<Longrightarrow> runs N I w (linphone_call_create_op env i v)"
  "runs N I w v \<Longrightarrow> runs N I w (linphone_core_notify_refer_state i j v)"
  "runs N I w v \<Longrightarrow> runs N I w (linphone_call_set_transfer_state i s v)"
  "runs N I w v \<Longrightarrow> runs N I w (fst (sal_call_update env i subject b v))"
  "runs N I w v \<Longrightarrow> runs N I w (fst (linphone_call_prepare_ice env i b v))"
  by (simp_all add: runs_def ctl_simps)

section \<open>Composition\<close>

lemma runs_if [runs_intro]:
  "(b \<Longrightarrow> runs N I w x) \<Longrightarrow> (\<not> b \<Longrightarrow> runs N I w y) \<Longrightarrow> runs N I w (if b then x else y)"
  by simp

lemma runs_option [runs_intro]:
  "(x = None \<Longrightarrow> runs N I w y) \<Longrightarrow> (\<And>a. x = Some a \<Longrightarrow> runs N I w (f a)) \<Longrightarrow> runs N I w (case x of None \<Rightarrow> y | Some a \<Rightarrow> f a)"
  by (cases x) simp_all

text \<open>The value of a \<open>let\<close> and of a pair is forgotten, but for the run to it.\<close>

lemma runs_let: "runs N I w e \<Longrightarrow> (\<And>v. runs N I w v \<Longrightarrow> runs N I w (f v)) \<Longrightarrow> runs N I w (Let e f)"
  by (simp add: Let_def)

lemma runs_let_value: "(\<And>x. runs N I w (f x)) \<Longrightarrow> runs N I w (Let e f)"
  by (simp add: Let_def)

lemma runs_pair: "runs N I w (fst p) \<Longrightarrow> (\<And>v x. runs N I w v \<Longrightarrow> runs N I w (f v x))
    \<Longrightarrow> runs N I w (case p of (v, x) \<Rightarrow> f v x)"
  by (cases p) simp

lemma runs_fst_pair [runs_intro]: "runs N I w v \<Longrightarrow> runs N I w (fst (v, x))"
  by simp

lemma runs_fst_if [runs_intro]:
  "(b \<Longrightarrow> runs N I w (fst x)) \<Longrightarrow> (\<not> b \<Longrightarrow> runs N I w (fst y)) \<Longrightarrow> runs N I w (fst (if b then x else y))"
  by simp

lemma fst_push: "fst (Let e f) = Let e (\<lambda>x. fst (f x))" "fst (if b then x else y) = (if b then fst x else fst y)"
  "fst (case p of (v, z) \<Rightarrow> g v z) = (case p of (v, z) \<Rightarrow> fst (g v z))"
  "fst (case q of None \<Rightarrow> x | Some a \<Rightarrow> h a) = (case q of None \<Rightarrow> fst x | Some a \<Rightarrow> fst (h a))"
  by (simp_all add: Let_def split: prod.split option.split)

lemma runs_fold:
  assumes "\<And>i w. i \<in> set is \<Longrightarrow> runs N (insert i I) w (f i w)" "\<forall>i \<in> set is. usable i (ctl w)"
  shows "runs N I w (fold f is w)"
  using assms
proof (induction "is" arbitrary: w)
  case (Cons i "is")
  have step: "runs N I w (f i w)"
    using Cons.prems(1) [of i w] Cons.prems(2) by (auto simp: runs_def)
  show ?case
  proof (rule runs_wlog)
    assume ok: "ctl_ok N (ctl w)" and u: "\<And>j. j \<in> I \<Longrightarrow> usable j (ctl w)"
    then have "\<forall>j \<in> set is. usable j (ctl (f i w))" using Cons.prems(2) runs_usable [OF step ok] by simp
    then have "runs N I (f i w) (fold f is (f i w))" using Cons.prems(1) by (intro Cons.IH) simp_all
    then show "runs N I w (fold f (i # is) w)" using step by (simp add: runs_trans)
  qed
qed (simp add: runs_refl)

text \<open>Every listed call is usable.\<close>

lemma listed_usable: "ctl_ok N (ctl w) \<Longrightarrow> i \<in> set (lc_calls w) \<Longrightarrow> usable i (ctl w)"
  using ctl_okD(3) [of N "ctl w" i] by (simp add: usable_def)

lemma alive_listed: "usable i (ctl w) \<Longrightarrow> \<not> call_over (ca_state (lc_store w i)) \<Longrightarrow> i \<in> set (lc_calls w)"
  by (simp add: usable_def)

lemma state_listed: "ctl_ok N (ctl w) \<Longrightarrow> \<not> call_dead (ca_state (lc_store w i)) \<Longrightarrow> ca_state (lc_store w i) \<noteq> LinphoneCallIdle
    \<Longrightarrow> i \<in> set (lc_calls w)"
  using ctl_okD(6,11) [of N "ctl w" i] by (cases "i < lc_next w") auto

text \<open>The previous state of a call can be restored.\<close>

lemma previous_not_released:
  assumes "ctl_ok N (ctl w)" "usable i (ctl w)"
  shows "ca_prevstate (lc_store w i) \<noteq> LinphoneCallReleased"
proof -
  have "a_state (ctl w) i \<noteq> LinphoneCallReleased" "i < a_next (ctl w)"
    using assms ctl_okD(4) [OF assms(1), of i] by (auto simp: usable_def call_dead_def)
  then show ?thesis using ctl_okD(10) [OF assms(1), of i] by simp
qed

lemma runs_previous:
  "i \<in> I \<Longrightarrow> s = ca_prevstate (lc_store w i) \<Longrightarrow>
     (s \<noteq> LinphoneCallReleased \<Longrightarrow> runs N I w w') \<Longrightarrow> runs N I w w'"
  by (rule runs_wlog) (simp add: previous_not_released)

lemma runs_restore:
  assumes "i \<in> I" "runs N I w v"
  shows "runs N I w (linphone_call_set_state env i (ca_prevstate (lc_store v i)) v)"
proof (rule runs_trans [OF _ assms(2)])
  show "runs N I v (linphone_call_set_state env i (ca_prevstate (lc_store v i)) v)"
    by (rule runs_previous [OF assms(1) refl]) (rule runs_set_state [OF assms(1) _ runs_refl])
qed

end
