(* ===== verification/CallInv.thy ===== *)
theory CallInv
  imports CallRuns
begin

text \<open>
  Every operation and every callback is a run of the abstract machine on the call it is about.
\<close>

lemmas runs_chain = runs_let runs_pair runs_let_value

section \<open>Operations\<close>

lemma runs_pause_internal [runs_intro]:
  assumes i: "i \<in> I" and v: "runs N I w v"
  shows "runs N I w (fst (pause_call_internal env i v))"
  unfolding pause_call_internal_def
  by (simp only: fst_push, intro runs_chain runs_intro v) (assumption | simp add: i keep_simps)+

lemma runs_pause [runs_intro]:
  assumes i: "i \<in> I" and v: "runs N I w v"
  shows "runs N I w (fst (linphone_core_pause_call env i v))"
  unfolding linphone_core_pause_call_def
  by (simp only: fst_push, intro runs_chain runs_intro v) (assumption | simp add: i keep_simps)+

lemma runs_preempt [runs_intro]:
  assumes v: "runs N I w v"
  shows "runs N I w (linphone_core_preempt_sound_resources env v)"
proof (rule runs_trans [OF _ v], rule runs_wlog)
  assume ok: "ctl_ok N (ctl v)"
  show "runs N I v (linphone_core_preempt_sound_resources env v)"
  proof (cases "lc_current_call v")
    case None
    then show ?thesis unfolding linphone_core_preempt_sound_resources_def
      by (simp only: option.case, intro runs_chain runs_intro)
  next
    case (Some i)
    then have "usable i (ctl v)" using ctl_okD(5) [OF ok, of i] by (intro listed_usable [OF ok]) simp
    moreover have "runs N (insert i I) v (linphone_core_preempt_sound_resources env v)"
      unfolding linphone_core_preempt_sound_resources_def
      by (simp only: Some option.case, intro runs_chain runs_intro) (assumption | simp)+
    ultimately show ?thesis by (blast intro: runs_more runs_refl)
  qed
qed

lemma runs_terminate [runs_intro]:
  assumes i: "i \<in> I" and v: "runs N I w v"
  shows "runs N I w (terminate_call env i v)"
  unfolding terminate_call_def by (intro runs_chain runs_intro v) (assumption | simp add: i keep_simps)+

lemma runs_abort [runs_intro]:
  assumes i: "i \<in> I" and v: "runs N I w v"
  shows "runs N I w (linphone_core_abort_call env i v)"
  unfolding linphone_core_abort_call_def by (intro runs_chain runs_intro v) (assumption | simp add: i keep_simps)+

lemma runs_redirect [runs_intro]:
  assumes i: "i \<in> I" and v: "runs N I w v"
  shows "runs N I w (fst (linphone_core_redirect_call env i v))"
  unfolding linphone_core_redirect_call_def
  by (simp only: fst_push, intro runs_chain runs_intro v) (assumption | simp add: i keep_simps)+

lemma runs_decline [runs_intro]:
  assumes i: "i \<in> I" and v: "runs N I w v"
  shows "runs N I w (fst (linphone_core_decline_call env i r v))"
  unfolding linphone_core_decline_call_def
  by (simp only: fst_push, intro runs_chain runs_intro v) (assumption | simp add: i keep_simps)+

lemma runs_terminate_one [runs_intro]:
  assumes i: "i \<in> I" and v: "runs N I w v"
  shows "runs N I w (fst (terminate_one env i v))"
  unfolding terminate_one_def
  by (cases "ca_state (lc_store v i)"; simp only: call_state.case; intro runs_chain runs_intro v) (assumption | simp add: i keep_simps)+

lemma runs_start_invite [runs_intro]:
  assumes i: "i \<in> I" and v: "runs N I w v"
  shows "runs N I w (linphone_core_start_invite env i v)"
  unfolding linphone_core_start_invite_def by (intro runs_chain runs_intro v) (assumption | simp add: i keep_simps)+

lemma runs_restart_invite [runs_intro]:
  assumes i: "i \<in> I" and v: "runs N I w v"
  shows "runs N I w (linphone_core_restart_invite env i v)"
  unfolding linphone_core_restart_invite_def by (intro runs_chain runs_intro v) (assumption | simp add: i keep_simps)+

lemma runs_proceed [runs_intro]:
  assumes i: "i \<in> I" and v: "runs N I w v"
  shows "runs N I w (linphone_core_proceed_with_invite_if_ready env i v)"
  unfolding linphone_core_proceed_with_invite_if_ready_def
  by (intro runs_chain runs_intro v) (assumption | simp add: i keep_simps)+

lemma runs_transfer [runs_intro]:
  assumes v: "runs N I w v"
  shows "runs N I w (fst (linphone_core_transfer_call env call url v))"
    "runs N I w (linphone_core_transfer_call_to_another j dest v)"
  unfolding linphone_core_transfer_call_def linphone_core_transfer_call_to_another_def fst_push
  by (intro runs_chain runs_intro v; simp)+

lemma runs_start_update [runs_intro]:
  assumes v: "runs N I w v"
  shows "runs N I w (fst (linphone_core_start_update_call env i v))"
  unfolding linphone_core_start_update_call_def
  by (simp only: fst_push, intro runs_chain runs_intro v) (assumption | simp add: keep_simps)+

lemma update_next_not_released: "update_next_state s = Some t \<Longrightarrow> t \<noteq> LinphoneCallReleased"
  by (auto simp: update_next_state_def split: if_splits)

lemma runs_update [runs_intro]:
  assumes i: "i \<in> I" and v: "runs N I w v"
  shows "runs N I w (fst (linphone_core_update_call env i params v))"
  unfolding linphone_core_update_call_def
  by (simp only: fst_push, intro runs_chain runs_intro v) (assumption | simp add: i keep_simps update_next_not_released)+

lemma runs_defer [runs_intro]:
  assumes v: "runs N I w v"
  shows "runs N I w (fst (linphone_core_defer_call_update i v))"
  unfolding linphone_core_defer_call_update_def
  by (simp only: fst_push, intro runs_chain runs_intro v) (assumption | simp add: keep_simps)+

lemma runs_start_accept_update [runs_intro]:
  assumes i: "i \<in> I" and s: "s \<noteq> LinphoneCallReleased" and v: "runs N I w v"
  shows "runs N I w (linphone_core_start_accept_call_update env i s v)"
  unfolding linphone_core_start_accept_call_update_def
  by (intro runs_chain runs_intro v) (assumption | simp add: i s keep_simps)+

lemma runs_accept_update_internal [runs_intro]:
  assumes i: "i \<in> I" and s: "s \<noteq> LinphoneCallReleased" and v: "runs N I w v"
  shows "runs N I w (accept_call_update_internal env i params s v)"
  unfolding accept_call_update_internal_def
  by (intro runs_chain runs_intro v) (assumption | simp add: i s keep_simps)+

text \<open>Restoring a previous state that is still that of the call.\<close>

lemma runs_then:
  assumes v: "runs N I w v" and f: "\<And>s. s = ca_prevstate (lc_store v i) \<Longrightarrow> s \<noteq> LinphoneCallReleased \<Longrightarrow> runs N I v (f s)"
    and i: "i \<in> I"
  shows "runs N I w (f (ca_prevstate (lc_store v i)))"
  by (rule runs_trans [OF _ v], rule runs_previous [OF i HOL.refl]) (rule f [OF HOL.refl])

lemma runs_accept_update [runs_intro]:
  assumes i: "i \<in> I" and v: "runs N I w v"
  shows "runs N I w (fst (linphone_core_accept_call_update env i params v))"
  unfolding linphone_core_accept_call_update_def fst_push
  by (rule runs_if, simp add: v, simp, rule runs_then [OF v _ i], intro runs_chain runs_intro) (simp_all add: i)

lemma runs_early_media [runs_intro]:
  assumes i: "i \<in> I" and v: "runs N I w v"
  shows "runs N I w (fst (linphone_core_accept_early_media_with_params env i params v))"
  unfolding linphone_core_accept_early_media_with_params_def
  by (simp only: fst_push, intro runs_chain runs_intro v) (assumption | simp add: i keep_simps)+

lemma runs_accept_with_params [runs_intro]:
  assumes v: "runs N I w v"
  shows "runs N I w (accept_with_params env i params v)"
  unfolding accept_with_params_def
  by (intro runs_chain runs_intro v) (assumption | simp add: keep_simps)+

section \<open>Calls listed and dropped\<close>

lemma ctl_drop_current: "ctl (w\<lparr>lc_current_call := None\<rparr>) = (ctl w)\<lparr>a_current := None\<rparr>"
  by (simp add: ctl_def)

definition pausable :: "call \<Rightarrow> bool" where
  "pausable c \<longleftrightarrow> (ca_state c = LinphoneCallStreamsRunning \<or> ca_state c = LinphoneCallPausedByRemote) \<and> pause_subject c \<noteq> None"

lemma ctl_pause_internal: "ctl (fst (pause_call_internal env i w)) =
    (if pausable (lc_store w i) then move i LinphoneCallPausing ((ctl w)\<lparr>a_current := None\<rparr>) else ctl w)"
  by (auto simp: pause_call_internal_def pausable_def fst_push Let_def ctl_simps keep_simps ctl_set_state
      ctl_drop_current)

lemma pause_internal_calls: "lc_calls (fst (pause_call_internal env i w)) = lc_calls w"
proof -
  have "a_calls (ctl (fst (pause_call_internal env i w))) = a_calls (ctl w)"
    unfolding ctl_pause_internal by (simp add: move_calls)
  then show ?thesis by simp
qed

lemma stop_ringing_calls: "lc_calls (linphone_core_stop_ringing w) = lc_calls w"
  by (metis ctl_media(5) ctl_fields(2))

lemma preempt_calls: "lc_calls (linphone_core_preempt_sound_resources env w) = lc_calls w"
  by (simp add: linphone_core_preempt_sound_resources_def Let_def stop_ringing_calls pause_internal_calls
      split: option.split)

lemma ctl_terminate: "ctl (terminate_call env i w) = move i LinphoneCallEnd (ctl w)"
  by (simp add: terminate_call_def Let_def ctl_set_state ctl_simps keep_simps)

lemma ctl_terminate_one: "ctl (fst (terminate_one env i w)) =
    (if ca_state (lc_store w i) = LinphoneCallReleased \<or> ca_state (lc_store w i) = LinphoneCallEnd then ctl w
     else move i LinphoneCallEnd (ctl w))"
  by (cases "ca_state (lc_store w i)")
    (simp_all add: terminate_one_def linphone_core_decline_call_def ctl_terminate ctl_simps keep_simps)

lemma terminate_one_keeps_listed:
  assumes "i \<noteq> j" "j \<in> set (lc_calls w)"
  shows "j \<in> set (lc_calls (fst (terminate_one env i w)))"
proof -
  have "j \<in> set (a_calls (ctl (fst (terminate_one env i w))))"
    unfolding ctl_terminate_one using assms by (simp add: move_calls)
  then show ?thesis by simp
qed

section \<open>Accepting\<close>

text \<open>The call an incoming one replaces is another one, and usable.\<close>

definition replaced :: "call_env \<Rightarrow> nat \<Rightarrow> nat set" where
  "replaced env i = {rc. ve_replaces env i = Some (Some rc)}"

definition replaceable :: "call_env \<Rightarrow> nat set \<Rightarrow> bool" where
  "replaceable env I \<longleftrightarrow> (\<forall>i. replaced env i \<subseteq> I - {i})"

lemma ctl_stop_beep: "lc_calls (stop_beep i w) = lc_calls w"
  by (metis ctl_media(4) ctl_fields(2))

lemma end_other_keeps_listed:
  assumes "i \<in> set (lc_calls w)"
  shows "i \<in> set (lc_calls (end_other_attempts env i w))"
proof -
  have "i \<in> set (lc_calls w) \<Longrightarrow> i \<in> set (lc_calls (fold (\<lambda>a w. if a \<noteq> i \<and> outgoing_pending (ca_state (lc_store w a))
        then fst (terminate_one env a w) else w) as w))" for as w
    by (induction as arbitrary: w) (simp_all add: terminate_one_keeps_listed)
  then show ?thesis using assms by (simp add: end_other_attempts_def)
qed

lemma make_way_keeps_listed:
  assumes i: "i \<in> set (lc_calls w)" and r: "i \<notin> replaced env i"
  shows "i \<in> set (lc_calls (make_way_for env i w))"
proof -
  have "i \<in> set (lc_calls v) \<Longrightarrow> i \<in> set (lc_calls (case ve_replaces env i of
        Some (Some rc) \<Rightarrow> fst (terminate_one env rc v) | _ \<Rightarrow> v))" for v
    using r by (auto simp: replaced_def split: option.split intro: terminate_one_keeps_listed)
  then show ?thesis
    unfolding make_way_for_def Let_def ctl_stop_beep
    by (simp only: if_distrib [where f = lc_calls] stop_ringing_calls preempt_calls if_cancel
        end_other_keeps_listed [OF i])
qed

lemma runs_end_other: "runs N I w (end_other_attempts env i w)"
proof (rule runs_wlog)
  assume ok: "ctl_ok N (ctl w)"
  show "runs N I w (end_other_attempts env i w)"
    unfolding end_other_attempts_def
    by (rule runs_fold; (intro ballI listed_usable [OF ok])?) (intro runs_intro, simp_all add: runs_intro)
qed

lemma runs_make_way:
  assumes "replaced env i \<subseteq> I"
  shows "runs N I (end_other_attempts env i w) (make_way_for env i w)"
  unfolding make_way_for_def Let_def [of "end_other_attempts env i w"]
  by (intro runs_chain runs_intro) (use assms in \<open>auto simp: replaced_def\<close>)

lemma ctl_accept_with_params: "ctl (accept_with_params env i params w) = ctl w"
  by (simp add: accept_with_params_def Let_def ctl_simps keep_simps split: option.split)

text \<open>The core when the call has been accepted on the signalling layer, and the rest.\<close>

definition accept_ready :: "call_env \<Rightarrow> nat \<Rightarrow> call_params option \<Rightarrow> core \<Rightarrow> core" where
  "accept_ready env i params w = (let v = make_way_for env i w in
     sal_call_accept env i (upd i linphone_call_update_remote_session_id_and_ver
       (case params of None \<Rightarrow> v | Some p \<Rightarrow> accept_with_params env i p v)))"

lemma accept_one_ready: "accept_one env i params w = (let
       u = accept_ready env i params w;
       x = ask_final env i (linphone_call_set_state env i LinphoneCallConnected (u\<lparr>lc_current_call := Some i\<rparr>))
     in case final_of i x of
        Some new_md \<Rightarrow> linphone_call_set_state env i LinphoneCallStreamsRunning
          (upd i linphone_call_fix_call_parameters (linphone_core_update_streams env i (Some new_md) x))
      | None \<Rightarrow> upd i (\<lambda>c. c\<lparr>ca_expect_media_in_ack := True\<rparr>) x)"
  unfolding accept_one_def accept_ready_def Let_def ..

lemma accept_ready:
  assumes i: "i \<in> set (lc_calls w)" and r: "replaced env i \<subseteq> I - {i}"
  shows "i \<in> set (lc_calls (accept_ready env i params w))"
    "runs N I (end_other_attempts env i w) (accept_ready env i params w)"
proof -
  have u: "ctl (accept_ready env i params w) = ctl (make_way_for env i w)"
    by (simp add: accept_ready_def Let_def ctl_simps keep_simps ctl_accept_with_params split: option.split)
  have "i \<in> set (lc_calls (make_way_for env i w))" using make_way_keeps_listed [OF i] r by auto
  then show "i \<in> set (lc_calls (accept_ready env i params w))" using same_ctl_calls [OF u] by simp
  show "runs N I (end_other_attempts env i w) (accept_ready env i params w)"
    by (rule runs_same [OF u]) (use r in \<open>intro runs_make_way, auto\<close>)
qed

lemma runs_accept_one:
  assumes i: "i \<in> I" "i \<in> set (lc_calls w)" and r: "replaceable env I"
  shows "runs N I (end_other_attempts env i w) (accept_one env i params w)"
proof -
  have r: "replaced env i \<subseteq> I - {i}" using r by (simp add: replaceable_def)
  define u where "u = accept_ready env i params w"
  have run: "runs N I (end_other_attempts env i w) (u\<lparr>lc_current_call := Some i\<rparr>)"
    unfolding u_def by (intro runs_set_current accept_ready [OF i(2) r])
  show ?thesis
    unfolding accept_one_ready u_def [symmetric] Let_def [of u]
    by (intro runs_chain runs_intro run) (assumption | simp add: i keep_simps)+
qed

lemma runs_accept_call [runs_intro]:
  assumes i: "\<And>i. call = Some i \<Longrightarrow> i \<in> I"
    and r: "replaceable env I" and v: "runs N I w v"
  shows "runs N I w (fst (linphone_core_accept_call_with_params env call params v))"
proof (rule runs_trans [OF _ v], rule runs_wlog)
  assume ok: "ctl_ok N (ctl v)" and u: "\<And>i. i \<in> I \<Longrightarrow> usable i (ctl v)"
  have one: "runs N I v (accept_one env j params v)" if "j \<in> set (lc_calls v)" for j
  proof (rule runs_more [OF _ runs_refl listed_usable [OF ok that]])
    show "runs N (insert j I) v (accept_one env j params v)"
      using r that by (intro runs_trans [OF runs_accept_one runs_end_other]) (auto simp: replaceable_def)
  qed
  have alive: "j \<in> set (lc_calls v)" if "call = Some j" "ca_state (lc_store v j) = LinphoneCallIncomingReceived
      \<or> ca_state (lc_store v j) = LinphoneCallIncomingEarlyMedia" for j
    using alive_listed [OF u [OF i [OF that(1)]]] that(2) by (auto simp: call_over_def)
  have single: "hd (lc_calls v) \<in> set (lc_calls v)" if "length (lc_calls v) = 1"
    using that by (cases "lc_calls v") simp_all
  show "runs N I v (fst (linphone_core_accept_call_with_params env call params v))"
    unfolding linphone_core_accept_call_with_params_def fst_push
    using alive single by (cases call) (auto intro: one runs_refl)
qed

section \<open>New calls\<close>

lemma runs_notify_incoming:
  assumes i: "i \<in> I" "i \<in> set (lc_calls v)" and r: "replaceable env I" and v: "runs N I w v"
  shows "runs N I w (linphone_core_notify_incoming_call env i v)"
  unfolding linphone_core_notify_incoming_call_def
  by (intro runs_chain runs_intro runs_set_current v) (assumption | simp add: i keep_simps | rule r | use i in blast)+

lemma new_call_idle [simp]:
  "ca_state (linphone_call_new_outgoing env w to p) = LinphoneCallIdle"
  "ca_prevstate (linphone_call_new_outgoing env w to p) = LinphoneCallIdle"
  by (simp_all add: linphone_call_new_outgoing_def linphone_call_init_common_def call_zero_def Let_def
      run_stun_tests_def linphone_call_fill_media_multicast_addr_def split: option.split prod.split)

lemma with_op_fold_states: "ca_state (fst (fold (receive_multicast f) is st)) = ca_state (fst st)"
  "ca_prevstate (fst (fold (receive_multicast f) is st)) = ca_prevstate (fst st)"
  by (induction "is" arbitrary: st) (simp_all add: receive_multicast_def Let_def split: prod.split)

lemma offered_states: "ca_state (offered_parameters env c) = ca_state c"
  "ca_prevstate (offered_parameters env c) = ca_prevstate c"
  by (simp_all add: offered_parameters_def Let_def split_beta with_op_fold_states
      linphone_call_set_compatible_incoming_call_parameters_def split: option.split)

lemma new_incoming_idle [simp]:
  "ca_state (linphone_call_new_incoming env w to h) = LinphoneCallIdle"
  "ca_prevstate (linphone_call_new_incoming env w to h) = LinphoneCallIdle"
  by (simp_all add: linphone_call_new_incoming_def linphone_call_init_common_def call_zero_def Let_def offered_states
      split: prod.split)

lemma ctl_alloc: "ca_state c = LinphoneCallIdle \<Longrightarrow> ca_prevstate c = LinphoneCallIdle \<Longrightarrow>
    ctl (fst (alloc c w)) = create False (ctl w)"
  by (simp add: alloc_def Let_def ctl_def create_def fun_eq_iff)

lemma alloc_number: "snd (alloc c w) = lc_next w"
  by (simp add: alloc_def Let_def)

lemma ctl_add_call:
  assumes "ctl v = create False (ctl w)" "linphone_core_can_we_add_call env v"
  shows "ctl (fst (linphone_core_add_call env (lc_next w) v)) = create True (ctl w)"
proof -
  have soundcard: "ctl (if lc_calls v = [] then notify_soundcard_usage env True v else v) = ctl v"
    by (simp add: ctl_simps)
  have "ctl (x\<lparr>lc_calls := lc_calls x @ [lc_next w]\<rparr>) = create True (ctl w)" if "ctl x = ctl v" for x
  proof -
    have "ctl (x\<lparr>lc_calls := lc_calls x @ [lc_next w]\<rparr>) = (ctl x)\<lparr>a_calls := a_calls (ctl x) @ [lc_next w]\<rparr>"
      by (simp add: ctl_def)
    then show ?thesis by (simp add: that assms(1) create_def)
  qed
  from this [OF soundcard] assms(2) show ?thesis by (simp add: linphone_core_add_call_def Let_def)
qed

lemma create_calls [simp]: "a_calls (create listed a) = (if listed then a_calls a @ [a_next a] else a_calls a)"
  by (simp add: create_def)

lemma runs_created: "runs N I w v \<Longrightarrow> length (lc_calls v) < N \<Longrightarrow> ctl x = create listed (ctl v) \<Longrightarrow> runs N I w x"
  unfolding runs_def using evolves.create by (metis ctl_fields(2))

lemma created_listed: "ctl x = create True (ctl v) \<Longrightarrow> lc_next v \<in> set (lc_calls x)"
  by (metis create_calls ctl_fields(1,2) in_set_conv_decomp)

lemma created_usable: "ctl x = create True (ctl v) \<Longrightarrow> usable (lc_next v) (ctl x)"
  by (simp add: usable_def create_def)

text \<open>An invitation.\<close>

lemma runs_invite [runs_intro]:
  assumes n: "ve_max_calls env = N" and v: "runs N I w v"
  shows "runs N I w (fst (linphone_core_invite_address_with_params env to p v))"
proof -
  define a where "a = linphone_core_preempt_sound_resources env v"
  have a: "runs N I w a" unfolding a_def by (intro runs_intro v)
  show ?thesis
  proof (cases "linphone_core_can_we_add_call env a")
    case False
    then show ?thesis using a by (simp add: linphone_core_invite_address_with_params_def Let_def a_def)
  next
    case True
    define b where "b = fst (alloc (linphone_call_new_outgoing env a to (invite_params env to p)) a)"
    have b: "ctl b = create False (ctl a)" unfolding b_def by (rule ctl_alloc) simp_all
    have can: "linphone_core_can_we_add_call env b"
      using True arg_cong [OF b, of a_calls] by (simp add: linphone_core_can_we_add_call_def)
    define x where "x = fst (linphone_core_add_call env (lc_next a) b)"
    have added: "linphone_core_add_call env (lc_next a) b = (x, True)"
      using can by (simp add: x_def linphone_core_add_call_def Let_def)
    have x: "ctl x = create True (ctl a)" unfolding x_def by (rule ctl_add_call [OF b can])
    have allocated: "alloc (linphone_call_new_outgoing env a to (invite_params env to p)) a = (b, lc_next a)"
      by (simp add: b_def alloc_def Let_def)
    have "runs N I w x"
      using True n by (intro runs_created [OF a _ x]) (simp add: linphone_core_can_we_add_call_def)
    then show ?thesis
    proof (rule runs_more [OF _ _ created_usable [OF x], rotated])
      show "runs N (insert (lc_next a) I) x (fst (linphone_core_invite_address_with_params env to p v))"
        unfolding linphone_core_invite_address_with_params_def a_def [symmetric] Let_def [of a] if_P [OF True]
          if_not_P [OF not_not [THEN iffD2, OF True]] allocated prod.case added bool.case fst_push
        by (intro runs_chain runs_intro runs_set_current created_listed [OF x]) (assumption | simp add: keep_simps)+
    qed
  qed
qed

lemma runs_invite_url [runs_intro]:
  "ve_max_calls env = N \<Longrightarrow> runs N I w v \<Longrightarrow> runs N I w (fst (linphone_core_invite_with_params env url p v))"
  unfolding linphone_core_invite_with_params_def fst_push by (intro runs_chain runs_intro) simp_all

lemma runs_refered [runs_intro]:
  assumes n: "ve_max_calls env = N" and i: "i \<in> I" and v: "runs N I w v"
  shows "runs N I w (fst (linphone_core_start_refered_call env i params v))"
  unfolding linphone_core_start_refered_call_def
  by (simp only: fst_push option.case_distrib [where h = fst], intro runs_chain runs_intro v)
    (assumption | simp add: n i keep_simps | intro runs_chain runs_intro)+

lemma runs_resources: "ctl (new_incoming_resources env i w) = ctl w"
  by (simp add: new_incoming_resources_def Let_def ctl_simps keep_simps)

lemma runs_received:
  assumes n: "ve_max_calls env = N" and r: "replaceable env I"
    and old: "\<And>i rc. rc \<in> replaced env i \<Longrightarrow> rc < lc_next w"
  shows "runs N I w (call_received env presence caller to h w)"
proof (cases "presence = None \<and> linphone_core_can_we_add_call env w
    \<and> \<not> (case caller of Some same \<Rightarrow> list_ex same (lc_calls w) | None \<Rightarrow> False)")
  case False
  then show ?thesis
    unfolding call_received_def
    by (cases presence) (auto intro: runs_intro split: option.split)
next
  case True
  define i where "i = lc_next w"
  define b where "b = fst (alloc (linphone_call_new_incoming env w to h) w)"
  have b: "ctl b = create False (ctl w)" unfolding b_def by (rule ctl_alloc) simp_all
  have allocated: "alloc (linphone_call_new_incoming env w to h) w = (b, i)"
    by (simp add: b_def i_def alloc_def Let_def)
  define c where "c = ask_final env i (upd i set_local (upd i (linphone_call_make_local_media_description env)
      (new_incoming_resources env i b)))"
  have c: "ctl c = create False (ctl w)" by (simp add: c_def ctl_simps keep_simps runs_resources b)
  have can: "linphone_core_can_we_add_call env c"
    using True arg_cong [OF c, of a_calls] by (simp add: linphone_core_can_we_add_call_def)
  define x where "x = fst (linphone_core_add_call env i c)"
  have x: "ctl x = create True (ctl w)" unfolding x_def i_def by (rule ctl_add_call [OF c can])
  have len: "length (lc_calls w) < N" using True n by (simp add: linphone_core_can_we_add_call_def)
  have eq: "call_received env presence caller to h w =
      (if (case final_of i c of None \<Rightarrow> False
           | Some md \<Rightarrow> sal_media_description_empty md \<or> linphone_core_incompatible_security env md)
       then upd i (\<lambda>c. c\<lparr>ca_op := None\<rparr>) (emit (SalCallDecline i SalReasonNotAcceptable) c)
       else if ve_use_ice env \<and> ca_ice_session (lc_store x i) then x else linphone_core_notify_incoming_call env i x)"
    using True unfolding call_received_def by (simp add: allocated Let_def c_def x_def)
  have refused: "runs N I w (upd i (\<lambda>c. c\<lparr>ca_op := None\<rparr>) (emit (SalCallDecline i SalReasonNotAcceptable) c))"
    by (intro runs_created [OF runs_refl len, of _ False]) (simp add: ctl_simps keep_simps c)
  have listed: "runs N I w x" by (rule runs_created [OF runs_refl len x])
  have "i \<notin> replaced env j" for j using old [of i j] by (auto simp: i_def)
  then have "replaceable env (insert i I)" using r by (auto simp: replaceable_def)
  then have "runs N (insert i I) x (linphone_core_notify_incoming_call env i x)"
    using created_listed [OF x] by (intro runs_notify_incoming runs_refl) (simp_all add: i_def)
  then have "runs N I w (linphone_core_notify_incoming_call env i x)"
    using listed created_usable [OF x] unfolding i_def by (rule runs_more)
  then show ?thesis unfolding eq using refused listed by simp
qed

section \<open>Callbacks\<close>

lemma runs_remote_ring [runs_intro]: "runs N I w v \<Longrightarrow> runs N I w (start_remote_ring env v)"
  unfolding start_remote_ring_def by (intro runs_chain runs_intro) simp_all

lemma runs_ringing:
  assumes i: "i \<in> I" and v: "runs N I w v"
  shows "runs N I w (call_ringing env i v)"
  unfolding call_ringing_def by (intro runs_chain runs_intro v) (assumption | simp add: i keep_simps)+

lemma runs_transition:
  assumes i: "i \<in> I" and v: "runs N I w v"
  shows "runs N I w (fst (accepted_transition env i v))"
  unfolding accepted_transition_def
  by (simp only: fst_push, intro runs_chain runs_intro runs_restore v) (assumption | simp add: i keep_simps)+

lemma runs_without_media:
  assumes i: "i \<in> I" and v: "runs N I w v"
  shows "runs N I w (accepted_without_media env i v)"
  unfolding accepted_without_media_def Let_def
  by (intro runs_chain runs_intro runs_restore v) (assumption | simp add: i keep_simps)+

lemma update_streams_calls: "lc_calls (linphone_core_update_streams env i md w) = lc_calls w"
  by (metis ctl_update_streams ctl_fields(2))

lemma runs_with_media:
  assumes n: "ve_max_calls env = N" and i: "i \<in> I" "i \<in> set (lc_calls w)"
  shows "runs N I w (accepted_with_media env i update_state md w)"
  unfolding accepted_with_media_def Let_def
  by (intro runs_chain runs_intro runs_set_current) (assumption | simp add: n i keep_simps update_streams_calls)+

lemma set_state_calls: "\<not> call_over s \<Longrightarrow> lc_calls (linphone_call_set_state env i s w) = lc_calls w"
  by (metis ctl_fields(2) ctl_set_state move_calls)

lemma transition_calls:
  assumes "ctl_ok N (ctl w)" "i \<in> set (lc_calls w)"
  shows "lc_calls (fst (accepted_transition env i w)) = lc_calls w"
proof -
  have "\<not> call_dead (a_prev (ctl w) i)"
    using assms ctl_okD(3,4) [OF assms(1), of i] by (intro ctl_okD(7) [OF assms(1)]) simp_all
  then have "\<not> call_over (ca_prevstate (lc_store w i))" by (simp add: call_dead_def)
  moreover have "lc_calls (linphone_core_notify_refer_state r j v) = lc_calls v" for r j v
    by (metis ctl_sal(5) ctl_fields(2))
  ultimately show ?thesis
    by (auto simp: accepted_transition_def fst_push Let_def set_state_calls call_over_def split: option.split)
qed

lemma runs_accepted:
  assumes n: "ve_max_calls env = N" and i: "i \<in> I" and listed: "i \<in> set (lc_calls w)"
  shows "runs N I w (call_accepted env i w)"
proof (rule runs_wlog)
  assume ok: "ctl_ok N (ctl w)"
  define v where "v = ask_final env i (if ca_ice_session (lc_store w i) \<and> remote_media (lc_store w i) \<noteq> None
      then upd i (\<lambda>c. c\<lparr>ca_ice_session := ve_ice_kept env i\<rparr>) w else w)"
  have v: "ctl v = ctl w" by (simp add: v_def ctl_simps keep_simps)
  have run: "runs N I w v" by (rule runs_same [OF v runs_refl])
  obtain u update_state where u: "accepted_transition env i v = (u, update_state)" by fastforce
  have "runs N I v u" using runs_transition [OF i runs_refl, of N v env] by (simp add: u)
  then have run: "runs N I w u" using run by (rule runs_trans)
  have "i \<in> set (lc_calls u)"
    using transition_calls [of N v i env] ok listed same_ctl_calls [OF v] by (simp add: u v)
  then have media: "runs N I u (accepted_with_media env i update_state m u)" for m
    by (rule runs_with_media [OF n i])
  have eq: "call_accepted env i w = (case usable_final env (effective_final i (final_of i v) u) of
      Some m \<Rightarrow> accepted_with_media env i update_state m u | None \<Rightarrow> accepted_without_media env i u)"
    unfolding call_accepted_def Let_def v_def [symmetric] u prod.case ..
  have "runs N I u (call_accepted env i w)"
    unfolding eq by (intro runs_option media runs_without_media [OF i runs_refl])
  then show "runs N I w (call_accepted env i w)" using run by (rule runs_trans)
qed

lemma runs_ack:
  assumes i: "i \<in> I" and v: "runs N I w v"
  shows "runs N I w (call_ack env i v)"
  unfolding call_ack_def by (intro runs_chain runs_intro v) (assumption | simp add: i keep_simps)+

lemma runs_check_update [runs_intro]:
  assumes v: "runs N I w v"
  shows "runs N I w (fst (check_update env i is_update v))"
  unfolding check_update_def
  by (simp only: fst_push, intro runs_chain runs_intro v) (assumption | simp add: keep_simps)+

lemma runs_expect [runs_intro]: "runs N I w v \<Longrightarrow> runs N I w (expect_answer_in_ack no_sdp i v)"
  unfolding expect_answer_in_ack_def by (intro runs_chain runs_intro) (simp_all add: keep_simps)

text \<open>The state to return to is the previous or the present one.\<close>

lemma runs_accept_previous:
  assumes i: "i \<in> I" and v: "runs N I w v"
  shows "runs N I w (accept_call_update_internal env i params (ca_prevstate (lc_store v i)) v)"
  by (rule runs_then [OF v _ i]) (intro runs_intro i)

lemma runs_accept_present:
  assumes i: "i \<in> I" and v: "runs N I w v"
  shows "runs N I w (accept_call_update_internal env i params (ca_state (lc_store v i)) v)"
proof (rule runs_trans [OF _ v], rule runs_wlog)
  assume ok: "ctl_ok N (ctl v)" and u: "\<And>i. i \<in> I \<Longrightarrow> usable i (ctl v)"
  have "ca_state (lc_store v i) \<noteq> LinphoneCallReleased"
    using u [OF i] ctl_okD(4) [OF ok, of i] by (auto simp: usable_def call_dead_def)
  then show "runs N I v (accept_call_update_internal env i params (ca_state (lc_store v i)) v)"
    by (intro runs_intro i)
qed

lemmas runs_accept_states = runs_accept_previous runs_accept_present

lemma runs_updated_by_remote [runs_intro]:
  assumes i: "i \<in> I" and v: "runs N I w v"
  shows "runs N I w (call_updated_by_remote env i is_update v)"
  unfolding call_updated_by_remote_def
  by (intro runs_chain runs_accept_states runs_intro v) (assumption | simp add: i keep_simps)+

lemma runs_resumed [runs_intro]:
  assumes i: "i \<in> I" and v: "runs N I w v"
  shows "runs N I w (call_resumed env i v)" "runs N I w (call_paused_by_remote env i v)"
  unfolding call_resumed_def call_paused_by_remote_def
  by (intro runs_chain runs_intro v; simp add: i keep_simps)+

lemma runs_updating [runs_intro]:
  assumes i: "i \<in> I" and v: "runs N I w v"
  shows "runs N I w (call_updating env i is_update v)"
  unfolding call_updating_def by (intro runs_chain runs_intro v) (assumption | simp add: i keep_simps)+

lemma runs_terminated:
  assumes n: "ve_max_calls env = N" and i: "i \<in> I" and v: "runs N I w v"
  shows "runs N I w (call_terminated env i v)"
  unfolding call_terminated_def by (intro runs_chain runs_intro v) (assumption | simp add: n i keep_simps)+

lemma runs_fail [runs_intro]:
  assumes i: "i \<in> I" and v: "runs N I w v"
  shows "runs N I w (fail_call env i r v)"
  unfolding fail_call_def Let_def
  by (intro runs_restore runs_chain runs_intro v) (assumption | simp add: i keep_simps)+

lemma runs_failure:
  assumes i: "i \<in> I" and v: "runs N I w v"
  shows "runs N I w (call_failure env i r v)"
  unfolding call_failure_def Let_def
  by (intro runs_restore runs_chain runs_intro v) (assumption | simp add: i keep_simps)+

lemma runs_refer:
  assumes n: "ve_max_calls env = N" and i: "\<And>i. call = Some i \<Longrightarrow> i \<in> I" and v: "runs N I w v"
  shows "runs N I w (refer_received env call referto v)"
  unfolding refer_received_def by (intro runs_chain runs_intro v) (assumption | simp add: n i keep_simps)+

lemma runs_ping:
  assumes i: "i \<in> I" and v: "runs N I w v"
  shows "runs N I w (ping_reply env i v)"
  unfolding ping_reply_def by (intro runs_chain runs_intro v) (assumption | simp add: i keep_simps)+

text \<open>The core when the resumption is about to be sent, and the rest.\<close>

definition resume_ready :: "call_env \<Rightarrow> nat \<Rightarrow> core \<Rightarrow> core" where
  "resume_ready env i w = (let
     a = (if \<not> cp_in_conference (ca_params (lc_store w i)) then linphone_core_preempt_sound_resources env w else w)
   in upd i (write_localdesc (\<lambda>md. sal_media_description_set_dir md SalStreamSendRecv))
      (upd i (if ve_sdp_200_ack env then clear_local else set_local)
        (upd i (linphone_call_make_local_media_description env)
          (upd i (\<lambda>c. c\<lparr>ca_was_automatically_paused := False\<rparr>) a))))"

definition resume_sent :: "call_env \<Rightarrow> nat \<Rightarrow> core \<times> int \<Rightarrow> core" where
  "resume_sent env i p = (case p of (w, err) \<Rightarrow> if err \<noteq> 0 then w
     else (let w = linphone_call_set_state env i LinphoneCallResuming w;
            w = (if \<not> cp_in_conference (ca_params (lc_store w i)) then w\<lparr>lc_current_call := Some i\<rparr> else w)
          in if ve_sdp_200_ack env then upd i set_local w else w))"

lemma resume_shape: "fst (linphone_core_resume_call env i w) = w \<or>
    ca_state (lc_store w i) = LinphoneCallPaused \<and> (\<exists>subject. fst (linphone_core_resume_call env i w) =
      resume_sent env i (sal_call_update env i subject False (resume_ready env i w)))"
proof (cases "ca_state (lc_store w i) = LinphoneCallPaused
    \<and> (cp_in_conference (ca_params (lc_store w i)) \<or> \<not> linphone_core_sound_resources_locked w)")
  case True
  define b where "b = resume_ready env i w"
  have "\<exists>subject. linphone_core_resume_call env i w = (case sal_call_update env i subject False b of (w, err) \<Rightarrow>
      if err \<noteq> 0 then (w, -1)
      else (let w = linphone_call_set_state env i LinphoneCallResuming w;
              w = (if \<not> cp_in_conference (ca_params (lc_store w i)) then w\<lparr>lc_current_call := Some i\<rparr> else w)
            in (if ve_sdp_200_ack env then upd i set_local w else w, 0)))"
    using True unfolding linphone_core_resume_call_def b_def resume_ready_def Let_def by auto
  then obtain subject where "linphone_core_resume_call env i w = (case sal_call_update env i subject False b of (w, err) \<Rightarrow>
      if err \<noteq> 0 then (w, -1)
      else (let w = linphone_call_set_state env i LinphoneCallResuming w;
              w = (if \<not> cp_in_conference (ca_params (lc_store w i)) then w\<lparr>lc_current_call := Some i\<rparr> else w)
            in (if ve_sdp_200_ack env then upd i set_local w else w, 0)))"
    by blast
  then have "fst (linphone_core_resume_call env i w) = resume_sent env i (sal_call_update env i subject False b)"
    unfolding resume_sent_def by (simp only: fst_push fst_conv)
  then show ?thesis using True unfolding b_def by blast
next
  case False
  then show ?thesis
    unfolding linphone_core_resume_call_def Let_def by (cases "ca_state (lc_store w i) = LinphoneCallPaused") simp_all
qed

lemma ctl_resume_ready: "ctl (resume_ready env i w) =
    ctl (if \<not> cp_in_conference (ca_params (lc_store w i)) then linphone_core_preempt_sound_resources env w else w)"
  by (simp add: resume_ready_def Let_def ctl_simps keep_simps)

lemma runs_resume:
  assumes i: "i \<in> I" and v: "runs N I w v"
  shows "runs N I w (fst (linphone_core_resume_call env i v))"
proof (rule runs_trans [OF _ v], rule runs_wlog)
  assume ok: "ctl_ok N (ctl v)"
  have ready: "runs N I v (resume_ready env i v)"
    by (rule runs_same [OF ctl_resume_ready]) (auto intro: runs_intro)
  have calls: "lc_calls (resume_ready env i v) = lc_calls v"
    using same_ctl_calls [OF ctl_resume_ready [of env i v]] preempt_calls by simp
  have "runs N I v (resume_sent env i (sal_call_update env i subject False (resume_ready env i v)))"
    if paused: "ca_state (lc_store v i) = LinphoneCallPaused" for subject
  proof -
    have listed: "i \<in> set (lc_calls v)" using paused by (intro state_listed [OF ok]) (simp_all add: call_dead_def)
    obtain c err where c: "sal_call_update env i subject False (resume_ready env i v) = (c, err)" by fastforce
    have "runs N I v c" "lc_calls c = lc_calls v"
      using runs_same [OF ctl_sal_update [OF c] ready] same_ctl_calls [OF ctl_sal_update [OF c]] calls by simp_all
    then show ?thesis
      unfolding resume_sent_def c prod.case Let_def
      by (intro runs_chain runs_intro runs_set_current) (simp_all add: i keep_simps set_state_calls listed)
  qed
  then show "runs N I v (fst (linphone_core_resume_call env i v))"
    using resume_shape [of env i v] by (auto intro: runs_refl)
qed

lemma runs_gathered:
  assumes n: "ve_max_calls env = N" and i: "i \<in> I" and r: "replaceable env I" and v: "runs N I w v"
  shows "runs N I w (ice_gathering_finished env i gathered v)"
proof (rule runs_trans [OF _ v], rule runs_wlog)
  assume "ctl_ok N (ctl v)" and u: "\<And>i. i \<in> I \<Longrightarrow> usable i (ctl v)"
  define a where "a = (case gathered of
      Some ping_time \<Rightarrow> if ping_time \<ge> 0 then upd i (\<lambda>c. c\<lparr>ca_ping_time := ping_time\<rparr>) v else v
    | None \<Rightarrow> upd i (\<lambda>c. c\<lparr>ca_ice_session := False\<rparr>) v)"
  have a: "ctl a = ctl v" by (simp add: a_def ctl_simps keep_simps split: option.split)
  have run: "runs N I v a" by (rule runs_same [OF a runs_refl])
  define b where "b = upd i set_local
      (upd i (\<lambda>c. if ca_ice_session c then write_localdesc (le_ice (ve_local env)) c else c) a)"
  have b: "ctl b = ctl a" by (simp add: b_def ctl_simps keep_simps)
  have idle: "i \<in> set (lc_calls b)" if "ca_state (lc_store a i) = LinphoneCallIdle"
    using that alive_listed [OF u [OF i]] same_ctl_calls [OF b] same_ctl_calls [OF a] same_ctl_state [OF a] by simp
  show "runs N I v (ice_gathering_finished env i gathered v)"
    unfolding ice_gathering_finished_def Let_def a_def [symmetric] b_def [symmetric]
    by (intro runs_if runs_intro runs_restore runs_then [OF run _ i] runs_notify_incoming runs_same [OF b] run)
      (assumption | simp add: i n idle r)+
qed

lemma runs_losing_pairs:
  assumes i: "i \<in> I" and v: "runs N I w v"
  shows "runs N I w (ice_losing_pairs_completed env i v)"
  unfolding ice_losing_pairs_completed_def
  by (intro runs_if runs_then [OF v _ i] runs_intro i v) simp_all

lemma runs_ice_restart:
  assumes i: "i \<in> I" and v: "runs N I w v"
  shows "runs N I w (ice_restart_needed env i v)"
  unfolding ice_restart_needed_def by (intro runs_intro i v)

lemma runs_ice_processed:
  assumes i: "i \<in> I" and v: "runs N I w v"
  shows "runs N I w (ice_processing_finished env i r v)"
  unfolding ice_processing_finished_def by (intro runs_chain runs_if runs_intro i v)

lemma runs_terminate_subject [runs_intro]:
  "i \<in> I \<Longrightarrow> runs N I w v \<Longrightarrow> runs N I w (fst (linphone_core_terminate_call env (Some i) v))"
  by (simp add: linphone_core_terminate_call_def runs_terminate_one)

lemma runs_notify_refer:
  assumes i: "i \<in> I" and v: "runs N I w v"
  shows "runs N I w (notify_refer env i status v)"
  unfolding notify_refer_def by (intro runs_chain runs_if runs_intro i v)

section \<open>The main loop\<close>

lemma runs_background:
  assumes i: "i \<in> I" and v: "runs N I w v"
  shows "runs N I w (linphone_call_background_tasks env t i v)"
  unfolding linphone_call_background_tasks_def linphone_core_disconnected_def
  by (intro runs_intro i v) simp_all

lemma runs_start_delayed:
  assumes i: "i \<in> I" and v: "runs N I w v"
  shows "runs N I w (start_delayed_call env t i v)"
  unfolding start_delayed_call_def by (intro runs_intro i v) (simp_all add: keep_simps)

lemma runs_decline_overdue:
  assumes i: "i \<in> I" and v: "runs N I w v"
  shows "runs N I w (decline_overdue_call env t i v)"
  unfolding decline_overdue_call_def Let_def by (intro runs_intro i v) (simp_all add: keeps_def)

lemma runs_end_overlong:
  assumes i: "i \<in> I" and v: "runs N I w v"
  shows "runs N I w (end_overlong_call env t i v)"
  unfolding end_overlong_call_def by (intro runs_intro i v)

lemma runs_iterate_call:
  assumes i: "i \<in> I" and v: "runs N I w v"
  shows "runs N I w (iterate_call env t i v)"
  unfolding iterate_call_def
  by (intro runs_end_overlong runs_decline_overdue runs_start_delayed runs_background i v)

lemma runs_iterate: "runs N I w (iterate_calls env t w)"
proof (rule runs_wlog)
  assume ok: "ctl_ok N (ctl w)"
  show "runs N I w (iterate_calls env t w)"
    unfolding iterate_calls_def
    by (rule runs_fold; (intro ballI listed_usable [OF ok])?) (intro runs_iterate_call runs_refl, simp_all)
qed

end
