(* ===== verification/CallSteps.thy ===== *)
theory CallSteps
  imports CallInv
begin

text \<open>
  The core under the events of the application, of the signalling layer and of ICE:
  \<open>core_step\<close> handles one event, \<open>core_reachable\<close> is the closure from a core without calls.  An
  event is allowed when the calls it names are known to the core and usable: the application holds
  the calls it was told of, an operation reports on the call it belongs to.  Answers come for
  calls that are not over (\<open>call_process_response\<close> drops them while the operation terminates), and
  the release of an operation after the end of its call.
\<close>

section \<open>Events\<close>

fun subjects :: "event \<Rightarrow> nat set" where
  "subjects (Accept call params) = set_option call"
| "subjects (AcceptEarlyMedia i params) = {i}"
| "subjects (Terminate call) = set_option call"
| "subjects (Decline i reason) = {i}"
| "subjects (Redirect i) = {i}"
| "subjects (Pause i) = {i}"
| "subjects (Resume i) = {i}"
| "subjects (Update i params) = {i}"
| "subjects (DeferUpdate i) = {i}"
| "subjects (AcceptUpdate i params) = {i}"
| "subjects (Transfer call url) = set_option call"
| "subjects (TransferToAnother i dest) = {i, dest}"
| "subjects (Provisional i sdp) = {i}"
| "subjects (Answered i sdp) = {i}"
| "subjects (UpdateAnswered i) = {i}"
| "subjects (Ack i sdp) = {i}"
| "subjects (Request i is_update sdp) = {i}"
| "subjects (Bye i) = {i}"
| "subjects (Failure i reason) = {i}"
| "subjects (ReleasedByStack i) = {i}"
| "subjects (ReferTo call referto) = set_option call"
| "subjects (PingReply i) = {i}"
| "subjects (IceGathered i gathered) = {i}"
| "subjects (IceLosingPairs i) = {i}"
| "subjects (IceRestart i) = {i}"
| "subjects (IceProcessed i r) = {i}"
| "subjects (NotifyRefer i status) = {i}"
| "subjects _ = {}"

fun timely :: "event \<Rightarrow> core \<Rightarrow> bool" where
  "timely (Answered i sdp) w = (\<not> call_over (ca_state (lc_store w i)))"
| "timely (UpdateAnswered i) w = (\<not> call_over (ca_state (lc_store w i)))"
| "timely (ReleasedByStack i) w = call_over (ca_state (lc_store w i))"
| "timely _ w = True"

definition allowed :: "nat \<Rightarrow> call_env \<Rightarrow> event \<Rightarrow> core \<Rightarrow> bool" where
  "allowed N env ev w \<longleftrightarrow> ve_max_calls env = N \<and> (\<forall>i \<in> subjects ev. usable i (ctl w)) \<and> timely ev w
     \<and> (\<forall>i. \<forall>rc \<in> replaced env i. rc \<noteq> i \<and> usable rc (ctl w))"

section \<open>Steps\<close>

inductive core_step :: "nat \<Rightarrow> core \<Rightarrow> core \<Rightarrow> bool" for N where
  event: "allowed N env ev w \<Longrightarrow> core_step N w (handle env ev w)"

inductive_cases core_stepE: "core_step N w w'"

definition core_init :: "core" where
  "core_init = \<lparr>lc_store = (\<lambda>_. call_zero LinphoneCallOutgoing []), lc_next = 0, lc_calls = [], lc_current_call = None,
     lc_ringstream = False, lc_dtmf_playing = False, lc_missed_calls = 0, lc_call_logs = [], lc_tasks = [],
     lc_trace = []\<rparr>"

inductive core_reachable :: "nat \<Rightarrow> core \<Rightarrow> bool" for N where
  init: "core_reachable N core_init"
| step: "core_reachable N w \<Longrightarrow> core_step N w w' \<Longrightarrow> core_reachable N w'"

section \<open>An event is a run\<close>

definition involved :: "call_env \<Rightarrow> event \<Rightarrow> nat set" where
  "involved env ev = subjects ev \<union> (\<Union>i. replaced env i)"

lemma involved_usable: "allowed N env ev w \<Longrightarrow> i \<in> involved env ev \<Longrightarrow> usable i (ctl w)"
  by (auto simp: allowed_def involved_def)

lemma involved_replaceable: "allowed N env ev w \<Longrightarrow> replaceable env (involved env ev)"
  by (auto simp: allowed_def involved_def replaceable_def)

lemma runs_pause_all: "runs N I w (linphone_core_pause_all_calls env w)"
proof (rule runs_wlog)
  assume ok: "ctl_ok N (ctl w)"
  show "runs N I w (linphone_core_pause_all_calls env w)"
    unfolding linphone_core_pause_all_calls_def
    by (rule runs_fold; (intro ballI listed_usable [OF ok])?) (intro runs_intro, simp_all add: runs_intro)
qed

lemma runs_terminate_all: "runs N I w (linphone_core_terminate_all_calls env w)"
proof (rule runs_wlog)
  assume ok: "ctl_ok N (ctl w)"
  show "runs N I w (linphone_core_terminate_all_calls env w)"
    unfolding linphone_core_terminate_all_calls_def
    by (rule runs_fold; (intro ballI listed_usable [OF ok])?) (intro runs_intro, simp_all add: runs_intro)
qed

lemma runs_terminate_call:
  assumes i: "\<And>i. call = Some i \<Longrightarrow> i \<in> I"
  shows "runs N I w (fst (linphone_core_terminate_call env call w))"
proof (rule runs_wlog)
  assume ok: "ctl_ok N (ctl w)"
  have "runs N I w (fst (terminate_one env (hd (lc_calls w)) w))" if "length (lc_calls w) = 1"
  proof (rule runs_more [OF _ runs_refl])
    show "runs N (insert (hd (lc_calls w)) I) w (fst (terminate_one env (hd (lc_calls w)) w))"
      by (intro runs_intro) simp
    show "usable (hd (lc_calls w)) (ctl w)" using that by (cases "lc_calls w") (simp_all add: listed_usable [OF ok])
  qed
  then show "runs N I w (fst (linphone_core_terminate_call env call w))"
    unfolding linphone_core_terminate_call_def fst_push using i by (cases call) (auto intro: runs_intro)
qed

lemma runs_task: "runs N I w (run_task env w)"
proof (cases "lc_tasks w")
  case (Cons i rest)
  define v where "v = w\<lparr>lc_tasks := rest\<rparr>"
  have v: "ctl v = ctl w" by (simp add: v_def ctl_simps)
  have "runs N I v (fst (resume_call_after_failed_transfer env i v))"
  proof (rule runs_wlog)
    assume ok: "ctl_ok N (ctl v)"
    show "runs N I v (fst (resume_call_after_failed_transfer env i v))"
    proof (cases "ca_state (lc_store v i) = LinphoneCallPaused")
      case True
      then have "usable i (ctl v)" using listed_usable [OF ok] state_listed [OF ok, of i] by (simp add: call_dead_def)
      moreover have "runs N (insert i I) v (fst (resume_call_after_failed_transfer env i v))"
        unfolding resume_call_after_failed_transfer_def Let_def fst_push
        by (intro runs_if runs_intro runs_resume) simp_all
      ultimately show ?thesis by (blast intro: runs_more runs_refl)
    next
      case False
      then show ?thesis
        unfolding resume_call_after_failed_transfer_def Let_def fst_push by (auto intro: runs_refl)
    qed
  qed
  then have "runs N I w (fst (resume_call_after_failed_transfer env i v))" by (simp add: runs_def v)
  then show ?thesis
    unfolding run_task_def Cons list.case v_def [symmetric]
    by (cases "resume_call_after_failed_transfer env i v") (auto intro: runs_intro)
qed (simp add: run_task_def runs_refl)

lemma runs_request:
  assumes i: "i \<in> I" shows "runs N I w (incoming_request env i is_update sdp w)"
  unfolding incoming_request_def by (intro runs_chain runs_intro) (assumption | simp add: i keep_simps)+

lemma runs_incoming_ack:
  assumes i: "i \<in> I" shows "runs N I w (incoming_ack env i sdp w)"
  unfolding incoming_ack_def
  by (intro runs_ack i runs_option runs_if runs_intro) (assumption | simp add: i keep_simps)+

lemma runs_answered:
  assumes "ve_max_calls env = N" "i \<in> I" "\<not> call_over (ca_state (lc_store w i))" and f: "keeps f"
  shows "runs N I w (call_accepted env i (upd i f w))"
proof (rule runs_wlog)
  have same: "ctl (upd i f w) = ctl w" by (simp add: ctl_upd f)
  assume "\<And>i. i \<in> I \<Longrightarrow> usable i (ctl w)"
  then have "i \<in> set (lc_calls w)" using assms alive_listed by blast
  then have "runs N I (upd i f w) (call_accepted env i (upd i f w))" using assms by (intro runs_accepted) simp_all
  then show "runs N I w (call_accepted env i (upd i f w))" by (simp add: runs_def same)
qed

lemma runs_handle:
  assumes a: "allowed N env ev w" and released: "\<And>i. ev \<noteq> ReleasedByStack i"
  shows "runs N (involved env ev) w (handle env ev w)"
proof -
  have n: "ve_max_calls env = N" using a by (simp add: allowed_def)
  have s: "i \<in> subjects ev \<Longrightarrow> i \<in> involved env ev" for i by (simp add: involved_def)
  note r = involved_replaceable [OF a]
  have t: "timely ev w" using a by (simp add: allowed_def)
  have k: "keeps f \<Longrightarrow> ctl (upd i f w) = ctl w" for i f by (rule ctl_upd)
  show ?thesis
  proof (cases ev)
    case (Accept call params)
    then show ?thesis using r s by (simp add: runs_accept_call runs_refl)
  next
    case (Incoming presence caller to sdp)
    have "rc < lc_next w" if "rc \<in> replaced env i" for i rc
      using involved_usable [OF a, of rc] that by (auto simp: usable_def involved_def)
    then show ?thesis using n r by (auto simp: Incoming intro: runs_received runs_intro)
  next
    case (Answered i sdp)
    then show ?thesis using n s t by (simp add: runs_answered keep_simps)
  next
    case (UpdateAnswered i)
    then show ?thesis using n s t runs_answered [of env N i "involved env ev" w id] by (simp add: keeps_def upd_def)
  next
    case (IceGathered i gathered)
    then show ?thesis using n r s by (simp add: runs_gathered runs_refl)
  next
    case (ReleasedByStack i)
    then show ?thesis using released by simp
  next
    case (Provisional i sdp)
    then show ?thesis using s by (simp add: runs_ringing runs_intro keep_simps)
  next
    case (Failure i reason)
    then show ?thesis using s by (simp add: runs_failure runs_refl)
  next
    case (ReferTo call referto)
    then show ?thesis using n s by (simp add: runs_refer runs_refl)
  next
    case (Terminate call)
    then show ?thesis using s by (simp add: runs_terminate_call)
  next
    case (Bye i)
    then show ?thesis using n s by (simp add: runs_terminated runs_refl)
  next
    case (Resume i)
    then show ?thesis using s by (simp add: runs_resume runs_refl)
  qed (use n s in \<open>simp_all add: runs_intro runs_pause_all runs_terminate_all runs_task runs_request runs_incoming_ack
      runs_ping runs_losing_pairs runs_ice_restart
      runs_ice_processed runs_notify_refer runs_iterate runs_refl\<close>)
qed

lemma step_runs:
  assumes "core_step N w w'" "ctl_ok N (ctl w)"
  shows "evolves N (ctl w) (ctl w') \<or> (\<exists>i < lc_next w. call_over (ca_state (lc_store w i)) \<and>
    ctl w' = move i LinphoneCallReleased (ctl w))"
  using assms(1)
proof (rule core_stepE)
  fix env ev assume w': "w' = handle env ev w" and a: "allowed N env ev w"
  show ?thesis
  proof (cases "\<exists>i. ev = ReleasedByStack i")
    case True
    then obtain i where ev: "ev = ReleasedByStack i" by blast
    have "i < lc_next w" using a by (simp add: ev allowed_def usable_def)
    moreover have "call_over (ca_state (lc_store w i))" using a by (simp add: ev allowed_def)
    ultimately show ?thesis by (auto simp: w' ev call_released_def ctl_set_state)
  next
    case False
    then have "runs N (involved env ev) w (handle env ev w)" by (intro runs_handle [OF a]) blast
    then show ?thesis unfolding w' runs_def using assms(2) involved_usable [OF a] by blast
  qed
qed

section \<open>Reachable cores\<close>

lemma init_ok: "ctl_ok N (ctl core_init)" "told_ok (ctl core_init)"
  by (simp_all add: ctl_ok_def told_ok_def ctl_def core_init_def call_zero_def)

lemma step_ok: "core_step N w w' \<Longrightarrow> ctl_ok N (ctl w) \<Longrightarrow> ctl_ok N (ctl w')"
  by (drule (1) step_runs) (auto simp: release_ok intro: evolves_ok)

lemma step_told: "core_step N w w' \<Longrightarrow> ctl_ok N (ctl w) \<Longrightarrow> told_ok (ctl w) \<Longrightarrow> told_ok (ctl w')"
  by (drule (1) step_runs) (auto simp: move_told intro: evolves_told)

lemma reachable_ok: "core_reachable N w \<Longrightarrow> ctl_ok N (ctl w) \<and> told_ok (ctl w)"
  by (induction rule: core_reachable.induct) (auto intro: init_ok step_ok step_told)

section \<open>Safety of the call list\<close>


lemma count_concat_ended: "count_list (concat (map ended_of tr)) i = count_list tr (NotifyCallLog i)"
proof (induction tr)
  case (Cons x tr)
  then show ?case by (cases x) auto
qed simp


definition announced_of :: "nat \<Rightarrow> action list \<Rightarrow> call_state list" where
  "announced_of i tr = map snd (filter (\<lambda>n. fst n = i \<and> snd n \<noteq> LinphoneCallRefered) (concat (map note_of tr)))"

text \<open>C3. What the listeners were last told of a call, requests to transfer aside, is its state:
  no transition is silent and none is announced that did not happen.\<close>

theorem listeners_know_the_state:
  "core_reachable N w \<Longrightarrow> i < lc_next w \<Longrightarrow>
     ca_state (lc_store w i) = last (LinphoneCallIdle # announced_of i (lc_trace w))"
proof -
  assume "core_reachable N w" and i: "i < lc_next w"
  then have "told i (ctl w) = ca_state (lc_store w i)" using reachable_ok [of N w] by (simp add: told_ok_def)
  then show ?thesis
    by (simp add: told_def announced_def announced_of_def ctl_def filter_map o_def conj_commute)
qed

text \<open>C4. A call that is over changes no more but to be released, and a released one not at all;
  neither announces anything else.\<close>

theorem ended_calls_stay_ended:
  assumes "core_reachable N w" "core_step N w w'" "i < lc_next w"
    "ca_state (lc_store w i) \<in> {LinphoneCallEnd, LinphoneCallError, LinphoneCallReleased}"
  shows "(ca_state (lc_store w' i) = ca_state (lc_store w i) \<and> announced_of i (lc_trace w') = announced_of i (lc_trace w))
    \<or> (ca_state (lc_store w i) \<noteq> LinphoneCallReleased \<and> ca_state (lc_store w' i) = LinphoneCallReleased
       \<and> announced_of i (lc_trace w') = announced_of i (lc_trace w) @ [LinphoneCallReleased])"
proof -
  have ok: "ctl_ok N (ctl w)" using assms(1) reachable_ok by blast
  have ann: "announced_of i (lc_trace v) = filter (\<lambda>s. s \<noteq> LinphoneCallRefered) (announced i (ctl v))" for v
    by (simp add: announced_def announced_of_def ctl_def filter_map o_def conj_commute)
  consider (run) "evolves N (ctl w) (ctl w')"
    | (release) j where "call_over (ca_state (lc_store w j))" "ctl w' = move j LinphoneCallReleased (ctl w)"
    using step_runs [OF assms(2) ok] by blast
  then show ?thesis
  proof cases
    case run
    have "ca_state (lc_store w' i) = ca_state (lc_store w i) \<and> announced i (ctl w') = announced i (ctl w)"
    proof (cases "ca_state (lc_store w i) = LinphoneCallReleased")
      case True
      then show ?thesis using evolves_released [OF run ok, of i] assms(3) by simp
    next
      case False
      then show ?thesis using evolves_over [OF run, of i] assms(3,4) by (simp add: call_over_def)
    qed
    then show ?thesis by (simp add: ann)
  next
    case release
    have st: "ca_state (lc_store w' i) = a_state (move j LinphoneCallReleased (ctl w)) i"
      by (metis ctl_fields(4) release(2))
    have an: "announced i (ctl w') = announced i (move j LinphoneCallReleased (ctl w))" by (simp add: release(2))
    show ?thesis
    proof (cases "i = j")
      case True
      then have "call_over (ca_state (lc_store w i))" "ca_state (lc_store w i) \<noteq> LinphoneCallReleased"
        using release(1) by auto
      then show ?thesis unfolding ann an st True [symmetric] by (simp add: move_announced move_state)
    next
      case False
      then show ?thesis unfolding ann an st by (simp add: move_announced move_state)
    qed
  qed
qed

section \<open>What an invitation does\<close>

lemma ctl_start_invite: "ctl (linphone_core_start_invite env i w) =
    move i (if ve_invite_result env i < 0 then LinphoneCallError else LinphoneCallOutgoingProgress) (ctl w)"
  by (simp add: linphone_core_start_invite_def Let_def ctl_set_state ctl_simps keep_simps)

lemma ctl_set_current: "ctl (w\<lparr>lc_current_call := Some i\<rparr>) = (ctl w)\<lparr>a_current := Some i\<rparr>"
  by (simp add: ctl_def)

lemma ctl_preempt_idle: "lc_current_call w = None \<Longrightarrow> ctl (linphone_core_preempt_sound_resources env w) = ctl w"
  by (simp add: linphone_core_preempt_sound_resources_def ctl_simps)

lemma ctl_invite:
  assumes "lc_current_call w = None" "length (lc_calls w) < ve_max_calls env" "\<not> ve_use_ice env"
    "ve_has_dest_proxy env to \<or> \<not> ve_ping_with_options env"
  defines "i \<equiv> lc_next w"
  shows "ctl (fst (linphone_core_invite_address_with_params env to p w)) =
    move i (if ve_invite_result env i < 0 then LinphoneCallError else LinphoneCallOutgoingProgress)
      (move i LinphoneCallOutgoingInit ((create True (ctl w))\<lparr>a_current := Some i\<rparr>))"
proof -
  define a where "a = linphone_core_preempt_sound_resources env w"
  have a: "ctl a = ctl w" unfolding a_def by (rule ctl_preempt_idle [OF assms(1)])
  define b where "b = fst (alloc (linphone_call_new_outgoing env a to (invite_params env to p)) a)"
  have b: "ctl b = create False (ctl w)" unfolding b_def a [symmetric] by (rule ctl_alloc) simp_all
  have can: "linphone_core_can_we_add_call env a" "linphone_core_can_we_add_call env b"
    using assms(2) same_ctl_calls [OF a] arg_cong [OF b, of a_calls]
    by (simp_all add: linphone_core_can_we_add_call_def)
  define x where "x = fst (linphone_core_add_call env i b)"
  have x: "ctl x = create True (ctl w)" unfolding x_def i_def by (rule ctl_add_call [OF b can(2)])
  have added: "linphone_core_add_call env i b = (x, True)"
    using can by (simp add: x_def linphone_core_add_call_def Let_def)
  have allocated: "alloc (linphone_call_new_outgoing env a to (invite_params env to p)) a = (b, i)"
    using same_ctl_calls [OF a] by (simp add: b_def i_def alloc_def Let_def)
  show ?thesis
    unfolding linphone_core_invite_address_with_params_def a_def [symmetric] Let_def [of a] if_P [OF can(1)]
      if_not_P [OF not_not [THEN iffD2, OF can(1)]] allocated prod.case added bool.case fst_push
    using assms(3,4) by (auto simp: Let_def ctl_start_invite ctl_set_state ctl_set_current ctl_simps keep_simps x)
qed

text \<open>C24. An invitation that finds no current call and a free place creates a call, lists it, makes it
  the current one and announces it: on its way, or failed and dropped again at once when the
  signalling layer cannot send the request.\<close>

theorem invite_outcome:
  assumes "core_reachable N w" "ve_max_calls env = N" "ve_interpret_url env url = Some to"
    "lc_current_call w = None" "length (lc_calls w) < N" "\<not> ve_use_ice env"
    "ve_has_dest_proxy env to \<or> \<not> ve_ping_with_options env"
    and w': "w' = handle env (Invite url p) w"
  shows "if ve_invite_result env (lc_next w) < 0
    then lc_calls w' = lc_calls w \<and> lc_current_call w' = None \<and> ca_state (lc_store w' (lc_next w)) = LinphoneCallError
      \<and> announced_of (lc_next w) (lc_trace w') = [LinphoneCallOutgoingInit, LinphoneCallError]
    else lc_calls w' = lc_calls w @ [lc_next w] \<and> lc_current_call w' = Some (lc_next w)
      \<and> ca_state (lc_store w' (lc_next w)) = LinphoneCallOutgoingProgress
      \<and> announced_of (lc_next w) (lc_trace w') = [LinphoneCallOutgoingInit, LinphoneCallOutgoingProgress]"
proof -
  define i where "i = lc_next w"
  define b where "b = (create True (ctl w))\<lparr>a_current := Some i\<rparr>"
  have ok: "ctl_ok N (ctl w)" "told_ok (ctl w)" using assms(1) reachable_ok by blast+
  have new: "i \<notin> set (lc_calls w)" using ctl_okD(3) [OF ok(1), of i] by (auto simp: i_def)
  have c: "ctl w' = move i (if ve_invite_result env i < 0 then LinphoneCallError else LinphoneCallOutgoingProgress)
      (move i LinphoneCallOutgoingInit b)"
    using ctl_invite [OF assms(4) _ assms(6,7), of p] assms(2,3,5)
    by (simp add: w' linphone_core_invite_with_params_def i_def b_def split: prod.split)
  have quiet: "announced i b = []"
    using ok(2) by (auto simp: b_def announced_def told_ok_def i_def filter_empty_conv create_def)
  have b: "a_state b i = LinphoneCallIdle" "a_calls b = lc_calls w @ [i]" "a_current b = Some i"
    by (simp_all add: b_def create_def i_def)
  have ann: "announced_of i (lc_trace w') = filter (\<lambda>s. s \<noteq> LinphoneCallRefered) (announced i (ctl w'))"
    by (simp add: announced_def announced_of_def ctl_def filter_map o_def conj_commute)
  have "ca_state (lc_store w' i) = a_state (ctl w') i" "lc_calls w' = a_calls (ctl w')"
      "lc_current_call w' = a_current (ctl w')"
    by simp_all
  note view = this [unfolded c]
  show ?thesis
    unfolding i_def [symmetric] ann c view
    using new by (auto simp: b quiet move_calls move_state move_current move_announced remove1_append)
qed

end
