(* ===== verification/CallProps.thy ===== *)
theory CallProps
  imports CallSteps
begin

text \<open>
  What the operations and callbacks do to the calls they are about: ending all calls, accepting
  one, failing requests, refused media, and the places where the code does otherwise than it means.
\<close>

section \<open>Ending all calls\<close>

lemma terminate_listed:
  assumes ok: "ctl_ok N (ctl w)" and i: "i \<in> set (lc_calls w)"
  shows "ctl (fst (terminate_one env i w)) = move i LinphoneCallEnd (ctl w)"
    "ctl_ok N (ctl (fst (terminate_one env i w)))"
    "set (lc_calls (fst (terminate_one env i w))) = set (lc_calls w) - {i}"
    "ca_state (lc_store (fst (terminate_one env i w)) i) = LinphoneCallEnd"
proof -
  have alive: "\<not> call_dead (ca_state (lc_store w i))" using ctl_okD(4) [OF ok, of i] i by simp
  then have "ca_state (lc_store w i) \<noteq> LinphoneCallReleased" "ca_state (lc_store w i) \<noteq> LinphoneCallEnd"
    "\<not> call_over (ca_state (lc_store w i))"
    by (auto simp: call_dead_def)
  note alive = this
  show c: "ctl (fst (terminate_one env i w)) = move i LinphoneCallEnd (ctl w)"
    using alive by (simp add: ctl_terminate_one)
  show "ctl_ok N (ctl (fst (terminate_one env i w)))"
    unfolding c by (rule move_ok [OF ok listed_usable [OF ok i]]) simp
  have "a_calls (ctl (fst (terminate_one env i w))) = remove1 i (lc_calls w)"
    unfolding c using alive by (simp add: move_calls)
  then show "set (lc_calls (fst (terminate_one env i w))) = set (lc_calls w) - {i}"
    using ctl_okD(1) [OF ok] by simp
  have "a_state (ctl (fst (terminate_one env i w))) i = LinphoneCallEnd"
    unfolding c using alive by (simp add: move_state)
  then show "ca_state (lc_store (fst (terminate_one env i w)) i) = LinphoneCallEnd" by simp
qed

lemma terminate_listed_fold:
  assumes "ctl_ok N (ctl w)" "distinct is" "set is \<subseteq> set (lc_calls w)"
  shows "ctl_ok N (ctl (fold (\<lambda>i w. fst (terminate_one env i w)) is w))
    \<and> set (lc_calls (fold (\<lambda>i w. fst (terminate_one env i w)) is w)) = set (lc_calls w) - set is
    \<and> (\<forall>i \<in> set is. ca_state (lc_store (fold (\<lambda>i w. fst (terminate_one env i w)) is w) i) = LinphoneCallEnd)"
  using assms
proof (induction "is" arbitrary: w)
  case (Cons i "is")
  let ?f = "\<lambda>i w. fst (terminate_one env i w)"
  have i: "i \<in> set (lc_calls w)" using Cons.prems(3) by simp
  note t = terminate_listed [OF Cons.prems(1) i, of env]
  have ih: "ctl_ok N (ctl (fold ?f is (?f i w))) \<and> set (lc_calls (fold ?f is (?f i w))) = set (lc_calls (?f i w)) - set is
      \<and> (\<forall>j \<in> set is. ca_state (lc_store (fold ?f is (?f i w)) j) = LinphoneCallEnd)"
    using Cons.prems t by (intro Cons.IH) auto
  have "runs N {} (?f i w) (fold ?f is (?f i w))"
    using Cons.prems(2,3) t(3) by (intro runs_fold ballI listed_usable [OF t(2)] runs_intro) auto
  then have "evolves N (ctl (?f i w)) (ctl (fold ?f is (?f i w)))" using t(2) by (simp add: runs_def)
  from evolves_over [OF this, of i] t(4) ctl_okD(3) [OF Cons.prems(1), of i] i
  have "ca_state (lc_store (fold ?f is (?f i w)) i) = LinphoneCallEnd"
    using arg_cong [OF t(1), of a_next] by simp
  then show ?case using ih t(3) by auto
qed simp


section \<open>Accepting a call\<close>

lemma end_other_attempts_ends:
  assumes "a \<in> set (lc_calls w)" "a \<noteq> i" "outgoing_pending (ca_state (lc_store w a))"
  shows "ca_state (lc_store (end_other_attempts env i w) a) = LinphoneCallEnd"
proof -
  let ?f = "\<lambda>a w. if a \<noteq> i \<and> outgoing_pending (ca_state (lc_store w a)) then fst (terminate_one env a w) else w"
  have step: "ca_state (lc_store (?f j v) a) =
      (if j = a \<and> outgoing_pending (ca_state (lc_store v a)) then LinphoneCallEnd else ca_state (lc_store v a))" for j v
  proof -
    have "a_state (ctl (?f j v)) a =
        (if j = a \<and> outgoing_pending (ca_state (lc_store v a)) then LinphoneCallEnd else ca_state (lc_store v a))"
      using assms(2) unfolding if_distrib [where f = ctl] ctl_terminate_one
      by (auto simp: move_state outgoing_pending_def call_over_def)
    then show ?thesis by simp
  qed
  have "(a \<in> set as \<and> outgoing_pending (ca_state (lc_store v a)) \<or> ca_state (lc_store v a) = LinphoneCallEnd) \<Longrightarrow>
      ca_state (lc_store (fold ?f as v) a) = LinphoneCallEnd" for as v
  proof (induction as arbitrary: v)
    case (Cons j as)
    show ?case unfolding fold_simps by (rule Cons.IH) (use Cons.prems in \<open>auto simp: step\<close>)
  qed (simp add: outgoing_pending_def)
  from this [of "lc_calls w" w] show ?thesis using assms by (simp add: end_other_attempts_def)
qed

text \<open>C10. An incoming call that is accepted becomes the current call and runs its streams, or is
  connected and waits for the media description of the acknowledgement; every attempt to call out
  that was still under way has ended.\<close>

theorem accept_takes_over:
  assumes "core_reachable N w" "allowed N env (Accept (Some i) params) w"
    "ca_state (lc_store w i) \<in> {LinphoneCallIncomingReceived, LinphoneCallIncomingEarlyMedia}"
    and w': "w' = handle env (Accept (Some i) params) w"
  shows "lc_current_call w' = Some i
    \<and> (ca_state (lc_store w' i) = LinphoneCallStreamsRunning
       \<or> ca_state (lc_store w' i) = LinphoneCallConnected \<and> ca_expect_media_in_ack (lc_store w' i))
    \<and> {a. a < lc_next w \<and> outgoing_pending (ca_state (lc_store w a))} \<subseteq> {a. ca_state (lc_store w' a) = LinphoneCallEnd}"
proof -
  let ?I = "involved env (Accept (Some i) params)"
  have ok: "ctl_ok N (ctl w)" using assms(1) reachable_ok by blast
  have u: "\<forall>j \<in> ?I. usable j (ctl w)" using involved_usable [OF assms(2)] by blast
  have i: "i \<in> ?I" by (simp add: involved_def)
  have listed: "i \<in> set (lc_calls w)" using alive_listed [of i w] u i assms(3) by auto
  note r = involved_replaceable [OF assms(2)]
  have accepted: "w' = accept_one env i params w"
    using assms(3) by (auto simp: w' linphone_core_accept_call_with_params_def)
  define v where "v = end_other_attempts env i w"
  have v: "runs N ?I w v" unfolding v_def by (rule runs_end_other)
  note vok = runs_ok [OF v ok u]
  have vu: "\<forall>j \<in> ?I. usable j (ctl v)" using runs_usable [OF v ok u] u by blast
  have run: "evolves N (ctl v) (ctl w')"
    using runs_accept_one [OF i listed r, of N params] vok vu by (simp add: accepted v_def runs_def)
  have over: "ca_state (lc_store w' a) = LinphoneCallEnd" if "a < lc_next w" "outgoing_pending (ca_state (lc_store w a))" for a
  proof -
    have "a \<in> set (lc_calls w)"
      using that(2) by (intro state_listed [OF ok]) (auto simp: outgoing_pending_def call_dead_def)
    moreover have "a \<noteq> i" using that(2) assms(3) by (auto simp: outgoing_pending_def)
    ultimately have "ca_state (lc_store v a) = LinphoneCallEnd"
      unfolding v_def by (rule end_other_attempts_ends [OF _ _ that(2)])
    moreover have "a < lc_next v" using evolves_next [of N "ctl w" "ctl v"] v ok u that(1) by (simp add: runs_def)
    ultimately show ?thesis using evolves_over [OF run, of a] by simp
  qed
  define z where "z = accept_ready env i params w"
  have r': "replaced env i \<subseteq> ?I - {i}" using r by (simp add: replaceable_def)
  have zl: "i \<in> set (lc_calls z)" unfolding z_def by (rule accept_ready(1) [OF listed r'])
  have zok: "ctl_ok N (ctl z)"
    using runs_ok [OF accept_ready(2) [OF listed r', of N params] vok [unfolded v_def]] vu by (simp add: z_def v_def)
  have alive: "\<not> call_over (ca_state (lc_store z i))" using ctl_okD(4) [OF zok, of i] zl by (simp add: call_dead_def)
  define x where "x = ask_final env i (linphone_call_set_state env i LinphoneCallConnected (z\<lparr>lc_current_call := Some i\<rparr>))"
  have x: "ctl x = move i LinphoneCallConnected ((ctl z)\<lparr>a_current := Some i\<rparr>)"
    by (simp add: x_def ctl_simps ctl_set_state ctl_set_current)
  have w'x: "w' = (case final_of i x of
        Some new_md \<Rightarrow> linphone_call_set_state env i LinphoneCallStreamsRunning
          (upd i linphone_call_fix_call_parameters (linphone_core_update_streams env i (Some new_md) x))
      | None \<Rightarrow> upd i (\<lambda>c. c\<lparr>ca_expect_media_in_ack := True\<rparr>) x)"
    unfolding accepted accept_one_ready z_def [symmetric] Let_def x_def [symmetric] ..
  have "a_current (ctl w') = Some i \<and> (a_state (ctl w') i = LinphoneCallStreamsRunning
       \<or> a_state (ctl w') i = LinphoneCallConnected \<and> ca_expect_media_in_ack (lc_store w' i))"
  proof (cases "final_of i x")
    case None
    then have c: "ctl w' = ctl x" by (simp add: w'x ctl_simps keep_simps)
    show ?thesis unfolding c x using alive by (simp add: move_current move_state None w'x)
  next
    case (Some md)
    then have c: "ctl w' = move i LinphoneCallStreamsRunning (ctl x)"
      by (simp add: w'x ctl_set_state ctl_simps keep_simps)
    show ?thesis unfolding c x using alive by (simp add: move_current move_state)
  qed
  then show ?thesis using over by auto
qed

section \<open>Failed requests\<close>

lemma previous_after_move:
  assumes "\<not> call_over (a_state a i)" "a_state a i \<noteq> s" "s \<noteq> LinphoneCallRefered" 
  shows "a_state (move i s a) i = s" "a_prev (move i s a) i = a_state a i"
  using assms by (simp_all add: move_state move_prev)

text \<open>What a failure does to a call that waits for the answer to its pause, its resumption or its update.\<close>

lemma failure_restores:
  assumes s: "ca_state (lc_store w i) \<in> {LinphoneCallPausing, LinphoneCallResuming, LinphoneCallUpdating}"
  shows "ctl (call_failure env i reason w) = move i (ca_prevstate (lc_store w i)) (ctl w)"
proof -
  have f: "ctl (fail_call env i r v) = move i (ca_prevstate (lc_store w i)) (ctl w)" if "ctl v = ctl w" for r v
  proof -
    have "ca_state (lc_store v i) = ca_state (lc_store w i)" "ca_prevstate (lc_store v i) = ca_prevstate (lc_store w i)"
      by (metis that ctl_fields(4,5))+
    then show ?thesis using s that by (auto simp: fail_call_def Let_def ctl_set_state)
  qed
  have p: "\<not> outgoing_pending (ca_state (lc_store w i))" using s by (auto simp: outgoing_pending_def)
  then have "retry_for env (lc_store w i) = None" by (simp add: retry_for_def)
  moreover have stop: "ctl (linphone_call_stop_media_streams i w) = ctl w" by (simp add: ctl_simps)
  moreover have "\<not> outgoing_pending (ca_state (lc_store (linphone_call_stop_media_streams i w) i))"
    using p same_ctl_state [OF stop] by simp
  ultimately show ?thesis
    unfolding call_failure_def Let_def by (simp add: f [OF stop] f [OF HOL.refl] ctl_set_state)
qed

lemma preempt_state:
  assumes "\<not> pausable (lc_store w i)"
  shows "ca_state (lc_store (linphone_core_preempt_sound_resources env w) i) = ca_state (lc_store w i)"
proof -
  have "a_state (ctl (linphone_core_preempt_sound_resources env w)) i = ca_state (lc_store w i)"
    using assms by (auto simp: linphone_core_preempt_sound_resources_def Let_def ctl_simps ctl_pause_internal
        move_state simp del: ctl_fields split: option.split) (simp_all add: ctl_def)
  then show ?thesis by simp
qed

lemma ctl_resume_sent: "ctl (resume_sent env i (v, err)) = (if err \<noteq> 0 then ctl v
    else let a = move i LinphoneCallResuming (ctl v) in
      if \<not> cp_in_conference (ca_params (lc_store (linphone_call_set_state env i LinphoneCallResuming v) i))
      then a\<lparr>a_current := Some i\<rparr> else a)"
  by (simp add: resume_sent_def Let_def ctl_set_state ctl_set_current ctl_simps keep_simps)

lemma resume_states:
  assumes "w' = fst (linphone_core_resume_call env i w)" "ca_state (lc_store w' i) \<noteq> ca_state (lc_store w i)"
  shows "ca_state (lc_store w i) = LinphoneCallPaused" "ca_state (lc_store w' i) = LinphoneCallResuming"
    "ca_prevstate (lc_store w' i) = LinphoneCallPaused"
proof -
  from resume_shape [of env i w] assms obtain subject
    where paused: "ca_state (lc_store w i) = LinphoneCallPaused"
      and w': "w' = resume_sent env i (sal_call_update env i subject False (resume_ready env i w))"
    by auto
  have "\<not> pausable (lc_store w i)" using paused by (simp add: pausable_def)
  then have ready: "ca_state (lc_store (resume_ready env i w) i) = LinphoneCallPaused"
    using same_ctl_state [OF ctl_resume_ready [of env i w], of i] paused by (simp add: preempt_state)
  obtain v err where v: "sal_call_update env i subject False (resume_ready env i w) = (v, err)" by fastforce
  have vp: "ca_state (lc_store v i) = LinphoneCallPaused" using same_ctl_state [OF ctl_sal_update [OF v]] ready by simp
  have "err = 0"
  proof (rule ccontr)
    assume "err \<noteq> 0"
    then have "w' = v" by (simp add: w' v resume_sent_def)
    then show False using assms(2) vp paused by simp
  qed
  then have "a_state (ctl w') i = LinphoneCallResuming \<and> a_prev (ctl w') i = LinphoneCallPaused"
    unfolding w' v ctl_resume_sent using vp by (simp add: Let_def move_state move_prev)
  then show "ca_state (lc_store w i) = LinphoneCallPaused" "ca_state (lc_store w' i) = LinphoneCallResuming"
    "ca_prevstate (lc_store w' i) = LinphoneCallPaused"
    using paused by simp_all
qed

lemma ctl_update: "ctl (fst (linphone_core_update_call env i params w)) =
    (case update_next_state (ca_state (lc_store w i)) of None \<Rightarrow> ctl w
     | Some s \<Rightarrow> (case params of None \<Rightarrow> ctl w | Some p \<Rightarrow> move i s (ctl w)))"
proof -
  have start: "ctl (fst (linphone_core_start_update_call env i v)) = ctl v" for v
    by (simp add: linphone_core_start_update_call_def fst_push Let_def split_beta ctl_simps keep_simps)
  show ?thesis
    by (auto simp: linphone_core_update_call_def fst_push Let_def split_beta start ctl_simps keep_simps ctl_set_state
        split: option.split)
qed

lemma pause_states:
  assumes "w' = fst (linphone_core_pause_call env i w)" "ca_state (lc_store w' i) \<noteq> ca_state (lc_store w i)"
  shows "ca_prevstate (lc_store w' i) = ca_state (lc_store w i)"
    "ca_state (lc_store w' i) = LinphoneCallPausing" "lc_current_call w' = None"
    "ca_state (lc_store w i) \<in> {LinphoneCallStreamsRunning, LinphoneCallPausedByRemote}"
proof -
  have c: "ctl w' = ctl (fst (pause_call_internal env i w))"
    by (simp add: assms(1) linphone_core_pause_call_def split_beta ctl_simps keep_simps)
  have p: "pausable (lc_store w i)"
  proof (rule ccontr)
    assume "\<not> pausable (lc_store w i)"
    then have "ctl w' = ctl w" by (simp add: c ctl_pause_internal)
    then show False using assms(2) same_ctl_state by blast
  qed
  then show s: "ca_state (lc_store w i) \<in> {LinphoneCallStreamsRunning, LinphoneCallPausedByRemote}"
    by (auto simp: pausable_def)
  have c: "ctl w' = move i LinphoneCallPausing ((ctl w)\<lparr>a_current := None\<rparr>)" using c p by (simp add: ctl_pause_internal)
  have "a_prev (ctl w') i = ca_state (lc_store w i)" "a_state (ctl w') i = LinphoneCallPausing" "a_current (ctl w') = None"
    unfolding c using s by (auto simp: move_prev move_state move_current)
  then show "ca_prevstate (lc_store w' i) = ca_state (lc_store w i)"
    "ca_state (lc_store w' i) = LinphoneCallPausing" "lc_current_call w' = None"
    by simp_all
qed

lemma update_states:
  assumes "w' = fst (linphone_core_update_call env i params w)" "ca_state (lc_store w' i) \<noteq> ca_state (lc_store w i)"
  shows "ca_prevstate (lc_store w' i) = ca_state (lc_store w i)"
proof -
  have alive: "\<not> call_over s" if "update_next_state s = Some t" for s t
    using that by (auto simp: update_next_state_def split: if_splits)
  have "a_state (ctl w') i \<noteq> a_state (ctl w) i" using assms(2) by simp
  then have "a_prev (ctl w') i = a_state (ctl w) i"
    unfolding assms(1) ctl_update by (auto simp: move_prev move_state split: option.splits if_splits)
  then show ?thesis by simp
qed


text \<open>Once a running call has been paused, a refusal brings it back to running but not to being
  the current call: its streams are started with no current call.\<close>

theorem refused_pause_loses_current_call:
  assumes w1: "w1 = handle env (Pause i) w" and w2: "w2 = handle env2 (Failure i reason) w1"
    and "ca_state (lc_store w i) = LinphoneCallStreamsRunning" "ca_state (lc_store w1 i) \<noteq> ca_state (lc_store w i)"
  shows "ca_state (lc_store w2 i) = LinphoneCallStreamsRunning \<and> lc_current_call w2 = None"
proof -
  note p = pause_states [of w1 env i w]
  have st: "ca_state (lc_store w1 i) = LinphoneCallPausing" "ca_prevstate (lc_store w1 i) = LinphoneCallStreamsRunning"
      "lc_current_call w1 = None"
    using p assms(3,4) by (simp_all add: w1)
  then have "ctl w2 = move i LinphoneCallStreamsRunning (ctl w1)"
    using failure_restores [of w1 i env2 reason] by (simp add: w2)
  then have "a_state (ctl w2) i = LinphoneCallStreamsRunning \<and> a_current (ctl w2) = None"
    using st by (simp add: move_state move_current)
  then show ?thesis by simp
qed

section \<open>Transfers and the state to return to\<close>

text \<open>A request to transfer that arrives while a pause, a resumption or an update is under way makes
  the call forget the state it had before: when the change is then refused the call is stuck in the
  middle of it, with the transfer not carried out either.\<close>

theorem transfer_request_loses_previous_state:
  assumes s: "ca_state (lc_store w i) \<in> {LinphoneCallPausing, LinphoneCallResuming, LinphoneCallUpdating}"
    and url: "ve_interpret_url env referto = None"
    and w1: "w1 = handle env (ReferTo (Some i) referto) w"
    and w2: "w2 = handle env2 (Failure i reason) w1"
  shows "ca_state (lc_store w2 i) = ca_state (lc_store w i)"
proof -
  define v where "v = linphone_call_set_state env i LinphoneCallRefered
    (upd i (\<lambda>c. c\<lparr>ca_refer_to := Some referto, ca_refer_pending := True\<rparr>) w)"
  have v: "ctl v = move i LinphoneCallRefered (ctl w)" by (simp add: v_def ctl_set_state ctl_simps keep_simps)
  have "a_state (ctl v) i = ca_state (lc_store w i)" "a_prev (ctl v) i = ca_state (lc_store w i)"
    unfolding v using s by (auto simp: move_state move_prev)
  then have st: "ca_state (lc_store v i) = ca_state (lc_store w i)" "ca_prevstate (lc_store v i) = ca_state (lc_store w i)"
    by simp_all
  have np: "\<not> pausable (lc_store v i)" using s by (auto simp: pausable_def st)
  have refer: "ca_refer_to (lc_store v i) = Some referto"
  proof -
    have "ca_refer_to (lc_store (linphone_core_soundcard_hint_check env x) i) = ca_refer_to (lc_store x i)" for x
      by (simp add: linphone_core_soundcard_hint_check_def notify_soundcard_usage_def)
    then show ?thesis using s by (auto simp: v_def linphone_call_set_state_def enter_state_def Let_def)
  qed
  have kept: "ctl (fst (linphone_core_start_refered_call env i None v)) = ctl v"
  proof -
    have *: "ctl (fst (linphone_core_invite_with_params env referto cp x)) = ctl x" for cp x
      by (simp add: linphone_core_invite_with_params_def url)
    have rt: "ca_refer_to (lc_store (fst (pause_call_internal env i v)) i) = Some referto"
    proof -
      have "ca_state (lc_store v i) \<noteq> LinphoneCallStreamsRunning" "ca_state (lc_store v i) \<noteq> LinphoneCallPausedByRemote"
        using s st by auto
      then show ?thesis by (simp add: pause_call_internal_def refer)
    qed
    show ?thesis
      using np by (simp add: linphone_core_start_refered_call_def Let_def fst_push rt refer ctl_simps keep_simps
          ctl_pause_internal linphone_core_invite_with_params_def url split_beta)
  qed
  have w1v: "ctl w1 = ctl v"
    by (simp add: w1 refer_received_def Let_def v_def [symmetric] kept)
  have "a_state (ctl w1) i = ca_state (lc_store w i)" "a_prev (ctl w1) i = ca_state (lc_store w i)"
    unfolding w1v using st by simp_all
  then have st1: "ca_state (lc_store w1 i) = ca_state (lc_store w i)" "ca_prevstate (lc_store w1 i) = ca_state (lc_store w i)"
    by simp_all
  have c: "ctl w2 = move i (ca_state (lc_store w i)) (ctl w1)"
    using failure_restores [OF s [folded st1(1)], of env2 reason] unfolding w2 handle.simps st1(2) .
  have "move i (ca_state (lc_store w i)) (ctl w1) = ctl w1" by (simp add: move_def st1(1))
  then show ?thesis using same_ctl_state [of w2 w1 i] c st1(1) by simp
qed

section \<open>Every event is a run of the abstract machine\<close>


section \<open>A release without an end\<close>

text \<open>A first INVITE answered with a request pending error puts the call back to the state before
  the INVITE was sent; the release of the operation that follows leaves a released call in the
  list, and neither its end is announced nor its log completed.\<close>

theorem release_without_end_stays_listed:
  assumes "i \<in> set (lc_calls w)" "ca_state (lc_store w i) = LinphoneCallOutgoingProgress"
    "ca_prevstate (lc_store w i) = LinphoneCallOutgoingInit"
    and w1: "w1 = handle env (Failure i SalReasonRequestPending) w" and w2: "w2 = handle env2 (ReleasedByStack i) w1"
  shows "ca_state (lc_store w2 i) = LinphoneCallReleased \<and> i \<in> set (lc_calls w2)
    \<and> count_list (lc_trace w2) (NotifyCallLog i) = count_list (lc_trace w) (NotifyCallLog i)"
proof -
  have c1: "ctl w1 = move i LinphoneCallOutgoingInit (ctl w)"
    using assms(3) by (simp add: w1 call_failure_def ctl_set_state)
  have c2: "ctl w2 = move i LinphoneCallReleased (move i LinphoneCallOutgoingInit (ctl w))"
    by (simp add: w2 call_released_def ctl_set_state c1)
  have e: "count_list (lc_trace v) (NotifyCallLog i) = count_list (a_ended (ctl v)) i" for v
    by (simp add: ctl_def count_concat_ended)
  have view: "ca_state (lc_store w2 i) = a_state (ctl w2) i" "lc_calls w2 = a_calls (ctl w2)" by simp_all
  show ?thesis
    unfolding e view c2 using assms(1,2) by (simp add: move_state move_calls move_ended)
qed

section \<open>Media that is refused\<close>

lemma final_after_answer: "final_of i (ask_final env i (upd i f w)) = op_final (get_final env (f (lc_store w i)))"
  by (simp add: final_of_def ask_final_def)

lemma op_final_ice: "op_final (get_final env (c\<lparr>ca_ice_session := b\<rparr>)) = op_final (get_final env c)"
  by (simp add: op_final_def get_final_def with_op_def Let_def split: option.split)

text \<open>What is asked for the answer, before the transition.\<close>

lemma answered_final:
  "final_of i (ask_final env i (if ca_ice_session (lc_store v i) \<and> remote_media (lc_store v i) \<noteq> None
      then upd i (\<lambda>c. c\<lparr>ca_ice_session := k\<rparr>) v else v)) = op_final (get_final env (lc_store v i))"
  by (simp add: final_of_def ask_final_def op_final_ice)

lemma answered_shape:
  assumes s: "ca_state (lc_store w i) \<in> {LinphoneCallOutgoingProgress, LinphoneCallOutgoingRinging}"
    and v: "v = upd i (with_op (handle_sdp_from_response env sdp)) w"
  obtains u where "ctl u = move i LinphoneCallConnected (ctl w)"
    "call_accepted env i v = (case usable_final env (op_final (get_final env (lc_store v i))) of
       Some m \<Rightarrow> accepted_with_media env i True m u | None \<Rightarrow> accepted_without_media env i u)"
proof -
  have vc: "ctl v = ctl w" by (simp add: v ctl_simps keep_simps)
  define x where "x = ask_final env i (if ca_ice_session (lc_store v i) \<and> remote_media (lc_store v i) \<noteq> None
      then upd i (\<lambda>c. c\<lparr>ca_ice_session := ve_ice_kept env i\<rparr>) v else v)"
  have x: "ctl x = ctl w" by (simp add: x_def ctl_simps keep_simps vc)
  have xs: "ca_state (lc_store x i) = ca_state (lc_store w i)" by (rule same_ctl_state [OF x])
  define u where "u = fst (accepted_transition env i x)"
  have t: "accepted_transition env i x = (u, True)"
    using s xs by (auto simp: u_def accepted_transition_def Let_def)
  have u: "ctl u = move i LinphoneCallConnected (ctl w)"
    using s xs by (auto simp: u_def accepted_transition_def Let_def ctl_set_state x ctl_simps split: option.split)
  have "a_prev (ctl u) i = ca_state (lc_store w i)" unfolding u using s by (auto simp: move_prev)
  then have prev: "ca_prevstate (lc_store u i) \<noteq> LinphoneCallOutgoingEarlyMedia" using s by auto
  have eff: "effective_final i md u = md" for md using prev by (simp add: effective_final_def Let_def)
  have "call_accepted env i v = (case usable_final env (op_final (get_final env (lc_store v i))) of
       Some m \<Rightarrow> accepted_with_media env i True m u | None \<Rightarrow> accepted_without_media env i u)"
    unfolding call_accepted_def Let_def x_def [symmetric] t prod.case eff unfolding x_def answered_final ..
  then show ?thesis using u that by blast
qed

text \<open>C25. An outgoing call whose answer leaves no usable media, because there is none in common or
  because it is not encrypted where encryption is mandatory, is ended as an error.\<close>

theorem unusable_answer_ends_call:
  assumes s: "ca_state (lc_store w i) \<in> {LinphoneCallOutgoingProgress, LinphoneCallOutgoingRinging}"
    and unusable: "usable_final env (op_final (get_final env (with_op (handle_sdp_from_response env sdp) (lc_store w i)))) = None"
    and w': "w' = handle env (Answered i sdp) w"
  shows "ca_state (lc_store w' i) = LinphoneCallError \<and> lc_calls w' = remove1 i (lc_calls w) \<and> lc_current_call w' \<noteq> Some i"
proof -
  define v where "v = upd i (with_op (handle_sdp_from_response env sdp)) w"
  obtain u where u: "ctl u = move i LinphoneCallConnected (ctl w)"
    and a: "call_accepted env i v = (case usable_final env (op_final (get_final env (lc_store v i))) of
       Some m \<Rightarrow> accepted_with_media env i True m u | None \<Rightarrow> accepted_without_media env i u)"
    using answered_shape [OF s v_def] .
  have w'u: "w' = accepted_without_media env i u"
    using a unusable by (simp add: w' v_def)
  have "a_prev (ctl u) i = ca_state (lc_store w i)" unfolding u using s by (auto simp: move_prev)
  then have "outgoing_pending (ca_prevstate (lc_store u i))" using s by (auto simp: outgoing_pending_def)
  then have "w' = linphone_core_abort_call env i u" by (simp add: w'u accepted_without_media_def)
  then have c: "ctl w' = move i LinphoneCallError (move i LinphoneCallConnected (ctl w))"
    by (simp add: linphone_core_abort_call_def Let_def ctl_set_state ctl_simps u)
  have view: "ca_state (lc_store w' i) = a_state (ctl w') i" "lc_calls w' = a_calls (ctl w')"
      "lc_current_call w' = a_current (ctl w')"
    by simp_all
  show ?thesis unfolding view c using s by (auto simp: move_state move_calls move_current)
qed

text \<open>The description of an acknowledgement is used as it is: a call accepted without an offer
  runs in the clear even where encryption is mandatory.\<close>

theorem acknowledged_media_not_checked:
  assumes "ca_expect_media_in_ack (lc_store w i)" "ca_state (lc_store w i) = LinphoneCallConnected"
    and md: "op_final (get_final env (lc_store w i)) = Some md" "\<not> sal_media_description_empty md"
    and "linphone_core_incompatible_security env md"
  shows "ca_state (lc_store (call_ack env i w) i) = LinphoneCallStreamsRunning"
proof -
  have f: "final_of i (ask_final env i w) = Some md" using md(1) by (simp add: final_of_def ask_final_def)
  have "ctl (call_ack env i w) = move i LinphoneCallStreamsRunning (ctl w)"
    using assms(1) md(2) by (simp add: call_ack_def Let_def f ctl_set_state ctl_simps)
  then have "a_state (ctl (call_ack env i w)) i = LinphoneCallStreamsRunning" using assms(2) by (simp add: move_state)
  then show ?thesis by simp
qed

end
