(* ===== verification/CallMedia.thy ===== *)
theory CallMedia
  imports CallProps
begin

text \<open>
  The media of a call across the operations: the parameters and the resulting description are
  changed by few routines, so that what an answered call runs on is what was negotiated, and a call
  tried again has given up something it had.
\<close>

section \<open>Parameters and resulting description\<close>

named_theorems media_simps \<open>routines that leave the parameters and the resulting description of calls alone\<close>

text \<open>A function on calls that leaves both alone.\<close>

definition spares :: "(call \<Rightarrow> call) \<Rightarrow> bool" where
  "spares f \<longleftrightarrow> (\<forall>c. ca_params (f c) = ca_params c \<and> ca_resultdesc (f c) = ca_resultdesc c)"

definition media :: "nat \<Rightarrow> core \<Rightarrow> call_params \<times> sal_media_description option" where
  "media i w = (ca_params (lc_store w i), ca_resultdesc (lc_store w i))"

lemma media_upd [media_simps]: "spares f \<Longrightarrow> media i (upd j f w) = media i w"
  by (simp add: media_def spares_def)

lemma media_same [media_simps]: "media i (emit x w) = media i w" "media i (w\<lparr>lc_current_call := c\<rparr>) = media i w"
  "media i (w\<lparr>lc_calls := l\<rparr>) = media i w" "media i (w\<lparr>lc_ringstream := r\<rparr>) = media i w"
  "media i (w\<lparr>lc_dtmf_playing := r\<rparr>) = media i w" "media i (w\<lparr>lc_missed_calls := n\<rparr>) = media i w"
  "media i (w\<lparr>lc_call_logs := l\<rparr>) = media i w"
  by (simp_all add: media_def)

lemma spares_fields [simp]:
  "spares (\<lambda>c. c\<lparr>ca_non_op_error := r\<rparr>)" "spares (\<lambda>c. c\<lparr>ca_op := o1\<rparr>)" "spares (\<lambda>c. c\<lparr>ca_ice_session := b\<rparr>)"
  "spares (\<lambda>c. c\<lparr>ca_ringing_beep := b\<rparr>)" "spares (\<lambda>c. c\<lparr>ca_log_status := st\<rparr>)" "spares (\<lambda>c. c\<lparr>ca_dtmfs_timer := b\<rparr>)"
  "spares (\<lambda>c. c\<lparr>ca_prevstate := ca_state c\<rparr>)" "spares (\<lambda>c. c\<lparr>ca_state := s\<rparr>)"
  "spares (\<lambda>c. c\<lparr>ca_referer := tt, ca_transfer_target := tt\<rparr>)"
  "spares (\<lambda>c. c\<lparr>ca_log_status := final_log_status (ca_non_op_error c) (ca_log_status c)\<rparr>)"
  "spares (\<lambda>c. set_streams (g c) c)"
  by (simp_all add: spares_def set_streams_def)

lemma spares_op [simp]: "spares (with_op f)" "spares (write_localdesc g)" "spares set_local" "spares (get_final env)"
  "spares linphone_call_update_remote_session_id_and_ver" "spares (set_biggestdesc md)"
  "spares (linphone_call_update_frozen_payloads md)" "spares linphone_call_fix_call_parameters"
  by (simp_all add: spares_def with_op_def write_localdesc_def set_local_def get_final_def Let_def
      linphone_call_update_remote_session_id_and_ver_def set_biggestdesc_def linphone_call_update_frozen_payloads_def
      linphone_call_fix_call_parameters_def split: option.split)

lemma spares_set_streams [simp]: "spares (set_streams av)"
  by (simp add: spares_def set_streams_def)

lemma spares_started [simp]:
  "spares (\<lambda>c. (set_streams (g c) c)\<lparr>ca_current_params := h c, ca_all_muted := b, ca_playing_ringbacktone := b2, ca_up_bw := n\<rparr>)"
  by (simp add: spares_def set_streams_def)

lemma media_ring [media_simps]: "media i (linphone_core_stop_dtmf w) = media i w" "media i (stop_beep j w) = media i w"
  "media i (linphone_core_stop_ringing w) = media i w" "media i (linphone_core_stop_dtmf_stream w) = media i w"
  "media i (notify_soundcard_usage env b w) = media i w" "media i (linphone_core_soundcard_hint_check env w) = media i w"
proof -
  show d: "media i (linphone_core_stop_dtmf w) = media i w" for w
    by (simp add: linphone_core_stop_dtmf_def media_simps)
  show b: "media i (stop_beep j w) = media i w" for j w by (simp add: stop_beep_def d media_simps)
  show r: "media i (linphone_core_stop_ringing w) = media i w" for w
    by (auto simp: linphone_core_stop_ringing_def Let_def b media_simps split: option.splits)
  show "media i (linphone_core_stop_dtmf_stream w) = media i w"
    by (simp add: linphone_core_stop_dtmf_stream_def r)
  show n: "media i (notify_soundcard_usage env b w) = media i w" for b
    by (simp add: notify_soundcard_usage_def media_simps)
  show "media i (linphone_core_soundcard_hint_check env w) = media i w"
    by (simp add: linphone_core_soundcard_hint_check_def n)
qed

lemma media_streams [media_simps]: "media i (linphone_call_init_media_streams env j w) = media i w"
  "media i (linphone_call_stop_media_streams j w) = media i w"
  "media i (linphone_call_start_media_streams env j b b2 w) = media i w"
  by (simp_all add: linphone_call_init_media_streams_def linphone_call_stop_media_streams_def
      linphone_call_start_media_streams_def Let_def media_simps)

lemma media_end [media_simps]: "media i (linphone_call_set_terminated env j w) = media i w"
  "media i (linphone_call_set_released env j w) = media i w"
  by (simp_all add: linphone_call_set_terminated_def linphone_call_free_media_resources_def linphone_core_del_call_def
      linphone_call_log_completed_def linphone_call_set_released_def Let_def media_simps)

lemma media_set_state [media_simps]: "media i (linphone_call_set_state env j s w) = media i w"
  by (simp add: linphone_call_set_state_def enter_state_def Let_def media_simps)

section \<open>The description installed\<close>

lemma update_streams_installs: "ca_resultdesc (lc_store (linphone_core_update_streams env i (Some md) w) i) = Some md"
proof -
  define v where "v = upd i (\<lambda>c. c\<lparr>ca_expect_media_in_ack := False, ca_resultdesc := Some md\<rparr>)
    (upd i (set_biggestdesc md) (if ca_state (lc_store w i) = LinphoneCallIncomingEarlyMedia \<and> ve_ring_during_early_media env
      then w else linphone_core_stop_ringing w))"
  have v: "snd (media i v) = Some md" by (simp add: v_def media_def)
  have r: "media i (update_running_streams i ch x) = media i x" for ch x
    by (simp add: update_running_streams_def Let_def media_simps)
  have s: "media i (start_updated_streams env i md x) = media i x" for x
    by (simp add: start_updated_streams_def Let_def media_simps)
  have "media i (linphone_core_update_streams env i (Some md) w) = media i v"
    unfolding linphone_core_update_streams_def Let_def option.case v_def [symmetric]
    by (simp add: r s media_simps split: option.split)
  then show ?thesis using v by (simp add: media_def)
qed

text \<open>C7. An outgoing call that is answered with usable media that do not put it on hold runs on
  the very description the offer/answer exchange has produced, which respects mandatory
  encryption; it is then paused by the remote side or running, as the description says.\<close>

theorem answered_call_runs_negotiated_media:
  assumes s: "ca_state (lc_store w i) \<in> {LinphoneCallOutgoingProgress, LinphoneCallOutgoingRinging}"
    and usable: "usable_final env (op_final (get_final env (with_op (handle_sdp_from_response env sdp) (lc_store w i)))) = Some md"
    and hold: "\<not> pauses md"
    and w': "w' = handle env (Answered i sdp) w"
  shows "ca_resultdesc (lc_store w' i) = Some md \<and> \<not> linphone_core_incompatible_security env md
    \<and> ca_state (lc_store w' i) = (if sal_media_description_has_dir md SalStreamRecvOnly then LinphoneCallPausedByRemote
        else LinphoneCallStreamsRunning)"
proof -
  define v where "v = upd i (with_op (handle_sdp_from_response env sdp)) w"
  obtain u where u: "ctl u = move i LinphoneCallConnected (ctl w)"
    and a: "call_accepted env i v = (case usable_final env (op_final (get_final env (lc_store v i))) of
       Some m \<Rightarrow> accepted_with_media env i True m u | None \<Rightarrow> accepted_without_media env i u)"
    using answered_shape [OF s v_def] .
  have w'u: "w' = accepted_with_media env i True md u" using a usable by (simp add: w' v_def)
  have us: "a_state (ctl u) i = LinphoneCallConnected" unfolding u using s by (auto simp: move_state)
  define x where "x = linphone_core_update_streams env i (Some md) (upd i linphone_call_update_remote_session_id_and_ver u)"
  have x: "ctl x = ctl u" by (simp add: x_def ctl_simps keep_simps)
  have rx: "snd (media i x) = Some md" by (simp add: x_def media_def update_streams_installs)
  have h: "\<not> (sal_media_description_has_dir md SalStreamSendOnly \<or> sal_media_description_has_dir md SalStreamInactive)"
    using hold by (simp add: pauses_def)
  have m: "media i w' = media i x"
    unfolding w'u accepted_with_media_def Let_def x_def [symmetric] if_not_P [OF h] if_True by (simp add: media_simps)
  have st: "a_state (ctl w') i = (if sal_media_description_has_dir md SalStreamRecvOnly then LinphoneCallPausedByRemote
        else LinphoneCallStreamsRunning)"
  proof (cases "sal_media_description_has_dir md SalStreamRecvOnly")
    case True
    then have "ctl w' = move i LinphoneCallPausedByRemote (ctl u)"
      unfolding w'u accepted_with_media_def Let_def x_def [symmetric] if_not_P [OF h] if_True if_P [OF True]
      by (simp add: ctl_set_state x)
    then have "a_state (ctl w') i = LinphoneCallPausedByRemote" using us by (simp add: move_state)
    then show ?thesis unfolding if_P [OF True] .
  next
    case False
    have same: "(ctl u)\<lparr>a_current := lc_current_call u\<rparr> = ctl u" by (simp add: ctl_def)
    have "ctl w' = move i LinphoneCallStreamsRunning ((ctl u)\<lparr>a_current :=
        (if \<not> cp_in_conference (ca_current_params (linphone_call_fix_call_parameters (lc_store x i)))
         then Some i else lc_current_call u)\<rparr>)"
      unfolding w'u accepted_with_media_def Let_def x_def [symmetric] if_not_P [OF h] if_True if_not_P [OF False]
      by (simp add: ctl_set_state ctl_set_current x ctl_simps keep_simps same)
    then have "a_state (ctl w') i = LinphoneCallStreamsRunning" using us by (auto simp: move_state)
    then show ?thesis unfolding if_not_P [OF False] .
  qed
  have "\<not> linphone_core_incompatible_security env md"
    using usable by (auto simp: usable_final_def split: option.splits if_splits)
  moreover have "ca_resultdesc (lc_store w' i) = Some md" using m rx by (simp add: media_def)
  ultimately show ?thesis using st unfolding ctl_fields(4) by blast
qed

section \<open>Trying again\<close>

text \<open>What a call can still give up.\<close>

definition retries_left :: "call_params \<Rightarrow> nat" where
  "retries_left p = (if cp_avpf_enabled p then 1 else 0)
     + (if cp_media_encryption p = LinphoneMediaEncryptionSRTP then 1 else 0)"

lemma find_retry_gives_up:
  "find_retry mandatory p i ss = Some r \<Longrightarrow>
     (case r of RetryWithoutAvpf \<Rightarrow> cp_avpf_enabled p
      | RetryWithoutSrtp k \<Rightarrow> \<not> mandatory \<and> cp_media_encryption p = LinphoneMediaEncryptionSRTP)"
  by (induction mandatory p i ss rule: find_retry.induct) (auto split: if_splits)

lemma write_localdesc_params [simp]: "ca_params (write_localdesc f c) = ca_params c"
  by (simp add: write_localdesc_def split: option.split)

lemma retry_gives_up: "retry_for env c = Some r \<Longrightarrow> retries_left (ca_params (give_up r c)) < retries_left (ca_params c)"
  using find_retry_gives_up [of "ve_media_encryption_mandatory env" "ca_params c" 0 _ r]
  by (cases r) (auto simp: retry_for_def retries_left_def split: if_splits option.splits)

lemma adapted_retries: "retries_left (linphone_core_adapt_to_network env n p) = retries_left p"
  by (simp add: linphone_core_adapt_to_network_def Let_def retries_left_def)

lemma made_retries: "retries_left (ca_params (linphone_call_make_local_media_description env c)) = retries_left (ca_params c)"
  by (simp add: linphone_call_make_local_media_description_def linphone_call_make_local_media_description_with_params_def
      Let_def unshare_def adapted_retries split: option.split)

lemma restart_params:
  "retries_left (fst (media i (linphone_core_restart_invite env i w))) = retries_left (fst (media i w))"
proof -
  have c: "media i (linphone_call_create_op env i x) = media i x" for x
    by (simp add: linphone_call_create_op_def Let_def media_simps)
  have m: "retries_left (fst (media i (upd i (linphone_call_make_local_media_description env) x))) = retries_left (fst (media i x))" for x
    by (simp add: media_def made_retries)
  show ?thesis
    by (simp add: linphone_core_restart_invite_def linphone_core_start_invite_def Let_def media_simps c m)
qed

text \<open>C26. An outgoing call whose media are refused is tried again only with less than before: without
  AVPF, or without encryption where that is not mandatory.  So it is tried at most three times.\<close>

theorem each_retry_gives_something_up:
  assumes "retry_for env (lc_store w i) = Some r"
    and reason: "reason \<in> {SalReasonUnsupportedContent, SalReasonNotAcceptable}"
    and w': "w' = handle env (Failure i reason) w"
  shows "retries_left (ca_params (lc_store w' i)) < retries_left (ca_params (lc_store w i))
    \<and> (ve_media_encryption_mandatory env \<longrightarrow> r = RetryWithoutAvpf)"
proof -
  have w'r: "w' = linphone_core_restart_invite env i (upd i (give_up r) w)"
    using assms(1) reason by (auto simp: w' call_failure_def)
  have "retries_left (ca_params (lc_store w' i)) = retries_left (ca_params (give_up r (lc_store w i)))"
    using restart_params [of i env "upd i (give_up r) w"] by (simp add: w'r media_def)
  moreover have "ve_media_encryption_mandatory env \<Longrightarrow> r = RetryWithoutAvpf"
    using assms(1) find_retry_gives_up [of "ve_media_encryption_mandatory env" "ca_params (lc_store w i)" 0 _ r]
    by (cases r) (auto simp: retry_for_def split: if_splits option.splits)
  ultimately show ?thesis using retry_gives_up [OF assms(1)] by simp
qed

end
