(* ===== verification/CallTimers.thy ===== *)
theory CallTimers
  imports CallProps
begin

text \<open>
The calls under one turn of the main loop: what \<open>linphone_core_iterate\<close> does to a call depends on
that call alone, and enforces the limits on it.
\<close>

section \<open>A routine on one call leaves the others alone\<close>

definition others :: "nat \<Rightarrow> core \<Rightarrow> core \<Rightarrow> bool" where
  "others j w w' \<longleftrightarrow> (\<forall>i. i \<noteq> j \<longrightarrow> ca_state (lc_store w' i) = ca_state (lc_store w i)
     \<and> ca_audiostream (lc_store w' i) = ca_audiostream (lc_store w i) \<and> (i \<in> set (lc_calls w') \<longleftrightarrow> i \<in> set (lc_calls w)))"

named_theorems others_intro \<open>routines on one call\<close>

lemma others_refl [others_intro]: "others j w w"
  by (simp add: others_def)

lemma others_trans: "others j v w \<Longrightarrow> others j u v \<Longrightarrow> others j u w"
  by (simp add: others_def)

lemma others_upd [others_intro]:
  "others j w v \<Longrightarrow> k = j \<or> (\<forall>c. ca_state (f c) = ca_state c \<and> ca_audiostream (f c) = ca_audiostream c)
     \<Longrightarrow> others j w (upd k f v)"
  by (auto simp: others_def)

lemma others_basic [others_intro]:
  "others j w v \<Longrightarrow> others j w (emit a v)"
  "others j w v \<Longrightarrow> others j w (v\<lparr>lc_current_call := c\<rparr>)" "others j w v \<Longrightarrow> others j w (v\<lparr>lc_ringstream := r\<rparr>)"
  "others j w v \<Longrightarrow> others j w (v\<lparr>lc_dtmf_playing := d\<rparr>)" "others j w v \<Longrightarrow> others j w (v\<lparr>lc_missed_calls := n\<rparr>)"
  "others j w v \<Longrightarrow> others j w (v\<lparr>lc_call_logs := l\<rparr>)" "others j w v \<Longrightarrow> others j w (v\<lparr>lc_calls := remove1 j (lc_calls v)\<rparr>)"
  by (simp_all add: others_def)

lemma others_if [others_intro]:
  "(b \<Longrightarrow> others j w x) \<Longrightarrow> (\<not> b \<Longrightarrow> others j w y) \<Longrightarrow> others j w (if b then x else y)"
  by simp

lemma others_option [others_intro]:
  "(x = None \<Longrightarrow> others j w y) \<Longrightarrow> (\<And>a. x = Some a \<Longrightarrow> others j w (f a)) \<Longrightarrow> others j w (case x of None \<Rightarrow> y | Some a \<Rightarrow> f a)"
  by (cases x) simp_all

lemma others_let: "others j w e \<Longrightarrow> (\<And>v. others j w v \<Longrightarrow> others j w (f v)) \<Longrightarrow> others j w (Let e f)"
  by (simp add: Let_def)

lemma others_let_value: "(\<And>x. others j w (f x)) \<Longrightarrow> others j w (Let e f)"
  by (simp add: Let_def)

lemma others_pair: "others j w (fst p) \<Longrightarrow> (\<And>v x. others j w v \<Longrightarrow> others j w (f v x))
    \<Longrightarrow> others j w (case p of (v, x) \<Rightarrow> f v x)"
  by (cases p) simp

lemmas others_chain = others_let others_pair others_let_value

lemma others_sound [others_intro]:
  "others j w v \<Longrightarrow> others j w (notify_soundcard_usage env b v)"
  "others j w v \<Longrightarrow> others j w (linphone_core_soundcard_hint_check env v)"
  "others j w v \<Longrightarrow> others j w (linphone_core_stop_dtmf v)"
  "others j w v \<Longrightarrow> others j w (stop_beep k v)"
  unfolding notify_soundcard_usage_def linphone_core_soundcard_hint_check_def linphone_core_stop_dtmf_def stop_beep_def
  by (intro others_chain others_intro; (assumption | simp))+

lemma others_ring [others_intro]:
  "others j w v \<Longrightarrow> others j w (linphone_core_stop_ringing v)"
  "others j w v \<Longrightarrow> others j w (linphone_core_stop_dtmf_stream v)"
  unfolding linphone_core_stop_ringing_def linphone_core_stop_dtmf_stream_def
  by (intro others_chain others_intro; (assumption | simp))+

lemma others_end [others_intro]:
  "others j w v \<Longrightarrow> others j w (linphone_call_stop_media_streams j v)"
  "others j w v \<Longrightarrow> others j w (linphone_call_free_media_resources j v)"
  "others j w v \<Longrightarrow> others j w (linphone_call_log_completed env j v)"
  "others j w v \<Longrightarrow> others j w (linphone_core_del_call j v)"
  "others j w v \<Longrightarrow> others j w (linphone_call_set_terminated env j v)"
  "others j w v \<Longrightarrow> others j w (linphone_call_set_released env j v)"
  "others j w v \<Longrightarrow> others j w (enter_state env j s v)"
  unfolding linphone_call_stop_media_streams_def linphone_call_free_media_resources_def linphone_call_log_completed_def
    linphone_core_del_call_def linphone_call_set_terminated_def linphone_call_set_released_def enter_state_def
  by (intro others_chain others_intro; (assumption | simp))+

lemma others_set_state [others_intro]: "others j w v \<Longrightarrow> others j w (linphone_call_set_state env j s v)"
  unfolding linphone_call_set_state_def
  by (intro others_chain others_intro; (assumption | simp))+

lemma others_fst [others_intro]:
  "others j w v \<Longrightarrow> others j w (fst (v, x))"
  "(b \<Longrightarrow> others j w (fst y)) \<Longrightarrow> (\<not> b \<Longrightarrow> others j w (fst z)) \<Longrightarrow> others j w (fst (if b then y else z))"
  by simp_all

lemma others_terminate [others_intro]:
  "others j w v \<Longrightarrow> others j w (terminate_call env j v)"
  unfolding terminate_call_def by (intro others_chain others_intro; (assumption | simp))+

lemma others_decline [others_intro]:
  "others j w v \<Longrightarrow> others j w (fst (linphone_core_decline_call env j r v))"
  unfolding linphone_core_decline_call_def by (intro others_chain others_intro; (assumption | simp))+

lemma others_terminate_one [others_intro]:
  "others j w v \<Longrightarrow> others j w (fst (terminate_one env j v))"
  unfolding terminate_one_def
  by (cases "ca_state (lc_store v j)"; simp only: call_state.case; (intro others_chain others_intro; (assumption | simp))+)

lemma others_start_invite [others_intro]:
  "others j w v \<Longrightarrow> others j w (linphone_core_start_invite env j v)"
  unfolding linphone_core_start_invite_def by (intro others_chain others_intro; (assumption | simp))+

lemma others_turn:
  "others j w (linphone_call_background_tasks env t j w)" "others j w (start_delayed_call env t j w)"
  "others j w (decline_overdue_call env t j w)" "others j w (end_overlong_call env t j w)"
  unfolding linphone_call_background_tasks_def linphone_core_disconnected_def start_delayed_call_def
    decline_overdue_call_def end_overlong_call_def linphone_core_terminate_call_def option.case
  by (intro others_chain others_intro; (assumption | simp add: others_intro))+

lemma others_iterate_call: "others j w (iterate_call env t j w)"
  unfolding iterate_call_def by (meson others_trans others_turn)

lemma others_fold:
  assumes "i \<notin> set is"
  shows "ca_state (lc_store (fold (iterate_call env t) is w) i) = ca_state (lc_store w i)
    \<and> ca_audiostream (lc_store (fold (iterate_call env t) is w) i) = ca_audiostream (lc_store w i)
    \<and> (i \<in> set (lc_calls (fold (iterate_call env t) is w)) \<longleftrightarrow> i \<in> set (lc_calls w))"
  using assms
proof (induction "is" arbitrary: w)
  case (Cons j "is")
  then have "i \<noteq> j" by simp
  with others_iterate_call [of j w env t] Cons show ?case by (simp add: others_def)
qed simp

section \<open>What a turn does to a call\<close>

definition lost :: "turn \<Rightarrow> nat \<Rightarrow> call \<Rightarrow> bool" where
  "lost t i c \<longleftrightarrow> ca_state c = LinphoneCallStreamsRunning \<and> tu_one_second_elapsed t
     \<and> ca_audiostream c = Some MSStreamStarted \<and> tu_nortp_timeout t > 0 \<and> \<not> tu_stream_alive t i"

definition waited_too_long :: "turn \<Rightarrow> nat \<Rightarrow> call \<Rightarrow> bool" where
  "waited_too_long t i c \<longleftrightarrow> ca_state c = LinphoneCallOutgoingInit \<and> tu_elapsed t i \<ge> tu_delayed_timeout t"

definition rang_too_long :: "turn \<Rightarrow> nat \<Rightarrow> call \<Rightarrow> bool" where
  "rang_too_long t i c \<longleftrightarrow> ca_state c \<in> {LinphoneCallIncomingReceived, LinphoneCallIncomingEarlyMedia}
     \<and> tu_elapsed t i > tu_inc_timeout t"

definition lasted_too_long :: "turn \<Rightarrow> nat \<Rightarrow> bool" where
  "lasted_too_long t i \<longleftrightarrow> tu_in_call_timeout t > 0 \<and> (\<exists>s. tu_connected t i = Some s \<and> s > tu_in_call_timeout t)"

text \<open>The parts of a turn, on the abstraction.\<close>

lemma ctl_turn:
  "ctl (linphone_call_background_tasks env t i w) =
     (if lost t i (lc_store w i) then move i LinphoneCallEnd (ctl w) else ctl w)"
  "ctl (start_delayed_call env t i w) =
     (if waited_too_long t i (lc_store w i)
      then move i (if ve_invite_result env i < 0 then LinphoneCallError else LinphoneCallOutgoingProgress) (ctl w) else ctl w)"
  "ctl (decline_overdue_call env t i w) =
     (if rang_too_long t i (lc_store w i) then move i LinphoneCallEnd (ctl w) else ctl w)"
  "ctl (end_overlong_call env t i w) =
     (if lasted_too_long t i \<and> ca_state (lc_store w i) \<notin> {LinphoneCallReleased, LinphoneCallEnd}
      then move i LinphoneCallEnd (ctl w) else ctl w)"
  by (auto simp: linphone_call_background_tasks_def linphone_core_disconnected_def lost_def start_delayed_call_def
      waited_too_long_def decline_overdue_call_def rang_too_long_def end_overlong_call_def lasted_too_long_def
      linphone_core_terminate_call_def linphone_core_decline_call_def ctl_terminate_one ctl_start_invite ctl_terminate
      ctl_simps keep_simps keeps_def Let_def split: option.splits)

lemma own_turn:
  assumes ok: "ctl_ok N (ctl w)" and i: "i \<in> set (lc_calls w)" and w': "w' = iterate_call env t i w" and c: "c = lc_store w i"
  shows "lost t i c \<or> rang_too_long t i c \<or> lasted_too_long t i \<and> \<not> waited_too_long t i c
      \<Longrightarrow> ca_state (lc_store w' i) = LinphoneCallEnd \<and> i \<notin> set (lc_calls w')"
    and "waited_too_long t i c
      \<Longrightarrow> ca_state (lc_store w' i) \<in> {LinphoneCallOutgoingProgress, LinphoneCallError, LinphoneCallEnd}"
    and "\<not> (lost t i c \<or> waited_too_long t i c \<or> rang_too_long t i c \<or> lasted_too_long t i)
      \<Longrightarrow> ca_state (lc_store w' i) = ca_state c \<and> i \<in> set (lc_calls w')"
proof -
  define w1 where "w1 = linphone_call_background_tasks env t i w"
  define w2 where "w2 = start_delayed_call env t i w1"
  define w3 where "w3 = decline_overdue_call env t i w2"
  have w'': "w' = end_overlong_call env t i w3" by (simp add: w' iterate_call_def w1_def w2_def w3_def)
  have alive: "\<not> call_over (ca_state c)" "ca_state c \<noteq> LinphoneCallReleased" "ca_state c \<noteq> LinphoneCallEnd"
    using ctl_okD(4) [OF ok, of i] i by (auto simp: c call_dead_def)
  have once: "i \<notin> set (remove1 i (lc_calls w))" using ctl_okD(1) [OF ok] by simp
  have state: "ca_state (lc_store x i) = a_state (ctl x) i" "lc_calls x = a_calls (ctl x)" for x by simp_all
  have s1: "ca_state (lc_store w1 i) = (if lost t i c then LinphoneCallEnd else ca_state c)"
      "lc_calls w1 = (if lost t i c then remove1 i (lc_calls w) else lc_calls w)"
    unfolding w1_def state ctl_turn c [symmetric] using alive by (simp_all add: move_state move_calls c)
  have q1: "waited_too_long t i (lc_store w1 i) \<longleftrightarrow> waited_too_long t i c"
    using s1 by (auto simp: waited_too_long_def lost_def)
  define r where "r = (if ve_invite_result env i < 0 then LinphoneCallError else LinphoneCallOutgoingProgress)"
  have r: "r \<noteq> LinphoneCallRefered" by (simp add: r_def)
  have s2: "ca_state (lc_store w2 i) = (if lost t i c then LinphoneCallEnd else if waited_too_long t i c then r else ca_state c)"
      "lc_calls w2 = (if lost t i c \<or> waited_too_long t i c \<and> call_over r then remove1 i (lc_calls w) else lc_calls w)"
    unfolding w2_def state ctl_turn r_def [symmetric] q1
    using alive s1 r by (auto simp: move_state move_calls lost_def waited_too_long_def)
  have q2: "rang_too_long t i (lc_store w2 i) \<longleftrightarrow> rang_too_long t i c"
    using s2 by (auto simp: rang_too_long_def lost_def waited_too_long_def r_def)
  have s3: "ca_state (lc_store w3 i) = (if lost t i c \<or> rang_too_long t i c then LinphoneCallEnd
        else if waited_too_long t i c then r else ca_state c)"
      "lc_calls w3 = (if lost t i c \<or> rang_too_long t i c \<or> waited_too_long t i c \<and> call_over r
        then remove1 i (lc_calls w) else lc_calls w)"
    unfolding w3_def state ctl_turn q2
    using alive s2 by (auto simp: move_state move_calls lost_def waited_too_long_def rang_too_long_def)
  have s4: "ca_state (lc_store w' i) = (if lasted_too_long t i \<and> ca_state (lc_store w3 i) \<notin> {LinphoneCallReleased, LinphoneCallEnd}
        \<and> \<not> call_over (ca_state (lc_store w3 i)) then LinphoneCallEnd else ca_state (lc_store w3 i))"
      "lc_calls w' = (if lasted_too_long t i \<and> ca_state (lc_store w3 i) \<notin> {LinphoneCallReleased, LinphoneCallEnd}
        \<and> \<not> call_over (ca_state (lc_store w3 i)) then remove1 i (lc_calls w3) else lc_calls w3)"
    unfolding w'' state ctl_turn by (simp_all add: move_state move_calls)
  show "ca_state (lc_store w' i) = LinphoneCallEnd \<and> i \<notin> set (lc_calls w')"
    if "lost t i c \<or> rang_too_long t i c \<or> lasted_too_long t i \<and> \<not> waited_too_long t i c"
    using that alive once unfolding s4 s3 by (auto simp: call_over_def)
  show "ca_state (lc_store w' i) \<in> {LinphoneCallOutgoingProgress, LinphoneCallError, LinphoneCallEnd}"
    if "waited_too_long t i c"
    using that alive unfolding s4 s3 by (auto simp: r_def)
  show "ca_state (lc_store w' i) = ca_state c \<and> i \<in> set (lc_calls w')"
    if "\<not> (lost t i c \<or> waited_too_long t i c \<or> rang_too_long t i c \<or> lasted_too_long t i)"
    using that i unfolding s4 s3 by simp
qed

text \<open>C9. One turn of the main loop enforces the limits on every call and touches no other: an incoming
  call that rang too long, a running one whose media have stopped and one that lasted too long have
  ended and are no longer listed; an outgoing one that waited too long for the reply to its first
  message has been started, or has failed; every other call is listed in the state it had.\<close>

theorem turn_enforces_limits:
  assumes "core_reachable N w" and i: "i \<in> set (lc_calls w)" and w': "w' = handle env (Iterate t) w"
    and c: "c = lc_store w i"
  shows "if lost t i c \<or> rang_too_long t i c \<or> lasted_too_long t i \<and> \<not> waited_too_long t i c
      then ca_state (lc_store w' i) = LinphoneCallEnd \<and> i \<notin> set (lc_calls w')
    else if waited_too_long t i c
      then ca_state (lc_store w' i) \<in> {LinphoneCallOutgoingProgress, LinphoneCallError, LinphoneCallEnd}
    else ca_state (lc_store w' i) = ca_state c \<and> i \<in> set (lc_calls w')"
proof -
  have ok: "ctl_ok N (ctl w)" using assms(1) reachable_ok by blast
  obtain xs ys where split: "lc_calls w = xs @ i # ys" "i \<notin> set xs" using split_list_first [OF i] by blast
  have ys: "i \<notin> set ys" using ctl_okD(1) [OF ok] split by simp
  define v where "v = fold (iterate_call env t) xs w"
  have w'': "w' = fold (iterate_call env t) ys (iterate_call env t i v)"
    by (simp add: w' iterate_calls_def split v_def)
  have "runs N {} w v"
    unfolding v_def using split(1)
    by (intro runs_fold ballI listed_usable [OF ok] runs_iterate_call runs_refl) auto
  then have v_ok: "ctl_ok N (ctl v)" using ok by (simp add: runs_def evolves_ok)
  have v: "ca_state (lc_store v i) = ca_state c" "ca_audiostream (lc_store v i) = ca_audiostream c" "i \<in> set (lc_calls v)"
    using others_fold [OF split(2), of env t w] i by (simp_all add: v_def c)
  have same: "lost t i (lc_store v i) = lost t i c" "rang_too_long t i (lc_store v i) = rang_too_long t i c"
      "waited_too_long t i (lc_store v i) = waited_too_long t i c"
    using v by (simp_all add: lost_def rang_too_long_def waited_too_long_def)
  note own = own_turn [OF v_ok v(3) refl refl, of t env, unfolded same v(1)]
  show ?thesis using own others_fold [OF ys, of env t "iterate_call env t i v"] unfolding w'' by auto
qed

end
