(* ===== verification/CallExample.thy ===== *)
theory CallExample
  imports CallMedia CallTimers
begin

text \<open>
  A small configuration, with one codec and two calls at most, and a conversation in it: the
  application invites, the other side rings and answers.
\<close>

definition ex_pcmu8 :: payload_type where
  "ex_pcmu8 = \<lparr>pt_type = 0, pt_mime_type = Some ''PCMU'', pt_clock_rate = 8000, pt_channels = 1, pt_normal_bitrate = 64000,
     pt_recv_fmtp = None, pt_send_fmtp = None, pt_number = 0, pt_flags = {FLAG_ENABLED},
     pt_avpf = \<lparr>avpf_features = 0, avpf_rpsi_compatibility = False, avpf_trr_interval = 0\<rparr>\<rparr>"

definition ex_event_pt :: payload_type where
  "ex_event_pt = ex_pcmu8\<lparr>pt_mime_type := Some ''telephone-event'', pt_number := 101\<rparr>"

definition ex_local_env :: local_env where
  "ex_local_env = \<lparr>ce_usable_for_bandwidth = (\<lambda>_ _. True), ce_check_usability = (\<lambda>_. True), ce_dyn_pt = 96,
     ce_telephone_event_pt = 101, ce_generic_confort_noise = False, ce_payload_type_telephone_event = ex_event_pt,
     ce_payload_type_cn = ex_pcmu8, ce_audio_codecs = [ex_pcmu8], ce_video_codecs = [],
     le_audio_multicast_ttl = 1, le_video_multicast_ttl = 1, le_activate_edge_workarounds = 0,
     le_edge_ping_time = 500, le_edge_bw = 20, le_edge_ptime = 100, le_identity_username = None,
     le_rand_session_id = 7, le_rand_session_ver = 3, le_local_ip = (\<lambda>_. ''10.0.0.1''),
     le_download_bandwidth = 0, le_download_ptime = 0, le_rtp_ssrc = (\<lambda>_. 1), le_me = ''sip:a'',
     le_keep_srtp_keys = True, le_srtp_crypto_suites = [2], le_suites_30 = [2], le_suites_46 = [],
     le_b64_crypto_key = (\<lambda>_ _ _. Some ''key''), le_rtcp_xr_enabled = False, le_rtcp_xr_rcvr_rtt_mode = [],
     le_rtcp_xr_rcvr_rtt_max_size = 0, le_rtcp_xr_stat_summary_enabled = False,
     le_rtcp_xr_voip_metrics_enabled = False, le_RcvrRttNone = 0, le_RcvrRttAll = 1, le_RcvrRttSender = 2,
     le_StatSummaryAll = 7, le_ice = (\<lambda>md. md), le_is_multicast = (\<lambda>_. False)\<rparr>"

definition ex_call_env :: call_env where
  "ex_call_env = \<lparr>ve_local = ex_local_env,
     ve_api = \<lparr>api_fmtp_get_value = (\<lambda>_ _ _. None), api_append_fmtp = (\<lambda>_ f. f), api_is_multicast = (\<lambda>_. False)\<rparr>,
     ve_is_ipv6 = (\<lambda>_. False), ve_max_calls = 2, ve_max_call_logs = 15, ve_use_files = False, ve_rtp_input = False,
     ve_slow_capture_card = False, ve_ring_sndcard = True, ve_local_ring = True, ve_play_sndcard = True,
     ve_remote_ring = True, ve_ring_during_early_media = False, ve_remote_ringback_tone = False,
     ve_upload_bandwidth = 0, ve_media_encryption_mandatory = False,
     ve_media_encryption = LinphoneMediaEncryptionNone, ve_sdp_200_ack = False, ve_ping_with_options = False,
     ve_use_ice = False, ve_keep_sdp_version = False, ve_defer_update_default = False,
     ve_inactive_video_on_pause = False, ve_incoming_calls_early_media = False,
     ve_auto_answer_replacing_calls = True, ve_video_automatically_accept = False, ve_video_enabled = False,
     ve_audio_multicast_addr = [], ve_video_multicast_addr = [], ve_default_params = linphone_call_params_new,
     ve_random_port = (\<lambda>_. 0), ve_audio_port_range = (7078, 7078), ve_video_port_range = (9078, 9078),
     ve_init_streams = (\<lambda>_. (Some MSStreamInitialized, None)),
     ve_start_streams = (\<lambda>_. (Some MSStreamStarted, None)), ve_started_video = (\<lambda>_. False),
     ve_prepare_ice = (\<lambda>_ _. (False, 0)), ve_ice_kept = (\<lambda>_. False), ve_losing_pairs = (\<lambda>_. False),
     ve_candidates_gathered = (\<lambda>_. False), ve_invite_result = (\<lambda>_. 0), ve_update_result = (\<lambda>_. 0),
     ve_sal_op_idle = (\<lambda>_. True), ve_sal_error_reason = (\<lambda>_. SalReasonNone), ve_replaces = (\<lambda>_. None),
     ve_remote_contact = (\<lambda>_. None), ve_interpret_url = (\<lambda>url. Some url), ve_has_dest_proxy = (\<lambda>_. True),
     ve_avpf_enabled = (\<lambda>_. False), ve_avpf_rr_interval = (\<lambda>_. 5), ve_cnx_ip_to_0000_if_sendonly = False,
     ve_one_matching_codec = False, ve_dtls_supported = False, ve_srtp_supported = True, ve_stun = None\<rparr>"

text \<open>The answer of the other side.\<close>

definition ex_remote_answer :: sal_media_description where
  "ex_remote_answer = sal_media_description_new\<lparr>md_nb_streams := 1, md_addr := ''10.0.0.2'',
     md_streams := stream_zero\<lparr>sd_rtp_addr := ''10.0.0.2'', sd_rtp_port := 5000, sd_payloads := [ex_pcmu8]\<rparr>
       # replicate 7 stream_zero\<rparr>"

definition ex_invite :: event where
  "ex_invite = Invite ''sip:b'' linphone_call_params_new"

definition ex_called :: core where
  "ex_called = handle ex_call_env ex_invite core_init"

section \<open>A call out\<close>

lemma ex_allowed:
  assumes "\<forall>i \<in> subjects ev. usable i (ctl w)" "timely ev w"
  shows "core_step 2 w (handle ex_call_env ev w)"
proof (rule core_step.event)
  show "allowed 2 ex_call_env ev w"
    unfolding allowed_def using assms by (simp add: ex_call_env_def replaced_def)
qed

lemma ex_called_ctl: "ctl ex_called =
    move 0 LinphoneCallOutgoingProgress (move 0 LinphoneCallOutgoingInit ((create True (ctl core_init))\<lparr>a_current := Some 0\<rparr>))"
proof -
  have "lc_next core_init = 0" by (simp add: core_init_def)
  then show ?thesis
    using ctl_invite [of core_init ex_call_env "''sip:b''" linphone_call_params_new]
    by (simp add: ex_called_def ex_invite_def linphone_core_invite_with_params_def split_beta ex_call_env_def core_init_def)
qed

lemma ex_called_reachable: "core_reachable 2 ex_called"
  unfolding ex_called_def
  by (rule core_reachable.step [OF core_reachable.init ex_allowed]) (simp_all add: ex_invite_def)

lemma ex_called_view: "lc_calls ex_called = [0]" "lc_next ex_called = 1" "lc_current_call ex_called = Some 0"
  "ca_state (lc_store ex_called 0) = LinphoneCallOutgoingProgress"
proof -
  have "a_calls (ctl ex_called) = [0]" "a_next (ctl ex_called) = 1" "a_current (ctl ex_called) = Some 0"
      "a_state (ctl ex_called) 0 = LinphoneCallOutgoingProgress"
    unfolding ex_called_ctl by (simp_all add: move_calls move_state move_current create_def core_init_def)
  then show "lc_calls ex_called = [0]" "lc_next ex_called = 1" "lc_current_call ex_called = Some 0"
    "ca_state (lc_store ex_called 0) = LinphoneCallOutgoingProgress" by simp_all
qed

text \<open>The application hangs up.\<close>

definition ex_ended :: core where
  "ex_ended = handle ex_call_env (Terminate (Some 0)) ex_called"

lemma ex_ended_ctl: "ctl ex_ended = move 0 LinphoneCallEnd (ctl ex_called)"
  by (simp add: ex_ended_def linphone_core_terminate_call_def ctl_terminate_one ex_called_view)

lemma ex_ended_view: "ca_state (lc_store ex_ended 0) = LinphoneCallEnd" "lc_next ex_ended = 1"
proof -
  have "a_state (ctl ex_ended) 0 = LinphoneCallEnd" "a_next (ctl ex_ended) = 1"
    unfolding ex_ended_ctl by (simp_all add: move_state ex_called_view)
  then show "ca_state (lc_store ex_ended 0) = LinphoneCallEnd" "lc_next ex_ended = 1" by simp_all
qed

lemma ex_ended_reachable: "core_reachable 2 ex_ended"
  unfolding ex_ended_def
  by (rule core_reachable.step [OF ex_called_reachable ex_allowed]) (simp_all add: usable_def ex_called_view)

section \<open>Witnesses on reachable cores\<close>



lemma listeners_know_the_state_witness:
  "last (LinphoneCallIdle # announced_of 0 (lc_trace ex_ended)) = LinphoneCallEnd"
  using listeners_know_the_state [OF ex_ended_reachable, of 0] by (simp add: ex_ended_view)

lemma ended_calls_stay_ended_witness:
  "ca_state (lc_store (handle ex_call_env (Terminate (Some 0)) ex_ended) 0) \<in> {LinphoneCallEnd, LinphoneCallReleased}"
proof -
  have "core_step 2 ex_ended (handle ex_call_env (Terminate (Some 0)) ex_ended)"
    by (rule ex_allowed) (simp_all add: usable_def ex_ended_view)
  from ended_calls_stay_ended [OF ex_ended_reachable this, of 0] show ?thesis by (auto simp: ex_ended_view)
qed

lemma invite_outcome_witness:
  "lc_calls (handle ex_call_env (Invite ''sip:b'' linphone_call_params_new) core_init) = [0]"
  using invite_outcome [OF core_reachable.init [of 2], of ex_call_env "''sip:b''" "''sip:b''"
      "handle ex_call_env (Invite ''sip:b'' linphone_call_params_new) core_init" linphone_call_params_new]
  by (simp add: ex_call_env_def core_init_def)



section \<open>A call in\<close>

definition ex_incoming_event :: event where
  "ex_incoming_event = Incoming None None ''sip:b'' None"

definition ex_incoming :: core where
  "ex_incoming = handle ex_call_env ex_incoming_event core_init"

lemma ex_incoming_reachable: "core_reachable 2 ex_incoming"
  unfolding ex_incoming_def
  by (rule core_reachable.step [OF core_reachable.init ex_allowed]) (simp_all add: ex_incoming_event_def)

lemma ctl_notify_incoming:
  assumes "lc_calls w = [i]" "ca_state (lc_store w i) = LinphoneCallIdle"
    "\<not> ve_incoming_calls_early_media env" "ve_replaces env i = None"
  shows "ctl (linphone_core_notify_incoming_call env i w) = move i LinphoneCallIncomingReceived ((ctl w)\<lparr>a_current := Some i\<rparr>)"
proof -
  define v where "v = (let
      v = w\<lparr>lc_current_call := Some i\<rparr>;
      v = (if lc_ringstream v \<and> lc_dtmf_playing v then linphone_core_stop_dtmf_stream v else v)
    in if ve_ring_sndcard env \<and> \<not> lc_ringstream v \<and> ve_local_ring env
       then emit LocalRing (v\<lparr>lc_ringstream := True\<rparr>) else v)"
  have v: "ctl v = (ctl w)\<lparr>a_current := Some i\<rparr>" by (simp add: v_def Let_def ctl_set_current ctl_simps)
  have "a_state (move i LinphoneCallIncomingReceived (ctl v)) i = LinphoneCallIncomingReceived"
    using assms(2) by (simp add: v move_state)
  then have s: "ca_state (lc_store (linphone_call_set_state env i LinphoneCallIncomingReceived v) i) = LinphoneCallIncomingReceived"
    by (simp only: state_set_state)
  have one: "length (lc_calls w) = 1" using assms(1) by simp
  show ?thesis
    unfolding linphone_core_notify_incoming_call_def if_P [OF one] v_def [symmetric] Let_def [of v] Let_def [of "linphone_call_set_state _ _ _ _"]
      if_P [OF s]
    using assms(3,4) by (simp add: Let_def ctl_set_state v ctl_simps)
qed

text \<open>Without SDP there is no final description.\<close>

definition no_media :: "call \<Rightarrow> bool" where
  "no_media c \<longleftrightarrow> remote_media c = None \<and> op_final c = None"

lemma no_media_keeps:
  "no_media c \<Longrightarrow> no_media (set_streams av c)" "no_media c \<Longrightarrow> no_media (run_stun_tests ex_call_env c)"
  "no_media c \<Longrightarrow> no_media (linphone_call_make_local_media_description env c)"
  "no_media c \<Longrightarrow> no_media (set_local c)" "no_media c \<Longrightarrow> no_media (get_final env c)"
  by (auto simp: no_media_def remote_media_def op_final_def set_streams_def run_stun_tests_def ex_call_env_def
      linphone_call_make_local_media_description_def linphone_call_make_local_media_description_with_params_def
      unshare_def Let_def set_local_def get_final_def with_op_def sal_call_set_local_media_description_def
      sal_call_get_final_media_description_def split: option.splits)

lemma no_media_incoming:
  "no_media (linphone_call_new_incoming env w to (fst (process_sdp_for_invite None (sal_op_new env'))))"
  by (simp add: no_media_def linphone_call_new_incoming_def linphone_call_init_common_def call_zero_def Let_def
      offered_parameters_def remote_media_def op_final_def process_sdp_for_invite_def sal_op_new_def
      sal_media_description_new_def split: prod.split)

lemma ex_incoming_ctl: "ctl ex_incoming = move 0 LinphoneCallIncomingReceived ((create True (ctl core_init))\<lparr>a_current := Some 0\<rparr>)"
proof -
  let ?env = ex_call_env and ?w = core_init
  let ?h = "fst (process_sdp_for_invite None (sal_op_new ex_call_env))"
  have n: "lc_next ?w = 0" "lc_calls ?w = []" by (simp_all add: core_init_def)
  have e: "ve_use_ice ?env = False" "ve_max_calls ?env = 2" "ve_incoming_calls_early_media ?env = False"
      "ve_replaces ?env 0 = None"
    by (simp_all add: ex_call_env_def)
  define b where "b = fst (alloc (linphone_call_new_incoming ?env ?w ''sip:b'' ?h) ?w)"
  have b: "ctl b = create False (ctl ?w)" unfolding b_def by (rule ctl_alloc) simp_all
  have allocated: "alloc (linphone_call_new_incoming ?env ?w ''sip:b'' ?h) ?w = (b, 0)"
    by (simp add: b_def alloc_def n)
  have bm: "no_media (lc_store b 0)" by (simp add: b_def alloc_def n no_media_incoming)
  define c where "c = ask_final ?env 0 (upd 0 set_local (upd 0 (linphone_call_make_local_media_description ?env)
      (new_incoming_resources ?env 0 b)))"
  have c: "ctl c = create False (ctl ?w)" by (simp add: c_def ctl_simps keep_simps runs_resources b)
  have "no_media (lc_store c 0)"
    using bm by (simp add: c_def ask_final_def new_incoming_resources_def e Let_def linphone_call_init_media_streams_def
        no_media_keeps)
  then have f: "final_of 0 c = None" by (simp add: final_of_def no_media_def)
  have can: "linphone_core_can_we_add_call ?env c" "linphone_core_can_we_add_call ?env ?w"
    using arg_cong [OF c, of a_calls] by (simp_all add: linphone_core_can_we_add_call_def e n)
  define x where "x = fst (linphone_core_add_call ?env 0 c)"
  have x: "ctl x = create True (ctl ?w)" unfolding x_def using ctl_add_call [OF c can(1)] by (simp add: n)
  have "ex_incoming = linphone_core_notify_incoming_call ?env 0 x"
    by (simp add: ex_incoming_def ex_incoming_event_def call_received_def can(2) allocated Let_def c_def [symmetric]
        f x_def [symmetric] e)
  moreover have "lc_calls x = [0]" "ca_state (lc_store x 0) = LinphoneCallIdle"
    using arg_cong [OF x, of a_calls] arg_cong [OF x, of "\<lambda>a. a_state a 0"] by (simp_all add: n create_def)
  ultimately show ?thesis using ctl_notify_incoming [of x 0 ?env] e by (simp add: x)
qed

lemma ex_incoming_view: "lc_next ex_incoming = 1" "lc_calls ex_incoming = [0]"
  "ca_state (lc_store ex_incoming 0) = LinphoneCallIncomingReceived"
proof -
  have "a_next (ctl ex_incoming) = 1" "a_calls (ctl ex_incoming) = [0]"
      "a_state (ctl ex_incoming) 0 = LinphoneCallIncomingReceived"
    unfolding ex_incoming_ctl by (simp_all add: move_calls move_state create_def core_init_def)
  then show "lc_next ex_incoming = 1" "lc_calls ex_incoming = [0]"
    "ca_state (lc_store ex_incoming 0) = LinphoneCallIncomingReceived" by simp_all
qed

lemma accept_takes_over_witness:
  "lc_current_call (handle ex_call_env (Accept (Some 0) None) ex_incoming) = Some 0"
proof -
  have "allowed 2 ex_call_env (Accept (Some 0) None) ex_incoming"
    unfolding allowed_def using ex_incoming_view by (simp add: ex_call_env_def replaced_def usable_def)
  from accept_takes_over [OF ex_incoming_reachable this _ HOL.refl] show ?thesis by (simp add: ex_incoming_view)
qed

definition ex_turn :: turn where
  "ex_turn = \<lparr>tu_one_second_elapsed = True, tu_elapsed = (\<lambda>_. 31), tu_connected = (\<lambda>_. None), tu_stream_alive = (\<lambda>_. True),
     tu_nortp_timeout = 30, tu_delayed_timeout = 4, tu_inc_timeout = 30, tu_in_call_timeout = 0\<rparr>"

lemma turn_enforces_limits_witness: "ca_state (lc_store (handle ex_call_env (Iterate ex_turn) ex_incoming) 0) = LinphoneCallEnd"
  using turn_enforces_limits [OF ex_incoming_reachable, of 0 _ ex_call_env ex_turn, OF _ HOL.refl HOL.refl]
  by (simp add: ex_incoming_view rang_too_long_def ex_turn_def)

section \<open>Single calls\<close>

text \<open>A core with one call.\<close>

definition ex_core :: "call \<Rightarrow> core" where
  "ex_core c = core_init\<lparr>lc_store := (\<lambda>_. c), lc_next := 1, lc_calls := [0], lc_current_call := Some 0\<rparr>"

definition ex_call :: call where
  "ex_call = call_zero LinphoneCallOutgoing ''sip:b''"

lemma ex_core_simps [simp]: "lc_store (ex_core c) i = c" "lc_calls (ex_core c) = [0]" "lc_current_call (ex_core c) = Some 0"
  by (simp_all add: ex_core_def)

definition ex_running :: call where
  "ex_running = ex_call\<lparr>ca_state := LinphoneCallStreamsRunning, ca_resultdesc := Some ex_remote_answer\<rparr>"

lemma ex_running_pausable: "pausable ex_running"
proof -
  have "pause_subject ex_running \<noteq> None" by code_simp
  then show ?thesis by (simp add: pausable_def ex_running_def)
qed

lemma ex_paused: "ca_state (lc_store (handle ex_call_env (Pause 0) (ex_core ex_running)) 0) = LinphoneCallPausing"
proof -
  have "ctl (handle ex_call_env (Pause 0) (ex_core ex_running)) = move 0 LinphoneCallPausing ((ctl (ex_core ex_running))\<lparr>a_current := None\<rparr>)"
    by (simp add: linphone_core_pause_call_def split_beta ctl_simps keep_simps ctl_pause_internal ex_running_pausable)
  then have "a_state (ctl (handle ex_call_env (Pause 0) (ex_core ex_running))) 0 = LinphoneCallPausing"
    by (simp add: move_state ex_running_def)
  then show ?thesis by simp
qed


lemma refused_pause_loses_current_call_witness:
  "lc_current_call (handle ex_call_env (Failure 0 SalReasonBusy) (handle ex_call_env (Pause 0) (ex_core ex_running))) = None"
  using refused_pause_loses_current_call [OF HOL.refl HOL.refl, of "ex_core ex_running" 0 ex_call_env ex_call_env SalReasonBusy]
    ex_paused
  by (simp add: ex_running_def)

lemma transfer_request_loses_previous_state_witness:
  "ca_state (lc_store (handle ex_call_env (Failure 0 SalReasonBusy)
     (handle (ex_call_env\<lparr>ve_interpret_url := (\<lambda>_. None)\<rparr>) (ReferTo (Some 0) ''sip:c'')
       (ex_core (ex_call\<lparr>ca_state := LinphoneCallPausing, ca_prevstate := LinphoneCallStreamsRunning\<rparr>)))) 0)
     = LinphoneCallPausing"
  using transfer_request_loses_previous_state [of "ex_core (ex_call\<lparr>ca_state := LinphoneCallPausing,
      ca_prevstate := LinphoneCallStreamsRunning\<rparr>)" 0 "ex_call_env\<lparr>ve_interpret_url := (\<lambda>_. None)\<rparr>" "''sip:c''",
      OF _ _ HOL.refl HOL.refl, of ex_call_env SalReasonBusy]
  by simp

definition ex_progress :: call where
  "ex_progress = ex_call\<lparr>ca_state := LinphoneCallOutgoingProgress, ca_prevstate := LinphoneCallOutgoingInit\<rparr>"

lemma release_without_end_stays_listed_witness:
  "0 \<in> set (lc_calls (handle ex_call_env (ReleasedByStack 0)
     (handle ex_call_env (Failure 0 SalReasonRequestPending) (ex_core ex_progress))))"
  using release_without_end_stays_listed [of 0 "ex_core ex_progress", OF _ _ _ HOL.refl HOL.refl, of ex_call_env ex_call_env]
  by (simp add: ex_progress_def)

lemma unusable_answer_ends_call_witness:
  "ca_state (lc_store (handle ex_call_env (Answered 0 None) (ex_core (ex_progress\<lparr>ca_op := Some (sal_op_new ex_call_env)\<rparr>))) 0)
     = LinphoneCallError"
proof -
  have "usable_final ex_call_env (op_final (get_final ex_call_env (with_op (handle_sdp_from_response ex_call_env None)
      (ex_progress\<lparr>ca_op := Some (sal_op_new ex_call_env)\<rparr>)))) = None"
    by (simp add: usable_final_def op_final_def get_final_def with_op_def Let_def sal_op_new_def
        handle_sdp_from_response_def sal_call_get_final_media_description_def)
  with unusable_answer_ends_call [of "ex_core (ex_progress\<lparr>ca_op := Some (sal_op_new ex_call_env)\<rparr>)" 0 ex_call_env None, OF _ _ HOL.refl]
  show ?thesis by (simp add: ex_progress_def)
qed

text \<open>An operation that has sent the local description as an offer.\<close>

definition ex_offering :: call_op where
  "ex_offering = (sal_op_new ex_call_env)\<lparr>co_has_local := True, co_sal := (co_sal (sal_op_new ex_call_env))\<lparr>
     op_local_media := ex_remote_answer\<lparr>md_addr := ''10.0.0.1''\<rparr>, op_sdp_offering := True\<rparr>\<rparr>"

definition ex_answered :: "sal_media_description option" where
  "ex_answered = usable_final ex_call_env (op_final (get_final ex_call_env (with_op
     (handle_sdp_from_response ex_call_env (Some ex_remote_answer)) (ex_progress\<lparr>ca_op := Some ex_offering\<rparr>))))"

lemma ex_answered: "ex_answered \<noteq> None" "\<not> pauses (the ex_answered)"
  by code_simp+

lemma answered_call_runs_negotiated_media_witness:
  "ca_resultdesc (lc_store (handle ex_call_env (Answered 0 (Some ex_remote_answer))
     (ex_core (ex_progress\<lparr>ca_op := Some ex_offering\<rparr>))) 0) = ex_answered"
proof -
  obtain md where md: "ex_answered = Some md" using ex_answered(1) by blast
  then show ?thesis
    using answered_call_runs_negotiated_media [of "ex_core (ex_progress\<lparr>ca_op := Some ex_offering\<rparr>)" 0 ex_call_env
        "Some ex_remote_answer" md, OF _ _ _ HOL.refl] ex_answered(2)
    by (simp add: ex_answered_def ex_progress_def)
qed

definition ex_strict_env :: call_env where
  "ex_strict_env = ex_call_env\<lparr>ve_media_encryption_mandatory := True, ve_media_encryption := LinphoneMediaEncryptionSRTP\<rparr>"

definition ex_waiting :: call where
  "ex_waiting = ex_call\<lparr>ca_state := LinphoneCallConnected, ca_expect_media_in_ack := True,
     ca_op := Some (ex_offering\<lparr>co_sal := (co_sal ex_offering)\<lparr>op_remote_media := Some ex_remote_answer,
       op_result := Some ex_remote_answer\<rparr>\<rparr>)\<rparr>"

lemma acknowledged_media_not_checked_witness:
  "ca_state (lc_store (call_ack ex_strict_env 0 (ex_core ex_waiting)) 0) = LinphoneCallStreamsRunning"
proof -
  have "op_final (get_final ex_strict_env ex_waiting) = Some ex_remote_answer"
    by (simp add: ex_waiting_def op_final_def get_final_def with_op_def Let_def sal_call_get_final_media_description_def)
  moreover have "\<not> sal_media_description_empty ex_remote_answer" by code_simp
  moreover have "\<not> sal_media_description_has_srtp ex_remote_answer" by code_simp
  then have "linphone_core_incompatible_security ex_strict_env ex_remote_answer"
    by (simp add: linphone_core_incompatible_security_def ex_strict_env_def)
  ultimately show ?thesis
    using acknowledged_media_not_checked [of "ex_core ex_waiting" 0 ex_strict_env ex_remote_answer]
    by (simp add: ex_waiting_def)
qed

definition ex_avpf :: call where
  "ex_avpf = ex_progress\<lparr>ca_params := linphone_call_params_new\<lparr>cp_avpf_enabled := True\<rparr>, ca_localdesc := Some ex_remote_answer\<rparr>"

lemma each_retry_gives_something_up_witness:
  "retries_left (ca_params (lc_store (handle ex_call_env (Failure 0 SalReasonNotAcceptable) (ex_core ex_avpf)) 0)) = 0"
proof -
  have "retry_for ex_call_env ex_avpf = Some RetryWithoutAvpf" by code_simp
  moreover have "retries_left (ca_params ex_avpf) = 1"
    by (simp add: ex_avpf_def retries_left_def linphone_call_params_new_def)
  ultimately show ?thesis
    using each_retry_gives_something_up [of ex_call_env "ex_core ex_avpf" 0 RetryWithoutAvpf SalReasonNotAcceptable, OF _ _ HOL.refl]
    by simp
qed

end
