(* ===== verification/Spec2Isabelle.thy ===== *)
theory Spec2Isabelle
  imports OfferWitnesses SalProps LpRoundTrip ProxyStore ProxyRegister PhoneProps AuthStore
    PayloadProps MediaPorts EventProps FriendProps PresenceInfo AccountRuns CallLogProps ChatExample CallExample
begin

text \<open>
\section*{liblinphone, the call engine of ace-ios}

The iOS application in this repository (\<open>src/Classes\<close>) is a user interface over liblinphone
(\<open>src/coreapi\<close>), a SIP user agent written in C.  This development models the parts of the
library that decide something: which calls there are and in what state, which media a call
negotiates, under which payload numbers and ports, which account and credentials a request uses,
who is told of whose presence, and how all of that is kept in the configuration file.

\<^bold>\<open>How the parts interact.\<close>  The application calls operations of the core
(\<open>linphonecore.c\<close>); the signalling layer (\<open>bellesip_sal/\<close>) reports events through
callbacks (\<open>callbacks.c\<close>).  Both change calls (\<open>linphonecall.c\<close>) through
\<open>linphone_call_set_state\<close>.  A call owns a signalling operation, which holds a local, a remote
and a resulting media description; the offer/answer engine (\<open>offeranswer.c\<close>) computes the
last from the others, and the core starts, changes or stops the streams accordingly.  Accounts
(\<open>proxy.c\<close>) and credentials (\<open>authentication.c\<close>) own operations of their own.  The
configuration store (\<open>lpconfig.c\<close>) keeps them between runs.

\<^bold>\<open>Theories.\<close>  \<open>LinPrelude\<close> holds C strings, number conversions and updates through
pointers into lists.

\<^item> Media: \<open>SalModel\<close> and \<open>SalQueries\<close> (\<open>sal.h\<close>, \<open>sal.c\<close>: the
  descriptions and the queries on them; \<open>SalProps\<close>), \<open>OfferAnswer\<close>
  (\<open>offeranswer.c\<close>, all of it; \<open>OfferAnswerProps\<close>, \<open>AnswerProps\<close>,
  \<open>OfferWitnesses\<close>), \<open>SdpProcess\<close> (\<open>sdp_process\<close> of \<open>sal_op_call.c\<close>).
\<^item> Offers: \<open>PayloadNumbers\<close> (payload type numbers, telephone events and codec lists of
  \<open>linphonecall.c\<close>; \<open>PayloadProps\<close>), \<open>LocalMedia\<close> (the description offered for a
  call), \<open>MediaPorts\<close> (choice of ports).
\<^item> Calls: \<open>CallModel\<close> (the structures of a call, its parameters and its operation),
  \<open>CallCore\<close> (the core, the descriptions of an operation, streams), \<open>CallState\<close>
  (\<open>linphone_call_set_state\<close> and what it triggers), \<open>CallControl\<close> and
  \<open>CallAnswer\<close> (the operations of \<open>linphonecore.c\<close>), \<open>CallEvents\<close> (the callbacks),
  \<open>Reasons\<close> (reasons for ending a call and SIP status codes).
\<^item> Correctness of calls: \<open>CallAbs\<close> forgets everything of the core but the states, the list of
  calls, the current call and the trace of announcements; \<open>CallMachine\<close> is the abstract machine
  on that, with its invariant; \<open>CallRuns\<close> composes sequences of elementary changes;
  \<open>CallInv\<close> shows that every routine is such a sequence; \<open>CallSteps\<close> has the events, the
  reachable states and the invariants of all of them; \<open>CallProps\<close> and \<open>CallMedia\<close> the
  behaviour of single operations; \<open>CallTimers\<close> one turn of the main loop;
  \<open>CallExample\<close> a concrete core.
\<^item> Store: \<open>LpConfig\<close>, \<open>LpAssign\<close>, \<open>LpFiles\<close> (\<open>lpconfig.c\<close>: parsing, typed
  access and assignment, saving; \<open>LpConfigProps\<close>, \<open>LpRoundTrip\<close>).
\<^item> Accounts: \<open>ProxyConfig\<close> (the record and its edition), \<open>ProxyStore\<close>,
  \<open>ProxyRegister\<close> (registration and the operations held); \<open>PhoneNumbers\<close>,
  \<open>PhoneProps\<close> (dial plans and normalisation); \<open>Authentication\<close>, \<open>AuthProps\<close>,
  \<open>AuthStore\<close>; \<open>Accounts\<close> (the list of accounts of \<open>proxy.c\<close> and
  \<open>linphonecore.c\<close>, the default one, those waiting for their unregistration, the network and the
  answers of the registrars), \<open>AccountProps\<close> (what holds in every reachable state of accounts
  and friends), \<open>AccountStore\<close> (the stored list), \<open>AccountRuns\<close> (a network that comes
  back, a registration that subscribes friends).
\<^item> Presence: \<open>Presence\<close> (\<open>presence.c\<close>: services, persons, activities and notes), \<open>Friends\<close>
  (\<open>friend.c\<close> and the subscriptions of \<open>presence.c\<close>, with the account of a destination),
  \<open>FriendStore\<close> (the stored friends), \<open>FriendProps\<close> (the subscriptions held in reachable
  states), \<open>PresenceInfo\<close> (the status of this side and the calls it refuses).
\<^item> Events: \<open>EventApi\<close> (\<open>event.c\<close> and its callbacks: subscriptions and publications of events),
  \<open>EventProps\<close> (their references and operations).
\<^item> Call logs: \<open>CallLogs\<close> (\<open>call_log.c\<close>, the end of a call in \<open>linphonecall.c\<close>: the
  history, its bound, its storage), \<open>CallLogProps\<close> (what it keeps and how it survives a restart).
\<^item> Chat: \<open>ChatModel\<close> (\<open>chat.c\<close>: rooms and messages, their references),
  \<open>ChatStorage\<close> (\<open>message_storage.c\<close>: rows, updates, counts and pages of the history),
  \<open>ChatOps\<close> (\<open>chat.c\<close>, \<open>sal_op_message.c\<close> and the callbacks on messages: sending,
  answers, receiving, notices of typing, file transfers), \<open>ChatProps\<close> (typing in reachable states,
  where messages are lost), \<open>ChatHistory\<close> (pages of the history, with what is assumed of SQLite),
  \<open>ChatRuns\<close> (the life of a message), \<open>ChatExample\<close> (a concrete room and data base).

\<^bold>\<open>State and operations.\<close>  Structures of the C code are records with its field names behind
a short prefix; pointers to calls are indices into the store of calls of the record
\<open>core\<close>, which is never reused, so a dangling pointer would be an index whose call is
released.  A routine that changes the core takes and returns it; the calls it makes to the
application and to the layers below are appended to its trace.  Everything outside the repository
(the SIP stack, the media library, sound cards, the clock, random numbers, DNS) is a field of an
environment record that the operations take as their first argument and that may differ from one
step to the next.

\<^bold>\<open>What the theorems show.\<close>  For calls: the core refines the abstract machine, so in every
reachable state the list of calls is exact and bounded, the listeners know the state of every call,
calls that are over stay so and are logged once; single operations have the outcome they promise
(inviting, accepting, terminating, refused changes, retries, answers with and without usable media).
For media: what an offer is answered with, which payloads, keys, directions and roles both sides
end up with, that numbers and ports are unambiguous.  For the store: parsing gives a well-formed
store, saving and reopening gives the same store, assignments refine a function update, accounts
and credentials survive a restart.  For accounts: operations neither leak nor dangle, an update
registers, phone numbers have one normal form.  For presence and events: operations and events are
held exactly as long as they are needed, friends are subscribed to when their account is registered,
the status set is the one read, shown and applied to calls.  For call logs: the history keeps the
newest calls and survives a restart.  For chat: a message that is sent settles, with its row, its
references and what the application is told; pages of the history are exact; notices of typing end.

\<^bold>\<open>Bounds and fuel.\<close>  Every loop of the modelled code is structural
or has a measure (the two port searches by the offset and the number of tries, the search of a
dynamic payload number by the distance to 127, the search of a calling code by the digits left),
but for the reading of friends, accounts and call logs, whose fuel is the number of sections tried:
one more than those that were written is enough.
A media description has eight streams and a stream sixteen candidates, as in \<open>sal.h\<close>.
C strings are lists of characters without NUL; \<open>strncpy\<close> cuts them at the size of the buffer.

\<^bold>\<open>Not modelled.\<close>  SIP transactions and dialogs, transports, SDP text and XML documents (belle-sip
and libxml2 are not in the repository); audio and video processing, ICE, STUN, DTLS, ZRTP and UPnP
beyond the decisions taken on their outcome; conferences; the encryption of messages
and the chunks of transferred files; provisioning;
the accessors of the core; the user interfaces, bindings and tests.
\<close>

end
